(* ===== verification/Prelude.thy ===== *)
theory Prelude
  imports Complex_Main "HOL-Library.AList" "HOL-Library.List_Lexorder" "HOL-Library.Char_ord"
    "HOL-Library.Multiset" "HOL-Library.Sublist"
begin

text \<open>
  What every component shares: the shape of a Python call that may raise after it has already
  changed its object's state (\<^verbatim>\<open>op\<close>), calls that only compute (\<^verbatim>\<open>'e + 'a\<close>), Python's ordered
  dictionaries as association lists, and the rules that carry state invariants through a sequence
  of calls. Python's \<^verbatim>\<open>str\<close> is \<^typ>\<open>string\<close>, its \<^verbatim>\<open>int\<close> is \<^typ>\<open>int\<close> or \<^typ>\<open>nat\<close>, its \<^verbatim>\<open>float\<close> and \<^verbatim>\<open>Decimal\<close>
  are the exact rationals \<^typ>\<open>rat\<close> (no rounding is modelled).
\<close>

named_theorems op_defs \<open>definitions of the state-and-exception combinators\<close>
named_theorems keeps_intros \<open>invariants through the combinators\<close>

type_synonym bytes_text = string
type_synonym pyfloat = rat

section \<open>Calls that raise and change state\<close>

text \<open>A call from state \<open>s\<close> ends in a value or an exception, and in a state either way: what was
  assigned before a \<^verbatim>\<open>raise\<close> stays assigned.\<close>

type_synonym ('e, 's, 'a) op = "'s \<Rightarrow> ('e + 'a) \<times> 's"

definition op_return :: "'a \<Rightarrow> ('e, 's, 'a) op" where
  [op_defs]: "op_return x = (\<lambda>s. (Inr x, s))"

definition op_raise :: "'e \<Rightarrow> ('e, 's, 'a) op" where
  [op_defs]: "op_raise e = (\<lambda>s. (Inl e, s))"

definition op_gets :: "('s \<Rightarrow> 'a) \<Rightarrow> ('e, 's, 'a) op" where
  [op_defs]: "op_gets f = (\<lambda>s. (Inr (f s), s))"

definition op_modify :: "('s \<Rightarrow> 's) \<Rightarrow> ('e, 's, unit) op" where
  [op_defs]: "op_modify f = (\<lambda>s. (Inr (), f s))"

definition op_lift :: "'e + 'a \<Rightarrow> ('e, 's, 'a) op" where
  [op_defs]: "op_lift r = (\<lambda>s. (r, s))"

definition op_bind :: "('e, 's, 'a) op \<Rightarrow> ('a \<Rightarrow> ('e, 's, 'b) op) \<Rightarrow> ('e, 's, 'b) op" where
  [op_defs]: "op_bind m k = (\<lambda>s. case m s of (Inl e, s') \<Rightarrow> (Inl e, s') | (Inr x, s') \<Rightarrow> k x s')"

definition op_then :: "('e, 's, 'a) op \<Rightarrow> ('e, 's, 'b) op \<Rightarrow> ('e, 's, 'b) op" where
  [op_defs]: "op_then m k = op_bind m (\<lambda>_. k)"

text \<open>\<^verbatim>\<open>try: m except e if handles(e): h(e)\<close>\<close>

definition op_except ::
  "('e, 's, 'a) op \<Rightarrow> ('e \<Rightarrow> bool) \<Rightarrow> ('e \<Rightarrow> ('e, 's, 'a) op) \<Rightarrow> ('e, 's, 'a) op" where
  [op_defs]: "op_except m handles h =
     (\<lambda>s. case m s of (Inl e, s') \<Rightarrow> if handles e then h e s' else (Inl e, s')
                    | (Inr x, s') \<Rightarrow> (Inr x, s'))"

text \<open>A call on an object held inside a larger state.\<close>

definition op_zoom ::
  "('s \<Rightarrow> 't) \<Rightarrow> ('t \<Rightarrow> 's \<Rightarrow> 's) \<Rightarrow> ('e, 't, 'a) op \<Rightarrow> ('e, 's, 'a) op" where
  [op_defs]: "op_zoom get put m = (\<lambda>s. case m (get s) of (r, t) \<Rightarrow> (r, put t s))"

text \<open>\<^verbatim>\<open>for x in xs: body(x)\<close>\<close>

fun op_for :: "'x list \<Rightarrow> ('x \<Rightarrow> ('e, 's, unit) op) \<Rightarrow> ('e, 's, unit) op" where
  "op_for [] body = op_return ()"
| "op_for (x # xs) body = op_then (body x) (op_for xs body)"

section \<open>Computations that only raise\<close>

definition res_bind :: "'e + 'a \<Rightarrow> ('a \<Rightarrow> 'e + 'b) \<Rightarrow> 'e + 'b" where
  "res_bind r k = (case r of Inl e \<Rightarrow> Inl e | Inr x \<Rightarrow> k x)"

lemma res_bind_simps [simp]: "res_bind (Inl e) k = Inl e" "res_bind (Inr x) k = k x"
  by (simp_all add: res_bind_def)

lemma res_bind_Inr: "res_bind r k = Inr y \<longleftrightarrow> (\<exists>x. r = Inr x \<and> k x = Inr y)"
  by (cases r) auto

text \<open>\<^verbatim>\<open>[f(x) for x in xs]\<close>, stopped by the first element that raises.\<close>

fun res_map :: "('a \<Rightarrow> 'e + 'b) \<Rightarrow> 'a list \<Rightarrow> 'e + 'b list" where
  "res_map f [] = Inr []"
| "res_map f (x # xs) = res_bind (f x) (\<lambda>y. res_bind (res_map f xs) (\<lambda>ys. Inr (y # ys)))"

lemma res_map_map: "\<forall>x \<in> set xs. f (g x) = Inr (h x) \<Longrightarrow> res_map f (map g xs) = Inr (map h xs)"
  by (induction xs) auto

lemma res_map_length: "res_map f xs = Inr ys \<Longrightarrow> length ys = length xs"
  by (induction xs arbitrary: ys) (auto simp: res_bind_Inr)

section \<open>Invariants of calls\<close>

definition keeps :: "('s \<Rightarrow> bool) \<Rightarrow> ('e, 's, 'a) op \<Rightarrow> bool" where
  "keeps P m \<longleftrightarrow> (\<forall>s. P s \<longrightarrow> P (snd (m s)))"

lemma keepsI: "(\<And>s. P s \<Longrightarrow> P (snd (m s))) \<Longrightarrow> keeps P m"
  by (simp add: keeps_def)

lemma keepsD: "keeps P m \<Longrightarrow> P s \<Longrightarrow> P (snd (m s))"
  by (simp add: keeps_def)

lemma keeps_return [keeps_intros]: "keeps P (op_return x)"
  by (simp add: keeps_def op_return_def)

lemma keeps_raise [keeps_intros]: "keeps P (op_raise e)"
  by (simp add: keeps_def op_raise_def)

lemma keeps_gets [keeps_intros]: "keeps P (op_gets f)"
  by (simp add: keeps_def op_gets_def)

lemma keeps_lift [keeps_intros]: "keeps P (op_lift r)"
  by (simp add: keeps_def op_lift_def)

lemma keeps_modify [keeps_intros]: "(\<And>s. P s \<Longrightarrow> P (f s)) \<Longrightarrow> keeps P (op_modify f)"
  by (simp add: keeps_def op_modify_def)

lemma keeps_bind [keeps_intros]: "keeps P m \<Longrightarrow> (\<And>x. keeps P (k x)) \<Longrightarrow> keeps P (op_bind m k)"
  by (fastforce simp: keeps_def op_bind_def split: prod.splits sum.splits)

lemma keeps_then [keeps_intros]: "keeps P m \<Longrightarrow> keeps P k \<Longrightarrow> keeps P (op_then m k)"
  by (simp add: op_then_def keeps_bind)

lemma keeps_except [keeps_intros]:
  "keeps P m \<Longrightarrow> (\<And>e. keeps P (h e)) \<Longrightarrow> keeps P (op_except m c h)"
  by (fastforce simp: keeps_def op_except_def split: prod.splits sum.splits)

lemma keeps_for [keeps_intros]: "(\<And>x. keeps P (body x)) \<Longrightarrow> keeps P (op_for xs body)"
  by (induction xs) (simp_all add: keeps_return keeps_then)

section \<open>Reachable states of a machine driven by commands\<close>

text \<open>Every run of an object is a list of method calls, whose exceptions the caller may catch: the
  state goes on from what the failing call left.\<close>

fun run_calls :: "('c \<Rightarrow> 's \<Rightarrow> 's) \<Rightarrow> 'c list \<Rightarrow> 's \<Rightarrow> 's" where
  "run_calls step [] s = s"
| "run_calls step (c # cs) s = run_calls step cs (step c s)"

lemma run_calls_append: "run_calls step (cs @ ds) s = run_calls step ds (run_calls step cs s)"
  by (induction cs arbitrary: s) auto

lemma run_calls_invariant:
  assumes "P s" and "\<And>c s. P s \<Longrightarrow> P (step c s)"
  shows "P (run_calls step cs s)"
  using assms(1) by (induction cs arbitrary: s) (auto intro: assms(2))

section \<open>Append-only logs\<close>

text \<open>The contract of the code's sinks (\<^verbatim>\<open>TransitionSink\<close>, \<^verbatim>\<open>ExecutionSink\<close>, \<^verbatim>\<open>PointerAuditLog\<close>): \<^verbatim>\<open>append\<close>
  either raises and leaves the log as it was or adds its entry at the end.\<close>

locale append_log =
  fixes append :: "'r \<Rightarrow> ('e, 'l, unit) op"
    and entries :: "'l \<Rightarrow> 'r list"
  assumes append_ok: "append x l = (Inr u, l') \<Longrightarrow> entries l' = entries l @ [x]"
    and append_failed: "append x l = (Inl e, l') \<Longrightarrow> entries l' = entries l"
begin

lemma append_cases:
  "(\<exists>e. fst (append x l) = Inl e \<and> entries (snd (append x l)) = entries l)
   \<or> (fst (append x l) = Inr () \<and> entries (snd (append x l)) = entries l @ [x])"
  by (cases "append x l"; cases "fst (append x l)") (auto dest: append_ok append_failed)

lemma prefix_append: "prefix (entries l) (entries (snd (append x l)))"
  using append_cases [of x l] by auto

lemma for_append_prefix: "prefix (entries l) (entries (snd (op_for xs append l)))"
proof (induction xs arbitrary: l)
  case Nil
  then show ?case by (simp add: op_return_def)
next
  case (Cons x xs)
  show ?case
  proof (cases "append x l")
    case (Pair r l1)
    then have step: "prefix (entries l) (entries l1)" using prefix_append [of l x] by simp
    show ?thesis
      using Pair step Cons.IH [of l1]
      by (cases r) (auto simp: op_then_def op_bind_def intro: prefix_order.trans)
  qed
qed

lemma for_append_all:
  "op_for xs append l = (Inr u, l') \<Longrightarrow> entries l' = entries l @ xs"
proof (induction xs arbitrary: l)
  case Nil
  then show ?case by (simp add: op_return_def)
next
  case (Cons x xs)
  then obtain l1 where "append x l = (Inr (), l1)" "op_for xs append l1 = (Inr u, l')"
    by (auto simp: op_then_def op_bind_def split: prod.splits sum.splits)
  with Cons.IH append_ok [of x l "()" l1] show ?case by simp
qed

end

text \<open>The in-memory log of the code's tests and tools never fails.\<close>

definition mem_append :: "'r \<Rightarrow> ('e, 'r list, unit) op" where
  "mem_append x = (\<lambda>l. (Inr (), l @ [x]))"

interpretation mem_log: append_log mem_append "\<lambda>l. l"
  by unfold_locales (auto simp: mem_append_def)

lemma op_for_mem_append [simp]: "op_for xs mem_append l = (Inr (), l @ xs)"
  by (induction xs arbitrary: l) (auto simp: op_defs mem_append_def)

section \<open>Python dictionaries\<close>

text \<open>A \<^verbatim>\<open>dict\<close> keeps insertion order and one entry per key: an association list with distinct keys,
  read by \<^const>\<open>map_of\<close> and written by \<^const>\<open>AList.update\<close>.\<close>

type_synonym ('k, 'v) dict = "('k \<times> 'v) list"

definition dict_ok :: "('k, 'v) dict \<Rightarrow> bool" where
  "dict_ok d \<longleftrightarrow> distinct (map fst d)"

definition dict_get :: "('k, 'v) dict \<Rightarrow> 'k \<Rightarrow> 'v \<Rightarrow> 'v" where
  "dict_get d k v = (case map_of d k of None \<Rightarrow> v | Some x \<Rightarrow> x)"

lemma map_of_update: "map_of (AList.update k v d) = (map_of d)(k \<mapsto> v)"
  by (rule update_conv')

lemma dict_ok_update [simp, intro]: "dict_ok d \<Longrightarrow> dict_ok (AList.update k v d)"
  by (simp add: dict_ok_def distinct_update)

lemma dict_get_update: "dict_get (AList.update k v d) k' x = (if k' = k then v else dict_get d k' x)"
  by (simp add: dict_get_def map_of_update)

lemma keys_update: "set (map fst (AList.update k v d)) = insert k (set (map fst d))"
  by (simp add: dom_update)

text \<open>\<^verbatim>\<open>dict.fromkeys(xs)\<close>: the first occurrence of each element, in order.\<close>

fun dedupe_acc :: "'a list \<Rightarrow> 'a list \<Rightarrow> 'a list" where
  "dedupe_acc seen [] = []"
| "dedupe_acc seen (x # xs) =
     (if x \<in> set seen then dedupe_acc seen xs else x # dedupe_acc (x # seen) xs)"

definition dedupe :: "'a list \<Rightarrow> 'a list" where
  "dedupe xs = dedupe_acc [] xs"

lemma set_dedupe_acc: "set (dedupe_acc seen xs) = set xs - set seen"
  by (induction seen xs rule: dedupe_acc.induct) auto

lemma distinct_dedupe_acc: "distinct (dedupe_acc seen xs)"
  by (induction seen xs rule: dedupe_acc.induct) (auto simp: set_dedupe_acc)

lemma set_dedupe [simp]: "set (dedupe xs) = set xs"
  by (simp add: dedupe_def set_dedupe_acc)

lemma distinct_dedupe [simp]: "distinct (dedupe xs)"
  by (simp add: dedupe_def distinct_dedupe_acc)

section \<open>Decimal numerals\<close>

text \<open>\<^verbatim>\<open>str(n)\<close> of a non-negative integer.\<close>

fun nat_str :: "nat \<Rightarrow> string" where
  "nat_str n = (if n < 10 then [char_of (48 + n)] else nat_str (n div 10) @ [char_of (48 + n mod 10)])"

declare nat_str.simps [simp del]

definition digits_value :: "string \<Rightarrow> nat" where
  "digits_value s = foldl (\<lambda>a c. 10 * a + (of_char c - 48)) 0 s"

lemma digits_value_nat_str: "digits_value (nat_str n) = n"
proof (induction n rule: nat_str.induct)
  case (1 n)
  then show ?case
    by (cases "n < 10") (auto simp: nat_str.simps [of n] digits_value_def of_char_of take_bit_eq_mod)
qed

lemma nat_str_inject [simp]: "nat_str m = nat_str n \<longleftrightarrow> m = n"
  by (metis digits_value_nat_str)

section \<open>Numbered lists\<close>

text \<open>\<^verbatim>\<open>enumerate(xs)\<close>\<close>

abbreviation enumerate0 :: "'a list \<Rightarrow> (nat \<times> 'a) list" where
  "enumerate0 xs \<equiv> List.enumerate 0 xs"

lemma in_enumerate0: "(i, x) \<in> set (enumerate0 xs) \<longleftrightarrow> i < length xs \<and> xs ! i = x"
  by (auto simp: in_set_enumerate_eq)

lemma all_enumerate0: "(\<forall>(i, x) \<in> set (enumerate0 xs). P x) \<longleftrightarrow> (\<forall>x \<in> set xs. P x)"
proof -
  have "set xs = snd ` set (enumerate0 xs)" by (metis list.set_map map_snd_enumerate)
  then show ?thesis by auto
qed

section \<open>Blank strings\<close>

text \<open>\<^verbatim>\<open>not s.strip()\<close>: nothing but characters Python calls white space (of the first 256).\<close>

definition py_space :: "char \<Rightarrow> bool" where
  "py_space c \<longleftrightarrow> (of_char c :: nat) \<in> set ([9..<14] @ [28..<33] @ [133, 160])"

definition py_blank :: "string \<Rightarrow> bool" where
  "py_blank s \<longleftrightarrow> list_all py_space s"

lemma py_blank_Nil [simp]: "py_blank []"
  by (simp add: py_blank_def)

text \<open>\<^verbatim>\<open>s.strip()\<close>\<close>

definition py_strip :: "string \<Rightarrow> string" where
  "py_strip s = rev (dropWhile py_space (rev (dropWhile py_space s)))"

text \<open>\<^verbatim>\<open>s.removeprefix(p)\<close>\<close>

definition removeprefix :: "string \<Rightarrow> string \<Rightarrow> string" where
  "removeprefix p s = (if take (length p) s = p then drop (length p) s else s)"

lemma removeprefix_append [simp]: "removeprefix p (p @ s) = s"
  by (simp add: removeprefix_def)

section \<open>Floats\<close>

text \<open>A Python \<^verbatim>\<open>float\<close> that may be a NaN or an infinity.\<close>

datatype py_number = Finite rat | Non_Finite

end
