(* ===== verification/Identities.thy ===== *)
theory Identities
  imports Prelude
begin

text \<open>
  Workload identities and the role checks every trust boundary goes through
  (\<^verbatim>\<open>security/identities.py\<close>, \<^verbatim>\<open>security/policy.py\<close>), and the exceptions of all planes
  (\<^verbatim>\<open>release/errors.py\<close>, \<^verbatim>\<open>selection/errors.py\<close>, \<^verbatim>\<open>campaign/errors.py\<close>, of \<^verbatim>\<open>eval/errors.py\<close> those the
  budgets, the statistics, the experiment, its task source and the cascade raise, \<^verbatim>\<open>datasets/errors.py\<close>, \<^verbatim>\<open>lineage/exceptions.py\<close>, \<^verbatim>\<open>registry/errors.py\<close> and
  the errors of \<^verbatim>\<open>tenancy/\<close>, \<^verbatim>\<open>selection/graduation.py\<close>, \<^verbatim>\<open>memory/errors.py\<close> and \<^verbatim>\<open>api/errors.py\<close>). An exception
  carries the attributes its class stores; of a plain message only the leading words that tell one
  refusal from another are kept.
\<close>

section \<open>Roles and identities\<close>

datatype workload_role = EVALUATOR | CANDIDATE_RUNNER | RELEASE_CONTROLLER

record workload_identity =
  wid_role :: workload_role
  wid_subject :: string

section \<open>Exceptions\<close>

datatype security_error = PermissionDeniedError workload_identity string

datatype release_error =
    UnsignedManifestError string
  | NoActiveReleaseError
  | RollbackUnavailableError string
  | SessionPinError string string string
  | UnknownSessionError string string
  | NamespaceViolationError string string string
  | DigestReportingError string string string
  | CanaryIneligibleError "string list" "string list"
  | InvalidCanaryConfigError string

datatype selection_error =
    NominationRuleError string
  | AlreadyFrozenError string string
  | InvalidPromotionPolicyError string
  | TierRejectedError nat string
  | RecursiveClaimDeniedError string
  | CasConflictError "string option" "string option"
  | EvidenceAssemblyError string
  | PointerAuditError string

datatype campaign_error =
    InvalidCampaignSpecError string
  | ScaffoldEnvironmentRefusedError string
  | SpecTamperedError
  | InvalidTransitionError string string "string list"
  | MutationMaskViolationError "string list"
  | CampaignBudgetExceededError string rat rat
  | CampaignCheckpointError string
  | UnexecutedCompensationError string nat string string
  | CompensationPlanTamperedError string
  | CompensationPlanBuildError string
  | ScaffoldRestoreError string
  | ConformanceRerunFailedError string

datatype eval_error =
    UnknownBudgetProfileError string "string list"
  | BudgetExceededError string rat rat
  | StatisticsError string
  | ExperimentDefinitionError string
  | CascadeDefinitionError string
  | TaskSourceError string
  | SealedPartitionError string

text \<open>\<^verbatim>\<open>datasets/errors.py\<close>: why a holdout resolution was refused, and the dataset plane's exceptions.\<close>

datatype denial_reason =
    ROLE_NOT_EVALUATOR | TENANT_MISMATCH | HANDLE_REVOKED | HANDLE_EXPIRED | ALPHA_BUDGET_EXHAUSTED

datatype dataset_error =
    DatasetError string
  | PartitionNotFoundError string
  | HandleNotFoundError string
  | PartitionStorageIdentityError string
  | HoldoutAccessDeniedError denial_reason string

text \<open>\<^verbatim>\<open>tenancy/boundaries.py\<close> and \<^verbatim>\<open>tenancy/errors.py\<close>: a policy document that cannot govern, and an audited
  refusal with its boundary, reason and message.\<close>

datatype refusal_boundary =
    SPEC_CONSTRUCTION | CAMPAIGN_CREATION | CANDIDATE_REGISTRATION | RELEASE_ACTIVATION | RECURSIVE_LABEL
  | AUTO_PROMOTION | RETENTION

datatype tenancy_error =
    TenantPolicyError string
  | TenantRefusalError refusal_boundary string string

text \<open>\<^verbatim>\<open>tenancy/retention.py\<close>, \<^verbatim>\<open>lineage/exceptions.py\<close> with the encryption and backup errors, and
  \<^verbatim>\<open>registry/errors.py\<close>.\<close>

datatype retention_error =
    RetentionPolicyError string
  | UnsignedRetentionPolicyError string string

datatype lineage_error =
    LineageNodeNotFoundError string string
  | PayloadNotFoundError string string
  | PayloadAccessRevokedError string string int
  | PayloadEncryptionNotConfiguredError
  | TombstoneCoverageError string string
  | RestoreRefusedError string

datatype registry_error =
    ArtifactNotFoundError string string
  | DigestMismatchError string string
  | UnsignedActivationError string
  | CircularMetadataError string
  | MixedReleaseActivationError "string list"
  | InvalidStatusEventError string
  | InvalidProposalError string

text \<open>\<^verbatim>\<open>selection/graduation.py\<close>, of \<^verbatim>\<open>api/errors.py\<close> the errors of the approval flows and of the control
  plane, and \<^verbatim>\<open>memory/errors.py\<close>; the promotion report is reduced to the names of the gates that failed.\<close>

datatype graduation_error =
    InvalidRiskDossierError string
  | UnsignedRiskDossierError string string

datatype api_error =
    InvalidSpecError string
  | ProposalNotFoundError string
  | ApprovalRequestNotFoundError string
  | AdmissionRecordNotFoundError string
  | CompensationPlanNotFoundError string
  | ApprovalDeniedError string
  | TierPromotionRefusedError nat
  | CampaignApiError string
  | CampaignNotFoundError string
  | ReleaseNotFoundError string
  | EvidenceNotFoundError string
  | InvalidCampaignTransitionError string
  | ReleaseStateError string
  | RegistrationRefusedError string
  | AnalysisReportNotFoundError string
  | ClaimRefusedError string string
  | ClaimDecisionNotFoundError string

datatype memory_error =
    MemoryNotFoundError string string
  | PromotionBlockedError "string list"
  | SupersessionTargetNotFoundError string string

text \<open>Every exception a modelled call can end in: the planes' own, Python's, and one raised by an
  object the caller passed in.\<close>

datatype exn =
    Security security_error
  | Release release_error
  | Selection selection_error
  | Campaign campaign_error
  | Eval eval_error
  | Dataset dataset_error
  | Tenancy tenancy_error
  | Retention retention_error
  | Lineage lineage_error
  | Registry registry_error
  | Graduation graduation_error
  | Api api_error
  | Memory memory_error
  | TransportError string
  | ValueError string
  | RuntimeError string
  | KeyError string
  | TypeError string
  | AttributeError string
  | Foreign string

section \<open>Role checks\<close>

definition require_role ::
  "workload_identity \<Rightarrow> workload_role list \<Rightarrow> string \<Rightarrow> exn + unit" where
  "require_role identity allowed action =
     (if wid_role identity \<notin> set allowed then Inl (Security (PermissionDeniedError identity action))
      else Inr ())"

definition require_holdout_access :: "workload_identity \<Rightarrow> exn + unit" where
  "require_holdout_access identity = require_role identity [EVALUATOR] ''resolve holdout handles''"

definition require_release_swap_authority :: "workload_identity \<Rightarrow> exn + unit" where
  "require_release_swap_authority identity =
     require_role identity [RELEASE_CONTROLLER] ''compare-and-swap the active release pointer''"

definition require_evaluator_key_access :: "workload_identity \<Rightarrow> exn + unit" where
  "require_evaluator_key_access identity =
     require_role identity [EVALUATOR] ''read evaluator signing keys''"

lemmas role_checks = require_role_def require_holdout_access_def
  require_release_swap_authority_def require_evaluator_key_access_def

text \<open>\<^verbatim>\<open>identity_from_env\<close>: an unset role variable is the least privileged role, an unknown one is
  refused.\<close>

definition role_of_value :: "string \<Rightarrow> workload_role option" where
  "role_of_value v =
     (if v = ''evaluator'' then Some EVALUATOR
      else if v = ''candidate-runner'' then Some CANDIDATE_RUNNER
      else if v = ''release-controller'' then Some RELEASE_CONTROLLER
      else None)"

definition identity_from_env :: "(string \<rightharpoonup> string) \<Rightarrow> exn + workload_identity" where
  "identity_from_env env =
     (let raw_role = (case env ''EVORUNTIME_WORKLOAD_ROLE'' of None \<Rightarrow> ''candidate-runner'' | Some v \<Rightarrow> v);
          subject = (case env ''EVORUNTIME_WORKLOAD_SUBJECT'' of None \<Rightarrow> ''unknown'' | Some v \<Rightarrow> v)
      in case role_of_value raw_role of
           None \<Rightarrow> Inl (ValueError ''EVORUNTIME_WORKLOAD_ROLE is not a recognized workload role'')
         | Some role \<Rightarrow> Inr \<lparr>wid_role = role, wid_subject = subject\<rparr>)"

text \<open>Each boundary admits exactly one role.\<close>

lemma require_release_swap_iff [simp]:
  "require_release_swap_authority w = Inr () \<longleftrightarrow> wid_role w = RELEASE_CONTROLLER"
  by (simp add: role_checks)

lemma require_holdout_iff [simp]:
  "require_holdout_access w = Inr () \<longleftrightarrow> wid_role w = EVALUATOR"
  by (simp add: role_checks)

lemma require_release_swap_Inl:
  "require_release_swap_authority w = Inl e \<longleftrightarrow>
     wid_role w \<noteq> RELEASE_CONTROLLER \<and>
     e = Security (PermissionDeniedError w ''compare-and-swap the active release pointer'')"
  by (auto simp: role_checks)

lemma env_role_default:
  "env ''EVORUNTIME_WORKLOAD_ROLE'' = None \<Longrightarrow> identity_from_env env = Inr w \<Longrightarrow>
     wid_role w = CANDIDATE_RUNNER"
  by (auto simp: identity_from_env_def role_of_value_def Let_def split: if_splits)

end
