(* ===== verification/ReleasePointer.thy ===== *)
theory ReleasePointer
  imports Identities
begin

text \<open>
  The active release pointer and its compare-and-swap (\<^verbatim>\<open>selection/release_pointer.py\<close>). The audit
  log is a protocol in the code, so the store is parametric in it: \<open>app\<close> is the log's \<^verbatim>\<open>append\<close>,
  which may raise. The lemmas show that the pointer is the replay of its own audit log, that only
  the release controller moves it, and that nothing moves it unaudited.
\<close>

section \<open>State\<close>

record release_pointer =
  current_digest :: "string option"
  rp_version :: nat

datatype audit_outcome = Denied | Conflict | Allowed

record pointer_audit_entry =
  actor_subject :: string
  actor_role :: workload_role
  pa_outcome :: audit_outcome
  expected_digest :: "string option"
  new_digest :: string
  pa_detail :: string

record 'l pointer_store =
  audit_log :: 'l
  ps_pointer :: release_pointer

definition init_pointer :: release_pointer where
  "init_pointer = \<lparr>current_digest = None, rp_version = 0\<rparr>"

definition new_store :: "'l \<Rightarrow> 'l pointer_store" where
  "new_store l = \<lparr>audit_log = l, ps_pointer = init_pointer\<rparr>"

section \<open>Operations\<close>

text \<open>\<^verbatim>\<open>_audit\<close>: whatever the log's \<^verbatim>\<open>append\<close> raises surfaces as a \<^const>\<open>PointerAuditError\<close>.\<close>

definition pointer_audit ::
  "(pointer_audit_entry \<Rightarrow> (exn, 'l, unit) op) \<Rightarrow> workload_identity \<Rightarrow> string option \<Rightarrow> string \<Rightarrow>
   audit_outcome \<Rightarrow> string \<Rightarrow> (exn, 'l pointer_store, unit) op" where
  "pointer_audit app identity expected_current new outcome detail =
     op_except
       (op_zoom audit_log (\<lambda>l s. s\<lparr>audit_log := l\<rparr>)
          (app \<lparr>actor_subject = wid_subject identity, actor_role = wid_role identity,
                pa_outcome = outcome, expected_digest = expected_current, new_digest = new,
                pa_detail = detail\<rparr>))
       (\<lambda>_. True)
       (\<lambda>_. op_raise (Selection (PointerAuditError (wid_subject identity))))"

definition compare_and_swap ::
  "(pointer_audit_entry \<Rightarrow> (exn, 'l, unit) op) \<Rightarrow> workload_identity \<Rightarrow> string option \<Rightarrow> string \<Rightarrow>
   (exn, 'l pointer_store, release_pointer) op" where
  "compare_and_swap app identity expected_current new =
     (case require_release_swap_authority identity of
        Inl denied \<Rightarrow>
          op_then (pointer_audit app identity expected_current new Denied ''not permitted'')
                  (op_raise denied)
      | Inr _ \<Rightarrow>
          op_bind (op_gets ps_pointer) (\<lambda>p.
            if current_digest p \<noteq> expected_current then
              op_then (pointer_audit app identity expected_current new Conflict ''pointer is elsewhere'')
                      (op_raise (Selection (CasConflictError expected_current (current_digest p))))
            else
              (let swapped = \<lparr>current_digest = Some new, rp_version = rp_version p + 1\<rparr>
               in op_then (pointer_audit app identity expected_current new Allowed ''pointer moved'')
                    (op_then (op_modify (\<lambda>s. s\<lparr>ps_pointer := swapped\<rparr>))
                       (op_return swapped)))))"

section \<open>What one attempt does\<close>

text \<open>The pointer as the log tells it: every allowed entry moves it to its new digest.\<close>

fun replay_entry :: "release_pointer \<Rightarrow> pointer_audit_entry \<Rightarrow> release_pointer" where
  "replay_entry p e =
     (if pa_outcome e = Allowed
      then \<lparr>current_digest = Some (new_digest e), rp_version = rp_version p + 1\<rparr> else p)"

definition replay :: "release_pointer \<Rightarrow> pointer_audit_entry list \<Rightarrow> release_pointer" where
  "replay p es = foldl replay_entry p es"

text \<open>An allowed entry was written by the release controller and expected the digest the log so far
  says the pointer had.\<close>

fun chained :: "release_pointer \<Rightarrow> pointer_audit_entry list \<Rightarrow> bool" where
  "chained p [] = True"
| "chained p (e # es) =
     ((pa_outcome e = Allowed \<longrightarrow>
         actor_role e = RELEASE_CONTROLLER \<and> expected_digest e = current_digest p)
      \<and> chained (replay_entry p e) es)"

lemma replay_append: "replay p (es @ fs) = replay (replay p es) fs"
  by (simp add: replay_def)

lemma chained_append: "chained p (es @ fs) \<longleftrightarrow> chained p es \<and> chained (replay p es) fs"
  by (induction es arbitrary: p) (auto simp: replay_def)

lemma replay_version: "rp_version (replay p es) = rp_version p + length (filter (\<lambda>e. pa_outcome e = Allowed) es)"
  by (induction es arbitrary: p) (auto simp: replay_def)

text \<open>The store agrees with its log.\<close>

definition audited :: "('l \<Rightarrow> pointer_audit_entry list) \<Rightarrow> 'l pointer_store \<Rightarrow> bool" where
  "audited entries s \<longleftrightarrow>
     ps_pointer s = replay init_pointer (entries (audit_log s))
     \<and> chained init_pointer (entries (audit_log s))"

text \<open>The contract of the code's \<^verbatim>\<open>PointerAuditLog\<close> is an append-only log whose entries and exceptions
  are those of this module.\<close>

locale pointer_log = append_log append entries
  for append :: "pointer_audit_entry \<Rightarrow> (exn, 'l, unit) op"
    and entries :: "'l \<Rightarrow> pointer_audit_entry list"
begin

lemma new_store_audited: "entries l = [] \<Longrightarrow> audited entries (new_store l)"
  by (simp add: audited_def new_store_def replay_def)

lemma audit_cases:
  obtains (failed) s' where
      "pointer_audit append w x n oc d s = (Inl (Selection (PointerAuditError (wid_subject w))), s')"
      "entries (audit_log s') = entries (audit_log s)" "ps_pointer s' = ps_pointer s"
  | (logged) s' where "pointer_audit append w x n oc d s = (Inr (), s')"
      "entries (audit_log s') = entries (audit_log s) @
          [\<lparr>actor_subject = wid_subject w, actor_role = wid_role w, pa_outcome = oc,
            expected_digest = x, new_digest = n, pa_detail = d\<rparr>]"
      "ps_pointer s' = ps_pointer s"
proof (cases "append \<lparr>actor_subject = wid_subject w, actor_role = wid_role w, pa_outcome = oc,
            expected_digest = x, new_digest = n, pa_detail = d\<rparr> (audit_log s)")
  case (Pair r l')
  show thesis
  proof (cases r)
    case (Inl e)
    with Pair show thesis
      by (intro failed [of "s\<lparr>audit_log := l'\<rparr>"])
        (auto simp: pointer_audit_def op_defs dest: append_failed)
  next
    case (Inr u)
    with Pair show thesis
      by (intro logged [of "s\<lparr>audit_log := l'\<rparr>"])
        (auto simp: pointer_audit_def op_defs dest: append_ok)
  qed
qed

lemma cas_cases:
  obtains (unaudited) "fst (compare_and_swap append w x n s) = Inl (Selection (PointerAuditError (wid_subject w)))"
      "entries (audit_log (snd (compare_and_swap append w x n s))) = entries (audit_log s)"
      "ps_pointer (snd (compare_and_swap append w x n s)) = ps_pointer s"
  | (refused) e where "fst (compare_and_swap append w x n s) = Inl e"
      "ps_pointer (snd (compare_and_swap append w x n s)) = ps_pointer s"
      "wid_role w \<noteq> RELEASE_CONTROLLER \<or> current_digest (ps_pointer s) \<noteq> x"
      "\<exists>a. pa_outcome a \<noteq> Allowed \<and> actor_subject a = wid_subject w \<and> new_digest a = n \<and>
           (pa_outcome a = Denied \<longleftrightarrow> wid_role w \<noteq> RELEASE_CONTROLLER) \<and>
           entries (audit_log (snd (compare_and_swap append w x n s))) = entries (audit_log s) @ [a]"
  | (moved) "wid_role w = RELEASE_CONTROLLER" "current_digest (ps_pointer s) = x"
      "fst (compare_and_swap append w x n s) = Inr (ps_pointer (snd (compare_and_swap append w x n s)))"
      "ps_pointer (snd (compare_and_swap append w x n s)) =
         \<lparr>current_digest = Some n, rp_version = rp_version (ps_pointer s) + 1\<rparr>"
      "\<exists>a. pa_outcome a = Allowed \<and> actor_role a = RELEASE_CONTROLLER \<and> expected_digest a = x \<and>
           new_digest a = n \<and> actor_subject a = wid_subject w \<and>
           entries (audit_log (snd (compare_and_swap append w x n s))) = entries (audit_log s) @ [a]"
proof -
  consider (den) "wid_role w \<noteq> RELEASE_CONTROLLER"
    | (con) "wid_role w = RELEASE_CONTROLLER" "current_digest (ps_pointer s) \<noteq> x"
    | (ok) "wid_role w = RELEASE_CONTROLLER" "current_digest (ps_pointer s) = x" by blast
  then show thesis
  proof cases
    case den
    note code = compare_and_swap_def role_checks op_defs Let_def
    show thesis
    proof (rule audit_cases [of w x n Denied "''not permitted''" s], goal_cases)
      case (1 s')
      with den show ?case by (intro unaudited) (auto simp: code)
    next
      case (2 s')
      with den show ?case by (intro refused) (auto simp: code)
    qed
  next
    case con
    note code = compare_and_swap_def role_checks op_defs Let_def
    show thesis
    proof (rule audit_cases [of w x n Conflict "''pointer is elsewhere''" s], goal_cases)
      case (1 s')
      with con show ?case by (intro unaudited) (auto simp: code)
    next
      case (2 s')
      with con show ?case by (intro refused) (auto simp: code)
    qed
  next
    case ok
    note code = compare_and_swap_def role_checks op_defs Let_def
    show thesis
    proof (rule audit_cases [of w x n Allowed "''pointer moved''" s], goal_cases)
      case (1 s')
      with ok show ?case by (intro unaudited) (auto simp: code)
    next
      case (2 s')
      with ok show ?case by (intro moved) (auto simp: code)
    qed
  qed
qed

lemma cas_audited: "audited entries s \<Longrightarrow> audited entries (snd (compare_and_swap append w x n s))"
  by (rule cas_cases [where w = w and x = x and n = n and s = s])
     (auto simp: audited_def replay_append chained_append, auto simp: replay_def)

lemma only_controller_moves:
  "ps_pointer (snd (compare_and_swap append w x n s)) \<noteq> ps_pointer s \<Longrightarrow>
     wid_role w = RELEASE_CONTROLLER \<and> current_digest (ps_pointer s) = x"
  by (rule cas_cases [where w = w and x = x and n = n and s = s]) auto

lemma no_unaudited_move:
  "entries (audit_log (snd (compare_and_swap append w x n s))) = entries (audit_log s) \<Longrightarrow>
     ps_pointer (snd (compare_and_swap append w x n s)) = ps_pointer s"
  by (rule cas_cases [where w = w and x = x and n = n and s = s]) auto

text \<open>Any number of attempts, by anyone.\<close>

lemma attempts_audited:
  assumes "audited entries s"
  shows "audited entries
    (run_calls (\<lambda>(w, x, n) s. snd (compare_and_swap append w x n s)) attempts s)"
  using assms by (rule run_calls_invariant) (auto intro: cas_audited)

end

text \<open>The in-process log of the code.\<close>

abbreviation mem_audit :: "pointer_audit_entry \<Rightarrow> (exn, pointer_audit_entry list, unit) op" where
  "mem_audit \<equiv> mem_append"

interpretation mem_pointer: pointer_log mem_audit "\<lambda>l. l"
  by unfold_locales

lemma mem_audit_eq [simp]:
  "pointer_audit mem_audit w x n oc d s =
     (Inr (), s\<lparr>audit_log := audit_log s @
        [\<lparr>actor_subject = wid_subject w, actor_role = wid_role w, pa_outcome = oc,
          expected_digest = x, new_digest = n, pa_detail = d\<rparr>]\<rparr>)"
  by (simp add: pointer_audit_def op_defs mem_append_def)

text \<open>With that log the compare-and-swap is this function.\<close>

lemma mem_cas_eq:
  "compare_and_swap mem_audit w x n s =
     (if wid_role w \<noteq> RELEASE_CONTROLLER then
        (Inl (Security (PermissionDeniedError w ''compare-and-swap the active release pointer'')),
         snd (pointer_audit mem_audit w x n Denied ''not permitted'' s))
      else if current_digest (ps_pointer s) \<noteq> x then
        (Inl (Selection (CasConflictError x (current_digest (ps_pointer s)))),
         snd (pointer_audit mem_audit w x n Conflict ''pointer is elsewhere'' s))
      else
        (let p = \<lparr>current_digest = Some n, rp_version = rp_version (ps_pointer s) + 1\<rparr> in
         (Inr p, (snd (pointer_audit mem_audit w x n Allowed ''pointer moved'' s))\<lparr>ps_pointer := p\<rparr>)))"
  by (auto simp: compare_and_swap_def role_checks op_defs Let_def)

section \<open>Properties\<close>

text \<open>C4: After any sequence of compare-and-swap attempts by any identities on a fresh store, the active
  pointer (digest and version) is the replay of the audit log, and every allowed entry was written
  by the release controller and expected the digest the log before it leads to.\<close>

theorem pointer_is_replay_of_log:
  "audited (\<lambda>l. l)
     (run_calls (\<lambda>(w, expected, new) s. snd (compare_and_swap mem_audit w expected new s)) attempts (new_store []))"
  by (intro mem_pointer.attempts_audited mem_pointer.new_store_audited) simp

text \<open>With any audit log that either appends an entry or fails leaving its entries as they were, a
  compare-and-swap that moves the pointer was made by the release controller, expected the digest the
  pointer had, and left an entry in the log.\<close>

theorem pointer_moves_audited:
  assumes "pointer_log app entries"
    and "ps_pointer (snd (compare_and_swap app w expected new s)) \<noteq> ps_pointer s"
  shows "wid_role w = RELEASE_CONTROLLER \<and> current_digest (ps_pointer s) = expected
    \<and> entries (audit_log (snd (compare_and_swap app w expected new s))) \<noteq> entries (audit_log s)"
  using pointer_log.only_controller_moves [OF assms]
    pointer_log.no_unaudited_move [OF assms(1), of w expected new s] assms(2) by auto

text \<open>A log that fails on every second append.\<close>

definition flaky_audit :: "pointer_audit_entry \<Rightarrow> (exn, pointer_audit_entry list \<times> bool, unit) op" where
  "flaky_audit e = (\<lambda>(l, up). if up then (Inr (), (l @ [e], False)) else (Inl (Foreign ''log down''), (l, True)))"

interpretation flaky_pointer: pointer_log flaky_audit fst
  by unfold_locales (auto simp: flaky_audit_def split: if_splits)

lemma pointer_moves_audited_witness:
  "wid_role \<lparr>wid_role = RELEASE_CONTROLLER, wid_subject = ''rc''\<rparr> = RELEASE_CONTROLLER
   \<and> fst (audit_log (snd (compare_and_swap flaky_audit \<lparr>wid_role = RELEASE_CONTROLLER, wid_subject = ''rc''\<rparr>
        None ''sha256:a'' (new_store ([], True))))) \<noteq> []"
  using pointer_moves_audited [OF flaky_pointer.pointer_log_axioms,
      of "\<lparr>wid_role = RELEASE_CONTROLLER, wid_subject = ''rc''\<rparr>" None "''sha256:a''" "new_store ([], True)"]
  by (simp add: compare_and_swap_def role_checks pointer_audit_def flaky_audit_def op_defs new_store_def
      init_pointer_def Let_def)

end
