(* ===== verification/Canonical.thy ===== *)
theory Canonical
  imports Prelude
begin

text \<open>
  Canonical bytes, content digests and detached signatures (\<^verbatim>\<open>registry/canonical.py\<close>,
  \<^verbatim>\<open>security/signing.py\<close>). JSON text, SHA-256 and Ed25519 come from outside the repository: they are
  the fields of a \<^verbatim>\<open>crypto\<close> record every definition takes, over an abstract type of byte strings.
  \<^verbatim>\<open>crypto_laws\<close> states their documented behaviour. What the repository decides, which fields a
  body has and which are left out of it, is modelled.
\<close>

section \<open>JSON values\<close>

datatype json =
    JNull
  | JBool bool
  | JInt int
  | JFloat rat
  | JStr string
  | JList "json list"
  | JObj "(string \<times> json) list"

type_synonym json_object = "(string \<times> json) list"

definition json_opt_str :: "string option \<Rightarrow> json" where
  "json_opt_str s = (case s of None \<Rightarrow> JNull | Some x \<Rightarrow> JStr x)"

lemma json_opt_str_inject [simp]: "json_opt_str a = json_opt_str b \<longleftrightarrow> a = b"
  by (auto simp: json_opt_str_def split: option.splits)

text \<open>A Python \<^verbatim>\<open>dict\<close> has one entry per key; \<^verbatim>\<open>json.dumps(..., sort_keys=True)\<close> writes every object with its
  keys in order.\<close>

primrec json_wf :: "json \<Rightarrow> bool" where
  "json_wf JNull = True"
| "json_wf (JBool b) = True"
| "json_wf (JInt i) = True"
| "json_wf (JFloat r) = True"
| "json_wf (JStr s) = True"
| "json_wf (JList xs) = list_all id (map json_wf xs)"
| "json_wf (JObj kvs) =
     (distinct (map fst kvs) \<and> list_all snd (map (map_prod id json_wf) kvs))"

primrec sort_keys :: "json \<Rightarrow> json" where
  "sort_keys JNull = JNull"
| "sort_keys (JBool b) = JBool b"
| "sort_keys (JInt i) = JInt i"
| "sort_keys (JFloat r) = JFloat r"
| "sort_keys (JStr s) = JStr s"
| "sort_keys (JList xs) = JList (map sort_keys xs)"
| "sort_keys (JObj kvs) = JObj (sort_key fst (map (map_prod id sort_keys) kvs))"

lemma map_of_sort_key:
  assumes "distinct (map fst kvs)"
  shows "map_of (sort_key fst kvs) = map_of kvs"
proof (rule map_of_inject_set [THEN iffD2])
  have "mset (map fst (sort_key fst kvs)) = mset (map fst kvs)" by simp
  with assms show "distinct (map fst (sort_key fst kvs))"
    by (metis mset_eq_imp_distinct_iff)
qed (use assms in auto)

lemma map_of_map_prod: "map_of (map (map_prod id f) kvs) k = map_option f (map_of kvs k)"
  by (induction kvs) auto

lemma json_wf_sort_keys: "json_wf j \<Longrightarrow> json_wf (sort_keys j)"
proof (induction j)
  case (JList xs)
  then show ?case by (auto simp: list_all_iff)
next
  case (JObj kvs)
  have "mset (map fst (sort_key fst (map (map_prod id sort_keys) kvs))) = mset (map fst kvs)"
    by (simp add: image_mset.compositionality comp_def)
  with JObj have "distinct (map fst (sort_key fst (map (map_prod id sort_keys) kvs)))"
    by (metis mset_eq_imp_distinct_iff json_wf.simps(7))
  with JObj show ?case by (fastforce simp: list_all_iff)
qed auto

lemma map_insort_key: "\<forall>y. k (f y) = k y \<Longrightarrow> map f (insort_key k x xs) = insort_key k (f x) (map f xs)"
  by (induction xs) auto

lemma map_sort_key: "\<forall>y. k (f y) = k y \<Longrightarrow> map f (sort_key k xs) = sort_key k (map f xs)"
  by (induction xs) (auto simp: map_insort_key)

lemma sort_keys_idem [simp]: "sort_keys (sort_keys j) = sort_keys j"
proof (induction j)
  case (JObj kvs)
  define M where "M = map (map_prod id sort_keys) kvs"
  have fix_M: "map (map_prod id sort_keys) M = M"
    using JObj by (auto simp: M_def)
  have "map (map_prod id sort_keys) (sort_key fst M) = sort_key fst M"
    using map_sort_key [of fst "map_prod id sort_keys" M] fix_M by simp
  then show ?case by (simp add: M_def [symmetric] sort_key_id_if_sorted)
qed auto

text \<open>The fields of an object after a round trip.\<close>

definition sorted_obj :: "json_object \<Rightarrow> json_object" where
  "sorted_obj kvs = sort_key fst (map (map_prod id sort_keys) kvs)"

lemma sort_keys_JObj [simp]: "sort_keys (JObj kvs) = JObj (sorted_obj kvs)"
  by (simp add: sorted_obj_def)

declare sort_keys.simps(7) [simp del]

lemma sorted_obj_idem [simp]: "sorted_obj (sorted_obj kvs) = sorted_obj kvs"
  using sort_keys_idem [of "JObj kvs"] by simp

text \<open>Reading a key does not see the order.\<close>

definition json_get :: "json \<Rightarrow> string \<Rightarrow> json option" where
  "json_get j k = (case j of JObj kvs \<Rightarrow> map_of kvs k | _ \<Rightarrow> None)"

lemma json_get_sort_keys:
  "json_wf j \<Longrightarrow> json_get (sort_keys j) k = map_option sort_keys (json_get j k)"
proof (cases j)
  case (JObj kvs)
  assume "json_wf j"
  with JObj have "distinct (map fst (map (map_prod id sort_keys) kvs))" by (simp add: comp_def)
  from map_of_sort_key [OF this] JObj show ?thesis
    by (simp add: json_get_def sorted_obj_def map_of_map_prod)
qed (simp_all add: json_get_def)

text \<open>Python's truth value of a parsed value.\<close>

fun py_truthy :: "json \<Rightarrow> bool" where
  "py_truthy JNull = False"
| "py_truthy (JBool b) = b"
| "py_truthy (JInt i) = (i \<noteq> 0)"
| "py_truthy (JFloat r) = (r \<noteq> 0)"
| "py_truthy (JStr s) = (s \<noteq> [])"
| "py_truthy (JList xs) = (xs \<noteq> [])"
| "py_truthy (JObj kvs) = (kvs \<noteq> [])"

text \<open>\<^verbatim>\<open>str(v)\<close>: a string is itself; the rendering of any other value is Python's own and is left as the
  parameter \<open>str_of\<close>.\<close>

definition py_str :: "(json \<Rightarrow> string) \<Rightarrow> json \<Rightarrow> string" where
  "py_str str_of j = (case j of JStr s \<Rightarrow> s | _ \<Rightarrow> str_of j)"

lemma py_str_JStr [simp]: "py_str str_of (JStr s) = s"
  by (simp add: py_str_def)

section \<open>The primitives the code imports\<close>

record ('k, 'b) crypto =
  cr_dumps :: "json \<Rightarrow> 'b"
  cr_loads :: "'b \<Rightarrow> json option"
  cr_sha256 :: "'b \<Rightarrow> string"
  cr_length :: "'b \<Rightarrow> nat"
  cr_hex :: "'b \<Rightarrow> string"
  cr_unhex :: "string \<Rightarrow> 'b option"
  cr_sign :: "'k \<Rightarrow> 'b \<Rightarrow> 'b"
  cr_public :: "'k \<Rightarrow> 'b"
  cr_verify :: "'b \<Rightarrow> 'b \<Rightarrow> 'b \<Rightarrow> bool"

text \<open>Documented behaviour: parsing what was serialised gives it back, a signature verifies under its
  key's public half, and the hex form of keys and signatures reads back.\<close>

definition crypto_laws :: "('k, 'b) crypto \<Rightarrow> bool" where
  "crypto_laws C \<longleftrightarrow>
     (\<forall>j. json_wf j \<longrightarrow> cr_loads C (cr_dumps C j) = Some j)
     \<and> (\<forall>k b. cr_verify C (cr_sign C k b) (cr_public C k) b)
     \<and> (\<forall>k b. cr_unhex C (cr_hex C (cr_sign C k b)) = Some (cr_sign C k b))
     \<and> (\<forall>k. cr_unhex C (cr_hex C (cr_public C k)) = Some (cr_public C k))"

lemma crypto_verify [simp]: "crypto_laws C \<Longrightarrow> cr_verify C (cr_sign C k b) (cr_public C k) b"
  unfolding crypto_laws_def by blast

lemma crypto_unhex [simp]:
  "crypto_laws C \<Longrightarrow> cr_unhex C (cr_hex C (cr_sign C k b)) = Some (cr_sign C k b)"
  "crypto_laws C \<Longrightarrow> cr_unhex C (cr_hex C (cr_public C k)) = Some (cr_public C k)"
  unfolding crypto_laws_def by blast+

definition canonical_json :: "('k, 'b) crypto \<Rightarrow> json \<Rightarrow> 'b" where
  "canonical_json C body = cr_dumps C (sort_keys body)"

lemma loads_canonical [simp]:
  "crypto_laws C \<Longrightarrow> json_wf j \<Longrightarrow> cr_loads C (canonical_json C j) = Some (sort_keys j)"
  unfolding crypto_laws_def canonical_json_def by (blast intro: json_wf_sort_keys)

lemma canonical_json_eqD:
  assumes "crypto_laws C" "json_wf i" "json_wf j" "canonical_json C i = canonical_json C j"
  shows "sort_keys i = sort_keys j"
  using assms loads_canonical by (metis option.inject)

text \<open>\<^verbatim>\<open>[0-9a-f]\<close>, the characters of a digest.\<close>

definition hex_digit :: "char \<Rightarrow> bool" where
  "hex_digit c \<longleftrightarrow> c \<in> set ''0123456789abcdef''"

text \<open>Two renderings of one JSON value: they differ in the order of keys only.\<close>

definition same_json :: "json \<Rightarrow> json \<Rightarrow> bool" where
  "same_json i j \<longleftrightarrow> json_wf i \<and> json_wf j \<and> sort_keys i = sort_keys j"

lemma same_json_refl: "json_wf j \<Longrightarrow> same_json j j"
  by (simp add: same_json_def)

lemma same_json_sort_keys: "json_wf j \<Longrightarrow> same_json (sort_keys j) j"
  by (simp add: same_json_def json_wf_sort_keys)

lemma same_json_atoms:
  "same_json i JNull \<longleftrightarrow> i = JNull" "same_json i (JBool b) \<longleftrightarrow> i = JBool b" "same_json i (JInt n) \<longleftrightarrow> i = JInt n"
  "same_json i (JFloat q) \<longleftrightarrow> i = JFloat q" "same_json i (JStr s) \<longleftrightarrow> i = JStr s"
  by (cases i; auto simp: same_json_def)+

lemma same_json_list:
  assumes "same_json i (JList ys)"
  shows "\<exists>xs. i = JList xs \<and> list_all2 same_json xs ys"
proof -
  from assms obtain xs where xs: "i = JList xs" by (cases i) (auto simp: same_json_def)
  with assms have eq: "map sort_keys xs = map sort_keys ys" and wf: "\<forall>x \<in> set xs. json_wf x" "\<forall>y \<in> set ys. json_wf y"
    by (auto simp: same_json_def list_all_iff)
  from eq have len: "length xs = length ys" by (rule map_eq_imp_length_eq)
  have "same_json (xs ! n) (ys ! n)" if "n < length ys" for n
    using wf that len arg_cong [OF eq, of "\<lambda>l. l ! n"] by (simp add: same_json_def)
  with xs len show ?thesis by (simp add: list_all2_conv_all_nth)
qed

lemma same_json_obj:
  assumes "same_json i (JObj kvs)"
  shows "\<exists>xs. i = JObj xs" "rel_option same_json (json_get i k) (map_of kvs k)"
proof -
  from assms show obj: "\<exists>xs. i = JObj xs" by (cases i) (auto simp: same_json_def)
  then obtain xs where xs: "i = JObj xs" ..
  from assms have wf: "json_wf i" "json_wf (JObj kvs)" by (simp_all add: same_json_def)
  have "map_option sort_keys (json_get i k) = map_option sort_keys (json_get (JObj kvs) k)"
    using assms json_get_sort_keys [OF wf(1), of k] json_get_sort_keys [OF wf(2), of k] by (simp add: same_json_def)
  moreover have "json_wf v" if "map_of ys k = Some v" "json_wf (JObj ys)" for ys v
    using that by (auto simp: list_all_iff dest!: map_of_SomeD)
  ultimately show "rel_option same_json (json_get i k) (map_of kvs k)"
    using wf unfolding xs by (cases "map_of xs k"; cases "map_of kvs k") (auto simp: json_get_def same_json_def)
qed

section \<open>Signatures\<close>

record 'b detached_signature =
  ds_signature :: 'b
  ds_public_key :: 'b

definition sign :: "('k, 'b) crypto \<Rightarrow> 'k \<Rightarrow> 'b \<Rightarrow> 'b detached_signature" where
  "sign C private_key payload =
     \<lparr>ds_signature = cr_sign C private_key payload, ds_public_key = cr_public C private_key\<rparr>"

definition verify :: "('k, 'b) crypto \<Rightarrow> 'b detached_signature \<Rightarrow> 'b \<Rightarrow> bool" where
  "verify C detached payload = cr_verify C (ds_signature detached) (ds_public_key detached) payload"

lemma verify_sign [simp]:
  "crypto_laws C \<Longrightarrow>
     verify C \<lparr>ds_signature = ds_signature (sign C k b), ds_public_key = ds_public_key (sign C k b)\<rparr> b"
  by (simp add: verify_def sign_def)

section \<open>Bodies and digests\<close>

definition sha256_digest :: "('k, 'b) crypto \<Rightarrow> 'b \<Rightarrow> string" where
  "sha256_digest C data = ''sha256:'' @ cr_sha256 C data"

definition manifest_body :: "string list \<Rightarrow> json_object \<Rightarrow> json_object \<Rightarrow> json_object \<Rightarrow> string option \<Rightarrow> json" where
  "manifest_body artifact_digests adapter_versions model_routes policies prior_release_digest =
     JObj [(''artifact_digests'', JList (map JStr artifact_digests)),
           (''adapter_versions'', JObj adapter_versions),
           (''model_routes'', JObj model_routes),
           (''policies'', JObj policies),
           (''prior_release_digest'', json_opt_str prior_release_digest)]"

definition manifest_body_bytes ::
  "('k, 'b) crypto \<Rightarrow> string list \<Rightarrow> json_object \<Rightarrow> json_object \<Rightarrow> json_object \<Rightarrow> string option \<Rightarrow> 'b" where
  "manifest_body_bytes C ads avs mrs ps prior = canonical_json C (manifest_body ads avs mrs ps prior)"

definition manifest_digest_for :: "('k, 'b) crypto \<Rightarrow> 'b \<Rightarrow> string" where
  "manifest_digest_for C canonical_bytes = sha256_digest C canonical_bytes"

text \<open>The signed body determines every field of the manifest that is not the signature.\<close>

lemma map_JStr_inject [simp]: "map JStr xs = map JStr ys \<longleftrightarrow> xs = ys"
  by (rule inj_map_eq_map) (auto intro: injI)

lemma map_of_manifest_body:
  "json_get (manifest_body a b c d e) ''artifact_digests'' = Some (JList (map JStr a))"
  "json_get (manifest_body a b c d e) ''adapter_versions'' = Some (JObj b)"
  "json_get (manifest_body a b c d e) ''model_routes'' = Some (JObj c)"
  "json_get (manifest_body a b c d e) ''policies'' = Some (JObj d)"
  "json_get (manifest_body a b c d e) ''prior_release_digest'' = Some (json_opt_str e)"
  by (simp_all add: manifest_body_def json_get_def)

lemma sort_keys_str [simp]:
  "sort_keys (json_opt_str e) = json_opt_str e"
  "sort_keys (JList (map JStr xs)) = JList (map JStr xs)"
  by (auto simp: json_opt_str_def split: option.splits)

lemma manifest_body_bytes_inject:
  assumes "crypto_laws C" "json_wf (manifest_body a b c d e)" "json_wf (manifest_body a' b' c' d' e')"
    and "manifest_body_bytes C a b c d e = manifest_body_bytes C a' b' c' d' e'"
  shows "a = a' \<and> e = e' \<and> sort_keys (JObj b) = sort_keys (JObj b')
    \<and> sort_keys (JObj c) = sort_keys (JObj c') \<and> sort_keys (JObj d) = sort_keys (JObj d')"
proof -
  let ?m = "manifest_body a b c d e" and ?m' = "manifest_body a' b' c' d' e'"
  from assms have "sort_keys ?m = sort_keys ?m'"
    unfolding manifest_body_bytes_def by (rule canonical_json_eqD)
  then have "map_option sort_keys (json_get ?m k) = map_option sort_keys (json_get ?m' k)" for k
    using assms(2,3) json_get_sort_keys by metis
  from this [of "''artifact_digests''"] this [of "''adapter_versions''"] this [of "''model_routes''"]
    this [of "''policies''"] this [of "''prior_release_digest''"]
  show ?thesis by (simp only: map_of_manifest_body option.map option.inject sort_keys_str
        json.inject map_JStr_inject json_opt_str_inject)
qed

section \<open>A concrete instance for evaluation\<close>

text \<open>Byte strings are JSON values, a key is a name, a signature is the name with a mark. It satisfies
  the laws, so statements with \<^const>\<open>crypto_laws\<close> as a hypothesis are about something.\<close>

definition plain_crypto :: "(string, json) crypto" where
  "plain_crypto = \<lparr>cr_dumps = (\<lambda>j. j), cr_loads = Some, cr_sha256 = (\<lambda>_. ''0''), cr_length = (\<lambda>_. 0),
     cr_hex = (\<lambda>b. case b of JStr s \<Rightarrow> s | _ \<Rightarrow> []), cr_unhex = (\<lambda>s. Some (JStr s)),
     cr_sign = (\<lambda>k b. JStr (CHR ''s'' # k)), cr_public = JStr,
     cr_verify = (\<lambda>s p b. case p of JStr k \<Rightarrow> s = JStr (CHR ''s'' # k) | _ \<Rightarrow> False)\<rparr>"

lemma plain_crypto_laws: "crypto_laws plain_crypto"
  by (simp add: crypto_laws_def plain_crypto_def)

lemma plain_digest: "sha256_digest plain_crypto b = ''sha256:0''"
  by (simp add: sha256_digest_def plain_crypto_def)

end
