(* ===== verification/ReleaseController.thy ===== *)
theory ReleaseController
  imports ReleasePointer Canonical
begin

text \<open>
  Signed release manifests (\<^verbatim>\<open>release/manifest.py\<close>) and the controller that activates and rolls them
  back through the pointer's compare-and-swap (\<^verbatim>\<open>release/controller.py\<close>).
\<close>

section \<open>Manifests\<close>

record 'b signed_release_manifest =
  manifest_digest :: string
  artifact_digests :: "string list"
  adapter_versions :: json_object
  model_routes :: json_object
  manifest_policies :: json_object
  prior_release_digest :: "string option"
  manifest_signature :: 'b
  signer_public_key :: 'b

definition sign_release_manifest ::
  "('k, 'b) crypto \<Rightarrow> string list \<Rightarrow> json_object \<Rightarrow> json_object \<Rightarrow> json_object \<Rightarrow> string option \<Rightarrow> 'k \<Rightarrow>
   'b signed_release_manifest" where
  "sign_release_manifest C ads avs mrs ps prior private_key =
     (let resolved = dedupe ads;
          body = manifest_body_bytes C resolved avs mrs ps prior;
          detached = sign C private_key body
      in \<lparr>manifest_digest = manifest_digest_for C body, artifact_digests = resolved,
          adapter_versions = avs, model_routes = mrs, manifest_policies = ps,
          prior_release_digest = prior, manifest_signature = ds_signature detached,
          signer_public_key = ds_public_key detached\<rparr>)"

definition manifest_bytes :: "('k, 'b) crypto \<Rightarrow> 'b signed_release_manifest \<Rightarrow> 'b" where
  "manifest_bytes C m = manifest_body_bytes C (artifact_digests m) (adapter_versions m)
     (model_routes m) (manifest_policies m) (prior_release_digest m)"

definition verify_release_manifest :: "('k, 'b) crypto \<Rightarrow> 'b signed_release_manifest \<Rightarrow> exn + unit" where
  "verify_release_manifest C m =
     (if \<not> verify C \<lparr>ds_signature = manifest_signature m, ds_public_key = signer_public_key m\<rparr>
             (manifest_bytes C m)
      then Inl (Release (UnsignedManifestError ''no valid signature over the canonical bytes''))
      else Inr ())"

definition assert_distinct_from_prior :: "'b signed_release_manifest \<Rightarrow> exn + unit" where
  "assert_distinct_from_prior m =
     (if prior_release_digest m = Some (manifest_digest m)
      then Inl (Release (UnsignedManifestError ''names itself as its own prior release''))
      else Inr ())"

text \<open>A signed manifest verifies, lists each artifact once, and a change to any signed field of a
  verifying manifest asks for a signature over other bytes.\<close>

lemma sign_release_manifest_verifies:
  "crypto_laws C \<Longrightarrow>
     verify_release_manifest C (sign_release_manifest C ads avs mrs ps prior k) = Inr ()"
  by (simp add: verify_release_manifest_def sign_release_manifest_def manifest_bytes_def Let_def)

lemma sign_release_manifest_artifacts:
  "distinct (artifact_digests (sign_release_manifest C ads avs mrs ps prior k))
   \<and> set (artifact_digests (sign_release_manifest C ads avs mrs ps prior k)) = set ads"
  by (simp add: sign_release_manifest_def Let_def)

section \<open>The controller\<close>

text \<open>A controller is its store and its identity; the store is the state its calls act on.\<close>

definition new_release_controller :: "workload_identity \<Rightarrow> exn + workload_identity" where
  "new_release_controller identity =
     (if wid_role identity \<noteq> RELEASE_CONTROLLER
      then Inl (Security (PermissionDeniedError identity ''operate the release controller''))
      else Inr identity)"

definition active_digest :: "'l pointer_store \<Rightarrow> string option" where
  "active_digest s = current_digest (ps_pointer s)"

definition activate ::
  "('k, 'b) crypto \<Rightarrow> (pointer_audit_entry \<Rightarrow> (exn, 'l, unit) op) \<Rightarrow> workload_identity \<Rightarrow>
   'b signed_release_manifest \<Rightarrow> (exn, 'l pointer_store, release_pointer) op" where
  "activate C app identity m =
     op_then (op_lift (verify_release_manifest C m))
       (op_then (op_lift (assert_distinct_from_prior m))
          (op_bind (op_gets active_digest) (\<lambda>cur.
             compare_and_swap app identity cur (manifest_digest m))))"

definition rollback ::
  "('k, 'b) crypto \<Rightarrow> (pointer_audit_entry \<Rightarrow> (exn, 'l, unit) op) \<Rightarrow> workload_identity \<Rightarrow>
   'b signed_release_manifest \<Rightarrow> (exn, 'l pointer_store, release_pointer) op" where
  "rollback C app identity m =
     op_then (op_lift (verify_release_manifest C m))
       (case prior_release_digest m of
          None \<Rightarrow> op_raise (Release (RollbackUnavailableError (manifest_digest m)))
        | Some prior \<Rightarrow> compare_and_swap app identity (Some (manifest_digest m)) prior)"

lemmas controller_defs = activate_def rollback_def active_digest_def

context pointer_log
begin

lemma activate_audited: "audited entries s \<Longrightarrow> audited entries (snd (activate C append w m s))"
  by (auto simp: controller_defs op_defs cas_audited split: sum.splits)

lemma rollback_audited: "audited entries s \<Longrightarrow> audited entries (snd (rollback C append w m s))"
  by (auto simp: controller_defs op_defs cas_audited split: sum.splits option.splits)

text \<open>A manifest that does not verify moves nothing and leaves no audit entry.\<close>

lemma unverified_inert:
  "verify_release_manifest C m = Inl e \<Longrightarrow>
     activate C append w m s = (Inl e, s) \<and> rollback C append w m s = (Inl e, s)"
  by (simp add: controller_defs op_defs)

text \<open>Activation ends at the manifest or where it began; rollback leaves only from the manifest and
  ends only at its prior release.\<close>

lemma activate_pointer:
  "active_digest (snd (activate C append w m s)) \<in> {active_digest s, Some (manifest_digest m)}"
proof (cases "verify_release_manifest C m = Inr () \<and> assert_distinct_from_prior m = Inr ()")
  case True
  then have "activate C append w m s =
      compare_and_swap append w (active_digest s) (manifest_digest m) s"
    by (simp add: controller_defs op_defs)
  then show ?thesis
    by (rule ssubst)
      (rule cas_cases [where w = w and x = "active_digest s" and n = "manifest_digest m" and s = s];
       simp add: active_digest_def)
next
  case False
  then show ?thesis
    by (auto simp: controller_defs op_defs split: sum.splits)
qed

lemma rollback_pointer:
  "ps_pointer (snd (rollback C append w m s)) \<noteq> ps_pointer s \<Longrightarrow>
     active_digest s = Some (manifest_digest m)
     \<and> prior_release_digest m \<noteq> None
     \<and> active_digest (snd (rollback C append w m s)) = prior_release_digest m
     \<and> wid_role w = RELEASE_CONTROLLER"
proof -
  assume moved: "ps_pointer (snd (rollback C append w m s)) \<noteq> ps_pointer s"
  then obtain prior where prior: "prior_release_digest m = Some prior"
    and eq: "rollback C append w m s = compare_and_swap append w (Some (manifest_digest m)) prior s"
    by (auto simp: controller_defs op_defs split: sum.splits option.splits)
  show ?thesis
    by (rule cas_cases [where w = w and x = "Some (manifest_digest m)" and n = prior and s = s])
      (use moved eq prior in \<open>auto simp: active_digest_def\<close>)
qed

end

text \<open>With the in-memory log: a verified activation always lands, and a rollback then returns to the
  prior release.\<close>

lemma mem_activate_ok:
  assumes "wid_role w = RELEASE_CONTROLLER" "verify_release_manifest C m = Inr ()"
    and "assert_distinct_from_prior m = Inr ()"
  shows "\<exists>p. fst (activate C mem_audit w m s) = Inr p
    \<and> active_digest (snd (activate C mem_audit w m s)) = Some (manifest_digest m)
    \<and> ps_pointer (snd (activate C mem_audit w m s)) = p
    \<and> rp_version p = rp_version (ps_pointer s) + 1"
  using assms by (simp add: controller_defs op_defs mem_cas_eq Let_def)

lemma mem_rollback_ok:
  assumes "wid_role w = RELEASE_CONTROLLER" "verify_release_manifest C m = Inr ()"
    and "prior_release_digest m = Some prior" "active_digest s = Some (manifest_digest m)"
  shows "\<exists>p. fst (rollback C mem_audit w m s) = Inr p
    \<and> active_digest (snd (rollback C mem_audit w m s)) = Some prior"
  using assms by (simp add: controller_defs op_defs mem_cas_eq Let_def)

section \<open>Properties\<close>

text \<open>Activating a verified manifest whose prior release is the active one and then rolling it back
  returns the pointer to where it was, two versions on, and the audit log shows both moves.\<close>

theorem activate_rollback_returns:
  assumes "wid_role w = RELEASE_CONTROLLER" "verify_release_manifest C m = Inr ()"
    and "prior_release_digest m = active_digest s" "active_digest s \<notin> {None, Some (manifest_digest m)}"
  shows "\<exists>p s1 q s2. activate C mem_audit w m s = (Inr p, s1) \<and> rollback C mem_audit w m s1 = (Inr q, s2)
    \<and> active_digest s1 = Some (manifest_digest m) \<and> active_digest s2 = active_digest s
    \<and> rp_version q = rp_version (ps_pointer s) + 2
    \<and> map pa_outcome (audit_log s2) = map pa_outcome (audit_log s) @ [Allowed, Allowed]"
  using assms by (auto simp: controller_defs op_defs mem_cas_eq Let_def assert_distinct_from_prior_def)

lemma activate_rollback_witness:
  "\<exists>p s1 q s2. activate plain_crypto mem_audit \<lparr>wid_role = RELEASE_CONTROLLER, wid_subject = ''rc''\<rparr>
       (sign_release_manifest plain_crypto [''a''] [] [] [] (Some ''sha256:old'') ''key'')
       \<lparr>audit_log = [], ps_pointer = \<lparr>current_digest = Some ''sha256:old'', rp_version = 4\<rparr>\<rparr> = (Inr p, s1)
     \<and> rollback plain_crypto mem_audit \<lparr>wid_role = RELEASE_CONTROLLER, wid_subject = ''rc''\<rparr>
       (sign_release_manifest plain_crypto [''a''] [] [] [] (Some ''sha256:old'') ''key'') s1 = (Inr q, s2)
     \<and> active_digest s2 = Some ''sha256:old'' \<and> rp_version q = 6"
  using activate_rollback_returns [of "\<lparr>wid_role = RELEASE_CONTROLLER, wid_subject = ''rc''\<rparr>" plain_crypto
      "sign_release_manifest plain_crypto [''a''] [] [] [] (Some ''sha256:old'') ''key''"
      "\<lparr>audit_log = [], ps_pointer = \<lparr>current_digest = Some ''sha256:old'', rp_version = 4\<rparr>\<rparr>",
      OF _ sign_release_manifest_verifies [OF plain_crypto_laws]]
  by (simp add: active_digest_def sign_release_manifest_def Let_def manifest_digest_for_def
      sha256_digest_def plain_crypto_def) fastforce

text \<open>A signature covers the whole manifest: if two well-formed manifests have the same signed bytes,
  they name the same artifacts and the same prior release, and their versions, routes and policies are
  the same up to the order of keys. A signed manifest verifies, and lists each artifact once.\<close>

theorem manifest_signature_covers_fields:
  assumes "crypto_laws C"
    and "json_wf (manifest_body (artifact_digests m) (adapter_versions m) (model_routes m) (manifest_policies m) (prior_release_digest m))"
    and "json_wf (manifest_body (artifact_digests n) (adapter_versions n) (model_routes n) (manifest_policies n) (prior_release_digest n))"
    and "manifest_bytes C m = manifest_bytes C n"
  shows "artifact_digests m = artifact_digests n \<and> prior_release_digest m = prior_release_digest n
    \<and> sort_keys (JObj (adapter_versions m)) = sort_keys (JObj (adapter_versions n))
    \<and> sort_keys (JObj (model_routes m)) = sort_keys (JObj (model_routes n))
    \<and> sort_keys (JObj (manifest_policies m)) = sort_keys (JObj (manifest_policies n))"
  using manifest_body_bytes_inject [OF assms(1-3) assms(4) [unfolded manifest_bytes_def]] by blast

lemma manifest_signature_witness:
  "artifact_digests (sign_release_manifest plain_crypto [''a'', ''a''] [(''x'', JNull), (''b'', JNull)] [] [] None ''key'') =
   artifact_digests (sign_release_manifest plain_crypto [''a''] [(''b'', JNull), (''x'', JNull)] [] [] None ''other'')"
  using manifest_signature_covers_fields [of plain_crypto
      "sign_release_manifest plain_crypto [''a'', ''a''] [(''x'', JNull), (''b'', JNull)] [] [] None ''key''"
      "sign_release_manifest plain_crypto [''a''] [(''b'', JNull), (''x'', JNull)] [] [] None ''other''",
      OF plain_crypto_laws]
  by (simp add: sign_release_manifest_def Let_def manifest_bytes_def manifest_body_bytes_def
      manifest_body_def dedupe_def json_opt_str_def plain_crypto_def canonical_json_def sorted_obj_def)

end
