(* ===== verification/Fleet.thy ===== *)
theory Fleet
  imports Identities
begin

text \<open>
  The fleet abstraction and its in-process simulator (\<^verbatim>\<open>release/fleet.py\<close>), and the compressed clock
  it is measured against (\<^verbatim>\<open>release/clock.py\<close>). The clock is an object the fleet shares with the canary
  harness: an operation that reads it takes the reading \<open>now\<close>. The lemmas show that a session serves
  one manifest for its lifetime, that every stored report is true, that an arm writes only its own
  namespace, and what the convergence measurements mean.
\<close>

section \<open>The clock\<close>

record compressed_clock =
  clock_scale :: rat
  clock_elapsed :: rat

definition new_compressed_clock :: "rat \<Rightarrow> exn + compressed_clock" where
  "new_compressed_clock scale =
     (if scale \<le> 0 then Inl (ValueError ''scale must be positive'')
      else Inr \<lparr>clock_scale = scale, clock_elapsed = 0\<rparr>)"

definition clock_seconds :: "compressed_clock \<Rightarrow> rat" where
  "clock_seconds c = clock_elapsed c * clock_scale c"

definition clock_advance :: "rat \<Rightarrow> (exn, compressed_clock, unit) op" where
  "clock_advance seconds =
     (if seconds < 0 then op_raise (ValueError ''cannot advance the clock backwards'')
      else op_modify (\<lambda>c. c\<lparr>clock_elapsed := clock_elapsed c + seconds\<rparr>))"

lemma clock_advance_ok [simp]:
  "0 \<le> t \<Longrightarrow> clock_advance t c = (Inr (), c\<lparr>clock_elapsed := clock_elapsed c + t\<rparr>)"
  by (simp add: clock_advance_def op_modify_def)

section \<open>State\<close>

datatype session_arm = Incumbent | Candidate

definition arm_namespace :: "session_arm \<Rightarrow> string" where
  "arm_namespace arm = (if arm = Candidate then ''candidate'' else ''incumbent'')"

record worker =
  worker_id :: nat
  convergence_latency :: rat
  cached_digest :: "string option"
  resolves_at :: "rat option"

record session =
  pinned_digest :: string
  session_arm :: session_arm

record digest_report =
  dr_session :: string
  dr_digest :: string
  dr_at :: rat

record 'v fleet =
  fl_workers :: "worker list"
  fl_sessions :: "(string, session) dict"
  fl_reports :: "digest_report list"
  fl_memory :: "(string \<times> string, 'v) dict"
  fl_active :: "string option"
  fl_invalidated_at :: "rat option"

text \<open>\<^verbatim>\<open>__post_init__\<close>: the \<open>i\<close>-th draw of the latency sampler is \<open>latency i\<close>.\<close>

definition new_fleet :: "int \<Rightarrow> (nat \<Rightarrow> rat) \<Rightarrow> exn + 'v fleet" where
  "new_fleet worker_count latency =
     (if worker_count \<le> 0 then Inl (ValueError ''worker_count must be positive'')
      else Inr \<lparr>fl_workers = map (\<lambda>i. \<lparr>worker_id = i, convergence_latency = latency i,
                   cached_digest = None, resolves_at = None\<rparr>) [0..<nat worker_count],
                fl_sessions = [], fl_reports = [], fl_memory = [], fl_active = None,
                fl_invalidated_at = None\<rparr>)"

section \<open>The adapter's operations\<close>

definition require_session :: "string \<Rightarrow> string \<Rightarrow> (exn, 'v fleet, session) op" where
  "require_session sid operation = (\<lambda>f.
     case map_of (fl_sessions f) sid of
       None \<Rightarrow> (Inl (Release (UnknownSessionError sid operation)), f)
     | Some s \<Rightarrow> (Inr s, f))"

definition set_active :: "string \<Rightarrow> (exn, 'v fleet, unit) op" where
  "set_active d = op_modify (\<lambda>f. f\<lparr>fl_active := Some d\<rparr>)"

definition pin_session :: "string \<Rightarrow> string \<Rightarrow> session_arm \<Rightarrow> (exn, 'v fleet, unit) op" where
  "pin_session sid d arm = (\<lambda>f.
     case map_of (fl_sessions f) sid of
       Some existing \<Rightarrow>
         if pinned_digest existing \<noteq> d
         then (Inl (Release (SessionPinError sid (pinned_digest existing) d)), f)
         else (Inr (), f)
     | None \<Rightarrow>
         (Inr (), f\<lparr>fl_sessions := AList.update sid \<lparr>pinned_digest = d, session_arm = arm\<rparr>
                                     (fl_sessions f)\<rparr>))"

definition resolve_manifest :: "string \<Rightarrow> (exn, 'v fleet, string) op" where
  "resolve_manifest sid =
     op_bind (require_session sid ''resolve manifest'') (\<lambda>s. op_return (pinned_digest s))"

definition report_digest :: "rat \<Rightarrow> string \<Rightarrow> string \<Rightarrow> (exn, 'v fleet, unit) op" where
  "report_digest now sid d =
     op_bind (resolve_manifest sid) (\<lambda>resolved.
       if d \<noteq> resolved then op_raise (Release (DigestReportingError sid d resolved))
       else op_modify (\<lambda>f. f\<lparr>fl_reports := fl_reports f @
              [\<lparr>dr_session = sid, dr_digest = d, dr_at = now\<rparr>]\<rparr>))"

definition invalidate_caches :: "rat \<Rightarrow> string \<Rightarrow> (exn, 'v fleet, unit) op" where
  "invalidate_caches now d = op_modify (\<lambda>f. f\<lparr>
     fl_active := Some d,
     fl_invalidated_at := Some now,
     fl_workers := map (\<lambda>w. w\<lparr>cached_digest := None,
                                resolves_at := Some (now + convergence_latency w)\<rparr>) (fl_workers f)\<rparr>)"

section \<open>Measurements\<close>

definition tick_worker :: "rat \<Rightarrow> string option \<Rightarrow> worker \<Rightarrow> worker" where
  "tick_worker now act w =
     (case resolves_at w of
        Some t \<Rightarrow> if t \<le> now then w\<lparr>cached_digest := act, resolves_at := None\<rparr> else w
      | None \<Rightarrow> w)"

definition tick :: "rat \<Rightarrow> (exn, 'v fleet, unit) op" where
  "tick now = op_modify (\<lambda>f. f\<lparr>fl_workers := map (tick_worker now (fl_active f)) (fl_workers f)\<rparr>)"

definition converged_workers :: "rat \<Rightarrow> (exn, 'v fleet, nat) op" where
  "converged_workers now =
     op_then (tick now)
       (op_gets (\<lambda>f. length (filter (\<lambda>w. cached_digest w = fl_active f) (fl_workers f))))"

definition converged_fraction :: "rat \<Rightarrow> (exn, 'v fleet, rat) op" where
  "converged_fraction now =
     op_bind (converged_workers now) (\<lambda>n. op_gets (\<lambda>f. of_nat n / of_nat (length (fl_workers f))))"

definition p99_rank :: "nat \<Rightarrow> nat" where
  "p99_rank n = max 1 (nat \<lceil>(99 / 100 :: rat) * of_nat n\<rceil>)"

definition p99_convergence_seconds :: "(exn, 'v fleet, rat) op" where
  "p99_convergence_seconds = (\<lambda>f.
     case fl_invalidated_at f of
       None \<Rightarrow> (Inl (RuntimeError ''no cache invalidation has occurred''), f)
     | Some _ \<Rightarrow>
         (let latencies = sort (map convergence_latency (fl_workers f));
              rank = p99_rank (length latencies)
          in (Inr (latencies ! (rank - 1)), f)))"

definition digest_report_coverage :: "string list option \<Rightarrow> 'v fleet \<Rightarrow> rat" where
  "digest_report_coverage expected f =
     (let sessions = (case expected of Some xs \<Rightarrow> remdups xs | None \<Rightarrow> map fst (fl_sessions f));
          reported = map dr_session (fl_reports f)
      in if sessions = [] then 1
         else of_nat (length (filter (\<lambda>s. s \<in> set reported) sessions)) / of_nat (length sessions))"

section \<open>Namespaced state\<close>

definition write_state :: "string \<Rightarrow> string \<Rightarrow> 'v \<Rightarrow> string \<Rightarrow> (exn, 'v fleet, unit) op" where
  "write_state sid key v ns =
     op_bind (require_session sid ''write state'') (\<lambda>s.
       (let allowed = arm_namespace (session_arm s)
        in if ns \<noteq> allowed then op_raise (Release (NamespaceViolationError sid ns allowed))
           else op_modify (\<lambda>f. f\<lparr>fl_memory := AList.update (ns, key) v (fl_memory f)\<rparr>)))"

definition read_state :: "string \<Rightarrow> string \<Rightarrow> 'v fleet \<Rightarrow> 'v option" where
  "read_state key ns f = map_of (fl_memory f) (ns, key)"

definition memory_keys :: "string \<Rightarrow> 'v fleet \<Rightarrow> string list" where
  "memory_keys ns f = sort (map snd (filter (\<lambda>nk. fst nk = ns) (map fst (fl_memory f))))"

lemmas fleet_ops = require_session_def set_active_def pin_session_def resolve_manifest_def
  report_digest_def invalidate_caches_def tick_def write_state_def

section \<open>Every call, and the invariant every call keeps\<close>

datatype 'v fleet_request =
    SetActive string
  | Pin string string session_arm
  | Report rat string string
  | Invalidate rat string
  | Tick rat
  | WriteState string string 'v string

fun fleet_call :: "'v fleet_request \<Rightarrow> (exn, 'v fleet, unit) op" where
  "fleet_call (SetActive d) = set_active d"
| "fleet_call (Pin sid d arm) = pin_session sid d arm"
| "fleet_call (Report now sid d) = report_digest now sid d"
| "fleet_call (Invalidate now d) = invalidate_caches now d"
| "fleet_call (Tick now) = tick now"
| "fleet_call (WriteState sid k v ns) = write_state sid k v ns"

abbreviation fleet_run :: "'v fleet_request list \<Rightarrow> 'v fleet \<Rightarrow> 'v fleet" where
  "fleet_run \<equiv> run_calls (\<lambda>c f. snd (fleet_call c f))"

definition fleet_inv :: "'v fleet \<Rightarrow> bool" where
  "fleet_inv f \<longleftrightarrow>
     dict_ok (fl_sessions f) \<and> dict_ok (fl_memory f)
     \<and> (\<forall>r \<in> set (fl_reports f).
          \<exists>s. map_of (fl_sessions f) (dr_session r) = Some s \<and> dr_digest r = pinned_digest s)
     \<and> (\<forall>nk \<in> set (map fst (fl_memory f)). fst nk \<in> {''incumbent'', ''candidate''})"

lemma new_fleet_inv: "new_fleet n lat = Inr f \<Longrightarrow> fleet_inv f"
  by (auto simp: new_fleet_def fleet_inv_def dict_ok_def split: if_splits)

lemma arm_namespace_cases [simp]:
  "arm_namespace a = ''incumbent'' \<or> arm_namespace a = ''candidate''"
  "arm_namespace Candidate = ''candidate''" "arm_namespace Incumbent = ''incumbent''"
  by (simp_all add: arm_namespace_def)

lemma pin_session_inv: "fleet_inv f \<Longrightarrow> fleet_inv (snd (pin_session sid d arm f))"
  by (fastforce simp: fleet_inv_def pin_session_def map_of_update split: option.splits)

lemma report_digest_inv: "fleet_inv f \<Longrightarrow> fleet_inv (snd (report_digest now sid d f))"
  by (auto simp: fleet_inv_def fleet_ops op_defs split: option.splits)

lemma write_state_inv: "fleet_inv f \<Longrightarrow> fleet_inv (snd (write_state sid k v ns f))"
  by (auto simp: fleet_inv_def fleet_ops op_defs Let_def keys_update simp del: set_map
      split: option.splits)

lemma fleet_call_inv: "fleet_inv f \<Longrightarrow> fleet_inv (snd (fleet_call c f))"
proof (cases c)
  case (SetActive d)
  assume "fleet_inv f"
  with SetActive show ?thesis by (simp add: fleet_inv_def set_active_def op_modify_def)
next
  case (Invalidate now d)
  assume "fleet_inv f"
  with Invalidate show ?thesis by (simp add: fleet_inv_def invalidate_caches_def op_modify_def)
next
  case (Tick now)
  assume "fleet_inv f"
  with Tick show ?thesis by (simp add: fleet_inv_def tick_def op_modify_def)
qed (simp_all add: pin_session_inv report_digest_inv write_state_inv)

lemma fleet_run_inv: "fleet_inv f \<Longrightarrow> fleet_inv (fleet_run cs f)"
  by (rule run_calls_invariant) (auto intro: fleet_call_inv)

text \<open>A pin never changes, and no call removes one.\<close>

lemma fleet_call_pins:
  "map_of (fl_sessions f) sid = Some s \<Longrightarrow> map_of (fl_sessions (snd (fleet_call c f))) sid = Some s"
  by (cases c) (auto simp: fleet_ops op_defs Let_def map_of_update split: option.splits)

lemma fleet_run_pins:
  "map_of (fl_sessions f) sid = Some s \<Longrightarrow> map_of (fl_sessions (fleet_run cs f)) sid = Some s"
  by (rule run_calls_invariant) (auto intro: fleet_call_pins)

text \<open>A write by a session of one arm leaves the other namespace as it was.\<close>

lemma write_state_other_namespace:
  assumes "map_of (fl_sessions f) sid = Some s" "ns' \<noteq> arm_namespace (session_arm s)"
  shows "read_state k' ns' (snd (write_state sid k v ns f)) = read_state k' ns' f"
  using assms by (auto simp: write_state_def require_session_def op_defs Let_def read_state_def map_of_update)

section \<open>Convergence\<close>

lemma tick_after_invalidate:
  "cached_digest (tick_worker now (Some d) (w\<lparr>cached_digest := None,
       resolves_at := Some (t + convergence_latency w)\<rparr>)) = Some d
   \<longleftrightarrow> t + convergence_latency w \<le> now"
  by (simp add: tick_worker_def)

lemma converged_after_invalidate:
  "fst (converged_workers now (snd (invalidate_caches t d f)))
   = Inr (length (filter (\<lambda>w. t + convergence_latency w \<le> now) (fl_workers f)))"
  by (simp add: converged_workers_def tick_def invalidate_caches_def op_defs filter_map comp_def
      tick_after_invalidate)

text \<open>Where the \<open>k\<close>-th smallest element sits: at least \<open>k\<close> elements are no larger.\<close>

lemma sorted_rank_count:
  fixes xs :: "'a::linorder list"
  assumes "0 < k" "k \<le> length xs"
  shows "k \<le> length (filter (\<lambda>x. x \<le> sort xs ! (k - 1)) xs)"
proof -
  let ?s = "sort xs" and ?p = "\<lambda>x. x \<le> sort xs ! (k - 1)"
  have "set (take k ?s) \<subseteq> Collect ?p"
  proof
    fix x assume "x \<in> set (take k ?s)"
    then obtain i where "i < k" "i < length ?s" "x = ?s ! i" by (auto simp: in_set_conv_nth)
    moreover have "?s ! i \<le> ?s ! (k - 1)"
      using \<open>i < k\<close> assms by (intro sorted_nth_mono) auto
    ultimately show "x \<in> Collect ?p" by simp
  qed
  then have "filter ?p (take k ?s) = take k ?s" by (auto simp: filter_id_conv)
  then have "k \<le> length (filter ?p (take k ?s @ drop k ?s))"
    using assms by (simp add: filter_append del: append_take_drop_id)
  also have "\<dots> = length (filter ?p xs)"
    by (simp only: append_take_drop_id) (metis mset_filter mset_sort size_mset)
  finally show ?thesis .
qed

lemma p99_rank_bounds: "0 < n \<Longrightarrow> 0 < p99_rank n \<and> p99_rank n \<le> n \<and> 99 * n \<le> 100 * p99_rank n"
proof -
  assume n: "0 < n"
  define c where "c = \<lceil>(99 / 100 :: rat) * of_nat n\<rceil>"
  have le: "c \<le> int n" unfolding c_def by (simp add: ceiling_le_iff)
  have pos: "0 < c" unfolding c_def using n by simp
  have "(99 / 100 :: rat) * of_nat n \<le> of_int c" unfolding c_def by (rule le_of_int_ceiling)
  then have "of_int (99 * int n) \<le> (of_int (100 * c) :: rat)" by simp
  then have "99 * int n \<le> 100 * c" by (simp only: of_int_le_iff)
  with le pos n show ?thesis unfolding p99_rank_def c_def [symmetric] by linarith
qed

section \<open>The interface the canary uses\<close>

text \<open>The code's \<^verbatim>\<open>CanaryFleet\<close> protocol as a record of operations. \<open>pin_of\<close> and \<open>reported_of\<close> read
  what a session is pinned to and which sessions have reported, \<open>measured\<close> says that an invalidation
  has happened.\<close>

record ('f, 'v) fleet_ops =
  fo_pin :: "string \<Rightarrow> string \<Rightarrow> session_arm \<Rightarrow> (exn, 'f, unit) op"
  fo_resolve :: "string \<Rightarrow> (exn, 'f, string) op"
  fo_report :: "rat \<Rightarrow> string \<Rightarrow> string \<Rightarrow> (exn, 'f, unit) op"
  fo_invalidate :: "rat \<Rightarrow> string \<Rightarrow> (exn, 'f, unit) op"
  fo_put :: "string \<Rightarrow> string \<Rightarrow> 'v \<Rightarrow> string \<Rightarrow> (exn, 'f, unit) op"
  fo_coverage :: "string list option \<Rightarrow> 'f \<Rightarrow> rat"
  fo_p99 :: "(exn, 'f, rat) op"

locale canary_fleet =
  fixes F :: "('f, 'v) fleet_ops"
    and pin_of :: "'f \<Rightarrow> string \<rightharpoonup> string \<times> session_arm"
    and reported_of :: "'f \<Rightarrow> string list"
    and measured :: "'f \<Rightarrow> bool"
  assumes pin_fresh: "pin_of f sid = None \<Longrightarrow>
      \<exists>f'. fo_pin F sid d arm f = (Inr (), f') \<and> pin_of f' = (pin_of f)(sid \<mapsto> (d, arm))
         \<and> reported_of f' = reported_of f \<and> measured f' = measured f"
    and pin_conflict: "pin_of f sid = Some (d', arm') \<Longrightarrow> d' \<noteq> d \<Longrightarrow>
      fo_pin F sid d arm f = (Inl (Release (SessionPinError sid d' d)), f)"
    and resolve_pinned: "pin_of f sid = Some (d, arm) \<Longrightarrow> fo_resolve F sid f = (Inr d, f)"
    and report_resolved: "pin_of f sid = Some (d, arm) \<Longrightarrow>
      \<exists>f'. fo_report F now sid d f = (Inr (), f') \<and> pin_of f' = pin_of f
         \<and> reported_of f' = reported_of f @ [sid] \<and> measured f' = measured f"
    and put_own: "pin_of f sid = Some (d, arm) \<Longrightarrow>
      \<exists>f'. fo_put F sid k v (arm_namespace arm) f = (Inr (), f') \<and> pin_of f' = pin_of f
         \<and> reported_of f' = reported_of f \<and> measured f' = measured f"
    and invalidate_ok: "\<exists>f'. fo_invalidate F now d f = (Inr (), f') \<and> pin_of f' = pin_of f
         \<and> reported_of f' = reported_of f \<and> measured f'"
    and coverage_full: "set xs \<subseteq> set (reported_of f) \<Longrightarrow> fo_coverage F (Some xs) f = 1"
    and p99_ok: "measured f \<Longrightarrow> \<exists>v. fo_p99 F f = (Inr v, f)"

definition sim_ops :: "('v fleet, 'v) fleet_ops" where
  "sim_ops = \<lparr>fo_pin = pin_session, fo_resolve = resolve_manifest, fo_report = report_digest,
     fo_invalidate = invalidate_caches, fo_put = write_state,
     fo_coverage = digest_report_coverage, fo_p99 = p99_convergence_seconds\<rparr>"

definition sim_pin_of :: "'v fleet \<Rightarrow> string \<rightharpoonup> string \<times> session_arm" where
  "sim_pin_of f sid = map_option (\<lambda>s. (pinned_digest s, session_arm s)) (map_of (fl_sessions f) sid)"

abbreviation sim_reported :: "'v fleet \<Rightarrow> string list" where
  "sim_reported f \<equiv> map dr_session (fl_reports f)"

abbreviation sim_measured :: "'v fleet \<Rightarrow> bool" where
  "sim_measured f \<equiv> fl_invalidated_at f \<noteq> None"

lemma coverage_full_sim:
  "set xs \<subseteq> set (sim_reported f) \<Longrightarrow> digest_report_coverage (Some xs) f = 1"
  by (auto simp: digest_report_coverage_def Let_def filter_id_conv subset_iff)

interpretation sim: canary_fleet sim_ops sim_pin_of sim_reported sim_measured
proof (unfold_locales, goal_cases)
  case (1 f sid d arm)
  then show ?case
    by (auto simp: sim_ops_def sim_pin_of_def pin_session_def map_of_update fun_eq_iff)
next
  case (7 xs f)
  then show ?case by (simp add: sim_ops_def coverage_full_sim del: set_map)
next
  case (8 f)
  then show ?case by (auto simp: sim_ops_def p99_convergence_seconds_def Let_def)
qed (auto simp: sim_ops_def sim_pin_of_def fleet_ops op_defs Let_def fun_eq_iff)

section \<open>Properties\<close>

text \<open>Whatever calls are made on a fleet, in any order and whether they raise or not: a pinned session
  keeps its manifest and its arm, every stored report names a pinned session and the digest that
  session serves, and namespaced memory holds no namespace but the two arms' own.\<close>

theorem fleet_sessions_and_reports:
  assumes "fleet_inv f" "map_of (fl_sessions f) sid = Some s"
  shows "fst (resolve_manifest sid (fleet_run cs f)) = Inr (pinned_digest s)
    \<and> (\<forall>r \<in> set (fl_reports (fleet_run cs f)).
          fst (resolve_manifest (dr_session r) (fleet_run cs f)) = Inr (dr_digest r))
    \<and> (\<forall>nk \<in> set (map fst (fl_memory (fleet_run cs f))). fst nk \<in> {''incumbent'', ''candidate''})"
proof -
  have "fleet_inv (fleet_run cs f)" by (rule fleet_run_inv [OF assms(1)])
  moreover have "map_of (fl_sessions (fleet_run cs f)) sid = Some s" by (rule fleet_run_pins [OF assms(2)])
  ultimately show ?thesis
    by (fastforce simp: fleet_inv_def resolve_manifest_def require_session_def op_defs)
qed

definition demo_fleet :: "nat fleet" where
  "demo_fleet = fleet_run [Pin ''s'' ''sha256:a'' Candidate, Report 1 ''s'' ''sha256:a'']
     \<lparr>fl_workers = [], fl_sessions = [], fl_reports = [], fl_memory = [], fl_active = None, fl_invalidated_at = None\<rparr>"

lemma demo_fleet_inv: "fleet_inv demo_fleet"
  unfolding demo_fleet_def by (rule fleet_run_inv) (simp add: fleet_inv_def dict_ok_def)

lemma fleet_sessions_witness:
  "fst (resolve_manifest ''s'' (fleet_run [Pin ''s'' ''sha256:b'' Incumbent, WriteState ''s'' ''k'' 3 ''candidate''] demo_fleet))
     = Inr ''sha256:a''"
  using fleet_sessions_and_reports [OF demo_fleet_inv, of "''s''" "\<lparr>pinned_digest = ''sha256:a'', session_arm = Candidate\<rparr>"
      "[Pin ''s'' ''sha256:b'' Incumbent, WriteState ''s'' ''k'' 3 ''candidate'']"]
  by (simp add: demo_fleet_def pin_session_def report_digest_def resolve_manifest_def require_session_def op_defs)

text \<open>A session's writes reach only its own arm's namespace: a write into the other one raises and
  stores nothing, and no write of any kind changes what the other namespace reads back.\<close>

theorem fleet_namespaces_isolated:
  assumes "map_of (fl_sessions f) sid = Some s" "ns' \<noteq> arm_namespace (session_arm s)"
  shows "write_state sid k v ns' f = (Inl (Release (NamespaceViolationError sid ns' (arm_namespace (session_arm s)))), f)
    \<and> read_state k' ns' (snd (write_state sid k v ns f)) = read_state k' ns' f"
  using write_state_other_namespace [OF assms] assms
  by (simp add: write_state_def require_session_def op_defs Let_def)

lemma fleet_namespaces_witness:
  "fst (write_state ''s'' ''k'' (7::nat) ''incumbent'' demo_fleet) =
     Inl (Release (NamespaceViolationError ''s'' ''incumbent'' ''candidate''))"
  using fleet_namespaces_isolated [of demo_fleet "''s''" "\<lparr>pinned_digest = ''sha256:a'', session_arm = Candidate\<rparr>" "''incumbent''" "''k''" 7]
  by (simp add: demo_fleet_def pin_session_def report_digest_def resolve_manifest_def require_session_def op_defs)

text \<open>The p99 convergence measurement is a worker's latency that bounds at least 99% of the workers'
  latencies, and once that much time has passed since an invalidation at least 99% of the workers
  serve the new digest.\<close>

theorem fleet_p99_converges:
  assumes "fl_workers f \<noteq> []" "fst (p99_convergence_seconds (snd (invalidate_caches t d f))) = Inr v" "t + v \<le> now"
  shows "v \<in> convergence_latency ` set (fl_workers f)
    \<and> (\<exists>n. fst (converged_workers now (snd (invalidate_caches t d f))) = Inr n
         \<and> 99 * length (fl_workers f) \<le> 100 * n)"
proof -
  let ?ls = "map convergence_latency (fl_workers f)"
  define k where "k = p99_rank (length ?ls)"
  have k: "0 < k" "k \<le> length ?ls" "99 * length ?ls \<le> 100 * k"
    using p99_rank_bounds [of "length ?ls"] assms(1) by (simp_all add: k_def)
  have v: "v = sort ?ls ! (k - 1)"
    using assms(2) by (simp add: p99_convergence_seconds_def invalidate_caches_def op_modify_def Let_def
        k_def comp_def)
  have "v \<in> set (sort ?ls)" unfolding v using k by (intro nth_mem) simp
  then have "v \<in> convergence_latency ` set (fl_workers f)" by simp
  moreover have "k \<le> length (filter (\<lambda>w. t + convergence_latency w \<le> now) (fl_workers f))"
  proof -
    have "k \<le> length (filter (\<lambda>x. x \<le> v) ?ls)" unfolding v by (rule sorted_rank_count [OF k(1,2)])
    also have "\<dots> = length (filter (\<lambda>w. convergence_latency w \<le> v) (fl_workers f))"
      by (simp add: filter_map comp_def)
    also have "\<dots> \<le> length (filter (\<lambda>w. t + convergence_latency w \<le> now) (fl_workers f))"
    proof -
      have "filter (\<lambda>w. convergence_latency w \<le> v) (filter (\<lambda>w. t + convergence_latency w \<le> now) (fl_workers f))
          = filter (\<lambda>w. convergence_latency w \<le> v) (fl_workers f)"
        using assms(3) by (auto simp: filter_filter intro!: filter_cong)
      then show ?thesis by (metis length_filter_le)
    qed
    finally show ?thesis .
  qed
  ultimately show ?thesis using k(3) converged_after_invalidate [of now t d f] by simp
qed

lemma p99_rank_one: "p99_rank (Suc 0) = Suc 0"
  using p99_rank_bounds [of 1] by simp

lemma fleet_p99_witness:
  "\<exists>n. fst (converged_workers 12 (snd (invalidate_caches 10 ''sha256:b''
     (demo_fleet\<lparr>fl_workers := [\<lparr>worker_id = 0, convergence_latency = 2, cached_digest = None, resolves_at = None\<rparr>]\<rparr>)))) = Inr n
     \<and> 99 * length [0::nat] \<le> 100 * n"
  using fleet_p99_converges [of "demo_fleet\<lparr>fl_workers := [\<lparr>worker_id = 0, convergence_latency = 2, cached_digest = None, resolves_at = None\<rparr>]\<rparr>"
      10 "''sha256:b''" 2 12]
  by (simp add: p99_convergence_seconds_def invalidate_caches_def op_modify_def p99_rank_one)

end
