(* ===== verification/Compensation.thy ===== *)
theory Compensation
  imports Canonical Identities
begin

text \<open>
  Compensation plans (\<^verbatim>\<open>campaign/compensation.py\<close>): the classification of compensating actions, the
  signed plan and its content-addressed store, the rollback walk that executes a plan, the
  promotion check over the recorded evidence, and the gate that ties them. The executor is an
  object the caller passes in: \<open>exec\<close>, acting on its own world.
\<close>

section \<open>Action kinds and execution modes\<close>

datatype compensation_action_kind =
    RESTORE_PRIOR_RELEASE_POINTER
  | REVOKE_ARTIFACT
  | RUN_COMPENSATION_HOOK
  | RESTORE_SCAFFOLD_SOURCE
  | RERUN_CONFORMANCE_SUITE

definition action_kind_of_value :: "string \<Rightarrow> compensation_action_kind option" where
  "action_kind_of_value v =
     (if v = ''restore_prior_release_pointer'' then Some RESTORE_PRIOR_RELEASE_POINTER
      else if v = ''revoke_artifact'' then Some REVOKE_ARTIFACT
      else if v = ''run_compensation_hook'' then Some RUN_COMPENSATION_HOOK
      else if v = ''restore_scaffold_source'' then Some RESTORE_SCAFFOLD_SOURCE
      else if v = ''rerun_conformance_suite'' then Some RERUN_CONFORMANCE_SUITE
      else None)"

abbreviation CAS_MODE :: string where "CAS_MODE \<equiv> ''cas''"
abbreviation REQUIRES_EXECUTION_MODE :: string where "REQUIRES_EXECUTION_MODE \<equiv> ''requires_execution''"

definition compensation_modes :: "string list" where
  "compensation_modes = [CAS_MODE, REQUIRES_EXECUTION_MODE]"

definition cas_action_kinds :: "compensation_action_kind list" where
  "cas_action_kinds = [RESTORE_PRIOR_RELEASE_POINTER, REVOKE_ARTIFACT, RESTORE_SCAFFOLD_SOURCE]"

definition requires_execution_action_kinds :: "compensation_action_kind list" where
  "requires_execution_action_kinds = [RUN_COMPENSATION_HOOK, RERUN_CONFORMANCE_SUITE]"

definition classification_for_action :: "string \<Rightarrow> string" where
  "classification_for_action action =
     (case action_kind_of_value action of
        None \<Rightarrow> REQUIRES_EXECUTION_MODE
      | Some kind \<Rightarrow> if kind \<in> set cas_action_kinds then CAS_MODE else REQUIRES_EXECUTION_MODE)"

text \<open>The two lists split the kinds between them, and only a known CAS kind is waved through.\<close>

lemma action_kinds_partition:
  "k \<in> set cas_action_kinds \<longleftrightarrow> k \<notin> set requires_execution_action_kinds"
  by (cases k) (simp_all add: cas_action_kinds_def requires_execution_action_kinds_def)

lemma classification_cas_iff:
  "classification_for_action a = CAS_MODE \<longleftrightarrow>
     a \<in> {''restore_prior_release_pointer'', ''revoke_artifact'', ''restore_scaffold_source''}"
  by (simp add: classification_for_action_def action_kind_of_value_def cas_action_kinds_def)

lemma classification_mode: "classification_for_action a \<in> set compensation_modes"
  by (simp add: classification_for_action_def compensation_modes_def split: option.splits)

section \<open>Execution evidence\<close>

record execution_record =
  er_plan_id :: string
  er_action_index :: nat
  er_artifact_digest :: string
  er_at :: rat

section \<open>Actions\<close>

text \<open>An action is a \<^verbatim>\<open>dict\<close> of JSON values. \<open>is_cas\<close> is \<^verbatim>\<open>action.get("mode") == CAS_MODE\<close>.\<close>

type_synonym action = json_object

definition is_cas :: "action \<Rightarrow> bool" where
  "is_cas a \<longleftrightarrow> map_of a ''mode'' = Some (JStr CAS_MODE)"

definition action_str :: "(json \<Rightarrow> string) \<Rightarrow> action \<Rightarrow> string \<Rightarrow> string" where
  "action_str str_of a k = (case map_of a k of None \<Rightarrow> [] | Some v \<Rightarrow> py_str str_of v)"

definition build_action :: "string \<Rightarrow> string \<Rightarrow> string \<Rightarrow> bool \<Rightarrow> action" where
  "build_action dg act mode executed =
     [(''artifact_digest'', JStr dg), (''action'', JStr act), (''mode'', JStr mode),
      (''executed'', JBool executed)]"

definition validate_action :: "(json \<Rightarrow> string) \<Rightarrow> json \<Rightarrow> exn + action" where
  "validate_action str_of j =
     (case j of
        JObj a \<Rightarrow>
          (case map_of a ''artifact_digest'' of
             Some (JStr dg) \<Rightarrow>
               if dg = [] then Inl (Campaign (CompensationPlanBuildError ''no artifact_digest''))
               else (case map_of a ''mode'' of
                  Some (JStr mode) \<Rightarrow>
                    if mode \<in> set compensation_modes
                    then Inr (build_action dg (action_str str_of a ''action'') mode
                           (case map_of a ''executed'' of None \<Rightarrow> False | Some v \<Rightarrow> py_truthy v))
                    else Inl (Campaign (CompensationPlanBuildError ''mode''))
                | _ \<Rightarrow> Inl (Campaign (CompensationPlanBuildError ''mode'')))
           | _ \<Rightarrow> Inl (Campaign (CompensationPlanBuildError ''no artifact_digest'')))
      | _ \<Rightarrow> Inl (Campaign (CompensationPlanBuildError ''not an object'')))"

fun validate_compensation_actions :: "(json \<Rightarrow> string) \<Rightarrow> json list \<Rightarrow> exn + action list" where
  "validate_compensation_actions str_of [] = Inr []"
| "validate_compensation_actions str_of (j # js) =
     (case validate_action str_of j of
        Inl e \<Rightarrow> Inl e
      | Inr a \<Rightarrow> (case validate_compensation_actions str_of js of
                   Inl e \<Rightarrow> Inl e | Inr as \<Rightarrow> Inr (a # as)))"

definition action_ok :: "action \<Rightarrow> bool" where
  "action_ok a \<longleftrightarrow> (\<exists>dg act mode ex. a = build_action dg act mode ex \<and> dg \<noteq> [] \<and> mode \<in> set compensation_modes)"

lemma validate_action_ok: "validate_action str_of j = Inr a \<Longrightarrow> action_ok a"
  unfolding validate_action_def action_ok_def
  by (auto split: json.splits option.splits if_splits)

lemma validate_actions_ok:
  "validate_compensation_actions str_of js = Inr as \<Longrightarrow> length as = length js \<and> (\<forall>a \<in> set as. action_ok a)"
  by (induction js arbitrary: as) (auto split: sum.splits dest: validate_action_ok)

lemma validate_actions_error_iff:
  "(\<exists>e. validate_compensation_actions str_of js = Inl e) \<longleftrightarrow>
     (\<exists>j \<in> set js. \<exists>e. validate_action str_of j = Inl e)"
  by (induction js) (auto split: sum.splits)

section \<open>Signed plans\<close>

record 'b signed_plan =
  cp_plan_id :: string
  cp_campaign_id :: json
  cp_manifest_digest :: json
  cp_actions :: "action list"
  cp_plan_digest :: string
  cp_signature :: 'b
  cp_public_key :: 'b

definition plan_body :: "string \<Rightarrow> json \<Rightarrow> json \<Rightarrow> action list \<Rightarrow> json" where
  "plan_body plan_id campaign_id manifest_digest actions =
     JObj [(''plan_id'', JStr plan_id), (''campaign_id'', campaign_id),
           (''manifest_digest'', manifest_digest), (''actions'', JList (map JObj actions))]"

definition compensation_plan_body ::
  "('k, 'b) crypto \<Rightarrow> string \<Rightarrow> json \<Rightarrow> json \<Rightarrow> action list \<Rightarrow> 'b" where
  "compensation_plan_body C plan_id campaign_id manifest_digest actions =
     canonical_json C (plan_body plan_id campaign_id manifest_digest actions)"

definition signed_plan_body :: "('k, 'b) crypto \<Rightarrow> 'b signed_plan \<Rightarrow> 'b" where
  "signed_plan_body C p =
     compensation_plan_body C (cp_plan_id p) (cp_campaign_id p) (cp_manifest_digest p) (cp_actions p)"

definition plan_verify :: "('k, 'b) crypto \<Rightarrow> 'b signed_plan \<Rightarrow> bool" where
  "plan_verify C p =
     (if cp_plan_digest p \<noteq> sha256_digest C (signed_plan_body C p) then False
      else verify C \<lparr>ds_signature = cp_signature p, ds_public_key = cp_public_key p\<rparr>
             (signed_plan_body C p))"

definition sign_compensation_plan ::
  "('k, 'b) crypto \<Rightarrow> (json \<Rightarrow> string) \<Rightarrow> string \<Rightarrow> json \<Rightarrow> json \<Rightarrow> json list \<Rightarrow> 'k \<Rightarrow>
   exn + 'b signed_plan" where
  "sign_compensation_plan C str_of plan_id campaign_id manifest_digest actions private_key =
     (case validate_compensation_actions str_of actions of
        Inl e \<Rightarrow> Inl e
      | Inr validated \<Rightarrow>
          (let body = compensation_plan_body C plan_id campaign_id manifest_digest validated;
               detached = sign C private_key body
           in Inr \<lparr>cp_plan_id = plan_id, cp_campaign_id = campaign_id,
                   cp_manifest_digest = manifest_digest, cp_actions = validated,
                   cp_plan_digest = sha256_digest C body,
                   cp_signature = ds_signature detached,
                   cp_public_key = ds_public_key detached\<rparr>))"

lemma sign_compensation_plan_verifies:
  "crypto_laws C \<Longrightarrow> sign_compensation_plan C str_of pid cid md js k = Inr p \<Longrightarrow> plan_verify C p"
  by (auto simp: sign_compensation_plan_def Let_def plan_verify_def signed_plan_body_def split: sum.splits)

lemma sign_compensation_plan_actions:
  "sign_compensation_plan C str_of pid cid md js k = Inr p \<Longrightarrow>
     cp_plan_id p = pid \<and> length (cp_actions p) = length js \<and> (\<forall>a \<in> set (cp_actions p). action_ok a)"
  by (auto simp: sign_compensation_plan_def Let_def split: sum.splits dest: validate_actions_ok)

section \<open>The rollback walk\<close>

text \<open>\<^verbatim>\<open>execute_rollback_compensations\<close>: \<open>now\<close> reads the clock of the executor's world (constantly 0 when
  the code is given no clock). The records are a local list of the call.\<close>

fun rollback_walk ::
  "(json \<Rightarrow> string) \<Rightarrow> (nat \<Rightarrow> action \<Rightarrow> (exn, 'x, unit) op) \<Rightarrow> ('x \<Rightarrow> rat) \<Rightarrow> string \<Rightarrow>
   (nat \<times> action) list \<Rightarrow> execution_record list \<Rightarrow> (exn, 'x, execution_record list) op" where
  "rollback_walk str_of exec now pid [] records = op_return records"
| "rollback_walk str_of exec now pid ((index, a) # rest) records =
     (if is_cas a then rollback_walk str_of exec now pid rest records
      else op_then (exec index a)
             (op_bind (op_gets now) (\<lambda>t.
                rollback_walk str_of exec now pid rest
                  (records @ [\<lparr>er_plan_id = pid, er_action_index = index,
                     er_artifact_digest = action_str str_of a ''artifact_digest'', er_at = t\<rparr>]))))"

definition execute_rollback_compensations ::
  "(json \<Rightarrow> string) \<Rightarrow> (nat \<Rightarrow> action \<Rightarrow> (exn, 'x, unit) op) \<Rightarrow> ('x \<Rightarrow> rat) \<Rightarrow> 'b signed_plan \<Rightarrow>
   (exn, 'x, execution_record list) op" where
  "execute_rollback_compensations str_of exec now plan =
     rollback_walk str_of exec now (cp_plan_id plan) (enumerate0 (cp_actions plan)) []"

text \<open>The positions a plan still owes evidence for, in declared order.\<close>

definition owed :: "'b signed_plan \<Rightarrow> nat list" where
  "owed plan = map fst (filter (\<lambda>(_, a). \<not> is_cas a) (enumerate0 (cp_actions plan)))"

lemma set_owed: "i \<in> set (owed plan) \<longleftrightarrow> i < length (cp_actions plan) \<and> \<not> is_cas (cp_actions plan ! i)"
  by (force simp: owed_def in_enumerate0)

lemma map_fst_enumerate0 [simp]: "map fst (enumerate0 xs) = [0..<length xs]"
  by (simp add: enumerate_eq_zip)

lemma owed_sorted: "sorted (owed plan) \<and> distinct (owed plan)"
proof -
  have eq: "owed plan = filter (\<lambda>i. \<not> is_cas (cp_actions plan ! i)) [0..<length (cp_actions plan)]"
    unfolding owed_def map_fst_enumerate0 [symmetric] filter_map
    by (rule arg_cong [where f = "map fst"], rule filter_cong) (auto simp: in_enumerate0)
  show ?thesis unfolding eq by (simp add: sorted_wrt_filter)
qed

lemma rollback_walk_step:
  "\<not> is_cas a \<Longrightarrow> rollback_walk str_of exec now pid ((index, a) # rest) records x =
     (case exec index a x of
        (Inl e, x1) \<Rightarrow> (Inl e, x1)
      | (Inr _, x1) \<Rightarrow> rollback_walk str_of exec now pid rest
          (records @ [\<lparr>er_plan_id = pid, er_action_index = index,
             er_artifact_digest = action_str str_of a ''artifact_digest'', er_at = now x1\<rparr>]) x1)"
  by (simp add: op_then_def op_bind_def op_gets_def)

lemma rollback_walk_records:
  "rollback_walk str_of exec now pid xs acc x = (Inr rs, x') \<Longrightarrow>
     \<exists>new. rs = acc @ new \<and> map er_action_index new = map fst (filter (\<lambda>(_, a). \<not> is_cas a) xs)
     \<and> (\<forall>r \<in> set new. er_plan_id r = pid)"
proof (induction xs arbitrary: acc x)
  case Nil
  then show ?case by (auto simp: op_return_def)
next
  case (Cons ia xs)
  obtain index a where ia: "ia = (index, a)" by fastforce
  show ?case
  proof (cases "is_cas a")
    case True
    with Cons ia show ?thesis by simp
  next
    case False
    with Cons.prems obtain x1 where
      "rollback_walk str_of exec now pid xs (acc @ [\<lparr>er_plan_id = pid, er_action_index = index,
         er_artifact_digest = action_str str_of a ''artifact_digest'', er_at = now x1\<rparr>]) x1 = (Inr rs, x')"
      by (auto simp: ia rollback_walk_step simp del: rollback_walk.simps split: prod.splits sum.splits)
    from Cons.IH [OF this] ia False show ?thesis by auto
  qed
qed

text \<open>A walk that ends normally leaves one record per owed action, in declared order.\<close>

lemma execute_rollback_records:
  assumes "execute_rollback_compensations str_of exec now plan x = (Inr rs, x')"
  shows "map er_action_index rs = owed plan" and "\<forall>r \<in> set rs. er_plan_id r = cp_plan_id plan"
  using rollback_walk_records [OF assms [unfolded execute_rollback_compensations_def]]
  unfolding owed_def by simp_all

section \<open>The promotion check\<close>

definition executed_indices :: "string \<Rightarrow> execution_record list \<Rightarrow> nat list" where
  "executed_indices pid executions =
     map er_action_index (filter (\<lambda>r. er_plan_id r = pid) executions)"

fun first_unexecuted :: "nat list \<Rightarrow> (nat \<times> action) list \<Rightarrow> (nat \<times> action) option" where
  "first_unexecuted executed [] = None"
| "first_unexecuted executed ((index, a) # rest) =
     (if is_cas a then first_unexecuted executed rest
      else if index \<notin> set executed then Some (index, a)
      else first_unexecuted executed rest)"

definition assert_promotion_allowed ::
  "('k, 'b) crypto \<Rightarrow> (json \<Rightarrow> string) \<Rightarrow> 'b signed_plan \<Rightarrow> execution_record list \<Rightarrow> exn + unit" where
  "assert_promotion_allowed C str_of plan executions =
     (if \<not> plan_verify C plan then Inl (Campaign (CompensationPlanTamperedError (cp_plan_id plan)))
      else (case first_unexecuted (executed_indices (cp_plan_id plan) executions)
                   (enumerate0 (cp_actions plan)) of
              Some (index, a) \<Rightarrow> Inl (Campaign (UnexecutedCompensationError (cp_plan_id plan) index
                 (action_str str_of a ''action'') (action_str str_of a ''artifact_digest'')))
            | None \<Rightarrow> Inr ()))"

lemma first_unexecuted_None:
  "first_unexecuted ex xs = None \<longleftrightarrow> set (map fst (filter (\<lambda>(_, a). \<not> is_cas a) xs)) \<subseteq> set ex"
  by (induction ex xs rule: first_unexecuted.induct) auto

lemma first_unexecuted_Some:
  "first_unexecuted ex xs = Some (i, a) \<Longrightarrow> (i, a) \<in> set xs \<and> \<not> is_cas a \<and> i \<notin> set ex"
  by (induction ex xs rule: first_unexecuted.induct) (auto split: if_splits)

lemma promotion_allowed_iff:
  "assert_promotion_allowed C str_of plan ex = Inr () \<longleftrightarrow>
     plan_verify C plan \<and> set (owed plan) \<subseteq> set (executed_indices (cp_plan_id plan) ex)"
  unfolding assert_promotion_allowed_def owed_def first_unexecuted_None [symmetric]
  by (auto split: option.splits)

lemma promotion_error_cases:
  "assert_promotion_allowed C str_of plan ex = Inl e \<Longrightarrow>
     (\<not> plan_verify C plan \<and> e = Campaign (CompensationPlanTamperedError (cp_plan_id plan)))
     \<or> (plan_verify C plan \<and> (\<exists>i a d. e = Campaign (UnexecutedCompensationError (cp_plan_id plan) i a d)
          \<and> i \<in> set (owed plan) \<and> i \<notin> set (executed_indices (cp_plan_id plan) ex)))"
  by (auto simp: assert_promotion_allowed_def set_owed in_enumerate0
      split: if_splits option.splits dest!: first_unexecuted_Some)

lemma executed_indices_append:
  "executed_indices pid (xs @ ys) = executed_indices pid xs @ executed_indices pid ys"
  by (simp add: executed_indices_def)

lemma executed_indices_own:
  "\<forall>r \<in> set rs. er_plan_id r = pid \<Longrightarrow> executed_indices pid rs = map er_action_index rs"
  by (simp add: executed_indices_def filter_id_conv)

section \<open>Building a plan from the spec\<close>

record spec_action =
  sa_artifact_type :: string
  sa_action :: string

fun plan_actions_from_spec :: "spec_action list \<Rightarrow> (string \<rightharpoonup> string) \<Rightarrow> exn + action list" where
  "plan_actions_from_spec [] digests = Inr []"
| "plan_actions_from_spec (sa # sas) digests =
     (case digests (sa_artifact_type sa) of
        None \<Rightarrow> Inl (Campaign (CompensationPlanBuildError (sa_artifact_type sa)))
      | Some dg \<Rightarrow>
          if dg = [] then Inl (Campaign (CompensationPlanBuildError (sa_artifact_type sa)))
          else (case plan_actions_from_spec sas digests of
                  Inl e \<Rightarrow> Inl e
                | Inr as \<Rightarrow> Inr (build_action dg (sa_action sa)
                              (classification_for_action (sa_action sa)) False # as)))"

lemma is_cas_build [simp]: "is_cas (build_action dg act mode ex) \<longleftrightarrow> mode = CAS_MODE"
  by (simp add: is_cas_def build_action_def)

lemma plan_actions_from_spec_ok:
  "plan_actions_from_spec sas digests = Inr as \<Longrightarrow>
     length as = length sas
     \<and> (\<forall>i < length sas. is_cas (as ! i) \<longleftrightarrow> classification_for_action (sa_action (sas ! i)) = CAS_MODE)
     \<and> (\<forall>a \<in> set as. action_ok a)"
proof (induction sas digests arbitrary: as rule: plan_actions_from_spec.induct)
  case (1 digests)
  then show ?case by simp
next
  case (2 sa sas digests)
  then obtain dg as' where "digests (sa_artifact_type sa) = Some dg" "dg \<noteq> []"
    and tl: "plan_actions_from_spec sas digests = Inr as'"
    and as: "as = build_action dg (sa_action sa) (classification_for_action (sa_action sa)) False # as'"
    by (auto split: option.splits if_splits sum.splits)
  with "2.IH" show ?case
    using classification_mode [of "sa_action sa"]
    by (fastforce simp: nth_Cons action_ok_def split: nat.splits)
qed

lemma validate_built_action:
  "dg \<noteq> [] \<Longrightarrow> mode \<in> set compensation_modes \<Longrightarrow>
     validate_action str_of (JObj (build_action dg act mode ex)) = Inr (build_action dg act mode ex)"
  by (simp add: validate_action_def build_action_def action_str_def)

lemma validate_built_actions:
  "\<forall>a \<in> set as. action_ok a \<Longrightarrow> validate_compensation_actions str_of (map JObj as) = Inr as"
  by (induction as) (auto simp: action_ok_def validate_built_action)

section \<open>The gate\<close>

text \<open>\<^verbatim>\<open>CheckpointedCompensationGate\<close> over an execution sink \<open>'l\<close> and the executor's world \<open>'x\<close>.\<close>

definition gate_approve_canary ::
  "('k, 'b) crypto \<Rightarrow> (json \<Rightarrow> string) \<Rightarrow> ('l \<Rightarrow> execution_record list) \<Rightarrow> 'b signed_plan \<Rightarrow>
   (exn, 'l \<times> 'x, unit) op" where
  "gate_approve_canary C str_of all_of plan =
     op_bind (op_gets (\<lambda>s. all_of (fst s))) (\<lambda>ex. op_lift (assert_promotion_allowed C str_of plan ex))"

definition gate_execute_rollback ::
  "(json \<Rightarrow> string) \<Rightarrow> (execution_record \<Rightarrow> (exn, 'l, unit) op) \<Rightarrow>
   (nat \<Rightarrow> action \<Rightarrow> (exn, 'x, unit) op) \<Rightarrow> ('x \<Rightarrow> rat) \<Rightarrow> 'b signed_plan \<Rightarrow> (exn, 'l \<times> 'x, unit) op" where
  "gate_execute_rollback str_of app exec now plan =
     op_bind (op_zoom snd (\<lambda>x s. (fst s, x)) (execute_rollback_compensations str_of exec now plan))
       (\<lambda>records. op_zoom fst (\<lambda>l s. (l, snd s)) (op_for records app))"

text \<open>The contract of the code's \<^verbatim>\<open>ExecutionSink\<close>.\<close>

locale execution_sink = append_log app all_of
  for app :: "execution_record \<Rightarrow> (exn, 'l, unit) op"
    and all_of :: "'l \<Rightarrow> execution_record list"
begin

text \<open>A discharged plan is promotable: the records a completed rollback appends are what the check asks for.\<close>

lemma rollback_discharges:
  assumes "plan_verify C plan"
    and "gate_execute_rollback str_of app exec now plan s = (Inr u, s')"
  shows "gate_approve_canary C str_of all_of plan s' = (Inr (), s')"
proof -
  from assms(2) obtain rs x' where
    w: "execute_rollback_compensations str_of exec now plan (snd s) = (Inr rs, x')"
    and a: "op_for rs app (fst s) = (Inr u, fst s')"
    by (auto simp: gate_execute_rollback_def op_bind_def op_zoom_def split: prod.splits sum.splits)
  from for_append_all [OF a] have "all_of (fst s') = all_of (fst s) @ rs" .
  then have "set (owed plan) \<subseteq> set (executed_indices (cp_plan_id plan) (all_of (fst s')))"
    using execute_rollback_records [OF w] by (simp add: executed_indices_append executed_indices_own)
  with assms(1) have "assert_promotion_allowed C str_of plan (all_of (fst s')) = Inr ()"
    by (simp add: promotion_allowed_iff)
  then show ?thesis by (simp add: gate_approve_canary_def op_defs)
qed

text \<open>Evidence only accumulates: a promotable plan stays promotable.\<close>

lemma approval_persists:
  assumes "gate_approve_canary C str_of all_of plan s = (Inr (), s)"
  shows "gate_approve_canary C str_of all_of plan (snd (gate_execute_rollback str_of app exec now plan' s))
    = (Inr (), snd (gate_execute_rollback str_of app exec now plan' s))"
proof -
  let ?s' = "snd (gate_execute_rollback str_of app exec now plan' s)"
  have "prefix (all_of (fst s)) (all_of (fst ?s'))"
    using for_append_prefix
    by (auto simp: gate_execute_rollback_def op_bind_def op_zoom_def split: prod.splits sum.splits)
      (metis snd_conv)
  then obtain rs where "all_of (fst ?s') = all_of (fst s) @ rs" by (auto simp: prefix_def)
  with assms show ?thesis
    by (auto simp: gate_approve_canary_def op_defs promotion_allowed_iff executed_indices_append)
qed

text \<open>A rollback whose executor fails leaves no record at all, not even of the actions it did execute.\<close>

lemma failed_rollback_no_record:
  assumes "execute_rollback_compensations str_of exec now plan (snd s) = (Inl e, x')"
  shows "gate_execute_rollback str_of app exec now plan s = (Inl e, (fst s, x'))"
  using assms by (simp add: gate_execute_rollback_def op_bind_def op_zoom_def)

end

interpretation mem_sink: execution_sink mem_append "\<lambda>l. l"
  by unfold_locales

section \<open>Properties\<close>

text \<open>Promotion is allowed exactly when the plan verifies and every action that requires execution has
  a record under this plan's id; a refusal names a plan that fails verification or an action that
  requires execution and has none.\<close>

theorem promotion_needs_all_evidence:
  "(assert_promotion_allowed C str_of plan ex = Inr () \<longleftrightarrow>
      plan_verify C plan
      \<and> (\<forall>i < length (cp_actions plan). is_cas (cp_actions plan ! i)
           \<or> (\<exists>r \<in> set ex. er_plan_id r = cp_plan_id plan \<and> er_action_index r = i)))
   \<and> (\<forall>i a d. assert_promotion_allowed C str_of plan ex =
         Inl (Campaign (UnexecutedCompensationError (cp_plan_id plan) i a d)) \<longrightarrow>
       i < length (cp_actions plan) \<and> \<not> is_cas (cp_actions plan ! i)
       \<and> (\<forall>r \<in> set ex. er_plan_id r = cp_plan_id plan \<longrightarrow> er_action_index r \<noteq> i))"
proof -
  have mem: "i \<in> set (executed_indices (cp_plan_id plan) ex) \<longleftrightarrow>
      (\<exists>r \<in> set ex. er_plan_id r = cp_plan_id plan \<and> er_action_index r = i)" for i
    by (auto simp: executed_indices_def)
  show ?thesis
    using promotion_error_cases [of C str_of plan ex]
    by (auto simp: promotion_allowed_iff subset_iff set_owed mem)
qed

definition demo_actions :: "action list" where
  "demo_actions = [build_action ''sha256:a'' ''revoke_artifact'' CAS_MODE False,
     build_action ''sha256:a'' ''run_compensation_hook'' REQUIRES_EXECUTION_MODE False]"

definition demo_signed :: "json signed_plan" where
  "demo_signed = \<lparr>cp_plan_id = ''plan'', cp_campaign_id = JNull, cp_manifest_digest = JNull,
     cp_actions = demo_actions, cp_plan_digest = ''sha256:0'', cp_signature = JStr ''skey'', cp_public_key = JStr ''key''\<rparr>"

lemma demo_signed_verifies: "plan_verify plain_crypto demo_signed"
  by (simp add: demo_signed_def plan_verify_def verify_def sha256_digest_def plain_crypto_def)

lemma promotion_evidence_witness:
  "assert_promotion_allowed plain_crypto (\<lambda>_. []) demo_signed
     [\<lparr>er_plan_id = ''plan'', er_action_index = 1, er_artifact_digest = ''sha256:a'', er_at = 0\<rparr>] = Inr ()"
  using promotion_needs_all_evidence [of plain_crypto "\<lambda>_. []" demo_signed
      "[\<lparr>er_plan_id = ''plan'', er_action_index = 1, er_artifact_digest = ''sha256:a'', er_at = 0\<rparr>]"]
  by (simp add: demo_signed_verifies) (auto simp: demo_signed_def demo_actions_def less_Suc_eq)

text \<open>A rollback through the gate that ends normally makes its verified plan promotable, executed or
  not before: the records it appended are the evidence the promotion check asks for.\<close>

theorem rollback_makes_promotable:
  assumes "plan_verify C plan" "gate_execute_rollback str_of mem_append exec now plan s = (Inr u, s')"
  shows "gate_approve_canary C str_of (\<lambda>l. l) plan s' = (Inr (), s')
    \<and> (\<exists>rs. fst s' = fst s @ rs \<and> map er_action_index rs = owed plan)"
proof -
  from assms(2) obtain rs x' where
    w: "execute_rollback_compensations str_of exec now plan (snd s) = (Inr rs, x')" and "fst s' = fst s @ rs"
    by (auto simp: gate_execute_rollback_def op_bind_def op_zoom_def split: prod.splits sum.splits)
  with mem_sink.rollback_discharges [OF assms] execute_rollback_records(1) [OF w] show ?thesis by blast
qed

lemma rollback_makes_promotable_witness:
  "gate_approve_canary plain_crypto (\<lambda>_. []) (\<lambda>l. l) demo_signed
     (snd (gate_execute_rollback (\<lambda>_. []) mem_append (\<lambda>i a. mem_append i) (\<lambda>_. 5) demo_signed ([], []))) =
   (Inr (), ([\<lparr>er_plan_id = ''plan'', er_action_index = 1, er_artifact_digest = ''sha256:a'', er_at = 5\<rparr>], [1]))"
proof -
  have run: "gate_execute_rollback (\<lambda>_. []) mem_append (\<lambda>i a. mem_append i) (\<lambda>_. 5) demo_signed ([], []) =
     (Inr (), ([\<lparr>er_plan_id = ''plan'', er_action_index = 1, er_artifact_digest = ''sha256:a'', er_at = 5\<rparr>], [1]))"
    by (simp add: gate_execute_rollback_def execute_rollback_compensations_def op_defs mem_append_def
        demo_signed_def demo_actions_def) (simp add: build_action_def action_str_def)
  from rollback_makes_promotable [OF demo_signed_verifies run] show ?thesis unfolding run snd_conv by (rule conjunct1)
qed

text \<open>If the executor fails on any action, the gate appends no execution record at all: actions
  executed before the failure have taken effect and have no evidence.\<close>

theorem failed_rollback_loses_evidence:
  assumes "execute_rollback_compensations str_of exec now plan x = (Inl e, x')"
  shows "gate_execute_rollback str_of mem_append exec now plan (l, x) = (Inl e, (l, x'))"
  using mem_sink.failed_rollback_no_record [of str_of exec now plan "(l, x)" e x'] assms by simp

definition half_broken :: "nat \<Rightarrow> action \<Rightarrow> (exn, nat list, unit) op" where
  "half_broken i a = (if i = 0 then mem_append i else op_raise (Foreign ''hook failed''))"

lemma failed_rollback_witness:
  "gate_execute_rollback (\<lambda>_. []) mem_append half_broken (\<lambda>_. 0)
     (demo_signed\<lparr>cp_actions := [demo_actions ! 1, demo_actions ! 1]\<rparr>) ([], []) = (Inl (Foreign ''hook failed''), ([], [0]))"
  by (rule failed_rollback_loses_evidence)
     (simp add: execute_rollback_compensations_def demo_signed_def demo_actions_def half_broken_def
       op_defs mem_append_def)

text \<open>Only the three named actions are waved through as reversible by the pointer swap: of a plan built
  from a campaign's declared actions, an action is exempt from execution evidence exactly when its
  name is one of them; every other name, known or not, must be executed.\<close>

theorem built_plans_classify_fail_safe:
  assumes "plan_actions_from_spec sas digests = Inr as"
  shows "length as = length sas
    \<and> (\<forall>i < length sas. is_cas (as ! i) \<longleftrightarrow> sa_action (sas ! i) \<in>
        {''restore_prior_release_pointer'', ''revoke_artifact'', ''restore_scaffold_source''})
    \<and> validate_compensation_actions str_of (map JObj as) = Inr as"
  using plan_actions_from_spec_ok [OF assms] validate_built_actions [of as str_of]
  by (simp add: classification_cas_iff)

lemma built_plans_witness:
  "\<not> is_cas ([build_action ''sha256:a'' ''delete_everything'' REQUIRES_EXECUTION_MODE False] ! 0)"
  using built_plans_classify_fail_safe [of "[\<lparr>sa_artifact_type = ''t'', sa_action = ''delete_everything''\<rparr>]" "\<lambda>_. Some ''sha256:a''"
      "[build_action ''sha256:a'' ''delete_everything'' REQUIRES_EXECUTION_MODE False]"]
  by (simp add: classification_for_action_def action_kind_of_value_def)

end
