(* ===== verification/Canary.thy ===== *)
theory Canary
  imports ReleaseController Fleet Compensation
begin

text \<open>
  The fixed-horizon canary harness (\<^verbatim>\<open>release/canary.py\<close>): its configuration and guardrail events, the
  run over a fleet, and its endings. The harness takes the fleet, the audit log, the execution sink
  and the executor as protocols, so the run is parametric in them; Python's \<^verbatim>\<open>random.Random(seed)\<close> is
  the pair \<open>uniform\<close>, \<open>shuffle\<close>. Times are seconds.
\<close>

section \<open>Configuration and events\<close>

abbreviation MIN_PAIRED_TASKS :: int where "MIN_PAIRED_TASKS \<equiv> 200"
abbreviation MAX_CANDIDATE_ALLOCATION :: rat where "MAX_CANDIDATE_ALLOCATION \<equiv> 5 / 100"
abbreviation MIN_OBSERVATION :: rat where "MIN_OBSERVATION \<equiv> 24 * 3600"

record canary_config =
  min_paired_tasks :: int
  max_candidate_allocation :: rat
  observation_horizon :: rat
  cc_seed :: int

definition new_canary_config :: "int \<Rightarrow> rat \<Rightarrow> rat \<Rightarrow> int \<Rightarrow> exn + canary_config" where
  "new_canary_config tasks alloc horizon seed =
     (if tasks < MIN_PAIRED_TASKS then Inl (Release (InvalidCanaryConfigError ''min_paired_tasks''))
      else if \<not> (0 < alloc \<and> alloc \<le> MAX_CANDIDATE_ALLOCATION)
        then Inl (Release (InvalidCanaryConfigError ''max_candidate_allocation''))
      else if horizon < MIN_OBSERVATION
        then Inl (Release (InvalidCanaryConfigError ''observation_horizon''))
      else Inr \<lparr>min_paired_tasks = tasks, max_candidate_allocation = alloc,
                observation_horizon = horizon, cc_seed = seed\<rparr>)"

definition config_ok :: "canary_config \<Rightarrow> bool" where
  "config_ok c \<longleftrightarrow> MIN_PAIRED_TASKS \<le> min_paired_tasks c \<and> 0 < max_candidate_allocation c
     \<and> max_candidate_allocation c \<le> MAX_CANDIDATE_ALLOCATION \<and> MIN_OBSERVATION \<le> observation_horizon c"

lemma new_canary_config_ok: "new_canary_config t a h s = Inr c \<Longrightarrow> config_ok c"
  by (auto simp: new_canary_config_def config_ok_def split: if_splits)

record guardrail_event =
  ge_severity :: int
  ge_kind :: string
  ge_task_index :: int
  ge_detail :: string

definition new_guardrail_event :: "int \<Rightarrow> string \<Rightarrow> int \<Rightarrow> string \<Rightarrow> exn + guardrail_event" where
  "new_guardrail_event severity kind task_index detail =
     (if severity \<notin> {1, 2, 3, 4} then Inl (ValueError ''severity must be 1-4'')
      else Inr \<lparr>ge_severity = severity, ge_kind = kind, ge_task_index = task_index,
                ge_detail = detail\<rparr>)"

definition is_severity_one :: "guardrail_event \<Rightarrow> bool" where
  "is_severity_one e \<longleftrightarrow> ge_severity e = 1"

text \<open>\<^verbatim>\<open>_events_by_task\<close>: one pass over the events, appending each to its task's list.\<close>

definition add_event :: "(int, guardrail_event list) dict \<Rightarrow> guardrail_event \<Rightarrow>
    (int, guardrail_event list) dict" where
  "add_event grouped e = AList.update (ge_task_index e) (dict_get grouped (ge_task_index e) [] @ [e]) grouped"

definition events_by_task :: "guardrail_event list \<Rightarrow> (int, guardrail_event list) dict" where
  "events_by_task events = foldl add_event [] events"

lemma events_by_task_get: "dict_get (events_by_task events) i [] = filter (\<lambda>e. ge_task_index e = i) events"
proof -
  have "dict_get (foldl add_event d events) i [] = dict_get d i [] @ filter (\<lambda>e. ge_task_index e = i) events" for d
    by (induction events arbitrary: d) (auto simp: add_event_def dict_get_update)
  from this [of "[]"] show ?thesis by (simp add: events_by_task_def dict_get_def)
qed

text \<open>The inner loop over one task's events: each is recorded, and the first of severity 1 ends it.\<close>

fun fire_events :: "guardrail_event list \<Rightarrow> guardrail_event list \<times> string option" where
  "fire_events [] = ([], None)"
| "fire_events (e # es) =
     (if is_severity_one e then ([e], Some (''severity-1 guardrail event: '' @ ge_kind e))
      else (let (fired, stopped) = fire_events es in (e # fired, stopped)))"

lemma fire_events_stop: "snd (fire_events es) = None \<longleftrightarrow> (\<forall>e \<in> set es. \<not> is_severity_one e)"
  by (induction es) (auto simp: Let_def case_prod_beta)

lemma fire_events_none: "\<forall>e \<in> set es. \<not> is_severity_one e \<Longrightarrow> fire_events es = (es, None)"
  by (induction es) auto

section \<open>The harness and its world\<close>

datatype canary_outcome = Completed | Rolled_Back

record canary_result =
  res_outcome :: canary_outcome
  res_paired_tasks :: nat
  res_total_sessions :: nat
  res_candidate_sessions :: nat
  res_candidate_allocation :: rat
  res_stopped_reason :: "string option"
  res_rolled_back_to :: "string option"
  res_coverage :: rat
  res_p99 :: rat
  res_observation_elapsed :: rat
  res_fired :: "guardrail_event list"

record ('k, 'b, 'l, 'f, 'e, 'x) canary_harness =
  ch_crypto :: "('k, 'b) crypto"
  ch_str_of :: "json \<Rightarrow> string"
  ch_config :: canary_config
  ch_identity :: workload_identity
  ch_audit :: "pointer_audit_entry \<Rightarrow> (exn, 'l, unit) op"
  ch_fleet :: "('f, nat \<times> string) fleet_ops"
  ch_uniform :: "int \<Rightarrow> rat \<Rightarrow> rat"
  ch_shuffle :: "int \<Rightarrow> session_arm list \<Rightarrow> session_arm list"
  ch_plan :: "'b signed_plan option"
  ch_sink :: "((execution_record \<Rightarrow> (exn, 'e, unit) op) \<times> ('e \<Rightarrow> execution_record list)) option"
  ch_executor :: "(nat \<Rightarrow> action \<Rightarrow> (exn, 'x, unit) op) option"

record ('l, 'f, 'e, 'x) canary_world =
  cw_store :: "'l pointer_store"
  cw_fleet :: 'f
  cw_clock :: compressed_clock
  cw_sink :: 'e
  cw_exec :: 'x

abbreviation on_store where "on_store \<equiv> op_zoom cw_store (\<lambda>s w. w\<lparr>cw_store := s\<rparr>)"
abbreviation on_fleet where "on_fleet \<equiv> op_zoom cw_fleet (\<lambda>f w. w\<lparr>cw_fleet := f\<rparr>)"
abbreviation on_clock where "on_clock \<equiv> op_zoom cw_clock (\<lambda>c w. w\<lparr>cw_clock := c\<rparr>)"
abbreviation on_sink where "on_sink \<equiv> op_zoom cw_sink (\<lambda>e w. w\<lparr>cw_sink := e\<rparr>)"
abbreviation on_exec where "on_exec \<equiv> op_zoom cw_exec (\<lambda>x w. w\<lparr>cw_exec := x\<rparr>)"

definition session_id :: "nat \<Rightarrow> string" where
  "session_id index = ''canary-session-'' @ nat_str index"

lemma session_id_inject [simp]: "session_id i = session_id j \<longleftrightarrow> i = j"
  by (simp add: session_id_def)

section \<open>One task\<close>

definition serve_task ::
  "('f, nat \<times> string) fleet_ops \<Rightarrow> rat \<Rightarrow> string \<Rightarrow> string \<Rightarrow> nat \<Rightarrow> session_arm \<Rightarrow>
   (exn, ('l, 'f, 'e, 'x) canary_world, unit) op" where
  "serve_task F per_task incumbent candidate index arm =
     op_then (on_clock (clock_advance per_task))
       (op_bind (op_gets (\<lambda>w. clock_seconds (cw_clock w))) (\<lambda>now.
          op_then (on_fleet (fo_pin F (session_id index) (if arm = Candidate then candidate else incumbent) arm))
            (op_bind (on_fleet (fo_resolve F (session_id index))) (\<lambda>resolved.
               op_then (on_fleet (fo_report F now (session_id index) resolved))
                 (on_fleet (fo_put F (session_id index) (''canary-task-'' @ nat_str index) (index, resolved)
                    (if arm = Candidate then ''candidate'' else ''incumbent'')))))))"

record task_log =
  tl_sessions :: "string list"
  tl_candidates :: "string list"
  tl_fired :: "guardrail_event list"
  tl_stopped :: "string option"
  tl_tasks :: nat

definition empty_log :: task_log where
  "empty_log = \<lparr>tl_sessions = [], tl_candidates = [], tl_fired = [], tl_stopped = None, tl_tasks = 0\<rparr>"

definition log_task :: "(int, guardrail_event list) dict \<Rightarrow> nat \<Rightarrow> session_arm \<Rightarrow> task_log \<Rightarrow> task_log" where
  "log_task events index arm lg =
     (let (fired, stopped) = fire_events (dict_get events (int index) [])
      in \<lparr>tl_sessions = tl_sessions lg @ [session_id index],
          tl_candidates = tl_candidates lg @ (if arm = Candidate then [session_id index] else []),
          tl_fired = tl_fired lg @ fired, tl_stopped = stopped, tl_tasks = index + 1\<rparr>)"

fun run_tasks ::
  "('f, nat \<times> string) fleet_ops \<Rightarrow> rat \<Rightarrow> string \<Rightarrow> string \<Rightarrow> (int, guardrail_event list) dict \<Rightarrow>
   (nat \<times> session_arm) list \<Rightarrow> task_log \<Rightarrow> (exn, ('l, 'f, 'e, 'x) canary_world, task_log) op" where
  "run_tasks F per_task inc cand events [] lg = op_return lg"
| "run_tasks F per_task inc cand events ((index, arm) # rest) lg =
     op_then (serve_task F per_task inc cand index arm)
       (let lg' = log_task events index arm lg
        in if tl_stopped lg' \<noteq> None then op_return lg'
           else run_tasks F per_task inc cand events rest lg')"

section \<open>The run\<close>

definition roll_back_candidate ::
  "('k, 'b, 'l, 'f, 'e, 'x) canary_harness \<Rightarrow> 'b signed_release_manifest \<Rightarrow> string \<Rightarrow>
   (exn, ('l, 'f, 'e, 'x) canary_world, unit) op" where
  "roll_back_candidate H candidate incumbent =
     op_then (on_store (rollback (ch_crypto H) (ch_audit H) (ch_identity H) candidate))
       (op_bind (op_gets (\<lambda>w. clock_seconds (cw_clock w)))
          (\<lambda>now. on_fleet (fo_invalidate (ch_fleet H) now incumbent)))"

definition compensate ::
  "('k, 'b, 'l, 'f, 'e, 'x) canary_harness \<Rightarrow> (exn, ('l, 'f, 'e, 'x) canary_world, unit) op" where
  "compensate H =
     (case (ch_plan H, ch_executor H) of
        (Some plan, Some exec) \<Rightarrow>
          op_bind (on_exec (execute_rollback_compensations (ch_str_of H) exec (\<lambda>_. 0) plan))
            (\<lambda>records. case ch_sink H of
               None \<Rightarrow> op_return ()
             | Some (app, _) \<Rightarrow> on_sink (op_for records app))
      | _ \<Rightarrow> op_return ())"

definition is_unexecuted :: "exn \<Rightarrow> bool" where
  "is_unexecuted e = (case e of Campaign (UnexecutedCompensationError _ _ _ _) \<Rightarrow> True | _ \<Rightarrow> False)"

definition recorded_executions ::
  "('k, 'b, 'l, 'f, 'e, 'x) canary_harness \<Rightarrow> ('l, 'f, 'e, 'x) canary_world \<Rightarrow> execution_record list" where
  "recorded_executions H w = (case ch_sink H of None \<Rightarrow> [] | Some (_, all_of) \<Rightarrow> all_of (cw_sink w))"

definition promotion_gate ::
  "('k, 'b, 'l, 'f, 'e, 'x) canary_harness \<Rightarrow> 'b signed_release_manifest \<Rightarrow> string \<Rightarrow>
   (exn, ('l, 'f, 'e, 'x) canary_world, unit) op" where
  "promotion_gate H candidate incumbent =
     (case ch_plan H of
        None \<Rightarrow> op_return ()
      | Some plan \<Rightarrow>
          op_except
            (op_bind (op_gets (recorded_executions H))
               (\<lambda>ex. op_lift (assert_promotion_allowed (ch_crypto H) (ch_str_of H) plan ex)))
            is_unexecuted
            (\<lambda>e. op_then (roll_back_candidate H candidate incumbent) (op_raise e)))"

definition draw_arms :: "('k, 'b, 'l, 'f, 'e, 'x) canary_harness \<Rightarrow> session_arm list" where
  "draw_arms H =
     (let c = ch_config H;
          allocation = ch_uniform H (cc_seed c) (max_candidate_allocation c);
          total = nat (min_paired_tasks c);
          candidate_count = nat \<lfloor>of_nat total * allocation\<rfloor>
      in ch_shuffle H (cc_seed c) (replicate candidate_count Candidate @
                                  replicate (total - candidate_count) Incumbent))"

definition canary_result_of ::
  "('k, 'b, 'l, 'f, 'e, 'x) canary_harness \<Rightarrow> string \<Rightarrow> rat \<Rightarrow> task_log \<Rightarrow>
   (exn, ('l, 'f, 'e, 'x) canary_world, canary_result) op" where
  "canary_result_of H incumbent started lg =
     op_bind (on_fleet (fo_p99 (ch_fleet H))) (\<lambda>p99. op_gets (\<lambda>w.
       \<lparr>res_outcome = (if tl_stopped lg \<noteq> None then Rolled_Back else Completed),
        res_paired_tasks = tl_tasks lg,
        res_total_sessions = nat (min_paired_tasks (ch_config H)),
        res_candidate_sessions = length (tl_candidates lg),
        res_candidate_allocation = of_nat (length (tl_candidates lg)) / of_int (min_paired_tasks (ch_config H)),
        res_stopped_reason = tl_stopped lg,
        res_rolled_back_to = (if tl_stopped lg \<noteq> None then Some incumbent else None),
        res_coverage = fo_coverage (ch_fleet H) (Some (tl_sessions lg)) (cw_fleet w),
        res_p99 = p99,
        res_observation_elapsed = clock_seconds (cw_clock w) - started,
        res_fired = tl_fired lg\<rparr>))"

definition canary_body ::
  "('k, 'b, 'l, 'f, 'e, 'x) canary_harness \<Rightarrow> 'b signed_release_manifest \<Rightarrow> guardrail_event list \<Rightarrow>
   string \<Rightarrow> (exn, ('l, 'f, 'e, 'x) canary_world, task_log) op" where
  "canary_body H candidate events incumbent =
     (let c = ch_config H; total = nat (min_paired_tasks c); arms = draw_arms H;
          per_task = observation_horizon c / of_nat total
      in op_bind (run_tasks (ch_fleet H) per_task incumbent (manifest_digest candidate)
              (events_by_task events) (map (\<lambda>i. (i, arms ! i)) [0..<total]) empty_log)
           (\<lambda>lg. if tl_stopped lg \<noteq> None
                 then op_then (compensate H)
                        (op_then (roll_back_candidate H candidate incumbent) (op_return lg))
                 else op_then (promotion_gate H candidate incumbent) (op_return lg)))"

definition canary_run ::
  "('k, 'b, 'l, 'f, 'e, 'x) canary_harness \<Rightarrow> 'b signed_release_manifest \<Rightarrow> guardrail_event list \<Rightarrow>
   (exn, ('l, 'f, 'e, 'x) canary_world, canary_result) op" where
  "canary_run H candidate events =
     op_bind (op_gets (\<lambda>w. active_digest (cw_store w))) (\<lambda>active.
       case active of
         None \<Rightarrow> op_raise (Release NoActiveReleaseError)
       | Some incumbent \<Rightarrow>
           if manifest_digest candidate = incumbent
           then op_raise (Release (InvalidCanaryConfigError ''the candidate is the active release''))
           else op_bind (op_gets (\<lambda>w. clock_seconds (cw_clock w))) (\<lambda>started.
             op_then (on_store (activate (ch_crypto H) (ch_audit H) (ch_identity H) candidate))
               (op_bind (op_gets (\<lambda>w. clock_seconds (cw_clock w))) (\<lambda>now.
                  op_then (on_fleet (fo_invalidate (ch_fleet H) now (manifest_digest candidate)))
                    (op_bind (canary_body H candidate events incumbent)
                       (\<lambda>lg. canary_result_of H incumbent started lg))))))"

section \<open>Allocation\<close>

text \<open>What the documentation of \<^verbatim>\<open>random\<close> promises of the two calls.\<close>

definition random_laws :: "('k, 'b, 'l, 'f, 'e, 'x) canary_harness \<Rightarrow> bool" where
  "random_laws H \<longleftrightarrow>
     (\<forall>seed hi. 0 \<le> hi \<longrightarrow> 0 \<le> ch_uniform H seed hi \<and> ch_uniform H seed hi \<le> hi)
     \<and> (\<forall>seed xs. mset (ch_shuffle H seed xs) = mset xs)"

lemma draw_arms_facts:
  assumes "random_laws H" "config_ok (ch_config H)"
  shows "length (draw_arms H) = nat (min_paired_tasks (ch_config H))"
    and "of_nat (count_list (draw_arms H) Candidate)
      \<le> max_candidate_allocation (ch_config H) * of_int (min_paired_tasks (ch_config H))"
proof -
  let ?c = "ch_config H"
  define total where "total = nat (min_paired_tasks ?c)"
  define a where "a = ch_uniform H (cc_seed ?c) (max_candidate_allocation ?c)"
  define k where "k = nat \<lfloor>of_nat total * a\<rfloor>"
  have a: "0 \<le> a" "a \<le> max_candidate_allocation ?c" "max_candidate_allocation ?c \<le> 5 / 100"
    using assms by (auto simp: random_laws_def config_ok_def a_def)
  have tot: "of_int (min_paired_tasks ?c) = (of_nat total :: rat)"
    using assms(2) by (simp add: config_ok_def total_def)
  have k: "of_nat k \<le> (of_nat total :: rat) * a"
    using a(1) by (simp add: k_def)
  also have "\<dots> \<le> of_nat total * 1" using a by (intro mult_left_mono) auto
  finally have kt: "k \<le> total" by simp
  have m: "mset (draw_arms H) = mset (replicate k Candidate @ replicate (total - k) Incumbent)"
    using assms(1) by (simp add: draw_arms_def random_laws_def Let_def k_def a_def total_def)
  from mset_eq_length [OF m] kt show "length (draw_arms H) = nat (min_paired_tasks ?c)"
    by (simp add: total_def)
  have "count_list (draw_arms H) Candidate = k"
    using m by (simp flip: count_mset)
  moreover have "of_nat k \<le> (of_nat total :: rat) * max_candidate_allocation ?c"
    using k mult_left_mono [OF a(2), of "of_nat total"] by simp
  ultimately show "of_nat (count_list (draw_arms H) Candidate)
      \<le> max_candidate_allocation ?c * of_int (min_paired_tasks ?c)"
    unfolding tot by (simp add: mult.commute)
qed

end
