(* ===== verification/CanaryRun.thy ===== *)
theory CanaryRun
  imports Canary
begin

text \<open>
  What a canary run does, for every fleet that keeps the interface of \<^verbatim>\<open>Fleet\<close>: the task loop serves
  a prefix of the drawn sessions that ends with the first severity-1 event, and the run ends with the
  candidate active, the prior release active, or an exception whose state is stated.
\<close>

section \<open>The task loop\<close>

definition sev1_at :: "guardrail_event list \<Rightarrow> nat \<Rightarrow> bool" where
  "sev1_at events i \<longleftrightarrow> (\<exists>e \<in> set events. ge_task_index e = int i \<and> is_severity_one e)"

text \<open>The sessions served: all of them, or up to the first whose task has a severity-1 event.\<close>

fun served :: "guardrail_event list \<Rightarrow> (nat \<times> session_arm) list \<Rightarrow> (nat \<times> session_arm) list" where
  "served events [] = []"
| "served events ((i, a) # xs) = (i, a) # (if sev1_at events i then [] else served events xs)"

definition log_all :: "guardrail_event list \<Rightarrow> (nat \<times> session_arm) list \<Rightarrow> task_log \<Rightarrow> task_log" where
  "log_all events xs lg =
     foldl (\<lambda>l (i, a). log_task (events_by_task events) i a l) lg (served events xs)"

lemma log_task_stopped: "tl_stopped (log_task (events_by_task events) i a lg) \<noteq> None \<longleftrightarrow> sev1_at events i"
proof -
  have "snd (fire_events (filter (\<lambda>e. ge_task_index e = int i) events)) = None \<longleftrightarrow> \<not> sev1_at events i"
    by (auto simp: fire_events_stop sev1_at_def)
  then show ?thesis
    by (simp add: log_task_def events_by_task_get Let_def case_prod_beta)
qed

lemma served_prefix: "prefix (served events xs) xs"
  by (induction events xs rule: served.induct) auto

lemma served_all: "\<forall>(i, a) \<in> set xs. \<not> sev1_at events i \<Longrightarrow> served events xs = xs"
  by (induction events xs rule: served.induct) auto

lemma log_all_Cons:
  "log_all events ((i, a) # xs) lg =
     (if sev1_at events i then log_task (events_by_task events) i a lg
      else log_all events xs (log_task (events_by_task events) i a lg))"
  by (simp add: log_all_def)

lemma log_all_facts:
  "tl_sessions (log_all events xs lg) = tl_sessions lg @ map (session_id \<circ> fst) (served events xs)"
  "tl_candidates (log_all events xs lg) =
     tl_candidates lg @ map (session_id \<circ> fst) (filter (\<lambda>(i, a). a = Candidate) (served events xs))"
  "served events xs \<noteq> [] \<Longrightarrow> tl_tasks (log_all events xs lg) = fst (last (served events xs)) + 1"
proof -
  have gen: "tl_sessions (foldl (\<lambda>l (i, a). log_task ev i a l) lg ys) = tl_sessions lg @ map (session_id \<circ> fst) ys
    \<and> tl_candidates (foldl (\<lambda>l (i, a). log_task ev i a l) lg ys) =
        tl_candidates lg @ map (session_id \<circ> fst) (filter (\<lambda>(i, a). a = Candidate) ys)
    \<and> (ys \<noteq> [] \<longrightarrow> tl_tasks (foldl (\<lambda>l (i, a). log_task ev i a l) lg ys) = fst (last ys) + 1)" for ev ys
    by (induction ys rule: rev_induct) (auto simp: log_task_def Let_def case_prod_beta)
  show "tl_sessions (log_all events xs lg) = tl_sessions lg @ map (session_id \<circ> fst) (served events xs)"
    "tl_candidates (log_all events xs lg) =
       tl_candidates lg @ map (session_id \<circ> fst) (filter (\<lambda>(i, a). a = Candidate) (served events xs))"
    "served events xs \<noteq> [] \<Longrightarrow> tl_tasks (log_all events xs lg) = fst (last (served events xs)) + 1"
    using gen by (auto simp: log_all_def)
qed

lemma log_all_stopped:
  "tl_stopped lg = None \<Longrightarrow>
     tl_stopped (log_all events xs lg) \<noteq> None \<longleftrightarrow> (\<exists>(i, a) \<in> set xs. sev1_at events i)"
proof (induction xs arbitrary: lg)
  case Nil
  then show ?case by (simp add: log_all_def)
next
  case (Cons ia xs)
  obtain i a where ia: "ia = (i, a)" by fastforce
  show ?case
    using Cons.IH [of "log_task (events_by_task events) i a lg"]
      log_task_stopped [of events i a lg]
    by (auto simp: ia log_all_Cons)
qed

text \<open>The world after some sessions: only the fleet and the clock have moved.\<close>

definition serve_world ::
  "('l, 'f, 'e, 'x) canary_world \<Rightarrow> 'f \<Rightarrow> rat \<Rightarrow> ('l, 'f, 'e, 'x) canary_world" where
  "serve_world w f t = w\<lparr>cw_fleet := f,
     cw_clock := (cw_clock w)\<lparr>clock_elapsed := clock_elapsed (cw_clock w) + t\<rparr>\<rparr>"

lemma serve_world_simps [simp]:
  "cw_store (serve_world w f t) = cw_store w" "cw_fleet (serve_world w f t) = f"
  "cw_sink (serve_world w f t) = cw_sink w" "cw_exec (serve_world w f t) = cw_exec w"
  "clock_elapsed (cw_clock (serve_world w f t)) = clock_elapsed (cw_clock w) + t"
  "clock_scale (cw_clock (serve_world w f t)) = clock_scale (cw_clock w)"
  by (simp_all add: serve_world_def)

lemma serve_world_twice: "serve_world (serve_world w f t) f' t' = serve_world w f' (t + t')"
  by (simp add: serve_world_def add.assoc)

text \<open>The harness stores the task index and the digest it resolved.\<close>

locale canary_serving = canary_fleet F pin_of reported_of measured
  for F :: "('f, nat \<times> string) fleet_ops"
    and pin_of :: "'f \<Rightarrow> string \<rightharpoonup> string \<times> session_arm"
    and reported_of :: "'f \<Rightarrow> string list"
    and measured :: "'f \<Rightarrow> bool"
begin

lemma serve_task_fresh:
  assumes "pin_of (cw_fleet w) (session_id i) = None" "0 \<le> t"
  shows "\<exists>f'. serve_task F t inc cand i arm w = (Inr (), serve_world w f' t)
    \<and> pin_of f' = (pin_of (cw_fleet w))(session_id i \<mapsto> (if arm = Candidate then cand else inc, arm))
    \<and> reported_of f' = reported_of (cw_fleet w) @ [session_id i] \<and> measured f' = measured (cw_fleet w)"
proof -
  let ?sid = "session_id i" and ?d = "if arm = Candidate then cand else inc"
  let ?now = "clock_seconds (cw_clock (serve_world w (cw_fleet w) t))"
  obtain f1 where 1: "fo_pin F ?sid ?d arm (cw_fleet w) = (Inr (), f1)"
      "pin_of f1 = (pin_of (cw_fleet w))(?sid \<mapsto> (?d, arm))"
      "reported_of f1 = reported_of (cw_fleet w)" "measured f1 = measured (cw_fleet w)"
    using pin_fresh [OF assms(1)] by blast
  then have r: "fo_resolve F ?sid f1 = (Inr ?d, f1)" by (simp add: resolve_pinned)
  obtain f2 where 2: "fo_report F ?now ?sid ?d f1 = (Inr (), f2)" "pin_of f2 = pin_of f1"
      "reported_of f2 = reported_of f1 @ [?sid]" "measured f2 = measured f1"
    using report_resolved [of f1 ?sid ?d arm ?now] 1 by auto
  obtain f3 where 3: "fo_put F ?sid (''canary-task-'' @ nat_str i) (i, ?d) (arm_namespace arm) f2 = (Inr (), f3)"
      "pin_of f3 = pin_of f2" "reported_of f3 = reported_of f2" "measured f3 = measured f2"
    using put_own [of f2 ?sid ?d arm "''canary-task-'' @ nat_str i" "(i, ?d)"] 1 2 by auto
  have ns: "(if arm = Candidate then ''candidate'' else ''incumbent'') = arm_namespace arm"
    by (simp add: arm_namespace_def)
  have "serve_task F t inc cand i arm w = (Inr (), serve_world w f3 t)"
    using assms(2) 1(1) r 2(1) 3(1)
    by (simp add: serve_task_def op_defs serve_world_def ns)
  with 1 2 3 show ?thesis by auto
qed

text \<open>A session id already pinned elsewhere stops the task before anything but the clock has moved.\<close>

lemma serve_task_conflict:
  assumes "pin_of (cw_fleet w) (session_id i) = Some (d', arm')" "d' \<notin> {cand, inc}" "0 \<le> t"
  shows "\<exists>d. serve_task F t inc cand i arm w =
    (Inl (Release (SessionPinError (session_id i) d' d)), serve_world w (cw_fleet w) t)"
proof -
  let ?d = "if arm = Candidate then cand else inc"
  have "fo_pin F (session_id i) ?d arm (cw_fleet w) =
      (Inl (Release (SessionPinError (session_id i) d' ?d)), cw_fleet w)"
    using assms(1,2) by (intro pin_conflict) auto
  with assms(3) show ?thesis by (simp add: serve_task_def op_defs serve_world_def)
qed

lemma run_tasks_fresh:
  assumes "distinct (map fst xs)" "\<forall>(i, a) \<in> set xs. pin_of (cw_fleet w) (session_id i) = None" "0 \<le> t"
  shows "\<exists>f'. run_tasks F t inc cand (events_by_task events) xs lg w =
      (Inr (log_all events xs lg), serve_world w f' (t * of_nat (length (served events xs))))
    \<and> reported_of f' = reported_of (cw_fleet w) @ map (session_id \<circ> fst) (served events xs)
    \<and> measured f' = measured (cw_fleet w)"
  using assms
proof (induction xs arbitrary: w lg)
  case Nil
  then show ?case
    by (intro exI [of _ "cw_fleet w"]) (simp add: op_return_def log_all_def serve_world_def)
next
  case (Cons ia xs)
  obtain i a where ia: "ia = (i, a)" by fastforce
  let ?lg = "log_task (events_by_task events) i a lg"
  obtain f1 where 1: "serve_task F t inc cand i a w = (Inr (), serve_world w f1 t)"
      "pin_of f1 = (pin_of (cw_fleet w))(session_id i \<mapsto> (if a = Candidate then cand else inc, a))"
      "reported_of f1 = reported_of (cw_fleet w) @ [session_id i]" "measured f1 = measured (cw_fleet w)"
    using serve_task_fresh [of w i t inc cand a] Cons.prems ia by auto
  show ?case
  proof (cases "sev1_at events i")
    case True
    then have "tl_stopped ?lg \<noteq> None" using log_task_stopped by blast
    with True 1 show ?thesis
      by (intro exI [of _ f1]) (auto simp: ia op_then_def op_bind_def op_return_def log_all_Cons Let_def)
  next
    case False
    then have st: "tl_stopped ?lg = None" using log_task_stopped by blast
    let ?w = "serve_world w f1 t"
    have "\<forall>(j, b) \<in> set xs. pin_of (cw_fleet ?w) (session_id j) = None"
      using Cons.prems 1(2) by (fastforce simp: ia image_iff)
    then obtain f2 where 2: "run_tasks F t inc cand (events_by_task events) xs ?lg ?w =
        (Inr (log_all events xs ?lg), serve_world ?w f2 (t * of_nat (length (served events xs))))"
      "reported_of f2 = reported_of (cw_fleet ?w) @ map (session_id \<circ> fst) (served events xs)"
      "measured f2 = measured (cw_fleet ?w)"
      using Cons.IH [of ?w ?lg] Cons.prems by (auto simp: ia)
    with False 1 st show ?thesis
      by (intro exI [of _ f2])
        (simp add: ia op_then_def op_bind_def log_all_Cons Let_def serve_world_twice algebra_simps)
  qed
qed

end

section \<open>The whole run\<close>

text \<open>A canary that can start: an incumbent is active, the candidate is signed and names another
  digest, the harness holds the controller's identity, and its session ids are new to the fleet.\<close>

definition canary_startable ::
  "('k, 'b, pointer_audit_entry list, 'f, 'e, 'x) canary_harness \<Rightarrow>
   (pointer_audit_entry list, 'f, 'e, 'x) canary_world \<Rightarrow> 'b signed_release_manifest \<Rightarrow> string \<Rightarrow> bool" where
  "canary_startable H w m inc \<longleftrightarrow>
     random_laws H \<and> config_ok (ch_config H) \<and> ch_audit H = mem_audit
     \<and> wid_role (ch_identity H) = RELEASE_CONTROLLER
     \<and> verify_release_manifest (ch_crypto H) m = Inr () \<and> assert_distinct_from_prior m = Inr ()
     \<and> active_digest (cw_store w) = Some inc \<and> manifest_digest m \<noteq> inc"

definition canary_ready ::
  "('k, 'b, pointer_audit_entry list, 'f, 'e, 'x) canary_harness \<Rightarrow> ('f \<Rightarrow> string \<rightharpoonup> string \<times> session_arm) \<Rightarrow>
   (pointer_audit_entry list, 'f, 'e, 'x) canary_world \<Rightarrow> 'b signed_release_manifest \<Rightarrow> string \<Rightarrow> bool" where
  "canary_ready H pin_of w m inc \<longleftrightarrow> canary_startable H w m inc
     \<and> (\<forall>i < nat (min_paired_tasks (ch_config H)). pin_of (cw_fleet w) (session_id i) = None)"

definition drawn :: "('k, 'b, 'l, 'f, 'e, 'x) canary_harness \<Rightarrow> (nat \<times> session_arm) list" where
  "drawn H = map (\<lambda>i. (i, draw_arms H ! i)) [0..<nat (min_paired_tasks (ch_config H))]"

lemma drawn_fst: "map fst (drawn H) = [0..<nat (min_paired_tasks (ch_config H))]"
  by (simp add: drawn_def comp_def)

lemma drawn_candidates:
  assumes "random_laws H" "config_ok (ch_config H)"
  shows "length (filter (\<lambda>(i, a). a = Candidate) (drawn H)) = count_list (draw_arms H) Candidate"
proof -
  have l: "length (draw_arms H) = nat (min_paired_tasks (ch_config H))"
    by (rule draw_arms_facts(1) [OF assms])
  have "map snd (drawn H) = draw_arms H"
    by (simp add: drawn_def comp_def map_nth flip: l)
  moreover have "length (filter (\<lambda>(i, a). a = Candidate) xs) = count_list (map snd xs) Candidate"
    for xs :: "(nat \<times> session_arm) list"
    by (induction xs) auto
  ultimately show ?thesis by simp
qed

definition task_seconds :: "('k, 'b, 'l, 'f, 'e, 'x) canary_harness \<Rightarrow> rat" where
  "task_seconds H = observation_horizon (ch_config H) / of_nat (nat (min_paired_tasks (ch_config H)))"

lemma task_seconds_nonneg: "config_ok (ch_config H) \<Longrightarrow> 0 \<le> task_seconds H"
  by (simp add: task_seconds_def config_ok_def)

text \<open>The two halves of the body after the loop.\<close>

definition canary_finish ::
  "('k, 'b, 'l, 'f, 'e, 'x) canary_harness \<Rightarrow> 'b signed_release_manifest \<Rightarrow> string \<Rightarrow> task_log \<Rightarrow>
   (exn, ('l, 'f, 'e, 'x) canary_world, task_log) op" where
  "canary_finish H m inc lg =
     (if tl_stopped lg \<noteq> None
      then op_then (compensate H) (op_then (roll_back_candidate H m inc) (op_return lg))
      else op_then (promotion_gate H m inc) (op_return lg))"

lemma canary_body_eq:
  "canary_body H m events inc =
     op_bind (run_tasks (ch_fleet H) (task_seconds H) inc (manifest_digest m) (events_by_task events)
                (drawn H) empty_log) (canary_finish H m inc)"
  by (simp add: canary_body_def canary_finish_def [abs_def] drawn_def task_seconds_def Let_def)

context canary_serving
begin

text \<open>The checks, the activation and the first invalidation.\<close>

lemma canary_run_start:
  assumes start: "canary_startable H w m inc" and F: "ch_fleet H = F"
  shows "\<exists>s1 f1. canary_run H m events w =
      (op_bind (canary_body H m events inc) (canary_result_of H inc (clock_seconds (cw_clock w))))
      (w\<lparr>cw_store := s1, cw_fleet := f1\<rparr>)
    \<and> active_digest s1 = Some (manifest_digest m) \<and> pin_of f1 = pin_of (cw_fleet w)
    \<and> reported_of f1 = reported_of (cw_fleet w) \<and> measured f1"
proof -
  obtain p s1 where act: "activate (ch_crypto H) mem_audit (ch_identity H) m (cw_store w) = (Inr p, s1)"
      and s1: "active_digest s1 = Some (manifest_digest m)"
    using start mem_activate_ok [of "ch_identity H" "ch_crypto H" m "cw_store w"]
    by (auto simp: canary_startable_def) (metis prod.collapse)
  obtain f1 where inv: "fo_invalidate F (clock_seconds (cw_clock w)) (manifest_digest m) (cw_fleet w) = (Inr (), f1)"
      and f1: "pin_of f1 = pin_of (cw_fleet w)" "reported_of f1 = reported_of (cw_fleet w)" "measured f1"
    using invalidate_ok by blast
  have aud: "ch_audit H = mem_audit" and some: "active_digest (cw_store w) = Some inc"
    and ne: "manifest_digest m \<noteq> inc" using start by (simp_all add: canary_startable_def)
  have "canary_run H m events w =
      (op_bind (canary_body H m events inc) (canary_result_of H inc (clock_seconds (cw_clock w))))
      (w\<lparr>cw_store := s1, cw_fleet := f1\<rparr>)"
    using act inv by (simp add: canary_run_def op_defs aud some ne F)
  with s1 f1 show ?thesis by blast
qed

text \<open>The run up to the end of the task loop: the candidate is active, the served sessions have
  reported, and only the horizon's share of time has passed.\<close>

lemma canary_run_to_loop_end:
  assumes ready: "canary_ready H pin_of w m inc" and F: "ch_fleet H = F"
  shows "\<exists>w'. canary_run H m events w =
      (op_bind (canary_finish H m inc (log_all events (drawn H) empty_log))
         (canary_result_of H inc (clock_seconds (cw_clock w)))) w'
    \<and> active_digest (cw_store w') = Some (manifest_digest m)
    \<and> cw_sink w' = cw_sink w \<and> cw_exec w' = cw_exec w
    \<and> reported_of (cw_fleet w') = reported_of (cw_fleet w) @ map (session_id \<circ> fst) (served events (drawn H))
    \<and> measured (cw_fleet w')
    \<and> cw_clock w' = (cw_clock w)\<lparr>clock_elapsed := clock_elapsed (cw_clock w)
         + task_seconds H * of_nat (length (served events (drawn H)))\<rparr>"
proof -
  have start: "canary_startable H w m inc"
    and fresh: "\<forall>i < nat (min_paired_tasks (ch_config H)). pin_of (cw_fleet w) (session_id i) = None"
    using ready by (simp_all add: canary_ready_def)
  obtain s1 f1 where step: "canary_run H m events w =
        (op_bind (canary_body H m events inc) (canary_result_of H inc (clock_seconds (cw_clock w))))
        (w\<lparr>cw_store := s1, cw_fleet := f1\<rparr>)"
      "active_digest s1 = Some (manifest_digest m)"
      and f1: "pin_of f1 = pin_of (cw_fleet w)" "reported_of f1 = reported_of (cw_fleet w)" "measured f1"
    using canary_run_start [OF start F] by blast
  let ?w1 = "w\<lparr>cw_store := s1, cw_fleet := f1\<rparr>"
  have "\<forall>(i, a) \<in> set (drawn H). pin_of (cw_fleet ?w1) (session_id i) = None"
    using fresh f1(1) by (auto simp: drawn_def)
  moreover have "0 \<le> task_seconds H" using start by (simp add: canary_startable_def task_seconds_nonneg)
  moreover have "distinct (map fst (drawn H))" by (simp add: drawn_fst)
  ultimately obtain f2 where loop: "run_tasks F (task_seconds H) inc (manifest_digest m)
        (events_by_task events) (drawn H) empty_log ?w1 =
      (Inr (log_all events (drawn H) empty_log),
       serve_world ?w1 f2 (task_seconds H * of_nat (length (served events (drawn H)))))"
      "reported_of f2 = reported_of (cw_fleet ?w1) @ map (session_id \<circ> fst) (served events (drawn H))"
      "measured f2 = measured (cw_fleet ?w1)"
    using run_tasks_fresh [of "drawn H" ?w1 "task_seconds H" inc "manifest_digest m" events empty_log]
    by blast
  have "canary_run H m events w =
      (op_bind (canary_finish H m inc (log_all events (drawn H) empty_log))
         (canary_result_of H inc (clock_seconds (cw_clock w))))
      (serve_world ?w1 f2 (task_seconds H * of_nat (length (served events (drawn H)))))"
    unfolding step(1) canary_body_eq F using loop(1) by (simp add: op_bind_def)
  then show ?thesis
    using step(2) loop(2,3) f1
    by (intro exI [of _ "serve_world ?w1 f2 (task_seconds H * of_nat (length (served events (drawn H))))"])
      (simp add: serve_world_def)
qed

text \<open>A session id the fleet has pinned to a third digest ends the run in the first task, with the
  candidate active.\<close>

lemma stale_pin_run:
  assumes start: "canary_startable H w m inc" and F: "ch_fleet H = F"
    and stale: "pin_of (cw_fleet w) (session_id 0) = Some (old, arm)" "old \<notin> {manifest_digest m, inc}"
  shows "\<exists>d w'. canary_run H m events w = (Inl (Release (SessionPinError (session_id 0) old d)), w')
    \<and> active_digest (cw_store w') = Some (manifest_digest m)"
proof -
  obtain s1 f1 where step: "canary_run H m events w =
        (op_bind (canary_body H m events inc) (canary_result_of H inc (clock_seconds (cw_clock w))))
        (w\<lparr>cw_store := s1, cw_fleet := f1\<rparr>)"
      "active_digest s1 = Some (manifest_digest m)" and f1: "pin_of f1 = pin_of (cw_fleet w)"
    using canary_run_start [OF start F] by blast
  let ?w1 = "w\<lparr>cw_store := s1, cw_fleet := f1\<rparr>"
  have cfg: "config_ok (ch_config H)" using start by (simp add: canary_startable_def)
  then obtain a xs where dr: "drawn H = (0, a) # xs"
    by (simp add: drawn_def config_ok_def upt_conv_Cons)
  obtain d where "serve_task F (task_seconds H) inc (manifest_digest m) 0 a ?w1 =
      (Inl (Release (SessionPinError (session_id 0) old d)), serve_world ?w1 (cw_fleet ?w1) (task_seconds H))"
    using serve_task_conflict [of ?w1 0 old arm "manifest_digest m" inc "task_seconds H" a]
      stale f1 task_seconds_nonneg [OF cfg] by auto
  with step show ?thesis
    by (simp add: canary_body_eq dr F op_defs)
qed

text \<open>Reading the result: the measurement never fails, and every served session has reported.\<close>

lemma canary_result_eq:
  assumes "ch_fleet H = F" "measured (cw_fleet w)" "set (tl_sessions lg) \<subseteq> set (reported_of (cw_fleet w))"
  shows "\<exists>r. canary_result_of H inc started lg w = (Inr r, w) \<and> res_coverage r = 1
    \<and> res_outcome r = (if tl_stopped lg \<noteq> None then Rolled_Back else Completed)
    \<and> res_paired_tasks r = tl_tasks lg
    \<and> res_candidate_sessions r = length (tl_candidates lg)
    \<and> res_candidate_allocation r = of_nat (length (tl_candidates lg)) / of_int (min_paired_tasks (ch_config H))
    \<and> res_rolled_back_to r = (if tl_stopped lg \<noteq> None then Some inc else None)
    \<and> res_observation_elapsed r = clock_seconds (cw_clock w) - started
    \<and> res_fired r = tl_fired lg"
proof -
  obtain v where "fo_p99 F (cw_fleet w) = (Inr v, cw_fleet w)" using p99_ok [OF assms(2)] by blast
  with assms(1) coverage_full [OF assms(3)] show ?thesis
    by (simp add: canary_result_of_def op_defs)
qed

end

interpretation sim_serving: canary_serving sim_ops sim_pin_of sim_reported sim_measured
  by unfold_locales

end
