(* ===== verification/CanaryOutcomes.thy ===== *)
theory CanaryOutcomes
  imports CanaryRun
begin

text \<open>
  The endings of a canary. Inside the fleet's interface each ending is computed from the world at the
  end of the task loop; the properties then state them for the in-process fleet of the repository.
\<close>

section \<open>The two halves after the loop\<close>

definition no_sev1 :: "('k, 'b, 'l, 'f, 'e, 'x) canary_harness \<Rightarrow> guardrail_event list \<Rightarrow> bool" where
  "no_sev1 H events \<longleftrightarrow> (\<forall>i < nat (min_paired_tasks (ch_config H)). \<not> sev1_at events i)"

definition first_sev1 :: "('k, 'b, 'l, 'f, 'e, 'x) canary_harness \<Rightarrow> guardrail_event list \<Rightarrow> nat \<Rightarrow> bool" where
  "first_sev1 H events i \<longleftrightarrow> i < nat (min_paired_tasks (ch_config H)) \<and> sev1_at events i \<and> (\<forall>j < i. \<not> sev1_at events j)"

lemma no_sev1_served: "no_sev1 H events \<Longrightarrow> served events (drawn H) = drawn H"
  by (rule served_all) (auto simp: no_sev1_def drawn_def)

lemma served_first:
  assumes "sev1_at events i" "\<forall>j < i. \<not> sev1_at events j" "i < n" "k \<le> i"
  shows "served events (map (\<lambda>i. (i, f i)) [k..<n]) = map (\<lambda>i. (i, f i)) [k..<Suc i]"
  using assms(4)
proof (induction "i - k" arbitrary: k)
  case 0
  then have "k = i" by simp
  with assms show ?case by (simp add: upt_conv_Cons)
next
  case (Suc d)
  then have "k < i" "d = i - Suc k" "Suc k \<le> i" by simp_all
  with Suc.hyps(1) [of "Suc k"] assms show ?case by (simp add: upt_conv_Cons del: upt_Suc)
qed

lemma first_sev1_served:
  "first_sev1 H events i \<Longrightarrow> served events (drawn H) = map (\<lambda>i. (i, draw_arms H ! i)) [0..<Suc i]"
  unfolding drawn_def first_sev1_def by (intro served_first) auto

lemma total_pos: "config_ok (ch_config H) \<Longrightarrow> 0 < nat (min_paired_tasks (ch_config H))"
  by (simp add: config_ok_def)

lemma no_sev1_log:
  assumes "no_sev1 H events" "config_ok (ch_config H)"
  shows "tl_stopped (log_all events (drawn H) empty_log) = None"
    and "tl_tasks (log_all events (drawn H) empty_log) = nat (min_paired_tasks (ch_config H))"
    and "tl_candidates (log_all events (drawn H) empty_log) =
      map (session_id \<circ> fst) (filter (\<lambda>(i, a). a = Candidate) (drawn H))"
    and "tl_sessions (log_all events (drawn H) empty_log) = map (session_id \<circ> fst) (drawn H)"
proof -
  have "\<not> (\<exists>(i, a) \<in> set (drawn H). sev1_at events i)"
    using assms(1) by (auto simp: no_sev1_def drawn_def)
  then show "tl_stopped (log_all events (drawn H) empty_log) = None"
    using log_all_stopped [of empty_log events "drawn H"] by (auto simp: empty_log_def)
  have "drawn H \<noteq> []" "fst (last (drawn H)) = nat (min_paired_tasks (ch_config H)) - 1"
    using total_pos [OF assms(2)] by (simp_all add: drawn_def last_map)
  then show "tl_tasks (log_all events (drawn H) empty_log) = nat (min_paired_tasks (ch_config H))"
    using log_all_facts(3) [of events "drawn H" empty_log] total_pos [OF assms(2)]
    by (simp add: no_sev1_served [OF assms(1)])
qed (simp_all add: log_all_facts no_sev1_served [OF assms(1)] empty_log_def)

lemma first_sev1_log:
  assumes "first_sev1 H events i"
  shows "tl_stopped (log_all events (drawn H) empty_log) \<noteq> None"
    and "tl_tasks (log_all events (drawn H) empty_log) = Suc i"
    and "tl_sessions (log_all events (drawn H) empty_log) = map session_id [0..<Suc i]"
proof -
  have "\<exists>(i, a) \<in> set (drawn H). sev1_at events i"
    using assms by (auto simp: first_sev1_def drawn_def)
  then show "tl_stopped (log_all events (drawn H) empty_log) \<noteq> None"
    using log_all_stopped [of empty_log events "drawn H"] by (auto simp: empty_log_def)
  show "tl_tasks (log_all events (drawn H) empty_log) = Suc i"
    using log_all_facts(3) [of events "drawn H" empty_log] by (simp add: first_sev1_served [OF assms])
qed (simp add: log_all_facts first_sev1_served [OF assms] empty_log_def comp_def del: upt_Suc)

text \<open>What the compensations of a rollback need to go through: without a plan or an executor nothing;
  otherwise an executor that fails on no owed action and a sink that takes every record.\<close>

definition compensates ::
  "('k, 'b, 'l, 'f, 'e, 'x) canary_harness \<Rightarrow> ('l, 'f, 'e, 'x) canary_world \<Rightarrow> bool" where
  "compensates H w \<longleftrightarrow> fst (compensate H w) = Inr ()"

text \<open>Compensating moves only the executor's world and the sink.\<close>

lemma compensate_frame:
  "cw_store (snd (compensate H w)) = cw_store w \<and> cw_fleet (snd (compensate H w)) = cw_fleet w
   \<and> cw_clock (snd (compensate H w)) = cw_clock w"
  by (auto simp: compensate_def op_bind_def op_zoom_def op_return_def
      split: option.splits prod.splits sum.splits)

text \<open>Whether it goes through depends on those two alone.\<close>

lemma compensate_cong:
  "cw_sink w = cw_sink w' \<Longrightarrow> cw_exec w = cw_exec w' \<Longrightarrow> fst (compensate H w) = fst (compensate H w')"
  by (auto simp: compensate_def op_bind_def op_zoom_def op_return_def
      split: option.splits prod.splits sum.splits)

lemma recorded_executions_cong:
  "cw_sink w = cw_sink w' \<Longrightarrow> recorded_executions H w = recorded_executions H w'"
  by (simp add: recorded_executions_def split: option.splits)

lemma length_drawn: "length (drawn H) = nat (min_paired_tasks (ch_config H))"
  by (simp add: drawn_def)

lemma task_seconds_total:
  "config_ok (ch_config H) \<Longrightarrow>
     task_seconds H * of_nat (length (drawn H)) = observation_horizon (ch_config H)"
  by (simp add: task_seconds_def length_drawn config_ok_def)

context canary_serving
begin

lemma roll_back_candidate_ok:
  assumes "canary_ready H pin_of w0 m inc" "ch_fleet H = F" "prior_release_digest m = Some prior"
    and "active_digest (cw_store w) = Some (manifest_digest m)"
  shows "\<exists>w'. roll_back_candidate H m inc w = (Inr (), w') \<and> active_digest (cw_store w') = Some prior
    \<and> cw_clock w' = cw_clock w \<and> reported_of (cw_fleet w') = reported_of (cw_fleet w)
    \<and> measured (cw_fleet w') \<and> cw_sink w' = cw_sink w \<and> cw_exec w' = cw_exec w"
proof -
  obtain p s1 where rb: "rollback (ch_crypto H) mem_audit (ch_identity H) m (cw_store w) = (Inr p, s1)"
      "active_digest s1 = Some prior"
    using mem_rollback_ok [of "ch_identity H" "ch_crypto H" m prior "cw_store w"] assms
    by (auto simp: canary_ready_def canary_startable_def) (metis prod.collapse)
  obtain f1 where "fo_invalidate F (clock_seconds (cw_clock w)) inc (cw_fleet w) = (Inr (), f1)"
      "reported_of f1 = reported_of (cw_fleet w)" "measured f1"
    using invalidate_ok by blast
  with rb assms(1,2) show ?thesis
    by (intro exI [of _ "w\<lparr>cw_store := s1, cw_fleet := f1\<rparr>"])
      (simp add: roll_back_candidate_def op_defs canary_ready_def canary_startable_def)
qed

lemma roll_back_candidate_no_prior:
  assumes "canary_ready H pin_of w0 m inc" "prior_release_digest m = None"
  shows "roll_back_candidate H m inc w = (Inl (Release (RollbackUnavailableError (manifest_digest m))), w)"
  using assms by (simp add: roll_back_candidate_def op_defs canary_ready_def canary_startable_def rollback_def)

text \<open>Every result reports full coverage: what was logged as served has reported.\<close>

lemma result_after:
  assumes "ch_fleet H = F" "measured (cw_fleet w)"
    and "reported_of (cw_fleet w) = rs @ map (session_id \<circ> fst) (served events (drawn H))"
  shows "\<exists>r. canary_result_of H inc started (log_all events (drawn H) empty_log) w = (Inr r, w)
    \<and> res_coverage r = 1
    \<and> res_outcome r = (if tl_stopped (log_all events (drawn H) empty_log) \<noteq> None then Rolled_Back else Completed)
    \<and> res_paired_tasks r = tl_tasks (log_all events (drawn H) empty_log)
    \<and> res_candidate_allocation r =
        of_nat (length (tl_candidates (log_all events (drawn H) empty_log))) / of_int (min_paired_tasks (ch_config H))
    \<and> res_rolled_back_to r = (if tl_stopped (log_all events (drawn H) empty_log) \<noteq> None then Some inc else None)
    \<and> res_observation_elapsed r = clock_seconds (cw_clock w) - started"
proof -
  have "set (tl_sessions (log_all events (drawn H) empty_log)) \<subseteq> set (reported_of (cw_fleet w))"
    by (simp add: assms(3) log_all_facts empty_log_def)
  from canary_result_eq [OF assms(1,2) this, of inc started] show ?thesis by blast
qed


lemma completed_run:
  assumes ready: "canary_ready H pin_of w m inc" and F: "ch_fleet H = F" and quiet: "no_sev1 H events"
    and gate: "\<forall>plan. ch_plan H = Some plan \<longrightarrow>
      assert_promotion_allowed (ch_crypto H) (ch_str_of H) plan
        (recorded_executions H w) = Inr ()"
  shows "\<exists>r w'. canary_run H m events w = (Inr r, w')
    \<and> res_outcome r = Completed \<and> active_digest (cw_store w') = Some (manifest_digest m)
    \<and> res_paired_tasks r = nat (min_paired_tasks (ch_config H)) \<and> res_coverage r = 1
    \<and> res_candidate_allocation r \<le> max_candidate_allocation (ch_config H)
    \<and> res_observation_elapsed r = observation_horizon (ch_config H) * clock_scale (cw_clock w)
    \<and> res_rolled_back_to r = None"
proof -
  let ?c = "ch_config H" and ?lg = "log_all events (drawn H) empty_log"
  have cfg: "config_ok ?c" and rnd: "random_laws H" using ready by (simp_all add: canary_ready_def canary_startable_def)
  note lg = no_sev1_log [OF quiet cfg]
  obtain w' where w': "canary_run H m events w =
        (op_bind (canary_finish H m inc ?lg) (canary_result_of H inc (clock_seconds (cw_clock w)))) w'"
      "active_digest (cw_store w') = Some (manifest_digest m)" "cw_sink w' = cw_sink w"
      "reported_of (cw_fleet w') = reported_of (cw_fleet w) @ map (session_id \<circ> fst) (served events (drawn H))"
      "measured (cw_fleet w')"
      "cw_clock w' = (cw_clock w)\<lparr>clock_elapsed := clock_elapsed (cw_clock w)
         + task_seconds H * of_nat (length (served events (drawn H)))\<rparr>"
    using canary_run_to_loop_end [OF ready F] by blast
  have "canary_finish H m inc ?lg w' = (Inr ?lg, w')"
    using gate lg(1) recorded_executions_cong [OF w'(3), of H]
    by (auto simp: canary_finish_def promotion_gate_def op_defs split: option.splits)
  moreover obtain r where r: "canary_result_of H inc (clock_seconds (cw_clock w)) ?lg w' = (Inr r, w')"
      "res_coverage r = 1" "res_outcome r = Completed" "res_paired_tasks r = tl_tasks ?lg"
      "res_candidate_allocation r = of_nat (length (tl_candidates ?lg)) / of_int (min_paired_tasks ?c)"
      "res_rolled_back_to r = None"
      "res_observation_elapsed r = clock_seconds (cw_clock w') - clock_seconds (cw_clock w)"
    using result_after [OF F w'(5,4), of inc "clock_seconds (cw_clock w)"] lg(1) by auto
  ultimately have run: "canary_run H m events w = (Inr r, w')" using w'(1) by (simp add: op_bind_def)
  have "of_nat (length (tl_candidates ?lg)) \<le> max_candidate_allocation ?c * of_int (min_paired_tasks ?c)"
    using draw_arms_facts(2) [OF rnd cfg] by (simp add: lg(3) drawn_candidates [OF rnd cfg])
  then have "res_candidate_allocation r \<le> max_candidate_allocation ?c"
    using cfg by (simp add: r(5) config_ok_def pos_divide_le_eq)
  moreover have "res_observation_elapsed r = observation_horizon ?c * clock_scale (cw_clock w)"
    using task_seconds_total [OF cfg]
    by (simp add: r(7) w'(6) clock_seconds_def no_sev1_served [OF quiet] distrib_right)
  ultimately show ?thesis using run r w'(2) lg(2) by auto
qed

lemma stopped_run:
  assumes ready: "canary_ready H pin_of w m inc" and F: "ch_fleet H = F" and sev: "first_sev1 H events i"
    and comp: "compensates H w" and prior: "prior_release_digest m = Some prior"
  shows "\<exists>r w'. canary_run H m events w = (Inr r, w')
    \<and> res_outcome r = Rolled_Back \<and> active_digest (cw_store w') = Some prior
    \<and> res_rolled_back_to r = Some inc \<and> res_paired_tasks r = Suc i \<and> res_coverage r = 1
    \<and> reported_of (cw_fleet w') = reported_of (cw_fleet w) @ map session_id [0..<Suc i]"
proof -
  let ?lg = "log_all events (drawn H) empty_log"
  note lg = first_sev1_log [OF sev]
  obtain w1 where w1: "canary_run H m events w =
        (op_bind (canary_finish H m inc ?lg) (canary_result_of H inc (clock_seconds (cw_clock w)))) w1"
      "active_digest (cw_store w1) = Some (manifest_digest m)" "cw_sink w1 = cw_sink w" "cw_exec w1 = cw_exec w"
      "reported_of (cw_fleet w1) = reported_of (cw_fleet w) @ map (session_id \<circ> fst) (served events (drawn H))"
    using canary_run_to_loop_end [OF ready F] by blast
  obtain w2 where w2: "compensate H w1 = (Inr (), w2)"
    using comp compensate_cong [OF w1(3,4), of H] unfolding compensates_def by (metis prod.collapse)
  then have st: "cw_store w2 = cw_store w1" "cw_fleet w2 = cw_fleet w1"
    using compensate_frame [of H w1] by simp_all
  obtain w3 where w3: "roll_back_candidate H m inc w2 = (Inr (), w3)" "active_digest (cw_store w3) = Some prior"
      "reported_of (cw_fleet w3) = reported_of (cw_fleet w2)" "measured (cw_fleet w3)"
    using roll_back_candidate_ok [OF ready F prior, of w2] w1(2) st by auto
  have fin: "canary_finish H m inc ?lg w1 = (Inr ?lg, w3)"
    using lg(1) w2 w3(1) by (simp add: canary_finish_def op_defs)
  have rep: "reported_of (cw_fleet w3) =
      reported_of (cw_fleet w) @ map (session_id \<circ> fst) (served events (drawn H))"
    using w3(3) st w1(5) by simp
  obtain r where r: "canary_result_of H inc (clock_seconds (cw_clock w)) ?lg w3 = (Inr r, w3)"
      "res_coverage r = 1" "res_outcome r = Rolled_Back" "res_paired_tasks r = Suc i"
      "res_rolled_back_to r = Some inc"
    using result_after [OF F w3(4) rep, of inc "clock_seconds (cw_clock w)"] lg(1,2) by auto
  have "reported_of (cw_fleet w3) = reported_of (cw_fleet w) @ map session_id [0..<Suc i]"
    using w3(3) st w1(5) by (simp add: first_sev1_served [OF sev] comp_def del: upt_Suc)
  moreover have "canary_run H m events w = (Inr r, w3)" using w1(1) fin r(1) by (simp add: op_bind_def)
  ultimately show ?thesis using r w3(2) by blast
qed

text \<open>A completed horizon with unexecuted compensations restores the prior release and raises.\<close>

lemma refused_promotion:
  assumes ready: "canary_ready H pin_of w m inc" and F: "ch_fleet H = F" and quiet: "no_sev1 H events"
    and plan: "ch_plan H = Some plan" and prior: "prior_release_digest m = Some prior"
    and gate: "assert_promotion_allowed (ch_crypto H) (ch_str_of H) plan
        (recorded_executions H w) = Inl e" "is_unexecuted e"
  shows "\<exists>w'. canary_run H m events w = (Inl e, w') \<and> active_digest (cw_store w') = Some prior"
proof -
  let ?lg = "log_all events (drawn H) empty_log"
  have cfg: "config_ok (ch_config H)" using ready by (simp add: canary_ready_def canary_startable_def)
  obtain w1 where w1: "canary_run H m events w =
        (op_bind (canary_finish H m inc ?lg) (canary_result_of H inc (clock_seconds (cw_clock w)))) w1"
      "active_digest (cw_store w1) = Some (manifest_digest m)" "cw_sink w1 = cw_sink w"
    using canary_run_to_loop_end [OF ready F] by blast
  obtain w2 where w2: "roll_back_candidate H m inc w1 = (Inr (), w2)" "active_digest (cw_store w2) = Some prior"
    using roll_back_candidate_ok [OF ready F prior w1(2)] by blast
  have "canary_finish H m inc ?lg w1 = (Inl e, w2)"
    using no_sev1_log(1) [OF quiet cfg] plan gate recorded_executions_cong [OF w1(3), of H] w2(1)
    by (simp add: canary_finish_def promotion_gate_def op_defs)
  with w1(1) w2(2) show ?thesis by (simp add: op_bind_def)
qed

text \<open>The endings that leave the candidate active: a compensation that fails, a plan that does not
  verify, a candidate without a prior release, and session ids the fleet already knows.\<close>

lemma failed_compensation_run:
  assumes ready: "canary_ready H pin_of w m inc" and F: "ch_fleet H = F" and sev: "first_sev1 H events i"
    and comp: "fst (compensate H w) = Inl e"
  shows "\<exists>w'. canary_run H m events w = (Inl e, w') \<and> active_digest (cw_store w') = Some (manifest_digest m)"
proof -
  let ?lg = "log_all events (drawn H) empty_log"
  obtain w1 where w1: "canary_run H m events w =
        (op_bind (canary_finish H m inc ?lg) (canary_result_of H inc (clock_seconds (cw_clock w)))) w1"
      "active_digest (cw_store w1) = Some (manifest_digest m)" "cw_sink w1 = cw_sink w" "cw_exec w1 = cw_exec w"
    using canary_run_to_loop_end [OF ready F] by blast
  obtain w2 where w2: "compensate H w1 = (Inl e, w2)"
    using comp compensate_cong [OF w1(3,4), of H] by (metis prod.collapse)
  then have "cw_store w2 = cw_store w1" using compensate_frame [of H w1] by simp
  moreover have "canary_finish H m inc ?lg w1 = (Inl e, w2)"
    using first_sev1_log(1) [OF sev] w2 by (simp add: canary_finish_def op_defs)
  ultimately show ?thesis using w1(1,2) by (simp add: op_bind_def)
qed

lemma tampered_plan_run:
  assumes ready: "canary_ready H pin_of w m inc" and F: "ch_fleet H = F" and quiet: "no_sev1 H events"
    and plan: "ch_plan H = Some plan" "\<not> plan_verify (ch_crypto H) plan"
  shows "\<exists>w'. canary_run H m events w =
      (Inl (Campaign (CompensationPlanTamperedError (cp_plan_id plan))), w')
    \<and> active_digest (cw_store w') = Some (manifest_digest m)"
proof -
  let ?lg = "log_all events (drawn H) empty_log"
  have cfg: "config_ok (ch_config H)" using ready by (simp add: canary_ready_def canary_startable_def)
  obtain w1 where w1: "canary_run H m events w =
        (op_bind (canary_finish H m inc ?lg) (canary_result_of H inc (clock_seconds (cw_clock w)))) w1"
      "active_digest (cw_store w1) = Some (manifest_digest m)"
    using canary_run_to_loop_end [OF ready F] by blast
  have "canary_finish H m inc ?lg w1 = (Inl (Campaign (CompensationPlanTamperedError (cp_plan_id plan))), w1)"
    using no_sev1_log(1) [OF quiet cfg] plan
    by (simp add: canary_finish_def promotion_gate_def op_defs assert_promotion_allowed_def is_unexecuted_def)
  with w1 show ?thesis by (simp add: op_bind_def)
qed

lemma no_prior_run:
  assumes ready: "canary_ready H pin_of w m inc" and F: "ch_fleet H = F" and sev: "first_sev1 H events i"
    and comp: "compensates H w" and prior: "prior_release_digest m = None"
  shows "\<exists>w'. canary_run H m events w = (Inl (Release (RollbackUnavailableError (manifest_digest m))), w')
    \<and> active_digest (cw_store w') = Some (manifest_digest m)"
proof -
  let ?lg = "log_all events (drawn H) empty_log"
  obtain w1 where w1: "canary_run H m events w =
        (op_bind (canary_finish H m inc ?lg) (canary_result_of H inc (clock_seconds (cw_clock w)))) w1"
      "active_digest (cw_store w1) = Some (manifest_digest m)" "cw_sink w1 = cw_sink w" "cw_exec w1 = cw_exec w"
    using canary_run_to_loop_end [OF ready F] by blast
  obtain w2 where w2: "compensate H w1 = (Inr (), w2)"
    using comp compensate_cong [OF w1(3,4), of H] unfolding compensates_def by (metis prod.collapse)
  then have st: "cw_store w2 = cw_store w1" using compensate_frame [of H w1] by simp
  have "canary_finish H m inc ?lg w1 = (Inl (Release (RollbackUnavailableError (manifest_digest m))), w2)"
    using first_sev1_log(1) [OF sev] w2 roll_back_candidate_no_prior [OF ready prior]
    by (simp add: canary_finish_def op_defs)
  with w1(1,2) st show ?thesis by (simp add: op_bind_def)
qed

end

section \<open>A concrete canary\<close>

definition demo_manifest :: "string option \<Rightarrow> json signed_release_manifest" where
  "demo_manifest prior = sign_release_manifest plain_crypto [''sha256:a''] [] [] [] prior ''key''"

definition demo_plan :: "json signed_plan" where
  "demo_plan = (case sign_compensation_plan plain_crypto (\<lambda>_. []) ''plan'' JNull JNull
     [JObj (build_action ''sha256:a'' ''run_compensation_hook'' REQUIRES_EXECUTION_MODE False)] ''key'' of
       Inr p \<Rightarrow> p)"

definition demo_harness ::
  "json signed_plan option \<Rightarrow> (nat \<Rightarrow> action \<Rightarrow> (exn, unit, unit) op) \<Rightarrow>
   (string, json, pointer_audit_entry list, (nat \<times> string) fleet, execution_record list, unit) canary_harness" where
  "demo_harness plan exec = \<lparr>ch_crypto = plain_crypto, ch_str_of = (\<lambda>_. []),
     ch_config = \<lparr>min_paired_tasks = 200, max_candidate_allocation = 1 / 20,
                  observation_horizon = 86400, cc_seed = 0\<rparr>,
     ch_identity = \<lparr>wid_role = RELEASE_CONTROLLER, wid_subject = ''rc''\<rparr>, ch_audit = mem_audit,
     ch_fleet = sim_ops, ch_uniform = (\<lambda>_ hi. hi), ch_shuffle = (\<lambda>_ xs. xs),
     ch_plan = plan, ch_sink = Some (mem_append, \<lambda>l. l), ch_executor = Some exec\<rparr>"

definition demo_world ::
  "(string, session) dict \<Rightarrow> (pointer_audit_entry list, (nat \<times> string) fleet, execution_record list, unit) canary_world" where
  "demo_world sessions = \<lparr>cw_store = \<lparr>audit_log = [], ps_pointer = \<lparr>current_digest = Some ''sha256:old'', rp_version = 1\<rparr>\<rparr>,
     cw_fleet = \<lparr>fl_workers = [\<lparr>worker_id = 0, convergence_latency = 1, cached_digest = None, resolves_at = None\<rparr>],
                 fl_sessions = sessions, fl_reports = [], fl_memory = [], fl_active = Some ''sha256:old'',
                 fl_invalidated_at = None\<rparr>,
     cw_clock = \<lparr>clock_scale = 1, clock_elapsed = 0\<rparr>, cw_sink = [], cw_exec = ()\<rparr>"

definition demo_stop :: "guardrail_event list" where
  "demo_stop = [\<lparr>ge_severity = 3, ge_kind = ''latency'', ge_task_index = 1, ge_detail = []\<rparr>,
                \<lparr>ge_severity = 1, ge_kind = ''exfiltration'', ge_task_index = 2, ge_detail = []\<rparr>]"

definition broken_executor :: "nat \<Rightarrow> action \<Rightarrow> (exn, unit, unit) op" where
  "broken_executor i a = op_raise (Foreign ''hook failed'')"

lemmas demo_defs = demo_harness_def demo_world_def

lemma demo_harness_fields [simp]:
  "ch_crypto (demo_harness plan exec) = plain_crypto" "ch_str_of (demo_harness plan exec) = (\<lambda>_. [])"
  "ch_fleet (demo_harness plan exec) = sim_ops" "ch_plan (demo_harness plan exec) = plan"
  "recorded_executions (demo_harness plan exec) (demo_world sessions) = []"
  "min_paired_tasks (ch_config (demo_harness plan exec)) = 200"
  "max_candidate_allocation (ch_config (demo_harness plan exec)) = 1 / 20"
  by (simp_all add: demo_defs recorded_executions_def)

lemma demo_pins: "sim_pin_of (cw_fleet (demo_world [(session_id 0, \<lparr>pinned_digest = d, session_arm = a\<rparr>)])) (session_id 0) = Some (d, a)"
  by (simp add: demo_world_def sim_pin_of_def)

lemma demo_digest: "manifest_digest (demo_manifest prior) = ''sha256:0''"
  by (simp add: demo_manifest_def sign_release_manifest_def Let_def manifest_digest_for_def
      sha256_digest_def plain_crypto_def)

lemma demo_prior [simp]: "prior_release_digest (demo_manifest prior) = prior"
  by (simp add: demo_manifest_def sign_release_manifest_def Let_def)

lemma demo_startable:
  "prior \<noteq> Some ''sha256:0'' \<Longrightarrow>
     canary_startable (demo_harness plan exec) (demo_world sessions) (demo_manifest prior) ''sha256:old''"
  unfolding canary_startable_def
  by (simp add: demo_digest demo_defs random_laws_def config_ok_def active_digest_def
      assert_distinct_from_prior_def)
    (simp add: demo_manifest_def sign_release_manifest_verifies plain_crypto_laws)

lemma demo_ready:
  "prior \<noteq> Some ''sha256:0'' \<Longrightarrow>
     canary_ready (demo_harness plan exec) sim_pin_of (demo_world []) (demo_manifest prior) ''sha256:old''"
  by (simp add: canary_ready_def demo_startable) (simp add: demo_defs sim_pin_of_def)

lemma demo_no_sev1: "no_sev1 (demo_harness plan exec) []"
  by (simp add: no_sev1_def sev1_at_def)

lemma demo_first_sev1: "first_sev1 (demo_harness plan exec) demo_stop 2"
  by (auto simp: first_sev1_def demo_harness_def demo_stop_def sev1_at_def is_severity_one_def)

lemma demo_plan_eq:
  "demo_plan = \<lparr>cp_plan_id = ''plan'', cp_campaign_id = JNull, cp_manifest_digest = JNull,
     cp_actions = [build_action ''sha256:a'' ''run_compensation_hook'' REQUIRES_EXECUTION_MODE False],
     cp_plan_digest = ''sha256:0'', cp_signature = JStr ''skey'', cp_public_key = JStr ''key''\<rparr>"
  by (simp add: demo_plan_def sign_compensation_plan_def validate_built_action compensation_modes_def
      Let_def sign_def sha256_digest_def plain_crypto_def)

lemma demo_unexecuted:
  "assert_promotion_allowed plain_crypto (\<lambda>_. []) demo_plan [] =
     Inl (Campaign (UnexecutedCompensationError ''plan'' 0 ''run_compensation_hook'' ''sha256:a''))"
  by (simp add: demo_plan_eq assert_promotion_allowed_def plan_verify_def signed_plan_body_def
      verify_def sha256_digest_def plain_crypto_def action_str_def build_action_def is_cas_def executed_indices_def)

lemma demo_compensation_fails:
  "fst (compensate (demo_harness (Some demo_plan) broken_executor) (demo_world [])) = Inl (Foreign ''hook failed'')"
  by (simp add: compensate_def demo_defs execute_rollback_compensations_def demo_plan_eq
      broken_executor_def op_defs)


section \<open>Properties of a canary run on the in-process fleet\<close>

text \<open>A canary over new session ids whose drawn tasks meet no severity-1 event, and whose plan (if there
  is one) has its evidence, completes: the candidate stays active, every one of the configured tasks
  ran, every session reported the digest it resolved, the candidate's share is within the configured
  cap, and the observation lasted the configured horizon.\<close>

theorem canary_completes:
  assumes "canary_ready H sim_pin_of w m inc" "ch_fleet H = sim_ops" "no_sev1 H events"
    and "\<forall>plan. ch_plan H = Some plan \<longrightarrow>
      assert_promotion_allowed (ch_crypto H) (ch_str_of H) plan (recorded_executions H w) = Inr ()"
  shows "\<exists>r w'. canary_run H m events w = (Inr r, w')
    \<and> res_outcome r = Completed \<and> active_digest (cw_store w') = Some (manifest_digest m)
    \<and> res_paired_tasks r = nat (min_paired_tasks (ch_config H)) \<and> res_coverage r = 1
    \<and> res_candidate_allocation r \<le> max_candidate_allocation (ch_config H)
    \<and> res_observation_elapsed r = observation_horizon (ch_config H) * clock_scale (cw_clock w)
    \<and> res_rolled_back_to r = None"
  using assms by (rule sim_serving.completed_run)

lemma canary_completes_witness:
  "\<exists>r w'. canary_run (demo_harness None broken_executor) (demo_manifest (Some ''sha256:old'')) [] (demo_world []) = (Inr r, w')
    \<and> res_outcome r = Completed \<and> res_paired_tasks r = 200 \<and> res_candidate_allocation r \<le> 1 / 20"
  using canary_completes [of "demo_harness None broken_executor" "demo_world []" "demo_manifest (Some ''sha256:old'')",
      OF demo_ready _ demo_no_sev1] by auto



text \<open>A completed horizon whose plan still owes evidence is refused: the run raises, and the candidate's
  prior release is active again.\<close>

theorem canary_refuses_unexecuted:
  assumes "canary_ready H sim_pin_of w m inc" "ch_fleet H = sim_ops" "no_sev1 H events"
    and "ch_plan H = Some plan" "prior_release_digest m = Some prior"
    and "assert_promotion_allowed (ch_crypto H) (ch_str_of H) plan (recorded_executions H w) = Inl e"
    and "is_unexecuted e"
  shows "\<exists>w'. canary_run H m events w = (Inl e, w') \<and> active_digest (cw_store w') = Some prior"
  using assms by (rule sim_serving.refused_promotion)

lemma canary_refuses_unexecuted_witness:
  "\<exists>e w'. canary_run (demo_harness (Some demo_plan) broken_executor) (demo_manifest (Some ''sha256:old'')) [] (demo_world []) = (Inl e, w')
    \<and> is_unexecuted e \<and> active_digest (cw_store w') = Some ''sha256:old''"
  using canary_refuses_unexecuted [of "demo_harness (Some demo_plan) broken_executor" "demo_world []"
      "demo_manifest (Some ''sha256:old'')", OF demo_ready _ demo_no_sev1 _ demo_prior, of demo_plan]
  by (auto simp: demo_unexecuted is_unexecuted_def)

text \<open>A severity-1 stop whose compensation executor fails raises before the pointer rollback: the
  harmful candidate is left active.\<close>

theorem canary_failed_compensation_leaves_candidate:
  assumes "canary_ready H sim_pin_of w m inc" "ch_fleet H = sim_ops" "first_sev1 H events i"
    and "fst (compensate H w) = Inl e"
  shows "\<exists>w'. canary_run H m events w = (Inl e, w') \<and> active_digest (cw_store w') = Some (manifest_digest m)"
  using assms by (rule sim_serving.failed_compensation_run)

lemma canary_failed_compensation_witness:
  "\<exists>w'. canary_run (demo_harness (Some demo_plan) broken_executor) (demo_manifest (Some ''sha256:old'')) demo_stop (demo_world []) =
      (Inl (Foreign ''hook failed''), w') \<and> active_digest (cw_store w') = Some ''sha256:0''"
  using canary_failed_compensation_leaves_candidate [of "demo_harness (Some demo_plan) broken_executor" "demo_world []"
      "demo_manifest (Some ''sha256:old'')", OF demo_ready _ demo_first_sev1 demo_compensation_fails]
  by (auto simp: demo_digest)

text \<open>A completed horizon whose plan does not verify raises the tamper error, which the harness does not
  catch: the candidate is left active, unlike after an unexecuted compensation.\<close>

theorem canary_tampered_plan_leaves_candidate:
  assumes "canary_ready H sim_pin_of w m inc" "ch_fleet H = sim_ops" "no_sev1 H events"
    and "ch_plan H = Some plan" "\<not> plan_verify (ch_crypto H) plan"
  shows "\<exists>w'. canary_run H m events w =
      (Inl (Campaign (CompensationPlanTamperedError (cp_plan_id plan))), w')
    \<and> active_digest (cw_store w') = Some (manifest_digest m)"
  using assms by (rule sim_serving.tampered_plan_run)

lemma canary_tampered_plan_witness:
  "\<exists>w'. canary_run (demo_harness (Some (demo_plan\<lparr>cp_plan_digest := ''forged''\<rparr>)) broken_executor)
        (demo_manifest (Some ''sha256:old'')) [] (demo_world []) =
      (Inl (Campaign (CompensationPlanTamperedError ''plan'')), w') \<and> active_digest (cw_store w') = Some ''sha256:0''"
  using canary_tampered_plan_leaves_candidate
      [of "demo_harness (Some (demo_plan\<lparr>cp_plan_digest := ''forged''\<rparr>)) broken_executor" "demo_world []"
        "demo_manifest (Some ''sha256:old'')", OF demo_ready _ demo_no_sev1]
  by (auto simp: demo_digest demo_plan_eq plan_verify_def sha256_digest_def)

text \<open>A fleet that still holds the first canary session of an earlier run, pinned to a digest that is
  neither this candidate nor this incumbent, ends the next canary with a pin conflict after its
  activation: the candidate is left active and no task ran.\<close>

theorem canary_stale_session_leaves_candidate:
  assumes "canary_startable H w m inc" "ch_fleet H = sim_ops"
    and "sim_pin_of (cw_fleet w) (session_id 0) = Some (old, arm)" "old \<notin> {manifest_digest m, inc}"
  shows "\<exists>d w'. canary_run H m events w = (Inl (Release (SessionPinError (session_id 0) old d)), w')
    \<and> active_digest (cw_store w') = Some (manifest_digest m)"
  using assms by (rule sim_serving.stale_pin_run)

lemma canary_stale_session_witness:
  "\<exists>d w'. canary_run (demo_harness None broken_executor) (demo_manifest (Some ''sha256:old'')) []
        (demo_world [(session_id 0, \<lparr>pinned_digest = ''sha256:older'', session_arm = Incumbent\<rparr>)]) =
      (Inl (Release (SessionPinError (session_id 0) ''sha256:older'' d)), w')
    \<and> active_digest (cw_store w') = Some ''sha256:0''"
  using canary_stale_session_leaves_candidate [OF demo_startable _ demo_pins,
      of "Some ''sha256:old''" None broken_executor "''sha256:older''" "[]" Incumbent]
  by (auto simp: demo_digest)

end
