(* ===== verification/Budgets.thy ===== *)
theory Budgets
  imports Identities
begin

text \<open>
  The two budget meters: per task (\<^verbatim>\<open>eval/budgets.py\<close>) and per campaign (\<^verbatim>\<open>campaign/budgets.py\<close>). Both are
  pre-flight and transactional; the locale \<open>preflight_meter\<close> states that contract once, its lemmas follow
  a meter through any sequence of charges, and both meters are interpretations of it. A meter reads
  an injected clock: each operation takes the reading \<open>now\<close>.
\<close>

section \<open>The contract\<close>

text \<open>\<open>spent m d\<close> is what has been recorded on dimension \<open>d\<close>, \<open>cost c d\<close> what a charge would record. A charge
  that is accepted records its cost and stays under the ceiling; one that is refused records nothing.\<close>

locale preflight_meter =
  fixes charge :: "'c \<Rightarrow> (exn, 'm, unit) op"
    and spent :: "'m \<Rightarrow> 'd \<Rightarrow> rat"
    and cost :: "'c \<Rightarrow> 'd \<Rightarrow> rat"
    and ceiling :: "'m \<Rightarrow> 'd \<Rightarrow> rat"
    and valid :: "'m \<Rightarrow> 'c \<Rightarrow> bool"
  assumes accepted: "charge c m = (Inr u, m') \<Longrightarrow> valid m c \<Longrightarrow>
      ceiling m' = ceiling m \<and> 0 \<le> cost c d \<and> spent m' d = spent m d + cost c d
      \<and> (spent m d \<le> ceiling m d \<longrightarrow> spent m' d \<le> ceiling m d)"
    and refused: "charge c m = (Inl e, m') \<Longrightarrow> m' = m"
begin

text \<open>The charges a meter accepted along a run.\<close>

fun accepted_of :: "'c list \<Rightarrow> 'm \<Rightarrow> 'c list" where
  "accepted_of [] m = []"
| "accepted_of (c # cs) m =
     (case charge c m of (Inl _, m') \<Rightarrow> accepted_of cs m' | (Inr _, m') \<Rightarrow> c # accepted_of cs m')"

fun valid_run :: "'c list \<Rightarrow> 'm \<Rightarrow> bool" where
  "valid_run [] m = True"
| "valid_run (c # cs) m = (valid m c \<and> valid_run cs (snd (charge c m)))"

abbreviation "run \<equiv> run_calls (\<lambda>c m. snd (charge c m))"

lemma run_spent:
  "valid_run cs m \<Longrightarrow> spent (run cs m) d = spent m d + sum_list (map (\<lambda>c. cost c d) (accepted_of cs m))"
proof (induction cs m rule: accepted_of.induct)
  case (1 m)
  then show ?case by simp
next
  case (2 c cs m)
  obtain r m' where eq: "charge c m = (r, m')" by fastforce
  show ?case
  proof (cases r)
    case (Inl e)
    with refused eq have "m' = m" by blast
    with 2 eq Inl show ?thesis by simp
  next
    case (Inr u)
    with accepted [of c m u m' d] eq 2 show ?thesis by simp
  qed
qed

lemma run_within:
  "valid_run cs m \<Longrightarrow> \<forall>d. spent m d \<le> ceiling m d \<Longrightarrow>
     ceiling (run cs m) = ceiling m \<and> (\<forall>d. spent (run cs m) d \<le> ceiling m d)"
proof (induction cs arbitrary: m)
  case Nil
  then show ?case by simp
next
  case (Cons c cs)
  obtain r m' where eq: "charge c m = (r, m')" by fastforce
  show ?case
  proof (cases r)
    case (Inl e)
    with refused eq have "m' = m" by blast
    with Cons eq show ?thesis by simp
  next
    case (Inr u)
    with eq Cons.prems have acc: "charge c m = (Inr u, m')" "valid m c" by simp_all
    have "ceiling m' = ceiling m" using accepted [OF acc] by blast
    moreover have "spent m' d \<le> ceiling m d" for d using accepted [OF acc, of d] Cons.prems by blast
    ultimately show ?thesis using Cons.IH [of m'] Cons.prems(1) eq by auto
  qed
qed

end

section \<open>Task budgets\<close>

datatype budget_dimension = INPUT_TOKENS | OUTPUT_TOKENS | TOOL_CALLS | WALL_CLOCK

fun dimension_value :: "budget_dimension \<Rightarrow> string" where
  "dimension_value INPUT_TOKENS = ''input_tokens''"
| "dimension_value OUTPUT_TOKENS = ''output_tokens''"
| "dimension_value TOOL_CALLS = ''tool_calls''"
| "dimension_value WALL_CLOCK = ''wall_clock_s''"

record task_budget =
  max_input_tokens :: int
  max_output_tokens :: int
  max_tool_calls :: int
  max_wall_clock_s :: rat

definition new_task_budget :: "int \<Rightarrow> int \<Rightarrow> int \<Rightarrow> rat \<Rightarrow> exn + task_budget" where
  "new_task_budget i out t w =
     (if i \<le> 0 then Inl (ValueError ''max_input_tokens'')
      else if out \<le> 0 then Inl (ValueError ''max_output_tokens'')
      else if t \<le> 0 then Inl (ValueError ''max_tool_calls'')
      else if w \<le> 0 then Inl (ValueError ''max_wall_clock_s'')
      else Inr \<lparr>max_input_tokens = i, max_output_tokens = out, max_tool_calls = t, max_wall_clock_s = w\<rparr>)"

fun task_limit :: "task_budget \<Rightarrow> budget_dimension \<Rightarrow> rat" where
  "task_limit b INPUT_TOKENS = of_int (max_input_tokens b)"
| "task_limit b OUTPUT_TOKENS = of_int (max_output_tokens b)"
| "task_limit b TOOL_CALLS = of_int (max_tool_calls b)"
| "task_limit b WALL_CLOCK = max_wall_clock_s b"

record budget_usage =
  bu_input_tokens :: int
  bu_output_tokens :: int
  bu_tool_calls :: int
  bu_wall_clock_s :: rat

definition total_tokens :: "budget_usage \<Rightarrow> int" where
  "total_tokens u = bu_input_tokens u + bu_output_tokens u"

definition usage_within :: "budget_usage \<Rightarrow> task_budget \<Rightarrow> bool" where
  "usage_within u b \<longleftrightarrow> bu_input_tokens u \<le> max_input_tokens b \<and> bu_output_tokens u \<le> max_output_tokens b
     \<and> bu_tool_calls u \<le> max_tool_calls b \<and> bu_wall_clock_s u \<le> max_wall_clock_s b"

definition TASK_BUDGET_V1 :: task_budget where
  "TASK_BUDGET_V1 = \<lparr>max_input_tokens = 120000, max_output_tokens = 16000, max_tool_calls = 40, max_wall_clock_s = 600\<rparr>"

definition TASK_BUDGET_V2_EXECUTABLE :: task_budget where
  "TASK_BUDGET_V2_EXECUTABLE =
     \<lparr>max_input_tokens = 120000, max_output_tokens = 16000, max_tool_calls = 120, max_wall_clock_s = 1800\<rparr>"

definition budget_profiles :: "(string, task_budget) dict" where
  "budget_profiles = [(''task-budget-v1'', TASK_BUDGET_V1), (''task-budget-v2-executable'', TASK_BUDGET_V2_EXECUTABLE)]"

definition resolve_budget_profile :: "string \<Rightarrow> exn + task_budget" where
  "resolve_budget_profile name =
     (case map_of budget_profiles name of
        None \<Rightarrow> Inl (Eval (UnknownBudgetProfileError name (map fst budget_profiles)))
      | Some b \<Rightarrow> Inr b)"

record budget_meter =
  bm_budget :: task_budget
  bm_started_at :: rat
  bm_input_tokens :: int
  bm_output_tokens :: int
  bm_tool_calls :: int
  bm_declared_wall_clock_s :: rat

definition new_budget_meter :: "task_budget \<Rightarrow> rat \<Rightarrow> budget_meter" where
  "new_budget_meter b now = \<lparr>bm_budget = b, bm_started_at = now, bm_input_tokens = 0, bm_output_tokens = 0,
     bm_tool_calls = 0, bm_declared_wall_clock_s = 0\<rparr>"

definition elapsed_s :: "rat \<Rightarrow> budget_meter \<Rightarrow> rat" where
  "elapsed_s now m = (now - bm_started_at m) + bm_declared_wall_clock_s m"

definition usage :: "rat \<Rightarrow> budget_meter \<Rightarrow> budget_usage" where
  "usage now m = \<lparr>bu_input_tokens = bm_input_tokens m, bu_output_tokens = bm_output_tokens m,
     bu_tool_calls = bm_tool_calls m, bu_wall_clock_s = elapsed_s now m\<rparr>"

definition task_remaining :: "rat \<Rightarrow> budget_meter \<Rightarrow> budget_usage" where
  "task_remaining now m =
     \<lparr>bu_input_tokens = max 0 (max_input_tokens (bm_budget m) - bm_input_tokens m),
      bu_output_tokens = max 0 (max_output_tokens (bm_budget m) - bm_output_tokens m),
      bu_tool_calls = max 0 (max_tool_calls (bm_budget m) - bm_tool_calls m),
      bu_wall_clock_s = max 0 (max_wall_clock_s (bm_budget m) - elapsed_s now m)\<rparr>"

text \<open>The check walks the dimensions in a fixed order.\<close>

fun first_over :: "('d \<Rightarrow> rat) \<Rightarrow> ('d \<times> rat) list \<Rightarrow> ('d \<times> rat) option" where
  "first_over limit [] = None"
| "first_over limit ((d, tot) # rest) = (if limit d < tot then Some (d, tot) else first_over limit rest)"

lemma first_over_None: "first_over limit xs = None \<longleftrightarrow> (\<forall>(d, t) \<in> set xs. t \<le> limit d)"
  by (induction limit xs rule: first_over.induct) auto

lemma first_over_Some: "first_over limit xs = Some (d, t) \<Longrightarrow> (d, t) \<in> set xs \<and> limit d < t"
  by (induction limit xs rule: first_over.induct) (auto split: if_splits)

definition task_first_violation :: "rat \<Rightarrow> budget_usage \<Rightarrow> budget_meter \<Rightarrow> (budget_dimension \<times> rat) option" where
  "task_first_violation now c m = first_over (task_limit (bm_budget m))
     [(INPUT_TOKENS, of_int (bm_input_tokens m + bu_input_tokens c)),
      (OUTPUT_TOKENS, of_int (bm_output_tokens m + bu_output_tokens c)),
      (TOOL_CALLS, of_int (bm_tool_calls m + bu_tool_calls c)),
      (WALL_CLOCK, elapsed_s now m + bu_wall_clock_s c)]"

definition can_afford :: "rat \<Rightarrow> budget_usage \<Rightarrow> budget_meter \<Rightarrow> bool" where
  "can_afford now c m \<longleftrightarrow> task_first_violation now c m = None"

definition charge :: "rat \<times> budget_usage \<Rightarrow> (exn, budget_meter, unit) op" where
  "charge nc = (\<lambda>m. case nc of (now, c) \<Rightarrow>
     if bu_input_tokens c < 0 \<or> bu_output_tokens c < 0 \<or> bu_tool_calls c < 0 \<or> bu_wall_clock_s c < 0
     then (Inl (ValueError ''budget charges must be non-negative''), m)
     else (case task_first_violation now c m of
         Some (d, attempted) \<Rightarrow>
           (Inl (Eval (BudgetExceededError (dimension_value d) (task_limit (bm_budget m) d) attempted)), m)
       | None \<Rightarrow> (Inr (), m\<lparr>bm_input_tokens := bm_input_tokens m + bu_input_tokens c,
            bm_output_tokens := bm_output_tokens m + bu_output_tokens c,
            bm_tool_calls := bm_tool_calls m + bu_tool_calls c,
            bm_declared_wall_clock_s := bm_declared_wall_clock_s m + bu_wall_clock_s c\<rparr>)))"

definition refund_output_tokens :: "int \<Rightarrow> (exn, budget_meter, unit) op" where
  "refund_output_tokens tokens =
     (if tokens < 0 then op_raise (ValueError ''refund must be non-negative'')
      else op_modify (\<lambda>m. m\<lparr>bm_output_tokens := max 0 (bm_output_tokens m - tokens)\<rparr>))"

definition no_usage :: budget_usage where
  "no_usage = \<lparr>bu_input_tokens = 0, bu_output_tokens = 0, bu_tool_calls = 0, bu_wall_clock_s = 0\<rparr>"

definition meter_checkpoint :: "rat \<Rightarrow> (exn, budget_meter, unit) op" where
  "meter_checkpoint now = charge (now, no_usage)"

text \<open>What is recorded on each dimension, apart from the time that passes by itself.\<close>

fun task_spent :: "budget_meter \<Rightarrow> budget_dimension \<Rightarrow> rat" where
  "task_spent m INPUT_TOKENS = of_int (bm_input_tokens m)"
| "task_spent m OUTPUT_TOKENS = of_int (bm_output_tokens m)"
| "task_spent m TOOL_CALLS = of_int (bm_tool_calls m)"
| "task_spent m WALL_CLOCK = bm_declared_wall_clock_s m"

fun task_cost :: "rat \<times> budget_usage \<Rightarrow> budget_dimension \<Rightarrow> rat" where
  "task_cost (now, c) INPUT_TOKENS = of_int (bu_input_tokens c)"
| "task_cost (now, c) OUTPUT_TOKENS = of_int (bu_output_tokens c)"
| "task_cost (now, c) TOOL_CALLS = of_int (bu_tool_calls c)"
| "task_cost (now, c) WALL_CLOCK = bu_wall_clock_s c"

interpretation task_meter: preflight_meter charge task_spent task_cost "\<lambda>m. task_limit (bm_budget m)"
    "\<lambda>m nc. bm_started_at m \<le> fst nc"
proof (unfold_locales, goal_cases)
  case (1 nc m u m' d)
  then show ?case
    by (cases nc; cases d)
      (auto simp: charge_def task_first_violation_def first_over_None elapsed_s_def split: if_splits option.splits)
next
  case (2 nc m e m')
  then show ?case by (auto simp: charge_def split: prod.splits if_splits option.splits)
qed

lemma charge_started: "bm_started_at (snd (charge nc m)) = bm_started_at m"
  by (simp add: charge_def split: prod.splits option.splits)

lemma task_valid_run: "\<forall>nc \<in> set cs. bm_started_at m \<le> fst nc \<Longrightarrow> task_meter.valid_run cs m"
  by (induction cs arbitrary: m) (auto simp: charge_started)

section \<open>Campaign budgets\<close>

text \<open>The declaration in the campaign spec, validated at construction.\<close>

record campaign_budgets =
  task_budget_profile :: string
  cb_max_proposals :: int
  cb_max_model_tokens :: int
  cb_max_wall_clock_minutes :: rat
  cb_max_sandbox_executions :: int

definition new_campaign_budgets :: "string \<Rightarrow> int \<Rightarrow> int \<Rightarrow> rat \<Rightarrow> int \<Rightarrow> exn + campaign_budgets" where
  "new_campaign_budgets profile p t w s =
     (if p < 1 then Inl (Campaign (InvalidCampaignSpecError ''max_proposals''))
      else if t < 1 then Inl (Campaign (InvalidCampaignSpecError ''max_model_tokens''))
      else if w \<le> 0 then Inl (Campaign (InvalidCampaignSpecError ''max_wall_clock_minutes''))
      else if s < 1 then Inl (Campaign (InvalidCampaignSpecError ''max_sandbox_executions''))
      else (case resolve_budget_profile profile of
              Inl _ \<Rightarrow> Inl (Campaign (InvalidCampaignSpecError ''task_budget_profile''))
            | Inr _ \<Rightarrow> Inr \<lparr>task_budget_profile = profile, cb_max_proposals = p, cb_max_model_tokens = t,
                cb_max_wall_clock_minutes = w, cb_max_sandbox_executions = s\<rparr>))"

record campaign_budget =
  max_proposals :: int
  max_model_tokens :: int
  max_wall_clock_minutes :: rat
  max_sandbox_executions :: int

definition campaign_budget_from_spec :: "campaign_budgets \<Rightarrow> campaign_budget" where
  "campaign_budget_from_spec b = \<lparr>max_proposals = cb_max_proposals b, max_model_tokens = cb_max_model_tokens b,
     max_wall_clock_minutes = cb_max_wall_clock_minutes b, max_sandbox_executions = cb_max_sandbox_executions b\<rparr>"

definition campaign_limit :: "campaign_budget \<Rightarrow> string \<Rightarrow> exn + rat" where
  "campaign_limit b d =
     (if d = ''proposals'' then Inr (of_int (max_proposals b))
      else if d = ''sandbox_executions'' then Inr (of_int (max_sandbox_executions b))
      else if d = ''model_tokens'' then Inr (of_int (max_model_tokens b))
      else if d = ''wall_clock_minutes'' then Inr (max_wall_clock_minutes b)
      else Inl (Campaign (CampaignBudgetExceededError d 0 0)))"

record campaign_meter =
  cm_budget :: campaign_budget
  cm_started_at :: rat
  cm_proposals :: int
  cm_model_tokens :: int
  cm_sandbox_executions :: int
  cm_declared_wall_clock_s :: rat

definition new_campaign_meter :: "campaign_budget \<Rightarrow> rat \<Rightarrow> campaign_meter" where
  "new_campaign_meter b now = \<lparr>cm_budget = b, cm_started_at = now, cm_proposals = 0, cm_model_tokens = 0,
     cm_sandbox_executions = 0, cm_declared_wall_clock_s = 0\<rparr>"

definition elapsed_minutes :: "rat \<Rightarrow> campaign_meter \<Rightarrow> rat" where
  "elapsed_minutes now m = (now - cm_started_at m + cm_declared_wall_clock_s m) / 60"

text \<open>A declared step: the keyword arguments of \<^verbatim>\<open>_first_violation\<close>.\<close>

record campaign_step_cost =
  st_proposals :: int
  st_model_tokens :: int
  st_wall_clock_s :: rat
  st_sandbox_executions :: int

definition no_step :: campaign_step_cost where
  "no_step = \<lparr>st_proposals = 0, st_model_tokens = 0, st_wall_clock_s = 0, st_sandbox_executions = 0\<rparr>"

fun first_over_named :: "(string \<Rightarrow> exn + rat) \<Rightarrow> (string \<times> rat) list \<Rightarrow> exn + (string \<times> rat) option" where
  "first_over_named limit [] = Inr None"
| "first_over_named limit ((d, tot) # rest) =
     res_bind (limit d) (\<lambda>l. if l < tot then Inr (Some (d, tot)) else first_over_named limit rest)"

definition campaign_first_violation :: "rat \<Rightarrow> campaign_step_cost \<Rightarrow> campaign_meter \<Rightarrow> exn + (string \<times> rat) option" where
  "campaign_first_violation now c m = first_over_named (campaign_limit (cm_budget m))
     [(''proposals'', of_int (cm_proposals m + st_proposals c)),
      (''sandbox_executions'', of_int (cm_sandbox_executions m + st_sandbox_executions c)),
      (''model_tokens'', of_int (cm_model_tokens m + st_model_tokens c)),
      (''wall_clock_minutes'', elapsed_minutes now m + st_wall_clock_s c / 60)]"

text \<open>The shape the three charges share: refuse with the breached dimension, or record.\<close>

definition charge_or_refuse ::
  "rat \<Rightarrow> campaign_step_cost \<Rightarrow> (campaign_meter \<Rightarrow> campaign_meter) \<Rightarrow> (exn, campaign_meter, unit) op" where
  "charge_or_refuse now c record_it = (\<lambda>m.
     case campaign_first_violation now c m of
       Inl e \<Rightarrow> (Inl e, m)
     | Inr (Some (d, attempted)) \<Rightarrow>
         (case campaign_limit (cm_budget m) d of
            Inl e \<Rightarrow> (Inl e, m)
          | Inr l \<Rightarrow> (Inl (Campaign (CampaignBudgetExceededError d l attempted)), m))
     | Inr None \<Rightarrow> (Inr (), record_it m))"

definition charge_sandbox_executions :: "rat \<Rightarrow> int \<Rightarrow> (exn, campaign_meter, unit) op" where
  "charge_sandbox_executions now number =
     (if number < 0 then op_raise (ValueError ''budget charges must be non-negative'')
      else charge_or_refuse now (no_step\<lparr>st_sandbox_executions := number\<rparr>)
             (\<lambda>m. m\<lparr>cm_sandbox_executions := cm_sandbox_executions m + number\<rparr>))"

definition charge_proposals :: "rat \<Rightarrow> int \<Rightarrow> int \<Rightarrow> int \<Rightarrow> (exn, campaign_meter, unit) op" where
  "charge_proposals now number input_tokens output_tokens =
     (if number < 0 \<or> input_tokens < 0 \<or> output_tokens < 0
      then op_raise (ValueError ''budget charges must be non-negative'')
      else charge_or_refuse now (no_step\<lparr>st_proposals := number, st_model_tokens := input_tokens + output_tokens\<rparr>)
             (\<lambda>m. m\<lparr>cm_proposals := cm_proposals m + number,
                    cm_model_tokens := cm_model_tokens m + (input_tokens + output_tokens)\<rparr>))"

definition charge_wall_clock_s :: "rat \<Rightarrow> rat \<Rightarrow> (exn, campaign_meter, unit) op" where
  "charge_wall_clock_s now seconds =
     (if seconds < 0 then op_raise (ValueError ''wall-clock charges must be non-negative'')
      else charge_or_refuse now (no_step\<lparr>st_wall_clock_s := seconds\<rparr>)
             (\<lambda>m. m\<lparr>cm_declared_wall_clock_s := cm_declared_wall_clock_s m + seconds\<rparr>))"

definition can_charge_sandbox_executions :: "rat \<Rightarrow> int \<Rightarrow> campaign_meter \<Rightarrow> bool" where
  "can_charge_sandbox_executions now number m \<longleftrightarrow>
     campaign_first_violation now (no_step\<lparr>st_sandbox_executions := number\<rparr>) m = Inr None"

definition can_charge_proposals :: "rat \<Rightarrow> int \<Rightarrow> int \<Rightarrow> int \<Rightarrow> campaign_meter \<Rightarrow> bool" where
  "can_charge_proposals now number input_tokens output_tokens m \<longleftrightarrow>
     campaign_first_violation now (no_step\<lparr>st_proposals := number, st_model_tokens := input_tokens + output_tokens\<rparr>) m = Inr None"

record remaining_budget =
  proposals_remaining :: int
  wall_clock_minutes_remaining :: rat
  model_tokens_remaining :: int
  sandbox_executions_remaining :: int

definition campaign_remaining :: "rat \<Rightarrow> campaign_meter \<Rightarrow> remaining_budget" where
  "campaign_remaining now m =
     \<lparr>proposals_remaining = max 0 (max_proposals (cm_budget m) - cm_proposals m),
      wall_clock_minutes_remaining = max 0 (max_wall_clock_minutes (cm_budget m) - elapsed_minutes now m),
      model_tokens_remaining = max 0 (max_model_tokens (cm_budget m) - cm_model_tokens m),
      sandbox_executions_remaining = max 0 (max_sandbox_executions (cm_budget m) - cm_sandbox_executions m)\<rparr>"

definition exhausted :: "rat \<Rightarrow> campaign_meter \<Rightarrow> bool" where
  "exhausted now m \<longleftrightarrow> (let r = campaign_remaining now m in
     proposals_remaining r = 0 \<or> model_tokens_remaining r = 0 \<or> sandbox_executions_remaining r = 0
     \<or> wall_clock_minutes_remaining r \<le> 0)"

datatype campaign_charge =
    ChargeProposals int int int
  | ChargeSandbox int
  | ChargeWallClock rat

fun campaign_charge_call :: "rat \<times> campaign_charge \<Rightarrow> (exn, campaign_meter, unit) op" where
  "campaign_charge_call (now, ChargeProposals n i out) = charge_proposals now n i out"
| "campaign_charge_call (now, ChargeSandbox n) = charge_sandbox_executions now n"
| "campaign_charge_call (now, ChargeWallClock s) = charge_wall_clock_s now s"

datatype campaign_dimension = Proposals | Sandbox_Executions | Model_Tokens | Wall_Clock_Minutes

fun campaign_spent :: "campaign_meter \<Rightarrow> campaign_dimension \<Rightarrow> rat" where
  "campaign_spent m Proposals = of_int (cm_proposals m)"
| "campaign_spent m Sandbox_Executions = of_int (cm_sandbox_executions m)"
| "campaign_spent m Model_Tokens = of_int (cm_model_tokens m)"
| "campaign_spent m Wall_Clock_Minutes = cm_declared_wall_clock_s m / 60"

fun campaign_cost :: "rat \<times> campaign_charge \<Rightarrow> campaign_dimension \<Rightarrow> rat" where
  "campaign_cost (now, ChargeProposals n i out) d =
     (case d of Proposals \<Rightarrow> of_int n | Model_Tokens \<Rightarrow> of_int (i + out) | _ \<Rightarrow> 0)"
| "campaign_cost (now, ChargeSandbox n) d = (if d = Sandbox_Executions then of_int n else 0)"
| "campaign_cost (now, ChargeWallClock s) d = (if d = Wall_Clock_Minutes then s / 60 else 0)"

fun campaign_ceiling :: "campaign_meter \<Rightarrow> campaign_dimension \<Rightarrow> rat" where
  "campaign_ceiling m Proposals = of_int (max_proposals (cm_budget m))"
| "campaign_ceiling m Sandbox_Executions = of_int (max_sandbox_executions (cm_budget m))"
| "campaign_ceiling m Model_Tokens = of_int (max_model_tokens (cm_budget m))"
| "campaign_ceiling m Wall_Clock_Minutes = max_wall_clock_minutes (cm_budget m)"

lemma campaign_no_violation:
  "campaign_first_violation now c m = Inr None \<longleftrightarrow>
     cm_proposals m + st_proposals c \<le> max_proposals (cm_budget m)
     \<and> cm_sandbox_executions m + st_sandbox_executions c \<le> max_sandbox_executions (cm_budget m)
     \<and> cm_model_tokens m + st_model_tokens c \<le> max_model_tokens (cm_budget m)
     \<and> elapsed_minutes now m + st_wall_clock_s c / 60 \<le> max_wall_clock_minutes (cm_budget m)"
  unfolding campaign_first_violation_def
  by (simp add: campaign_limit_def not_less del: of_int_add)

lemma charge_or_refuse_Inr:
  "charge_or_refuse now c record_it m = (Inr u, m') \<longleftrightarrow> campaign_first_violation now c m = Inr None \<and> m' = record_it m"
  by (auto simp: charge_or_refuse_def split: sum.splits option.splits)

lemma charge_or_refuse_Inl: "charge_or_refuse now c record_it m = (Inl e, m') \<Longrightarrow> m' = m"
  by (auto simp: charge_or_refuse_def split: sum.splits option.splits)

lemmas campaign_charges = charge_proposals_def charge_sandbox_executions_def charge_wall_clock_s_def
  charge_or_refuse_Inr campaign_no_violation op_raise_def no_step_def elapsed_minutes_def

interpretation campaign_meter: preflight_meter campaign_charge_call campaign_spent campaign_cost campaign_ceiling
    "\<lambda>m nc. cm_started_at m \<le> fst nc"
proof (unfold_locales, goal_cases)
  case (1 nc m u m' d)
  obtain now c where nc: "nc = (now, c)" by fastforce
  have "campaign_ceiling m' = campaign_ceiling m"
    using 1(1) nc by (cases c; intro ext; case_tac x) (auto simp: campaign_charges split: if_splits)
  moreover have "0 \<le> campaign_cost nc d \<and> campaign_spent m' d = campaign_spent m d + campaign_cost nc d"
    using 1(1) nc by (cases c; cases d) (auto simp: campaign_charges add_divide_distrib split: if_splits)
  moreover have "campaign_spent m d \<le> campaign_ceiling m d \<longrightarrow> campaign_spent m' d \<le> campaign_ceiling m d"
    using 1 nc by (cases c; cases d) (auto simp: campaign_charges field_simps split: if_splits)
  ultimately show ?case by blast
next
  case (2 nc m e m')
  obtain now c where nc: "nc = (now, c)" by fastforce
  with 2 show ?case
    by (cases c) (auto simp: charge_proposals_def charge_sandbox_executions_def charge_wall_clock_s_def op_raise_def
        dest: charge_or_refuse_Inl split: if_splits)
qed

lemma campaign_charge_started: "cm_started_at (snd (campaign_charge_call nc m)) = cm_started_at m"
  by (cases nc; cases "snd nc")
    (auto simp: charge_proposals_def charge_sandbox_executions_def charge_wall_clock_s_def op_raise_def
      charge_or_refuse_def split: sum.splits option.splits)

lemma campaign_valid_run: "\<forall>nc \<in> set cs. cm_started_at m \<le> fst nc \<Longrightarrow> campaign_meter.valid_run cs m"
  by (induction cs arbitrary: m) (auto simp: campaign_charge_started)

text \<open>Time that passes by itself is not charged: a meter's reported usage can leave its budget.\<close>

lemma usage_grows_without_charges: "\<exists>now. \<not> usage_within (usage now m) (bm_budget m)"
  by (rule exI [of _ "max_wall_clock_s (bm_budget m) + bm_started_at m - bm_declared_wall_clock_s m + 1"])
     (simp add: usage_within_def usage_def elapsed_s_def)

section \<open>Properties\<close>

text \<open>A task meter never overspends: after any sequence of charges, accepted or refused, at any clock
  readings not before its start, every dimension has recorded exactly the sum of the accepted charges,
  that sum is within the budget's ceiling, and the budget is the one the meter was given.\<close>

theorem task_meter_never_overspends:
  assumes "new_task_budget i out t w = Inr b" "\<forall>nc \<in> set cs. start \<le> fst nc"
  shows "let m = run_calls (\<lambda>c m. snd (charge c m)) cs (new_budget_meter b start)
    in (\<forall>d. task_spent m d \<le> task_limit b d
          \<and> task_spent m d = sum_list (map (\<lambda>c. task_cost c d) (task_meter.accepted_of cs (new_budget_meter b start))))"
proof -
  let ?m = "new_budget_meter b start"
  have v: "task_meter.valid_run cs ?m" using assms(2) by (intro task_valid_run) (simp add: new_budget_meter_def)
  have z: "task_spent ?m d = 0" for d by (cases d) (simp_all add: new_budget_meter_def)
  have "0 \<le> task_limit b d" for d
    using assms(1) by (cases d) (auto simp: new_task_budget_def split: if_splits)
  then have "\<forall>d. task_spent ?m d \<le> task_limit (bm_budget ?m) d" by (simp add: z) (simp add: new_budget_meter_def)
  from task_meter.run_within [OF v this] task_meter.run_spent [OF v] show ?thesis
    by (simp add: Let_def z) (simp add: new_budget_meter_def)
qed

lemma task_meter_witness:
  "task_spent (run_calls (\<lambda>c m. snd (charge c m)) [(1, no_usage\<lparr>bu_tool_calls := 30\<rparr>), (2, no_usage\<lparr>bu_tool_calls := 30\<rparr>)]
     (new_budget_meter TASK_BUDGET_V1 0)) TOOL_CALLS \<le> 40"
proof -
  have new: "new_task_budget 120000 16000 40 600 = Inr TASK_BUDGET_V1"
    by (simp add: new_task_budget_def TASK_BUDGET_V1_def)
  have "\<forall>nc \<in> set [(1, no_usage\<lparr>bu_tool_calls := 30\<rparr>), (2, no_usage\<lparr>bu_tool_calls := 30\<rparr>)]. (0::rat) \<le> fst nc" by simp
  from task_meter_never_overspends [OF new this, unfolded Let_def, THEN spec, of TOOL_CALLS]
  show ?thesis by (elim conjE) (simp add: TASK_BUDGET_V1_def del: run_calls.simps task_meter.accepted_of.simps)
qed

text \<open>The non-raising check is exact: a charge without negative amounts succeeds exactly when
  \<^verbatim>\<open>can_afford\<close> says so, and a refused one leaves the meter as it was and names a dimension whose
  prospective total is over its ceiling.\<close>

theorem task_charge_iff_affordable:
  assumes "0 \<le> bu_input_tokens c" "0 \<le> bu_output_tokens c" "0 \<le> bu_tool_calls c" "0 \<le> bu_wall_clock_s c"
  shows "(can_afford now c m \<longleftrightarrow> fst (charge (now, c) m) = Inr ())
    \<and> (\<not> can_afford now c m \<longrightarrow> (\<exists>d attempted. charge (now, c) m =
          (Inl (Eval (BudgetExceededError (dimension_value d) (task_limit (bm_budget m) d) attempted)), m)
        \<and> task_limit (bm_budget m) d < attempted))"
proof (cases "task_first_violation now c m")
  case None
  with assms show ?thesis by (simp add: can_afford_def charge_def)
next
  case (Some dt)
  obtain d t where dt: "dt = (d, t)" by fastforce
  have "task_limit (bm_budget m) d < t"
    using first_over_Some [of _ _ d t] Some dt unfolding task_first_violation_def by blast
  with Some dt assms show ?thesis by (auto simp: can_afford_def charge_def)
qed

lemma task_charge_witness:
  "\<exists>d attempted. charge (0, no_usage\<lparr>bu_output_tokens := 20000\<rparr>) (new_budget_meter TASK_BUDGET_V1 0) =
     (Inl (Eval (BudgetExceededError (dimension_value d) (task_limit TASK_BUDGET_V1 d) attempted)), new_budget_meter TASK_BUDGET_V1 0)
     \<and> task_limit TASK_BUDGET_V1 d < attempted"
  using task_charge_iff_affordable [of "no_usage\<lparr>bu_output_tokens := 20000\<rparr>" 0 "new_budget_meter TASK_BUDGET_V1 0"]
  by (simp add: no_usage_def can_afford_def task_first_violation_def new_budget_meter_def TASK_BUDGET_V1_def elapsed_s_def)

text \<open>C39: A campaign meter never overspends: after any sequence of proposal, sandbox and wall-clock charges,
  every dimension has recorded exactly the sum of the accepted charges and is within its ceiling.\<close>

theorem campaign_meter_never_overspends:
  assumes "new_campaign_budgets profile p t w s = Inr bs" "\<forall>nc \<in> set cs. start \<le> fst nc"
  shows "let b = campaign_budget_from_spec bs;
             m = run_calls (\<lambda>c m. snd (campaign_charge_call c m)) cs (new_campaign_meter b start)
    in cm_proposals m \<le> p \<and> cm_model_tokens m \<le> t \<and> cm_sandbox_executions m \<le> s \<and> cm_declared_wall_clock_s m \<le> 60 * w
       \<and> (\<forall>d. campaign_spent m d =
            sum_list (map (\<lambda>c. campaign_cost c d) (campaign_meter.accepted_of cs (new_campaign_meter b start))))"
proof -
  define b where "b = campaign_budget_from_spec bs"
  define m where "m = run_calls (\<lambda>c m. snd (campaign_charge_call c m)) cs (new_campaign_meter b start)"
  let ?m = "new_campaign_meter b start"
  have b: "1 \<le> p" "1 \<le> t" "0 < w" "1 \<le> s" "b = \<lparr>max_proposals = p, max_model_tokens = t, max_wall_clock_minutes = w, max_sandbox_executions = s\<rparr>"
    using assms(1) by (auto simp: new_campaign_budgets_def b_def campaign_budget_from_spec_def split: if_splits sum.splits)
  have v: "campaign_meter.valid_run cs ?m" using assms(2) by (intro campaign_valid_run) (simp add: new_campaign_meter_def)
  have z: "campaign_spent ?m d = 0" for d by (cases d) (simp_all add: new_campaign_meter_def)
  have c: "campaign_ceiling ?m Proposals = of_int p" "campaign_ceiling ?m Model_Tokens = of_int t"
    "campaign_ceiling ?m Sandbox_Executions = of_int s" "campaign_ceiling ?m Wall_Clock_Minutes = w"
    using b(5) by (simp_all add: new_campaign_meter_def)
  then have "0 \<le> campaign_ceiling ?m d" for d using b(1-4) by (cases d) simp_all
  then have "\<forall>d. campaign_spent m d \<le> campaign_ceiling ?m d"
    using campaign_meter.run_within [OF v] by (simp add: z m_def)
  from this [THEN spec, of Proposals] this [THEN spec, of Model_Tokens]
    this [THEN spec, of Sandbox_Executions] this [THEN spec, of Wall_Clock_Minutes]
  have "cm_proposals m \<le> p \<and> cm_model_tokens m \<le> t \<and> cm_sandbox_executions m \<le> s \<and> cm_declared_wall_clock_s m \<le> 60 * w"
    unfolding c by simp
  moreover have "campaign_spent m d = sum_list (map (\<lambda>c. campaign_cost c d) (campaign_meter.accepted_of cs ?m))" for d
    using campaign_meter.run_spent [OF v, of d] by (simp add: z m_def)
  ultimately show ?thesis unfolding b_def [symmetric] Let_def m_def [symmetric] by blast
qed

definition demo_budgets :: campaign_budgets where
  "demo_budgets = \<lparr>task_budget_profile = ''task-budget-v1'', cb_max_proposals = 3, cb_max_model_tokens = 1000,
     cb_max_wall_clock_minutes = 10, cb_max_sandbox_executions = 2\<rparr>"

lemma demo_budgets_new: "new_campaign_budgets ''task-budget-v1'' 3 1000 10 2 = Inr demo_budgets"
  by (simp add: new_campaign_budgets_def demo_budgets_def resolve_budget_profile_def budget_profiles_def)

lemma campaign_meter_witness:
  "cm_proposals (run_calls (\<lambda>c m. snd (campaign_charge_call c m)) [(1, ChargeProposals 2 5 5), (2, ChargeSandbox 1), (3, ChargeProposals 2 5 5)]
     (new_campaign_meter (campaign_budget_from_spec demo_budgets) 0)) \<le> 3"
  using campaign_meter_never_overspends [OF demo_budgets_new, of "[(1, ChargeProposals 2 5 5), (2, ChargeSandbox 1), (3, ChargeProposals 2 5 5)]" 0]
  by (simp add: Let_def)

text \<open>The view a plugin gets of its remaining budget is exact: while the recorded totals are within the
  ceilings, a proposal batch fits exactly when it is within the shown headroom and the campaign's time
  is not over, and the budget is exhausted exactly when some unit step no longer fits or no time is left.\<close>

theorem remaining_budget_is_exact:
  assumes "cm_proposals m \<le> max_proposals (cm_budget m)" "cm_model_tokens m \<le> max_model_tokens (cm_budget m)"
    and "cm_sandbox_executions m \<le> max_sandbox_executions (cm_budget m)"
    and "0 \<le> n" "0 \<le> i" "0 \<le> out"
  shows "(can_charge_proposals now n i out m \<longleftrightarrow>
        n \<le> proposals_remaining (campaign_remaining now m) \<and> i + out \<le> model_tokens_remaining (campaign_remaining now m)
        \<and> elapsed_minutes now m \<le> max_wall_clock_minutes (cm_budget m))
    \<and> (exhausted now m \<longleftrightarrow> \<not> can_charge_proposals now 1 1 0 m \<or> \<not> can_charge_sandbox_executions now 1 m
        \<or> elapsed_minutes now m = max_wall_clock_minutes (cm_budget m))"
  using assms
  by (auto simp: can_charge_proposals_def can_charge_sandbox_executions_def campaign_no_violation no_step_def
      campaign_remaining_def exhausted_def Let_def max_def)

lemma remaining_budget_witness:
  "\<not> can_charge_proposals 0 4 0 0 (new_campaign_meter (campaign_budget_from_spec demo_budgets) 0)"
  using remaining_budget_is_exact [of "new_campaign_meter (campaign_budget_from_spec demo_budgets) 0" 4 0 0 0]
  by (simp add: new_campaign_meter_def campaign_budget_from_spec_def demo_budgets_def campaign_remaining_def)

end
