(* ===== verification/Authority.thy ===== *)
theory Authority
  imports Identities
begin

text \<open>
  Authority tiers computed on a resolved release and the gate that asks for their approvals
  (\<^verbatim>\<open>selection/authority.py\<close>), and the canary's admission gate over the same view
  (\<^verbatim>\<open>release/eligibility.py\<close>). \<^verbatim>\<open>str.casefold\<close> is modelled on the ASCII letters.
\<close>

section \<open>Tiers\<close>

datatype authority_tier = TIER_1 | TIER_2 | TIER_3 | TIER_4

fun tier_int :: "authority_tier \<Rightarrow> nat" where
  "tier_int TIER_1 = 1" | "tier_int TIER_2 = 2" | "tier_int TIER_3 = 3" | "tier_int TIER_4 = 4"

lemma tier_int_inject [simp]: "tier_int a = tier_int b \<longleftrightarrow> a = b"
  by (cases a; cases b) auto

text \<open>\<^verbatim>\<open>AuthorityTier\<close> is an \<^verbatim>\<open>IntEnum\<close>: ordered by its value.\<close>

instantiation authority_tier :: linorder
begin

definition less_eq_authority_tier :: "authority_tier \<Rightarrow> authority_tier \<Rightarrow> bool" where
  "less_eq_authority_tier a b = (tier_int a \<le> tier_int b)"

definition less_authority_tier :: "authority_tier \<Rightarrow> authority_tier \<Rightarrow> bool" where
  "less_authority_tier a b = (tier_int a < tier_int b)"

instance
  by standard (auto simp: less_eq_authority_tier_def less_authority_tier_def)

end

lemmas tier_order = less_eq_authority_tier_def less_authority_tier_def

lemma tier_split: "TIER_1 \<le> t" "t \<le> TIER_4" "t \<le> TIER_2 \<longleftrightarrow> t = TIER_1 \<or> t = TIER_2"
  by (cases t; simp add: tier_order)+

abbreviation APPROVAL_FREE_MAX_TIER :: authority_tier where "APPROVAL_FREE_MAX_TIER \<equiv> TIER_2"

section \<open>Resolved releases\<close>

record resolved_release =
  artifact_classes :: "string list"
  contains_executable_content :: bool
  touches_harness :: bool
  memory_write_mode :: string
  rr_reversible :: bool
  runtime_surface :: string

definition new_resolved_release ::
  "string list \<Rightarrow> bool \<Rightarrow> bool \<Rightarrow> string \<Rightarrow> bool \<Rightarrow> string \<Rightarrow> exn + resolved_release" where
  "new_resolved_release classes executable harness mode reversible surface =
     (if mode \<notin> {''suggestion'', ''direct''} then Inl (ValueError ''memory_write_mode'')
      else if surface \<notin> {''read_only'', ''config'', ''runtime''} then Inl (ValueError ''runtime_surface'')
      else Inr \<lparr>artifact_classes = classes, contains_executable_content = executable, touches_harness = harness,
                memory_write_mode = mode, rr_reversible = reversible, runtime_surface = surface\<rparr>)"

text \<open>A release with every field but the classes at its default.\<close>

definition plain_release :: "string list \<Rightarrow> resolved_release" where
  "plain_release classes = \<lparr>artifact_classes = classes, contains_executable_content = False,
     touches_harness = False, memory_write_mode = ''suggestion'', rr_reversible = True,
     runtime_surface = ''read_only''\<rparr>"

definition tier_by_class :: "(string, authority_tier) dict" where
  "tier_by_class =
     [(''prompt_bundle'', TIER_1), (''demonstration_set'', TIER_1), (''memory_entry'', TIER_2),
      (''compiled_prompt_program'', TIER_2), (''skill_package'', TIER_2), (''workflow_graph'', TIER_3),
      (''tool_spec'', TIER_3), (''skill_script'', TIER_3), (''algorithm'', TIER_3),
      (''harness_patch'', TIER_4), (''scaffold'', TIER_4)]"

definition resolve_authority_tier :: "resolved_release \<Rightarrow> authority_tier" where
  "resolve_authority_tier r =
     (if touches_harness r then TIER_4
      else if contains_executable_content r \<or> memory_write_mode r = ''direct'' \<or> \<not> rr_reversible r
              \<or> runtime_surface r = ''runtime'' then TIER_3
      else (let tiers = map (\<lambda>c. dict_get tier_by_class c TIER_3) (artifact_classes r)
            in if tiers = [] then TIER_3 else Max (set tiers)))"

section \<open>The approval gate\<close>

record tier_approval_evidence =
  ae_approvers :: "string list"
  ae_requested_by :: "string option"
  ae_human_signoff :: bool
  ae_manually_initiated :: bool

definition no_approval :: tier_approval_evidence where
  "no_approval = \<lparr>ae_approvers = [], ae_requested_by = None, ae_human_signoff = False, ae_manually_initiated = False\<rparr>"

definition fold_char :: "char \<Rightarrow> char" where
  "fold_char c = (let n = (of_char c :: nat) in if 65 \<le> n \<and> n \<le> 90 then char_of (n + 32) else c)"

definition casefold :: "string \<Rightarrow> string" where
  "casefold s = map fold_char s"

definition require_two_person_approval :: "tier_approval_evidence \<Rightarrow> authority_tier \<Rightarrow> exn + unit" where
  "require_two_person_approval a tier =
     (case ae_approvers a of
        [first, second] \<Rightarrow>
          if casefold first = casefold second
          then Inl (Selection (TierRejectedError (tier_int tier) ''distinct approvers''))
          else (case ae_requested_by a of
                  Some requester \<Rightarrow>
                    if \<exists>p \<in> set [first, second]. casefold p = casefold requester
                    then Inl (Selection (TierRejectedError (tier_int tier) ''self-approval''))
                    else Inr ()
                | None \<Rightarrow> Inr ())
      | _ \<Rightarrow> Inl (Selection (TierRejectedError (tier_int tier) ''two-person approval'')))"

definition assert_phase2_admissible :: "authority_tier \<Rightarrow> tier_approval_evidence option \<Rightarrow> exn + unit" where
  "assert_phase2_admissible tier evidence =
     (if tier \<le> APPROVAL_FREE_MAX_TIER then Inr ()
      else (let approval = (case evidence of None \<Rightarrow> no_approval | Some a \<Rightarrow> a)
            in if tier = TIER_3 then require_two_person_approval approval tier
               else if \<not> ae_human_signoff approval \<or> \<not> ae_manually_initiated approval
                 then Inl (Selection (TierRejectedError (tier_int tier) ''human sign-off and manual initiation''))
               else Inr ()))"

section \<open>Canary eligibility\<close>

record canary_eligibility =
  ce_eligible :: bool
  ce_ineligible_classes :: "string list"
  ce_refusals :: "string list"

definition resolve_canary_eligibility :: "resolved_release \<Rightarrow> canary_eligibility" where
  "resolve_canary_eligibility r =
     (let ineligible = filter (\<lambda>c. TIER_2 < resolve_authority_tier (plain_release [c])) (artifact_classes r);
          refusals =
            (if artifact_classes r = [] then [''no artifact classes''] else [])
            @ (if \<not> rr_reversible r then [''not reversible''] else [])
            @ (if runtime_surface r = ''runtime'' then [''runtime surface''] else [])
            @ (if touches_harness r then [''evaluation harness''] else [])
            @ (if contains_executable_content r then [''executable content''] else [])
            @ (if memory_write_mode r = ''direct'' then [''direct memory writes''] else [])
      in \<lparr>ce_eligible = (ineligible = [] \<and> refusals = []), ce_ineligible_classes = ineligible, ce_refusals = refusals\<rparr>)"

definition assert_canary_eligible :: "resolved_release \<Rightarrow> exn + canary_eligibility" where
  "assert_canary_eligible r =
     (let e = resolve_canary_eligibility r
      in if \<not> ce_eligible e
         then Inl (Release (CanaryIneligibleError (ce_ineligible_classes e) (ce_refusals e)))
         else Inr e)"

section \<open>How the two gates relate\<close>

lemma plain_tier: "resolve_authority_tier (plain_release [c]) = dict_get tier_by_class c TIER_3"
  by (simp add: resolve_authority_tier_def plain_release_def Let_def)

lemma Max_tier_le: "xs \<noteq> [] \<Longrightarrow> Max (set xs) \<le> t \<longleftrightarrow> (\<forall>x \<in> set xs. x \<le> t)" for t :: authority_tier
  by (simp add: Max_le_iff)

lemma eligible_iff_low_tier:
  "ce_eligible (resolve_canary_eligibility r) \<longleftrightarrow> resolve_authority_tier r \<le> TIER_2"
proof -
  let ?t = "\<lambda>c. dict_get tier_by_class c TIER_3"
  have "\<not> TIER_3 \<le> TIER_2" "\<not> TIER_4 \<le> TIER_2" by (simp_all add: tier_order)
  moreover have "artifact_classes r \<noteq> [] \<Longrightarrow>
      Max (set (map ?t (artifact_classes r))) \<le> TIER_2 \<longleftrightarrow> (\<forall>c \<in> set (artifact_classes r). ?t c \<le> TIER_2)"
    by (subst Max_tier_le) auto
  ultimately have tier: "resolve_authority_tier r \<le> TIER_2 \<longleftrightarrow>
      \<not> touches_harness r \<and> \<not> contains_executable_content r \<and> memory_write_mode r \<noteq> ''direct'' \<and> rr_reversible r
      \<and> runtime_surface r \<noteq> ''runtime'' \<and> artifact_classes r \<noteq> [] \<and> (\<forall>c \<in> set (artifact_classes r). ?t c \<le> TIER_2)"
    by (auto simp: resolve_authority_tier_def Let_def)
  show ?thesis unfolding tier
    by (auto simp: resolve_canary_eligibility_def Let_def filter_empty_conv plain_tier not_less)
qed

lemma two_person_iff:
  "require_two_person_approval a t = Inr () \<longleftrightarrow>
     (\<exists>x y. ae_approvers a = [x, y] \<and> casefold x \<noteq> casefold y
        \<and> (\<forall>r. ae_requested_by a = Some r \<longrightarrow> casefold r \<noteq> casefold x \<and> casefold r \<noteq> casefold y))"
  by (auto simp: require_two_person_approval_def split: list.splits option.splits)

lemma two_person_error: "require_two_person_approval a t = Inl e \<Longrightarrow> \<exists>why. e = Selection (TierRejectedError (tier_int t) why)"
  by (auto simp: require_two_person_approval_def split: list.splits option.splits if_splits)

section \<open>Properties\<close>

text \<open>The canary admits exactly the releases whose authority tier is at most 2: the two gates draw the
  same line over every resolved release, and a refusal is the typed error naming the offending
  classes and release-level properties, at least one of them.\<close>

theorem canary_eligibility_is_the_tier_line:
  "if resolve_authority_tier r \<le> TIER_2
   then assert_canary_eligible r = Inr \<lparr>ce_eligible = True, ce_ineligible_classes = [], ce_refusals = []\<rparr>
   else (\<exists>cs rs. assert_canary_eligible r = Inl (Release (CanaryIneligibleError cs rs))
           \<and> set cs \<subseteq> set (artifact_classes r) \<and> cs @ rs \<noteq> [])"
proof (cases "ce_eligible (resolve_canary_eligibility r)")
  case True
  then have "assert_canary_eligible r = Inr \<lparr>ce_eligible = True, ce_ineligible_classes = [], ce_refusals = []\<rparr>"
    by (simp add: assert_canary_eligible_def Let_def) (simp add: resolve_canary_eligibility_def Let_def)
  with True show ?thesis by (simp add: eligible_iff_low_tier)
next
  case False
  then have "\<exists>cs rs. assert_canary_eligible r = Inl (Release (CanaryIneligibleError cs rs))
      \<and> set cs \<subseteq> set (artifact_classes r) \<and> cs @ rs \<noteq> []"
    by (simp add: assert_canary_eligible_def Let_def) (auto simp: resolve_canary_eligibility_def Let_def)
  with False show ?thesis by (simp add: eligible_iff_low_tier)
qed

text \<open>A release is admitted without approvals only at tier 1 or 2; at tier 3 exactly with two approvers
  whose names differ up to case, neither of them the requester; at tier 4 exactly with the human
  sign-off and manual initiation. Every other combination is refused with the tier in the error.\<close>

theorem tier_admission_exact:
  "assert_phase2_admissible t ev = Inr () \<longleftrightarrow>
     t = TIER_1 \<or> t = TIER_2
     \<or> (t = TIER_3 \<and> (\<exists>a x y. ev = Some a \<and> ae_approvers a = [x, y] \<and> casefold x \<noteq> casefold y
          \<and> (\<forall>r. ae_requested_by a = Some r \<longrightarrow> casefold r \<noteq> casefold x \<and> casefold r \<noteq> casefold y)))
     \<or> (t = TIER_4 \<and> (\<exists>a. ev = Some a \<and> ae_human_signoff a \<and> ae_manually_initiated a))"
  by (cases t; cases ev)
    (auto simp: assert_phase2_admissible_def tier_order Let_def no_approval_def two_person_iff)

lemma tier_admission_witness:
  "assert_phase2_admissible TIER_3
     (Some \<lparr>ae_approvers = [''Ann'', ''ann''], ae_requested_by = None, ae_human_signoff = True, ae_manually_initiated = True\<rparr>) \<noteq> Inr ()"
proof -
  have "casefold ''Ann'' = casefold ''ann''" by code_simp
  then show ?thesis by (simp add: tier_admission_exact)
qed

text \<open>The tier is not monotone in risk: setting the executable-content flag on a release that holds a
  harness patch lowers it from tier 4 to tier 3, so that two approvers without any human sign-off are
  enough for what was refused before.\<close>

theorem executable_flag_lowers_tier:
  assumes "''harness_patch'' \<in> set (artifact_classes r)" "\<not> touches_harness r" "\<not> contains_executable_content r"
    and "memory_write_mode r \<noteq> ''direct''" "rr_reversible r" "runtime_surface r \<noteq> ''runtime''"
    and "ae_approvers a = [x, y]" "casefold x \<noteq> casefold y" "ae_requested_by a = None" "\<not> ae_human_signoff a"
  shows "resolve_authority_tier r = TIER_4 \<and> resolve_authority_tier (r\<lparr>contains_executable_content := True\<rparr>) = TIER_3
    \<and> assert_phase2_admissible (resolve_authority_tier r) (Some a) \<noteq> Inr ()
    \<and> assert_phase2_admissible (resolve_authority_tier (r\<lparr>contains_executable_content := True\<rparr>)) (Some a) = Inr ()"
proof -
  let ?t = "\<lambda>c. dict_get tier_by_class c TIER_3"
  have "?t ''harness_patch'' = TIER_4" by (simp add: dict_get_def tier_by_class_def)
  with assms(1) have "TIER_4 \<in> set (map ?t (artifact_classes r))" by force
  then have "Max (set (map ?t (artifact_classes r))) = TIER_4"
    by (intro Max_eqI) (auto simp: tier_split(2))
  moreover have "artifact_classes r \<noteq> []" using assms(1) by auto
  ultimately have "resolve_authority_tier r = TIER_4"
    using assms by (simp add: resolve_authority_tier_def)
  moreover have "resolve_authority_tier (r\<lparr>contains_executable_content := True\<rparr>) = TIER_3"
    using assms by (simp add: resolve_authority_tier_def)
  ultimately show ?thesis
    using assms by (auto simp: assert_phase2_admissible_def tier_order two_person_iff)
qed

lemma executable_flag_witness:
  "assert_phase2_admissible (resolve_authority_tier ((plain_release [''harness_patch''])\<lparr>contains_executable_content := True\<rparr>))
     (Some \<lparr>ae_approvers = [''ann'', ''bob''], ae_requested_by = None, ae_human_signoff = False, ae_manually_initiated = False\<rparr>) = Inr ()"
  by (rule executable_flag_lowers_tier [of _ _ "''ann''" "''bob''", THEN conjunct2, THEN conjunct2, THEN conjunct2])
     (simp_all add: plain_release_def casefold_def fold_char_def Let_def)

end
