(* ===== verification/Invalidation.thy ===== *)
theory Invalidation
  imports ReleaseController Fleet
begin

text \<open>
  Invalidation of a live release (\<^verbatim>\<open>release/invalidation.py\<close>): the policy table, the decisions it makes for
  observed signals, and the invalidator that applies them through the controller and the fleet.
\<close>

section \<open>Policy\<close>

datatype invalidation_trigger =
    MODEL_ALIAS_DRIFT | TOOL_API_CHANGE | DEPENDENCY_CVE | EVALUATOR_CHANGE | EXPIRY | ENVIRONMENT_DRIFT

datatype invalidation_action = RE_EVALUATE | QUARANTINE | ROLLBACK

type_synonym invalidation_policy = "(invalidation_trigger, invalidation_action) dict"

definition default_invalidation_policy :: invalidation_policy where
  "default_invalidation_policy =
     [(MODEL_ALIAS_DRIFT, RE_EVALUATE), (TOOL_API_CHANGE, QUARANTINE), (DEPENDENCY_CVE, ROLLBACK),
      (EVALUATOR_CHANGE, RE_EVALUATE), (EXPIRY, QUARANTINE), (ENVIRONMENT_DRIFT, ROLLBACK)]"

record invalidation_signal =
  is_trigger :: invalidation_trigger
  is_observed_at :: string
  is_detail :: string

record invalidation_decision =
  id_manifest_digest :: string
  id_trigger :: invalidation_trigger
  id_action :: invalidation_action
  id_detail :: string

fun action_severity :: "invalidation_action \<Rightarrow> nat" where
  "action_severity RE_EVALUATE = 0" | "action_severity QUARANTINE = 1" | "action_severity ROLLBACK = 2"

definition evaluate_invalidation ::
  "invalidation_policy \<Rightarrow> 'b signed_release_manifest \<Rightarrow> invalidation_signal list \<Rightarrow> exn + invalidation_decision list" where
  "evaluate_invalidation policy m signals =
     res_map (\<lambda>s. case map_of policy (is_trigger s) of
         None \<Rightarrow> Inl (KeyError ''trigger'')
       | Some act \<Rightarrow> Inr \<lparr>id_manifest_digest = manifest_digest m, id_trigger = is_trigger s, id_action = act,
           id_detail = is_detail s\<rparr>) signals"

text \<open>\<^verbatim>\<open>max(..., key=...)\<close> keeps the first of the most severe decisions.\<close>

fun max_by :: "('a \<Rightarrow> nat) \<Rightarrow> 'a \<Rightarrow> 'a list \<Rightarrow> 'a" where
  "max_by key best [] = best"
| "max_by key best (x # xs) = max_by key (if key best < key x then x else best) xs"

definition strongest_action :: "invalidation_decision list \<Rightarrow> invalidation_action option" where
  "strongest_action decisions =
     (case decisions of [] \<Rightarrow> None | d # ds \<Rightarrow> Some (id_action (max_by (\<lambda>d. action_severity (id_action d)) d ds)))"

lemma max_by_in: "max_by key best xs \<in> set (best # xs)"
proof (induction xs arbitrary: best)
  case (Cons x xs)
  from Cons.IH [of "if key best < key x then x else best"] show ?case by (auto split: if_splits)
qed simp

lemma max_by_max: "x \<in> set (best # xs) \<Longrightarrow> key x \<le> key (max_by key best xs)"
proof (induction xs arbitrary: best x)
  case Nil
  then show ?case by simp
next
  case (Cons y ys)
  show ?case
    using Cons.IH [of x "if key best < key y then y else best"] Cons.prems
      Cons.IH [of "if key best < key y then y else best" "if key best < key y then y else best"]
    by (auto split: if_splits intro: order.trans)
qed

lemma strongest_rollback_iff:
  "strongest_action ds = Some ROLLBACK \<longleftrightarrow> (\<exists>d \<in> set ds. id_action d = ROLLBACK)"
proof (cases ds)
  case Nil
  then show ?thesis by (simp add: strongest_action_def)
next
  case (Cons d0 ds0)
  let ?k = "\<lambda>d. action_severity (id_action d)"
  have two: "action_severity a = 2 \<longleftrightarrow> a = ROLLBACK" "action_severity a \<le> 2" for a by (cases a; simp)+
  have "(\<exists>d \<in> set ds. id_action d = ROLLBACK) \<Longrightarrow> id_action (max_by ?k d0 ds0) = ROLLBACK"
  proof -
    assume "\<exists>d \<in> set ds. id_action d = ROLLBACK"
    then obtain d where "d \<in> set (d0 # ds0)" "id_action d = ROLLBACK" using Cons by auto
    with max_by_max [of d d0 ds0 ?k] have "2 \<le> ?k (max_by ?k d0 ds0)" by simp
    with two show ?thesis by (metis le_antisym)
  qed
  then show ?thesis
    using max_by_in [of ?k d0 ds0] Cons by (auto simp: strongest_action_def)
qed

lemma evaluate_invalidation_Inr:
  "evaluate_invalidation policy m signals = Inr ds \<Longrightarrow>
     map id_trigger ds = map is_trigger signals
     \<and> (\<forall>d \<in> set ds. map_of policy (id_trigger d) = Some (id_action d) \<and> id_manifest_digest d = manifest_digest m)"
  unfolding evaluate_invalidation_def
  by (induction signals arbitrary: ds) (auto simp: res_bind_Inr split: option.splits)

section \<open>The invalidator\<close>

text \<open>\<^verbatim>\<open>policy or DEFAULT_INVALIDATION_POLICY\<close>: an empty policy counts as none.\<close>

definition effective_policy :: "invalidation_policy option \<Rightarrow> invalidation_policy" where
  "effective_policy policy = (case policy of None \<Rightarrow> default_invalidation_policy
     | Some p \<Rightarrow> if p = [] then default_invalidation_policy else p)"

definition handle_invalidation ::
  "('k, 'b) crypto \<Rightarrow> (pointer_audit_entry \<Rightarrow> (exn, 'l, unit) op) \<Rightarrow> workload_identity \<Rightarrow>
   (rat \<Rightarrow> string \<Rightarrow> (exn, 'f, unit) op) \<Rightarrow> rat \<Rightarrow> 'b signed_release_manifest \<Rightarrow> invalidation_signal list \<Rightarrow>
   invalidation_policy option \<Rightarrow> (exn, 'l pointer_store \<times> 'f, invalidation_decision list) op" where
  "handle_invalidation C app identity invalidate now m signals policy =
     op_bind (op_lift (evaluate_invalidation (effective_policy policy) m signals)) (\<lambda>decisions.
       if strongest_action decisions = Some ROLLBACK
       then op_then (op_zoom fst (\<lambda>s w. (s, snd w)) (rollback C app identity m))
              (case prior_release_digest m of
                 None \<Rightarrow> op_return decisions
               | Some prior \<Rightarrow>
                   op_then (op_zoom snd (\<lambda>f w. (fst w, f)) (invalidate now prior)) (op_return decisions))
       else op_return decisions)"

section \<open>Properties\<close>

text \<open>Only a rollback decision touches a live release. If some observed signal's policy action is a
  rollback, and the release is the active one and verifies, the pointer returns to its prior release and
  the fleet converges to that one; otherwise neither the pointer, nor its audit log, nor the fleet
  changes. Either way there is one decision per signal, in order.\<close>

theorem invalidation_rolls_back_only_on_rollback:
  assumes "wid_role w = RELEASE_CONTROLLER" "verify_release_manifest C m = Inr ()"
    and "prior_release_digest m = Some prior" "active_digest s = Some (manifest_digest m)"
    and "evaluate_invalidation (effective_policy policy) m signals = Inr ds"
  shows "map id_trigger ds = map is_trigger signals
    \<and> (if \<exists>g \<in> set signals. map_of (effective_policy policy) (is_trigger g) = Some ROLLBACK
       then \<exists>s' f'. handle_invalidation C mem_audit w invalidate_caches now m signals policy (s, f) = (Inr ds, (s', f'))
              \<and> active_digest s' = Some prior \<and> fl_active f' = Some prior \<and> fl_invalidated_at f' = Some now
       else handle_invalidation C mem_audit w invalidate_caches now m signals policy (s, f) = (Inr ds, (s, f)))"
proof -
  note ev = evaluate_invalidation_Inr [OF assms(5)]
  have "(\<exists>g \<in> set signals. map_of (effective_policy policy) (is_trigger g) = Some ROLLBACK) \<longleftrightarrow>
      (\<exists>t \<in> set (map is_trigger signals). map_of (effective_policy policy) t = Some ROLLBACK)" by simp
  also have "\<dots> \<longleftrightarrow> (\<exists>d \<in> set ds. id_action d = ROLLBACK)" unfolding ev [THEN conjunct1, symmetric] using ev [THEN conjunct2] by auto
  finally have iff: "(\<exists>g \<in> set signals. map_of (effective_policy policy) (is_trigger g) = Some ROLLBACK) \<longleftrightarrow>
      strongest_action ds = Some ROLLBACK" unfolding strongest_rollback_iff .
  obtain p s1 where "rollback C mem_audit w m s = (Inr p, s1)" "active_digest s1 = Some prior"
    using mem_rollback_ok [OF assms(1-4)] by (metis prod.collapse)
  then show ?thesis
    using ev assms(3,5) unfolding iff by (simp add: handle_invalidation_def op_defs invalidate_caches_def)
qed

lemma invalidation_witness:
  "\<exists>s' f'. handle_invalidation plain_crypto mem_audit \<lparr>wid_role = RELEASE_CONTROLLER, wid_subject = ''rc''\<rparr> invalidate_caches 7
      (sign_release_manifest plain_crypto [''a''] [] [] [] (Some ''sha256:old'') ''key'')
      [\<lparr>is_trigger = EXPIRY, is_observed_at = [], is_detail = []\<rparr>, \<lparr>is_trigger = DEPENDENCY_CVE, is_observed_at = [], is_detail = []\<rparr>] None
      (\<lparr>audit_log = [], ps_pointer = \<lparr>current_digest = Some ''sha256:0'', rp_version = 2\<rparr>\<rparr>, demo_fleet) =
    (Inr [\<lparr>id_manifest_digest = ''sha256:0'', id_trigger = EXPIRY, id_action = QUARANTINE, id_detail = []\<rparr>,
          \<lparr>id_manifest_digest = ''sha256:0'', id_trigger = DEPENDENCY_CVE, id_action = ROLLBACK, id_detail = []\<rparr>], (s', f'))
    \<and> active_digest s' = Some ''sha256:old'' \<and> fl_active f' = Some ''sha256:old''"
proof -
  let ?m = "sign_release_manifest plain_crypto [''a''] [] [] [] (Some ''sha256:old'') ''key''"
  let ?gs = "[\<lparr>is_trigger = EXPIRY, is_observed_at = [], is_detail = []\<rparr>, \<lparr>is_trigger = DEPENDENCY_CVE, is_observed_at = [], is_detail = []\<rparr>]"
  let ?ds = "[\<lparr>id_manifest_digest = ''sha256:0'', id_trigger = EXPIRY, id_action = QUARANTINE, id_detail = []\<rparr>,
          \<lparr>id_manifest_digest = ''sha256:0'', id_trigger = DEPENDENCY_CVE, id_action = ROLLBACK, id_detail = []\<rparr>]"
  have m: "prior_release_digest ?m = Some ''sha256:old''" "manifest_digest ?m = ''sha256:0''"
    by (simp_all add: sign_release_manifest_def Let_def manifest_digest_for_def plain_digest)
  have ev: "evaluate_invalidation (effective_policy None) ?m ?gs = Inr ?ds"
    by (simp add: evaluate_invalidation_def effective_policy_def default_invalidation_policy_def m)
  have act: "active_digest \<lparr>audit_log = [], ps_pointer = \<lparr>current_digest = Some ''sha256:0'', rp_version = 2\<rparr>\<rparr> = Some (manifest_digest ?m)"
    by (simp add: active_digest_def m)
  have trigger: "\<exists>g \<in> set ?gs. map_of (effective_policy None) (is_trigger g) = Some ROLLBACK"
    by (simp add: effective_policy_def default_invalidation_policy_def)
  from invalidation_rolls_back_only_on_rollback [of "\<lparr>wid_role = RELEASE_CONTROLLER, wid_subject = ''rc''\<rparr>",
      OF _ sign_release_manifest_verifies [OF plain_crypto_laws] m(1) act ev, of 7 demo_fleet] trigger
  show ?thesis by (simp del: set_simps) blast
qed

end
