(* ===== verification/MutationMask.thy ===== *)
theory MutationMask
  imports Canonical Identities
begin

text \<open>
  Mutation masks (\<^verbatim>\<open>campaign/masks.py\<close>): the check of every file a candidate or a patch touches against
  the paths its member declares, and the adapter that makes the check before the wrapped adapter is
  called. File entries are JSON values as they arrive; a violation string is a constructor of
  \<open>mask_violation\<close> holding what the string names.
\<close>

section \<open>Masks and paths\<close>

record mutation_mask =
  mask_artifact_type :: string
  allowed_paths :: "string list"

text \<open>\<^verbatim>\<open>path.split("/")\<close>\<close>

fun split_on :: "char \<Rightarrow> string \<Rightarrow> string list" where
  "split_on c [] = [[]]"
| "split_on c (x # xs) =
     (if x = c then [] # split_on c xs
      else (case split_on c xs of [] \<Rightarrow> [[x]] | seg # segs \<Rightarrow> (x # seg) # segs))"

lemma split_on_not_Nil: "split_on c s \<noteq> []"
  by (induction c s rule: split_on.induct) (auto split: list.splits)

definition join_with :: "char \<Rightarrow> string list \<Rightarrow> string" where
  "join_with c segs = (case segs of [] \<Rightarrow> [] | s # ss \<Rightarrow> s @ concat (map (\<lambda>x. c # x) ss))"

lemma join_split: "join_with c (split_on c s) = s"
proof (induction c s rule: split_on.induct)
  case (1 c)
  then show ?case by (simp add: join_with_def)
next
  case (2 c x xs)
  obtain seg segs where s: "split_on c xs = seg # segs" using split_on_not_Nil by (meson neq_Nil_conv)
  show ?case
    using 2 s by (cases "x = c") (simp_all add: join_with_def)
qed

definition bad_shape :: "string \<Rightarrow> bool" where
  "bad_shape path \<longleftrightarrow> prefix ''/'' path \<or> ''..'' \<in> set (split_on (CHR ''/'') path)"

datatype mask_violation =
    Declares_No_Path nat
  | Not_Relative string "string option"
  | Outside_Mask string "string option" "string list"
  | No_Mask_For nat string "string list"
  | Cannot_Pick_Mask nat nat

section \<open>The checks\<close>

text \<open>\<^verbatim>\<open>entry.get("path") if isinstance(entry, dict) else None\<close>, kept when it is a non-empty string.\<close>

definition usable_str :: "json \<Rightarrow> string \<Rightarrow> string option" where
  "usable_str entry key = (case json_get entry key of Some (JStr s) \<Rightarrow> if s = [] then None else Some s | _ \<Rightarrow> None)"

definition path_violation :: "mutation_mask \<Rightarrow> string option \<Rightarrow> string \<Rightarrow> mask_violation list" where
  "path_violation mk member path =
     (if bad_shape path then [Not_Relative path member]
      else if path \<notin> set (allowed_paths mk) then [Outside_Mask path member (allowed_paths mk)]
      else [])"

definition entry_violations :: "mutation_mask \<Rightarrow> nat \<times> json \<Rightarrow> mask_violation list" where
  "entry_violations mk ie = (case ie of (index, entry) \<Rightarrow>
     (case usable_str entry ''path'' of
        None \<Rightarrow> [Declares_No_Path index]
      | Some path \<Rightarrow> path_violation mk None path))"

definition mask_violations :: "mutation_mask \<Rightarrow> json list \<Rightarrow> mask_violation list" where
  "mask_violations mk files = concat (map (entry_violations mk) (enumerate0 files))"




definition patch_paths :: "json_object \<Rightarrow> json list" where
  "patch_paths patch =
     (case map_of patch ''files'' of
        Some (JList entries) \<Rightarrow> filter (\<lambda>e. case e of JObj _ \<Rightarrow> True | _ \<Rightarrow> False) entries
      | _ \<Rightarrow> (case map_of patch ''path'' of
                Some (JStr p) \<Rightarrow> [JObj [(''path'', JStr p)]]
              | _ \<Rightarrow> []))"

text \<open>What a clean check means for one entry.\<close>

definition path_allowed :: "mutation_mask \<Rightarrow> string \<Rightarrow> bool" where
  "path_allowed mk path \<longleftrightarrow> path \<noteq> [] \<and> \<not> bad_shape path \<and> path \<in> set (allowed_paths mk)"



lemma entry_violations_Nil:
  "entry_violations mk (i, e) = [] \<longleftrightarrow> (\<exists>p. json_get e ''path'' = Some (JStr p) \<and> path_allowed mk p)"
  by (auto simp: entry_violations_def path_allowed_def path_violation_def usable_str_def
      split: option.splits json.splits if_splits)

lemma mask_violations_Nil:
  "mask_violations mk files = [] \<longleftrightarrow>
     (\<forall>e \<in> set files. \<exists>p. json_get e ''path'' = Some (JStr p) \<and> path_allowed mk p)"
proof -
  have "mask_violations mk files = [] \<longleftrightarrow> (\<forall>(i, e) \<in> set (enumerate0 files). entry_violations mk (i, e) = [])"
    by (auto simp: mask_violations_def)
  also have "\<dots> \<longleftrightarrow> (\<forall>e \<in> set files. \<exists>p. json_get e ''path'' = Some (JStr p) \<and> path_allowed mk p)"
    unfolding entry_violations_Nil by (rule all_enumerate0)
  finally show ?thesis .
qed



section \<open>The enforcing adapter\<close>

text \<open>The wrapped adapter is a protocol: its \<^verbatim>\<open>validate\<close> and \<^verbatim>\<open>render\<close> act on its own state \<open>'s\<close>, over its own
  candidates (of which the wrapper reads the files), base bytes and rendered bytes.\<close>

record validation_report =
  vr_accepted :: bool
  vr_violations :: "mask_violation list"
  vr_adapter_violations :: "string list"

record ('s, 'c, 'y) wrapped_adapter =
  wa_files :: "'c \<Rightarrow> json list"
  wa_validate :: "'c \<Rightarrow> (exn, 's, validation_report) op"
  wa_render :: "'y \<Rightarrow> json_object \<Rightarrow> (exn, 's, 'y) op"

definition new_mask_enforcing_adapter :: "mutation_mask list \<Rightarrow> exn + mutation_mask list" where
  "new_mask_enforcing_adapter masks =
     (if masks = [] then Inl (ValueError ''at least one mutation mask'') else Inr masks)"



definition select_mask :: "mutation_mask list \<Rightarrow> string option \<Rightarrow> exn + mutation_mask" where
  "select_mask masks artifact_type =
     (case artifact_type of
        Some t \<Rightarrow>
          (case List.find (\<lambda>m. mask_artifact_type m = t) masks of
             None \<Rightarrow> Inl (Campaign (MutationMaskViolationError [''no mutation mask is declared'']))
           | Some mk \<Rightarrow> Inr mk)
      | None \<Rightarrow>
          (case masks of
             [mk] \<Rightarrow> Inr mk
           | _ \<Rightarrow> Inl (Campaign (MutationMaskViolationError [''render must name its member'']))))"

fun violation_text :: "mask_violation \<Rightarrow> string" where
  "violation_text (Declares_No_Path i) = ''no path''"
| "violation_text (Not_Relative p member) = ''not relative: '' @ p"
| "violation_text (Outside_Mask p member allowed) = ''outside the mask: '' @ p"
| "violation_text (No_Mask_For i t types) = ''no mask for: '' @ t"
| "violation_text (Cannot_Pick_Mask i n) = ''cannot pick a mask''"

definition enforcing_render ::
  "mutation_mask list \<Rightarrow> ('s, 'c, 'y) wrapped_adapter \<Rightarrow> 'y \<Rightarrow> json_object \<Rightarrow> string option \<Rightarrow> (exn, 's, 'y) op" where
  "enforcing_render masks W base patch artifact_type =
     op_bind (op_lift (select_mask masks artifact_type)) (\<lambda>mk.
       let violations = mask_violations mk (patch_paths patch)
       in if violations \<noteq> [] then op_raise (Campaign (MutationMaskViolationError (map violation_text violations)))
          else wa_render W base patch)"

lemma select_mask_in: "select_mask masks t = Inr mk \<Longrightarrow> mk \<in> set masks"
  by (auto simp: select_mask_def find_Some_iff split: option.splits list.splits)

lemma select_mask_error: "select_mask masks t = Inl e \<Longrightarrow> \<exists>vs. e = Campaign (MutationMaskViolationError vs)"
  by (auto simp: select_mask_def split: option.splits list.splits)

section \<open>Properties\<close>


definition demo_mask :: mutation_mask where
  "demo_mask = \<lparr>mask_artifact_type = ''prompt_bundle'', allowed_paths = [''prompts/a.txt'', ''prompts/b.txt'']\<rparr>"

text \<open>A wrapped adapter that counts its calls.\<close>

definition counting_adapter :: "(nat, json list, string) wrapped_adapter" where
  "counting_adapter = \<lparr>wa_files = (\<lambda>c. c),
     wa_validate = (\<lambda>c n. (Inr \<lparr>vr_accepted = True, vr_violations = [], vr_adapter_violations = []\<rparr>, n + 1)),
     wa_render = (\<lambda>b p n. (Inr b, n + 1))\<rparr>"


text \<open>A render runs the wrapped adapter only after its patch's paths passed the mask of one declared
  member; otherwise it ends in the mask-violation error without a call. The paths checked are those of
  the \<^verbatim>\<open>files\<close> list when there is one: a patch with an empty \<^verbatim>\<open>files\<close> list is rendered whatever its
  top-level \<^verbatim>\<open>path\<close> says.\<close>

theorem render_checks_files_or_path:
  "((\<exists>mk \<in> set masks. \<forall>e \<in> set (patch_paths patch). \<exists>p. json_get e ''path'' = Some (JStr p) \<and> path_allowed mk p)
      \<and> enforcing_render masks W base patch t s = wa_render W base patch s
    \<or> (\<exists>vs. enforcing_render masks W base patch t s = (Inl (Campaign (MutationMaskViolationError vs)), s)))
   \<and> enforcing_render [mk] W base [(''files'', JList []), (''path'', JStr anywhere)] None s =
       wa_render W base [(''files'', JList []), (''path'', JStr anywhere)] s"
proof (rule conjI)
  show "(\<exists>mk \<in> set masks. \<forall>e \<in> set (patch_paths patch). \<exists>p. json_get e ''path'' = Some (JStr p) \<and> path_allowed mk p)
      \<and> enforcing_render masks W base patch t s = wa_render W base patch s
    \<or> (\<exists>vs. enforcing_render masks W base patch t s = (Inl (Campaign (MutationMaskViolationError vs)), s))"
  proof (cases "select_mask masks t")
    case (Inl e)
    with select_mask_error [OF Inl] show ?thesis by (auto simp: enforcing_render_def op_defs)
  next
    case (Inr mk)
    with select_mask_in [OF Inr] show ?thesis
      by (cases "mask_violations mk (patch_paths patch) = []")
        (auto simp: enforcing_render_def op_defs mask_violations_Nil Let_def)
  qed
  show "enforcing_render [mk] W base [(''files'', JList []), (''path'', JStr anywhere)] None s =
       wa_render W base [(''files'', JList []), (''path'', JStr anywhere)] s"
    by (simp add: enforcing_render_def select_mask_def op_defs patch_paths_def mask_violations_def Let_def)
qed


lemma render_checks_witness:
  "snd (enforcing_render [demo_mask] counting_adapter ''base'' [(''files'', JList []), (''path'', JStr ''/etc/passwd'')] None 0) = 1
   \<and> snd (enforcing_render [demo_mask] counting_adapter ''base'' [(''path'', JStr ''/etc/passwd'')] None 0) = 0"
proof -
  have no: "\<not> path_allowed demo_mask ''/etc/passwd''" by (simp add: path_allowed_def demo_mask_def)
  show ?thesis
    using render_checks_files_or_path [of "[demo_mask]" "[(''path'', JStr ''/etc/passwd'')]" counting_adapter "''base''" None 0
        demo_mask "''/etc/passwd''"] no
    by (auto simp: counting_adapter_def patch_paths_def json_get_def)
qed

end
