(* ===== verification/Database.thy ===== *)
theory Database
  imports Identities Canonical "HOL-Library.Product_Lexorder"
begin

text \<open>
  What the services that keep their state in tables share (\<^verbatim>\<open>db/base.py\<close> and the SQLAlchemy calls they
  make): a session's transaction, the reads that expect at most one row, the error of a violated
  constraint, and instants. A table is the list of its rows in insertion order.
\<close>

text \<open>\<^verbatim>\<open>session_scope\<close>: commit on success, roll back and re-raise on an exception.\<close>

definition transaction :: "('e, 's, 'a) op \<Rightarrow> ('e, 's, 'a) op" where
  "transaction body =
     (\<lambda>s. case body s of (Inl e, s') \<Rightarrow> (Inl e, s) | (Inr x, s') \<Rightarrow> (Inr x, s'))"

definition integrity_error :: exn where
  "integrity_error = Foreign ''IntegrityError''"

text \<open>\<^verbatim>\<open>Result.one_or_none\<close>, \<^verbatim>\<open>Result.scalar_one_or_none\<close>\<close>

definition one_or_none :: "'a list \<Rightarrow> exn + 'a option" where
  "one_or_none rows =
     (case rows of [] \<Rightarrow> Inr None | [x] \<Rightarrow> Inr (Some x) | _ \<Rightarrow> Inl (Foreign ''MultipleResultsFound''))"

lemma one_or_none_Some: "one_or_none rows = Inr (Some x) \<longleftrightarrow> rows = [x]"
  by (auto simp: one_or_none_def split: list.splits)

lemma one_or_none_None: "one_or_none rows = Inr None \<longleftrightarrow> rows = []"
  by (auto simp: one_or_none_def split: list.splits)

lemma one_or_none_filter: "one_or_none (filter P rows) = Inr (Some x) \<Longrightarrow> x \<in> set rows \<and> P x"
proof -
  assume "one_or_none (filter P rows) = Inr (Some x)"
  then have "x \<in> set (filter P rows)" by (simp add: one_or_none_Some)
  then show ?thesis by simp
qed

text \<open>A key column with distinct values selects at most one row.\<close>

lemma filter_key_unique:
  assumes "distinct (map key rows)" "x \<in> set rows"
  shows "filter (\<lambda>y. key y = key x) rows = [x]"
  using assms by (induction rows) (auto simp: filter_empty_conv image_iff)

lemma op_bind_lift [simp]:
  "op_bind (op_lift (Inr x)) k = k x" "op_bind (op_lift (Inl e)) k = op_raise e"
  by (simp_all add: op_bind_def op_lift_def op_raise_def)

text \<open>A query that may raise, and the constraints a flush checks.\<close>

definition op_read :: "('s \<Rightarrow> 'e + 'a) \<Rightarrow> ('e, 's, 'a) op" where
  [op_defs]: "op_read f = (\<lambda>s. (f s, s))"

definition op_require :: "('s \<Rightarrow> bool) \<Rightarrow> 'e \<Rightarrow> ('e, 's, unit) op" where
  [op_defs]: "op_require P e = (\<lambda>s. if P s then (Inr (), s) else (Inl e, s))"

lemma keeps_read [keeps_intros]: "keeps P (op_read f)"
  by (simp add: keeps_def op_read_def)

lemma keeps_require [keeps_intros]: "keeps P (op_require Q e)"
  by (simp add: keeps_def op_require_def)

text \<open>Running a sequence of calls up to its first change of state.\<close>

lemma op_run_simps:
  "op_bind (op_read f) k s = (case f s of Inl e \<Rightarrow> (Inl e, s) | Inr x \<Rightarrow> k x s)"
  "op_bind (op_gets g) k s = k (g s) s"
  "op_then (op_require P e) m s = (if P s then m s else (Inl e, s))"
  "op_then (op_modify h) m s = m (h s)"
  "op_bind (op_return x) k s = k x s"
  "op_bind (op_raise e) k s = (Inl e, s)"
  by (simp_all add: op_defs split: sum.splits)

lemma op_end_simps:
  "op_return x s = (Inr x, s)"
  "op_raise e s = (Inl e, s)"
  "op_modify h s = (Inr (), h s)"
  "op_lift r s = (r, s)"
  by (simp_all add: op_defs)

text \<open>Running a sequence past a call whose outcome is known.\<close>

lemma op_then_run: "m s = (Inr x, s') \<Longrightarrow> op_then m k s = k s'"
  by (simp add: op_then_def op_bind_def)

lemma op_bind_run: "m s = (Inr x, s') \<Longrightarrow> op_bind m k s = k x s'"
  by (simp add: op_bind_def)

lemma op_then_fails: "m s = (Inl e, s') \<Longrightarrow> op_then m k s = (Inl e, s')"
  by (simp add: op_then_def op_bind_def)

lemma op_bind_fails: "m s = (Inl e, s') \<Longrightarrow> op_bind m k s = (Inl e, s')"
  by (simp add: op_bind_def)

text \<open>A \<^verbatim>\<open>datetime\<close> is a number of microseconds.\<close>

type_synonym instant = int

definition of_seconds :: "int \<Rightarrow> instant" where
  "of_seconds n = n * 1000000"

definition days :: "int \<Rightarrow> instant" where
  "days n = n * 86400000000"

text \<open>A dictionary's canonical form depends only on what it maps.\<close>

lemma sorted_dict_unique:
  assumes "dict_ok d" "dict_ok d'" "map_of d = map_of d'"
  shows "sort_key fst d = sort_key fst (d' :: (string, 'v) dict)"
proof -
  have "distinct (map fst (sort_key fst e))" if "dict_ok e" for e :: "(string, 'v) dict"
  proof -
    have "mset (map fst (sort_key fst e)) = mset (map fst e)" by simp
    from mset_eq_imp_distinct_iff [OF this] that show ?thesis by (simp add: dict_ok_def)
  qed
  moreover have "set d = set d'" using assms by (auto simp: dict_ok_def map_of_inject_set)
  moreover have "inj_on fst (set d)" using assms(1) by (simp add: dict_ok_def distinct_map)
  ultimately show ?thesis
    using assms by (intro map_sorted_distinct_set_unique [of fst]) simp_all
qed

text \<open>The metrics the planes agree to be costs (\<^verbatim>\<open>core/metrics.py\<close>).\<close>

definition COST_METRIC_KEYS :: "string list" where
  "COST_METRIC_KEYS = [''tokens'', ''total_tokens'', ''mean_total_tokens'', ''cost_usd'', ''wall_clock_s'']"

end
