(* ===== verification/Holdout.thy ===== *)
theory Holdout
  imports Database
begin

text \<open>
  Dataset partitions and the sealed holdout (\<^verbatim>\<open>datasets/partitions.py\<close>, \<^verbatim>\<open>datasets/models.py\<close>,
  \<^verbatim>\<open>datasets/schemas.py\<close>, \<^verbatim>\<open>datasets/service.py\<close>, \<^verbatim>\<open>core/principal.py\<close>, \<^verbatim>\<open>prepare_generation2_holdouts\<close> of
  \<^verbatim>\<open>campaign/generation2.py\<close>). The three tables are lists in insertion order with the CHECK and
  uniqueness constraints the ORM declares; column widths and the rounding of a \<^verbatim>\<open>Numeric(12, 6)\<close> column
  are not modelled. What a call draws from the world (a new id, a new token, the clock) is a
  \<^verbatim>\<open>fresh\<close> record it takes; the token digest (SHA-256) is a parameter. \<^verbatim>\<open>Ledgered\<close> states the abstract
  transition system the service refines, and every invariant of the tables is proved there once.
\<close>

section \<open>Partition taxonomy (datasets/partitions.py)\<close>

datatype storage_identity = EVALUATION_PLANE | RUNTIME_PLANE

datatype partition_kind = DISCOVERY | DEV | SELECTION | HOLDOUT | ADVERSARIAL | CANARY

definition HOLDOUT_HANDLE_SCHEME :: string where
  "HOLDOUT_HANDLE_SCHEME = ''holdout''"

definition SEALED_PARTITION_KINDS :: "partition_kind list" where
  "SEALED_PARTITION_KINDS = [HOLDOUT]"

definition is_sealed :: "partition_kind \<Rightarrow> bool" where
  "is_sealed kind \<longleftrightarrow> kind \<in> set SEALED_PARTITION_KINDS"

definition required_storage_identity :: "partition_kind \<Rightarrow> storage_identity" where
  "required_storage_identity kind = (if is_sealed kind then EVALUATION_PLANE else RUNTIME_PLANE)"

lemma is_sealed_iff [simp]: "is_sealed kind \<longleftrightarrow> kind = HOLDOUT"
  by (simp add: is_sealed_def SEALED_PARTITION_KINDS_def)

section \<open>Callers and rows\<close>

record principal =
  pr_identity :: workload_identity
  pr_tenant_id :: string

definition identity_id :: "principal \<Rightarrow> string" where
  "identity_id p = wid_subject (pr_identity p)"

definition pr_role :: "principal \<Rightarrow> workload_role" where
  "pr_role p = wid_role (pr_identity p)"

record dataset_partition =
  dp_id :: string
  dp_tenant_id :: string
  dp_dataset_id :: string
  dp_name :: string
  dp_kind :: partition_kind
  dp_storage_identity :: storage_identity
  dp_owner :: string
  dp_content_locator :: string
  dp_content_digest :: string
  dp_item_count :: int
  dp_created_at :: instant

record holdout_handle =
  hh_id :: string
  hh_tenant_id :: string
  hh_partition_id :: string
  hh_token_digest :: string
  hh_token_prefix :: string
  hh_owner :: string
  hh_created_at :: instant
  hh_created_by :: string
  hh_expires_at :: instant
  hh_freshness_window_days :: int
  hh_rotation_plan :: string
  hh_rotated_at :: "instant option"
  hh_rotation_count :: int
  hh_revoked_at :: "instant option"
  hh_contamination_audit :: json_object
  hh_alpha_budget_total :: rat
  hh_alpha_spent :: rat
  hh_alpha_per_query :: rat

definition alpha_remaining :: "holdout_handle \<Rightarrow> rat" where
  "alpha_remaining h = hh_alpha_budget_total h - hh_alpha_spent h"

datatype ledger_outcome = GRANTED | DENIED

record ledger_entry =
  le_id :: string
  le_tenant_id :: string
  le_handle_id :: string
  le_token_digest :: string
  le_partition_id :: string
  le_caller_identity :: string
  le_caller_role :: workload_role
  le_purpose :: string
  le_outcome :: ledger_outcome
  le_denial_reason :: "denial_reason option"
  le_alpha_spent :: rat
  le_alpha_remaining :: rat
  le_occurred_at :: instant

text \<open>What the module logs to \<^verbatim>\<open>evoruntime.audit\<close>; the log is no part of a transaction.\<close>

datatype audit_event =
    Access_Denied string workload_role denial_reason "string option"
  | Resolve_Granted string workload_role string string

record holdout_db =
  hd_partitions :: "dataset_partition list"
  hd_handles :: "holdout_handle list"
  hd_ledger :: "ledger_entry list"
  hd_audit :: "audit_event list"

definition empty_db :: holdout_db where
  "empty_db = \<lparr>hd_partitions = [], hd_handles = [], hd_ledger = [], hd_audit = []\<rparr>"

type_synonym 'a db_call = "(exn, holdout_db, 'a) op"

section \<open>Tables and their constraints\<close>

definition partition_row :: "string \<Rightarrow> holdout_db \<Rightarrow> dataset_partition option" where
  "partition_row i s = find (\<lambda>q. dp_id q = i) (hd_partitions s)"

text \<open>The declared constraints of \<^verbatim>\<open>dataset_partitions\<close>: primary key, \<^verbatim>\<open>uq_partition_tenant_dataset_kind_name\<close>,
  \<^verbatim>\<open>ck_partition_holdout_storage_identity\<close>.\<close>

definition partition_admissible :: "dataset_partition \<Rightarrow> dataset_partition list \<Rightarrow> bool" where
  "partition_admissible q rows \<longleftrightarrow>
     dp_id q \<notin> set (map dp_id rows)
     \<and> (dp_tenant_id q, dp_dataset_id q, dp_kind q, dp_name q)
         \<notin> set (map (\<lambda>r. (dp_tenant_id r, dp_dataset_id r, dp_kind r, dp_name r)) rows)
     \<and> (dp_kind q \<noteq> HOLDOUT \<or> dp_storage_identity q = EVALUATION_PLANE)"

definition insert_partition :: "dataset_partition \<Rightarrow> unit db_call" where
  "insert_partition q =
     (\<lambda>s. if partition_admissible q (hd_partitions s)
          then (Inr (), s\<lparr>hd_partitions := hd_partitions s @ [q]\<rparr>) else (Inl integrity_error, s))"

text \<open>\<^verbatim>\<open>holdout_handles\<close>: primary key, unique token digest, \<^verbatim>\<open>ck_handle_alpha_within_budget\<close>,
  \<^verbatim>\<open>ck_handle_alpha_positive\<close>.\<close>

definition handle_checks :: "holdout_handle \<Rightarrow> bool" where
  "handle_checks h \<longleftrightarrow>
     hh_alpha_spent h \<le> hh_alpha_budget_total h \<and> 0 \<le> hh_alpha_budget_total h \<and> 0 < hh_alpha_per_query h"

definition insert_handle :: "holdout_handle \<Rightarrow> unit db_call" where
  "insert_handle h =
     (\<lambda>s. if hh_id h \<notin> set (map hh_id (hd_handles s))
             \<and> hh_token_digest h \<notin> set (map hh_token_digest (hd_handles s)) \<and> handle_checks h
          then (Inr (), s\<lparr>hd_handles := hd_handles s @ [h]\<rparr>) else (Inl integrity_error, s))"

definition replace_handle :: "holdout_handle \<Rightarrow> holdout_handle list \<Rightarrow> holdout_handle list" where
  "replace_handle h rows = map (\<lambda>g. if hh_id g = hh_id h then h else g) rows"

definition flush_handle :: "holdout_handle \<Rightarrow> unit db_call" where
  "flush_handle h =
     (\<lambda>s. if handle_checks h
             \<and> hh_token_digest h
                 \<notin> set (map hh_token_digest (filter (\<lambda>g. hh_id g \<noteq> hh_id h) (hd_handles s)))
          then (Inr (), s\<lparr>hd_handles := replace_handle h (hd_handles s)\<rparr>) else (Inl integrity_error, s))"

text \<open>\<^verbatim>\<open>holdout_query_ledger\<close>: primary key and \<^verbatim>\<open>ck_ledger_denial_reason_matches_outcome\<close>.\<close>

definition ledger_checks :: "ledger_entry \<Rightarrow> bool" where
  "ledger_checks e \<longleftrightarrow>
     le_outcome e = GRANTED \<and> le_denial_reason e = None
     \<or> le_outcome e = DENIED \<and> le_denial_reason e \<noteq> None"

definition insert_ledger :: "ledger_entry \<Rightarrow> unit db_call" where
  "insert_ledger e =
     (\<lambda>s. if le_id e \<notin> set (map le_id (hd_ledger s)) \<and> ledger_checks e
          then (Inr (), s\<lparr>hd_ledger := hd_ledger s @ [e]\<rparr>) else (Inl integrity_error, s))"

interpretation ledger_table: append_log insert_ledger hd_ledger
  by unfold_locales (auto simp: insert_ledger_def split: if_splits)

text \<open>What a call takes from the world: a new identifier, a new token, the clock when it checks or stamps
  the handle and when it stamps the row it writes.\<close>

record fresh =
  fr_id :: string
  fr_token :: string
  fr_now :: instant
  fr_stamp :: instant

section \<open>Handle URIs\<close>

definition HANDLE_PREFIX :: string where
  "HANDLE_PREFIX = HOLDOUT_HANDLE_SCHEME @ ''://''"

definition build_handle_uri :: "string \<Rightarrow> string" where
  "build_handle_uri token = HANDLE_PREFIX @ token"

definition handle_not_found :: exn where
  "handle_not_found = Dataset (HandleNotFoundError ''no such holdout handle'')"

definition parse_handle_uri :: "string \<Rightarrow> exn + string" where
  "parse_handle_uri handle_uri =
     (if \<not> prefix HANDLE_PREFIX handle_uri
      then Inl (Dataset (HandleNotFoundError ''not a holdout handle URI''))
      else if drop (length HANDLE_PREFIX) handle_uri = []
           then Inl (Dataset (HandleNotFoundError ''empty holdout handle token''))
           else Inr (drop (length HANDLE_PREFIX) handle_uri))"

text \<open>The URI form is a bijection with the non-empty tokens.\<close>

lemma parse_build [simp]: "t \<noteq> [] \<Longrightarrow> parse_handle_uri (build_handle_uri t) = Inr t"
  by (simp add: parse_handle_uri_def build_handle_uri_def)

lemma parse_Inr: "parse_handle_uri u = Inr t \<longleftrightarrow> t \<noteq> [] \<and> u = build_handle_uri t"
  by (auto simp: parse_handle_uri_def build_handle_uri_def prefix_def)

section \<open>Projections (datasets/schemas.py)\<close>

record partition_summary =
  ps_id :: string
  ps_tenant_id :: string
  ps_dataset_id :: string
  ps_name :: string
  ps_kind :: partition_kind
  ps_storage_identity :: storage_identity
  ps_owner :: string
  ps_item_count :: int
  ps_content_digest :: string
  ps_created_at :: instant
  ps_sealed :: bool
  ps_content_locator :: "string option"

record alpha_budget_report =
  ab_total :: rat
  ab_spent :: rat
  ab_remaining :: rat
  ab_per_query :: rat
  ab_queries_remaining :: int

record handle_metadata =
  hm_handle_id :: string
  hm_partition_id :: string
  hm_tenant_id :: string
  hm_token_prefix :: string
  hm_owner :: string
  hm_created_at :: instant
  hm_created_by :: string
  hm_expires_at :: instant
  hm_freshness_window_days :: int
  hm_rotation_plan :: string
  hm_rotation_count :: int
  hm_rotated_at :: "instant option"
  hm_revoked_at :: "instant option"
  hm_contamination_audit :: json_object
  hm_alpha_budget :: alpha_budget_report

record issued_handle =
  ih_handle_uri :: string
  ih_metadata :: handle_metadata

record content_ref =
  hc_partition_id :: string
  hc_content_locator :: string
  hc_content_digest :: string
  hc_item_count :: int
  hc_resolved_at :: instant
  hc_ledger_entry_id :: string
  hc_alpha_budget :: alpha_budget_report

record ledger_record =
  lr_id :: string
  lr_handle_id :: string
  lr_partition_id :: string
  lr_tenant_id :: string
  lr_caller_identity :: string
  lr_caller_role :: workload_role
  lr_purpose :: string
  lr_outcome :: ledger_outcome
  lr_denial_reason :: "denial_reason option"
  lr_alpha_spent :: rat
  lr_alpha_remaining :: rat
  lr_occurred_at :: instant

text \<open>Rows satisfy \<^const>\<open>handle_checks\<close>, so the divisor is positive and \<^verbatim>\<open>//\<close> is the floor.\<close>

definition build_budget_report :: "holdout_handle \<Rightarrow> alpha_budget_report" where
  "build_budget_report h =
     \<lparr>ab_total = hh_alpha_budget_total h, ab_spent = hh_alpha_spent h, ab_remaining = alpha_remaining h,
      ab_per_query = hh_alpha_per_query h,
      ab_queries_remaining =
        (if 0 < alpha_remaining h then floor (alpha_remaining h / hh_alpha_per_query h) else 0)\<rparr>"

definition build_handle_metadata :: "holdout_handle \<Rightarrow> handle_metadata" where
  "build_handle_metadata h =
     \<lparr>hm_handle_id = hh_id h, hm_partition_id = hh_partition_id h, hm_tenant_id = hh_tenant_id h,
      hm_token_prefix = hh_token_prefix h, hm_owner = hh_owner h, hm_created_at = hh_created_at h,
      hm_created_by = hh_created_by h, hm_expires_at = hh_expires_at h,
      hm_freshness_window_days = hh_freshness_window_days h, hm_rotation_plan = hh_rotation_plan h,
      hm_rotation_count = hh_rotation_count h, hm_rotated_at = hh_rotated_at h,
      hm_revoked_at = hh_revoked_at h, hm_contamination_audit = hh_contamination_audit h,
      hm_alpha_budget = build_budget_report h\<rparr>"

definition build_partition_summary :: "dataset_partition \<Rightarrow> bool \<Rightarrow> partition_summary" where
  "build_partition_summary q disclose_locator =
     \<lparr>ps_id = dp_id q, ps_tenant_id = dp_tenant_id q, ps_dataset_id = dp_dataset_id q, ps_name = dp_name q,
      ps_kind = dp_kind q, ps_storage_identity = dp_storage_identity q, ps_owner = dp_owner q,
      ps_item_count = dp_item_count q, ps_content_digest = dp_content_digest q,
      ps_created_at = dp_created_at q, ps_sealed = is_sealed (dp_kind q),
      ps_content_locator = (if disclose_locator then Some (dp_content_locator q) else None)\<rparr>"

definition build_ledger_record :: "ledger_entry \<Rightarrow> ledger_record" where
  "build_ledger_record e =
     \<lparr>lr_id = le_id e, lr_handle_id = le_handle_id e, lr_partition_id = le_partition_id e,
      lr_tenant_id = le_tenant_id e, lr_caller_identity = le_caller_identity e,
      lr_caller_role = le_caller_role e, lr_purpose = le_purpose e, lr_outcome = le_outcome e,
      lr_denial_reason = le_denial_reason e, lr_alpha_spent = le_alpha_spent e,
      lr_alpha_remaining = le_alpha_remaining e, lr_occurred_at = le_occurred_at e\<rparr>"

section \<open>Authorization\<close>

definition has_holdout_access :: "principal \<Rightarrow> bool" where
  "has_holdout_access p =
     (case require_holdout_access (pr_identity p) of Inl _ \<Rightarrow> False | Inr _ \<Rightarrow> True)"

lemma has_holdout_access_iff [simp]: "has_holdout_access p \<longleftrightarrow> pr_role p = EVALUATOR"
  by (simp add: has_holdout_access_def role_checks pr_role_def)

definition holdout_denied :: "denial_reason \<Rightarrow> principal \<Rightarrow> exn" where
  "holdout_denied d p = Dataset (HoldoutAccessDeniedError d (identity_id p))"

definition mutation_denial_reason :: "principal \<Rightarrow> holdout_handle \<Rightarrow> denial_reason option" where
  "mutation_denial_reason p h =
     (if \<not> has_holdout_access p then Some ROLE_NOT_EVALUATOR
      else if hh_tenant_id h \<noteq> pr_tenant_id p then Some TENANT_MISMATCH
      else None)"

definition resolve_denial_reason :: "principal \<Rightarrow> holdout_handle \<Rightarrow> instant \<Rightarrow> denial_reason option" where
  "resolve_denial_reason p h now =
     (if \<not> has_holdout_access p then Some ROLE_NOT_EVALUATOR
      else if hh_tenant_id h \<noteq> pr_tenant_id p then Some TENANT_MISMATCH
      else if hh_revoked_at h \<noteq> None then Some HANDLE_REVOKED
      else if hh_expires_at h \<le> now then Some HANDLE_EXPIRED
      else if alpha_remaining h < hh_alpha_per_query h then Some ALPHA_BUDGET_EXHAUSTED
      else None)"

text \<open>\<^verbatim>\<open>_raise_denial\<close>: a caller of another tenant is told the handle does not exist.\<close>

definition raise_denial :: "principal \<Rightarrow> denial_reason \<Rightarrow> 'a db_call" where
  "raise_denial p denial =
     (if denial = TENANT_MISMATCH then op_raise handle_not_found else op_raise (holdout_denied denial p))"

definition audit :: "audit_event \<Rightarrow> unit db_call" where
  "audit e = op_modify (\<lambda>s. s\<lparr>hd_audit := hd_audit s @ [e]\<rparr>)"

definition log_denial :: "principal \<Rightarrow> denial_reason \<Rightarrow> string option \<Rightarrow> unit db_call" where
  "log_denial p reason handle_id =
     audit (Access_Denied (identity_id p) (pr_role p) reason handle_id)"

section \<open>Partitions\<close>

definition create_partition ::
  "principal \<Rightarrow> string \<Rightarrow> string \<Rightarrow> partition_kind \<Rightarrow> string \<Rightarrow> string \<Rightarrow> string \<Rightarrow> int \<Rightarrow> fresh
     \<Rightarrow> partition_summary db_call" where
  "create_partition p dataset_id name kind owner content_locator content_digest item_count f =
     (if is_sealed kind \<and> \<not> has_holdout_access p then op_raise (holdout_denied ROLE_NOT_EVALUATOR p)
      else
        (let q = \<lparr>dp_id = fr_id f, dp_tenant_id = pr_tenant_id p, dp_dataset_id = dataset_id,
                  dp_name = name, dp_kind = kind, dp_storage_identity = required_storage_identity kind,
                  dp_owner = owner, dp_content_locator = content_locator,
                  dp_content_digest = content_digest, dp_item_count = item_count,
                  dp_created_at = fr_now f\<rparr>
         in transaction
              (op_then (insert_partition q)
                (op_return (build_partition_summary q (\<not> is_sealed kind))))))"

definition list_partitions ::
  "principal \<Rightarrow> string option \<Rightarrow> partition_summary list db_call" where
  "list_partitions p dataset_id =
     op_gets (\<lambda>s. map (\<lambda>q. build_partition_summary q (\<not> is_sealed (dp_kind q)))
       (sort_key dp_created_at
         (filter (\<lambda>q. dp_tenant_id q = pr_tenant_id p
                      \<and> (case dataset_id of None \<Rightarrow> True | Some d \<Rightarrow> dp_dataset_id q = d))
           (hd_partitions s))))"

definition load_partition :: "principal \<Rightarrow> string \<Rightarrow> dataset_partition db_call" where
  "load_partition p partition_id =
     op_bind (op_gets (partition_row partition_id)) (\<lambda>r. case r of
       None \<Rightarrow> op_raise (Dataset (PartitionNotFoundError partition_id))
     | Some q \<Rightarrow> if dp_tenant_id q \<noteq> pr_tenant_id p
                 then op_raise (Dataset (PartitionNotFoundError partition_id)) else op_return q)"

definition get_partition :: "principal \<Rightarrow> string \<Rightarrow> partition_summary db_call" where
  "get_partition p partition_id =
     op_bind (load_partition p partition_id)
       (\<lambda>q. op_return (build_partition_summary q (\<not> is_sealed (dp_kind q))))"

section \<open>Handles\<close>

definition new_handle ::
  "(string \<Rightarrow> string) \<Rightarrow> principal \<Rightarrow> dataset_partition \<Rightarrow> string \<Rightarrow> rat \<Rightarrow> rat \<Rightarrow> int \<Rightarrow> string
     \<Rightarrow> json_object option \<Rightarrow> fresh \<Rightarrow> holdout_handle" where
  "new_handle digest p q owner alpha_budget_total alpha_per_query freshness_window_days rotation_plan
     contamination_audit f =
     \<lparr>hh_id = fr_id f, hh_tenant_id = dp_tenant_id q, hh_partition_id = dp_id q,
      hh_token_digest = digest (fr_token f), hh_token_prefix = take 8 (fr_token f), hh_owner = owner,
      hh_created_at = fr_now f, hh_created_by = identity_id p,
      hh_expires_at = fr_now f + days freshness_window_days,
      hh_freshness_window_days = freshness_window_days, hh_rotation_plan = rotation_plan,
      hh_rotated_at = None, hh_rotation_count = 0, hh_revoked_at = None,
      hh_contamination_audit = (case contamination_audit of None \<Rightarrow> [] | Some a \<Rightarrow> a),
      hh_alpha_budget_total = alpha_budget_total, hh_alpha_spent = 0,
      hh_alpha_per_query = alpha_per_query\<rparr>"

definition issue_handle ::
  "(string \<Rightarrow> string) \<Rightarrow> principal \<Rightarrow> string \<Rightarrow> string \<Rightarrow> rat \<Rightarrow> rat \<Rightarrow> int \<Rightarrow> string
     \<Rightarrow> json_object option \<Rightarrow> fresh \<Rightarrow> issued_handle db_call" where
  "issue_handle digest p partition_id owner alpha_budget_total alpha_per_query freshness_window_days
     rotation_plan contamination_audit f =
     (if \<not> has_holdout_access p
      then op_then (log_denial p ROLE_NOT_EVALUATOR None) (op_raise (holdout_denied ROLE_NOT_EVALUATOR p))
      else transaction
        (op_bind (load_partition p partition_id) (\<lambda>q.
           if \<not> is_sealed (dp_kind q)
           then op_raise (Dataset (PartitionStorageIdentityError ''not a sealed partition''))
           else (let h = new_handle digest p q owner alpha_budget_total alpha_per_query
                           freshness_window_days rotation_plan contamination_audit f
                 in op_then (insert_handle h)
                      (op_return \<lparr>ih_handle_uri = build_handle_uri (fr_token f),
                                   ih_metadata = build_handle_metadata h\<rparr>)))))"

definition find_handle :: "string \<Rightarrow> holdout_handle option db_call" where
  "find_handle token_digest =
     op_bind (op_gets (\<lambda>s. filter (\<lambda>h. hh_token_digest h = token_digest) (hd_handles s)))
       (\<lambda>rows. op_lift (one_or_none rows))"

definition lock_handle :: "string \<Rightarrow> holdout_handle db_call" where
  "lock_handle token_digest =
     op_bind (find_handle token_digest) (\<lambda>r. case r of
       None \<Rightarrow> op_raise handle_not_found | Some h \<Rightarrow> op_return h)"

definition load_handle :: "(string \<Rightarrow> string) \<Rightarrow> principal \<Rightarrow> string \<Rightarrow> holdout_handle db_call" where
  "load_handle digest p handle_uri =
     op_bind (op_lift (parse_handle_uri handle_uri)) (\<lambda>token.
     op_bind (find_handle (digest token)) (\<lambda>r. case r of
       None \<Rightarrow> op_raise handle_not_found
     | Some h \<Rightarrow> if hh_tenant_id h \<noteq> pr_tenant_id p then op_raise handle_not_found else op_return h))"

definition describe_handle ::
  "(string \<Rightarrow> string) \<Rightarrow> principal \<Rightarrow> string \<Rightarrow> handle_metadata db_call" where
  "describe_handle digest p handle_uri =
     op_bind (load_handle digest p handle_uri) (\<lambda>h. op_return (build_handle_metadata h))"

definition budget_report ::
  "(string \<Rightarrow> string) \<Rightarrow> principal \<Rightarrow> string \<Rightarrow> alpha_budget_report db_call" where
  "budget_report digest p handle_uri =
     op_bind (load_handle digest p handle_uri) (\<lambda>h. op_return (build_budget_report h))"

definition read_ledger ::
  "(string \<Rightarrow> string) \<Rightarrow> principal \<Rightarrow> string \<Rightarrow> nat \<Rightarrow> ledger_record list db_call" where
  "read_ledger digest p handle_uri limit =
     op_bind (load_handle digest p handle_uri) (\<lambda>h.
     op_gets (\<lambda>s. map build_ledger_record
       (take limit (sort_key (\<lambda>e. (le_occurred_at e, le_id e))
         (filter (\<lambda>e. le_handle_id e = hh_id h) (hd_ledger s))))))"

section \<open>The ledger and the handle lifecycle\<close>

definition new_ledger_row ::
  "holdout_handle \<Rightarrow> principal \<Rightarrow> string \<Rightarrow> ledger_outcome \<Rightarrow> denial_reason option \<Rightarrow> rat \<Rightarrow> fresh
     \<Rightarrow> ledger_entry" where
  "new_ledger_row h p purpose outcome denial_reason alpha_spent f =
     \<lparr>le_id = fr_id f, le_tenant_id = hh_tenant_id h, le_handle_id = hh_id h,
      le_token_digest = hh_token_digest h, le_partition_id = hh_partition_id h,
      le_caller_identity = identity_id p, le_caller_role = pr_role p, le_purpose = purpose,
      le_outcome = outcome, le_denial_reason = denial_reason, le_alpha_spent = alpha_spent,
      le_alpha_remaining = alpha_remaining h, le_occurred_at = fr_stamp f\<rparr>"

definition append_ledger_row ::
  "holdout_handle \<Rightarrow> principal \<Rightarrow> string \<Rightarrow> ledger_outcome \<Rightarrow> denial_reason option \<Rightarrow> rat \<Rightarrow> fresh
     \<Rightarrow> ledger_entry db_call" where
  "append_ledger_row h p purpose outcome denial_reason alpha_spent f =
     (let e = new_ledger_row h p purpose outcome denial_reason alpha_spent f
      in op_then (insert_ledger e) (op_return e))"

definition denied_row :: "holdout_handle \<Rightarrow> principal \<Rightarrow> string \<Rightarrow> denial_reason \<Rightarrow> fresh \<Rightarrow> ledger_entry" where
  "denied_row h p purpose d f = new_ledger_row h p purpose DENIED (Some d) 0 f"

definition spend_alpha :: "holdout_handle \<Rightarrow> holdout_handle" where
  "spend_alpha h = h\<lparr>hh_alpha_spent := hh_alpha_spent h + hh_alpha_per_query h\<rparr>"

definition build_content_ref ::
  "dataset_partition \<Rightarrow> ledger_entry \<Rightarrow> holdout_handle \<Rightarrow> content_ref" where
  "build_content_ref q e h =
     \<lparr>hc_partition_id = dp_id q, hc_content_locator = dp_content_locator q,
      hc_content_digest = dp_content_digest q, hc_item_count = dp_item_count q,
      hc_resolved_at = le_occurred_at e, hc_ledger_entry_id = le_id e,
      hc_alpha_budget = build_budget_report h\<rparr>"

text \<open>What the transaction of \<^verbatim>\<open>resolve\<close> leaves in its three locals: the handle's id, the denial, the
  content. The updated handle and the ledger row are flushed together.\<close>

definition resolve_body ::
  "principal \<Rightarrow> string \<Rightarrow> string \<Rightarrow> fresh \<Rightarrow> (string \<times> denial_reason option \<times> content_ref option) db_call" where
  "resolve_body p token_digest purpose f =
     op_bind (lock_handle token_digest) (\<lambda>h.
       case resolve_denial_reason p h (fr_now f) of
         Some d \<Rightarrow>
           op_bind (append_ledger_row h p purpose DENIED (Some d) 0 f) (\<lambda>_.
             op_return (hh_id h, Some d, None))
       | None \<Rightarrow>
           op_then (flush_handle (spend_alpha h))
          (op_bind (append_ledger_row (spend_alpha h) p purpose GRANTED None (hh_alpha_per_query h) f) (\<lambda>e.
           op_bind (op_gets (partition_row (hh_partition_id h))) (\<lambda>r. case r of
             None \<Rightarrow> op_raise (Dataset (PartitionNotFoundError (hh_partition_id h)))
           | Some q \<Rightarrow> op_return (hh_id h, None, Some (build_content_ref q e (spend_alpha h)))))))"

definition resolve_handle ::
  "(string \<Rightarrow> string) \<Rightarrow> principal \<Rightarrow> string \<Rightarrow> string \<Rightarrow> fresh \<Rightarrow> content_ref db_call" where
  "resolve_handle digest p handle_uri purpose f =
     op_bind (op_lift (parse_handle_uri handle_uri)) (\<lambda>token.
     op_bind (transaction (resolve_body p (digest token) purpose f)) (\<lambda>(handle_id, denial, content).
       case denial of
         Some d \<Rightarrow> op_then (log_denial p d (Some handle_id)) (raise_denial p d)
       | None \<Rightarrow>
           (case content of
              None \<Rightarrow> op_raise (Dataset (DatasetError ''resolution produced neither content nor a denial''))
            | Some c \<Rightarrow>
                op_then (audit (Resolve_Granted (identity_id p) (pr_role p) handle_id purpose))
                  (op_return c))))"

definition rotated_handle :: "(string \<Rightarrow> string) \<Rightarrow> holdout_handle \<Rightarrow> fresh \<Rightarrow> holdout_handle" where
  "rotated_handle digest h f =
     h\<lparr>hh_token_digest := digest (fr_token f), hh_token_prefix := take 8 (fr_token f),
       hh_rotated_at := Some (fr_now f), hh_rotation_count := hh_rotation_count h + 1,
       hh_expires_at := fr_now f + days (hh_freshness_window_days h), hh_revoked_at := None\<rparr>"

definition revoked_handle :: "holdout_handle \<Rightarrow> fresh \<Rightarrow> holdout_handle" where
  "revoked_handle h f = h\<lparr>hh_revoked_at := Some (fr_now f)\<rparr>"

text \<open>\<^verbatim>\<open>rotate_handle\<close> and \<^verbatim>\<open>revoke_handle\<close> share their shape: the mutation check, a denied row or the
  update, and the denial raised only after the transaction has committed.\<close>

definition lifecycle_change ::
  "(holdout_handle \<Rightarrow> holdout_handle) \<Rightarrow> (holdout_handle \<Rightarrow> 'a) \<Rightarrow> string \<Rightarrow> exn \<Rightarrow> (string \<Rightarrow> string)
     \<Rightarrow> principal \<Rightarrow> string \<Rightarrow> fresh \<Rightarrow> 'a db_call" where
  "lifecycle_change change result purpose neither digest p handle_uri f =
     op_bind (op_lift (parse_handle_uri handle_uri)) (\<lambda>token.
     op_bind (transaction
       (op_bind (lock_handle (digest token)) (\<lambda>h.
          case mutation_denial_reason p h of
            Some d \<Rightarrow> op_bind (append_ledger_row h p purpose DENIED (Some d) 0 f)
                        (\<lambda>_. op_return (hh_id h, Some d, None))
          | None \<Rightarrow> op_then (flush_handle (change h))
                      (op_return (hh_id h, None, Some (result (change h)))))))
       (\<lambda>(handle_id, denial, made). case denial of
          Some d \<Rightarrow> op_then (log_denial p d (Some handle_id)) (raise_denial p d)
        | None \<Rightarrow> (case made of None \<Rightarrow> op_raise neither | Some x \<Rightarrow> op_return x)))"

definition rotate_handle ::
  "(string \<Rightarrow> string) \<Rightarrow> principal \<Rightarrow> string \<Rightarrow> fresh \<Rightarrow> issued_handle db_call" where
  "rotate_handle digest p handle_uri f =
     lifecycle_change (\<lambda>h. rotated_handle digest h f)
       (\<lambda>h. \<lparr>ih_handle_uri = build_handle_uri (fr_token f), ih_metadata = build_handle_metadata h\<rparr>)
       ''handle.rotate'' (Dataset (DatasetError ''rotation produced neither a handle nor a denial''))
       digest p handle_uri f"

definition revoke_handle ::
  "(string \<Rightarrow> string) \<Rightarrow> principal \<Rightarrow> string \<Rightarrow> fresh \<Rightarrow> handle_metadata db_call" where
  "revoke_handle digest p handle_uri f =
     lifecycle_change (\<lambda>h. revoked_handle h f) build_handle_metadata ''handle.revoke''
       (Dataset (DatasetError ''revocation produced neither metadata nor a denial''))
       digest p handle_uri f"

section \<open>Second-generation holdouts (campaign/generation2.py)\<close>

record generation2_holdouts =
  g2_generation1_handle :: handle_metadata
  g2_generation2_handle :: issued_handle

text \<open>Two transactions: what the rotation committed stays when the issue raises.\<close>

definition prepare_generation2_holdouts ::
  "(string \<Rightarrow> string) \<Rightarrow> principal \<Rightarrow> string \<Rightarrow> string \<Rightarrow> rat \<Rightarrow> rat \<Rightarrow> int \<Rightarrow> string \<Rightarrow> fresh \<Rightarrow> fresh
     \<Rightarrow> generation2_holdouts db_call" where
  "prepare_generation2_holdouts digest p generation1_handle_uri owner alpha_budget_total alpha_per_query
     freshness_window_days rotation_plan f1 f2 =
     op_bind (rotate_handle digest p generation1_handle_uri f1) (\<lambda>rotated.
     op_bind (issue_handle digest p (hm_partition_id (ih_metadata rotated)) owner alpha_budget_total
                alpha_per_query freshness_window_days rotation_plan
                (Some [(''generation'', JInt 2),
                       (''rotated_from_handle_id'', JStr (hm_handle_id (ih_metadata rotated))),
                       (''prior_rotation_count'', JInt (hm_rotation_count (ih_metadata rotated)))]) f2)
       (\<lambda>fresh_handle. op_return \<lparr>g2_generation1_handle = ih_metadata rotated,
                                  g2_generation2_handle = fresh_handle\<rparr>))"

end
