(* ===== verification/Ledgered.thy ===== *)
theory Ledgered
  imports Holdout
begin

text \<open>
  What the sealed-holdout service promises, as an abstract transition system over its tables
  (\<^verbatim>\<open>vault_step\<close>: append a partition, a handle, a denied row; grant and spend; rewrite a credential),
  the invariant every step keeps (\<^verbatim>\<open>vault_ok\<close>), the refinement lemma that every operation of
  \<^verbatim>\<open>DatasetService\<close> and \<^verbatim>\<open>HoldoutService\<close> is such a step, and the properties that follow: the ledger and
  the budget agree, a budget bounds the reads whatever rotations happen, content is disclosed only
  with its ledgered grant, and a denial is committed before it is raised.
\<close>

section \<open>The abstract vault\<close>

definition same_tables :: "holdout_db \<Rightarrow> holdout_db \<Rightarrow> bool" where
  "same_tables s s' \<longleftrightarrow> hd_partitions s' = hd_partitions s \<and> hd_handles s' = hd_handles s \<and> hd_ledger s' = hd_ledger s"

definition same_account :: "holdout_handle \<Rightarrow> holdout_handle \<Rightarrow> bool" where
  "same_account h h' \<longleftrightarrow>
     hh_id h' = hh_id h \<and> hh_tenant_id h' = hh_tenant_id h \<and> hh_partition_id h' = hh_partition_id h
     \<and> hh_alpha_budget_total h' = hh_alpha_budget_total h \<and> hh_alpha_spent h' = hh_alpha_spent h
     \<and> hh_alpha_per_query h' = hh_alpha_per_query h"

inductive vault_step :: "holdout_db \<Rightarrow> holdout_db \<Rightarrow> bool" where
  vs_same: "same_tables s s' \<Longrightarrow> vault_step s s'"
| vs_partition: "partition_admissible q (hd_partitions s) \<Longrightarrow> hd_partitions s' = hd_partitions s @ [q] \<Longrightarrow>
     hd_handles s' = hd_handles s \<Longrightarrow> hd_ledger s' = hd_ledger s \<Longrightarrow> vault_step s s'"
| vs_issue: "q \<in> set (hd_partitions s) \<Longrightarrow> dp_kind q = HOLDOUT \<Longrightarrow> hh_partition_id h = dp_id q \<Longrightarrow>
     hh_tenant_id h = dp_tenant_id q \<Longrightarrow> hh_alpha_spent h = 0 \<Longrightarrow> handle_checks h \<Longrightarrow>
     hh_id h \<notin> set (map hh_id (hd_handles s)) \<Longrightarrow>
     hh_token_digest h \<notin> set (map hh_token_digest (hd_handles s)) \<Longrightarrow>
     hd_partitions s' = hd_partitions s \<Longrightarrow> hd_handles s' = hd_handles s @ [h] \<Longrightarrow>
     hd_ledger s' = hd_ledger s \<Longrightarrow> vault_step s s'"
| vs_deny: "h \<in> set (hd_handles s) \<Longrightarrow> fr_id f \<notin> set (map le_id (hd_ledger s)) \<Longrightarrow>
     hd_partitions s' = hd_partitions s \<Longrightarrow> hd_handles s' = hd_handles s \<Longrightarrow>
     hd_ledger s' = hd_ledger s @ [denied_row h p purpose d f] \<Longrightarrow> vault_step s s'"
| vs_grant: "h \<in> set (hd_handles s) \<Longrightarrow> resolve_denial_reason p h (fr_now f) = None \<Longrightarrow>
     handle_checks (spend_alpha h) \<Longrightarrow> fr_id f \<notin> set (map le_id (hd_ledger s)) \<Longrightarrow>
     hd_partitions s' = hd_partitions s \<Longrightarrow>
     hd_handles s' = replace_handle (spend_alpha h) (hd_handles s) \<Longrightarrow>
     hd_ledger s' = hd_ledger s @ [new_ledger_row (spend_alpha h) p purpose GRANTED None (hh_alpha_per_query h) f] \<Longrightarrow>
     vault_step s s'"
| vs_rewrite: "h \<in> set (hd_handles s) \<Longrightarrow> same_account h h' \<Longrightarrow>
     hh_token_digest h' \<notin> set (map hh_token_digest (filter (\<lambda>g. hh_id g \<noteq> hh_id h') (hd_handles s))) \<Longrightarrow>
     hd_partitions s' = hd_partitions s \<Longrightarrow> hd_handles s' = replace_handle h' (hd_handles s) \<Longrightarrow>
     hd_ledger s' = hd_ledger s \<Longrightarrow> vault_step s s'"

section \<open>The invariant\<close>

definition ledger_rows :: "string \<Rightarrow> holdout_db \<Rightarrow> ledger_entry list" where
  "ledger_rows i s = filter (\<lambda>e. le_handle_id e = i) (hd_ledger s)"

definition granted_rows :: "string \<Rightarrow> holdout_db \<Rightarrow> ledger_entry list" where
  "granted_rows i s = filter (\<lambda>e. le_outcome e = GRANTED) (ledger_rows i s)"

definition keys_ok :: "holdout_db \<Rightarrow> bool" where
  "keys_ok s \<longleftrightarrow> distinct (map dp_id (hd_partitions s)) \<and> distinct (map hh_id (hd_handles s))
     \<and> distinct (map hh_token_digest (hd_handles s)) \<and> distinct (map le_id (hd_ledger s))"

definition accounts_ok :: "holdout_db \<Rightarrow> bool" where
  "accounts_ok s \<longleftrightarrow> (\<forall>h \<in> set (hd_handles s). handle_checks h
     \<and> hh_alpha_spent h = sum_list (map le_alpha_spent (ledger_rows (hh_id h) s))
     \<and> hh_alpha_spent h = of_nat (length (granted_rows (hh_id h) s)) * hh_alpha_per_query h)"

definition rows_ok :: "holdout_db \<Rightarrow> bool" where
  "rows_ok s \<longleftrightarrow> (\<forall>e \<in> set (hd_ledger s). ledger_checks e
     \<and> le_handle_id e \<in> set (map hh_id (hd_handles s))
     \<and> (le_outcome e = GRANTED \<longrightarrow> le_caller_role e = EVALUATOR))"

definition links_ok :: "holdout_db \<Rightarrow> bool" where
  "links_ok s \<longleftrightarrow> (\<forall>h \<in> set (hd_handles s). \<exists>q \<in> set (hd_partitions s).
     dp_id q = hh_partition_id h \<and> dp_kind q = HOLDOUT \<and> dp_tenant_id q = hh_tenant_id h)
     \<and> (\<forall>q \<in> set (hd_partitions s). dp_kind q = HOLDOUT \<longrightarrow> dp_storage_identity q = EVALUATION_PLANE)"

definition vault_ok :: "holdout_db \<Rightarrow> bool" where
  "vault_ok s \<longleftrightarrow> keys_ok s \<and> accounts_ok s \<and> rows_ok s \<and> links_ok s"

lemma vault_ok_empty: "vault_ok empty_db"
  by (simp add: vault_ok_def keys_ok_def accounts_ok_def rows_ok_def links_ok_def empty_db_def)

lemma map_id_replace [simp]: "map hh_id (replace_handle h rows) = map hh_id rows"
  by (simp add: replace_handle_def)

lemma set_replace:
  assumes "h0 \<in> set rows" "hh_id h = hh_id h0"
  shows "g \<in> set (replace_handle h rows) \<longleftrightarrow> g = h \<or> (g \<in> set rows \<and> hh_id g \<noteq> hh_id h)"
  using assms by (auto simp: replace_handle_def)

lemma distinct_digest_replace:
  assumes "distinct (map hh_id rows)" "distinct (map hh_token_digest rows)"
    and "hh_token_digest h \<notin> set (map hh_token_digest (filter (\<lambda>g. hh_id g \<noteq> hh_id h) rows))"
  shows "distinct (map hh_token_digest (replace_handle h rows))"
proof -
  let ?f = "\<lambda>g. hh_token_digest (if hh_id g = hh_id h then h else g)"
  have ids: "x = y" if "x \<in> set rows" "y \<in> set rows" "hh_id x = hh_id y" for x y
    using assms(1) that by (simp add: distinct_map inj_on_def)
  have digests: "x = y" if "x \<in> set rows" "y \<in> set rows" "hh_token_digest x = hh_token_digest y" for x y
    using assms(2) that by (simp add: distinct_map inj_on_def)
  have other: "hh_token_digest h \<noteq> hh_token_digest x" if "x \<in> set rows" "hh_id x \<noteq> hh_id h" for x
    using assms(3) that by auto
  have "inj_on ?f (set rows)"
  proof (rule inj_onI)
    fix x y
    assume xy: "x \<in> set rows" "y \<in> set rows" "?f x = ?f y"
    show "x = y"
      using ids [OF xy(1,2)] digests [OF xy(1,2)] other [OF xy(1)] other [OF xy(2)] xy(3)
      by (cases "hh_id x = hh_id h"; cases "hh_id y = hh_id h") auto
  qed
  then have "distinct (map ?f rows)" using assms(1) by (simp add: distinct_map)
  then show ?thesis by (simp add: replace_handle_def comp_def)
qed

lemma keys_step: assumes "vault_step s s'" "keys_ok s" shows "keys_ok s'"
  using assms
proof (cases rule: vault_step.cases)
  case (vs_grant h p f purpose)
  have "hh_token_digest (spend_alpha h)
     \<notin> set (map hh_token_digest (filter (\<lambda>g. hh_id g \<noteq> hh_id (spend_alpha h)) (hd_handles s)))"
    using vs_grant(1) \<open>keys_ok s\<close> by (auto simp: keys_ok_def spend_alpha_def distinct_map inj_on_def)
  then show ?thesis
    using vs_grant \<open>keys_ok s\<close> by (simp add: keys_ok_def distinct_digest_replace new_ledger_row_def)
next
  case (vs_rewrite h h')
  then show ?thesis using \<open>keys_ok s\<close> by (simp add: keys_ok_def distinct_digest_replace)
qed (auto simp: keys_ok_def same_tables_def partition_admissible_def denied_row_def new_ledger_row_def)

lemma rows_step: assumes "vault_step s s'" "rows_ok s" shows "rows_ok s'"
  using assms
proof (cases rule: vault_step.cases)
  case (vs_grant h p f purpose)
  then show ?thesis using \<open>rows_ok s\<close>
    by (auto simp: rows_ok_def new_ledger_row_def spend_alpha_def ledger_checks_def
        resolve_denial_reason_def split: if_splits simp del: set_map)
      (auto)
next
  case (vs_rewrite h h')
  then show ?thesis using \<open>rows_ok s\<close> by (simp add: rows_ok_def del: set_map)
qed (fastforce simp: rows_ok_def same_tables_def denied_row_def new_ledger_row_def ledger_checks_def)+

lemma links_step: assumes "vault_step s s'" "links_ok s" shows "links_ok s'"
  using assms
proof (cases rule: vault_step.cases)
  case (vs_grant h p f purpose)
  then show ?thesis using \<open>links_ok s\<close>
    by (auto simp: links_ok_def set_replace [of h] spend_alpha_def)
next
  case (vs_rewrite h h')
  then show ?thesis using \<open>links_ok s\<close>
    by (auto simp: links_ok_def set_replace [of h] same_account_def)
qed (fastforce simp: links_ok_def same_tables_def partition_admissible_def)+

lemma ledger_rows_same: "hd_ledger s' = hd_ledger s \<Longrightarrow> ledger_rows i s' = ledger_rows i s"
  by (simp add: ledger_rows_def)

lemma ledger_rows_append:
  "hd_ledger s' = hd_ledger s @ [e] \<Longrightarrow>
     ledger_rows i s' = ledger_rows i s @ (if le_handle_id e = i then [e] else [])"
  by (simp add: ledger_rows_def)

lemma new_row_fields [simp]:
  "le_handle_id (new_ledger_row h p purpose o' d a f) = hh_id h"
  "le_outcome (new_ledger_row h p purpose o' d a f) = o'"
  "le_alpha_spent (new_ledger_row h p purpose o' d a f) = a"
  "le_id (new_ledger_row h p purpose o' d a f) = fr_id f"
  by (simp_all add: new_ledger_row_def)

lemma spend_fields [simp]:
  "hh_id (spend_alpha h) = hh_id h" "hh_alpha_per_query (spend_alpha h) = hh_alpha_per_query h"
  "hh_alpha_spent (spend_alpha h) = hh_alpha_spent h + hh_alpha_per_query h"
  by (simp_all add: spend_alpha_def)

text \<open>A handle's account against a ledger.\<close>

definition account_ok :: "holdout_handle \<Rightarrow> holdout_db \<Rightarrow> bool" where
  "account_ok h s \<longleftrightarrow> handle_checks h
     \<and> hh_alpha_spent h = sum_list (map le_alpha_spent (ledger_rows (hh_id h) s))
     \<and> hh_alpha_spent h = of_nat (length (granted_rows (hh_id h) s)) * hh_alpha_per_query h"

lemma accounts_ok_iff: "accounts_ok s \<longleftrightarrow> (\<forall>h \<in> set (hd_handles s). account_ok h s)"
  by (simp add: accounts_ok_def account_ok_def)

lemma account_ok_ledger: "hd_ledger s' = hd_ledger s \<Longrightarrow> account_ok h s' \<longleftrightarrow> account_ok h s"
  by (simp add: account_ok_def granted_rows_def ledger_rows_same [of s' s])

lemma account_ok_deny:
  "hd_ledger s' = hd_ledger s @ [denied_row g p purpose d f] \<Longrightarrow> account_ok h s' \<longleftrightarrow> account_ok h s"
  by (simp add: account_ok_def granted_rows_def ledger_rows_append [of s' s] denied_row_def)

lemma account_ok_grant_other:
  "hd_ledger s' = hd_ledger s @ [e] \<Longrightarrow> le_handle_id e \<noteq> hh_id h \<Longrightarrow> account_ok h s' \<longleftrightarrow> account_ok h s"
  by (simp add: account_ok_def granted_rows_def ledger_rows_append [of s' s])

lemma account_ok_grant:
  assumes "hd_ledger s' = hd_ledger s @ [new_ledger_row (spend_alpha h) p purpose GRANTED None (hh_alpha_per_query h) f]"
    and "account_ok h s" "handle_checks (spend_alpha h)"
  shows "account_ok (spend_alpha h) s'"
proof -
  have rows: "ledger_rows (hh_id h) s' = ledger_rows (hh_id h) s
                @ [new_ledger_row (spend_alpha h) p purpose GRANTED None (hh_alpha_per_query h) f]"
    using ledger_rows_append [OF assms(1), of "hh_id h"] by simp
  have "hh_alpha_spent h + hh_alpha_per_query h = sum_list (map le_alpha_spent (ledger_rows (hh_id h) s'))"
    using assms(2) by (simp add: rows account_ok_def)
  moreover have "hh_alpha_spent h + hh_alpha_per_query h
      = of_nat (length (granted_rows (hh_id h) s) + 1) * hh_alpha_per_query h"
    using assms(2) unfolding account_ok_def by (metis add.commute distrib_right mult_1 of_nat_1 of_nat_add)
  moreover have "length (granted_rows (hh_id h) s') = length (granted_rows (hh_id h) s) + 1"
    by (simp add: granted_rows_def rows)
  ultimately show ?thesis using assms(3) by (simp add: account_ok_def)
qed

lemma account_ok_rewrite: "same_account h h' \<Longrightarrow> account_ok h' s \<longleftrightarrow> account_ok h s"
  by (simp add: account_ok_def same_account_def handle_checks_def)

lemma account_ok_fresh:
  assumes "rows_ok s" "hh_id h \<notin> set (map hh_id (hd_handles s))" "hh_alpha_spent h = 0" "handle_checks h"
  shows "account_ok h s"
proof -
  have "ledger_rows (hh_id h) s = []"
    using assms(1,2) by (auto simp: ledger_rows_def rows_ok_def filter_empty_conv simp del: set_map)
  then show ?thesis using assms(3,4) by (simp add: account_ok_def granted_rows_def)
qed

lemma accounts_step:
  assumes "vault_step s s'" "rows_ok s" "accounts_ok s"
  shows "accounts_ok s'"
  using assms(1)
proof (cases rule: vault_step.cases)
  case vs_same
  then show ?thesis using assms(3) by (simp add: accounts_ok_iff same_tables_def account_ok_ledger [of s' s])
next
  case vs_partition
  then show ?thesis using assms(3) by (simp add: accounts_ok_iff account_ok_ledger [of s' s])
next
  case (vs_issue q h)
  then show ?thesis using assms(2,3)
    by (auto simp: accounts_ok_iff account_ok_ledger [of s' s] intro: account_ok_fresh)
next
  case (vs_deny h f p purpose d)
  then show ?thesis using assms(3)
    by (simp add: accounts_ok_iff account_ok_deny [OF vs_deny(5)])
next
  case (vs_grant h p f purpose)
  have "account_ok g s'" if "g \<in> set (hd_handles s')" for g
  proof (cases "g = spend_alpha h")
    case True
    then show ?thesis using account_ok_grant [OF vs_grant(7)] vs_grant(1,3) assms(3) by (simp add: accounts_ok_iff)
  next
    case False
    then have "g \<in> set (hd_handles s)" "hh_id g \<noteq> hh_id h"
      using that vs_grant(1,6) by (auto simp: set_replace [of h])
    then show ?thesis using account_ok_grant_other [OF vs_grant(7), of g] assms(3) by (simp add: accounts_ok_iff)
  qed
  then show ?thesis by (simp add: accounts_ok_iff)
next
  case (vs_rewrite h h')
  have "hh_id h' = hh_id h" using vs_rewrite(2) by (simp add: same_account_def)
  then show ?thesis
    using vs_rewrite assms(3) account_ok_rewrite [OF vs_rewrite(2)]
    by (auto simp: accounts_ok_iff account_ok_ledger [OF vs_rewrite(6)] set_replace [of h])
qed

lemma vault_ok_step: "vault_step s s' \<Longrightarrow> vault_ok s \<Longrightarrow> vault_ok s'"
  by (simp add: vault_ok_def keys_step rows_step links_step accounts_step)

section \<open>The service refines the vault\<close>

text \<open>Reads leave the tables alone.\<close>

lemma find_handle_state [simp]: "snd (find_handle d s) = s"
  by (simp add: find_handle_def op_defs)

lemma lock_handle_state [simp]: "snd (lock_handle d s) = s"
  by (simp add: lock_handle_def find_handle_def op_defs split: sum.splits option.splits)

lemma load_handle_state [simp]: "snd (load_handle digest p u s) = s"
  by (simp add: load_handle_def find_handle_def op_defs split: sum.splits option.splits)

lemma load_partition_state [simp]: "snd (load_partition p i s) = s"
  by (auto simp: load_partition_def op_defs split: option.splits)

text \<open>A handle is found exactly when it is the only row with the digest.\<close>

lemma lock_handle_cases:
  obtains h where "lock_handle d s = (Inr h, s)" "h \<in> set (hd_handles s)" "hh_token_digest h = d"
  | e where "lock_handle d s = (Inl e, s)"
proof -
  show ?thesis
  proof (cases "filter (\<lambda>h. hh_token_digest h = d) (hd_handles s)")
    case Nil
    then have "lock_handle d s = (Inl handle_not_found, s)"
      by (simp add: lock_handle_def find_handle_def op_defs one_or_none_def)
    then show ?thesis using that(2) by blast
  next
    case (Cons h hs)
    have "h \<in> set (filter (\<lambda>h. hh_token_digest h = d) (hd_handles s))" using Cons by simp
    then have h: "h \<in> set (hd_handles s)" "hh_token_digest h = d" by auto
    show ?thesis
    proof (cases hs)
      case Nil
      then have "lock_handle d s = (Inr h, s)"
        using Cons by (simp add: lock_handle_def find_handle_def op_defs one_or_none_def)
      then show ?thesis using that(1) h by blast
    next
      case (Cons g gs)
      then have "lock_handle d s = (Inl (Foreign ''MultipleResultsFound''), s)"
        using \<open>filter _ _ = h # hs\<close>
        by (simp add: lock_handle_def find_handle_def op_defs one_or_none_def)
      then show ?thesis using that(2) by blast
    qed
  qed
qed

lemma lock_handle_found:
  assumes "keys_ok s" "h \<in> set (hd_handles s)"
  shows "lock_handle (hh_token_digest h) s = (Inr h, s)"
proof -
  have "filter (\<lambda>g. hh_token_digest g = hh_token_digest h) rows = [h]"
    if "distinct (map hh_token_digest rows)" "h \<in> set rows" for rows
    using that
  proof (induction rows)
    case (Cons g rows)
    then show ?case
      by (cases "g = h") (auto simp: filter_empty_conv image_iff)
  qed simp
  then show ?thesis
    using assms by (simp add: keys_ok_def lock_handle_def find_handle_def op_defs one_or_none_def)
qed

text \<open>How a call that goes through a handle can end: the three outcomes the service's methods share.\<close>

definition denial_exn :: "principal \<Rightarrow> denial_reason \<Rightarrow> exn" where
  "denial_exn p d = (if d = TENANT_MISMATCH then handle_not_found else holdout_denied d p)"

lemma raise_denial_run [simp]: "raise_denial p d s = (Inl (denial_exn p d), s)"
  by (simp add: raise_denial_def denial_exn_def op_defs)

definition audited :: "audit_event \<Rightarrow> holdout_db \<Rightarrow> holdout_db" where
  "audited e s = s\<lparr>hd_audit := hd_audit s @ [e]\<rparr>"

lemma log_denial_run [simp]:
  "log_denial p d i s = (Inr (), audited (Access_Denied (identity_id p) (pr_role p) d i) s)"
  by (simp add: log_denial_def audit_def audited_def op_defs)

lemma audited_tables [simp]:
  "hd_partitions (audited e s) = hd_partitions s" "hd_handles (audited e s) = hd_handles s"
  "hd_ledger (audited e s) = hd_ledger s"
  by (simp_all add: audited_def)

definition after_denial ::
  "holdout_handle \<Rightarrow> principal \<Rightarrow> string \<Rightarrow> denial_reason \<Rightarrow> fresh \<Rightarrow> holdout_db \<Rightarrow> holdout_db" where
  "after_denial h p purpose d f s =
     audited (Access_Denied (identity_id p) (pr_role p) d (Some (hh_id h)))
       (s\<lparr>hd_ledger := hd_ledger s @ [denied_row h p purpose d f]\<rparr>)"

definition grant_row :: "holdout_handle \<Rightarrow> principal \<Rightarrow> string \<Rightarrow> fresh \<Rightarrow> ledger_entry" where
  "grant_row h p purpose f = new_ledger_row (spend_alpha h) p purpose GRANTED None (hh_alpha_per_query h) f"

definition after_grant ::
  "holdout_handle \<Rightarrow> principal \<Rightarrow> string \<Rightarrow> fresh \<Rightarrow> holdout_db \<Rightarrow> holdout_db" where
  "after_grant h p purpose f s =
     audited (Resolve_Granted (identity_id p) (pr_role p) (hh_id h) purpose)
       (s\<lparr>hd_handles := replace_handle (spend_alpha h) (hd_handles s),
          hd_ledger := hd_ledger s @ [grant_row h p purpose f]\<rparr>)"

lemma append_denied_run:
  "append_ledger_row h p purpose DENIED (Some d) 0 f s =
     (if fr_id f \<notin> set (map le_id (hd_ledger s))
      then (Inr (denied_row h p purpose d f), s\<lparr>hd_ledger := hd_ledger s @ [denied_row h p purpose d f]\<rparr>)
      else (Inl integrity_error, s))"
  by (simp add: append_ledger_row_def insert_ledger_def denied_row_def ledger_checks_def op_defs
      new_ledger_row_def Let_def)

lemma append_granted_run:
  "append_ledger_row (spend_alpha h) p purpose GRANTED None (hh_alpha_per_query h) f s =
     (if fr_id f \<notin> set (map le_id (hd_ledger s))
      then (Inr (grant_row h p purpose f), s\<lparr>hd_ledger := hd_ledger s @ [grant_row h p purpose f]\<rparr>)
      else (Inl integrity_error, s))"
  by (simp add: append_ledger_row_def insert_ledger_def grant_row_def ledger_checks_def op_defs
      new_ledger_row_def Let_def)

definition in_body :: "holdout_db \<Rightarrow> holdout_handle \<Rightarrow> principal \<Rightarrow> string \<Rightarrow> fresh \<Rightarrow> holdout_db" where
  "in_body s h p purpose f =
     s\<lparr>hd_handles := replace_handle (spend_alpha h) (hd_handles s),
       hd_ledger := hd_ledger s @ [grant_row h p purpose f]\<rparr>"

lemma resolve_body_grants:
  assumes "lock_handle dg s = (Inr h, s)" "resolve_denial_reason p h (fr_now f) = None"
  obtains e s' where "resolve_body p dg purpose f s = (Inl e, s')"
  | q where "handle_checks (spend_alpha h)" "fr_id f \<notin> set (map le_id (hd_ledger s))"
      "partition_row (hh_partition_id h) s = Some q"
      "resolve_body p dg purpose f s =
         (Inr (hh_id h, None, Some (build_content_ref q (grant_row h p purpose f) (spend_alpha h))),
          in_body s h p purpose f)"
proof -
  let ?ok = "handle_checks (spend_alpha h) \<and> hh_token_digest (spend_alpha h)
     \<notin> set (map hh_token_digest (filter (\<lambda>g. hh_id g \<noteq> hh_id (spend_alpha h)) (hd_handles s)))"
  have flushed: "flush_handle (spend_alpha h) s =
      (if ?ok then (Inr (), s\<lparr>hd_handles := replace_handle (spend_alpha h) (hd_handles s)\<rparr>)
       else (Inl integrity_error, s))"
    by (simp add: flush_handle_def del: set_map)
  note body = resolve_body_def op_bind_def op_then_def op_gets_def op_return_def op_raise_def
    append_granted_run partition_row_def in_body_def
  show ?thesis
  proof (cases "?ok \<and> fr_id f \<notin> set (map le_id (hd_ledger s))")
    case False
    then have "fst (resolve_body p dg purpose f s) = Inl integrity_error"
      by (auto simp: body assms flushed simp del: set_map)
    then show ?thesis using that(1) by (metis prod.collapse)
  next
    case True
    show ?thesis
    proof (cases "partition_row (hh_partition_id h) s")
      case None
      with True have "fst (resolve_body p dg purpose f s) = Inl (Dataset (PartitionNotFoundError (hh_partition_id h)))"
        by (simp add: body assms flushed del: set_map)
      then show ?thesis using that(1) by (metis prod.collapse)
    next
      case (Some q)
      with True show ?thesis
        by (intro that(2) [of q]) (simp_all add: body assms flushed del: set_map)
    qed
  qed
qed

lemma resolve_body_denies:
  assumes "lock_handle dg s = (Inr h, s)" "resolve_denial_reason p h (fr_now f) = Some d"
  shows "resolve_body p dg purpose f s =
    (if fr_id f \<notin> set (map le_id (hd_ledger s))
     then (Inr (hh_id h, Some d, None), s\<lparr>hd_ledger := hd_ledger s @ [denied_row h p purpose d f]\<rparr>)
     else (Inl integrity_error, s))"
  using assms by (simp add: resolve_body_def op_bind_def append_denied_run op_return_def del: set_map)

lemma resolve_cases:
  obtains (failed) e where "resolve_handle digest p u purpose f s = (Inl e, s)"
  | (denied) h d t where "h \<in> set (hd_handles s)" "u = build_handle_uri t" "hh_token_digest h = digest t"
      "resolve_denial_reason p h (fr_now f) = Some d" "fr_id f \<notin> set (map le_id (hd_ledger s))"
      "resolve_handle digest p u purpose f s = (Inl (denial_exn p d), after_denial h p purpose d f s)"
  | (granted) h q t where "h \<in> set (hd_handles s)" "u = build_handle_uri t" "hh_token_digest h = digest t"
      "resolve_denial_reason p h (fr_now f) = None" "handle_checks (spend_alpha h)"
      "fr_id f \<notin> set (map le_id (hd_ledger s))" "partition_row (hh_partition_id h) s = Some q"
      "resolve_handle digest p u purpose f s =
         (Inr (build_content_ref q (grant_row h p purpose f) (spend_alpha h)), after_grant h p purpose f s)"
proof (cases "parse_handle_uri u")
  case (Inl e)
  then show ?thesis by (intro failed [of e]) (simp add: resolve_handle_def op_raise_def)
next
  case parsed: (Inr t)
  then have u: "u = build_handle_uri t" by (simp add: parse_Inr)
  note run = resolve_handle_def parsed transaction_def op_bind_def op_then_def op_return_def op_lift_def
  show ?thesis
  proof (cases rule: lock_handle_cases [of "digest t" s])
    case (2 e)
    then show ?thesis by (intro failed [of e]) (simp add: run resolve_body_def)
  next
    case (1 h)
    show ?thesis
    proof (cases "resolve_denial_reason p h (fr_now f)")
      case (Some d)
      note body = resolve_body_denies [OF 1(1) Some, of purpose]
      show ?thesis
        by (cases "fr_id f \<in> set (map le_id (hd_ledger s))")
          (intro failed [of integrity_error] denied [OF 1(2) u 1(3) Some];
            simp add: run body after_denial_def del: set_map)+
    next
      case None
      show ?thesis
      proof (cases rule: resolve_body_grants [OF 1(1) None, of purpose])
        case (1 e s')
        then show ?thesis by (intro failed [of e]) (simp add: run)
      next
        case (2 q)
        show ?thesis
          by (rule granted [OF 1(2) u 1(3) None 2(1-3)])
            (simp add: run 2(4) after_grant_def in_body_def audit_def op_modify_def audited_def)
      qed
    qed
  qed
qed

lemma lifecycle_cases:
  obtains (failed) e where "lifecycle_change change result purpose neither digest p u f s = (Inl e, s)"
  | (denied) h d t where "h \<in> set (hd_handles s)" "u = build_handle_uri t" "hh_token_digest h = digest t"
      "mutation_denial_reason p h = Some d" "fr_id f \<notin> set (map le_id (hd_ledger s))"
      "lifecycle_change change result purpose neither digest p u f s =
         (Inl (denial_exn p d), after_denial h p purpose d f s)"
  | (changed) h t where "h \<in> set (hd_handles s)" "u = build_handle_uri t" "hh_token_digest h = digest t"
      "mutation_denial_reason p h = None" "handle_checks (change h)"
      "hh_token_digest (change h)
         \<notin> set (map hh_token_digest (filter (\<lambda>g. hh_id g \<noteq> hh_id (change h)) (hd_handles s)))"
      "lifecycle_change change result purpose neither digest p u f s =
         (Inr (result (change h)), s\<lparr>hd_handles := replace_handle (change h) (hd_handles s)\<rparr>)"
proof (cases "parse_handle_uri u")
  case (Inl e)
  then show ?thesis by (intro failed [of e]) (simp add: lifecycle_change_def op_raise_def)
next
  case parsed: (Inr t)
  then have u: "u = build_handle_uri t" by (simp add: parse_Inr)
  note run = lifecycle_change_def parsed transaction_def op_bind_def op_then_def op_return_def op_lift_def
  show ?thesis
  proof (cases rule: lock_handle_cases [of "digest t" s])
    case (2 e)
    then show ?thesis by (intro failed [of e]) (simp add: run)
  next
    case (1 h)
    show ?thesis
    proof (cases "mutation_denial_reason p h")
      case (Some d)
      show ?thesis
        by (cases "fr_id f \<in> set (map le_id (hd_ledger s))")
          (intro failed [of integrity_error] denied [OF 1(2) u 1(3) Some];
            simp add: run 1 Some append_denied_run after_denial_def del: set_map)+
    next
      case None
      show ?thesis
        by (cases "handle_checks (change h) \<and> hh_token_digest (change h)
              \<notin> set (map hh_token_digest (filter (\<lambda>g. hh_id g \<noteq> hh_id (change h)) (hd_handles s)))")
          (intro failed [of integrity_error] changed [OF 1(2) u 1(3) None];
            auto simp add: run 1 None flush_handle_def simp del: set_map)+
    qed
  qed
qed

lemma after_denial_step:
  "h \<in> set (hd_handles s) \<Longrightarrow> fr_id f \<notin> set (map le_id (hd_ledger s)) \<Longrightarrow>
     vault_step s (after_denial h p purpose d f s)"
  by (rule vs_deny) (simp_all add: after_denial_def)

lemma same_step: "vault_step s s"
  by (rule vs_same) (simp add: same_tables_def)

lemma resolve_refines: "vault_step s (snd (resolve_handle digest p u purpose f s))"
proof (cases rule: resolve_cases [of digest p u purpose f s])
  case (failed e)
  then show ?thesis by (simp add: same_step)
next
  case (denied h d t)
  then show ?thesis by (simp add: after_denial_step del: set_map)
next
  case (granted h q t)
  have "vault_step s (after_grant h p purpose f s)"
    by (rule vs_grant [OF granted(1,4,5,6)]) (simp_all add: after_grant_def grant_row_def)
  then show ?thesis using granted(8) by simp
qed

lemma lifecycle_refines:
  assumes "\<And>h. same_account h (change h)"
  shows "vault_step s (snd (lifecycle_change change result purpose neither digest p u f s))"
proof (cases rule: lifecycle_cases [of change result purpose neither digest p u f s])
  case (failed e)
  then show ?thesis by (simp add: same_step)
next
  case (denied h d t)
  then show ?thesis by (simp add: after_denial_step del: set_map)
next
  case (changed h t)
  show ?thesis using changed(7) by (simp add: vs_rewrite [OF changed(1) assms changed(6)])
qed

lemma rotated_account [simp]: "same_account h (rotated_handle digest h f)"
  by (simp add: same_account_def rotated_handle_def)

lemma revoked_account [simp]: "same_account h (revoked_handle h f)"
  by (simp add: same_account_def revoked_handle_def)

lemma rotate_refines: "vault_step s (snd (rotate_handle digest p u f s))"
  by (simp add: rotate_handle_def lifecycle_refines)

lemma revoke_refines: "vault_step s (snd (revoke_handle digest p u f s))"
  by (simp add: revoke_handle_def lifecycle_refines)

lemma create_refines:
  "vault_step s (snd (create_partition p dataset_id name kind owner loc dig n f s))"
  by (auto simp: create_partition_def transaction_def op_defs insert_partition_def Let_def
      intro!: same_step intro: vs_partition)

lemma load_partition_Inr:
  "load_partition p i s = (Inr q, s') \<longleftrightarrow>
     s' = s \<and> partition_row i s = Some q \<and> dp_tenant_id q = pr_tenant_id p"
  by (auto simp: load_partition_def op_defs split: option.splits)

lemma partition_row_Some: "partition_row i s = Some q \<Longrightarrow> q \<in> set (hd_partitions s) \<and> dp_id q = i"
  by (auto simp: partition_row_def find_Some_iff)

lemma new_handle_fields [simp]:
  "hh_id (new_handle digest p q owner tot per window plan c f) = fr_id f"
  "hh_partition_id (new_handle digest p q owner tot per window plan c f) = dp_id q"
  "hh_tenant_id (new_handle digest p q owner tot per window plan c f) = dp_tenant_id q"
  "hh_alpha_spent (new_handle digest p q owner tot per window plan c f) = 0"
  "hh_token_digest (new_handle digest p q owner tot per window plan c f) = digest (fr_token f)"
  by (simp_all add: new_handle_def)

lemma issue_cases:
  obtains (failed) e where "issue_handle digest p i owner tot per window plan c f s = (Inl e, s)"
  | (denied) "\<not> has_holdout_access p"
      "issue_handle digest p i owner tot per window plan c f s =
         (Inl (holdout_denied ROLE_NOT_EVALUATOR p),
          audited (Access_Denied (identity_id p) (pr_role p) ROLE_NOT_EVALUATOR None) s)"
  | (issued) q h where "h = new_handle digest p q owner tot per window plan c f" "q \<in> set (hd_partitions s)"
      "dp_id q = i" "dp_kind q = HOLDOUT" "dp_tenant_id q = pr_tenant_id p" "pr_role p = EVALUATOR"
      "hh_id h \<notin> set (map hh_id (hd_handles s))"
      "hh_token_digest h \<notin> set (map hh_token_digest (hd_handles s))" "handle_checks h"
      "issue_handle digest p i owner tot per window plan c f s =
         (Inr \<lparr>ih_handle_uri = build_handle_uri (fr_token f), ih_metadata = build_handle_metadata h\<rparr>,
          s\<lparr>hd_handles := hd_handles s @ [h]\<rparr>)"
proof (cases "has_holdout_access p")
  case False
  then show ?thesis by (intro denied) (simp_all add: issue_handle_def op_then_def op_bind_def op_raise_def)
next
  case access: True
  note run = issue_handle_def transaction_def op_bind_def op_then_def op_return_def op_raise_def Let_def
  show ?thesis
  proof (cases "load_partition p i s")
    case loaded: (Pair r s1)
    show ?thesis
    proof (cases r)
      case (Inl e)
      with loaded access show ?thesis by (intro failed [of e]) (simp add: run)
    next
      case (Inr q)
      with loaded have q: "s1 = s" "partition_row i s = Some q" "dp_tenant_id q = pr_tenant_id p"
        by (auto simp: load_partition_Inr)
      let ?h = "new_handle digest p q owner tot per window plan c f"
      let ?fits = "hh_id ?h \<notin> set (map hh_id (hd_handles s))
        \<and> hh_token_digest ?h \<notin> set (map hh_token_digest (hd_handles s)) \<and> handle_checks ?h"
      consider "dp_kind q \<noteq> HOLDOUT" | "dp_kind q = HOLDOUT" "\<not> ?fits" | "dp_kind q = HOLDOUT" "?fits" by blast
      then show ?thesis
      proof cases
        case 1
        then show ?thesis using loaded Inr q access
          by (intro failed [of "Dataset (PartitionStorageIdentityError ''not a sealed partition'')"]) (simp add: run)
      next
        case 2
        then show ?thesis using loaded Inr q access
          by (intro failed [of integrity_error]) (simp add: run insert_handle_def del: set_map)
      next
        case 3
        show ?thesis
          by (rule issued [of ?h q])
            (use 3 loaded Inr q access partition_row_Some [OF q(2)] in
              \<open>simp_all add: run insert_handle_def del: set_map new_handle_fields\<close>)
      qed
    qed
  qed
qed

lemma issue_refines:
  "vault_step s (snd (issue_handle digest p i owner tot per window plan c f s))"
proof (cases rule: issue_cases [of digest p i owner tot per window plan c f s])
  case (failed e)
  then show ?thesis by (simp add: same_step)
next
  case denied
  then show ?thesis by (simp add: vs_same same_tables_def)
next
  case (issued q h)
  then show ?thesis by (simp add: vs_issue [of q s h] del: set_map)
qed

section \<open>Sequences of calls\<close>

datatype dataset_call =
    Create_Partition principal string string partition_kind string string string int fresh
  | Issue_Handle principal string string rat rat int string "json_object option" fresh
  | Resolve_Handle principal string string fresh
  | Rotate_Handle principal string fresh
  | Revoke_Handle principal string fresh

fun dataset_step :: "(string \<Rightarrow> string) \<Rightarrow> dataset_call \<Rightarrow> holdout_db \<Rightarrow> holdout_db" where
  "dataset_step digest (Create_Partition p ds name kind owner loc dig n f) s =
     snd (create_partition p ds name kind owner loc dig n f s)"
| "dataset_step digest (Issue_Handle p i owner tot per window plan c f) s =
     snd (issue_handle digest p i owner tot per window plan c f s)"
| "dataset_step digest (Resolve_Handle p u purpose f) s = snd (resolve_handle digest p u purpose f s)"
| "dataset_step digest (Rotate_Handle p u f) s = snd (rotate_handle digest p u f s)"
| "dataset_step digest (Revoke_Handle p u f) s = snd (revoke_handle digest p u f s)"

lemma dataset_refines: "vault_step s (dataset_step digest c s)"
  by (cases c) (simp_all add: create_refines issue_refines resolve_refines rotate_refines revoke_refines)

lemma calls_vault_ok: "vault_ok s \<Longrightarrow> vault_ok (run_calls (dataset_step digest) cs s)"
  by (rule run_calls_invariant) (auto intro: vault_ok_step dataset_refines)

section \<open>Runs that succeed\<close>

lemma lifecycle_runs:
  assumes "keys_ok s" "h \<in> set (hd_handles s)" "hh_token_digest h = digest t" "t \<noteq> []"
    and "mutation_denial_reason p h = None" "handle_checks (change h)" "hh_id (change h) = hh_id h"
    and "hh_token_digest (change h) = hh_token_digest h
         \<or> hh_token_digest (change h) \<notin> set (map hh_token_digest (hd_handles s))"
  shows "lifecycle_change change result purpose neither digest p (build_handle_uri t) f s =
     (Inr (result (change h)), s\<lparr>hd_handles := replace_handle (change h) (hd_handles s)\<rparr>)"
proof -
  have "hh_token_digest (change h)
      \<notin> set (map hh_token_digest (filter (\<lambda>g. hh_id g \<noteq> hh_id (change h)) (hd_handles s)))"
    using assms(1,2,7,8) by (auto simp: keys_ok_def distinct_map inj_on_def)
  then show ?thesis
    using lock_handle_found [OF assms(1,2)] assms(3-7)
    by (simp add: lifecycle_change_def transaction_def op_lift_def op_bind_def op_then_def op_return_def flush_handle_def
        del: set_map)
qed

lemma resolve_runs_denied:
  assumes "keys_ok s" "h \<in> set (hd_handles s)" "hh_token_digest h = digest t" "t \<noteq> []"
    and "resolve_denial_reason p h (fr_now f) = Some d" "fr_id f \<notin> set (map le_id (hd_ledger s))"
  shows "resolve_handle digest p (build_handle_uri t) purpose f s =
     (Inl (denial_exn p d), after_denial h p purpose d f s)"
  using lock_handle_found [OF assms(1,2)] assms(3-6)
  by (simp add: resolve_handle_def transaction_def op_lift_def op_bind_def op_then_def op_return_def resolve_body_denies
      after_denial_def del: set_map)

text \<open>With an affordable query the constraint on the budget never fails.\<close>

lemma spend_checks:
  "handle_checks h \<Longrightarrow> resolve_denial_reason p h now = None \<Longrightarrow> handle_checks (spend_alpha h)"
  by (auto simp: resolve_denial_reason_def handle_checks_def spend_alpha_def alpha_remaining_def split: if_splits)

lemma resolve_runs_granted:
  assumes "vault_ok s" "h \<in> set (hd_handles s)" "hh_token_digest h = digest t" "t \<noteq> []"
    and "resolve_denial_reason p h (fr_now f) = None" "fr_id f \<notin> set (map le_id (hd_ledger s))"
  shows "\<exists>q. partition_row (hh_partition_id h) s = Some q \<and>
     resolve_handle digest p (build_handle_uri t) purpose f s =
       (Inr (build_content_ref q (grant_row h p purpose f) (spend_alpha h)), after_grant h p purpose f s)"
proof -
  have keys: "keys_ok s" and checks: "handle_checks (spend_alpha h)"
    using assms(1,2,5) by (auto simp: vault_ok_def accounts_ok_def intro: spend_checks)
  have row: "\<exists>q. partition_row (hh_partition_id h) s = Some q"
    using assms(1,2) unfolding vault_ok_def links_ok_def partition_row_def
    by (metis (mono_tags, lifting) find_None_iff not_Some_eq)
  have unique: "hh_token_digest (spend_alpha h)
     \<notin> set (map hh_token_digest (filter (\<lambda>g. hh_id g \<noteq> hh_id (spend_alpha h)) (hd_handles s)))"
    using keys assms(2) by (auto simp: keys_ok_def spend_alpha_def distinct_map inj_on_def)
  from row obtain q where q: "partition_row (hh_partition_id h) s = Some q" by blast
  show ?thesis
    using lock_handle_found [OF keys assms(2)] assms(3-6) checks q unique
    by (simp add: resolve_handle_def transaction_def op_lift_def op_bind_def op_then_def op_return_def op_gets_def
        resolve_body_def flush_handle_def append_granted_run partition_row_def audit_def op_modify_def
        after_grant_def audited_def del: set_map)
qed

section \<open>Properties\<close>

text \<open>A tenant with one sealed partition, two handles' worth of tokens and a budget of two queries.\<close>

definition demo_digest :: "string \<Rightarrow> string" where
  "demo_digest t = ''sha-'' @ t"

definition demo_evaluator :: principal where
  "demo_evaluator = \<lparr>pr_identity = \<lparr>wid_role = EVALUATOR, wid_subject = ''ev-1''\<rparr>, pr_tenant_id = ''t1''\<rparr>"

definition demo_runner :: principal where
  "demo_runner = \<lparr>pr_identity = \<lparr>wid_role = CANDIDATE_RUNNER, wid_subject = ''cr-1''\<rparr>, pr_tenant_id = ''t1''\<rparr>"

definition demo_fresh :: "string \<Rightarrow> string \<Rightarrow> int \<Rightarrow> fresh" where
  "demo_fresh i t now = \<lparr>fr_id = i, fr_token = t, fr_now = now, fr_stamp = now\<rparr>"

definition demo_calls :: "dataset_call list" where
  "demo_calls =
     [Create_Partition demo_evaluator ''ds'' ''seal'' HOLDOUT ''ops'' ''s3://sealed'' ''c0'' 10 (demo_fresh ''dsp_1'' '''' 0),
      Issue_Handle demo_evaluator ''dsp_1'' ''ops'' (1/10) (1/20) 30 ''monthly'' None (demo_fresh ''hho_1'' ''tok-1'' 1),
      Resolve_Handle demo_evaluator (build_handle_uri ''tok-1'') ''gate'' (demo_fresh ''hql_1'' '''' 2)]"

definition demo_vault :: holdout_db where
  "demo_vault = run_calls (dataset_step demo_digest) demo_calls empty_db"

definition demo_handle :: holdout_handle where
  "demo_handle =
     \<lparr>hh_id = ''hho_1'', hh_tenant_id = ''t1'', hh_partition_id = ''dsp_1'',
      hh_token_digest = ''sha-tok-1'', hh_token_prefix = ''tok-1'', hh_owner = ''ops'',
      hh_created_at = 1, hh_created_by = ''ev-1'', hh_expires_at = 1 + days 30,
      hh_freshness_window_days = 30, hh_rotation_plan = ''monthly'',
      hh_rotated_at = None, hh_rotation_count = 0, hh_revoked_at = None,
      hh_contamination_audit = [], hh_alpha_budget_total = 1/10, hh_alpha_spent = 1/20,
      hh_alpha_per_query = 1/20\<rparr>"

lemma demo_handles: "hd_handles demo_vault = [demo_handle]"
  by code_simp

lemma demo_ledger_ids: "map le_id (hd_ledger demo_vault) = [''hql_1'']"
  by code_simp

lemma demo_vault_ok: "vault_ok demo_vault"
  unfolding demo_vault_def by (rule calls_vault_ok [OF vault_ok_empty])

text \<open>C8: Whatever partitions, handles, reads, rotations and revocations callers ask for, in any order
  and with any identifiers and clocks, the reads ever granted on a handle stay within its alpha budget:
  rotating or reviving the handle never buys a read.\<close>

theorem alpha_budget_bounds_reads:
  assumes "h \<in> set (hd_handles (run_calls (dataset_step digest) calls empty_db))"
  shows "of_nat (length (granted_rows (hh_id h) (run_calls (dataset_step digest) calls empty_db)))
           * hh_alpha_per_query h \<le> hh_alpha_budget_total h"
  using assms calls_vault_ok [OF vault_ok_empty]
  unfolding vault_ok_def accounts_ok_def handle_checks_def by metis

lemma alpha_budget_bounds_reads_witness:
  "of_nat (length (granted_rows ''hho_1'' demo_vault)) * (1/20) \<le> (1/10 :: rat)"
proof -
  have "demo_handle \<in> set (hd_handles (run_calls (dataset_step demo_digest) demo_calls empty_db))"
    using demo_handles by (simp add: demo_vault_def)
  from alpha_budget_bounds_reads [OF this] show ?thesis by (simp add: demo_vault_def demo_handle_def)
qed

text \<open>After any calls the ledger and the budget agree: what a handle reports as spent is exactly the sum
  of its ledger rows.\<close>

theorem ledger_agrees_with_budget:
  assumes "h \<in> set (hd_handles (run_calls (dataset_step digest) calls empty_db))"
  shows "ab_spent (build_budget_report h)
           = sum_list (map le_alpha_spent (ledger_rows (hh_id h) (run_calls (dataset_step digest) calls empty_db)))"
  using assms calls_vault_ok [OF vault_ok_empty, of digest calls]
  by (simp add: vault_ok_def accounts_ok_def build_budget_report_def)

lemma ledger_agrees_with_budget_witness:
  "1/20 = sum_list (map le_alpha_spent (ledger_rows ''hho_1'' demo_vault))"
proof -
  have "demo_handle \<in> set (hd_handles (run_calls (dataset_step demo_digest) demo_calls empty_db))"
    using demo_handles by (simp add: demo_vault_def)
  from ledger_agrees_with_budget [OF this] show ?thesis
    by (simp add: demo_vault_def demo_handle_def build_budget_report_def)
qed

text \<open>C9: Sealed content leaves only through a ledgered grant: a resolution that returns a content reference
  was made by an evaluator of the handle's tenant on a handle neither revoked nor expired, and appended
  exactly the granted row the reference names.\<close>

theorem content_only_with_ledgered_grant:
  assumes "resolve_handle digest p uri purpose f s = (Inr c, s')"
  shows "pr_role p = EVALUATOR \<and>
    (\<exists>h. h \<in> set (hd_handles s) \<and> hh_tenant_id h = pr_tenant_id p \<and> hh_revoked_at h = None
       \<and> fr_now f < hh_expires_at h \<and> hc_partition_id c = hh_partition_id h
       \<and> hc_ledger_entry_id c = le_id (grant_row h p purpose f)
       \<and> hd_ledger s' = hd_ledger s @ [grant_row h p purpose f])"
proof (cases rule: resolve_cases [of digest p uri purpose f s])
  case (granted h q t)
  then show ?thesis
    using assms partition_row_Some [OF granted(7)]
    by (auto simp: resolve_denial_reason_def build_content_ref_def after_grant_def grant_row_def
        new_ledger_row_def split: if_splits intro!: exI [of _ h])
qed (use assms in auto)

lemma content_only_with_ledgered_grant_witness:
  "\<exists>h c s'. resolve_handle demo_digest demo_evaluator (build_handle_uri ''tok-1'') ''final'' (demo_fresh ''hql_2'' '''' 9) demo_vault
        = (Inr c, s') \<and> hd_ledger s' = hd_ledger demo_vault @ [grant_row h demo_evaluator ''final'' (demo_fresh ''hql_2'' '''' 9)]"
proof -
  let ?f = "demo_fresh ''hql_2'' '''' 9"
  have allowed: "resolve_denial_reason demo_evaluator demo_handle (fr_now ?f) = None" by code_simp
  have "hh_token_digest demo_handle = demo_digest ''tok-1''" by code_simp
  with resolve_runs_granted [OF demo_vault_ok, of demo_handle demo_digest "''tok-1''" demo_evaluator ?f "''final''"] allowed
  obtain c s' where run: "resolve_handle demo_digest demo_evaluator (build_handle_uri ''tok-1'') ''final'' ?f demo_vault
      = (Inr c, s')"
    by (auto simp: demo_handles demo_ledger_ids demo_fresh_def simp del: set_map)
  from content_only_with_ledgered_grant [OF run] run show ?thesis by blast
qed

text \<open>A denial is committed before it is raised: resolving a live handle against the rules appends one
  denied row naming the caller, spends nothing, touches no handle, and tells a caller of another tenant
  only that there is no such handle.\<close>

theorem denial_is_ledgered:
  assumes "keys_ok s" "h \<in> set (hd_handles s)" "hh_token_digest h = digest t" "t \<noteq> []"
    and "resolve_denial_reason p h (fr_now f) = Some d" "fr_id f \<notin> set (map le_id (hd_ledger s))"
  shows "fst (resolve_handle digest p (build_handle_uri t) purpose f s)
       = Inl (if d = TENANT_MISMATCH then handle_not_found else holdout_denied d p)
    \<and> hd_ledger (snd (resolve_handle digest p (build_handle_uri t) purpose f s))
        = hd_ledger s @ [new_ledger_row h p purpose DENIED (Some d) 0 f]
    \<and> hd_handles (snd (resolve_handle digest p (build_handle_uri t) purpose f s)) = hd_handles s"
  using resolve_runs_denied [where digest = digest, OF assms] by (simp add: denial_exn_def after_denial_def denied_row_def)

lemma denial_is_ledgered_witness:
  "fst (resolve_handle demo_digest demo_runner (build_handle_uri ''tok-1'') ''probe'' (demo_fresh ''hql_2'' '''' 9) demo_vault)
     = Inl (holdout_denied ROLE_NOT_EVALUATOR demo_runner)"
proof -
  let ?f = "demo_fresh ''hql_2'' '''' 9"
  have "keys_ok demo_vault" using demo_vault_ok by (simp add: vault_ok_def)
  moreover have "demo_handle \<in> set (hd_handles demo_vault)" by (simp add: demo_handles)
  moreover have "hh_token_digest demo_handle = demo_digest ''tok-1''" by code_simp
  moreover have "resolve_denial_reason demo_runner demo_handle (fr_now ?f) = Some ROLE_NOT_EVALUATOR" by code_simp
  moreover have "fr_id ?f \<notin> set (map le_id (hd_ledger demo_vault))"
    by (simp add: demo_ledger_ids demo_fresh_def del: set_map)
  ultimately show ?thesis
    using denial_is_ledgered [of demo_vault demo_handle demo_digest "''tok-1''" demo_runner ?f ROLE_NOT_EVALUATOR "''probe''"]
    by simp
qed

lemma checks_of_account: "same_account h h' \<Longrightarrow> handle_checks h' \<longleftrightarrow> handle_checks h"
  by (simp add: same_account_def handle_checks_def)

lemma lifecycle_member:
  "h \<in> set (hd_handles s) \<Longrightarrow> hh_id h' = hh_id h \<Longrightarrow>
     h' \<in> set (hd_handles (s\<lparr>hd_handles := replace_handle h' (hd_handles s)\<rparr>))"
  by (simp add: set_replace)

text \<open>A lifecycle change by the tenant's evaluator, on a vault that satisfies its invariant.\<close>

lemma lifecycle_runs_ok:
  assumes "vault_ok s" "h \<in> set (hd_handles s)" "hh_token_digest h = digest t" "t \<noteq> []"
    and "pr_role p = EVALUATOR" "hh_tenant_id h = pr_tenant_id p" "\<And>g. same_account g (change g)"
    and "hh_token_digest (change h) = hh_token_digest h
         \<or> hh_token_digest (change h) \<notin> set (map hh_token_digest (hd_handles s))"
  shows "\<exists>s'. lifecycle_change change result purpose neither digest p (build_handle_uri t) f s = (Inr (result (change h)), s')
     \<and> s' = s\<lparr>hd_handles := replace_handle (change h) (hd_handles s)\<rparr>
     \<and> vault_ok s' \<and> change h \<in> set (hd_handles s')"
proof -
  let ?s' = "s\<lparr>hd_handles := replace_handle (change h) (hd_handles s)\<rparr>"
  have id: "hh_id (change h) = hh_id h" using assms(7) by (simp add: same_account_def)
  have run: "lifecycle_change change result purpose neither digest p (build_handle_uri t) f s
      = (Inr (result (change h)), ?s')"
  proof (rule lifecycle_runs [where change = change and digest = digest, OF _ assms(2,3,4) _ _ id assms(8)])
    show "keys_ok s" "handle_checks (change h)"
      using assms(1,2) checks_of_account [OF assms(7)] by (auto simp: vault_ok_def accounts_ok_def)
    show "mutation_denial_reason p h = None" using assms(5,6) by (simp add: mutation_denial_reason_def)
  qed
  moreover have "vault_ok ?s'"
    using vault_ok_step [OF lifecycle_refines [OF assms(7)] assms(1), of result purpose neither digest p
        "build_handle_uri t" f] run by simp
  ultimately show ?thesis using lifecycle_member [OF assms(2) id] by blast
qed

lemma revoked_fields [simp]:
  "hh_token_digest (revoked_handle h f) = hh_token_digest h" "hh_tenant_id (revoked_handle h f) = hh_tenant_id h"
  "hh_id (revoked_handle h f) = hh_id h"
  by (simp_all add: revoked_handle_def)

lemma digests_revoked:
  "h \<in> set rows \<Longrightarrow> distinct (map hh_id rows) \<Longrightarrow>
     map hh_token_digest (replace_handle (revoked_handle h f) rows) = map hh_token_digest rows"
  by (auto simp: replace_handle_def distinct_map inj_on_def)

text \<open>A revoked handle comes back by rotation: after an evaluator revokes a handle, the same evaluator's
  rotation succeeds, and the new token resolves to the sealed content as long as the budget affords a query,
  although nothing re-authorised the handle.\<close>

theorem rotation_revives_revoked_handle:
  assumes "vault_ok s" "h \<in> set (hd_handles s)" "hh_token_digest h = digest t" "t \<noteq> []"
    and "pr_role p = EVALUATOR" "hh_tenant_id h = pr_tenant_id p"
    and "fr_token f2 \<noteq> []" "digest (fr_token f2) \<notin> set (map hh_token_digest (hd_handles s))"
    and "hh_alpha_per_query h \<le> alpha_remaining h"
    and "fr_now f3 < fr_now f2 + days (hh_freshness_window_days h)"
    and "fr_id f3 \<notin> set (map le_id (hd_ledger s))"
  shows "\<exists>m s1 i s2 c s3. revoke_handle digest p (build_handle_uri t) f1 s = (Inr m, s1)
    \<and> rotate_handle digest p (build_handle_uri t) f2 s1 = (Inr i, s2)
    \<and> resolve_handle digest p (ih_handle_uri i) purpose f3 s2 = (Inr c, s3)
    \<and> hm_revoked_at m = Some (fr_now f1)"
proof -
  let ?h1 = "revoked_handle h f1" and ?h2 = "rotated_handle digest (revoked_handle h f1) f2"
  obtain s1 where s1: "revoke_handle digest p (build_handle_uri t) f1 s = (Inr (build_handle_metadata ?h1), s1)"
      "s1 = s\<lparr>hd_handles := replace_handle ?h1 (hd_handles s)\<rparr>" "vault_ok s1" "?h1 \<in> set (hd_handles s1)"
    using lifecycle_runs_ok [where change = "\<lambda>h. revoked_handle h f1" and digest = digest, OF assms(1-6) revoked_account]
    unfolding revoke_handle_def by fastforce
  have digests: "map hh_token_digest (hd_handles s1) = map hh_token_digest (hd_handles s)"
    using assms(1,2) s1(2) by (simp add: digests_revoked vault_ok_def keys_ok_def)
  obtain i s2 where s2: "rotate_handle digest p (build_handle_uri t) f2 s1 = (Inr i, s2)"
      "ih_handle_uri i = build_handle_uri (fr_token f2)" "hd_ledger s2 = hd_ledger s1"
      "vault_ok s2" "?h2 \<in> set (hd_handles s2)"
  proof -
    have new: "hh_token_digest ?h2 \<notin> set (map hh_token_digest (hd_handles s1))"
      unfolding digests using assms(8) by (simp add: rotated_handle_def del: set_map)
    show ?thesis
      using lifecycle_runs_ok [where change = "\<lambda>h. rotated_handle digest h f2" and digest = digest,
          OF s1(3,4) _ assms(4,5) _ rotated_account] assms(3,6) new that
      unfolding rotate_handle_def by fastforce
  qed
  have "resolve_denial_reason p ?h2 (fr_now f3) = None"
    using assms(5,6,9,10)
    by (simp add: resolve_denial_reason_def rotated_handle_def revoked_handle_def alpha_remaining_def)
  moreover have "fr_id f3 \<notin> set (map le_id (hd_ledger s2))" using assms(11) s2(3) s1(2) by simp
  moreover have "hh_token_digest ?h2 = digest (fr_token f2)" by (simp add: rotated_handle_def)
  ultimately obtain c s3 where "resolve_handle digest p (ih_handle_uri i) purpose f3 s2 = (Inr c, s3)"
    using resolve_runs_granted [OF s2(4,5) _ assms(7)] s2(2) by metis
  moreover have "hm_revoked_at (build_handle_metadata ?h1) = Some (fr_now f1)"
    by (simp add: build_handle_metadata_def revoked_handle_def)
  ultimately show ?thesis using s1(1) s2(1) by blast
qed

lemma rotation_revives_revoked_handle_witness:
  "\<exists>m s1 i s2 c s3. revoke_handle demo_digest demo_evaluator (build_handle_uri ''tok-1'') (demo_fresh '''' '''' 5) demo_vault = (Inr m, s1)
    \<and> rotate_handle demo_digest demo_evaluator (build_handle_uri ''tok-1'') (demo_fresh '''' ''tok-2'' 6) s1 = (Inr i, s2)
    \<and> resolve_handle demo_digest demo_evaluator (ih_handle_uri i) ''again'' (demo_fresh ''hql_2'' '''' 7) s2 = (Inr c, s3)
    \<and> hm_revoked_at m = Some 5"
proof -
  let ?f1 = "demo_fresh '''' '''' 5" and ?f2 = "demo_fresh '''' ''tok-2'' 6" and ?f3 = "demo_fresh ''hql_2'' '''' 7"
  have member: "demo_handle \<in> set (hd_handles demo_vault)" by (simp add: demo_handles)
  have facts: "hh_token_digest demo_handle = demo_digest ''tok-1''" "pr_role demo_evaluator = EVALUATOR"
    "hh_tenant_id demo_handle = pr_tenant_id demo_evaluator"
    "hh_alpha_per_query demo_handle \<le> alpha_remaining demo_handle"
    "fr_now ?f3 < fr_now ?f2 + days (hh_freshness_window_days demo_handle)"
    by code_simp+
  have "demo_digest (fr_token ?f2) \<notin> set (map hh_token_digest (hd_handles demo_vault))"
    by (simp add: demo_handles demo_handle_def demo_digest_def demo_fresh_def)
  moreover have "fr_id ?f3 \<notin> set (map le_id (hd_ledger demo_vault))"
    by (simp add: demo_ledger_ids demo_fresh_def del: set_map)
  moreover have "fr_token ?f2 \<noteq> []" "fr_now ?f1 = 5" by (simp_all add: demo_fresh_def)
  ultimately show ?thesis
    using rotation_revives_revoked_handle [of demo_vault demo_handle demo_digest "''tok-1''" demo_evaluator ?f2 ?f3
        ?f1 "''again''"] demo_vault_ok member facts by simp
qed

lemma lock_handle_absent:
  assumes "dg \<notin> set (map hh_token_digest (hd_handles s))"
  shows "lock_handle dg s = (Inl handle_not_found, s)"
proof -
  have "filter (\<lambda>h. hh_token_digest h = dg) (hd_handles s) = []"
    using assms by (auto simp: filter_empty_conv)
  then show ?thesis by (simp add: lock_handle_def find_handle_def op_defs one_or_none_def)
qed

lemma digest_gone:
  assumes "keys_ok s" "h \<in> set (hd_handles s)" "hh_id h' = hh_id h" "hh_token_digest h' \<noteq> hh_token_digest h"
  shows "hh_token_digest h \<notin> set (map hh_token_digest (replace_handle h' (hd_handles s)))"
proof -
  have "hh_token_digest g \<noteq> hh_token_digest h" if g: "g \<in> set (replace_handle h' (hd_handles s))" for g
  proof (cases "g = h'")
    case False
    then have "g \<in> set (hd_handles s)" "hh_id g \<noteq> hh_id h"
      using g assms(3) set_replace [OF assms(2,3)] by auto
    then show ?thesis using assms(1,2) by (auto simp: keys_ok_def distinct_map inj_on_def)
  qed (simp add: assms(4))
  then show ?thesis by (metis imageE list.set_map)
qed

text \<open>Once the second-generation holdout is issued, the first generation's token is dead: whoever presents
  the old URI, for whatever purpose, is told there is no such handle (the new tokens' digests being different
  from the old one's).\<close>

theorem generation1_token_retired:
  assumes "prepare_generation2_holdouts digest p uri owner tot per window plan f1 f2 s = (Inr g, s')"
    and "keys_ok s" "parse_handle_uri uri = Inr t"
    and "digest (fr_token f1) \<noteq> digest t" "digest (fr_token f2) \<noteq> digest t"
  shows "resolve_handle digest caller uri purpose f s' = (Inl handle_not_found, s')"
proof -
  obtain i s1 j where rot: "rotate_handle digest p uri f1 s = (Inr i, s1)"
    and iss: "issue_handle digest p (hm_partition_id (ih_metadata i)) owner tot per window plan
       (Some [(''generation'', JInt 2),
              (''rotated_from_handle_id'', JStr (hm_handle_id (ih_metadata i))),
              (''prior_rotation_count'', JInt (hm_rotation_count (ih_metadata i)))]) f2 s1 = (Inr j, s')"
    using assms(1) unfolding prepare_generation2_holdouts_def
    by (auto simp: op_bind_def op_return_def split: prod.splits sum.splits)
  have gone: "digest t \<notin> set (map hh_token_digest (hd_handles s1))"
    using rot unfolding rotate_handle_def
  proof (cases rule: lifecycle_cases [of "\<lambda>h. rotated_handle digest h f1"
      "\<lambda>h. \<lparr>ih_handle_uri = build_handle_uri (fr_token f1), ih_metadata = build_handle_metadata h\<rparr>"
      "''handle.rotate''" "Dataset (DatasetError ''rotation produced neither a handle nor a denial'')" digest p uri f1 s])
    case (changed h t')
    have "t' = t" using changed(2) assms(3) by (simp add: parse_Inr build_handle_uri_def)
    then have "digest t = hh_token_digest h" using changed(3) by simp
    then show ?thesis
      using changed(7) rot digest_gone [OF assms(2) changed(1), of "rotated_handle digest h f1"] assms(4)
      by (auto simp: rotate_handle_def rotated_handle_def simp del: set_map)
  qed auto
  have "digest t \<notin> set (map hh_token_digest (hd_handles s'))"
    using gone iss assms(5)
    by (cases rule: issue_cases [of digest p "hm_partition_id (ih_metadata i)" owner tot per window plan
        "Some [(''generation'', JInt 2),
              (''rotated_from_handle_id'', JStr (hm_handle_id (ih_metadata i))),
              (''prior_rotation_count'', JInt (hm_rotation_count (ih_metadata i)))]" f2 s1])
      (auto simp del: set_map)
  then show ?thesis
    using assms(3) lock_handle_absent [of "digest t" s']
    by (simp add: resolve_handle_def resolve_body_def transaction_def op_lift_def op_bind_def del: set_map)
qed

lemma generation1_token_retired_witness:
  "\<exists>g s'. prepare_generation2_holdouts demo_digest demo_evaluator (build_handle_uri ''tok-1'') ''ops'' 1 (1/10) 30 ''plan''
        (demo_fresh '''' ''tok-2'' 6) (demo_fresh ''hho_2'' ''tok-3'' 7) demo_vault = (Inr g, s')
    \<and> resolve_handle demo_digest demo_evaluator (build_handle_uri ''tok-1'') ''gate'' (demo_fresh ''hql_2'' '''' 8) s'
        = (Inl handle_not_found, s')"
proof -
  let ?run = "prepare_generation2_holdouts demo_digest demo_evaluator (build_handle_uri ''tok-1'') ''ops'' 1 (1/10) 30 ''plan''
        (demo_fresh '''' ''tok-2'' 6) (demo_fresh ''hho_2'' ''tok-3'' 7) demo_vault"
  have "\<not> isl (fst ?run)" by code_simp
  then obtain g s' where run: "?run = (Inr g, s')"
    by (cases ?run; cases "fst ?run") auto
  moreover have "keys_ok demo_vault" using demo_vault_ok by (simp add: vault_ok_def)
  moreover have "parse_handle_uri (build_handle_uri ''tok-1'') = Inr ''tok-1''" by simp
  moreover have "demo_digest (fr_token (demo_fresh '''' ''tok-2'' 6)) \<noteq> demo_digest ''tok-1''"
    "demo_digest (fr_token (demo_fresh ''hho_2'' ''tok-3'' 7)) \<noteq> demo_digest ''tok-1''"
    by (simp_all add: demo_digest_def demo_fresh_def)
  ultimately show ?thesis
    using generation1_token_retired [OF run] by blast
qed

end
