(* ===== verification/Accounts.thy ===== *)
theory Accounts
  imports Ledgered
begin








section \<open>Lookups after a change\<close>









section \<open>The simulation\<close>




end
