(* ===== verification/Statistics.thy ===== *)
theory Statistics
  imports Identities
begin

text \<open>
  The statistics a promotion is judged by (\<^verbatim>\<open>eval/statistics.py\<close>): the interpolated quantile, the paired
  bootstrap, the split of alpha and Holm's step-down. Python's \<^verbatim>\<open>random.Random(seed)\<close> is the parameter
  \<open>rng\<close>: \<open>rng seed n k\<close> is the \<open>k\<close>-th value drawn by \<^verbatim>\<open>randrange(n)\<close>; what is assumed of it is that the
  value is below \<open>n\<close>. Scores are exact rationals. The lemmas bound the interval and the p-value, show
  that a smaller alpha only widens the interval, and that Holm never reports less than the raw p-value.
\<close>

section \<open>Definitions\<close>

definition MIN_BOOTSTRAP_ITERATIONS :: int where
  "MIN_BOOTSTRAP_ITERATIONS = 200"

definition DEFAULT_BOOTSTRAP_ITERATIONS :: int where
  "DEFAULT_BOOTSTRAP_ITERATIONS = 2000"

definition DEFAULT_ALPHA :: rat where
  "DEFAULT_ALPHA = 1/20"

datatype verdict = IMPROVEMENT | REGRESSION | INCONCLUSIVE

datatype multiplicity_method = BONFERRONI | NO_CORRECTION

record paired_bootstrap_result =
  observed_delta :: rat
  ci_low :: rat
  ci_high :: rat
  pb_alpha :: rat
  pb_iterations :: int
  n_pairs :: nat
  p_value :: rat
  pb_seed :: int

definition excludes_parity :: "paired_bootstrap_result \<Rightarrow> bool" where
  "excludes_parity r \<longleftrightarrow> 0 < ci_low r \<or> ci_high r < 0"

definition bootstrap_verdict :: "paired_bootstrap_result \<Rightarrow> verdict" where
  "bootstrap_verdict r =
     (if 0 < ci_low r then IMPROVEMENT else if ci_high r < 0 then REGRESSION else INCONCLUSIVE)"

definition statistics_error :: "string \<Rightarrow> exn + 'a" where
  "statistics_error why = Inl (Eval (StatisticsError why))"

definition per_comparison_alpha :: "rat \<Rightarrow> int \<Rightarrow> multiplicity_method \<Rightarrow> exn + rat" where
  "per_comparison_alpha family_alpha comparisons method =
     (if \<not> (0 < family_alpha \<and> family_alpha < 1) then statistics_error ''alpha must be in (0, 1)''
      else if comparisons < 1 then statistics_error ''comparisons must be at least 1''
      else if method = NO_CORRECTION then Inr family_alpha
      else Inr (family_alpha / of_int comparisons))"

definition mean_of :: "rat list \<Rightarrow> exn + rat" where
  "mean_of values =
     (if values = [] then statistics_error ''cannot take the mean of an empty sequence''
      else Inr (sum_list values / of_nat (length values)))"

text \<open>\<^verbatim>\<open>int(position)\<close> truncates; the position is not negative.\<close>

definition interpolate :: "rat list \<Rightarrow> rat \<Rightarrow> rat" where
  "interpolate xs position =
     (let lower_index = nat (floor position);
          upper_index = min (lower_index + 1) (length xs - 1);
          weight = position - of_nat lower_index
      in xs ! lower_index * (1 - weight) + xs ! upper_index * weight)"

definition quantile :: "rat list \<Rightarrow> rat \<Rightarrow> exn + rat" where
  "quantile sorted_values q =
     (if sorted_values = [] then statistics_error ''cannot take a quantile of an empty sequence''
      else if \<not> (0 \<le> q \<and> q \<le> 1) then statistics_error ''quantile must be in [0, 1]''
      else if length sorted_values = 1 then Inr (sorted_values ! 0)
      else Inr (interpolate sorted_values (q * of_nat (length sorted_values - 1))))"

definition paired_differences :: "rat list \<Rightarrow> rat list \<Rightarrow> exn + rat list" where
  "paired_differences baseline candidate =
     (if length baseline \<noteq> length candidate
      then statistics_error ''paired samples must be the same length''
      else if baseline = [] then statistics_error ''paired samples must be non-empty''
      else Inr (map (\<lambda>(b, c). c - b) (zip baseline candidate)))"

type_synonym randrange = "int \<Rightarrow> nat \<Rightarrow> nat \<Rightarrow> nat"

definition draws_in_range :: "randrange \<Rightarrow> bool" where
  "draws_in_range rng \<longleftrightarrow> (\<forall>seed n k. 0 < n \<longrightarrow> rng seed n k < n)"

text \<open>The \<open>i\<close>-th resample draws the values numbered \<open>i * n\<close> to \<open>i * n + n - 1\<close>.\<close>

definition resampled_mean :: "randrange \<Rightarrow> int \<Rightarrow> rat list \<Rightarrow> nat \<Rightarrow> rat" where
  "resampled_mean rng seed deltas i =
     (let n = length deltas
      in foldl (\<lambda>s j. s + deltas ! rng seed n (i * n + j)) 0 [0..<n] / of_nat n)"

definition tail_p_value :: "rat list \<Rightarrow> int \<Rightarrow> rat" where
  "tail_p_value means iterations =
     (let at_or_below = length (filter (\<lambda>v. v \<le> 0) means);
          at_or_above = length (filter (\<lambda>v. 0 \<le> v) means);
          tail_share = of_nat (min at_or_below at_or_above) / of_int iterations
      in min 1 (max (2 * tail_share) (1 / of_int iterations)))"

definition paired_bootstrap ::
  "randrange \<Rightarrow> rat list \<Rightarrow> rat list \<Rightarrow> int \<Rightarrow> rat \<Rightarrow> int \<Rightarrow> exn + paired_bootstrap_result" where
  "paired_bootstrap rng baseline candidate iterations alpha seed =
     (if iterations < MIN_BOOTSTRAP_ITERATIONS then statistics_error ''iterations must be at least 200''
      else if \<not> (0 < alpha \<and> alpha < 1) then statistics_error ''alpha must be in (0, 1)''
      else
        res_bind (paired_differences baseline candidate) (\<lambda>deltas.
        res_bind (mean_of deltas) (\<lambda>observed.
        (let means = sort (map (resampled_mean rng seed deltas) [0..<nat iterations])
         in res_bind (quantile means (alpha / 2)) (\<lambda>low.
            res_bind (quantile means (1 - alpha / 2)) (\<lambda>high.
              Inr \<lparr>observed_delta = observed, ci_low = low, ci_high = high, pb_alpha = alpha,
                   pb_iterations = iterations, n_pairs = length deltas,
                   p_value = tail_p_value means iterations, pb_seed = seed\<rparr>))))))"

fun holm_walk :: "nat \<Rightarrow> nat \<Rightarrow> rat \<Rightarrow> (string \<times> rat) list \<Rightarrow> (string, rat) dict" where
  "holm_walk m index running_max [] = []"
| "holm_walk m index running_max ((key, raw_p) # rest) =
     (let scaled = min 1 ((of_nat m - of_nat index) * raw_p);
          r = max running_max scaled
      in (key, r) # holm_walk m (Suc index) r rest)"

definition holm_adjusted_p_values :: "(string, rat) dict \<Rightarrow> (string, rat) dict" where
  "holm_adjusted_p_values p_values =
     (if p_values = [] then [] else holm_walk (length p_values) 0 0 (sort_key snd p_values))"

section \<open>Quantiles\<close>

lemma floor_index:
  fixes p :: rat
  assumes "0 \<le> p" "p \<le> of_nat (length xs - 1)" "xs \<noteq> []"
  shows "nat (floor p) < length xs" "of_nat (nat (floor p)) \<le> p" "p < of_nat (nat (floor p)) + 1"
proof -
  have fl: "0 \<le> floor p" using assms(1) by simp
  then have eq: "of_nat (nat (floor p)) = (of_int (floor p) :: rat)" by (simp add: of_nat_nat)
  show "of_nat (nat (floor p)) \<le> p" "p < of_nat (nat (floor p)) + 1"
    unfolding eq using floor_correct [of p] by (simp_all add: of_int_add)
  have "floor p \<le> int (length xs - 1)" using assms(2) by (simp add: floor_le_iff)
  then show "nat (floor p) < length xs" using assms(3) fl by (cases xs) auto
qed

lemma interpolate_between:
  assumes "sorted xs" "xs \<noteq> []" "0 \<le> p" "p \<le> of_nat (length xs - 1)"
  shows "xs ! nat (floor p) \<le> interpolate xs p"
    and "interpolate xs p \<le> xs ! min (nat (floor p) + 1) (length xs - 1)"
proof -
  let ?l = "nat (floor p)" and ?u = "min (nat (floor p) + 1) (length xs - 1)" and ?w = "p - of_nat (nat (floor p))"
  have l: "?l < length xs" and w: "0 \<le> ?w" "?w \<le> 1"
    using floor_index [OF assms(3,4,2)] by auto
  have le: "xs ! ?l \<le> xs ! ?u" using l assms(1,2) by (intro sorted_nth_mono) auto
  have eq1: "interpolate xs p = xs ! ?l + (xs ! ?u - xs ! ?l) * ?w"
    and eq2: "interpolate xs p = xs ! ?u - (xs ! ?u - xs ! ?l) * (1 - ?w)"
    by (simp_all add: interpolate_def Let_def algebra_simps)
  show "xs ! ?l \<le> interpolate xs p" unfolding eq1 using le w by simp
  show "interpolate xs p \<le> xs ! ?u" unfolding eq2 using le w by simp
qed

lemma interpolate_mono:
  assumes "sorted xs" "xs \<noteq> []" "0 \<le> p" "p \<le> p'" "p' \<le> of_nat (length xs - 1)"
  shows "interpolate xs p \<le> interpolate xs p'"
proof (cases "floor p = floor p'")
  case True
  let ?l = "nat (floor p')" and ?u = "min (nat (floor p') + 1) (length xs - 1)"
  have "?l < length xs" using floor_index [of p' xs] assms by simp
  then have "xs ! ?l \<le> xs ! ?u" using assms(1,2) by (intro sorted_nth_mono) auto
  then have "(xs ! ?u - xs ! ?l) * (p - of_nat ?l) \<le> (xs ! ?u - xs ! ?l) * (p' - of_nat ?l)"
    using assms(4) by (intro mult_left_mono) auto
  then show ?thesis by (simp add: interpolate_def Let_def True algebra_simps)
next
  case False
  with assms(3,4) have step: "nat (floor p) + 1 \<le> nat (floor p')"
    using floor_mono [OF assms(4)] by linarith
  have l': "nat (floor p') < length xs" using floor_index [of p' xs] assms by simp
  have "interpolate xs p \<le> xs ! min (nat (floor p) + 1) (length xs - 1)"
    using assms by (intro interpolate_between) auto
  also have "\<dots> \<le> xs ! nat (floor p')"
    using step l' assms(1) by (intro sorted_nth_mono) auto
  also have "\<dots> \<le> interpolate xs p'"
    using assms by (intro interpolate_between) auto
  finally show ?thesis .
qed

lemma quantile_interpolate:
  "xs \<noteq> [] \<Longrightarrow> 0 \<le> q \<Longrightarrow> q \<le> 1 \<Longrightarrow> quantile xs q = Inr (interpolate xs (q * of_nat (length xs - 1)))"
  by (auto simp: quantile_def interpolate_def Let_def)

lemma position_bounds:
  fixes q :: rat
  shows "0 \<le> q \<Longrightarrow> 0 \<le> q * of_nat n" "q \<le> 1 \<Longrightarrow> q * of_nat n \<le> of_nat n"
  using mult_right_mono [of q 1 "of_nat n"] by simp_all

lemma quantile_mono:
  assumes "sorted xs" "quantile xs q = Inr a" "quantile xs q' = Inr b" "q \<le> q'"
  shows "a \<le> b"
proof -
  have q: "xs \<noteq> []" "0 \<le> q" "q' \<le> 1"
    using assms(2,3) by (auto simp: quantile_def statistics_error_def split: if_splits)
  then have "a = interpolate xs (q * of_nat (length xs - 1))" "b = interpolate xs (q' * of_nat (length xs - 1))"
    using assms(2-4) by (simp_all add: quantile_interpolate)
  then show ?thesis
    using q assms(1,4) position_bounds by (simp add: interpolate_mono mult_right_mono)
qed

lemma quantile_range:
  assumes "sorted xs" "quantile xs q = Inr a" "\<forall>x \<in> set xs. l \<le> x \<and> x \<le> u"
  shows "l \<le> a \<and> a \<le> u"
proof -
  let ?p = "q * of_nat (length xs - 1)"
  have q: "xs \<noteq> []" "0 \<le> q" "q \<le> 1"
    using assms(2) by (auto simp: quantile_def statistics_error_def split: if_splits)
  then have a: "a = interpolate xs ?p" using assms(2) by (simp add: quantile_interpolate)
  have p: "0 \<le> ?p" "?p \<le> of_nat (length xs - 1)" using q position_bounds by auto
  have "nat (floor ?p) < length xs" "min (nat (floor ?p) + 1) (length xs - 1) < length xs"
    using floor_index(1) [OF p q(1)] q(1) by (simp_all only: min_less_iff_disj) (cases xs; simp)
  then show ?thesis
    using interpolate_between [OF assms(1) q(1) p] assms(3) unfolding a
    by (meson nth_mem order_trans)
qed

section \<open>The bootstrap\<close>

lemma foldl_sum: "foldl (\<lambda>s j. s + f j) a xs = a + sum_list (map f xs)" for a :: rat
  by (induction xs arbitrary: a) (simp_all add: algebra_simps)

lemma sum_list_range:
  fixes l u :: rat
  assumes "\<forall>x \<in> set xs. l \<le> x \<and> x \<le> u"
  shows "of_nat (length xs) * l \<le> sum_list xs \<and> sum_list xs \<le> of_nat (length xs) * u"
  using assms by (induction xs) (auto simp: algebra_simps intro: add_mono)

lemma average_range:
  fixes l u :: rat
  assumes "\<forall>x \<in> set xs. l \<le> x \<and> x \<le> u" "xs \<noteq> []"
  shows "l \<le> sum_list xs / of_nat (length xs) \<and> sum_list xs / of_nat (length xs) \<le> u"
proof -
  have "(0::rat) < of_nat (length xs)" using assms(2) by simp
  then show ?thesis
    using sum_list_range [OF assms(1)] by (simp add: pos_le_divide_eq pos_divide_le_eq mult.commute)
qed

lemma resampled_mean_range:
  assumes "draws_in_range rng" "deltas \<noteq> []" "\<forall>d \<in> set deltas. l \<le> d \<and> d \<le> u"
  shows "l \<le> resampled_mean rng seed deltas i \<and> resampled_mean rng seed deltas i \<le> u"
proof -
  let ?xs = "map (\<lambda>j. deltas ! rng seed (length deltas) (i * length deltas + j)) [0..<length deltas]"
  have "\<forall>x \<in> set ?xs. l \<le> x \<and> x \<le> u"
    using assms by (auto simp: draws_in_range_def)
  moreover have "?xs \<noteq> []" using assms(2) by simp
  ultimately show ?thesis
    using average_range [of ?xs l u] by (simp add: resampled_mean_def foldl_sum Let_def)
qed

definition deltas_of :: "rat list \<Rightarrow> rat list \<Rightarrow> rat list" where
  "deltas_of baseline candidate = map (\<lambda>(b, c). c - b) (zip baseline candidate)"

definition bootstrap_means :: "randrange \<Rightarrow> int \<Rightarrow> rat list \<Rightarrow> int \<Rightarrow> rat list" where
  "bootstrap_means rng seed deltas iterations =
     sort (map (resampled_mean rng seed deltas) [0..<nat iterations])"

lemma bootstrap_iff:
  "paired_bootstrap rng baseline candidate iterations alpha seed = Inr r \<longleftrightarrow>
     200 \<le> iterations \<and> 0 < alpha \<and> alpha < 1 \<and> length baseline = length candidate \<and> baseline \<noteq> []
     \<and> (\<exists>low high. quantile (bootstrap_means rng seed (deltas_of baseline candidate) iterations) (alpha / 2) = Inr low
         \<and> quantile (bootstrap_means rng seed (deltas_of baseline candidate) iterations) (1 - alpha / 2) = Inr high
         \<and> r = \<lparr>observed_delta = sum_list (deltas_of baseline candidate) / of_nat (length (deltas_of baseline candidate)),
               ci_low = low, ci_high = high, pb_alpha = alpha, pb_iterations = iterations,
               n_pairs = length (deltas_of baseline candidate),
               p_value = tail_p_value (bootstrap_means rng seed (deltas_of baseline candidate) iterations) iterations,
               pb_seed = seed\<rparr>)"
  unfolding paired_bootstrap_def MIN_BOOTSTRAP_ITERATIONS_def bootstrap_means_def deltas_of_def
    paired_differences_def mean_of_def statistics_error_def Let_def
  by (auto simp: res_bind_Inr not_less)

lemma bootstrap_means_facts:
  assumes "200 \<le> iterations"
  shows "sorted (bootstrap_means rng seed deltas iterations)" "bootstrap_means rng seed deltas iterations \<noteq> []"
    "length (bootstrap_means rng seed deltas iterations) = nat iterations"
  using assms by (auto simp: bootstrap_means_def simp flip: length_greater_0_conv)

text \<open>With valid arguments the bootstrap returns.\<close>

lemma bootstrap_returns:
  assumes "200 \<le> iterations" "0 < alpha" "alpha < 1" "length baseline = length candidate" "baseline \<noteq> []"
  shows "\<exists>r. paired_bootstrap rng baseline candidate iterations alpha seed = Inr r"
  using assms bootstrap_means_facts(2) [OF assms(1)]
  by (simp add: bootstrap_iff quantile_interpolate)

lemma tail_p_value_range:
  assumes "1 \<le> iterations"
  shows "1 / of_int iterations \<le> tail_p_value means iterations \<and> tail_p_value means iterations \<le> 1"
  using assms by (auto simp: tail_p_value_def Let_def le_max_iff_disj)

section \<open>Holm's step-down\<close>

lemma holm_keys: "map fst (holm_walk m i r ps) = map fst ps"
  by (induction m i r ps rule: holm_walk.induct) (auto simp: Let_def)

text \<open>Along the sorted list the running maximum stays between the raw value and the Bonferroni bound.\<close>

lemma holm_walk_bounds:
  assumes "i + length ps = m" "sorted (map snd ps)" "\<forall>(k, p) \<in> set ps. 0 \<le> p \<and> p \<le> 1"
    and "\<forall>(k, p) \<in> set ps. r \<le> min 1 (of_nat m * p)"
  shows "list_all2 (\<lambda>(k, p) (k', a). k = k' \<and> p \<le> a \<and> a \<le> min 1 (of_nat m * p)) ps (holm_walk m i r ps)"
  using assms
proof (induction m i r ps rule: holm_walk.induct)
  case (2 m i r k p ps)
  let ?scaled = "min 1 ((of_nat m - of_nat i) * p)"
  let ?r = "max r ?scaled"
  have p: "0 \<le> p" "p \<le> 1" "r \<le> min 1 (of_nat m * p)" and im: "(1::rat) \<le> of_nat m - of_nat i"
    using 2(2,4,5) by (auto simp: of_nat_diff [symmetric] simp del: of_nat_diff)
  have "1 * p \<le> (of_nat m - of_nat i) * p" using im p(1) by (intro mult_right_mono) auto
  then have low: "p \<le> ?r" using p(2) by (simp add: le_max_iff_disj)
  have "(of_nat m - of_nat i) * p \<le> of_nat m * p" using p(1) by (intro mult_right_mono) auto
  then have high: "?r \<le> min 1 (of_nat m * p)" using p(3) by (auto simp: min_le_iff_disj)
  have rest: "\<forall>(k', p') \<in> set ps. ?r \<le> min 1 (of_nat m * p')"
  proof clarify
    fix k' p' assume "(k', p') \<in> set ps"
    then have "p \<le> p'" using 2(3) by force
    then have "of_nat m * p \<le> of_nat m * p'" by (intro mult_left_mono) auto
    then have "min 1 (of_nat m * p) \<le> min 1 (of_nat m * p')" by (intro min.mono) auto
    then show "?r \<le> min 1 (of_nat m * p')" using high by (rule order_trans [rotated])
  qed
  have "list_all2 (\<lambda>(k, p) (k', a). k = k' \<and> p \<le> a \<and> a \<le> min 1 (of_nat m * p)) ps (holm_walk m (Suc i) ?r ps)"
    using 2 rest by (intro 2(1)) auto
  then show ?case using low high by (simp add: Let_def)
qed simp

lemma map_of_list_all2:
  assumes "list_all2 (\<lambda>(k, p) (k', a). k = k' \<and> P p a) ps qs" "map_of ps k = Some p"
  shows "\<exists>a. map_of qs k = Some a \<and> P p a"
  using assms by (induction rule: list_all2_induct) (auto split: if_splits)

lemma map_of_sorted_by:
  assumes "dict_ok d" shows "map_of (sort_key snd d) = map_of d"
proof (rule map_of_eqI)
  show "set (map fst (sort_key snd d)) = set (map fst d)" by simp
  show "\<forall>k \<in> set (map fst (sort_key snd d)). map_of (sort_key snd d) k = map_of d k"
  proof
    fix k assume "k \<in> set (map fst (sort_key snd d))"
    then obtain v where "(k, v) \<in> set d" by auto
    moreover have "distinct (map fst (sort_key snd d))"
      using assms unfolding dict_ok_def
      by (metis distinct_map mset_eq_imp_distinct_iff mset_map mset_sort)
    ultimately show "map_of (sort_key snd d) k = map_of d k"
      using assms by (simp add: dict_ok_def map_of_is_SomeI)
  qed
qed

section \<open>Properties\<close>

text \<open>The bootstrap interval is an interval of possible means: its ends are in order and lie between any
  bounds of the per-task differences, and the p-value is at least one over the number of resamples (it never
  reports zero) and at most one.\<close>

theorem bootstrap_interval_sound:
  assumes "draws_in_range rng" "paired_bootstrap rng baseline candidate iterations alpha seed = Inr r"
    and "\<forall>d \<in> set (deltas_of baseline candidate). l \<le> d \<and> d \<le> u"
  shows "l \<le> ci_low r \<and> ci_low r \<le> ci_high r \<and> ci_high r \<le> u
    \<and> 1 / of_int iterations \<le> p_value r \<and> p_value r \<le> 1"
proof -
  let ?ds = "deltas_of baseline candidate"
  let ?ms = "bootstrap_means rng seed ?ds iterations"
  have args: "200 \<le> iterations" "0 < alpha" "alpha < 1" "?ds \<noteq> []"
    and low: "quantile ?ms (alpha / 2) = Inr (ci_low r)"
    and high: "quantile ?ms (1 - alpha / 2) = Inr (ci_high r)"
    and p: "p_value r = tail_p_value ?ms iterations"
    using assms(2) by (auto simp: bootstrap_iff deltas_of_def zip_eq_Nil_iff)
  have sorted: "sorted ?ms" using bootstrap_means_facts [OF args(1)] by simp
  have means: "\<forall>m \<in> set ?ms. l \<le> m \<and> m \<le> u"
    using resampled_mean_range [OF assms(1) args(4) assms(3)] by (auto simp: bootstrap_means_def)
  have "ci_low r \<le> ci_high r" using args by (intro quantile_mono [OF sorted low high]) simp
  then show ?thesis
    using quantile_range [OF sorted low means] quantile_range [OF sorted high means]
      tail_p_value_range [of iterations ?ms] args(1) p by simp
qed

definition still_rng :: randrange where
  "still_rng seed n k = k mod n"

lemma still_rng_in_range: "draws_in_range still_rng"
  by (simp add: draws_in_range_def still_rng_def)

lemma bootstrap_interval_sound_witness:
  "\<exists>r. paired_bootstrap still_rng [0, 1/2] [1/2, 1] 2000 (1/20) 7 = Inr r
     \<and> 1/2 \<le> ci_low r \<and> ci_high r \<le> 1/2"
proof -
  obtain r where r: "paired_bootstrap still_rng [0, 1/2] [1/2, 1] 2000 (1/20) 7 = Inr r"
    using bootstrap_returns [of 2000 "1/20" "[0, 1/2]" "[1/2, 1]" still_rng 7] by auto
  have "\<forall>d \<in> set (deltas_of [0, 1/2] [1/2, 1]). 1/2 \<le> d \<and> d \<le> (1/2 :: rat)"
    by (simp add: deltas_of_def)
  from bootstrap_interval_sound [OF still_rng_in_range r this] r show ?thesis by blast
qed

text \<open>Correcting for multiplicity only widens: on the same scores and seed, an interval built at a smaller
  alpha contains the one built at a larger alpha, and reports the same p-value.\<close>

theorem smaller_alpha_widens:
  assumes "paired_bootstrap rng baseline candidate iterations alpha seed = Inr r"
    and "paired_bootstrap rng baseline candidate iterations alpha' seed = Inr r'"
    and "alpha \<le> alpha'"
  shows "ci_low r \<le> ci_low r' \<and> ci_high r' \<le> ci_high r \<and> p_value r = p_value r'"
proof -
  let ?ms = "bootstrap_means rng seed (deltas_of baseline candidate) iterations"
  have "200 \<le> iterations"
    and q: "quantile ?ms (alpha / 2) = Inr (ci_low r)" "quantile ?ms (1 - alpha / 2) = Inr (ci_high r)"
      "quantile ?ms (alpha' / 2) = Inr (ci_low r')" "quantile ?ms (1 - alpha' / 2) = Inr (ci_high r')"
    and p: "p_value r = p_value r'"
    using assms(1,2) by (auto simp: bootstrap_iff)
  then have sorted: "sorted ?ms" using bootstrap_means_facts by simp
  show ?thesis
    using quantile_mono [OF sorted q(1,3)] quantile_mono [OF sorted q(4,2)] assms(3) p by simp
qed

lemma smaller_alpha_widens_witness:
  "\<exists>r r'. paired_bootstrap still_rng [0, 1/2] [1/2, 0] 200 (1/60) 7 = Inr r
     \<and> paired_bootstrap still_rng [0, 1/2] [1/2, 0] 200 (1/20) 7 = Inr r' \<and> ci_low r \<le> ci_low r'"
proof -
  obtain r where r: "paired_bootstrap still_rng [0, 1/2] [1/2, 0] 200 (1/60) 7 = Inr r"
    using bootstrap_returns [of 200 "1/60" "[0, 1/2]" "[1/2, 0]" still_rng 7] by auto
  obtain r' where r': "paired_bootstrap still_rng [0, 1/2] [1/2, 0] 200 (1/20) 7 = Inr r'"
    using bootstrap_returns [of 200 "1/20" "[0, 1/2]" "[1/2, 0]" still_rng 7] by auto
  have "(1/60 :: rat) \<le> 1/20" by simp
  from smaller_alpha_widens [OF r r' this] r r' show ?thesis by blast
qed

text \<open>Holm's adjustment reports every hypothesis, never below its raw p-value and never above the
  Bonferroni bound, the raw value times the number of hypotheses capped at one.\<close>

theorem holm_between_raw_and_bonferroni:
  assumes "dict_ok p_values" "\<forall>(k, p) \<in> set p_values. 0 \<le> p \<and> p \<le> 1" "map_of p_values key = Some p"
  shows "\<exists>a. map_of (holm_adjusted_p_values p_values) key = Some a
    \<and> p \<le> a \<and> a \<le> min 1 (of_nat (length p_values) * p)"
proof -
  let ?ps = "sort_key snd p_values"
  have "map_of ?ps key = Some p" using assms(1,3) by (simp add: map_of_sorted_by)
  moreover have "list_all2 (\<lambda>(k, p) (k', a). k = k' \<and> p \<le> a \<and> a \<le> min 1 (of_nat (length p_values) * p))
      ?ps (holm_walk (length p_values) 0 0 ?ps)"
    using assms(2) by (intro holm_walk_bounds) auto
  ultimately have "\<exists>a. map_of (holm_walk (length p_values) 0 0 ?ps) key = Some a
      \<and> p \<le> a \<and> a \<le> min 1 (of_nat (length p_values) * p)"
    by (intro map_of_list_all2 [of "\<lambda>p a. p \<le> a \<and> a \<le> min 1 (of_nat (length p_values) * p)"])
      (auto simp: case_prod_unfold)
  then show ?thesis using assms(3) by (auto simp: holm_adjusted_p_values_def)
qed

lemma holm_witness:
  "\<exists>a. map_of (holm_adjusted_p_values [(''heldout'', 1/50), (''slice:de'', 1/100)]) ''heldout'' = Some a
     \<and> (1/50 :: rat) \<le> a"
proof -
  have "dict_ok [(''heldout'', 1/50 :: rat), (''slice:de'', 1/100)]" by (simp add: dict_ok_def)
  moreover have "\<forall>(k, p) \<in> set [(''heldout'', 1/50 :: rat), (''slice:de'', 1/100)]. 0 \<le> p \<and> p \<le> 1" by simp
  moreover have "map_of [(''heldout'', 1/50 :: rat), (''slice:de'', 1/100)] ''heldout'' = Some (1/50)" by simp
  ultimately show ?thesis using holm_between_raw_and_bonferroni by blast
qed

end
