(* ===== verification/Tenancy.thy ===== *)
theory Tenancy
  imports Identities Canonical
begin

text \<open>
  The tenant environment plane (\<^verbatim>\<open>tenancy/environment.py\<close>, \<^verbatim>\<open>tenancy/policy.py\<close>): the policy document with its
  validation, its approval queries and digest, and the registry that answers production for a tenant
  nobody configured. The lemmas give what a constructed document guarantees.
\<close>

section \<open>Environments\<close>

datatype tenant_environment = RESEARCH | PRODUCTION

fun environment_value :: "tenant_environment \<Rightarrow> string" where
  "environment_value RESEARCH = ''research''"
| "environment_value PRODUCTION = ''production''"

definition environment_of_value :: "string \<Rightarrow> tenant_environment option" where
  "environment_of_value v =
     (if v = ''research'' then Some RESEARCH else if v = ''production'' then Some PRODUCTION else None)"

lemma environment_of_value [simp]: "environment_of_value (environment_value e) = Some e"
  by (cases e) (simp_all add: environment_of_value_def)

definition SCAFFOLD_ARTIFACT_TYPES :: "string list" where
  "SCAFFOLD_ARTIFACT_TYPES = [''scaffold'']"

definition is_scaffold_class :: "string \<Rightarrow> bool" where
  "is_scaffold_class artifact_type \<longleftrightarrow> artifact_type \<in> set SCAFFOLD_ARTIFACT_TYPES"

section \<open>The policy document\<close>

definition MAX_AUTHORITY_TIER :: int where
  "MAX_AUTHORITY_TIER = 4"

definition DEFAULT_AUTO_PROMOTION_MAX_TIER :: int where
  "DEFAULT_AUTO_PROMOTION_MAX_TIER = 2"

record tenant_policy_document =
  td_tenant_id :: string
  td_policy_id :: string
  td_environment :: tenant_environment
  td_policy_version :: int
  td_allowed_authority_tiers :: "int list"
  td_recursive_claims_enabled :: bool
  td_auto_promotion_max_tier :: int
  td_require_review_for_all_tiers :: bool

definition policy_refused :: "string \<Rightarrow> exn + 'a" where
  "policy_refused why = Inl (Tenancy (TenantPolicyError why))"

definition validate_approval_defaults :: "tenant_policy_document \<Rightarrow> exn + unit" where
  "validate_approval_defaults d =
     (if td_auto_promotion_max_tier d < 0 then policy_refused ''auto_promotion_max_tier must be >= 0''
      else if Max (set (td_allowed_authority_tiers d)) < td_auto_promotion_max_tier d
        then policy_refused ''auto_promotion_max_tier exceeds the highest allowed authority tier''
      else if td_require_review_for_all_tiers d \<and> td_auto_promotion_max_tier d \<noteq> 0
        then policy_refused ''require_review_for_all_tiers is incoherent''
      else if td_environment d = PRODUCTION \<and> MAX_AUTHORITY_TIER \<le> td_auto_promotion_max_tier d
        then policy_refused ''a production tenant cannot auto-promote tier 4''
      else Inr ())"

definition validate_tenant_policy :: "tenant_policy_document \<Rightarrow> exn + unit" where
  "validate_tenant_policy d =
     (if td_tenant_id d = [] then policy_refused ''tenant_id must be non-empty''
      else if td_policy_id d = [] then policy_refused ''policy_id must be non-empty''
      else if td_policy_version d < 1 then policy_refused ''policy_version must be >= 1''
      else if td_allowed_authority_tiers d = []
        then policy_refused ''allowed_authority_tiers must name at least one tier''
      else if \<exists>tier \<in> set (td_allowed_authority_tiers d). \<not> (1 \<le> tier \<and> tier \<le> MAX_AUTHORITY_TIER)
        then policy_refused ''allowed_authority_tiers contains an unknown tier''
      else if td_environment d = PRODUCTION \<and> MAX_AUTHORITY_TIER \<in> set (td_allowed_authority_tiers d)
        then policy_refused ''a production tenant cannot pin tier-4-allowing approval defaults''
      else if td_environment d = PRODUCTION \<and> td_recursive_claims_enabled d
        then policy_refused ''a production tenant cannot enable recursive-improvement claims''
      else validate_approval_defaults d)"

definition new_tenant_policy ::
  "string \<Rightarrow> string \<Rightarrow> string \<Rightarrow> int \<Rightarrow> int list \<Rightarrow> bool \<Rightarrow> int \<Rightarrow> bool \<Rightarrow> exn + tenant_policy_document" where
  "new_tenant_policy tenant_id policy_id environment policy_version allowed_authority_tiers
     recursive_claims_enabled auto_promotion_max_tier require_review_for_all_tiers =
     (case environment_of_value environment of
        None \<Rightarrow> Inl (ValueError ''not a valid TenantEnvironment'')
      | Some e \<Rightarrow>
          (let d = \<lparr>td_tenant_id = tenant_id, td_policy_id = policy_id, td_environment = e,
                    td_policy_version = policy_version,
                    td_allowed_authority_tiers = sort (remdups allowed_authority_tiers),
                    td_recursive_claims_enabled = recursive_claims_enabled,
                    td_auto_promotion_max_tier = auto_promotion_max_tier,
                    td_require_review_for_all_tiers = require_review_for_all_tiers\<rparr>
           in res_bind (validate_tenant_policy d) (\<lambda>_. Inr d)))"

definition auto_eligible :: "tenant_policy_document \<Rightarrow> int \<Rightarrow> bool" where
  "auto_eligible d tier \<longleftrightarrow>
     \<not> td_require_review_for_all_tiers d \<and> tier \<le> td_auto_promotion_max_tier d
     \<and> tier \<in> set (td_allowed_authority_tiers d)"

definition requires_two_person_review :: "tenant_policy_document \<Rightarrow> int \<Rightarrow> bool" where
  "requires_two_person_review d tier \<longleftrightarrow>
     tier \<in> set (td_allowed_authority_tiers d) \<and> \<not> auto_eligible d tier"

definition allows_tier :: "tenant_policy_document \<Rightarrow> int \<Rightarrow> bool" where
  "allows_tier d tier \<longleftrightarrow> tier \<in> set (td_allowed_authority_tiers d)"

definition tenant_policy_json :: "tenant_policy_document \<Rightarrow> json" where
  "tenant_policy_json d =
     JObj [(''tenant_id'', JStr (td_tenant_id d)), (''policy_id'', JStr (td_policy_id d)),
           (''policy_version'', JInt (td_policy_version d)),
           (''environment'', JStr (environment_value (td_environment d))),
           (''allowed_authority_tiers'', JList (map JInt (td_allowed_authority_tiers d))),
           (''recursive_claims_enabled'', JBool (td_recursive_claims_enabled d)),
           (''auto_promotion_max_tier'', JInt (td_auto_promotion_max_tier d)),
           (''require_review_for_all_tiers'', JBool (td_require_review_for_all_tiers d))]"

definition tenant_policy_digest :: "('k, 'b) crypto \<Rightarrow> tenant_policy_document \<Rightarrow> string" where
  "tenant_policy_digest C d = sha256_digest C (canonical_json C (tenant_policy_json d))"

section \<open>The registry\<close>

type_synonym tenant_registry = "(string, tenant_policy_document) dict"

fun add_documents :: "tenant_policy_document list \<Rightarrow> tenant_registry \<Rightarrow> exn + tenant_registry" where
  "add_documents [] by_tenant = Inr by_tenant"
| "add_documents (d # ds) by_tenant =
     (if td_tenant_id d \<in> set (map fst by_tenant)
      then policy_refused ''two policy documents claim tenant''
      else add_documents ds (by_tenant @ [(td_tenant_id d, d)]))"

definition new_tenant_registry :: "tenant_policy_document list \<Rightarrow> exn + tenant_registry" where
  "new_tenant_registry documents = add_documents documents []"

definition policy_for :: "tenant_registry \<Rightarrow> string \<Rightarrow> tenant_policy_document option" where
  "policy_for registry tenant_id = map_of registry tenant_id"

definition environment_for :: "tenant_registry \<Rightarrow> string \<Rightarrow> tenant_environment" where
  "environment_for registry tenant_id =
     (case map_of registry tenant_id of Some d \<Rightarrow> td_environment d | None \<Rightarrow> PRODUCTION)"

section \<open>What a constructed document guarantees\<close>

definition governs :: "tenant_policy_document \<Rightarrow> bool" where
  "governs d \<longleftrightarrow>
     td_allowed_authority_tiers d \<noteq> []
     \<and> (\<forall>tier \<in> set (td_allowed_authority_tiers d). 1 \<le> tier \<and> tier \<le> 4)
     \<and> td_auto_promotion_max_tier d \<le> Max (set (td_allowed_authority_tiers d))
     \<and> (td_environment d = PRODUCTION \<longrightarrow>
          4 \<notin> set (td_allowed_authority_tiers d) \<and> \<not> td_recursive_claims_enabled d)
     \<and> (td_require_review_for_all_tiers d \<longrightarrow> td_auto_promotion_max_tier d = 0)"

lemma validate_governs: "validate_tenant_policy d = Inr u \<Longrightarrow> governs d"
  by (auto simp: validate_tenant_policy_def validate_approval_defaults_def policy_refused_def governs_def
      MAX_AUTHORITY_TIER_def not_less simp del: Max_ge_iff Max_less_iff Max_le_iff split: if_splits)

lemma new_policy_governs:
  "new_tenant_policy t i e v tiers claims auto review = Inr d \<Longrightarrow> governs d"
  by (auto simp: new_tenant_policy_def Let_def res_bind_Inr split: option.splits dest: validate_governs)

lemma new_policy_environment:
  "new_tenant_policy t i e v tiers claims auto review = Inr d \<Longrightarrow>
     td_tenant_id d = t \<and> environment_value (td_environment d) = e"
  by (auto simp: new_tenant_policy_def Let_def res_bind_Inr environment_of_value_def split: option.splits if_splits)

lemma add_documents_lookup:
  assumes "add_documents ds r = Inr r'"
  shows "map_of r' t = (case map_of r t of Some d \<Rightarrow> Some d | None \<Rightarrow> find (\<lambda>d. td_tenant_id d = t) ds)"
  using assms
proof (induction ds arbitrary: r)
  case Nil
  then show ?case by (simp split: option.splits)
next
  case (Cons d ds)
  then have new: "td_tenant_id d \<notin> set (map fst r)" and rest: "add_documents ds (r @ [(td_tenant_id d, d)]) = Inr r'"
    by (auto simp: policy_refused_def split: if_splits)
  have "map_of (r @ [(td_tenant_id d, d)]) t =
      (case map_of r t of Some x \<Rightarrow> Some x | None \<Rightarrow> if td_tenant_id d = t then Some d else None)"
    by (auto simp: map_of_append map_add_def split: option.splits)
  then show ?case using Cons.IH [OF rest] by (auto split: option.splits)
qed

text \<open>The registry returns the one document that names the tenant.\<close>

lemma registry_lookup:
  "new_tenant_registry ds = Inr r \<Longrightarrow> policy_for r t = find (\<lambda>d. td_tenant_id d = t) ds"
  by (simp add: new_tenant_registry_def policy_for_def add_documents_lookup)

section \<open>Properties\<close>

text \<open>A production tenant can reach neither tier 4 nor a recursive claim: whatever a document is built
  from, if the registry says production for its tenant, that is because nobody configured the tenant or
  because its document admits only tiers 1 to 3, auto-promotes none above them and enables no claim.\<close>

theorem production_tenants_are_contained:
  assumes "new_tenant_registry documents = Inr registry"
    and "list_all (\<lambda>d. \<exists>t i e v tiers claims auto review.
           new_tenant_policy t i e v tiers claims auto review = Inr d) documents"
    and "environment_for registry tenant = PRODUCTION"
    and "policy_for registry tenant = Some d"
  shows "\<not> allows_tier d 4 \<and> \<not> auto_eligible d 4 \<and> \<not> td_recursive_claims_enabled d
    \<and> td_auto_promotion_max_tier d \<le> 3"
proof -
  have "find (\<lambda>d. td_tenant_id d = tenant) documents = Some d"
    using assms(4) registry_lookup [OF assms(1)] by simp
  then have "d \<in> set documents" by (auto simp: find_Some_iff)
  then have d: "governs d" using assms(2) new_policy_governs by (auto simp: list_all_iff)
  have prod: "td_environment d = PRODUCTION"
    using assms(3,4) by (simp add: environment_for_def policy_for_def)
  have "Max (set (td_allowed_authority_tiers d)) \<le> 3"
  proof -
    have "td_allowed_authority_tiers d \<noteq> []" using d by (simp add: governs_def)
    then have "Max (set (td_allowed_authority_tiers d)) \<in> set (td_allowed_authority_tiers d)" by simp
    then show ?thesis using d prod unfolding governs_def by (smt (verit))
  qed
  then show ?thesis using d prod
    by (auto simp: governs_def allows_tier_def auto_eligible_def simp del: Max_ge_iff Max_le_iff)
qed

lemma production_tenants_witness:
  "\<exists>registry d. new_tenant_registry [d] = Inr registry \<and> environment_for registry ''acme'' = PRODUCTION
     \<and> \<not> allows_tier d 4"
proof -
  let ?d = "\<lparr>td_tenant_id = ''acme'', td_policy_id = ''p1'', td_environment = PRODUCTION, td_policy_version = 1,
    td_allowed_authority_tiers = [1, 2, 3], td_recursive_claims_enabled = False,
    td_auto_promotion_max_tier = 2, td_require_review_for_all_tiers = False\<rparr>"
  have made: "new_tenant_policy ''acme'' ''p1'' ''production'' 1 [3, 1, 2, 1] False 2 False = Inr ?d"
    by code_simp
  have reg: "new_tenant_registry [?d] = Inr [(''acme'', ?d)]" by code_simp
  have docs: "list_all (\<lambda>d. \<exists>t i e v tiers claims auto review.
      new_tenant_policy t i e v tiers claims auto review = Inr d) [?d]"
    unfolding list.pred_inject(2) by (intro conjI exI list.pred_inject(1)) (rule made)
  have env: "environment_for [(''acme'', ?d)] ''acme'' = PRODUCTION" by code_simp
  have pol: "policy_for [(''acme'', ?d)] ''acme'' = Some ?d" by (simp add: policy_for_def)
  show ?thesis using production_tenants_are_contained [OF reg docs env pol] reg env by blast
qed

end
