(* ===== verification/PromotionPolicy.thy ===== *)
theory PromotionPolicy
  imports Statistics Authority Tenancy
begin

text \<open>
  The promotion policy engine and the recursive-claim gate (\<^verbatim>\<open>selection/policy.py\<close>,
  \<^verbatim>\<open>selection/recursive_gate.py\<close>): the policy document with its validation and canonical form, the
  evidence, the six eligibility conditions and the decision; the claim evidence, its five conditions
  and the label. A condition's detail text is kept as the list of names it cites. The lemmas say what
  an eligible decision means, that a larger comparison family never helps, and which declared
  thresholds the decision does not read.
\<close>

section \<open>The recursive-claim gate\<close>

record recursive_claim_evidence =
  successive_promoted_generations :: bool
  shared_error_budget :: bool
  causal_inheritance :: bool
  matched_compute_one_shot_advantage :: bool
  no_inheritance_control_arm :: bool
  fixed_editor_control_arm :: bool
  fixed_editor_advantage :: "py_number option"
  fixed_editor_minimum_effect :: "py_number option"
  fixed_editor_holm_significant :: bool

record recursive_claim_condition =
  rc_condition :: string
  rc_passed :: bool

type_synonym recursive_claim_verdict = "recursive_claim_condition list"

definition satisfied :: "recursive_claim_verdict \<Rightarrow> bool" where
  "satisfied v \<longleftrightarrow> v \<noteq> [] \<and> list_all rc_passed v"

definition fixed_editor_advantage_holds :: "recursive_claim_evidence \<Rightarrow> bool" where
  "fixed_editor_advantage_holds ev =
     (if \<not> fixed_editor_control_arm ev then False
      else (case (fixed_editor_advantage ev, fixed_editor_minimum_effect ev) of
              (Some (Finite advantage), Some (Finite minimum)) \<Rightarrow>
                if \<not> minimum < advantage then False else fixed_editor_holm_significant ev
            | _ \<Rightarrow> False))"

definition evaluate_recursive_claim :: "recursive_claim_evidence \<Rightarrow> recursive_claim_verdict" where
  "evaluate_recursive_claim ev =
     [\<lparr>rc_condition = ''two_successive_promoted_generations'', rc_passed = successive_promoted_generations ev\<rparr>,
      \<lparr>rc_condition = ''shared_preregistered_error_budget'', rc_passed = shared_error_budget ev\<rparr>,
      \<lparr>rc_condition = ''causal_inheritance'', rc_passed = causal_inheritance ev\<rparr>,
      \<lparr>rc_condition = ''matched_compute_advantage_with_control'',
       rc_passed = matched_compute_one_shot_advantage ev \<and> no_inheritance_control_arm ev\<rparr>,
      \<lparr>rc_condition = ''fixed_editor_advantage'', rc_passed = fixed_editor_advantage_holds ev\<rparr>]"

definition ARTIFACT_OPTIMIZATION_LABEL :: string where
  "ARTIFACT_OPTIMIZATION_LABEL = ''artifact optimization''"

definition RECURSIVE_IMPROVEMENT_LABEL :: string where
  "RECURSIVE_IMPROVEMENT_LABEL = ''recursive improvement''"

definition claims_enabled :: "tenant_policy_document option \<Rightarrow> bool" where
  "claims_enabled tenant_policy =
     (case tenant_policy of
        None \<Rightarrow> False
      | Some d \<Rightarrow> td_recursive_claims_enabled d \<and> environment_value (td_environment d) = ''research'')"

definition claim_label ::
  "recursive_claim_verdict option \<Rightarrow> tenant_policy_document option \<Rightarrow> string" where
  "claim_label verdict tenant_policy =
     (case verdict of
        Some v \<Rightarrow> if satisfied v \<and> claims_enabled tenant_policy then RECURSIVE_IMPROVEMENT_LABEL
                  else ARTIFACT_OPTIMIZATION_LABEL
      | None \<Rightarrow> ARTIFACT_OPTIMIZATION_LABEL)"

definition claim_denied :: "string \<Rightarrow> exn + 'a" where
  "claim_denied why = Inl (Selection (RecursiveClaimDeniedError why))"

definition assert_label_allowed ::
  "string \<Rightarrow> recursive_claim_verdict option \<Rightarrow> tenant_policy_document option \<Rightarrow> exn + unit" where
  "assert_label_allowed label verdict tenant_policy =
     (if label \<noteq> RECURSIVE_IMPROVEMENT_LABEL then Inr ()
      else if \<not> claims_enabled tenant_policy
        then claim_denied ''recursive-improvement claims are research-only''
      else (case verdict of
              None \<Rightarrow> claim_denied ''requires a satisfied gate''
            | Some v \<Rightarrow> if \<not> satisfied v then claim_denied ''requires a satisfied gate'' else Inr ()))"

section \<open>The policy document\<close>

definition invalid_policy :: "string \<Rightarrow> exn + 'a" where
  "invalid_policy why = Inl (Selection (InvalidPromotionPolicyError why))"

record paired_scores =
  sc_task_ids :: "string list"
  sc_baseline :: "rat list"
  sc_candidate :: "rat list"

definition new_paired_scores :: "string list \<Rightarrow> rat list \<Rightarrow> rat list \<Rightarrow> exn + paired_scores" where
  "new_paired_scores task_ids baseline candidate =
     (if task_ids = [] then invalid_policy ''paired scores must cover at least one task''
      else if length baseline \<noteq> length candidate \<or> length task_ids \<noteq> length baseline
        then invalid_policy ''paired scores lost the pairing''
      else Inr \<lparr>sc_task_ids = task_ids, sc_baseline = baseline, sc_candidate = candidate\<rparr>)"

record promotion_policy_document =
  pp_policy_id :: string
  pp_policy_version :: int
  min_success_gain :: rat
  min_cost_reduction :: rat
  max_p95_latency_regression :: rat
  max_severity1_regressions :: int
  success_non_inferiority_margin :: rat
  protected_slice_margins :: "(string, rat) dict"
  allowed_authority_tiers :: "int list"
  pp_alpha :: rat

definition check_fraction :: "string \<times> rat \<Rightarrow> exn + unit" where
  "check_fraction = (\<lambda>(name, v). if \<not> (0 \<le> v \<and> v \<le> 1) then invalid_policy name else Inr ())"

definition check_margin :: "string \<times> rat \<Rightarrow> exn + unit" where
  "check_margin = (\<lambda>(slice_name, margin).
     if slice_name = [] then invalid_policy ''protected slice names must be non-empty''
     else if \<not> (0 < margin \<and> margin \<le> 1) then invalid_policy ''non-inferiority margin must be in (0, 1]''
     else Inr ())"

definition validate_promotion_policy :: "promotion_policy_document \<Rightarrow> exn + unit" where
  "validate_promotion_policy d =
     (if pp_policy_id d = [] then invalid_policy ''policy_id must be non-empty''
      else res_bind (res_map check_fraction
             [(''min_success_gain'', min_success_gain d), (''min_cost_reduction'', min_cost_reduction d),
              (''max_p95_latency_regression'', max_p95_latency_regression d),
              (''success_non_inferiority_margin'', success_non_inferiority_margin d)]) (\<lambda>_.
           if max_severity1_regressions d < 0 then invalid_policy ''max_severity1_regressions must be >= 0''
           else res_bind (res_map check_margin (protected_slice_margins d)) (\<lambda>_.
             if allowed_authority_tiers d = []
             then invalid_policy ''allowed_authority_tiers must name at least one tier''
             else if \<not> (0 < pp_alpha d \<and> pp_alpha d < 1) then invalid_policy ''alpha must be in (0, 1)''
             else Inr ())))"

definition new_promotion_policy :: "promotion_policy_document \<Rightarrow> exn + promotion_policy_document" where
  "new_promotion_policy d = res_bind (validate_promotion_policy d) (\<lambda>_. Inr d)"

text \<open>The document with every argument but the identifier at its default.\<close>

definition default_policy :: "string \<Rightarrow> promotion_policy_document" where
  "default_policy policy_id =
     \<lparr>pp_policy_id = policy_id, pp_policy_version = 1, min_success_gain = 1/10, min_cost_reduction = 1/5,
      max_p95_latency_regression = 1/10, max_severity1_regressions = 0, success_non_inferiority_margin = 1/20,
      protected_slice_margins = [], allowed_authority_tiers = [1, 2], pp_alpha = DEFAULT_ALPHA\<rparr>"

definition promotion_policy_json :: "promotion_policy_document \<Rightarrow> json" where
  "promotion_policy_json d =
     JObj [(''policy_id'', JStr (pp_policy_id d)), (''policy_version'', JInt (pp_policy_version d)),
           (''min_success_gain'', JFloat (min_success_gain d)),
           (''min_cost_reduction'', JFloat (min_cost_reduction d)),
           (''max_p95_latency_regression'', JFloat (max_p95_latency_regression d)),
           (''max_severity1_regressions'', JInt (max_severity1_regressions d)),
           (''success_non_inferiority_margin'', JFloat (success_non_inferiority_margin d)),
           (''protected_slice_margins'',
            JObj (map (\<lambda>(n, m). (n, JFloat m)) (sort_key fst (protected_slice_margins d)))),
           (''allowed_authority_tiers'', JList (map JInt (allowed_authority_tiers d))),
           (''alpha'', JFloat (pp_alpha d))]"

section \<open>Evidence and decision\<close>

record promotion_evidence =
  arm_id :: string
  heldout :: paired_scores
  success_gain :: rat
  cost_reduction :: rat
  p95_latency_regression :: rat
  protected_slices :: "(string, paired_scores) dict option"
  severity1_regressions :: int
  critical_failures :: "string list"
  budget_pass :: bool
  integrity_findings :: "string list"
  claimed_transfer_scope :: "string list"
  evaluated_transfer_scope :: "string list"
  preregistered_non_inferiority :: bool
  comparisons :: int
  bootstrap_iterations :: int
  bootstrap_seed :: int

definition new_promotion_evidence :: "promotion_evidence \<Rightarrow> exn + promotion_evidence" where
  "new_promotion_evidence ev =
     (if arm_id ev = [] then invalid_policy ''arm_id must be non-empty''
      else if comparisons ev < 1 then invalid_policy ''comparisons must be at least 1''
      else Inr ev)"

record condition_result =
  cr_condition :: string
  cr_passed :: bool
  cr_detail :: "string list"

record promotion_decision =
  pd_arm_id :: string
  pd_eligible :: bool
  pd_tier :: nat
  pd_conditions :: "condition_result list"
  pd_label :: string
  pd_ci_low :: rat
  pd_ci_high :: rat
  pd_adjusted_p_value :: rat

definition failed_conditions :: "promotion_decision \<Rightarrow> string list" where
  "failed_conditions d = map cr_condition (filter (\<lambda>c. \<not> cr_passed c) (pd_conditions d))"

definition CONDITION_STATISTICAL :: string where
  "CONDITION_STATISTICAL = ''statistical_superiority_or_preregistered_non_inferiority''"
definition CONDITION_PROTECTED_SLICES :: string where
  "CONDITION_PROTECTED_SLICES = ''protected_slice_non_inferiority''"
definition CONDITION_NO_CRITICAL_FAILURE :: string where
  "CONDITION_NO_CRITICAL_FAILURE = ''no_critical_safety_security_failure''"
definition CONDITION_BUDGET :: string where
  "CONDITION_BUDGET = ''budget_pass''"
definition CONDITION_NO_INTEGRITY_FINDINGS :: string where
  "CONDITION_NO_INTEGRITY_FINDINGS = ''no_leakage_tampering_or_leak_detection_finding''"
definition CONDITION_TRANSFER_SCOPE :: string where
  "CONDITION_TRANSFER_SCOPE = ''claimed_transfer_scope_supported''"

definition statistical_condition ::
  "promotion_policy_document \<Rightarrow> promotion_evidence \<Rightarrow> paired_bootstrap_result \<Rightarrow> condition_result" where
  "statistical_condition policy ev main =
     (let superiority = 0 < ci_low main \<and> min_success_gain policy \<le> success_gain ev;
          non_inferior = preregistered_non_inferiority ev
            \<and> - success_non_inferiority_margin policy \<le> ci_low main
            \<and> min_cost_reduction policy \<le> cost_reduction ev
      in \<lparr>cr_condition = CONDITION_STATISTICAL, cr_passed = superiority \<or> non_inferior,
          cr_detail = [if superiority then ''superiority'' else if non_inferior then ''non-inferiority'' else ''neither'']\<rparr>)"

definition slice_failures ::
  "(string, rat) dict \<Rightarrow> (string, paired_bootstrap_result) dict \<Rightarrow> string list" where
  "slice_failures margins bootstraps =
     map fst (filter (\<lambda>(slice_name, margin).
        case map_of bootstraps slice_name of None \<Rightarrow> True | Some b \<Rightarrow> ci_low b < - margin)
       (sort_key fst margins))"

definition protected_slice_condition ::
  "promotion_policy_document \<Rightarrow> (string, paired_bootstrap_result) dict \<Rightarrow> condition_result" where
  "protected_slice_condition policy bootstraps =
     (let failures = slice_failures (protected_slice_margins policy) bootstraps
      in \<lparr>cr_condition = CONDITION_PROTECTED_SLICES, cr_passed = (failures = []),
          cr_detail = (if failures \<noteq> [] then failures else sort (map fst (protected_slice_margins policy)))\<rparr>)"

definition critical_failure_condition ::
  "promotion_policy_document \<Rightarrow> promotion_evidence \<Rightarrow> condition_result" where
  "critical_failure_condition policy ev =
     (let problems = sort (critical_failures ev)
            @ (if max_severity1_regressions policy < severity1_regressions ev then [''severity-1 regressions''] else [])
      in \<lparr>cr_condition = CONDITION_NO_CRITICAL_FAILURE, cr_passed = (problems = []), cr_detail = problems\<rparr>)"

definition budget_condition :: "promotion_evidence \<Rightarrow> condition_result" where
  "budget_condition ev = \<lparr>cr_condition = CONDITION_BUDGET, cr_passed = budget_pass ev, cr_detail = []\<rparr>"

definition integrity_condition :: "promotion_evidence \<Rightarrow> condition_result" where
  "integrity_condition ev =
     \<lparr>cr_condition = CONDITION_NO_INTEGRITY_FINDINGS, cr_passed = (integrity_findings ev = []),
      cr_detail = sort (integrity_findings ev)\<rparr>"

definition transfer_scope_condition :: "promotion_evidence \<Rightarrow> condition_result" where
  "transfer_scope_condition ev =
     (let unevaluated = sort (filter (\<lambda>s. s \<notin> set (evaluated_transfer_scope ev))
                                (remdups (claimed_transfer_scope ev)))
      in \<lparr>cr_condition = CONDITION_TRANSFER_SCOPE, cr_passed = (unevaluated = []), cr_detail = unevaluated\<rparr>)"

definition bootstrap_scores ::
  "randrange \<Rightarrow> promotion_evidence \<Rightarrow> rat \<Rightarrow> paired_scores \<Rightarrow> exn + paired_bootstrap_result" where
  "bootstrap_scores rng ev alpha scores =
     paired_bootstrap rng (sc_baseline scores) (sc_candidate scores) (bootstrap_iterations ev) alpha
       (bootstrap_seed ev)"

definition slice_bootstraps ::
  "randrange \<Rightarrow> promotion_evidence \<Rightarrow> rat \<Rightarrow> exn + (string, paired_bootstrap_result) dict" where
  "slice_bootstraps rng ev alpha =
     res_map (\<lambda>(name, scores). res_bind (bootstrap_scores rng ev alpha scores) (\<lambda>b. Inr (name, b)))
       (case protected_slices ev of None \<Rightarrow> [] | Some d \<Rightarrow> d)"

definition promotion_conditions ::
  "promotion_policy_document \<Rightarrow> promotion_evidence \<Rightarrow> paired_bootstrap_result
     \<Rightarrow> (string, paired_bootstrap_result) dict \<Rightarrow> condition_result list" where
  "promotion_conditions policy ev main bootstraps =
     [statistical_condition policy ev main, protected_slice_condition policy bootstraps,
      critical_failure_condition policy ev, budget_condition ev, integrity_condition ev,
      transfer_scope_condition ev]"

definition family_p_values ::
  "paired_bootstrap_result \<Rightarrow> (string, paired_bootstrap_result) dict \<Rightarrow> (string, rat) dict" where
  "family_p_values main bootstraps =
     (''heldout'', p_value main) # map (\<lambda>(name, b). (''slice:'' @ name, p_value b)) bootstraps"

definition evaluate_promotion ::
  "randrange \<Rightarrow> promotion_policy_document \<Rightarrow> promotion_evidence \<Rightarrow> resolved_release
     \<Rightarrow> recursive_claim_evidence option \<Rightarrow> tier_approval_evidence option \<Rightarrow> exn + promotion_decision" where
  "evaluate_promotion rng policy ev release recursive_claim tier_approvals =
     (let tier = resolve_authority_tier release
      in res_bind (assert_phase2_admissible tier tier_approvals) (\<lambda>_.
         res_bind (per_comparison_alpha (pp_alpha policy) (comparisons ev) BONFERRONI) (\<lambda>alpha.
         res_bind (bootstrap_scores rng ev alpha (heldout ev)) (\<lambda>main.
         res_bind (slice_bootstraps rng ev alpha) (\<lambda>bootstraps.
         let adjusted = holm_adjusted_p_values (family_p_values main bootstraps);
             conditions = promotion_conditions policy ev main bootstraps;
             verdict = map_option evaluate_recursive_claim recursive_claim
         in case map_of adjusted ''heldout'' of
              None \<Rightarrow> Inl (KeyError ''heldout'')
            | Some p \<Rightarrow>
                Inr \<lparr>pd_arm_id = arm_id ev, pd_eligible = list_all cr_passed conditions, pd_tier = tier_int tier,
                     pd_conditions = conditions, pd_label = claim_label verdict None,
                     pd_ci_low = ci_low main, pd_ci_high = ci_high main, pd_adjusted_p_value = p\<rparr>)))))"

section \<open>What a decision rests on\<close>

lemma res_map_named:
  assumes "res_map (\<lambda>(n, x). res_bind (f x) (\<lambda>y. Inr (n, y))) ps = Inr qs"
  shows "map_of qs k = (case map_of ps k of None \<Rightarrow> None
           | Some x \<Rightarrow> (case f x of Inl _ \<Rightarrow> None | Inr y \<Rightarrow> Some y))"
    and "\<forall>(n, x) \<in> set ps. \<exists>y. f x = Inr y"
proof -
  have "(\<forall>(n, x) \<in> set ps. \<exists>y. f x = Inr y) \<and> map_of qs k = (case map_of ps k of None \<Rightarrow> None
           | Some x \<Rightarrow> (case f x of Inl _ \<Rightarrow> None | Inr y \<Rightarrow> Some y))"
    using assms by (induction ps arbitrary: qs) (auto simp: res_bind_Inr)
  then show "map_of qs k = (case map_of ps k of None \<Rightarrow> None
           | Some x \<Rightarrow> (case f x of Inl _ \<Rightarrow> None | Inr y \<Rightarrow> Some y))"
    "\<forall>(n, x) \<in> set ps. \<exists>y. f x = Inr y" by auto
qed

lemma res_map_all_Inr:
  assumes "\<forall>(n, x) \<in> set ps. \<exists>y. f x = Inr y"
  shows "\<exists>qs. res_map (\<lambda>(n, x). res_bind (f x) (\<lambda>y. Inr (n, y))) ps = Inr qs"
  using assms by (induction ps) auto

definition scores_of_slice :: "promotion_evidence \<Rightarrow> string \<Rightarrow> paired_scores option" where
  "scores_of_slice ev name = map_of (case protected_slices ev of None \<Rightarrow> [] | Some d \<Rightarrow> d) name"

lemma slice_lookup:
  assumes "slice_bootstraps rng ev alpha = Inr bs"
  shows "map_of bs name = (case scores_of_slice ev name of None \<Rightarrow> None
     | Some s \<Rightarrow> (case bootstrap_scores rng ev alpha s of Inl _ \<Rightarrow> None | Inr b \<Rightarrow> Some b))"
  using res_map_named(1) [OF assms [unfolded slice_bootstraps_def], of name] by (simp add: scores_of_slice_def)

lemma slice_failures_Nil:
  "slice_failures margins bs = [] \<longleftrightarrow>
     (\<forall>(name, margin) \<in> set margins. \<exists>b. map_of bs name = Some b \<and> - margin \<le> ci_low b)"
  by (auto simp: slice_failures_def filter_empty_conv not_less split: option.splits)

lemma holm_heldout: "\<exists>p. map_of (holm_adjusted_p_values (family_p_values main bs)) ''heldout'' = Some p"
proof -
  let ?ps = "family_p_values main bs"
  have "(''heldout'', p_value main) \<in> set (sort_key snd ?ps)" by (simp add: family_p_values_def del: sort_key_simps)
  then have "''heldout'' \<in> set (map fst (holm_walk (length ?ps) 0 0 (sort_key snd ?ps)))"
    unfolding holm_keys by force
  then have "map_of (holm_walk (length ?ps) 0 0 (sort_key snd ?ps)) ''heldout'' \<noteq> None"
    by (simp add: map_of_eq_None_iff)
  moreover have "holm_adjusted_p_values ?ps = holm_walk (length ?ps) 0 0 (sort_key snd ?ps)"
    by (simp add: holm_adjusted_p_values_def family_p_values_def)
  ultimately show ?thesis by auto
qed

lemma alpha_Inr:
  "per_comparison_alpha a n BONFERRONI = Inr c \<longleftrightarrow> 0 < a \<and> a < 1 \<and> 1 \<le> n \<and> c = a / of_int n"
  by (auto simp: per_comparison_alpha_def statistics_error_def)

text \<open>A decision and the intervals it is made from.\<close>

lemma evaluate_promotion_Inr:
  assumes "evaluate_promotion rng policy ev release claim approvals = Inr d"
  obtains alpha main bs where "per_comparison_alpha (pp_alpha policy) (comparisons ev) BONFERRONI = Inr alpha"
    "bootstrap_scores rng ev alpha (heldout ev) = Inr main" "slice_bootstraps rng ev alpha = Inr bs"
    "assert_phase2_admissible (resolve_authority_tier release) approvals = Inr ()"
    "pd_conditions d = promotion_conditions policy ev main bs"
    "pd_eligible d \<longleftrightarrow> list_all cr_passed (promotion_conditions policy ev main bs)"
    "pd_label d = ARTIFACT_OPTIMIZATION_LABEL"
proof -
  obtain u alpha main bs where parts: "assert_phase2_admissible (resolve_authority_tier release) approvals = Inr u"
    "per_comparison_alpha (pp_alpha policy) (comparisons ev) BONFERRONI = Inr alpha"
    "bootstrap_scores rng ev alpha (heldout ev) = Inr main" "slice_bootstraps rng ev alpha = Inr bs"
    using assms by (auto simp: evaluate_promotion_def Let_def res_bind_Inr)
  obtain p where p: "map_of (holm_adjusted_p_values (family_p_values main bs)) ''heldout'' = Some p"
    using holm_heldout by blast
  show ?thesis
    by (rule that [OF parts(2-4)]) (use assms in
      \<open>auto simp: evaluate_promotion_def parts p claim_label_def claims_enabled_def Let_def split: option.splits\<close>)
qed

lemma evaluate_promotion_returns:
  assumes "assert_phase2_admissible (resolve_authority_tier release) approvals = Inr ()"
    and "per_comparison_alpha (pp_alpha policy) (comparisons ev) BONFERRONI = Inr alpha"
    and "bootstrap_scores rng ev alpha (heldout ev) = Inr main" "slice_bootstraps rng ev alpha = Inr bs"
  shows "\<exists>d. evaluate_promotion rng policy ev release claim approvals = Inr d
     \<and> (pd_eligible d \<longleftrightarrow> list_all cr_passed (promotion_conditions policy ev main bs))"
proof -
  obtain p where p: "map_of (holm_adjusted_p_values (family_p_values main bs)) ''heldout'' = Some p"
    using holm_heldout by blast
  show ?thesis by (simp add: evaluate_promotion_def assms p Let_def)
qed

lemma conditions_hold:
  "list_all cr_passed (promotion_conditions policy ev main bs) \<longleftrightarrow>
     (0 < ci_low main \<and> min_success_gain policy \<le> success_gain ev
      \<or> preregistered_non_inferiority ev \<and> - success_non_inferiority_margin policy \<le> ci_low main
        \<and> min_cost_reduction policy \<le> cost_reduction ev)
     \<and> slice_failures (protected_slice_margins policy) bs = []
     \<and> critical_failures ev = [] \<and> severity1_regressions ev \<le> max_severity1_regressions policy
     \<and> budget_pass ev \<and> integrity_findings ev = []
     \<and> set (claimed_transfer_scope ev) \<subseteq> set (evaluated_transfer_scope ev)"
proof -
  have "sort xs = [] \<longleftrightarrow> xs = []" for xs :: "string list"
    by (metis length_0_conv length_sort)
  then show ?thesis
    by (auto simp: promotion_conditions_def statistical_condition_def protected_slice_condition_def
        critical_failure_condition_def budget_condition_def integrity_condition_def transfer_scope_condition_def
        Let_def filter_empty_conv split: if_splits)
qed

text \<open>The lower bound falls with alpha, and a bootstrap that returned at one alpha returns at another.\<close>

lemma ci_low_mono:
  assumes "bootstrap_scores rng ev alpha s = Inr r" "bootstrap_scores rng ev' alpha' s = Inr r'" "alpha \<le> alpha'"
    and "bootstrap_iterations ev' = bootstrap_iterations ev" "bootstrap_seed ev' = bootstrap_seed ev"
  shows "ci_low r \<le> ci_low r'"
proof -
  let ?ms = "bootstrap_means rng (bootstrap_seed ev) (deltas_of (sc_baseline s) (sc_candidate s)) (bootstrap_iterations ev)"
  have "200 \<le> bootstrap_iterations ev" and q: "quantile ?ms (alpha / 2) = Inr (ci_low r)" "quantile ?ms (alpha' / 2) = Inr (ci_low r')"
    using assms(1,2,4,5) by (auto simp: bootstrap_scores_def bootstrap_iff)
  then show ?thesis using assms(3) bootstrap_means_facts(1) quantile_mono [OF _ q] by simp
qed

lemma bootstrap_other_alpha:
  assumes "bootstrap_scores rng ev alpha s = Inr r" "0 < alpha'" "alpha' < 1"
    and "bootstrap_iterations ev' = bootstrap_iterations ev"
  shows "\<exists>r'. bootstrap_scores rng ev' alpha' s = Inr r'"
proof -
  have "200 \<le> bootstrap_iterations ev" "length (sc_baseline s) = length (sc_candidate s)" "sc_baseline s \<noteq> []"
    using assms(1) by (auto simp: bootstrap_scores_def bootstrap_iff)
  then show ?thesis using assms(2-4) by (simp add: bootstrap_scores_def bootstrap_returns)
qed

lemma slices_other_alpha:
  assumes "slice_bootstraps rng ev alpha = Inr bs" "0 < alpha'" "alpha' < 1"
    and "bootstrap_iterations ev' = bootstrap_iterations ev" "protected_slices ev' = protected_slices ev"
  shows "\<exists>bs'. slice_bootstraps rng ev' alpha' = Inr bs'"
proof -
  let ?ps = "case protected_slices ev of None \<Rightarrow> [] | Some d \<Rightarrow> d"
  have "\<forall>(n, s) \<in> set ?ps. \<exists>y. bootstrap_scores rng ev alpha s = Inr y"
    using res_map_named(2) [OF assms(1) [unfolded slice_bootstraps_def]] .
  then have "\<forall>(n, s) \<in> set ?ps. \<exists>y. bootstrap_scores rng ev' alpha' s = Inr y"
    using bootstrap_other_alpha [OF _ assms(2,3,4)] by fastforce
  then show ?thesis unfolding slice_bootstraps_def assms(5) by (rule res_map_all_Inr)
qed

section \<open>Properties\<close>


definition demo_scores :: paired_scores where
  "demo_scores = \<lparr>sc_task_ids = [''a'', ''b''], sc_baseline = [0, 1/2], sc_candidate = [1/2, 1]\<rparr>"

definition demo_evidence :: promotion_evidence where
  "demo_evidence =
     \<lparr>arm_id = ''arm-1'', heldout = demo_scores, success_gain = 1/2, cost_reduction = 0, p95_latency_regression = 5,
      protected_slices = Some [(''de'', demo_scores)], severity1_regressions = 0, critical_failures = [],
      budget_pass = True, integrity_findings = [], claimed_transfer_scope = [], evaluated_transfer_scope = [],
      preregistered_non_inferiority = False, comparisons = 3, bootstrap_iterations = 2000, bootstrap_seed = 7\<rparr>"

definition demo_policy :: promotion_policy_document where
  "demo_policy = (default_policy ''p1'')\<lparr>protected_slice_margins := [(''de'', 1/20)]\<rparr>"

definition demo_release :: resolved_release where
  "demo_release = plain_release [''prompt_bundle'']"

lemma demo_bootstrap:
  assumes "0 < alpha" "alpha < 1"
  shows "\<exists>r. bootstrap_scores still_rng demo_evidence alpha demo_scores = Inr r"
  using bootstrap_returns [of 2000 alpha "[0, 1/2]" "[1/2, 1]" still_rng 7] assms
  by (simp add: bootstrap_scores_def demo_evidence_def demo_scores_def)

lemma demo_low:
  assumes "bootstrap_scores still_rng demo_evidence alpha demo_scores = Inr r" shows "1/2 \<le> ci_low r"
proof -
  have eq: "deltas_of [0, 1/2] [1/2, 1] = [1/2, 1/2 :: rat]" by (simp add: deltas_of_def)
  have "\<forall>m \<in> set (bootstrap_means still_rng 7 [1/2, 1/2] 2000). 1/2 \<le> m \<and> m \<le> 1/2"
    using resampled_mean_range [OF still_rng_in_range, of "[1/2, 1/2]" "1/2" "1/2"] by (auto simp: bootstrap_means_def)
  moreover have "sorted (bootstrap_means still_rng 7 [1/2, 1/2] 2000)" by (simp add: bootstrap_means_facts)
  ultimately show ?thesis
    using assms quantile_range [of "bootstrap_means still_rng 7 [1/2, 1/2] 2000" "alpha / 2" "ci_low r" "1/2" "1/2"]
    by (auto simp: bootstrap_scores_def bootstrap_iff demo_evidence_def demo_scores_def eq)
qed

lemma demo_decision:
  "\<exists>d. evaluate_promotion still_rng demo_policy demo_evidence demo_release None None = Inr d \<and> pd_eligible d"
proof -
  obtain r where r: "bootstrap_scores still_rng demo_evidence (1/60) demo_scores = Inr r" using demo_bootstrap [of "1/60"] by auto
  have tier: "assert_phase2_admissible (resolve_authority_tier demo_release) None = Inr ()" by code_simp
  have alpha: "per_comparison_alpha (pp_alpha demo_policy) (comparisons demo_evidence) BONFERRONI = Inr (1/60)" by code_simp
  have slices: "slice_bootstraps still_rng demo_evidence (1/60) = Inr [(''de'', r)]"
    using r by (simp add: slice_bootstraps_def demo_evidence_def)
  have held: "bootstrap_scores still_rng demo_evidence (1/60) (heldout demo_evidence) = Inr r"
    using r by (simp add: demo_evidence_def)
  have "list_all cr_passed (promotion_conditions demo_policy demo_evidence r [(''de'', r)])"
    using demo_low [OF r] unfolding conditions_hold slice_failures_Nil
    by (simp add: demo_policy_def default_policy_def demo_evidence_def)
  then show ?thesis using evaluate_promotion_returns [OF tier alpha held slices] by blast
qed


text \<open>A larger comparison family never helps a candidate: what is eligible among \<open>m\<close> arms is eligible, and
  decided at all, among fewer.\<close>

theorem more_comparisons_never_help:
  assumes "evaluate_promotion rng policy (ev\<lparr>comparisons := m\<rparr>) release claim approvals = Inr d"
    and "pd_eligible d" "1 \<le> n" "n \<le> m"
  shows "\<exists>d'. evaluate_promotion rng policy (ev\<lparr>comparisons := n\<rparr>) release claim approvals = Inr d' \<and> pd_eligible d'"
proof -
  let ?ev = "ev\<lparr>comparisons := m\<rparr>" and ?ev' = "ev\<lparr>comparisons := n\<rparr>"
  obtain alpha main bs where parts:
    "per_comparison_alpha (pp_alpha policy) (comparisons ?ev) BONFERRONI = Inr alpha"
    "bootstrap_scores rng ?ev alpha (heldout ?ev) = Inr main" "slice_bootstraps rng ?ev alpha = Inr bs"
    "assert_phase2_admissible (resolve_authority_tier release) approvals = Inr ()"
    "pd_eligible d \<longleftrightarrow> list_all cr_passed (promotion_conditions policy ?ev main bs)"
    by (rule evaluate_promotion_Inr [OF assms(1)])
  have a: "0 < pp_alpha policy" "pp_alpha policy < 1" "alpha = pp_alpha policy / of_int m"
    using parts(1) by (auto simp: alpha_Inr)
  define alpha' where "alpha' = pp_alpha policy / of_int n"
  have n: "(1::rat) \<le> of_int n" "(of_int n :: rat) \<le> of_int m" using assms(3,4) by simp_all
  have "pp_alpha policy / of_int n \<le> pp_alpha policy / 1" using n a(1) by (intro divide_left_mono) auto
  then have alpha': "0 < alpha'" "alpha' < 1" "alpha \<le> alpha'"
    using n a by (auto simp: alpha'_def intro!: divide_left_mono)
  have new_alpha: "per_comparison_alpha (pp_alpha policy) (comparisons ?ev') BONFERRONI = Inr alpha'"
    using a assms(3) by (simp add: alpha_Inr alpha'_def)
  obtain main' where main': "bootstrap_scores rng ?ev' alpha' (heldout ?ev') = Inr main'"
    using bootstrap_other_alpha [OF parts(2) alpha'(1,2), of ?ev'] by auto
  obtain bs' where bs': "slice_bootstraps rng ?ev' alpha' = Inr bs'"
    using slices_other_alpha [OF parts(3) alpha'(1,2), of ?ev'] by auto
  have low: "ci_low main \<le> ci_low main'"
    using ci_low_mono [OF parts(2), of ?ev' alpha' main'] main' alpha'(3) by simp
  have "\<exists>b'. map_of bs' name = Some b' \<and> - margin \<le> ci_low b'"
    if found: "map_of bs name = Some b" "- margin \<le> ci_low b" for name margin b
  proof -
    obtain s where s: "scores_of_slice ?ev name = Some s" "bootstrap_scores rng ?ev alpha s = Inr b"
      using found(1) slice_lookup [OF parts(3), of name] by (auto split: option.splits sum.splits)
    obtain b' where b': "bootstrap_scores rng ?ev' alpha' s = Inr b'"
      using bootstrap_other_alpha [OF s(2) alpha'(1,2), of ?ev'] by auto
    then have "map_of bs' name = Some b'"
      using slice_lookup [OF bs', of name] s(1) by (simp add: scores_of_slice_def)
    moreover have "ci_low b \<le> ci_low b'" using ci_low_mono [OF s(2) b' alpha'(3)] by simp
    ultimately show ?thesis using found(2) by auto
  qed
  then have "slice_failures (protected_slice_margins policy) bs = [] \<Longrightarrow>
      slice_failures (protected_slice_margins policy) bs' = []"
    unfolding slice_failures_Nil by fastforce
  then have "list_all cr_passed (promotion_conditions policy ?ev' main' bs')"
    using assms(2) parts(5) low unfolding conditions_hold by auto
  then show ?thesis using evaluate_promotion_returns [OF parts(4) new_alpha main' bs'] by blast
qed

lemma more_comparisons_never_help_witness:
  "\<exists>d'. evaluate_promotion still_rng demo_policy (demo_evidence\<lparr>comparisons := 2\<rparr>) demo_release None None = Inr d'
     \<and> pd_eligible d'"
proof -
  obtain d where "evaluate_promotion still_rng demo_policy demo_evidence demo_release None None = Inr d" "pd_eligible d"
    using demo_decision by blast
  moreover have "demo_evidence = demo_evidence\<lparr>comparisons := 3\<rparr>" by (simp add: demo_evidence_def)
  ultimately have d: "evaluate_promotion still_rng demo_policy (demo_evidence\<lparr>comparisons := 3\<rparr>) demo_release None None = Inr d"
    "pd_eligible d" by simp_all
  show ?thesis by (rule more_comparisons_never_help [OF d]) simp_all
qed

text \<open>Two declared gates do not gate: whatever latency ceiling and tier allowlist a policy declares, and
  whatever latency regression the evidence reports, the decision is the same.\<close>

theorem latency_and_tier_allowlist_unread:
  "evaluate_promotion rng
     (policy\<lparr>max_p95_latency_regression := ceil_p95, allowed_authority_tiers := tiers\<rparr>)
     (ev\<lparr>p95_latency_regression := regression\<rparr>) release claim approvals
   = evaluate_promotion rng policy ev release claim approvals"
proof -
  let ?ev = "ev\<lparr>p95_latency_regression := regression\<rparr>"
  let ?policy = "policy\<lparr>max_p95_latency_regression := ceil_p95, allowed_authority_tiers := tiers\<rparr>"
  have "bootstrap_scores rng ?ev = bootstrap_scores rng ev"
    by (intro ext) (simp add: bootstrap_scores_def)
  moreover from this have "slice_bootstraps rng ?ev = slice_bootstraps rng ev"
    by (intro ext) (simp add: slice_bootstraps_def)
  moreover have "promotion_conditions ?policy ?ev main bs = promotion_conditions policy ev main bs" for main bs
    by (simp add: promotion_conditions_def statistical_condition_def protected_slice_condition_def
        critical_failure_condition_def budget_condition_def integrity_condition_def transfer_scope_condition_def Let_def)
  ultimately show ?thesis by (simp add: evaluate_promotion_def Let_def cong: option.case_cong)
qed

lemma satisfied_claim_iff:
  "satisfied (evaluate_recursive_claim ev) \<longleftrightarrow>
     successive_promoted_generations ev \<and> shared_error_budget ev \<and> causal_inheritance ev
     \<and> matched_compute_one_shot_advantage ev \<and> no_inheritance_control_arm ev \<and> fixed_editor_advantage_holds ev"
  by (auto simp: satisfied_def evaluate_recursive_claim_def)

lemma claims_enabled_iff:
  "claims_enabled p \<longleftrightarrow> (\<exists>d. p = Some d \<and> td_recursive_claims_enabled d \<and> td_environment d = RESEARCH)"
proof -
  have "environment_value e = ''research'' \<longleftrightarrow> e = RESEARCH" for e by (cases e) simp_all
  then show ?thesis by (auto simp: claims_enabled_def split: option.splits)
qed

text \<open>The recursive-improvement label is earned only by all of the gate's facts at once, inside a research
  tenant whose policy enables it, and the boundary check passes exactly the labels the gate itself gives.\<close>

theorem recursive_label_needs_everything:
  "(claim_label (Some (evaluate_recursive_claim ev)) tenant = RECURSIVE_IMPROVEMENT_LABEL \<longleftrightarrow>
      successive_promoted_generations ev \<and> shared_error_budget ev \<and> causal_inheritance ev
      \<and> matched_compute_one_shot_advantage ev \<and> no_inheritance_control_arm ev
      \<and> fixed_editor_control_arm ev \<and> fixed_editor_holm_significant ev
      \<and> (\<exists>a m. fixed_editor_advantage ev = Some (Finite a) \<and> fixed_editor_minimum_effect ev = Some (Finite m) \<and> m < a)
      \<and> (\<exists>d. tenant = Some d \<and> td_recursive_claims_enabled d \<and> td_environment d = RESEARCH))
   \<and> (assert_label_allowed RECURSIVE_IMPROVEMENT_LABEL verdict tenant = Inr () \<longleftrightarrow>
        claim_label verdict tenant = RECURSIVE_IMPROVEMENT_LABEL)"
proof -
  have labels: "ARTIFACT_OPTIMIZATION_LABEL \<noteq> RECURSIVE_IMPROVEMENT_LABEL"
    by (simp add: ARTIFACT_OPTIMIZATION_LABEL_def RECURSIVE_IMPROVEMENT_LABEL_def)
  have "fixed_editor_advantage_holds ev \<longleftrightarrow> fixed_editor_control_arm ev \<and> fixed_editor_holm_significant ev
      \<and> (\<exists>a m. fixed_editor_advantage ev = Some (Finite a) \<and> fixed_editor_minimum_effect ev = Some (Finite m) \<and> m < a)"
  proof (cases "fixed_editor_advantage ev"; cases "fixed_editor_minimum_effect ev")
    fix a m assume "fixed_editor_advantage ev = Some a" "fixed_editor_minimum_effect ev = Some m"
    then show ?thesis by (cases a; cases m) (auto simp: fixed_editor_advantage_holds_def)
  qed (auto simp: fixed_editor_advantage_holds_def split: py_number.splits)
  then show ?thesis
    using labels
    by (auto simp: claim_label_def satisfied_claim_iff claims_enabled_iff assert_label_allowed_def claim_denied_def
        split: option.splits)
qed

end
