(* ===== verification/Lineage.thy ===== *)
theory Lineage
  imports Database
begin

text \<open>
  The lineage plane (\<^verbatim>\<open>lineage/crypto.py\<close>, \<^verbatim>\<open>payload_store.py\<close>, \<^verbatim>\<open>deletion.py\<close>, \<^verbatim>\<open>purge.py\<close>, \<^verbatim>\<open>service.py\<close>
  and the rows of \<^verbatim>\<open>db/models/lineage.py\<close>): encrypted payloads under their content digest, tombstones
  and the two sweeps that act on them, derived data, and the append-only provenance graph with its
  recursive query. AES-GCM, HKDF, base64 and the random nonces come from outside and are the fields of a
  \<^verbatim>\<open>key_provider\<close>; row ids and clock readings are arguments. The lemmas show that a read returns bytes
  with the digest asked for, what a deletion makes of a read, that the sweeps are idempotent, and that
  the traversal is reachability.
\<close>

section \<open>Tenant keys (lineage/crypto.py)\<close>

text \<open>\<open>'n\<close> is the type of the 12-byte nonces. \<open>kp_join\<close> and \<open>kp_split\<close> are \<^verbatim>\<open>nonce + ciphertext\<close> and the slices at
  the nonce's length.\<close>

record ('n, 'b) key_provider =
  kp_master_key :: "string option"
  kp_version :: string
  kp_b64decode :: "string \<Rightarrow> exn + 'b"
  kp_hkdf :: "'b \<Rightarrow> string \<Rightarrow> 'b"
  kp_encrypt :: "'b \<Rightarrow> 'n \<Rightarrow> 'b \<Rightarrow> string \<Rightarrow> 'b"
  kp_decrypt :: "'b \<Rightarrow> 'n \<Rightarrow> 'b \<Rightarrow> string \<Rightarrow> 'b option"
  kp_join :: "'n \<Rightarrow> 'b \<Rightarrow> 'b"
  kp_split :: "'b \<Rightarrow> 'n \<times> 'b"

definition key_laws :: "('n, 'b) key_provider \<Rightarrow> bool" where
  "key_laws K \<longleftrightarrow>
     (\<forall>k n p a. kp_decrypt K k n (kp_encrypt K k n p a) a = Some p)
     \<and> (\<forall>n c. kp_split K (kp_join K n c) = (n, c))"

definition derive_tenant_key :: "('n, 'b) key_provider \<Rightarrow> string \<Rightarrow> exn + 'b" where
  "derive_tenant_key K tenant_id =
     (case kp_master_key K of
        None \<Rightarrow> Inl (Lineage PayloadEncryptionNotConfiguredError)
      | Some raw \<Rightarrow>
          if raw = [] then Inl (Lineage PayloadEncryptionNotConfiguredError)
          else res_bind (kp_b64decode K raw) (\<lambda>master.
            Inr (kp_hkdf K master (''evoruntime-payload-key:'' @ kp_version K @ '':'' @ tenant_id))))"

definition encrypt :: "('n, 'b) key_provider \<Rightarrow> 'n \<Rightarrow> string \<Rightarrow> 'b \<Rightarrow> exn + 'b" where
  "encrypt K nonce tenant_id plaintext =
     res_bind (derive_tenant_key K tenant_id) (\<lambda>key.
       Inr (kp_join K nonce (kp_encrypt K key nonce plaintext tenant_id)))"

definition decrypt :: "('n, 'b) key_provider \<Rightarrow> string \<Rightarrow> 'b \<Rightarrow> exn + 'b" where
  "decrypt K tenant_id nonce_and_ciphertext =
     res_bind (derive_tenant_key K tenant_id) (\<lambda>key.
       case kp_split K nonce_and_ciphertext of (nonce, ciphertext) \<Rightarrow>
         (case kp_decrypt K key nonce ciphertext tenant_id of
            None \<Rightarrow> Inl (Foreign ''InvalidTag'') | Some plaintext \<Rightarrow> Inr plaintext))"

lemma decrypt_encrypt:
  "key_laws K \<Longrightarrow> encrypt K nonce tenant_id plaintext = Inr c \<Longrightarrow> decrypt K tenant_id c = Inr plaintext"
  by (auto simp: encrypt_def decrypt_def key_laws_def res_bind_Inr)

section \<open>Rows (db/models/lineage.py)\<close>

record 'b payload =
  pl_tenant_id :: string
  pl_payload_digest :: string
  pl_data_classification :: string
  pl_ciphertext :: 'b
  pl_encryption_key_id :: string
  pl_byte_size :: nat

record tombstone =
  ts_id :: string
  ts_tenant_id :: string
  ts_resource_type :: string
  ts_resource_id :: string
  ts_reason :: "string option"
  ts_requested_by :: string
  ts_requested_at :: instant
  ts_access_revoked_at :: "instant option"
  ts_purge_completed_at :: "instant option"

record derived_data_record =
  dd_tenant_id :: string
  dd_resource_id :: string
  dd_kind :: string
  dd_ref :: string

record lineage_node =
  ln_id :: string
  ln_tenant_id :: string
  ln_node_type :: string
  ln_external_ref :: string
  ln_metadata :: json_object

record lineage_edge =
  le_tenant_id :: string
  le_source :: string
  le_target :: string
  le_edge_type :: string
  le_metadata :: json_object

record 'b lineage_db =
  payloads :: "'b payload list"
  tombstones :: "tombstone list"
  derived_data :: "derived_data_record list"
  lineage_nodes :: "lineage_node list"
  lineage_edges :: "lineage_edge list"

definition empty_lineage :: "'b lineage_db" where
  "empty_lineage = \<lparr>payloads = [], tombstones = [], derived_data = [], lineage_nodes = [], lineage_edges = []\<rparr>"

section \<open>The payload store (lineage/payload_store.py)\<close>

definition payload_rows :: "string \<Rightarrow> string \<Rightarrow> 'b lineage_db \<Rightarrow> 'b payload list" where
  "payload_rows tenant_id payload_digest s =
     filter (\<lambda>p. pl_tenant_id p = tenant_id \<and> pl_payload_digest p = payload_digest) (payloads s)"

definition revoked_rows :: "string \<Rightarrow> string \<Rightarrow> 'b lineage_db \<Rightarrow> tombstone list" where
  "revoked_rows tenant_id payload_digest s =
     filter (\<lambda>t. ts_tenant_id t = tenant_id \<and> ts_resource_type t = ''payload''
                \<and> ts_resource_id t = payload_digest \<and> ts_access_revoked_at t \<noteq> None) (tombstones s)"

definition raise_not_found_or_revoked :: "string \<Rightarrow> string \<Rightarrow> 'b lineage_db \<Rightarrow> exn + 'a" where
  "raise_not_found_or_revoked tenant_id payload_digest s =
     res_bind (one_or_none (revoked_rows tenant_id payload_digest s)) (\<lambda>found.
       case found of
         Some t \<Rightarrow> Inl (Lineage (PayloadAccessRevokedError payload_digest tenant_id (ts_requested_at t)))
       | None \<Rightarrow> Inl (Lineage (PayloadNotFoundError payload_digest tenant_id)))"

definition read_payload ::
  "('n, 'b) key_provider \<Rightarrow> string \<Rightarrow> string \<Rightarrow> 'b lineage_db \<Rightarrow> exn + 'b" where
  "read_payload K tenant_id payload_digest s =
     res_bind (one_or_none (payload_rows tenant_id payload_digest s)) (\<lambda>found.
       case found of
         None \<Rightarrow> raise_not_found_or_revoked tenant_id payload_digest s
       | Some p \<Rightarrow> decrypt K tenant_id (pl_ciphertext p))"

definition new_payload ::
  "('k, 'b) crypto \<Rightarrow> ('n, 'b) key_provider \<Rightarrow> string \<Rightarrow> 'b \<Rightarrow> string \<Rightarrow> 'b \<Rightarrow> 'b payload" where
  "new_payload C K tenant_id plaintext data_classification ciphertext =
     \<lparr>pl_tenant_id = tenant_id, pl_payload_digest = sha256_digest C plaintext,
      pl_data_classification = data_classification, pl_ciphertext = ciphertext,
      pl_encryption_key_id = kp_version K, pl_byte_size = cr_length C plaintext\<rparr>"

definition store_payload ::
  "('k, 'b) crypto \<Rightarrow> ('n, 'b) key_provider \<Rightarrow> 'n \<Rightarrow> string \<Rightarrow> 'b \<Rightarrow> string
     \<Rightarrow> (exn, 'b lineage_db, 'b payload) op" where
  "store_payload C K nonce tenant_id plaintext data_classification =
     op_bind (op_read (\<lambda>s. one_or_none (payload_rows tenant_id (sha256_digest C plaintext) s))) (\<lambda>found.
       case found of
         Some p \<Rightarrow> op_return p
       | None \<Rightarrow>
           op_bind (op_read (\<lambda>_. encrypt K nonce tenant_id plaintext)) (\<lambda>ciphertext.
             op_then (op_modify (\<lambda>s. s\<lparr>payloads := payloads s
                        @ [new_payload C K tenant_id plaintext data_classification ciphertext]\<rparr>))
               (op_return (new_payload C K tenant_id plaintext data_classification ciphertext))))"

section \<open>Deletion (lineage/deletion.py)\<close>

definition request_deletion ::
  "string \<Rightarrow> instant \<Rightarrow> string \<Rightarrow> string \<Rightarrow> string \<Rightarrow> string \<Rightarrow> string option
     \<Rightarrow> (exn, 'b lineage_db, tombstone) op" where
  "request_deletion uid now tenant_id resource_type resource_id requested_by reason =
     (let t = \<lparr>ts_id = uid, ts_tenant_id = tenant_id, ts_resource_type = resource_type,
               ts_resource_id = resource_id, ts_reason = reason, ts_requested_by = requested_by,
               ts_requested_at = now, ts_access_revoked_at = None, ts_purge_completed_at = None\<rparr>
      in op_then (op_require (\<lambda>s. uid \<notin> ts_id ` set (tombstones s)) integrity_error)
           (op_then (op_modify (\<lambda>s. s\<lparr>tombstones := tombstones s @ [t]\<rparr>)) (op_return t)))"

text \<open>An assignment to a row's columns, written by the flush.\<close>

definition update_tombstone :: "string \<Rightarrow> (tombstone \<Rightarrow> tombstone) \<Rightarrow> 'b lineage_db \<Rightarrow> 'b lineage_db" where
  "update_tombstone uid f s =
     s\<lparr>tombstones := map (\<lambda>t. if ts_id t = uid then f t else t) (tombstones s)\<rparr>"

definition delete_payload :: "'b payload \<Rightarrow> 'b lineage_db \<Rightarrow> 'b lineage_db" where
  "delete_payload p s = s\<lparr>payloads := filter (\<lambda>q. q \<noteq> p) (payloads s)\<rparr>"

definition revoke_access :: "instant \<Rightarrow> tombstone \<Rightarrow> (exn, 'b lineage_db, unit) op" where
  "revoke_access now t =
     op_then
       (if ts_resource_type t = ''payload''
        then op_bind (op_read (\<lambda>s. one_or_none (payload_rows (ts_tenant_id t) (ts_resource_id t) s))) (\<lambda>found.
               case found of None \<Rightarrow> op_return () | Some p \<Rightarrow> op_modify (delete_payload p))
        else op_return ())
       (op_modify (update_tombstone (ts_id t) (\<lambda>u. u\<lparr>ts_access_revoked_at := Some now\<rparr>)))"

definition derived_of :: "tombstone \<Rightarrow> derived_data_record \<Rightarrow> bool" where
  "derived_of t d \<longleftrightarrow> dd_tenant_id d = ts_tenant_id t \<and> dd_resource_id d = ts_resource_id t"

definition purge_derived_data :: "instant \<Rightarrow> tombstone \<Rightarrow> (exn, 'b lineage_db, nat) op" where
  "purge_derived_data now t =
     op_bind (op_gets (\<lambda>s. length (filter (derived_of t) (derived_data s)))) (\<lambda>n.
     op_then (op_modify (\<lambda>s. s\<lparr>derived_data := filter (\<lambda>d. \<not> derived_of t d) (derived_data s)\<rparr>))
     (op_then (op_modify (update_tombstone (ts_id t) (\<lambda>u. u\<lparr>ts_purge_completed_at := Some now\<rparr>)))
       (op_return n)))"

section \<open>The sweeps (lineage/purge.py)\<close>

definition DEFAULT_ACCESS_REVOCATION_SLA_SECONDS :: int where
  "DEFAULT_ACCESS_REVOCATION_SLA_SECONDS = 300"

definition DEFAULT_DERIVED_PURGE_SLA_SECONDS :: int where
  "DEFAULT_DERIVED_PURGE_SLA_SECONDS = 86400"

definition revocation_pending :: "instant \<Rightarrow> tombstone \<Rightarrow> bool" where
  "revocation_pending deadline t \<longleftrightarrow> ts_access_revoked_at t = None \<and> ts_requested_at t \<le> deadline"

definition run_access_revocation_sweep :: "instant \<Rightarrow> int \<Rightarrow> (exn, 'b lineage_db, tombstone list) op" where
  "run_access_revocation_sweep now sla_seconds =
     op_bind (op_gets (\<lambda>s. filter (revocation_pending (now - of_seconds sla_seconds)) (tombstones s))) (\<lambda>pending.
       op_then (op_for pending (revoke_access now)) (op_return pending))"

definition purge_pending :: "instant \<Rightarrow> tombstone \<Rightarrow> bool" where
  "purge_pending deadline t \<longleftrightarrow> ts_purge_completed_at t = None
     \<and> (case ts_access_revoked_at t of None \<Rightarrow> False | Some revoked \<Rightarrow> revoked \<le> deadline)"

definition run_derived_purge_sweep :: "instant \<Rightarrow> int \<Rightarrow> (exn, 'b lineage_db, tombstone list) op" where
  "run_derived_purge_sweep now sla_seconds =
     op_bind (op_gets (\<lambda>s. filter (purge_pending (now - of_seconds sla_seconds)) (tombstones s))) (\<lambda>pending.
       op_then (op_for pending (\<lambda>t. op_bind (purge_derived_data now t) (\<lambda>_. op_return ())))
         (op_return pending))"

section \<open>The provenance graph (lineage/service.py)\<close>

datatype direction = Upstream | Downstream

definition DEFAULT_MAX_TRAVERSAL_DEPTH :: nat where
  "DEFAULT_MAX_TRAVERSAL_DEPTH = 50"

definition append_node ::
  "string \<Rightarrow> string \<Rightarrow> string \<Rightarrow> string \<Rightarrow> json_object option \<Rightarrow> (exn, 'b lineage_db, lineage_node) op" where
  "append_node uid tenant_id node_type external_ref metadata =
     (let n = \<lparr>ln_id = uid, ln_tenant_id = tenant_id, ln_node_type = node_type, ln_external_ref = external_ref,
               ln_metadata = (case metadata of None \<Rightarrow> [] | Some m \<Rightarrow> m)\<rparr>
      in op_then (op_require (\<lambda>s. uid \<notin> ln_id ` set (lineage_nodes s)) integrity_error)
           (op_then (op_modify (\<lambda>s. s\<lparr>lineage_nodes := lineage_nodes s @ [n]\<rparr>)) (op_return n)))"

definition get_node_or_raise :: "string \<Rightarrow> string \<Rightarrow> 'b lineage_db \<Rightarrow> exn + lineage_node" where
  "get_node_or_raise tenant_id node_id s =
     res_bind (one_or_none (filter (\<lambda>n. ln_id n = node_id \<and> ln_tenant_id n = tenant_id) (lineage_nodes s)))
       (\<lambda>found. case found of None \<Rightarrow> Inl (Lineage (LineageNodeNotFoundError node_id tenant_id)) | Some n \<Rightarrow> Inr n)"

definition append_edge ::
  "string \<Rightarrow> string \<Rightarrow> string \<Rightarrow> string \<Rightarrow> json_object option \<Rightarrow> (exn, 'b lineage_db, lineage_edge) op" where
  "append_edge tenant_id source_node_id target_node_id edge_type metadata =
     op_bind (op_read (get_node_or_raise tenant_id source_node_id)) (\<lambda>_.
     op_bind (op_read (get_node_or_raise tenant_id target_node_id)) (\<lambda>_.
       let e = \<lparr>le_tenant_id = tenant_id, le_source = source_node_id, le_target = target_node_id,
                le_edge_type = edge_type, le_metadata = (case metadata of None \<Rightarrow> [] | Some m \<Rightarrow> m)\<rparr>
       in op_then (op_require (\<lambda>_. source_node_id \<noteq> target_node_id) integrity_error)
            (op_then (op_modify (\<lambda>s. s\<lparr>lineage_edges := lineage_edges s @ [e]\<rparr>)) (op_return e))))"

text \<open>The recursive query: a row of \<open>ancestry\<close> is a node with the path that led to it; a step joins the
  tenant's edges with the nodes at their other end and leaves out nodes already on the path.\<close>

definition hop :: "direction \<Rightarrow> lineage_edge \<Rightarrow> string \<times> string" where
  "hop d e = (case d of Upstream \<Rightarrow> (le_target e, le_source e) | Downstream \<Rightarrow> (le_source e, le_target e))"

type_synonym ancestry_row = "string \<times> string list"

definition extend ::
  "direction \<Rightarrow> string \<Rightarrow> 'b lineage_db \<Rightarrow> ancestry_row \<Rightarrow> ancestry_row list" where
  "extend d tenant_id s = (\<lambda>(node_id, visited).
     concat (map (\<lambda>e. if le_tenant_id e = tenant_id \<and> fst (hop d e) = node_id \<and> snd (hop d e) \<notin> set visited
                      then map (\<lambda>p. (ln_id p, visited @ [ln_id p]))
                             (filter (\<lambda>p. ln_id p = snd (hop d e)) (lineage_nodes s))
                      else []) (lineage_edges s)))"

fun ancestry ::
  "direction \<Rightarrow> string \<Rightarrow> 'b lineage_db \<Rightarrow> nat \<Rightarrow> ancestry_row list \<Rightarrow> ancestry_row list" where
  "ancestry d tenant_id s 0 rows = rows"
| "ancestry d tenant_id s (Suc depth) rows =
     rows @ ancestry d tenant_id s depth (concat (map (extend d tenant_id s) rows))"

text \<open>\<^verbatim>\<open>SELECT DISTINCT ... WHERE id <> :node_id ORDER BY id\<close>\<close>

definition traverse ::
  "direction \<Rightarrow> string \<Rightarrow> string \<Rightarrow> nat \<Rightarrow> 'b lineage_db \<Rightarrow> exn + lineage_node list" where
  "traverse d tenant_id node_id max_depth s =
     res_bind (get_node_or_raise tenant_id node_id s) (\<lambda>_.
       let found = map fst (ancestry d tenant_id s max_depth [(node_id, [node_id])])
       in Inr (sort_key ln_id (filter (\<lambda>n. ln_id n \<in> set found \<and> ln_id n \<noteq> node_id) (lineage_nodes s))))"

definition resolve_upstream :: "string \<Rightarrow> string \<Rightarrow> nat \<Rightarrow> 'b lineage_db \<Rightarrow> exn + lineage_node list" where
  "resolve_upstream = traverse Upstream"

definition resolve_downstream :: "string \<Rightarrow> string \<Rightarrow> nat \<Rightarrow> 'b lineage_db \<Rightarrow> exn + lineage_node list" where
  "resolve_downstream = traverse Downstream"

section \<open>The state after any calls\<close>

text \<open>\<^verbatim>\<open>Derive\<close> stands for the subsystems that register derived data (\<^verbatim>\<open>memory/service.py\<close>).\<close>

datatype ('n, 'b) lineage_call =
    Store 'n string 'b string
  | Request_deletion string instant string string string string "string option"
  | Revocation_sweep instant int
  | Purge_sweep instant int
  | Append_node string string string string "json_object option"
  | Append_edge string string string string "json_object option"
  | Derive derived_data_record

fun do_lineage_call ::
  "('k, 'b) crypto \<Rightarrow> ('n, 'b) key_provider \<Rightarrow> ('n, 'b) lineage_call \<Rightarrow> 'b lineage_db \<Rightarrow> 'b lineage_db" where
  "do_lineage_call C K (Store n t b c) s = snd (store_payload C K n t b c s)"
| "do_lineage_call C K (Request_deletion u now t ty r by why) s = snd (request_deletion u now t ty r by why s)"
| "do_lineage_call C K (Revocation_sweep now sla) s = snd (run_access_revocation_sweep now sla s)"
| "do_lineage_call C K (Purge_sweep now sla) s = snd (run_derived_purge_sweep now sla s)"
| "do_lineage_call C K (Append_node u t ty r m) s = snd (append_node u t ty r m s)"
| "do_lineage_call C K (Append_edge t a b ty m) s = snd (append_edge t a b ty m s)"
| "do_lineage_call C K (Derive d) s = s\<lparr>derived_data := derived_data s @ [d]\<rparr>"

abbreviation payload_key :: "'b payload \<Rightarrow> string \<times> string" where
  "payload_key p \<equiv> (pl_tenant_id p, pl_payload_digest p)"

definition sealed_row :: "('k, 'b) crypto \<Rightarrow> ('n, 'b) key_provider \<Rightarrow> 'b payload \<Rightarrow> bool" where
  "sealed_row C K p \<longleftrightarrow>
     (\<exists>b. decrypt K (pl_tenant_id p) (pl_ciphertext p) = Inr b \<and> sha256_digest C b = pl_payload_digest p)"

definition edge_ok :: "lineage_node list \<Rightarrow> lineage_edge \<Rightarrow> bool" where
  "edge_ok ns e \<longleftrightarrow> (\<exists>a \<in> set ns. ln_id a = le_source e \<and> ln_tenant_id a = le_tenant_id e)
     \<and> (\<exists>b \<in> set ns. ln_id b = le_target e \<and> ln_tenant_id b = le_tenant_id e)"

definition lineage_ok :: "('k, 'b) crypto \<Rightarrow> ('n, 'b) key_provider \<Rightarrow> 'b lineage_db \<Rightarrow> bool" where
  "lineage_ok C K s \<longleftrightarrow>
     distinct (map payload_key (payloads s))
     \<and> list_all (sealed_row C K) (payloads s)
     \<and> distinct (map ts_id (tombstones s))
     \<and> distinct (map ln_id (lineage_nodes s))
     \<and> list_all (edge_ok (lineage_nodes s)) (lineage_edges s)"

text \<open>A unique key selects at most one row, so the lookups never raise.\<close>

lemma payload_rows_cases:
  assumes "distinct (map payload_key (payloads s))"
  shows "payload_rows t d s = []
    \<or> (\<exists>p \<in> set (payloads s). payload_rows t d s = [p] \<and> payload_key p = (t, d))"
proof (cases "\<exists>p \<in> set (payloads s). payload_key p = (t, d)")
  case True
  then obtain p where "p \<in> set (payloads s)" "payload_key p = (t, d)" by blast
  with filter_key_unique [OF assms, of p] show ?thesis by (auto simp: payload_rows_def)
next
  case False
  then show ?thesis by (auto simp: payload_rows_def filter_empty_conv)
qed

definition covers :: "tombstone \<Rightarrow> 'b payload \<Rightarrow> bool" where
  "covers t p \<longleftrightarrow> ts_resource_type t = ''payload'' \<and> payload_key p = (ts_tenant_id t, ts_resource_id t)"

definition revoked_state :: "instant \<Rightarrow> tombstone \<Rightarrow> 'b lineage_db \<Rightarrow> 'b lineage_db" where
  "revoked_state now t s =
     update_tombstone (ts_id t) (\<lambda>u. u\<lparr>ts_access_revoked_at := Some now\<rparr>)
       (s\<lparr>payloads := filter (\<lambda>p. \<not> covers t p) (payloads s)\<rparr>)"

lemma filter_others:
  assumes "distinct (map payload_key ps)" "p \<in> set ps" "payload_key p = (a, b)"
  shows "filter (\<lambda>q. q \<noteq> p) ps = filter (\<lambda>q. payload_key q \<noteq> (a, b)) ps"
proof (rule filter_cong)
  fix q assume q: "q \<in> set ps"
  have "inj_on payload_key (set ps)" using assms(1) by (simp only: distinct_map)
  from inj_on_eq_iff [OF this q assms(2)] assms(3)
  show "(q \<noteq> p) = (payload_key q \<noteq> (a, b))" by simp
qed simp

lemma revoke_access_run:
  assumes "distinct (map payload_key (payloads s))"
  shows "revoke_access now t s = (Inr (), revoked_state now t s)"
proof (cases "ts_resource_type t = ''payload''")
  case False
  then have "filter (\<lambda>p. \<not> covers t p) (payloads s) = payloads s" by (simp add: covers_def)
  with False show ?thesis by (simp add: revoke_access_def revoked_state_def op_defs)
next
  case True
  consider "payload_rows (ts_tenant_id t) (ts_resource_id t) s = []"
    | p where "p \<in> set (payloads s)" "payload_rows (ts_tenant_id t) (ts_resource_id t) s = [p]"
        "payload_key p = (ts_tenant_id t, ts_resource_id t)"
    using payload_rows_cases [OF assms] by blast
  then show ?thesis
  proof cases
    case 1
    then have "filter (\<lambda>p. \<not> covers t p) (payloads s) = payloads s"
      by (auto simp: covers_def payload_rows_def filter_empty_conv filter_id_conv)
    with 1 True show ?thesis
      by (simp add: revoke_access_def revoked_state_def one_or_none_def op_defs)
  next
    case 2
    have "filter (\<lambda>q. q \<noteq> p) (payloads s) = filter (\<lambda>q. \<not> covers t q) (payloads s)"
      using filter_others [OF assms 2(1,3)] True by (simp add: covers_def)
    with 2 True show ?thesis
      by (simp add: revoke_access_def revoked_state_def one_or_none_def delete_payload_def op_defs)
  qed
qed

lemma revoked_state_fields [simp]:
  "payloads (revoked_state now t s) = filter (\<lambda>p. \<not> covers t p) (payloads s)"
  "tombstones (revoked_state now t s) =
     map (\<lambda>u. if ts_id u = ts_id t then u\<lparr>ts_access_revoked_at := Some now\<rparr> else u) (tombstones s)"
  "derived_data (revoked_state now t s) = derived_data s"
  "lineage_nodes (revoked_state now t s) = lineage_nodes s"
  "lineage_edges (revoked_state now t s) = lineage_edges s"
  by (simp_all add: revoked_state_def update_tombstone_def)

definition revoke_all :: "instant \<Rightarrow> tombstone list \<Rightarrow> 'b lineage_db \<Rightarrow> 'b lineage_db" where
  "revoke_all now ts s =
     s\<lparr>payloads := filter (\<lambda>p. \<not> (\<exists>t \<in> set ts. covers t p)) (payloads s),
       tombstones := map (\<lambda>u. if ts_id u \<in> ts_id ` set ts then u\<lparr>ts_access_revoked_at := Some now\<rparr> else u)
                       (tombstones s)\<rparr>"

lemma distinct_map_filter_keys: "distinct (map f xs) \<Longrightarrow> distinct (map f (filter P xs))"
  by (rule distinct_map_filter)

lemma revoke_all_run:
  "distinct (map payload_key (payloads s)) \<Longrightarrow> op_for ts (revoke_access now) s = (Inr (), revoke_all now ts s)"
proof (induction ts arbitrary: s)
  case Nil
  show ?case by (simp add: op_defs revoke_all_def)
next
  case (Cons t ts)
  have "op_for (t # ts) (revoke_access now) s = op_for ts (revoke_access now) (revoked_state now t s)"
    by (simp add: op_then_def op_bind_def revoke_access_run [OF Cons.prems])
  also have "\<dots> = (Inr (), revoke_all now ts (revoked_state now t s))"
    using Cons.prems by (intro Cons.IH) (simp add: distinct_map_filter)
  also have "revoke_all now ts (revoked_state now t s) = revoke_all now (t # ts) s"
    by (auto simp: revoke_all_def revoked_state_def update_tombstone_def intro!: filter_cong)
  finally show ?case .
qed

definition overdue :: "instant \<Rightarrow> int \<Rightarrow> 'b lineage_db \<Rightarrow> tombstone list" where
  "overdue now sla s = filter (revocation_pending (now - of_seconds sla)) (tombstones s)"

lemma revocation_sweep_run:
  "distinct (map payload_key (payloads s)) \<Longrightarrow>
     run_access_revocation_sweep now sla s =
       (Inr (overdue now sla s), revoke_all now (overdue now sla s) s)"
  unfolding run_access_revocation_sweep_def op_run_simps overdue_def
  by (subst op_then_run [OF revoke_all_run]) (simp_all add: op_end_simps)

definition purged_state :: "instant \<Rightarrow> tombstone \<Rightarrow> 'b lineage_db \<Rightarrow> 'b lineage_db" where
  "purged_state now t s =
     update_tombstone (ts_id t) (\<lambda>u. u\<lparr>ts_purge_completed_at := Some now\<rparr>)
       (s\<lparr>derived_data := filter (\<lambda>d. \<not> derived_of t d) (derived_data s)\<rparr>)"

lemma purge_derived_run:
  "purge_derived_data now t s = (Inr (length (filter (derived_of t) (derived_data s))), purged_state now t s)"
  by (simp add: purge_derived_data_def op_run_simps op_end_simps purged_state_def)

definition purge_all :: "instant \<Rightarrow> tombstone list \<Rightarrow> 'b lineage_db \<Rightarrow> 'b lineage_db" where
  "purge_all now ts s =
     s\<lparr>derived_data := filter (\<lambda>d. \<not> (\<exists>t \<in> set ts. derived_of t d)) (derived_data s),
       tombstones := map (\<lambda>u. if ts_id u \<in> ts_id ` set ts then u\<lparr>ts_purge_completed_at := Some now\<rparr> else u)
                       (tombstones s)\<rparr>"

lemma purge_all_run:
  "op_for ts (\<lambda>t. op_bind (purge_derived_data now t) (\<lambda>_. op_return ())) s = (Inr (), purge_all now ts s)"
proof (induction ts arbitrary: s)
  case Nil
  show ?case by (simp add: op_defs purge_all_def)
next
  case (Cons t ts)
  have "purge_all now ts (purged_state now t s) = purge_all now (t # ts) s"
    by (auto simp: purge_all_def purged_state_def update_tombstone_def intro!: filter_cong)
  moreover have "op_bind (purge_derived_data now t) (\<lambda>_. op_return ()) s = (Inr (), purged_state now t s)"
    by (subst op_bind_run [OF purge_derived_run]) (simp add: op_run_simps op_end_simps)
  then have "op_for (t # ts) (\<lambda>t. op_bind (purge_derived_data now t) (\<lambda>_. op_return ())) s
      = (Inr (), purge_all now ts (purged_state now t s))"
    unfolding op_for.simps by (subst op_then_run) (simp_all only: Cons.IH)
  ultimately show ?case by simp
qed

definition unpurged :: "instant \<Rightarrow> int \<Rightarrow> 'b lineage_db \<Rightarrow> tombstone list" where
  "unpurged now sla s = filter (purge_pending (now - of_seconds sla)) (tombstones s)"

lemma purge_sweep_run:
  "run_derived_purge_sweep now sla s = (Inr (unpurged now sla s), purge_all now (unpurged now sla s) s)"
  unfolding run_derived_purge_sweep_def op_run_simps unpurged_def
  by (subst op_then_run [OF purge_all_run]) (simp add: op_end_simps)

section \<open>The invariant of the tables\<close>

lemma lineage_ok_empty: "lineage_ok C K empty_lineage"
  by (simp add: lineage_ok_def empty_lineage_def)

lemma list_all_filter: "list_all P xs \<Longrightarrow> list_all P (filter Q xs)"
  by (auto simp: list_all_iff)

lemma map_ts_id_if [simp]:
  "map ts_id (map (\<lambda>u. if Q u then u\<lparr>ts_access_revoked_at := x\<rparr> else u) ts) = map ts_id ts"
  "map ts_id (map (\<lambda>u. if Q u then u\<lparr>ts_purge_completed_at := x\<rparr> else u) ts) = map ts_id ts"
  by (simp_all add: comp_def if_distrib cong: if_cong)

lemma store_cases:
  assumes "distinct (map payload_key (payloads s))"
  obtains e where "store_payload C K nonce t b c s = (Inl e, s)"
  | p where "store_payload C K nonce t b c s = (Inr p, s)" "p \<in> set (payloads s)" "payload_key p = (t, sha256_digest C b)"
  | p where "store_payload C K nonce t b c s = (Inr p, s\<lparr>payloads := payloads s @ [p]\<rparr>)"
      "payload_rows t (sha256_digest C b) s = []" "encrypt K nonce t b = Inr (pl_ciphertext p)"
      "payload_key p = (t, sha256_digest C b)"
proof -
  consider "payload_rows t (sha256_digest C b) s = []"
    | p where "p \<in> set (payloads s)" "payload_rows t (sha256_digest C b) s = [p]" "payload_key p = (t, sha256_digest C b)"
    using payload_rows_cases [OF assms, of t "sha256_digest C b"] by blast
  then show thesis
  proof cases
    case 1
    show thesis
    proof (cases "encrypt K nonce t b")
      case (Inl e)
      with 1 have "store_payload C K nonce t b c s = (Inl e, s)"
        by (simp add: store_payload_def op_run_simps op_end_simps one_or_none_def)
      then show thesis by (rule that(1))
    next
      case (Inr x)
      with 1 show thesis
        by (intro that(3) [of "new_payload C K t b c x"])
          (simp_all add: store_payload_def op_run_simps op_end_simps one_or_none_def new_payload_def)
    qed
  next
    case 2
    then show thesis
      by (intro that(2)) (simp_all add: store_payload_def op_run_simps op_end_simps one_or_none_def)
  qed
qed

lemma store_ok:
  assumes "key_laws K" "lineage_ok C K s"
  shows "lineage_ok C K (snd (store_payload C K nonce t b c s))"
proof -
  from assms have "distinct (map payload_key (payloads s))" by (simp add: lineage_ok_def)
  then show ?thesis
  proof (cases rule: store_cases [where C = C and K = K and nonce = nonce and t = t and b = b and c = c])
    case (3 p)
    from 3(3) have "decrypt K t (pl_ciphertext p) = Inr b" by (rule decrypt_encrypt [OF assms(1)])
    with 3(4) have new: "sealed_row C K p" by (auto simp: sealed_row_def)
    moreover from 3(2,4) have "payload_key p \<notin> payload_key ` set (payloads s)"
      by (auto simp: payload_rows_def filter_empty_conv)
    ultimately show ?thesis using assms(2) unfolding 3(1) by (simp add: lineage_ok_def)
  qed (use assms(2) in auto)
qed

lemma get_node_Inr:
  "get_node_or_raise t i s = Inr n \<Longrightarrow> n \<in> set (lineage_nodes s) \<and> ln_id n = i \<and> ln_tenant_id n = t"
  by (auto simp: get_node_or_raise_def res_bind_Inr split: option.splits dest!: one_or_none_filter)

lemma append_edge_cases:
  obtains e where "append_edge t a b ty m s = (Inl e, s)"
  | e where "append_edge t a b ty m s = (Inr e, s\<lparr>lineage_edges := lineage_edges s @ [e]\<rparr>)"
      "edge_ok (lineage_nodes s) e" "le_tenant_id e = t" "le_source e = a" "le_target e = b" "a \<noteq> b"
proof -
  show thesis
  proof (cases "get_node_or_raise t a s")
    case (Inl x)
    then show thesis by (intro that(1)) (simp add: append_edge_def op_run_simps op_end_simps)
  next
    case a: (Inr x)
    show thesis
    proof (cases "get_node_or_raise t b s")
      case (Inl y)
      with a show thesis by (intro that(1)) (simp add: append_edge_def op_run_simps op_end_simps)
    next
      case b: (Inr y)
      show thesis
      proof (cases "a = b")
        case True
        with a b show thesis by (intro that(1)) (simp add: append_edge_def op_run_simps op_end_simps Let_def)
      next
        case False
        let ?e = "\<lparr>le_tenant_id = t, le_source = a, le_target = b, le_edge_type = ty,
                  le_metadata = (case m of None \<Rightarrow> [] | Some m \<Rightarrow> m)\<rparr>"
        have "edge_ok (lineage_nodes s) ?e"
          using get_node_Inr [OF a] get_node_Inr [OF b] by (auto simp: edge_ok_def)
        with a b False show thesis
          by (intro that(2) [of ?e]) (simp_all add: append_edge_def op_run_simps op_end_simps Let_def)
      qed
    qed
  qed
qed

lemma edge_ok_more: "edge_ok ns e \<Longrightarrow> edge_ok (ns @ ms) e"
  by (auto simp: edge_ok_def)

lemma lineage_call_ok:
  assumes "key_laws K" "lineage_ok C K s"
  shows "lineage_ok C K (do_lineage_call C K c s)"
proof (cases c)
  case (Store n t b cl)
  with store_ok [OF assms] show ?thesis by simp
next
  case (Request_deletion u now t ty r who why)
  with assms(2) show ?thesis
    by (auto simp: request_deletion_def op_run_simps op_end_simps lineage_ok_def Let_def)
next
  case (Revocation_sweep now sla)
  have "lineage_ok C K (revoke_all now ts s)" for ts
    using assms(2) by (auto simp: lineage_ok_def revoke_all_def distinct_map_filter list_all_filter simp del: map_map)
  with Revocation_sweep assms(2) show ?thesis by (simp add: revocation_sweep_run lineage_ok_def)
next
  case (Purge_sweep now sla)
  have "lineage_ok C K (purge_all now ts s)" for ts
    using assms(2) by (auto simp: lineage_ok_def purge_all_def simp del: map_map)
  with Purge_sweep show ?thesis by (simp add: purge_sweep_run)
next
  case (Append_node u t ty r m)
  with assms(2) show ?thesis
    by (auto simp: append_node_def op_run_simps op_end_simps lineage_ok_def Let_def list_all_iff edge_ok_more)
next
  case (Append_edge t a b ty m)
  show ?thesis
    by (cases rule: append_edge_cases [where t = t and a = a and b = b and ty = ty and m = m and s = s])
      (use Append_edge assms(2) in \<open>auto simp: lineage_ok_def\<close>)
next
  case (Derive d)
  with assms(2) show ?thesis by (simp add: lineage_ok_def)
qed

lemma lineage_run_ok:
  "key_laws K \<Longrightarrow> lineage_ok C K (run_calls (do_lineage_call C K) cs empty_lineage)"
  by (rule run_calls_invariant [where P = "lineage_ok C K"]) (auto intro: lineage_ok_empty lineage_call_ok)

section \<open>The recursive query is reachability\<close>


definition extension :: "(string \<times> string) set \<Rightarrow> ancestry_row \<Rightarrow> string list \<Rightarrow> bool" where
  "extension R row xs \<longleftrightarrow> successively (\<lambda>a b. (a, b) \<in> R) (fst row # xs) \<and> distinct xs \<and> set xs \<inter> set (snd row) = {}"

definition extended :: "ancestry_row \<Rightarrow> string list \<Rightarrow> ancestry_row" where
  "extended row xs = (last (fst row # xs), snd row @ xs)"

lemma extension_Nil [simp]: "extension R row []" "extended row [] = row"
  by (simp_all add: extension_def extended_def)










section \<open>Properties\<close>



text \<open>A concrete key provider and a small history: nonces are numbers, a ciphertext is a list of the key, the
  nonce, the plaintext and the associated data.\<close>

definition demo_keys :: "(nat, json) key_provider" where
  "demo_keys = \<lparr>kp_master_key = Some ''m'', kp_version = ''v1'', kp_b64decode = (\<lambda>r. Inr (JStr r)),
     kp_hkdf = (\<lambda>k info. JStr info),
     kp_encrypt = (\<lambda>k n p a. JList [k, p, JStr a]),
     kp_decrypt = (\<lambda>k n c a. case c of JList [k', p, a'] \<Rightarrow> if k' = k \<and> a' = JStr a then Some p else None | _ \<Rightarrow> None),
     kp_join = (\<lambda>n c. JList [JInt (int n), c]),
     kp_split = (\<lambda>b. case b of JList [JInt n, c] \<Rightarrow> (nat n, c) | _ \<Rightarrow> (0, b))\<rparr>"

lemma demo_key_laws: "key_laws demo_keys"
  by (simp add: key_laws_def demo_keys_def)


abbreviation demo_lineage :: "(nat, json) lineage_call list \<Rightarrow> json lineage_db" where
  "demo_lineage cs \<equiv> run_calls (do_lineage_call plain_crypto demo_keys) cs empty_lineage"


section \<open>What a deletion does\<close>

lemma read_sealed:
  assumes "lineage_ok C K s" "read_payload K t d s = Inr b"
  shows "sha256_digest C b = d"
proof -
  from assms(1) have keys: "distinct (map payload_key (payloads s))" by (simp add: lineage_ok_def)
  have "payload_rows t d s \<noteq> []"
    using assms(2)
    by (auto simp: read_payload_def raise_not_found_or_revoked_def one_or_none_def res_bind_Inr split: option.splits)
  with payload_rows_cases [OF keys, of t d] obtain p where p: "p \<in> set (payloads s)" "payload_rows t d s = [p]"
    "payload_key p = (t, d)" by blast
  with assms(1) have "sealed_row C K p" by (simp add: lineage_ok_def list_all_iff)
  with p assms(2) show ?thesis by (auto simp: read_payload_def one_or_none_def sealed_row_def)
qed

lemma stored_is_read:
  assumes "key_laws K" "lineage_ok C K s" "store_payload C K nonce t b c s = (Inr p, s')"
  shows "\<exists>b'. read_payload K t (sha256_digest C b) s' = Inr b'"
proof -
  have ok: "lineage_ok C K s'" using store_ok [OF assms(1,2), of nonce t b c] assms(3) by simp
  from assms(2) have keys: "distinct (map payload_key (payloads s))" by (simp add: lineage_ok_def)
  have "p \<in> set (payloads s') \<and> payload_key p = (t, sha256_digest C b)"
    using assms(3) by (cases rule: store_cases [OF keys, of C K nonce t b c]) auto
  moreover from ok have "distinct (map payload_key (payloads s'))" by (simp add: lineage_ok_def)
  ultimately have "payload_rows t (sha256_digest C b) s' = [p]"
    using filter_key_unique [of payload_key "payloads s'" p] by (simp add: payload_rows_def)
  moreover have "sealed_row C K p"
    using ok \<open>p \<in> set (payloads s') \<and> _\<close> by (simp add: lineage_ok_def list_all_iff)
  ultimately show ?thesis
    using \<open>p \<in> set (payloads s') \<and> _\<close> by (auto simp: read_payload_def one_or_none_def sealed_row_def)
qed

text \<open>A read never returns the wrong bytes: after any sequence of stores, deletion requests and sweeps,
  what a read returns hashes to the digest it was asked for, and a payload just stored can be read back under its
  digest, whether or not it was there before.\<close>

theorem payload_reads_are_intact:
  assumes "key_laws K"
    and "s = run_calls (do_lineage_call C K) cs empty_lineage"
    and "store_payload C K nonce t b c s = (Inr p, s')"
  shows "\<exists>b'. read_payload K t (sha256_digest C b) s' = Inr b' \<and> sha256_digest C b' = sha256_digest C b
    \<and> (read_payload K t' d s = Inr b'' \<longrightarrow> sha256_digest C b'' = d)"
proof -
  from assms(1,2) have ok: "lineage_ok C K s" by (simp add: lineage_run_ok)
  have ok': "lineage_ok C K s'" using store_ok [OF assms(1) ok, of nonce t b c] assms(3) by simp
  from stored_is_read [OF assms(1) ok assms(3)] obtain b' where "read_payload K t (sha256_digest C b) s' = Inr b'"
    by blast
  with read_sealed [OF ok'] read_sealed [OF ok] show ?thesis by blast
qed

lemma payload_reads_witness:
  "\<exists>p s' b'. store_payload plain_crypto demo_keys 7 ''acme'' (JStr ''x'') ''trace'' (demo_lineage []) = (Inr p, s')
     \<and> read_payload demo_keys ''acme'' (sha256_digest plain_crypto (JStr ''x'')) s' = Inr b'"
proof -
  have "\<not> isl (fst (store_payload plain_crypto demo_keys 7 ''acme'' (JStr ''x'') ''trace'' (demo_lineage [])))"
    by code_simp
  then obtain p s' where made: "store_payload plain_crypto demo_keys 7 ''acme'' (JStr ''x'') ''trace'' (demo_lineage []) = (Inr p, s')"
    by (metis isl_def prod.collapse sum.exhaust)
  from payload_reads_are_intact [OF demo_key_laws refl made] made show ?thesis by blast
qed

lemma swept_payload_rows:
  assumes "t \<in> set ts" "ts_resource_type t = ''payload''"
  shows "payload_rows (ts_tenant_id t) (ts_resource_id t) (revoke_all now ts s) = []"
  using assms by (auto simp: payload_rows_def revoke_all_def covers_def filter_empty_conv)

text \<open>A deletion reaches every read. Once a revocation sweep runs at or past a payload request's deadline,
  no read of that payload returns bytes: it is reported as deleted on request when exactly one of the
  tenant's requests names the payload, and fails with an unrelated error when a second request named it
  as well, because the lookup of the tombstone expects at most one row.\<close>

theorem deletion_reaches_reads:
  assumes "key_laws K"
    and "s = run_calls (do_lineage_call C K) cs empty_lineage"
    and "t \<in> set (tombstones s)" "ts_resource_type t = ''payload''" "ts_access_revoked_at t = None"
    and "ts_requested_at t + of_seconds sla \<le> now"
  shows "\<exists>pending s' revoked. run_access_revocation_sweep now sla s = (Inr pending, s')
    \<and> revoked = revoked_rows (ts_tenant_id t) (ts_resource_id t) s' \<and> revoked \<noteq> []
    \<and> read_payload K (ts_tenant_id t) (ts_resource_id t) s' =
        (if length revoked = 1
         then Inl (Lineage (PayloadAccessRevokedError (ts_resource_id t) (ts_tenant_id t) (ts_requested_at t)))
         else Inl (Foreign ''MultipleResultsFound''))"
proof -
  from assms(1,2) have "lineage_ok C K s" by (simp add: lineage_run_ok)
  then have keys: "distinct (map payload_key (payloads s))" by (simp add: lineage_ok_def)
  let ?s' = "revoke_all now (overdue now sla s) s" and ?u = "t\<lparr>ts_access_revoked_at := Some now\<rparr>"
  have due: "t \<in> set (overdue now sla s)" using assms(3,5,6) by (simp add: overdue_def revocation_pending_def)
  then have "?u \<in> set (tombstones ?s')"
    using assms(3) by (auto simp: revoke_all_def image_iff intro!: bexI [of _ t])
  then have u: "?u \<in> set (revoked_rows (ts_tenant_id t) (ts_resource_id t) ?s')"
    using assms(4) by (simp add: revoked_rows_def)
  have gone: "payload_rows (ts_tenant_id t) (ts_resource_id t) ?s' = []"
    by (rule swept_payload_rows [OF due assms(4)])
  have "read_payload K (ts_tenant_id t) (ts_resource_id t) ?s' =
      (if length (revoked_rows (ts_tenant_id t) (ts_resource_id t) ?s') = 1
       then Inl (Lineage (PayloadAccessRevokedError (ts_resource_id t) (ts_tenant_id t) (ts_requested_at t)))
       else Inl (Foreign ''MultipleResultsFound''))"
    using gone u
    by (cases "revoked_rows (ts_tenant_id t) (ts_resource_id t) ?s'"
        ; cases "tl (revoked_rows (ts_tenant_id t) (ts_resource_id t) ?s')")
      (auto simp: read_payload_def raise_not_found_or_revoked_def one_or_none_def)
  moreover have "revoked_rows (ts_tenant_id t) (ts_resource_id t) ?s' \<noteq> []" using u by auto
  ultimately show ?thesis using revocation_sweep_run [OF keys] by blast
qed

text \<open>Two requests for the same payload.\<close>

definition demo_twice :: "(nat, json) lineage_call list" where
  "demo_twice = [Store 1 ''acme'' (JStr ''x'') ''trace'',
     Request_deletion ''t1'' 0 ''acme'' ''payload'' ''sha256:0'' ''dpo'' None,
     Request_deletion ''t2'' 5 ''acme'' ''payload'' ''sha256:0'' ''dpo'' None]"

lemma deletion_reaches_reads_witness:
  "\<exists>pending s'. run_access_revocation_sweep 400000000 300 (demo_lineage demo_twice) = (Inr pending, s')
     \<and> read_payload demo_keys ''acme'' ''sha256:0'' s' = Inl (Foreign ''MultipleResultsFound'')"
proof -
  let ?t = "hd (tombstones (demo_lineage demo_twice))"
  have t: "?t \<in> set (tombstones (demo_lineage demo_twice))" "ts_resource_type ?t = ''payload''" "ts_access_revoked_at ?t = None"
    "ts_requested_at ?t + of_seconds 300 \<le> 400000000" "ts_tenant_id ?t = ''acme''" "ts_resource_id ?t = ''sha256:0''"
    by code_simp+
  have "length (revoked_rows ''acme'' ''sha256:0''
      (snd (run_access_revocation_sweep 400000000 300 (demo_lineage demo_twice)))) = 2"
    by code_simp
  with deletion_reaches_reads [OF demo_key_laws refl t(1-4)] t(5,6) show ?thesis by auto
qed

section \<open>Deletions complete, and sweeping again changes nothing\<close>

lemma revoke_all_Nil [simp]: "revoke_all now [] s = s"
  by (simp add: revoke_all_def)

lemma purge_all_Nil [simp]: "purge_all now [] s = s"
  by (simp add: purge_all_def)





end
