(* ===== verification/Backup.thy ===== *)
theory Backup
  imports Lineage
begin

text \<open>
  Backup tiers and retention (\<^verbatim>\<open>lineage/backup.py\<close>, \<^verbatim>\<open>tenancy/retention.py\<close>): the tier as an ordered
  dictionary of copies, scheduling, the age-out sweep, the refusing restore and the coverage audit; the
  signed retention document with its validation, and the two checks that tie it to the knobs. A restore
  and an audit are told by their caller which payloads are tombstoned. The lemmas show what a clean
  audit guarantees.
\<close>

section \<open>The tier (lineage/backup.py)\<close>

definition PRIMARY_AGE_OUT_DAYS :: int where
  "PRIMARY_AGE_OUT_DAYS = 7"

definition BACKUP_AGE_OUT_DAYS :: int where
  "BACKUP_AGE_OUT_DAYS = 35"

record backup_age_out_policy =
  primary_age_out_days :: int
  backup_age_out_days :: int

definition default_age_out :: backup_age_out_policy where
  "default_age_out = \<lparr>primary_age_out_days = PRIMARY_AGE_OUT_DAYS, backup_age_out_days = BACKUP_AGE_OUT_DAYS\<rparr>"

definition deadline_for :: "backup_age_out_policy \<Rightarrow> string \<Rightarrow> instant \<Rightarrow> instant" where
  "deadline_for policy tier deleted_at =
     deleted_at + days (if tier = ''primary'' then primary_age_out_days policy else backup_age_out_days policy)"

record 'b backup_entry =
  be_tenant_id :: string
  be_payload_digest :: string
  be_tier :: string
  be_stored_at :: instant
  be_content :: 'b
  be_age_out_at :: "instant option"

type_synonym 'b backup_tier = "(string \<times> string, 'b backup_entry) dict"

definition tier_put :: "'b backup_entry \<Rightarrow> 'b backup_tier \<Rightarrow> 'b backup_tier" where
  "tier_put entry tier = AList.update (be_tenant_id entry, be_payload_digest entry) entry tier"

definition tier_get :: "string \<Rightarrow> string \<Rightarrow> 'b backup_tier \<Rightarrow> 'b backup_entry option" where
  "tier_get tenant_id payload_digest tier = map_of tier (tenant_id, payload_digest)"

definition tier_delete :: "string \<Rightarrow> string \<Rightarrow> 'b backup_tier \<Rightarrow> bool \<times> 'b backup_tier" where
  "tier_delete tenant_id payload_digest tier =
     (map_of tier (tenant_id, payload_digest) \<noteq> None, AList.delete (tenant_id, payload_digest) tier)"

definition entries :: "'b backup_tier \<Rightarrow> 'b backup_entry list" where
  "entries tier = map snd tier"

text \<open>The tier hands out the entry object itself, so assigning its deadline changes the stored copy.\<close>

definition schedule_age_out ::
  "string \<Rightarrow> string \<Rightarrow> instant \<Rightarrow> backup_age_out_policy \<Rightarrow> (exn, 'b backup_tier, 'b backup_entry) op" where
  "schedule_age_out tenant_id payload_digest deleted_at policy =
     op_bind (op_gets (tier_get tenant_id payload_digest)) (\<lambda>found.
       case found of
         None \<Rightarrow> op_raise (Lineage (TombstoneCoverageError payload_digest tenant_id))
       | Some entry \<Rightarrow>
           let entry' = entry\<lparr>be_age_out_at := Some (deadline_for policy (be_tier entry) deleted_at)\<rparr>
           in op_then (op_modify (AList.update (tenant_id, payload_digest) entry')) (op_return entry'))"

definition aged_out :: "instant \<Rightarrow> 'b backup_entry \<Rightarrow> bool" where
  "aged_out now entry = (case be_age_out_at entry of None \<Rightarrow> False | Some deadline \<Rightarrow> deadline \<le> now)"

fun age_out_loop :: "instant \<Rightarrow> 'b backup_entry list \<Rightarrow> 'b backup_tier \<Rightarrow> string list \<times> 'b backup_tier" where
  "age_out_loop now [] tier = ([], tier)"
| "age_out_loop now (entry # rest) tier =
     (if aged_out now entry
      then (let tier' = snd (tier_delete (be_tenant_id entry) (be_payload_digest entry) tier);
                (purged, tier'') = age_out_loop now rest tier'
            in (be_payload_digest entry # purged, tier''))
      else age_out_loop now rest tier)"

definition run_age_out_sweep :: "instant \<Rightarrow> 'b backup_tier \<Rightarrow> string list \<times> 'b backup_tier" where
  "run_age_out_sweep now tier = age_out_loop now (entries tier) tier"

definition restore :: "string \<Rightarrow> string \<Rightarrow> bool \<Rightarrow> 'b backup_tier \<Rightarrow> exn + 'b" where
  "restore tenant_id payload_digest tombstone_exists tier =
     (if tombstone_exists then Inl (Lineage (RestoreRefusedError payload_digest))
      else (case tier_get tenant_id payload_digest tier of
              None \<Rightarrow> Inl (KeyError ''no backup copy'')
            | Some entry \<Rightarrow> Inr (be_content entry)))"

definition audit_tombstone_coverage :: "string list \<Rightarrow> 'b backup_tier \<Rightarrow> 'b backup_entry list" where
  "audit_tombstone_coverage tombstoned_digests tier =
     filter (\<lambda>entry. be_payload_digest entry \<in> set tombstoned_digests \<and> be_age_out_at entry = None) (entries tier)"

section \<open>The retention document (tenancy/retention.py)\<close>

definition SEED_RETENTION_POLICY_ID :: string where
  "SEED_RETENTION_POLICY_ID = ''evoruntime-seed-retention-policy''"

definition TRACE_RETENTION_DAYS :: int where "TRACE_RETENTION_DAYS = 90"
definition PAYLOAD_RETENTION_DAYS :: int where "PAYLOAD_RETENTION_DAYS = 30"
definition DERIVED_CRYPTO_ERASURE_SLA_HOURS :: int where "DERIVED_CRYPTO_ERASURE_SLA_HOURS = 24"
definition BACKUP_CRYPTO_ERASURE_DAYS :: int where "BACKUP_CRYPTO_ERASURE_DAYS = 30"

definition INDEFINITE_RETENTION_RECORDS :: "string list" where
  "INDEFINITE_RETENTION_RECORDS =
     [''evaluation_attestations'', ''admission_records'', ''ledger_rows'', ''tombstones'']"

record retention_policy_document =
  rd_tenant_id :: string
  rd_policy_id :: string
  rd_policy_version :: int
  trace_retention_days :: int
  payload_retention_days :: int
  payload_retention_follows_lineage :: bool
  indefinite_retention_records :: "string list"
  derived_crypto_erasure_sla_hours :: int
  backup_crypto_erasure_days :: int

definition retention_refused :: "string \<Rightarrow> exn + 'a" where
  "retention_refused why = Inl (Retention (RetentionPolicyError why))"

definition validate_retention :: "retention_policy_document \<Rightarrow> exn + unit" where
  "validate_retention d =
     (if rd_tenant_id d = [] then retention_refused ''tenant_id must be a non-empty string''
      else if trace_retention_days d < 1 then retention_refused ''trace_retention_days must be >= 1''
      else if payload_retention_days d < 1 then retention_refused ''payload_retention_days must be >= 1''
      else if derived_crypto_erasure_sla_hours d < 1
        then retention_refused ''derived_crypto_erasure_sla_hours must be >= 1''
      else if backup_crypto_erasure_days d < 1 then retention_refused ''backup_crypto_erasure_days must be >= 1''
      else if filter (\<lambda>r. r \<notin> set (indefinite_retention_records d)) INDEFINITE_RETENTION_RECORDS \<noteq> []
        then retention_refused ''the evidence substrate is never purgeable''
      else Inr ())"

definition new_retention_policy :: "retention_policy_document \<Rightarrow> exn + retention_policy_document" where
  "new_retention_policy d = res_bind (validate_retention d) (\<lambda>_. Inr d)"

definition payload_retention_days_for :: "bool \<Rightarrow> retention_policy_document \<Rightarrow> int option" where
  "payload_retention_days_for lineage_referenced d =
     (if lineage_referenced \<and> payload_retention_follows_lineage d then None
      else Some (payload_retention_days d))"

definition retention_json :: "retention_policy_document \<Rightarrow> json" where
  "retention_json d =
     JObj [(''tenant_id'', JStr (rd_tenant_id d)), (''policy_id'', JStr (rd_policy_id d)),
           (''policy_version'', JInt (rd_policy_version d)),
           (''trace_retention_days'', JInt (trace_retention_days d)),
           (''payload_retention_days'', JInt (payload_retention_days d)),
           (''payload_retention_follows_lineage'', JBool (payload_retention_follows_lineage d)),
           (''indefinite_retention_records'', JList (map JStr (sort (remdups (indefinite_retention_records d))))),
           (''derived_crypto_erasure_sla_hours'', JInt (derived_crypto_erasure_sla_hours d)),
           (''backup_crypto_erasure_days'', JInt (backup_crypto_erasure_days d))]"

definition retention_bytes :: "('k, 'b) crypto \<Rightarrow> retention_policy_document \<Rightarrow> 'b" where
  "retention_bytes C d = canonical_json C (retention_json d)"

definition retention_digest :: "('k, 'b) crypto \<Rightarrow> retention_policy_document \<Rightarrow> string" where
  "retention_digest C d = sha256_digest C (retention_bytes C d)"

record 'b signed_retention_policy =
  sr_document :: retention_policy_document
  sr_signature :: 'b
  sr_public_key :: 'b

text \<open>Base64 keeps the bytes; the signature and the key are stored as bytes here.\<close>

definition sign_retention_policy ::
  "('k, 'b) crypto \<Rightarrow> 'k \<Rightarrow> retention_policy_document \<Rightarrow> 'b signed_retention_policy" where
  "sign_retention_policy C private_key d =
     \<lparr>sr_document = d, sr_signature = cr_sign C private_key (retention_bytes C d),
      sr_public_key = cr_public C private_key\<rparr>"

definition retention_verify :: "('k, 'b) crypto \<Rightarrow> 'b signed_retention_policy \<Rightarrow> exn + unit" where
  "retention_verify C s =
     (if cr_verify C (sr_signature s) (sr_public_key s) (retention_bytes C (sr_document s)) then Inr ()
      else Inl (Retention (UnsignedRetentionPolicyError (rd_policy_id (sr_document s)) (rd_tenant_id (sr_document s)))))"

definition retention_default :: "string \<Rightarrow> retention_policy_document" where
  "retention_default tenant_id =
     \<lparr>rd_tenant_id = tenant_id, rd_policy_id = SEED_RETENTION_POLICY_ID, rd_policy_version = 1,
      trace_retention_days = TRACE_RETENTION_DAYS, payload_retention_days = PAYLOAD_RETENTION_DAYS,
      payload_retention_follows_lineage = True, indefinite_retention_records = INDEFINITE_RETENTION_RECORDS,
      derived_crypto_erasure_sla_hours = DERIVED_CRYPTO_ERASURE_SLA_HOURS,
      backup_crypto_erasure_days = BACKUP_CRYPTO_ERASURE_DAYS\<rparr>"

definition seed_retention_policy :: "string \<Rightarrow> exn + retention_policy_document" where
  "seed_retention_policy tenant_id = new_retention_policy (retention_default tenant_id)"

definition derived_erasure_sla_seconds :: "int \<Rightarrow> exn + int" where
  "derived_erasure_sla_seconds derived_purge_sla_seconds =
     (if derived_purge_sla_seconds \<noteq> DERIVED_CRYPTO_ERASURE_SLA_HOURS * 3600
      then retention_refused ''the settings contradict the signed retention policy''
      else Inr derived_purge_sla_seconds)"

definition retention_age_out_policy :: backup_age_out_policy where
  "retention_age_out_policy = \<lparr>primary_age_out_days = 7, backup_age_out_days = BACKUP_CRYPTO_ERASURE_DAYS\<rparr>"

section \<open>What a clean audit guarantees\<close>

datatype 'b backup_call =
    Tier_put "'b backup_entry"
  | Tier_delete string string
  | Schedule string string instant backup_age_out_policy
  | Age_out instant

fun do_backup_call :: "'b backup_call \<Rightarrow> 'b backup_tier \<Rightarrow> 'b backup_tier" where
  "do_backup_call (Tier_put e) tier = tier_put e tier"
| "do_backup_call (Tier_delete t d) tier = snd (tier_delete t d tier)"
| "do_backup_call (Schedule t d deleted p) tier = snd (schedule_age_out t d deleted p tier)"
| "do_backup_call (Age_out now) tier = snd (run_age_out_sweep now tier)"

text \<open>Every copy is filed under its own tenant and digest.\<close>

definition tier_ok :: "'b backup_tier \<Rightarrow> bool" where
  "tier_ok tier \<longleftrightarrow> dict_ok tier \<and> list_all (\<lambda>(k, e). k = (be_tenant_id e, be_payload_digest e)) tier"

lemma list_all_update: "list_all P d \<Longrightarrow> P (k, v) \<Longrightarrow> list_all P (AList.update k v d)"
  by (induction d) auto

lemma tier_ok_filter: "tier_ok tier \<Longrightarrow> tier_ok (filter P tier)"
  by (auto simp: tier_ok_def dict_ok_def distinct_map_filter list_all_filter)

abbreviation entry_key :: "'b backup_entry \<Rightarrow> string \<times> string" where
  "entry_key e \<equiv> (be_tenant_id e, be_payload_digest e)"

lemma age_out_loop_run:
  "age_out_loop now es tier =
    (map be_payload_digest (filter (aged_out now) es),
     filter (\<lambda>p. fst p \<notin> entry_key ` set (filter (aged_out now) es)) tier)"
proof (induction es arbitrary: tier)
  case (Cons e es)
  show ?case
  proof (cases "aged_out now e")
    case True
    have "filter (\<lambda>p. fst p \<notin> K) (filter (\<lambda>(k', _). k \<noteq> k') tier) = filter (\<lambda>p. fst p \<notin> insert k K) tier" for k K
      by (simp add: filter_filter case_prod_unfold) (metis (lifting))
    with True Cons.IH show ?thesis by (simp add: tier_delete_def AList.delete_eq Let_def)
  next
    case False
    with Cons.IH show ?thesis by simp
  qed
qed simp

lemma age_out_sweep_run:
  assumes "tier_ok tier"
  shows "run_age_out_sweep now tier =
    (map be_payload_digest (filter (aged_out now) (entries tier)), filter (\<lambda>p. \<not> aged_out now (snd p)) tier)"
proof -
  have "fst p \<in> entry_key ` set (filter (aged_out now) (entries tier)) \<longleftrightarrow> aged_out now (snd p)" if "p \<in> set tier" for p
  proof
    assume "fst p \<in> entry_key ` set (filter (aged_out now) (entries tier))"
    then obtain q where q: "q \<in> set tier" "aged_out now (snd q)" "fst p = entry_key (snd q)"
      by (auto simp: entries_def)
    with assms have "fst p = fst q" by (auto simp: tier_ok_def list_all_iff)
    with assms that q(1) have "p = q" by (auto simp: tier_ok_def dict_ok_def distinct_map inj_on_def)
    with q(2) show "aged_out now (snd p)" by simp
  next
    assume "aged_out now (snd p)"
    moreover from assms that have "fst p = entry_key (snd p)" by (auto simp: tier_ok_def list_all_iff)
    ultimately show "fst p \<in> entry_key ` set (filter (aged_out now) (entries tier))"
      using that by (auto simp: entries_def)
  qed
  then have "filter (\<lambda>p. fst p \<notin> entry_key ` set (filter (aged_out now) (entries tier))) tier
      = filter (\<lambda>p. \<not> aged_out now (snd p)) tier"
    by (intro filter_cong) auto
  then show ?thesis by (simp add: run_age_out_sweep_def age_out_loop_run)
qed

lemma schedule_cases:
  "(\<exists>e. schedule_age_out t d deleted policy tier = (Inl e, tier))
   \<or> (\<exists>e e'. map_of tier (t, d) = Some e \<and> entry_key e' = entry_key e
        \<and> be_age_out_at e' = Some (deadline_for policy (be_tier e) deleted)
        \<and> schedule_age_out t d deleted policy tier = (Inr e', AList.update (t, d) e' tier))"
  by (cases "map_of tier (t, d)")
    (auto simp: schedule_age_out_def tier_get_def op_run_simps op_end_simps Let_def)

lemma backup_call_ok: "tier_ok tier \<Longrightarrow> tier_ok (do_backup_call c tier)"
proof (cases c)
  case (Tier_put e)
  moreover assume "tier_ok tier"
  ultimately show ?thesis by (auto simp: tier_put_def tier_ok_def intro!: list_all_update)
next
  case (Tier_delete t d)
  moreover assume "tier_ok tier"
  ultimately show ?thesis by (simp add: tier_delete_def AList.delete_eq tier_ok_filter)
next
  case (Schedule t d deleted p)
  assume ok: "tier_ok tier"
  consider e where "schedule_age_out t d deleted p tier = (Inl e, tier)"
    | e e' where "map_of tier (t, d) = Some e" "entry_key e' = entry_key e"
        "schedule_age_out t d deleted p tier = (Inr e', AList.update (t, d) e' tier)"
    using schedule_cases [of t d deleted p tier] by blast
  then show ?thesis
  proof cases
    case 2
    from 2(1) have "((t, d), e) \<in> set tier" by (rule map_of_SomeD)
    with ok have "entry_key e = (t, d)" by (auto simp: tier_ok_def list_all_iff)
    with ok 2 Schedule show ?thesis by (auto simp: tier_ok_def intro!: list_all_update)
  qed (use ok Schedule in simp)
next
  case (Age_out now)
  moreover assume "tier_ok tier"
  ultimately show ?thesis by (simp add: age_out_sweep_run tier_ok_filter)
qed

lemma backup_run_ok: "tier_ok (run_calls do_backup_call cs [])"
  by (rule run_calls_invariant [where P = tier_ok]) (simp_all add: backup_call_ok, simp add: tier_ok_def dict_ok_def)

text \<open>C15: A clean audit is a guarantee. After any use of a tier, if the audit reports no uncovered copy of the
  tombstoned digests and the scheduled deadlines of those copies have passed, the age-out sweep leaves no
  copy of any tombstoned payload: restoring one fails even when its caller forgets the tombstone. Copies
  without a deadline are the live payloads, and the sweep keeps every one of them.\<close>

theorem covered_copies_never_resurface:
  assumes "tier = run_calls do_backup_call cs []"
    and "audit_tombstone_coverage digests tier = []"
    and "list_all (\<lambda>e. be_payload_digest e \<in> set digests \<longrightarrow> the (be_age_out_at e) \<le> now) (entries tier)"
    and "digest \<in> set digests"
  shows "restore tenant digest tombstone_exists (snd (run_age_out_sweep now tier)) =
      Inl (if tombstone_exists then Lineage (RestoreRefusedError digest) else KeyError ''no backup copy'')
    \<and> filter (\<lambda>e. be_age_out_at e = None) (entries (snd (run_age_out_sweep now tier)))
        = filter (\<lambda>e. be_age_out_at e = None) (entries tier)"
proof -
  have ok: "tier_ok tier" by (simp add: assms(1) backup_run_ok)
  let ?after = "filter (\<lambda>p. \<not> aged_out now (snd p)) tier"
  have "aged_out now e" if "e \<in> set (entries tier)" "be_payload_digest e = digest" for e
    using that assms(2-4)
    by (fastforce simp: audit_tombstone_coverage_def filter_empty_conv aged_out_def list_all_iff
      split: option.splits)
  moreover have "be_payload_digest e = digest" if "((tenant, digest), e) \<in> set tier" for e
    using ok that by (auto simp: tier_ok_def list_all_iff)
  ultimately have "map_of ?after (tenant, digest) = None"
    by (force simp: map_of_eq_None_iff entries_def)
  moreover have "filter (\<lambda>e. be_age_out_at e = None) (entries ?after) = filter (\<lambda>e. be_age_out_at e = None) (entries tier)"
    by (auto simp: entries_def filter_map comp_def aged_out_def intro!: arg_cong [of _ _ "map snd"] filter_cong)
  ultimately show ?thesis by (simp add: age_out_sweep_run [OF ok] restore_def tier_get_def)
qed

definition demo_copy :: "string backup_entry" where
  "demo_copy = \<lparr>be_tenant_id = ''acme'', be_payload_digest = ''d1'', be_tier = ''backup'', be_stored_at = 0,
     be_content = ''bytes'', be_age_out_at = None\<rparr>"

definition demo_tier_calls :: "string backup_call list" where
  "demo_tier_calls = [Tier_put demo_copy, Tier_put (demo_copy\<lparr>be_payload_digest := ''d2''\<rparr>),
     Schedule ''acme'' ''d1'' 10 default_age_out]"

lemma covered_copies_witness:
  "restore ''acme'' ''d1'' False (snd (run_age_out_sweep 4000000000000 (run_calls do_backup_call demo_tier_calls [])))
     = Inl (KeyError ''no backup copy'')"
proof -
  have clean: "audit_tombstone_coverage [''d1''] (run_calls do_backup_call demo_tier_calls []) = []"
    "list_all (\<lambda>e. be_payload_digest e \<in> set [''d1''] \<longrightarrow> the (be_age_out_at e) \<le> 4000000000000)
       (entries (run_calls do_backup_call demo_tier_calls []))"
    "''d1'' \<in> set [''d1'']"
    by code_simp+
  from covered_copies_never_resurface [OF refl clean, of "''acme''" False] show ?thesis by simp
qed

end
