(* ===== verification/Registry.thy ===== *)
theory Registry
  imports Lineage
begin

text \<open>
  The artifact registry (\<^verbatim>\<open>registry/service.py\<close>, \<^verbatim>\<open>registry/canonical.py\<close>, the rows of
  \<^verbatim>\<open>db/models/registry.py\<close>): content-addressed artifacts over the payload store, proposals and composite
  members, attestations, the status-event log with its current-status view, and signed release manifests
  with the activation check. The session belongs to the caller, so a call that raises leaves what it has
  flushed. Row ids, nonces and clock readings are arguments. The lemmas show that the dependency graph is
  acyclic by construction, what activation refuses, that reads return what was registered and that every
  attestation verifies.
\<close>

section \<open>Bodies and digests (registry/canonical.py)\<close>

definition payload_body_digest :: "('k, 'b) crypto \<Rightarrow> 'b \<Rightarrow> string" where
  "payload_body_digest C canonical_bytes =
     ''sha256:'' @ cr_sha256 C canonical_bytes @ '':'' @ nat_str (cr_length C canonical_bytes)"

definition artifact_digest_for ::
  "('k, 'b) crypto \<Rightarrow> string \<Rightarrow> string \<Rightarrow> string list \<Rightarrow> json_object \<Rightarrow> string" where
  "artifact_digest_for C artifact_type canonical_body_digest dependencies capability_requests =
     sha256_digest C (canonical_json C (JObj
       [(''artifact_type'', JStr artifact_type), (''canonical_body_digest'', JStr canonical_body_digest),
        (''dependencies'', JList (map JStr dependencies)), (''capability_requests'', JObj capability_requests)]))"

definition attestation_body_bytes ::
  "('k, 'b) crypto \<Rightarrow> string \<Rightarrow> string \<Rightarrow> string \<Rightarrow> json_object \<Rightarrow> string \<Rightarrow> 'b" where
  "attestation_body_bytes C artifact_digest evaluator_subject outcome result_metrics evaluation_payload_digest =
     canonical_json C (JObj
       [(''artifact_digest'', JStr artifact_digest), (''evaluator_subject'', JStr evaluator_subject),
        (''outcome'', JStr outcome), (''result_metrics'', JObj result_metrics),
        (''evaluation_payload_digest'', JStr evaluation_payload_digest)])"

definition STORAGE_URI_SCHEME :: string where
  "STORAGE_URI_SCHEME = ''evoruntime-payload''"

definition storage_uri_for :: "string \<Rightarrow> string" where
  "storage_uri_for payload_digest = STORAGE_URI_SCHEME @ ''://'' @ payload_digest"

text \<open>\<^verbatim>\<open>new_id(prefix)\<close> over a drawn UUID.\<close>

definition new_id :: "string \<Rightarrow> string \<Rightarrow> string" where
  "new_id id_prefix uid = id_prefix @ ''_'' @ uid"

section \<open>Rows (db/models/registry.py)\<close>

definition STATUS_EVENT_KINDS :: "string list" where
  "STATUS_EVENT_KINDS = [''nominate'', ''reject'', ''revoke'', ''expire'', ''quarantine'', ''supersede'']"

record artifact_content =
  ac_tenant_id :: string
  ac_artifact_id :: string
  ac_digest :: string
  ac_artifact_type :: string
  ac_canonical_body_digest :: string
  ac_dependencies :: "string list"
  ac_capability_requests :: json_object
  ac_storage_uri :: string

record proposal_record =
  pr_tenant :: string
  pr_proposal_id :: string
  pr_proposed_digest :: string
  pr_parent_digest :: "string option"
  pr_strategy_id :: string
  pr_campaign_id :: "string option"
  pr_metadata :: json_object

record proposal_member_record =
  pm_tenant_id :: string
  pm_proposal_id :: string
  pm_position :: nat
  pm_artifact_type :: string
  pm_member_digest :: string
  pm_parent_digest :: "string option"
  pm_patch :: json_object
  pm_declared_executables :: "json list"

record 'b evaluation_attestation =
  ea_tenant_id :: string
  ea_attestation_id :: string
  ea_artifact_digest :: string
  ea_evaluator_subject :: string
  ea_outcome :: string
  ea_result_metrics :: json_object
  ea_evaluation_payload_digest :: string
  ea_signature :: 'b
  ea_signer_public_key :: 'b

record artifact_status_event =
  se_id :: string
  se_tenant_id :: string
  se_event_id :: string
  se_artifact_digest :: string
  se_kind :: string
  se_actor_identity :: string
  se_reason :: "string option"
  se_created_at :: instant

record 'b release_manifest_row =
  mr_tenant_id :: string
  mr_manifest_id :: string
  mr_manifest_digest :: string
  mr_artifact_digests :: "string list"
  mr_adapter_versions :: json_object
  mr_model_routes :: json_object
  mr_policies :: json_object
  mr_prior_release_digest :: "string option"
  mr_storage_uri :: string
  mr_signature :: 'b
  mr_signer_public_key :: 'b

record 'b registry_db =
  rg_lineage :: "'b lineage_db"
  rg_artifacts :: "artifact_content list"
  rg_proposals :: "proposal_record list"
  rg_members :: "proposal_member_record list"
  rg_attestations :: "'b evaluation_attestation list"
  rg_events :: "artifact_status_event list"
  rg_manifests :: "'b release_manifest_row list"

definition empty_registry :: "'b registry_db" where
  "empty_registry = \<lparr>rg_lineage = empty_lineage, rg_artifacts = [], rg_proposals = [], rg_members = [],
     rg_attestations = [], rg_events = [], rg_manifests = []\<rparr>"

section \<open>Lookups\<close>

definition find_artifact :: "string \<Rightarrow> string \<Rightarrow> 'b registry_db \<Rightarrow> exn + artifact_content option" where
  "find_artifact tenant_id digest s =
     one_or_none (filter (\<lambda>a. ac_tenant_id a = tenant_id \<and> ac_digest a = digest) (rg_artifacts s))"

definition require_artifact :: "string \<Rightarrow> string \<Rightarrow> 'b registry_db \<Rightarrow> exn + artifact_content" where
  "require_artifact tenant_id digest s =
     res_bind (find_artifact tenant_id digest s) (\<lambda>found.
       case found of None \<Rightarrow> Inl (Registry (ArtifactNotFoundError digest tenant_id)) | Some a \<Rightarrow> Inr a)"

definition require_manifest :: "string \<Rightarrow> string \<Rightarrow> 'b registry_db \<Rightarrow> exn + 'b release_manifest_row" where
  "require_manifest tenant_id manifest_digest s =
     res_bind (one_or_none (filter (\<lambda>m. mr_tenant_id m = tenant_id \<and> mr_manifest_digest m = manifest_digest)
                              (rg_manifests s))) (\<lambda>found.
       case found of None \<Rightarrow> Inl (Registry (ArtifactNotFoundError manifest_digest tenant_id)) | Some m \<Rightarrow> Inr m)"

definition get_artifact :: "string \<Rightarrow> string \<Rightarrow> 'b registry_db \<Rightarrow> exn + artifact_content" where
  "get_artifact = require_artifact"

fun require_all :: "string \<Rightarrow> string list \<Rightarrow> 'b registry_db \<Rightarrow> exn + unit" where
  "require_all tenant_id [] s = Inr ()"
| "require_all tenant_id (d # ds) s = res_bind (require_artifact tenant_id d s) (\<lambda>_. require_all tenant_id ds s)"

definition circular :: "string \<Rightarrow> exn" where
  "circular digest = Registry (CircularMetadataError digest)"

section \<open>Artifacts\<close>

definition op_lineage :: "(exn, 'b lineage_db, 'a) op \<Rightarrow> (exn, 'b registry_db, 'a) op" where
  "op_lineage = op_zoom rg_lineage (\<lambda>l s. s\<lparr>rg_lineage := l\<rparr>)"

definition new_artifact ::
  "('k, 'b) crypto \<Rightarrow> string \<Rightarrow> string \<Rightarrow> string \<Rightarrow> 'b \<Rightarrow> string list \<Rightarrow> json_object \<Rightarrow> 'b payload
     \<Rightarrow> artifact_content" where
  "new_artifact C uid tenant_id artifact_type canonical_bytes dependencies capability_requests payload =
     \<lparr>ac_tenant_id = tenant_id, ac_artifact_id = new_id ''art'' uid,
      ac_digest = artifact_digest_for C artifact_type (payload_body_digest C canonical_bytes) dependencies capability_requests,
      ac_artifact_type = artifact_type, ac_canonical_body_digest = payload_body_digest C canonical_bytes,
      ac_dependencies = dependencies, ac_capability_requests = capability_requests,
      ac_storage_uri = storage_uri_for (pl_payload_digest payload)\<rparr>"

definition insert_artifact :: "artifact_content \<Rightarrow> (exn, 'b registry_db, artifact_content) op" where
  "insert_artifact a =
     op_then (op_require (\<lambda>s. ac_artifact_id a \<notin> ac_artifact_id ` set (rg_artifacts s)
                \<and> (ac_tenant_id a, ac_digest a) \<notin> (\<lambda>x. (ac_tenant_id x, ac_digest x)) ` set (rg_artifacts s))
                integrity_error)
       (op_then (op_modify (\<lambda>s. s\<lparr>rg_artifacts := rg_artifacts s @ [a]\<rparr>)) (op_return a))"

definition register_artifact ::
  "('k, 'b) crypto \<Rightarrow> ('n, 'b) key_provider \<Rightarrow> string \<Rightarrow> 'n \<Rightarrow> string \<Rightarrow> string \<Rightarrow> 'b \<Rightarrow> string list
     \<Rightarrow> json_object \<Rightarrow> string option \<Rightarrow> string \<Rightarrow> (exn, 'b registry_db, artifact_content) op" where
  "register_artifact C K uid nonce tenant_id artifact_type canonical_bytes dependencies capability_requests
       expected_digest data_classification =
     (if expected_digest \<noteq> None \<and> the expected_digest \<in> set dependencies
      then op_raise (circular (the expected_digest))
      else
        (let digest = artifact_digest_for C artifact_type (payload_body_digest C canonical_bytes) dependencies
                        capability_requests
         in if expected_digest \<noteq> None \<and> the expected_digest \<noteq> digest
            then op_raise (Registry (DigestMismatchError (the expected_digest) digest))
            else op_bind (op_read (find_artifact tenant_id digest)) (\<lambda>existing.
              case existing of
                Some a \<Rightarrow> op_return a
              | None \<Rightarrow>
                  op_bind (op_read (require_all tenant_id dependencies)) (\<lambda>_.
                  op_bind (op_lineage (store_payload C K nonce tenant_id canonical_bytes data_classification)) (\<lambda>payload.
                    insert_artifact (new_artifact C uid tenant_id artifact_type canonical_bytes dependencies
                      capability_requests payload))))))"

definition read_artifact ::
  "('k, 'b) crypto \<Rightarrow> ('n, 'b) key_provider \<Rightarrow> string \<Rightarrow> string \<Rightarrow> 'b registry_db \<Rightarrow> exn + 'b" where
  "read_artifact C K tenant_id digest s =
     res_bind (require_artifact tenant_id digest s) (\<lambda>a.
     res_bind (read_payload K tenant_id (removeprefix (STORAGE_URI_SCHEME @ ''://'') (ac_storage_uri a)) (rg_lineage s))
       (\<lambda>plaintext.
         let recomputed_body = payload_body_digest C plaintext
         in if recomputed_body \<noteq> ac_canonical_body_digest a
            then Inl (Registry (DigestMismatchError recomputed_body (ac_canonical_body_digest a)))
            else (let recomputed = artifact_digest_for C (ac_artifact_type a) recomputed_body (ac_dependencies a)
                                     (ac_capability_requests a)
                  in if recomputed \<noteq> ac_digest a then Inl (Registry (DigestMismatchError recomputed (ac_digest a)))
                     else Inr plaintext)))"

section \<open>Proposals\<close>

definition insert_proposal :: "proposal_record \<Rightarrow> (exn, 'b registry_db, proposal_record) op" where
  "insert_proposal p =
     op_then (op_require (\<lambda>s. pr_proposal_id p \<notin> pr_proposal_id ` set (rg_proposals s)) integrity_error)
       (op_then (op_modify (\<lambda>s. s\<lparr>rg_proposals := rg_proposals s @ [p]\<rparr>)) (op_return p))"

definition invalid_proposal :: "string \<Rightarrow> exn" where
  "invalid_proposal why = Registry (InvalidProposalError why)"

definition require_optional :: "string \<Rightarrow> string option \<Rightarrow> 'b registry_db \<Rightarrow> exn + unit" where
  "require_optional tenant_id digest s =
     (case digest of None \<Rightarrow> Inr () | Some d \<Rightarrow> res_bind (require_artifact tenant_id d s) (\<lambda>_. Inr ()))"

definition record_proposal ::
  "string \<Rightarrow> string \<Rightarrow> string \<Rightarrow> string \<Rightarrow> string option \<Rightarrow> string option \<Rightarrow> json_object option
     \<Rightarrow> (exn, 'b registry_db, proposal_record) op" where
  "record_proposal uid tenant_id proposed_digest strategy_id parent_digest campaign_id proposal_metadata =
     (if py_blank strategy_id then op_raise (invalid_proposal ''strategy_id must be a non-empty identifier'')
      else if parent_digest = Some proposed_digest then op_raise (circular proposed_digest)
      else op_bind (op_read (require_artifact tenant_id proposed_digest)) (\<lambda>_.
           op_bind (op_read (require_optional tenant_id parent_digest)) (\<lambda>_.
             insert_proposal \<lparr>pr_tenant = tenant_id, pr_proposal_id = new_id ''prp'' uid,
               pr_proposed_digest = proposed_digest, pr_parent_digest = parent_digest,
               pr_strategy_id = strategy_id, pr_campaign_id = campaign_id,
               pr_metadata = (case proposal_metadata of None \<Rightarrow> [] | Some m \<Rightarrow> m)\<rparr>)))"

text \<open>A member is a mapping whose values may have any type.\<close>

definition member_str :: "string \<Rightarrow> json_object \<Rightarrow> string option" where
  "member_str key member = (case map_of member key of Some (JStr v) \<Rightarrow> if py_blank v then None else Some v | _ \<Rightarrow> None)"

definition validate_member :: "nat \<times> json_object \<Rightarrow> exn + nat \<times> json_object \<times> string \<times> string" where
  "validate_member = (\<lambda>(position, member).
     case member_str ''artifact_type'' member of
       None \<Rightarrow> Inl (invalid_proposal ''member must declare a non-empty artifact_type'')
     | Some artifact_type \<Rightarrow>
         (case member_str ''member_digest'' member of
            None \<Rightarrow> Inl (invalid_proposal ''member must declare a non-empty member_digest'')
          | Some member_digest \<Rightarrow> Inr (position, member, artifact_type, member_digest)))"

definition member_parent :: "json_object \<Rightarrow> exn + string option" where
  "member_parent member =
     (case map_of member ''parent_digest'' of
        None \<Rightarrow> Inr None
      | Some JNull \<Rightarrow> Inr None
      | Some (JStr d) \<Rightarrow> Inr (Some d)
      | Some _ \<Rightarrow> Inl (invalid_proposal ''member has a non-string parent_digest''))"

definition member_patch :: "json_object \<Rightarrow> exn + json_object" where
  "member_patch member =
     (case map_of member ''patch'' of
        None \<Rightarrow> Inr []
      | Some (JObj kvs) \<Rightarrow> Inr kvs
      | Some v \<Rightarrow> if py_truthy v then Inl (invalid_proposal ''member has a non-mapping patch'') else Inr [])"

definition member_executables :: "json_object \<Rightarrow> exn + json list" where
  "member_executables member =
     (case map_of member ''declared_executables'' of
        None \<Rightarrow> Inr []
      | Some (JList xs) \<Rightarrow> Inr xs
      | Some v \<Rightarrow> if py_truthy v then Inl (invalid_proposal ''member has non-sequence declared_executables'') else Inr [])"

definition insert_member :: "proposal_member_record \<Rightarrow> (exn, 'b registry_db, unit) op" where
  "insert_member m =
     op_then (op_require (\<lambda>s. (pm_tenant_id m, pm_proposal_id m, pm_position m)
                \<notin> (\<lambda>x. (pm_tenant_id x, pm_proposal_id x, pm_position x)) ` set (rg_members s)) integrity_error)
       (op_modify (\<lambda>s. s\<lparr>rg_members := rg_members s @ [m]\<rparr>))"

definition record_member ::
  "string \<Rightarrow> string \<Rightarrow> nat \<times> json_object \<times> string \<times> string \<Rightarrow> (exn, 'b registry_db, unit) op" where
  "record_member tenant_id proposal_id = (\<lambda>(position, member, artifact_type, member_digest).
     op_bind (op_read (\<lambda>_. member_parent member)) (\<lambda>parent_digest.
       if parent_digest = Some member_digest then op_raise (circular member_digest)
       else
         op_bind (op_read (require_artifact tenant_id member_digest)) (\<lambda>_.
         op_bind (op_read (require_optional tenant_id parent_digest)) (\<lambda>_.
         op_bind (op_read (\<lambda>_. member_patch member)) (\<lambda>patch.
         op_bind (op_read (\<lambda>_. member_executables member)) (\<lambda>declared.
           insert_member \<lparr>pm_tenant_id = tenant_id, pm_proposal_id = proposal_id, pm_position = position,
             pm_artifact_type = artifact_type, pm_member_digest = member_digest,
             pm_parent_digest = parent_digest, pm_patch = patch, pm_declared_executables = declared\<rparr>))))))"

definition record_composite_proposal ::
  "string \<Rightarrow> string \<Rightarrow> string \<Rightarrow> string \<Rightarrow> json_object list \<Rightarrow> string option \<Rightarrow> json_object option
     \<Rightarrow> (exn, 'b registry_db, proposal_record) op" where
  "record_composite_proposal uid tenant_id proposed_digest strategy_id members campaign_id proposal_metadata =
     (if py_blank strategy_id then op_raise (invalid_proposal ''strategy_id must be a non-empty identifier'')
      else if members = [] then op_raise (invalid_proposal ''a composite proposal must carry at least one member'')
      else op_bind (op_read (\<lambda>_. res_map validate_member (enumerate0 members))) (\<lambda>validated.
        if proposed_digest \<in> set (map (\<lambda>(_, _, _, d). d) validated) then op_raise (circular proposed_digest)
        else op_bind (op_read (require_artifact tenant_id proposed_digest)) (\<lambda>_.
             op_bind (insert_proposal \<lparr>pr_tenant = tenant_id, pr_proposal_id = new_id ''prp'' uid,
               pr_proposed_digest = proposed_digest, pr_parent_digest = None,
               pr_strategy_id = strategy_id, pr_campaign_id = campaign_id,
               pr_metadata = (case proposal_metadata of None \<Rightarrow> [] | Some m \<Rightarrow> m)\<rparr>) (\<lambda>proposal.
             op_then (op_for validated (record_member tenant_id (pr_proposal_id proposal))) (op_return proposal)))))"

definition get_proposal_members :: "string \<Rightarrow> string \<Rightarrow> 'b registry_db \<Rightarrow> proposal_member_record list" where
  "get_proposal_members tenant_id proposal_id s =
     sort_key pm_position (filter (\<lambda>m. pm_tenant_id m = tenant_id \<and> pm_proposal_id m = proposal_id) (rg_members s))"

section \<open>Attestations\<close>

definition VALID_OUTCOMES :: "string list" where
  "VALID_OUTCOMES = [''pass'', ''fail'']"

definition new_attestation ::
  "('k, 'b) crypto \<Rightarrow> string \<Rightarrow> string \<Rightarrow> string \<Rightarrow> string \<Rightarrow> string \<Rightarrow> json_object \<Rightarrow> string \<Rightarrow> 'k
     \<Rightarrow> 'b evaluation_attestation" where
  "new_attestation C uid tenant_id artifact_digest subject outcome result_metrics evaluation_payload_digest private_key =
     (let detached = sign C private_key (attestation_body_bytes C artifact_digest subject outcome result_metrics
                       evaluation_payload_digest)
      in \<lparr>ea_tenant_id = tenant_id, ea_attestation_id = new_id ''att'' uid, ea_artifact_digest = artifact_digest,
          ea_evaluator_subject = subject, ea_outcome = outcome, ea_result_metrics = result_metrics,
          ea_evaluation_payload_digest = evaluation_payload_digest, ea_signature = ds_signature detached,
          ea_signer_public_key = ds_public_key detached\<rparr>)"

definition record_attestation ::
  "('k, 'b) crypto \<Rightarrow> string \<Rightarrow> string \<Rightarrow> workload_identity \<Rightarrow> string \<Rightarrow> string \<Rightarrow> json_object \<Rightarrow> string \<Rightarrow> 'k
     \<Rightarrow> (exn, 'b registry_db, 'b evaluation_attestation) op" where
  "record_attestation C uid tenant_id evaluator artifact_digest outcome result_metrics evaluation_payload_digest
       private_key =
     (if wid_role evaluator \<noteq> EVALUATOR
      then op_raise (Security (PermissionDeniedError evaluator ''record evaluation attestation''))
      else if outcome \<notin> set VALID_OUTCOMES then op_raise (ValueError ''outcome is not one of pass, fail'')
      else op_bind (op_read (require_artifact tenant_id artifact_digest)) (\<lambda>artifact.
        let a = new_attestation C uid tenant_id (ac_digest artifact) (wid_subject evaluator) outcome result_metrics
                  evaluation_payload_digest private_key
        in op_then (op_require (\<lambda>s. ea_attestation_id a \<notin> ea_attestation_id ` set (rg_attestations s)) integrity_error)
             (op_then (op_modify (\<lambda>s. s\<lparr>rg_attestations := rg_attestations s @ [a]\<rparr>)) (op_return a))))"

definition verify_attestation :: "('k, 'b) crypto \<Rightarrow> 'b evaluation_attestation \<Rightarrow> bool" where
  "verify_attestation C a =
     verify C \<lparr>ds_signature = ea_signature a, ds_public_key = ea_signer_public_key a\<rparr>
       (attestation_body_bytes C (ea_artifact_digest a) (ea_evaluator_subject a) (ea_outcome a)
         (ea_result_metrics a) (ea_evaluation_payload_digest a))"

section \<open>Status events\<close>

definition append_status_event ::
  "string \<Rightarrow> string \<Rightarrow> instant \<Rightarrow> string \<Rightarrow> string \<Rightarrow> string \<Rightarrow> string \<Rightarrow> string option
     \<Rightarrow> (exn, 'b registry_db, artifact_status_event) op" where
  "append_status_event row_id uid now tenant_id artifact_digest kind actor_identity reason =
     (if kind \<notin> set STATUS_EVENT_KINDS then op_raise (Registry (InvalidStatusEventError ''status kind''))
      else if actor_identity = [] then op_raise (Registry (InvalidStatusEventError ''actor_identity must be non-empty''))
      else op_bind (op_read (require_artifact tenant_id artifact_digest)) (\<lambda>artifact.
        let e = \<lparr>se_id = row_id, se_tenant_id = tenant_id, se_event_id = new_id ''ase'' uid,
                 se_artifact_digest = ac_digest artifact, se_kind = kind, se_actor_identity = actor_identity,
                 se_reason = reason, se_created_at = now\<rparr>
        in op_then (op_require (\<lambda>s. row_id \<notin> se_id ` set (rg_events s)
                      \<and> se_event_id e \<notin> se_event_id ` set (rg_events s)) integrity_error)
             (op_then (op_modify (\<lambda>s. s\<lparr>rg_events := rg_events s @ [e]\<rparr>)) (op_return e))))"

definition list_status_events :: "string \<Rightarrow> string option \<Rightarrow> 'b registry_db \<Rightarrow> artifact_status_event list" where
  "list_status_events tenant_id artifact_digest s =
     sort_key se_id (filter (\<lambda>e. se_tenant_id e = tenant_id
       \<and> (case artifact_digest of None \<Rightarrow> True | Some d \<Rightarrow> se_artifact_digest e = d)) (rg_events s))"

text \<open>The view \<^verbatim>\<open>artifact_current_status\<close>: per artifact the row with the latest \<^verbatim>\<open>created_at\<close>, among those the
  greatest \<^verbatim>\<open>event_id\<close>.\<close>

definition latest_event :: "string \<Rightarrow> string \<Rightarrow> 'b registry_db \<Rightarrow> artifact_status_event option" where
  "latest_event tenant_id artifact_digest s =
     (case sort_key (\<lambda>e. (se_created_at e, se_event_id e))
             (filter (\<lambda>e. se_tenant_id e = tenant_id \<and> se_artifact_digest e = artifact_digest) (rg_events s)) of
        [] \<Rightarrow> None | e # es \<Rightarrow> Some (last (e # es)))"

definition current_status :: "string \<Rightarrow> string \<Rightarrow> 'b registry_db \<Rightarrow> exn + string option" where
  "current_status tenant_id artifact_digest s =
     res_bind (require_artifact tenant_id artifact_digest s) (\<lambda>_.
       Inr (map_option se_kind (latest_event tenant_id artifact_digest s)))"

section \<open>Release manifests\<close>

fun resolve_all :: "string \<Rightarrow> string list \<Rightarrow> 'b registry_db \<Rightarrow> exn + string list" where
  "resolve_all tenant_id [] s = Inr []"
| "resolve_all tenant_id (d # ds) s =
     res_bind (require_artifact tenant_id d s) (\<lambda>a. res_bind (resolve_all tenant_id ds s) (\<lambda>rest. Inr (ac_digest a # rest)))"

definition require_prior :: "string \<Rightarrow> string option \<Rightarrow> 'b registry_db \<Rightarrow> exn + unit" where
  "require_prior tenant_id prior s =
     (case prior of None \<Rightarrow> Inr () | Some d \<Rightarrow> res_bind (require_manifest tenant_id d s) (\<lambda>_. Inr ()))"

definition new_manifest ::
  "('k, 'b) crypto \<Rightarrow> string \<Rightarrow> string \<Rightarrow> string list \<Rightarrow> json_object \<Rightarrow> json_object \<Rightarrow> json_object \<Rightarrow> string option
     \<Rightarrow> 'k \<Rightarrow> 'b release_manifest_row" where
  "new_manifest C uid tenant_id artifact_digests adapter_versions model_routes policies prior private_key =
     (let body = manifest_body_bytes C artifact_digests adapter_versions model_routes policies prior;
          detached = sign C private_key body
      in \<lparr>mr_tenant_id = tenant_id, mr_manifest_id = new_id ''rel'' uid, mr_manifest_digest = manifest_digest_for C body,
          mr_artifact_digests = artifact_digests, mr_adapter_versions = adapter_versions,
          mr_model_routes = model_routes, mr_policies = policies, mr_prior_release_digest = prior,
          mr_storage_uri = storage_uri_for (manifest_digest_for C body),
          mr_signature = ds_signature detached, mr_signer_public_key = ds_public_key detached\<rparr>)"

definition insert_manifest :: "'b release_manifest_row \<Rightarrow> (exn, 'b registry_db, 'b release_manifest_row) op" where
  "insert_manifest m =
     op_then (op_require (\<lambda>s. mr_manifest_id m \<notin> mr_manifest_id ` set (rg_manifests s)
                \<and> (mr_tenant_id m, mr_manifest_digest m) \<notin> (\<lambda>x. (mr_tenant_id x, mr_manifest_digest x)) ` set (rg_manifests s))
                integrity_error)
       (op_then (op_modify (\<lambda>s. s\<lparr>rg_manifests := rg_manifests s @ [m]\<rparr>)) (op_return m))"

definition create_release_manifest ::
  "('k, 'b) crypto \<Rightarrow> string \<Rightarrow> string \<Rightarrow> string list \<Rightarrow> json_object \<Rightarrow> json_object \<Rightarrow> json_object \<Rightarrow> string option
     \<Rightarrow> 'k \<Rightarrow> (exn, 'b registry_db, 'b release_manifest_row) op" where
  "create_release_manifest C uid tenant_id artifact_digests adapter_versions model_routes policies prior private_key =
     op_bind (op_read (require_prior tenant_id prior)) (\<lambda>_.
     op_bind (op_read (resolve_all tenant_id artifact_digests)) (\<lambda>resolved.
       let m = new_manifest C uid tenant_id resolved adapter_versions model_routes policies prior private_key
       in if Some (mr_manifest_digest m) = prior then op_raise (circular (mr_manifest_digest m))
          else insert_manifest m))"

text \<open>\<^verbatim>\<open>_assert_acyclic\<close>: the stack of one root; \<^verbatim>\<open>pop\<close> takes its last element.\<close>

partial_function (option) walk ::
  "string \<Rightarrow> 'b registry_db \<Rightarrow> string list \<Rightarrow> string list \<Rightarrow> (exn + unit) option" where
  "walk tenant_id s visited stack =
     (if stack = [] then Some (Inr ())
      else (let current = last stack in
        if current \<in> set visited then Some (Inl (circular current))
        else (case require_artifact tenant_id current s of
                Inl e \<Rightarrow> Some (Inl e)
              | Inr a \<Rightarrow> walk tenant_id s (current # visited) (butlast stack @ ac_dependencies a))))"

declare walk.simps [code]

fun assert_acyclic :: "string \<Rightarrow> string list \<Rightarrow> 'b registry_db \<Rightarrow> (exn + unit) option" where
  "assert_acyclic tenant_id [] s = Some (Inr ())"
| "assert_acyclic tenant_id (start # starts) s =
     (case walk tenant_id s [] [start] of
        None \<Rightarrow> None
      | Some (Inl e) \<Rightarrow> Some (Inl e)
      | Some (Inr _) \<Rightarrow> assert_acyclic tenant_id starts s)"

definition manifest_row_body :: "('k, 'b) crypto \<Rightarrow> 'b release_manifest_row \<Rightarrow> 'b" where
  "manifest_row_body C m =
     manifest_body_bytes C (mr_artifact_digests m) (mr_adapter_versions m) (mr_model_routes m) (mr_policies m)
       (mr_prior_release_digest m)"

definition row_signed :: "('k, 'b) crypto \<Rightarrow> 'b release_manifest_row \<Rightarrow> bool" where
  "row_signed C m =
     verify C \<lparr>ds_signature = mr_signature m, ds_public_key = mr_signer_public_key m\<rparr> (manifest_row_body C m)"

fun require_exact :: "string \<Rightarrow> string list \<Rightarrow> 'b registry_db \<Rightarrow> exn + unit" where
  "require_exact tenant_id [] s = Inr ()"
| "require_exact tenant_id (d # ds) s =
     res_bind (require_artifact tenant_id d s) (\<lambda>a.
       if ac_digest a \<noteq> d then Inl (Registry (DigestMismatchError d (ac_digest a))) else require_exact tenant_id ds s)"

definition activate_release ::
  "('k, 'b) crypto \<Rightarrow> string \<Rightarrow> string \<Rightarrow> string list \<Rightarrow> 'b registry_db \<Rightarrow> (exn + 'b release_manifest_row) option" where
  "activate_release C tenant_id manifest_digest artifact_digests s =
     (case require_manifest tenant_id manifest_digest s of
        Inl e \<Rightarrow> Some (Inl e)
      | Inr manifest \<Rightarrow>
          if \<not> row_signed C manifest then Some (Inl (Registry (UnsignedActivationError manifest_digest)))
          else
            (let requested = dedupe artifact_digests;
                 outside = filter (\<lambda>d. d \<notin> set (mr_artifact_digests manifest)) requested
             in if outside \<noteq> [] then Some (Inl (Registry (MixedReleaseActivationError (sort outside))))
                else (case require_exact tenant_id requested s of
                        Inl e \<Rightarrow> Some (Inl e)
                      | Inr _ \<Rightarrow>
                          (case assert_acyclic tenant_id requested s of
                             None \<Rightarrow> None
                           | Some (Inl e) \<Rightarrow> Some (Inl e)
                           | Some (Inr _) \<Rightarrow> Some (Inr manifest)))))"

section \<open>The state after any calls\<close>

datatype ('k, 'n, 'b) registry_call =
    Register string 'n string string 'b "string list" json_object "string option" string
  | Propose string string string string "string option" "string option" "json_object option"
  | Propose_composite string string string string "json_object list" "string option" "json_object option"
  | Attest string string workload_identity string string json_object string 'k
  | Status_event string string instant string string string string "string option"
  | Create_manifest string string "string list" json_object json_object json_object "string option" 'k
  | Lineage_step "('n, 'b) lineage_call"

fun do_registry_call ::
  "('k, 'b) crypto \<Rightarrow> ('n, 'b) key_provider \<Rightarrow> ('k, 'n, 'b) registry_call \<Rightarrow> 'b registry_db \<Rightarrow> 'b registry_db" where
  "do_registry_call C K (Register u n t ty b ds cs ex cl) s = snd (register_artifact C K u n t ty b ds cs ex cl s)"
| "do_registry_call C K (Propose u t d st pa ca m) s = snd (record_proposal u t d st pa ca m s)"
| "do_registry_call C K (Propose_composite u t d st ms ca m) s = snd (record_composite_proposal u t d st ms ca m s)"
| "do_registry_call C K (Attest u t w d out rm pd k) s = snd (record_attestation C u t w d out rm pd k s)"
| "do_registry_call C K (Status_event i u now t d kind who why) s = snd (append_status_event i u now t d kind who why s)"
| "do_registry_call C K (Create_manifest u t ds av mr ps prior k) s =
     snd (create_release_manifest C u t ds av mr ps prior k s)"
| "do_registry_call C K (Lineage_step c) s = s\<lparr>rg_lineage := do_lineage_call C K c (rg_lineage s)\<rparr>"

text \<open>What every row says is true of the artifacts registered so far.\<close>

abbreviation art_key :: "artifact_content \<Rightarrow> string \<times> string" where
  "art_key a \<equiv> (ac_tenant_id a, ac_digest a)"

definition registered :: "'b registry_db \<Rightarrow> (string \<times> string) set" where
  "registered s = art_key ` set (rg_artifacts s)"

text \<open>The artifact table, latest first: a row's dependencies are rows before it and its key is new.\<close>

fun deps_precede :: "artifact_content list \<Rightarrow> bool" where
  "deps_precede [] = True"
| "deps_precede (a # rest) \<longleftrightarrow>
     list_all (\<lambda>d. (ac_tenant_id a, d) \<in> art_key ` set rest) (ac_dependencies a)
     \<and> art_key a \<notin> art_key ` set rest \<and> deps_precede rest"

definition artifact_ok :: "('k, 'b) crypto \<Rightarrow> artifact_content \<Rightarrow> bool" where
  "artifact_ok C a \<longleftrightarrow> ac_digest a =
     artifact_digest_for C (ac_artifact_type a) (ac_canonical_body_digest a) (ac_dependencies a) (ac_capability_requests a)"

definition optional_in :: "(string \<times> string) set \<Rightarrow> string \<Rightarrow> string option \<Rightarrow> bool" where
  "optional_in R t d = (case d of None \<Rightarrow> True | Some x \<Rightarrow> (t, x) \<in> R)"

definition proposal_ok :: "(string \<times> string) set \<Rightarrow> proposal_record \<Rightarrow> bool" where
  "proposal_ok R p \<longleftrightarrow> (pr_tenant p, pr_proposed_digest p) \<in> R \<and> optional_in R (pr_tenant p) (pr_parent_digest p)
     \<and> pr_parent_digest p \<noteq> Some (pr_proposed_digest p) \<and> \<not> py_blank (pr_strategy_id p)"

definition member_ok :: "(string \<times> string) set \<Rightarrow> proposal_member_record \<Rightarrow> bool" where
  "member_ok R m \<longleftrightarrow> (pm_tenant_id m, pm_member_digest m) \<in> R \<and> optional_in R (pm_tenant_id m) (pm_parent_digest m)
     \<and> pm_parent_digest m \<noteq> Some (pm_member_digest m)"

definition attestation_ok :: "('k, 'b) crypto \<Rightarrow> (string \<times> string) set \<Rightarrow> 'b evaluation_attestation \<Rightarrow> bool" where
  "attestation_ok C R a \<longleftrightarrow>
     verify_attestation C a \<and> ea_outcome a \<in> set VALID_OUTCOMES \<and> (ea_tenant_id a, ea_artifact_digest a) \<in> R"

definition event_ok :: "(string \<times> string) set \<Rightarrow> artifact_status_event \<Rightarrow> bool" where
  "event_ok R e \<longleftrightarrow> se_kind e \<in> set STATUS_EVENT_KINDS \<and> (se_tenant_id e, se_artifact_digest e) \<in> R"

definition manifest_ok :: "('k, 'b) crypto \<Rightarrow> (string \<times> string) set \<Rightarrow> 'b release_manifest_row \<Rightarrow> bool" where
  "manifest_ok C R m \<longleftrightarrow> row_signed C m \<and> mr_manifest_digest m = manifest_digest_for C (manifest_row_body C m)
     \<and> list_all (\<lambda>d. (mr_tenant_id m, d) \<in> R) (mr_artifact_digests m)"

lemmas row_oks = proposal_ok_def member_ok_def attestation_ok_def event_ok_def manifest_ok_def optional_in_def

definition registry_ok :: "('k, 'b) crypto \<Rightarrow> ('n, 'b) key_provider \<Rightarrow> 'b registry_db \<Rightarrow> bool" where
  "registry_ok C K s \<longleftrightarrow>
     lineage_ok C K (rg_lineage s) \<and> deps_precede (rev (rg_artifacts s)) \<and> list_all (artifact_ok C) (rg_artifacts s)
     \<and> list_all (proposal_ok (registered s)) (rg_proposals s) \<and> list_all (member_ok (registered s)) (rg_members s)
     \<and> list_all (attestation_ok C (registered s)) (rg_attestations s)
     \<and> list_all (event_ok (registered s)) (rg_events s) \<and> list_all (manifest_ok C (registered s)) (rg_manifests s)"

lemma row_oks_mono:
  assumes "R \<subseteq> R'"
  shows "proposal_ok R p \<Longrightarrow> proposal_ok R' p" "member_ok R m \<Longrightarrow> member_ok R' m"
    "attestation_ok C R a \<Longrightarrow> attestation_ok C R' a" "event_ok R e \<Longrightarrow> event_ok R' e"
    "manifest_ok C R r \<Longrightarrow> manifest_ok C R' r"
  using assms by (auto simp: row_oks list_all_iff split: option.splits)

lemma distinct_art_keys: "deps_precede as \<Longrightarrow> distinct (map art_key as)"
  by (induction as) auto

lemma require_artifact_Inr:
  "require_artifact t d s = Inr a \<Longrightarrow> a \<in> set (rg_artifacts s) \<and> art_key a = (t, d)"
  by (auto simp: require_artifact_def find_artifact_def res_bind_Inr split: option.splits dest!: one_or_none_filter)

lemma require_registered: "require_artifact t d s = Inr a \<Longrightarrow> (t, d) \<in> registered s \<and> ac_digest a = d"
  using require_artifact_Inr [of t d s a] by (auto simp: registered_def image_iff)

lemma require_artifact_found:
  assumes "deps_precede (rev (rg_artifacts s))" "a \<in> set (rg_artifacts s)"
  shows "require_artifact (ac_tenant_id a) (ac_digest a) s = Inr a"
proof -
  have "distinct (map art_key (rg_artifacts s))"
    using distinct_art_keys [OF assms(1)] by (simp add: rev_map [symmetric])
  from filter_key_unique [OF this assms(2)] show ?thesis
    by (simp add: require_artifact_def find_artifact_def one_or_none_def)
qed

lemma require_all_registered: "require_all t ds s = Inr u \<Longrightarrow> list_all (\<lambda>d. (t, d) \<in> registered s) ds"
  by (induction ds arbitrary: u) (auto simp: res_bind_Inr dest: require_registered)

lemma resolve_all_registered: "resolve_all t ds s = Inr rs \<Longrightarrow> rs = ds \<and> list_all (\<lambda>d. (t, d) \<in> registered s) ds"
  by (induction ds arbitrary: rs) (auto simp: res_bind_Inr dest: require_registered)

lemma require_optional_registered: "require_optional t d s = Inr u \<Longrightarrow> optional_in (registered s) t d"
  by (auto simp: require_optional_def optional_in_def res_bind_Inr split: option.splits dest: require_registered)

section \<open>Every call keeps the registry well formed\<close>

lemma registry_ok_empty: "registry_ok C K empty_registry"
  by (simp add: registry_ok_def empty_registry_def lineage_ok_empty)

lemma registry_ok_lineage: "registry_ok C K s \<Longrightarrow> lineage_ok C K l \<Longrightarrow> registry_ok C K (s\<lparr>rg_lineage := l\<rparr>)"
  by (simp add: registry_ok_def registered_def)

text \<open>Registration: nothing new, only the payload, or a payload and a row whose dependencies are there.\<close>

lemma op_lineage_run: "op_lineage m s = (fst (m (rg_lineage s)), s\<lparr>rg_lineage := snd (m (rg_lineage s))\<rparr>)"
  by (simp add: op_lineage_def op_zoom_def case_prod_unfold)

definition fresh_artifact :: "'b registry_db \<Rightarrow> artifact_content \<Rightarrow> bool" where
  "fresh_artifact s a \<longleftrightarrow> art_key a \<notin> registered s
     \<and> list_all (\<lambda>d. (ac_tenant_id a, d) \<in> registered s) (ac_dependencies a)"

lemma insert_artifact_cases:
  "(insert_artifact a s = (Inl integrity_error, s))
   \<or> (insert_artifact a s = (Inr a, s\<lparr>rg_artifacts := rg_artifacts s @ [a]\<rparr>) \<and> art_key a \<notin> registered s)"
  by (auto simp: insert_artifact_def op_run_simps op_end_simps registered_def)

lemma register_cases:
  obtains e where "register_artifact C K u n t ty b ds cs ex cl s = (Inl e, s)"
  | a where "register_artifact C K u n t ty b ds cs ex cl s = (Inr a, s)" "a \<in> set (rg_artifacts s)"
      "art_key a = (t, artifact_digest_for C ty (payload_body_digest C b) ds cs)"
  | e l where "register_artifact C K u n t ty b ds cs ex cl s = (Inl e, s\<lparr>rg_lineage := l\<rparr>)"
      "l = snd (store_payload C K n t b cl (rg_lineage s))"
  | p a l where
      "register_artifact C K u n t ty b ds cs ex cl s = (Inr a, s\<lparr>rg_lineage := l, rg_artifacts := rg_artifacts s @ [a]\<rparr>)"
      "store_payload C K n t b cl (rg_lineage s) = (Inr p, l)" "fresh_artifact s a"
      "a = new_artifact C u t ty b ds cs p"
proof -
  let ?digest = "artifact_digest_for C ty (payload_body_digest C b) ds cs"
  let ?run = "register_artifact C K u n t ty b ds cs ex cl s"
  show thesis
  proof (cases "(ex \<noteq> None \<and> the ex \<in> set ds) \<or> (ex \<noteq> None \<and> the ex \<noteq> ?digest)")
    case True
    have "\<exists>e. ?run = (Inl e, s)"
      using True by (auto simp: register_artifact_def op_end_simps Let_def)
    then show thesis using that(1) by blast
  next
    case False
    then have run: "?run = op_bind (op_read (find_artifact t ?digest)) (\<lambda>existing.
        case existing of Some a \<Rightarrow> op_return a
        | None \<Rightarrow> op_bind (op_read (require_all t ds)) (\<lambda>_.
            op_bind (op_lineage (store_payload C K n t b cl)) (\<lambda>p.
              insert_artifact (new_artifact C u t ty b ds cs p)))) s"
      by (cases ex) (simp_all add: register_artifact_def Let_def)
    show thesis
    proof (cases "find_artifact t ?digest s")
      case (Inl e)
      with run show thesis by (intro that(1)) (simp add: op_run_simps)
    next
      case (Inr found)
      show thesis
      proof (cases found)
        case (Some a)
        with Inr have "a \<in> set (rg_artifacts s)" "art_key a = (t, ?digest)"
          by (auto simp: find_artifact_def dest!: one_or_none_filter)
        moreover from run Inr Some have "?run = (Inr a, s)" by (simp add: op_run_simps op_end_simps)
        ultimately show thesis by (intro that(2))
      next
        case None
        show thesis
        proof (cases "require_all t ds s")
          case (Inl e)
          with run Inr None show thesis by (intro that(1)) (simp add: op_run_simps)
        next
          case deps: (Inr v)
          obtain r l where store: "store_payload C K n t b cl (rg_lineage s) = (r, l)" by fastforce
          have run2: "?run = op_bind (op_lineage (store_payload C K n t b cl)) (\<lambda>p.
              insert_artifact (new_artifact C u t ty b ds cs p)) s"
            using run Inr None deps by (simp add: op_run_simps)
          show thesis
          proof (cases r)
            case (Inl e)
            with run2 store show thesis by (intro that(3)) (simp_all add: op_bind_def op_lineage_run)
          next
            case (Inr p)
            let ?a = "new_artifact C u t ty b ds cs p" and ?s = "s\<lparr>rg_lineage := l\<rparr>"
            have run3: "?run = insert_artifact ?a ?s"
              using run2 store Inr by (simp add: op_bind_def op_lineage_run)
            have "list_all (\<lambda>d. (ac_tenant_id ?a, d) \<in> registered s) (ac_dependencies ?a)"
              using require_all_registered [OF deps] by (simp add: new_artifact_def)
            then show thesis
              using insert_artifact_cases [of ?a ?s] run3 store Inr that(3,4)
              by (auto simp: fresh_artifact_def registered_def)
          qed
        qed
      qed
    qed
  qed
qed

lemma add_artifact_ok:
  assumes "registry_ok C K s" "fresh_artifact s a" "artifact_ok C a"
  shows "registry_ok C K (s\<lparr>rg_artifacts := rg_artifacts s @ [a]\<rparr>)"
proof -
  let ?s = "s\<lparr>rg_artifacts := rg_artifacts s @ [a]\<rparr>"
  have more: "registered s \<subseteq> registered ?s" by (auto simp: registered_def)
  have "deps_precede (rev (rg_artifacts ?s))"
    using assms(1,2) by (simp add: registry_ok_def fresh_artifact_def registered_def)
  then show ?thesis
    using assms(1,3) by (auto simp: registry_ok_def list_all_iff intro: row_oks_mono [OF more])
qed

lemma register_ok:
  assumes "key_laws K" "registry_ok C K s"
  shows "registry_ok C K (snd (register_artifact C K u n t ty b ds cs ex cl s))"
proof -
  have lin: "lineage_ok C K (snd (store_payload C K n t b cl (rg_lineage s)))"
    using assms by (intro store_ok) (simp_all add: registry_ok_def)
  show ?thesis
  proof (cases rule: register_cases [of C K u n t ty b ds cs ex cl s])
    case (3 e l)
    with assms(2) lin show ?thesis by (simp add: registry_ok_lineage)
  next
    case (4 p a l)
    have "registry_ok C K (s\<lparr>rg_lineage := l\<rparr>)" using assms(2) lin 4(2) by (simp add: registry_ok_lineage)
    moreover have "fresh_artifact (s\<lparr>rg_lineage := l\<rparr>) a" using 4(3) by (simp add: fresh_artifact_def registered_def)
    moreover have "artifact_ok C a" by (simp add: 4(4) artifact_ok_def new_artifact_def)
    ultimately show ?thesis using add_artifact_ok [of C K "s\<lparr>rg_lineage := l\<rparr>" a] 4(1) by simp
  qed (use assms(2) in simp_all)
qed

lemma record_proposal_ok:
  assumes "registry_ok C K s"
  shows "registry_ok C K (snd (record_proposal u t d st pa ca m s))"
proof -
  have "proposal_ok (registered s) p \<Longrightarrow> registry_ok C K (snd (insert_proposal p s))" for p
    using assms by (auto simp: insert_proposal_def op_run_simps op_end_simps registry_ok_def registered_def)
  then show ?thesis
    using assms require_registered [of t d s] require_optional_registered [of t pa s]
    by (auto simp: record_proposal_def op_run_simps op_end_simps proposal_ok_def split: sum.splits)
qed

lemma record_member_ok: "keeps (registry_ok C K) (record_member t i v)"
proof (rule keepsI)
  fix s assume ok: "registry_ok C K s"
  obtain pos member ty d where v: "v = (pos, member, ty, d)" by (cases v)
  have ins: "member_ok (registered s) m \<Longrightarrow> registry_ok C K (snd (insert_member m s))" for m
    using ok by (auto simp: insert_member_def op_run_simps op_end_simps registry_ok_def registered_def)
  show "registry_ok C K (snd (record_member t i v s))"
    unfolding v record_member_def prod.case
    using ok by (auto simp: op_run_simps op_end_simps split: sum.splits intro!: ins
        simp: member_ok_def dest: require_registered require_optional_registered)
qed

lemma record_composite_ok:
  assumes "registry_ok C K s"
  shows "registry_ok C K (snd (record_composite_proposal u t d st ms ca m s))"
proof -
  have members: "registry_ok C K s' \<Longrightarrow> registry_ok C K (snd (op_then (op_for vs (record_member t i)) (op_return p) s'))"
    for s' vs i and p :: proposal_record
    by (rule keepsD [OF keeps_then [OF keeps_for [OF record_member_ok] keeps_return]])
  have "registry_ok C K (snd (op_bind (insert_proposal p) (\<lambda>p. op_then (op_for vs (record_member t (pr_proposal_id p))) (op_return p)) s))"
    if "proposal_ok (registered s) p" for p vs
  proof (cases "pr_proposal_id p \<in> pr_proposal_id ` set (rg_proposals s)")
    case True
    then have "insert_proposal p s = (Inl integrity_error, s)" by (simp add: insert_proposal_def op_run_simps)
    then show ?thesis using assms by (simp add: op_bind_fails [of "insert_proposal p"])
  next
    case False
    then have ins: "insert_proposal p s = (Inr p, s\<lparr>rg_proposals := rg_proposals s @ [p]\<rparr>)"
      by (simp add: insert_proposal_def op_run_simps op_end_simps)
    have "registry_ok C K (s\<lparr>rg_proposals := rg_proposals s @ [p]\<rparr>)"
      using assms that by (auto simp: registry_ok_def registered_def)
    then show ?thesis by (simp only: op_bind_run [of "insert_proposal p", OF ins]) (rule members)
  qed
  then show ?thesis
    using assms require_registered [of t d s]
    by (auto simp: record_composite_proposal_def op_run_simps op_end_simps proposal_ok_def optional_in_def
        split: sum.splits)
qed

lemma record_attestation_ok:
  assumes "crypto_laws C" "registry_ok C K s"
  shows "registry_ok C K (snd (record_attestation C u t w d out rm pd k s))"
proof -
  have "attestation_ok C (registered s) (new_attestation C u t d (wid_subject w) out rm pd k)"
    if "(t, d) \<in> registered s" "out \<in> set VALID_OUTCOMES"
    using assms(1) that by (simp add: attestation_ok_def new_attestation_def verify_attestation_def Let_def)
  then show ?thesis
    using assms(2) require_registered [of t d s]
    by (auto simp: record_attestation_def op_run_simps op_end_simps Let_def registry_ok_def registered_def
        split: sum.splits)
qed

lemma append_status_event_ok:
  assumes "registry_ok C K s"
  shows "registry_ok C K (snd (append_status_event i u now t d kind who why s))"
  using assms require_registered [of t d s]
  by (auto simp: append_status_event_def op_run_simps op_end_simps Let_def registry_ok_def registered_def event_ok_def
      split: sum.splits)

lemma create_manifest_ok:
  assumes "crypto_laws C" "registry_ok C K s"
  shows "registry_ok C K (snd (create_release_manifest C u t ds av mr ps prior k s))"
proof -
  have "registry_ok C K (snd (insert_manifest m s))" if "manifest_ok C (registered s) m" for m
    using assms(2) that by (auto simp: insert_manifest_def op_run_simps op_end_simps registry_ok_def registered_def)
  moreover have "manifest_ok C (registered s) (new_manifest C u t ds av mr ps prior k)"
    if "list_all (\<lambda>d. (t, d) \<in> registered s) ds"
    using assms(1) that by (simp add: manifest_ok_def new_manifest_def row_signed_def manifest_row_body_def Let_def)
  ultimately show ?thesis
    using assms(2) resolve_all_registered [of t ds s]
    by (auto simp: create_release_manifest_def op_run_simps op_end_simps Let_def split: sum.splits)
qed

lemma registry_call_ok:
  assumes "crypto_laws C" "key_laws K" "registry_ok C K s"
  shows "registry_ok C K (do_registry_call C K c s)"
proof (cases c)
  case (Lineage_step x)
  have "lineage_ok C K (do_lineage_call C K x (rg_lineage s))"
    using assms(3) by (intro lineage_call_ok assms(2)) (simp add: registry_ok_def)
  with Lineage_step assms(3) show ?thesis by (simp add: registry_ok_lineage)
qed (use assms in \<open>simp_all add: register_ok record_proposal_ok record_composite_ok record_attestation_ok
    append_status_event_ok create_manifest_ok\<close>)

lemma registry_run_ok:
  assumes "crypto_laws C" "key_laws K"
  shows "registry_ok C K (run_calls (do_registry_call C K) cs empty_registry)"
  by (rule run_calls_invariant [where P = "registry_ok C K"]) (auto intro: registry_ok_empty registry_call_ok assms)

section \<open>The activation walk\<close>

text \<open>The walk always ends: a root that is not refused adds one more registered artifact to \<^verbatim>\<open>visited\<close>, and there
  are finitely many. This needs nothing of the tables, not even that the graph is acyclic.\<close>

definition unvisited :: "string \<Rightarrow> 'b registry_db \<Rightarrow> string list \<Rightarrow> nat" where
  "unvisited t s visited = length (filter (\<lambda>a. ac_tenant_id a = t \<and> ac_digest a \<notin> set visited) (rg_artifacts s))"

lemma unvisited_decreases:
  assumes "require_artifact t d s = Inr a" "d \<notin> set visited"
  shows "unvisited t s (d # visited) < unvisited t s visited"
proof -
  let ?P = "\<lambda>a. ac_tenant_id a = t \<and> ac_digest a \<notin> set visited"
  from require_artifact_Inr [OF assms(1)] assms(2) have "a \<in> set (filter ?P (rg_artifacts s))" by auto
  then have "length (filter (\<lambda>x. ac_digest x \<noteq> d) (filter ?P (rg_artifacts s))) < length (filter ?P (rg_artifacts s))"
    using require_artifact_Inr [OF assms(1)] by (intro length_filter_less) auto
  moreover have "filter (\<lambda>x. ac_digest x \<noteq> d) (filter ?P (rg_artifacts s))
      = filter (\<lambda>a. ac_tenant_id a = t \<and> ac_digest a \<notin> set (d # visited)) (rg_artifacts s)"
    unfolding filter_filter by (intro filter_cong) auto
  ultimately show ?thesis by (simp add: unvisited_def)
qed

lemma walk_returns: "\<exists>r. walk t s visited stack = Some r"
proof (induction "unvisited t s visited" arbitrary: visited stack rule: less_induct)
  case less
  show ?case
  proof (cases "stack = [] \<or> last stack \<in> set visited")
    case True
    then show ?thesis by (auto simp: walk.simps [of t s visited stack] Let_def)
  next
    case False
    show ?thesis
    proof (cases "require_artifact t (last stack) s")
      case (Inl e)
      with False show ?thesis by (simp add: walk.simps [of t s visited stack] Let_def)
    next
      case (Inr a)
      from False have "last stack \<notin> set visited" by simp
      from less [OF unvisited_decreases [OF Inr this], of "butlast stack @ ac_dependencies a"] False Inr
      show ?thesis by (simp add: walk.simps [of t s visited stack] Let_def)
    qed
  qed
qed

lemma assert_acyclic_returns: "\<exists>r. assert_acyclic t starts s = Some r"
proof (induction starts)
  case (Cons x xs)
  obtain r where "walk t s [] [x] = Some r" using walk_returns by blast
  with Cons show ?case by (cases r) auto
qed simp

text \<open>The dependency graph unfolded from a digest: one entry per chain of dependencies that leads to it. The
  table is read latest first, so the recursion is structural.\<close>

fun unfolding_in :: "artifact_content list \<Rightarrow> string \<Rightarrow> string \<Rightarrow> string list" where
  "unfolding_in [] t d = [d]"
| "unfolding_in (a # rest) t d =
     (if art_key a = (t, d) then d # concat (map (unfolding_in rest t) (ac_dependencies a))
      else unfolding_in rest t d)"

definition unfolding_of :: "string \<Rightarrow> 'b registry_db \<Rightarrow> string \<Rightarrow> string list" where
  "unfolding_of t s d = unfolding_in (rev (rg_artifacts s)) t d"

lemma in_unfolding [simp]: "d \<in> set (unfolding_in as t d)"
  by (induction as) auto

lemma unfolding_in_older:
  "deps_precede (bs @ as) \<Longrightarrow> (t, d) \<in> art_key ` set as \<Longrightarrow> unfolding_in (bs @ as) t d = unfolding_in as t d"
  by (induction bs) auto

lemma unfolding_in_step:
  assumes "deps_precede as" "a \<in> set as" "art_key a = (t, d)"
  shows "unfolding_in as t d = d # concat (map (unfolding_in as t) (ac_dependencies a))"
proof -
  from assms(2) obtain bs cs where as: "as = bs @ a # cs" by (meson split_list)
  have "deps_precede (a # cs)" using assms(1) unfolding as by (induction bs) auto
  then have deps: "(t, x) \<in> art_key ` set cs" if "x \<in> set (ac_dependencies a)" for x
    using that assms(3) by (auto simp: list_all_iff)
  have "unfolding_in as t d = unfolding_in (a # cs) t d"
    using unfolding_in_older [of bs "a # cs" t d] assms(1,3) by (auto simp: as)
  also have "\<dots> = d # concat (map (unfolding_in cs t) (ac_dependencies a))" using assms(3) by simp
  also have "map (unfolding_in cs t) (ac_dependencies a) = map (unfolding_in as t) (ac_dependencies a)"
    using unfolding_in_older [of "bs @ [a]" cs t] assms(1) deps by (intro map_cong) (auto simp: as)
  finally show ?thesis .
qed

text \<open>What is visited and what the stack unfolds to is the same multiset at every step.\<close>

lemma walk_exact:
  assumes "registry_ok C K s"
  shows "distinct visited \<Longrightarrow> list_all (\<lambda>d. (t, d) \<in> registered s) stack \<Longrightarrow>
    walk t s visited stack = Some r \<Longrightarrow>
    (r = Inr ()) = distinct (visited @ concat (map (unfolding_of t s) stack))
    \<and> (\<forall>e. r = Inl e \<longrightarrow> (\<exists>d. e = circular d))"
proof (induction "unvisited t s visited" arbitrary: visited stack rule: less_induct)
  case less
  have table: "deps_precede (rev (rg_artifacts s))" using assms by (simp add: registry_ok_def)
  show ?case
  proof (cases "stack = []")
    case True
    with less.prems(1,3) show ?thesis by (auto simp: walk.simps [of t s visited "[]"])
  next
    case False
    then obtain rest d where stack: "stack = rest @ [d]" by (metis rev_exhaust)
    with less.prems(2) obtain a where a: "a \<in> set (rg_artifacts s)" "art_key a = (t, d)"
      by (auto simp: registered_def)
    have req: "require_artifact t d s = Inr a" using require_artifact_found [OF table a(1)] a(2) by simp
    have unf: "unfolding_of t s d = d # concat (map (unfolding_of t s) (ac_dependencies a))"
      unfolding unfolding_of_def using unfolding_in_step [OF table, of a t d] a by simp
    show ?thesis
    proof (cases "d \<in> set visited")
      case True
      then have "r = Inl (circular d)" using less.prems(3) by (simp add: walk.simps [of t s visited "rest @ [d]"] stack Let_def)
      moreover have "\<not> distinct (visited @ concat (map (unfolding_of t s) stack))" using True by (auto simp: stack unf)
      ultimately show ?thesis by blast
    next
      case new: False
      let ?stack = "rest @ ac_dependencies a"
      have "list_all (\<lambda>x. (t, x) \<in> registered s) (ac_dependencies a)"
      proof -
        obtain bs cs where split: "rev (rg_artifacts s) = bs @ a # cs" using a(1) by (metis set_rev split_list)
        have "deps_precede (a # cs)" using table unfolding split by (induction bs) auto
        then have "list_all (\<lambda>x. (t, x) \<in> art_key ` set cs) (ac_dependencies a)" using a(2) by simp
        moreover have "set cs \<subseteq> set (rg_artifacts s)" using split by (metis Un_upper2 set_append set_rev set_subset_Cons subset_trans)
        then have "art_key ` set cs \<subseteq> registered s" unfolding registered_def by (rule image_mono)
        ultimately show ?thesis unfolding list_all_iff by blast
      qed
      then have reg: "list_all (\<lambda>x. (t, x) \<in> registered s) ?stack" using less.prems(2) by (simp add: stack)
      have "walk t s (d # visited) ?stack = Some r"
        using less.prems(3) new req by (simp add: walk.simps [of t s visited "rest @ [d]"] stack Let_def)
      from less.hyps [OF unvisited_decreases [OF req new] _ reg this] less.prems(1) new
      have "(r = Inr ()) = distinct ((d # visited) @ concat (map (unfolding_of t s) ?stack))
          \<and> (\<forall>e. r = Inl e \<longrightarrow> (\<exists>x. e = circular x))"
        by simp
      moreover have "distinct ((d # visited) @ concat (map (unfolding_of t s) ?stack))
          = distinct (visited @ concat (map (unfolding_of t s) stack))"
        by (intro mset_eq_imp_distinct_iff) (simp add: stack unf)
      ultimately show ?thesis by simp
    qed
  qed
qed

lemma assert_acyclic_exact:
  assumes "registry_ok C K s" "list_all (\<lambda>d. (t, d) \<in> registered s) starts"
  shows "if list_all (\<lambda>d. distinct (unfolding_of t s d)) starts then assert_acyclic t starts s = Some (Inr ())
    else \<exists>d. assert_acyclic t starts s = Some (Inl (circular d))"
  using assms(2)
proof (induction starts)
  case (Cons x xs)
  obtain r where r: "walk t s [] [x] = Some r" using walk_returns by blast
  have "(r = Inr ()) = distinct (unfolding_of t s x)" "\<forall>e. r = Inl e \<longrightarrow> (\<exists>d. e = circular d)"
    using walk_exact [OF assms(1) distinct.simps(1)[THEN iffD2, OF TrueI] _ r] Cons.prems by simp_all
  with Cons r show ?case by (cases r) (auto split: if_splits)
qed simp

section \<open>Properties\<close>

definition dependency_relation :: "artifact_content list \<Rightarrow> ((string \<times> string) \<times> (string \<times> string)) set" where
  "dependency_relation as = {(art_key a, (ac_tenant_id a, d)) | a d. a \<in> set as \<and> d \<in> set (ac_dependencies a)}"

fun rank_in :: "artifact_content list \<Rightarrow> string \<times> string \<Rightarrow> nat" where
  "rank_in [] k = 0"
| "rank_in (a # rest) k = (if art_key a = k then Suc (length rest) else rank_in rest k)"

lemma rank_in_le: "rank_in as k \<le> length as"
  by (induction as) (auto intro: le_SucI)

lemma dependency_closed:
  "deps_precede as \<Longrightarrow> (k, l) \<in> dependency_relation as \<Longrightarrow> l \<in> art_key ` set as"
proof (induction as)
  case (Cons a rest)
  from Cons.prems(2) consider "(k, l) \<in> dependency_relation rest"
    | "fst l = ac_tenant_id a" "snd l \<in> set (ac_dependencies a)"
    by (auto simp: dependency_relation_def)
  then show ?case
  proof cases
    case 1
    with Cons show ?thesis by simp
  next
    case 2
    with Cons.prems(1) have "(ac_tenant_id a, snd l) \<in> art_key ` set rest" by (simp add: list_all_iff)
    with 2(1) have "l \<in> art_key ` set rest" by (cases l) simp
    then show ?thesis by simp
  qed
qed (simp add: dependency_relation_def)

lemma rank_in_decreases:
  "deps_precede as \<Longrightarrow> (k, l) \<in> dependency_relation as \<Longrightarrow> rank_in as l < rank_in as k"
proof (induction as)
  case (Cons a rest)
  show ?case
  proof (cases "art_key a = k")
    case True
    with Cons.prems have "\<exists>x \<in> set (a # rest). art_key x = k \<and> fst l = ac_tenant_id x \<and> snd l \<in> set (ac_dependencies x)"
      by (auto simp: dependency_relation_def)
    then obtain x where x: "x \<in> set (a # rest)" "art_key x = k" "fst l = ac_tenant_id x" "snd l \<in> set (ac_dependencies x)"
      by blast
    have "x = a"
    proof (rule ccontr)
      assume "x \<noteq> a"
      with x(1,2) have "k \<in> art_key ` set rest" by auto
      with True Cons.prems(1) show False by simp
    qed
    with x have "fst l = ac_tenant_id a \<and> snd l \<in> set (ac_dependencies a)" by simp
    with Cons.prems(1) have "l \<in> art_key ` set rest" by (cases l) (auto simp: list_all_iff)
    with Cons.prems(1) have "art_key a \<noteq> l" by auto
    with True rank_in_le [of rest l] show ?thesis by simp
  next
    case False
    with Cons.prems(2) have rel: "(k, l) \<in> dependency_relation rest" by (auto simp: dependency_relation_def)
    with Cons have less: "rank_in rest l < rank_in rest k" by simp
    have "art_key a \<noteq> l"
    proof
      assume l: "art_key a = l"
      from Cons.prems(1) have "l \<in> art_key ` set rest" by (intro dependency_closed [OF _ rel]) simp
      with l Cons.prems(1) show False by auto
    qed
    with False less show ?thesis by simp
  qed
qed (simp add: dependency_relation_def)

lemma dependency_relation_acyclic: "deps_precede as \<Longrightarrow> acyclic (dependency_relation as)"
  by (rule acyclicI_order [of _ "rank_in as"]) (rule rank_in_decreases)

lemma proposals_keep_artifacts:
  "keeps (\<lambda>s. a \<in> set (rg_artifacts s)) (record_member t i v)"
  "keeps (\<lambda>s. a \<in> set (rg_artifacts s)) (insert_proposal p)"
  by (auto simp: keeps_def record_member_def insert_member_def insert_proposal_def op_run_simps op_end_simps
      case_prod_unfold split: sum.splits)

lemma artifacts_stay:
  assumes "a \<in> set (rg_artifacts s)"
  shows "a \<in> set (rg_artifacts (do_registry_call C K c s))"
proof (cases c)
  case (Register u n t ty b ds cs ex cl)
  then show ?thesis
    by (cases rule: register_cases [of C K u n t ty b ds cs ex cl s]) (use assms in simp_all)
next
  case (Propose u t d st pa ca m)
  with assms show ?thesis
    by (auto simp: record_proposal_def insert_proposal_def op_run_simps op_end_simps split: sum.splits)
next
  case (Propose_composite u t d st ms ca m)
  have "keeps (\<lambda>s. a \<in> set (rg_artifacts s)) (record_composite_proposal u t d st ms ca m)"
    unfolding record_composite_proposal_def by (auto intro!: keeps_intros proposals_keep_artifacts)
  then show ?thesis using Propose_composite assms by (auto dest: keepsD)
next
  case (Attest u t w d out rm pd k)
  with assms show ?thesis
    by (auto simp: record_attestation_def Let_def op_run_simps op_end_simps split: sum.splits)
next
  case (Status_event i u now t d kind who why)
  with assms show ?thesis
    by (auto simp: append_status_event_def Let_def op_run_simps op_end_simps split: sum.splits)
next
  case (Create_manifest u t ds av mr ps prior k)
  with assms show ?thesis
    by (auto simp: create_release_manifest_def insert_manifest_def Let_def op_run_simps op_end_simps split: sum.splits)
qed (use assms in simp_all)

lemma artifacts_stay_run:
  "a \<in> set (rg_artifacts s) \<Longrightarrow> a \<in> set (rg_artifacts (run_calls (do_registry_call C K) cs s))"
  by (rule run_calls_invariant [where P = "\<lambda>s. a \<in> set (rg_artifacts s)"]) (auto intro: artifacts_stay)

text \<open>Status events are never removed either.\<close>

lemma proposals_keep_events:
  "keeps (\<lambda>s. e \<in> set (rg_events s)) (record_member t i v)"
  "keeps (\<lambda>s. e \<in> set (rg_events s)) (insert_proposal p)"
  by (auto simp: keeps_def record_member_def insert_member_def insert_proposal_def op_run_simps op_end_simps
      case_prod_unfold split: sum.splits)

lemma append_status_event_cases:
  obtains x where "append_status_event i u now t d kind who why s = (Inl x, s)"
  | row where "append_status_event i u now t d kind who why s = (Inr row, s\<lparr>rg_events := rg_events s @ [row]\<rparr>)"
      "row = \<lparr>se_id = i, se_tenant_id = t, se_event_id = new_id ''ase'' u, se_artifact_digest = d, se_kind = kind,
         se_actor_identity = who, se_reason = why, se_created_at = now\<rparr>"
proof (cases "append_status_event i u now t d kind who why s")
  case (Pair r s')
  then show thesis
    using that require_registered [of t d s]
    by (cases r) (auto simp: append_status_event_def op_run_simps op_end_simps Let_def split: if_splits sum.splits)
qed

lemma events_stay:
  assumes "e \<in> set (rg_events s)"
  shows "e \<in> set (rg_events (do_registry_call C K c s))"
proof (cases c)
  case (Register u n t ty b ds cs ex cl)
  then show ?thesis
    by (cases rule: register_cases [of C K u n t ty b ds cs ex cl s]) (use assms in simp_all)
next
  case (Propose u t d st pa ca m)
  with assms show ?thesis
    by (auto simp: record_proposal_def insert_proposal_def op_run_simps op_end_simps split: sum.splits)
next
  case (Propose_composite u t d st ms ca m)
  have "keeps (\<lambda>s. e \<in> set (rg_events s)) (record_composite_proposal u t d st ms ca m)"
    unfolding record_composite_proposal_def by (auto intro!: keeps_intros proposals_keep_events)
  then show ?thesis using Propose_composite assms by (auto dest: keepsD)
next
  case (Attest u t w d out rm pd k)
  with assms show ?thesis
    by (auto simp: record_attestation_def Let_def op_run_simps op_end_simps split: sum.splits)
next
  case (Status_event i u now t d kind who why)
  then show ?thesis
    by (cases rule: append_status_event_cases [of i u now t d kind who why s]) (use assms in simp_all)
next
  case (Create_manifest u t ds av mr ps prior k)
  with assms show ?thesis
    by (auto simp: create_release_manifest_def insert_manifest_def Let_def op_run_simps op_end_simps split: sum.splits)
qed (use assms in simp_all)

lemma events_stay_run:
  "e \<in> set (rg_events s) \<Longrightarrow> e \<in> set (rg_events (run_calls (do_registry_call C K) cs s))"
  by (rule run_calls_invariant [where P = "\<lambda>s. e \<in> set (rg_events s)"]) (auto intro: events_stay)

text \<open>C10: Circular metadata cannot be registered. After any sequence of calls the dependency graph of all tenants is
  acyclic, every dependency of a registered artifact is itself registered for that tenant, every row's
  digest is the digest of its body, and no key occurs twice.\<close>

theorem registry_is_acyclic:
  assumes "crypto_laws C" "key_laws K"
    and "s = run_calls (do_registry_call C K) cs empty_registry"
  shows "acyclic (dependency_relation (rg_artifacts s))
    \<and> snd ` dependency_relation (rg_artifacts s) \<subseteq> registered s
    \<and> list_all (artifact_ok C) (rg_artifacts s) \<and> distinct (map art_key (rg_artifacts s))"
proof -
  have ok: "registry_ok C K s" by (simp add: assms(3) registry_run_ok [OF assms(1,2)])
  then have table: "deps_precede (rev (rg_artifacts s))" by (simp add: registry_ok_def)
  have same: "dependency_relation (rev (rg_artifacts s)) = dependency_relation (rg_artifacts s)"
    by (simp add: dependency_relation_def)
  have "snd ` dependency_relation (rg_artifacts s) \<subseteq> registered s"
    using dependency_closed [OF table] by (auto simp: same registered_def simp del: image_iff)
  moreover have "distinct (map art_key (rg_artifacts s))"
    using distinct_art_keys [OF table] by (simp add: rev_map [symmetric])
  ultimately show ?thesis
    using dependency_relation_acyclic [OF table] ok by (simp add: same registry_ok_def)
qed

text \<open>A concrete instance whose digests tell bodies apart by their type.\<close>

definition demo_sha :: "json \<Rightarrow> string" where
  "demo_sha j = (case j of JStr v \<Rightarrow> v | JObj kvs \<Rightarrow> (case map_of kvs ''artifact_type'' of Some (JStr v) \<Rightarrow> v | _ \<Rightarrow> ''m'') | _ \<Rightarrow> ''0'')"

definition demo_crypto :: "(string, json) crypto" where
  "demo_crypto = plain_crypto\<lparr>cr_sha256 := demo_sha\<rparr>"

lemma demo_crypto_laws: "crypto_laws demo_crypto"
  by (simp add: crypto_laws_def demo_crypto_def plain_crypto_def)

abbreviation demo_registry :: "(string, nat, json) registry_call list \<Rightarrow> json registry_db" where
  "demo_registry cs \<equiv> run_calls (do_registry_call demo_crypto demo_keys) cs empty_registry"

definition demo_register :: "string \<Rightarrow> string list \<Rightarrow> (string, nat, json) registry_call" where
  "demo_register name deps = Register name 1 ''acme'' name (JStr name) (map (\<lambda>d. ''sha256:'' @ d) deps) [] None ''artifact''"

text \<open>An app with two libraries that share a base, and a manifest for it.\<close>

definition demo_diamond :: "(string, nat, json) registry_call list" where
  "demo_diamond = [demo_register ''base'' [], demo_register ''left'' [''base''], demo_register ''right'' [''base''],
     demo_register ''app'' [''left'', ''right''],
     Create_manifest ''m1'' ''acme'' [''sha256:app'', ''sha256:left''] [] [] [] None ''key'']"

lemma registry_is_acyclic_witness: "acyclic (dependency_relation (rg_artifacts (demo_registry demo_diamond)))"
  using registry_is_acyclic [OF demo_crypto_laws demo_key_laws refl] by blast

text \<open>C11: Activation always decides, whatever the tables hold, rows written by hand included: the walk over the
  dependencies ends. And what it accepts is a manifest of that tenant and digest whose stored signature
  verifies over its stored fields, with every requested artifact in the manifest and registered.\<close>

theorem activation_always_decides:
  "\<exists>r. activate_release C t m ds s = Some r
    \<and> (\<forall>x. r = Inr x \<longrightarrow> row_signed C x \<and> x \<in> set (rg_manifests s) \<and> mr_tenant_id x = t \<and> mr_manifest_digest x = m
        \<and> set ds \<subseteq> set (mr_artifact_digests x) \<and> {t} \<times> set ds \<subseteq> registered s)"
proof -
  obtain r where walk: "assert_acyclic t (dedupe ds) s = Some r" using assert_acyclic_returns by blast
  have exact: "require_exact t es s = Inr u \<Longrightarrow> {t} \<times> set es \<subseteq> registered s" for es u
    by (induction es) (auto simp: res_bind_Inr split: if_splits dest: require_registered)
  have manifest: "x \<in> set (rg_manifests s) \<and> mr_tenant_id x = t \<and> mr_manifest_digest x = m"
    if "require_manifest t m s = Inr x" for x
    using that by (auto simp: require_manifest_def res_bind_Inr split: option.splits dest!: one_or_none_filter)
  show ?thesis
    using walk exact [of "dedupe ds"] manifest
    by (cases r) (auto simp: activate_release_def Let_def filter_empty_conv split: sum.splits)
qed

lemma activation_decides_witness:
  "\<exists>x. activate_release demo_crypto ''acme'' ''sha256:m'' [''sha256:left''] (demo_registry demo_diamond) = Some (Inr x)
     \<and> row_signed demo_crypto x"
proof -
  have "\<exists>x. activate_release demo_crypto ''acme'' ''sha256:m'' [''sha256:left''] (demo_registry demo_diamond) = Some (Inr x)"
  proof -
    have "case activate_release demo_crypto ''acme'' ''sha256:m'' [''sha256:left''] (demo_registry demo_diamond) of
        Some (Inr x) \<Rightarrow> True | _ \<Rightarrow> False"
      by code_simp
    then show ?thesis by (auto split: option.splits sum.splits)
  qed
  then show ?thesis
    using activation_always_decides [of demo_crypto "''acme''" "''sha256:m''" "[''sha256:left'']" "demo_registry demo_diamond"]
    by fastforce
qed

text \<open>What activation refuses as circular is never a cycle. In every reachable registry the dependency graph is
  acyclic, and a request inside its manifest is accepted exactly when no requested artifact reaches another
  one along two different chains of dependencies: two libraries that share a base make their application
  impossible to activate.\<close>

theorem activation_refuses_shared_dependencies:
  assumes "crypto_laws C" "key_laws K"
    and "s = run_calls (do_registry_call C K) cs empty_registry"
    and "require_manifest t m s = Inr x" "set ds \<subseteq> set (mr_artifact_digests x)"
  shows "acyclic (dependency_relation (rg_artifacts s))
    \<and> (if list_all (\<lambda>d. distinct (unfolding_of t s d)) ds then activate_release C t m ds s = Some (Inr x)
       else \<exists>d. activate_release C t m ds s = Some (Inl (Registry (CircularMetadataError d))))"
proof -
  have ok: "registry_ok C K s" by (simp add: assms(3) registry_run_ok [OF assms(1,2)])
  then have table: "deps_precede (rev (rg_artifacts s))" by (simp add: registry_ok_def)
  have x: "x \<in> set (rg_manifests s)" "mr_tenant_id x = t"
    using assms(4) by (auto simp: require_manifest_def res_bind_Inr split: option.splits dest!: one_or_none_filter)
  with ok have row: "manifest_ok C (registered s) x" by (auto simp: registry_ok_def list_all_iff)
  with assms(5) x(2) have reg: "list_all (\<lambda>d. (t, d) \<in> registered s) (dedupe ds)"
    by (auto simp: manifest_ok_def list_all_iff)
  have exact: "list_all (\<lambda>d. (t, d) \<in> registered s) es \<Longrightarrow> require_exact t es s = Inr ()" for es
  proof (induction es)
    case (Cons d es)
    then obtain a where "a \<in> set (rg_artifacts s)" "art_key a = (t, d)" by (auto simp: registered_def)
    with require_artifact_found [OF table] have "require_artifact t d s = Inr a" "ac_digest a = d" by auto
    with Cons show ?case by simp
  qed simp
  have "activate_release C t m ds s =
      (case assert_acyclic t (dedupe ds) s of None \<Rightarrow> None | Some (Inl e) \<Rightarrow> Some (Inl e) | Some (Inr _) \<Rightarrow> Some (Inr x))"
    using assms(4,5) row exact [OF reg]
    by (simp add: activate_release_def Let_def manifest_ok_def filter_empty_conv subset_iff)
  moreover have "dependency_relation (rev (rg_artifacts s)) = dependency_relation (rg_artifacts s)"
    by (simp add: dependency_relation_def)
  moreover have "list_all (\<lambda>d. distinct (unfolding_of t s d)) (dedupe ds) = list_all (\<lambda>d. distinct (unfolding_of t s d)) ds"
    by (simp add: list_all_iff)
  ultimately show ?thesis
    using assert_acyclic_exact [OF ok reg] dependency_relation_acyclic [OF table]
    by (auto simp: circular_def split: if_splits)
qed

lemma shared_dependencies_witness:
  "\<exists>d. activate_release demo_crypto ''acme'' ''sha256:m'' [''sha256:app''] (demo_registry demo_diamond)
     = Some (Inl (Registry (CircularMetadataError d)))"
proof -
  let ?s = "demo_registry demo_diamond"
  have "case require_manifest ''acme'' ''sha256:m'' ?s of Inr x \<Rightarrow> ''sha256:app'' \<in> set (mr_artifact_digests x) | _ \<Rightarrow> False"
    by code_simp
  then obtain x where x: "require_manifest ''acme'' ''sha256:m'' ?s = Inr x" "set [''sha256:app''] \<subseteq> set (mr_artifact_digests x)"
    by (auto split: sum.splits)
  have "\<not> list_all (\<lambda>d. distinct (unfolding_of ''acme'' ?s d)) [''sha256:app'']" by code_simp
  with activation_refuses_shared_dependencies [OF demo_crypto_laws demo_key_laws refl x] show ?thesis by simp
qed

lemma uri_payload [simp]: "removeprefix (STORAGE_URI_SCHEME @ ''://'') (storage_uri_for d) = d"
  unfolding storage_uri_for_def append_assoc [symmetric] by (rule removeprefix_append)

lemma fresh_register_runs:
  assumes "key_laws K" "registry_ok C K s"
    and "register_artifact C K u n t ty b ds cs ex cl s = (Inr a, s')" "a \<notin> set (rg_artifacts s)"
    and same: "\<And>b'. cr_sha256 C b' = cr_sha256 C b \<Longrightarrow> b' = b"
  shows "read_artifact C K t (ac_digest a) s' = Inr b \<and> a \<in> set (rg_artifacts s') \<and> ac_tenant_id a = t
    \<and> ac_storage_uri a = storage_uri_for (sha256_digest C b)"
proof (cases rule: register_cases [of C K u n t ty b ds cs ex cl s])
  case (4 p a' l)
  with assms(3) have a: "a = a'" "s' = s\<lparr>rg_lineage := l, rg_artifacts := rg_artifacts s @ [a]\<rparr>" by auto
  have lin: "lineage_ok C K (rg_lineage s)" using assms(2) by (simp add: registry_ok_def)
  have keys: "distinct (map payload_key (payloads (rg_lineage s)))" using lin by (simp add: lineage_ok_def)
  from stored_is_read [OF assms(1) lin 4(2)] obtain b' where b': "read_payload K t (sha256_digest C b) l = Inr b'" by blast
  have "lineage_ok C K l" using store_ok [OF assms(1) lin, of n t b cl] 4(2) by simp
  from read_sealed [OF this b'] same have "b' = b" by (auto simp: sha256_digest_def)
  have p: "pl_payload_digest p = sha256_digest C b"
    using 4(2) by (cases rule: store_cases [OF keys, of C K n t b cl]) auto
  have "registry_ok C K s'" using register_ok [OF assms(1,2), of u n t ty b ds cs ex cl] assms(3) by simp
  then have table: "deps_precede (rev (rg_artifacts s'))" by (simp add: registry_ok_def)
  have "require_artifact t (ac_digest a) s' = Inr a"
    using require_artifact_found [OF table, of a] 4(4) by (simp add: a new_artifact_def)
  with b' \<open>b' = b\<close> p show ?thesis
    by (simp add: read_artifact_def 4(4) a new_artifact_def Let_def del: append.simps)
qed (use assms(3,4) in auto)

lemma registry_calls_ok:
  assumes "crypto_laws C" "key_laws K" "registry_ok C K s"
  shows "registry_ok C K (run_calls (do_registry_call C K) cs s)"
  by (rule run_calls_invariant [where P = "registry_ok C K"]) (auto intro: registry_call_ok assms)

text \<open>Registered content never changes. A new registration is read back as the very bytes that were registered, and
  whatever is called afterwards, deletions and re-uploads included, the artifact's row stays and a read
  that returns anything returns those bytes. (No other byte string has the same SHA-256.)\<close>

theorem registered_content_never_changes:
  assumes "crypto_laws C" "key_laws K"
    and "s = run_calls (do_registry_call C K) cs empty_registry"
    and "register_artifact C K u n t ty b ds caps ex cl s = (Inr a, s')" "a \<notin> set (rg_artifacts s)"
    and "\<And>b'. cr_sha256 C b' = cr_sha256 C b \<Longrightarrow> b' = b"
    and "s'' = run_calls (do_registry_call C K) cs' s'"
  shows "read_artifact C K t (ac_digest a) s' = Inr b \<and> get_artifact t (ac_digest a) s'' = Inr a
    \<and> (read_artifact C K t (ac_digest a) s'' = Inr b'' \<longrightarrow> b'' = b)"
proof -
  have ok: "registry_ok C K s" by (simp add: assms(3) registry_run_ok [OF assms(1,2)])
  note made = fresh_register_runs [OF assms(2) ok assms(4,5) assms(6)]
  have "registry_ok C K s'" using register_ok [OF assms(2) ok, of u n t ty b ds caps ex cl] assms(4) by simp
  then have ok'': "registry_ok C K s''" by (simp add: assms(7) registry_calls_ok [OF assms(1,2)])
  have "a \<in> set (rg_artifacts s'')" using made by (simp add: assms(7) artifacts_stay_run)
  with ok'' made have found: "require_artifact t (ac_digest a) s'' = Inr a"
    using require_artifact_found [of s'' a] by (simp add: registry_ok_def)
  have "b'' = b" if "read_artifact C K t (ac_digest a) s'' = Inr b''"
  proof -
    from that found made have "read_payload K t (sha256_digest C b) (rg_lineage s'') = Inr b''"
      by (auto simp: read_artifact_def res_bind_Inr Let_def simp del: append.simps split: if_splits)
    with ok'' have "sha256_digest C b'' = sha256_digest C b" by (intro read_sealed) (simp_all add: registry_ok_def)
    then show ?thesis by (intro assms(6)) (simp add: sha256_digest_def)
  qed
  with made found show ?thesis by (simp add: get_artifact_def)
qed

text \<open>An instance in which no other value has the digest of one particular body.\<close>

definition lone_crypto :: "(string, json) crypto" where
  "lone_crypto = plain_crypto\<lparr>cr_sha256 := (\<lambda>j. if j = JStr ''body'' then ''b'' else ''a'')\<rparr>"

lemma lone_crypto_laws: "crypto_laws lone_crypto"
  by (simp add: crypto_laws_def lone_crypto_def plain_crypto_def)

lemma registered_content_witness:
  "\<exists>a s'. register_artifact lone_crypto demo_keys ''u'' 1 ''acme'' ''prompt'' (JStr ''body'') [] [] None ''artifact'' empty_registry
      = (Inr a, s') \<and> read_artifact lone_crypto demo_keys ''acme'' (ac_digest a) s' = Inr (JStr ''body'')"
proof -
  let ?run = "register_artifact lone_crypto demo_keys ''u'' 1 ''acme'' ''prompt'' (JStr ''body'') [] [] None ''artifact''
      (run_calls (do_registry_call lone_crypto demo_keys) [] empty_registry)"
  have "\<not> isl (fst ?run)" by code_simp
  then obtain a s' where run: "?run = (Inr a, s')" by (metis isl_def prod.collapse sum.exhaust)
  have new: "a \<notin> set (rg_artifacts (run_calls (do_registry_call lone_crypto demo_keys) [] empty_registry))"
    by (simp add: empty_registry_def)
  have sha: "cr_sha256 lone_crypto b' = cr_sha256 lone_crypto (JStr ''body'') \<Longrightarrow> b' = JStr ''body''" for b'
    by (simp add: lone_crypto_def split: if_splits)
  from registered_content_never_changes [OF lone_crypto_laws demo_key_laws refl run new sha refl] run show ?thesis
    by auto
qed



lemma last_sort_key_greatest:
  assumes "x \<in> set xs"
  shows "last (sort_key f xs) \<in> set xs" "f x \<le> f (last (sort_key f xs))"
proof -
  let ?zs = "sort_key f xs"
  have "set ?zs = set xs" by simp
  with assms have "?zs \<noteq> []" by force
  then obtain bs where bs: "?zs = bs @ [last ?zs]" using append_butlast_last_id by metis
  then have "last ?zs \<in> set ?zs" by (metis in_set_conv_decomp)
  then show "last ?zs \<in> set xs" by simp
  have "sorted (map f (bs @ [last ?zs]))" using sorted_sort_key [of f xs] bs by simp
  then have "\<forall>z \<in> set (bs @ [last ?zs]). f z \<le> f (last ?zs)" by (simp add: sorted_append)
  with assms bs \<open>set ?zs = set xs\<close> show "f x \<le> f (last ?zs)" by metis
qed

lemma last_sort_key_snoc:
  fixes f :: "'a \<Rightarrow> 'k :: linorder"
  assumes "\<forall>x \<in> set xs. f x \<noteq> f y"
  shows "last (sort_key f (xs @ [y])) = y \<longleftrightarrow> (\<forall>x \<in> set xs. f x < f y)"
proof
  assume last: "last (sort_key f (xs @ [y])) = y"
  have "f x \<le> f y" if "x \<in> set xs" for x
    using last_sort_key_greatest(2) [of x "xs @ [y]" f] that unfolding last by simp
  with assms show "\<forall>x \<in> set xs. f x < f y" by (simp add: order.strict_iff_order)
next
  assume "\<forall>x \<in> set xs. f x < f y"
  then show "last (sort_key f (xs @ [y])) = y"
    using last_sort_key_greatest [of y "xs @ [y]" f] by (auto simp: not_le [symmetric])
qed

text \<open>A new status event becomes the current status exactly when no earlier event of the artifact is later than it,
  and none with the same time has a greater event id. Times are transaction times and event ids are random:
  of two events appended in one transaction either may be the current one.\<close>

theorem latest_event_wins:
  assumes "append_status_event row_id uid now t d kind who why s = (Inr e, s')"
  shows "current_status t d s' = Inr (map_option se_kind (latest_event t d s'))
    \<and> (latest_event t d s' = Some e \<longleftrightarrow>
        list_all (\<lambda>x. se_tenant_id x = t \<and> se_artifact_digest x = d \<longrightarrow>
           se_created_at x < now \<or> se_created_at x = now \<and> se_event_id x < new_id ''ase'' uid) (rg_events s))"
proof -
  let ?rows = "filter (\<lambda>e. se_tenant_id e = t \<and> se_artifact_digest e = d) (rg_events s)"
  let ?f = "\<lambda>e. (se_created_at e, se_event_id e)"
  from assms obtain a where a: "require_artifact t d s = Inr a" "ac_digest a = d"
    and e: "se_created_at e = now" "se_event_id e = new_id ''ase'' uid" "se_tenant_id e = t" "se_artifact_digest e = d"
    and s': "s' = s\<lparr>rg_events := rg_events s @ [e]\<rparr>" "se_event_id e \<notin> se_event_id ` set (rg_events s)"
    using require_registered [of t d s]
    by (auto simp: append_status_event_def op_run_simps op_end_simps Let_def split: if_splits sum.splits)
  have "require_artifact t d s' = Inr a" using a(1) by (simp add: s' require_artifact_def find_artifact_def)
  moreover have rows: "filter (\<lambda>e. se_tenant_id e = t \<and> se_artifact_digest e = d) (rg_events s') = ?rows @ [e]"
    using e(3,4) by (simp add: s')
  have "set (sort_key ?f (?rows @ [e])) = set (?rows @ [e])" by (rule set_sort)
  then have "sort_key ?f (?rows @ [e]) \<noteq> []" by force
  then have "latest_event t d s' = Some (last (sort_key ?f (?rows @ [e])))"
    unfolding latest_event_def rows by (cases "sort_key ?f (?rows @ [e])") simp_all
  moreover have "\<forall>x \<in> set ?rows. ?f x \<noteq> ?f e" using s'(2) by (auto simp: image_iff)
  ultimately show ?thesis
    using last_sort_key_snoc [of ?rows ?f e] e(1,2)
    by (auto simp: current_status_def list_all_iff)
qed

lemma latest_event_witness:
  "\<exists>e s'. append_status_event ''r2'' ''b'' 5 ''acme'' ''sha256:base'' ''revoke'' ''ops'' None
       (run_calls (do_registry_call demo_crypto demo_keys)
          [demo_register ''base'' [], Status_event ''r1'' ''c'' 5 ''acme'' ''sha256:base'' ''nominate'' ''ops'' None] empty_registry)
       = (Inr e, s') \<and> latest_event ''acme'' ''sha256:base'' s' \<noteq> Some e"
proof -
  let ?s = "run_calls (do_registry_call demo_crypto demo_keys)
    [demo_register ''base'' [], Status_event ''r1'' ''c'' 5 ''acme'' ''sha256:base'' ''nominate'' ''ops'' None] empty_registry"
  let ?run = "append_status_event ''r2'' ''b'' 5 ''acme'' ''sha256:base'' ''revoke'' ''ops'' None ?s"
  have "\<not> isl (fst ?run)" by code_simp
  then obtain e s' where run: "?run = (Inr e, s')" by (metis isl_def prod.collapse sum.exhaust)
  have "\<not> list_all (\<lambda>x. se_tenant_id x = ''acme'' \<and> se_artifact_digest x = ''sha256:base'' \<longrightarrow>
      se_created_at x < 5 \<or> se_created_at x = 5 \<and> se_event_id x < new_id ''ase'' ''b'') (rg_events ?s)"
    by code_simp
  with latest_event_wins [OF run] run show ?thesis by blast
qed

end
