(* ===== verification/Nomination.thy ===== *)
theory Nomination
  imports Registry
begin

text \<open>
  The trusted selector (\<^verbatim>\<open>selection/nomination.py\<close>): the preregistered rule, observations on the selection
  partition, the nomination ledgers, freezing one nominee per arm and the closed edit path. The locale
  \<open>nomination_ledger\<close> is what the selector needs of a ledger; the in-memory ledger and the registry-backed
  one (whose rows come back in random order) interpret it. The lemmas show which candidate is nominated,
  that a freeze is a one-way door under any later use of the registry, and what a shared or a failing
  ledger does to it.
\<close>

section \<open>Rule and observations\<close>

definition NOMINATE_EVENT_KIND :: string where "NOMINATE_EVENT_KIND = ''nominate''"
definition REJECT_EVENT_KIND :: string where "REJECT_EVENT_KIND = ''reject''"
definition SELECTOR_ACTOR :: string where "SELECTOR_ACTOR = ''trusted-selector''"

definition NOMINATION_METRICS :: "string list" where
  "NOMINATION_METRICS = [''selection_score'', ''productivity_score'']"

definition COST_NORMALIZATIONS :: "string list" where
  "COST_NORMALIZATIONS = [''arm_max'']"

definition rule_error :: "string \<Rightarrow> exn + 'a" where
  "rule_error why = Inl (Selection (NominationRuleError why))"

record nomination_rule =
  nr_metric :: string
  nr_min_score :: rat
  nr_tiebreak :: string
  nr_cost_metric :: string
  nr_cost_normalization :: string

definition validate_rule :: "nomination_rule \<Rightarrow> exn + unit" where
  "validate_rule r =
     (if nr_metric r \<notin> set NOMINATION_METRICS then rule_error ''unknown nomination metric''
      else if nr_tiebreak r \<noteq> ''lowest_digest'' then rule_error ''unknown tiebreak''
      else if \<not> (0 \<le> nr_min_score r \<and> nr_min_score r \<le> 1) then rule_error ''min_score must be in [0, 1]''
      else if nr_cost_metric r \<notin> set COST_METRIC_KEYS then rule_error ''unknown cost metric''
      else if nr_cost_normalization r \<notin> set COST_NORMALIZATIONS then rule_error ''unknown cost normalization''
      else Inr ())"

definition rule_json :: "nomination_rule \<Rightarrow> json" where
  "rule_json r =
     JObj [(''metric'', JStr (nr_metric r)), (''min_score'', JFloat (nr_min_score r)),
           (''tiebreak'', JStr (nr_tiebreak r)), (''cost_metric'', JStr (nr_cost_metric r)),
           (''cost_normalization'', JStr (nr_cost_normalization r))]"

record selection_observation =
  so_arm_id :: string
  so_candidate_digest :: string
  so_selection_score :: rat
  so_cost_metrics :: "(string, rat) dict"

definition finite_cost :: "string \<times> py_number \<Rightarrow> exn + string \<times> rat" where
  "finite_cost = (\<lambda>(key, v). case v of
     Finite q \<Rightarrow> if q < 0 then rule_error ''cost metric must be a finite non-negative number'' else Inr (key, q)
   | Non_Finite \<Rightarrow> rule_error ''cost metric must be a finite non-negative number'')"

definition new_observation ::
  "string \<Rightarrow> string \<Rightarrow> py_number \<Rightarrow> (string, py_number) dict \<Rightarrow> exn + selection_observation" where
  "new_observation arm_id candidate_digest selection_score cost_metrics =
     (if arm_id = [] then rule_error ''arm_id must be non-empty''
      else if take 7 candidate_digest \<noteq> ''sha256:'' then rule_error ''candidate_digest must be a sha256 digest''
      else case selection_score of
             Non_Finite \<Rightarrow> rule_error ''selection_score must be in [0, 1]''
           | Finite score \<Rightarrow>
               if \<not> (0 \<le> score \<and> score \<le> 1) then rule_error ''selection_score must be in [0, 1]''
               else if filter (\<lambda>k. k \<notin> set COST_METRIC_KEYS) (map fst cost_metrics) \<noteq> []
                 then rule_error ''unregistered cost metric(s)''
               else res_bind (res_map finite_cost cost_metrics) (\<lambda>costs.
                 Inr \<lparr>so_arm_id = arm_id, so_candidate_digest = candidate_digest, so_selection_score = score,
                      so_cost_metrics = costs\<rparr>))"

section \<open>Events and the freeze record\<close>

record nomination_event =
  ne_arm_id :: string
  ne_artifact_digest :: string
  ne_kind :: string
  ne_actor_identity :: string
  ne_reason :: "string option"

definition valid_kind :: "nomination_event \<Rightarrow> bool" where
  "valid_kind e \<longleftrightarrow> ne_kind e = NOMINATE_EVENT_KIND \<or> ne_kind e = REJECT_EVENT_KIND"

record frozen_nominees =
  fn_campaign_id :: string
  fn_rule :: nomination_rule
  fn_nominees :: "(string, string) dict"
  fn_actor_identity :: string
  fn_digest :: string

definition nominee_for :: "frozen_nominees \<Rightarrow> string \<Rightarrow> exn + string" where
  "nominee_for f arm_id =
     (case map_of (fn_nominees f) arm_id of None \<Rightarrow> rule_error ''no frozen nominee for arm'' | Some d \<Rightarrow> Inr d)"

section \<open>The rule applied to one arm\<close>

definition attested_cost :: "string \<Rightarrow> selection_observation \<Rightarrow> rat option" where
  "attested_cost cost_metric ob =
     (case map_of (so_cost_metrics ob) cost_metric of
        None \<Rightarrow> None | Some cost \<Rightarrow> if cost \<le> 0 then None else Some cost)"

definition productivity_value :: "rat \<Rightarrow> rat \<Rightarrow> rat \<Rightarrow> rat" where
  "productivity_value selection_score cost arm_max_cost = selection_score / (cost / arm_max_cost)"

text \<open>\<^verbatim>\<open>costs[candidate.candidate_digest] = cost\<close> over the eligible candidates.\<close>

fun arm_costs :: "string \<Rightarrow> selection_observation list \<Rightarrow> (string, rat) dict \<Rightarrow> (string, rat) dict" where
  "arm_costs cost_metric [] costs = costs"
| "arm_costs cost_metric (c # cs) costs =
     arm_costs cost_metric cs (case attested_cost cost_metric c of
        None \<Rightarrow> costs | Some cost \<Rightarrow> AList.update (so_candidate_digest c) cost costs)"

fun arm_values ::
  "(string, rat) dict \<Rightarrow> rat \<Rightarrow> selection_observation list \<Rightarrow> (string, rat) dict \<Rightarrow> (string, rat) dict" where
  "arm_values costs arm_max_cost [] values = values"
| "arm_values costs arm_max_cost (c # cs) values =
     arm_values costs arm_max_cost cs (AList.update (so_candidate_digest c)
       (productivity_value (so_selection_score c) (dict_get costs (so_candidate_digest c) 0) arm_max_cost) values)"

definition rank_by_productivity ::
  "nomination_rule \<Rightarrow> selection_observation list \<Rightarrow> exn + selection_observation list" where
  "rank_by_productivity rule eligible =
     (let costs = arm_costs (nr_cost_metric rule) eligible []
      in if costs = [] then rule_error ''arm has no candidate with a positive attested cost''
         else (let priced = filter (\<lambda>c. map_of costs (so_candidate_digest c) \<noteq> None) eligible;
                   values = arm_values costs (Max (set (map snd costs))) priced [];
                   best = Max (set (map snd values))
               in Inr (filter (\<lambda>c. map_of values (so_candidate_digest c) = Some best) priced)))"

definition nominate :: "nomination_rule \<Rightarrow> selection_observation list \<Rightarrow> exn + string" where
  "nominate rule candidates =
     (let eligible = filter (\<lambda>c. nr_min_score rule \<le> so_selection_score c) candidates
      in if eligible = [] then rule_error ''arm has no candidate at or above min_score''
         else res_bind
           (if nr_metric rule = ''productivity_score'' then rank_by_productivity rule eligible
            else (let best = Max (set (map so_selection_score eligible))
                  in Inr (filter (\<lambda>c. so_selection_score c = best) eligible)))
           (\<lambda>ranked. case sort_key so_candidate_digest ranked of
               [] \<Rightarrow> Inl (Foreign ''IndexError'') | c # _ \<Rightarrow> Inr (so_candidate_digest c)))"

section \<open>The selector\<close>

text \<open>\<^verbatim>\<open>str\<close> of a float comes from Python.\<close>

record ('k, 'b) selector =
  sl_crypto :: "('k, 'b) crypto"
  sl_repr :: "rat \<Rightarrow> string"
  sl_rule :: nomination_rule
  sl_campaign_id :: string
  sl_actor :: string

definition freeze_digest :: "('k, 'b) selector \<Rightarrow> (string, string) dict \<Rightarrow> string" where
  "freeze_digest S nominees =
     sha256_digest (sl_crypto S) (canonical_json (sl_crypto S) (JObj
       [(''campaign_id'', JStr (sl_campaign_id S)), (''rule'', rule_json (sl_rule S)),
        (''nominees'', JObj (map (\<lambda>(arm, d). (arm, JStr d)) (sort_key fst nominees)))]))"

definition freeze_record :: "('k, 'b) selector \<Rightarrow> (string, string) dict \<Rightarrow> frozen_nominees" where
  "freeze_record S nominees =
     \<lparr>fn_campaign_id = sl_campaign_id S, fn_rule = sl_rule S, fn_nominees = nominees,
      fn_actor_identity = sl_actor S, fn_digest = freeze_digest S nominees\<rparr>"

text \<open>The projection of the ledger: the latest \<^verbatim>\<open>nominate\<close> event per arm.\<close>

fun project_nominees :: "nomination_event list \<Rightarrow> (string, string) dict \<Rightarrow> (string, string) dict" where
  "project_nominees [] nominees = nominees"
| "project_nominees (e # es) nominees =
     project_nominees es
       (if ne_kind e = NOMINATE_EVENT_KIND \<and> ne_arm_id e \<noteq> []
        then AList.update (ne_arm_id e) (ne_artifact_digest e) nominees else nominees)"

definition frozen_of :: "('k, 'b) selector \<Rightarrow> nomination_event list \<Rightarrow> frozen_nominees option" where
  "frozen_of S events =
     (let nominees = project_nominees events []
      in if nominees = [] then None else Some (freeze_record S nominees))"

fun group_by_arm ::
  "selection_observation list \<Rightarrow> (string, selection_observation list) dict
     \<Rightarrow> (string, selection_observation list) dict" where
  "group_by_arm [] by_arm = by_arm"
| "group_by_arm (ob # obs) by_arm =
     group_by_arm obs (AList.map_default (so_arm_id ob) [ob] (\<lambda>xs. xs @ [ob]) by_arm)"

definition nominate_event :: "('k, 'b) selector \<Rightarrow> string \<Rightarrow> string \<Rightarrow> nomination_event" where
  "nominate_event S arm_id digest =
     \<lparr>ne_arm_id = arm_id, ne_artifact_digest = digest, ne_kind = NOMINATE_EVENT_KIND,
      ne_actor_identity = sl_actor S,
      ne_reason = Some (''arm='' @ arm_id @ '';rule='' @ nr_metric (sl_rule S))\<rparr>"

definition reject_event :: "('k, 'b) selector \<Rightarrow> string \<Rightarrow> selection_observation \<Rightarrow> nomination_event" where
  "reject_event S arm_id loser =
     \<lparr>ne_arm_id = arm_id, ne_artifact_digest = so_candidate_digest loser, ne_kind = REJECT_EVENT_KIND,
      ne_actor_identity = sl_actor S,
      ne_reason = Some (''arm='' @ arm_id @ '';score='' @ sl_repr S (so_selection_score loser))\<rparr>"

definition arm_events ::
  "('k, 'b) selector \<Rightarrow> (string, selection_observation list) dict \<Rightarrow> string \<times> string \<Rightarrow> nomination_event list" where
  "arm_events S by_arm = (\<lambda>(arm_id, digest).
     nominate_event S arm_id digest #
     map (reject_event S arm_id)
       (filter (\<lambda>l. so_candidate_digest l \<noteq> digest) (sort_key so_candidate_digest (dict_get by_arm arm_id []))))"

definition choose_nominees ::
  "nomination_rule \<Rightarrow> (string, selection_observation list) dict \<Rightarrow> exn + (string, string) dict" where
  "choose_nominees rule by_arm =
     res_map (\<lambda>arm_id. res_bind (nominate rule (dict_get by_arm arm_id [])) (\<lambda>d. Inr (arm_id, d)))
       (sort (map fst by_arm))"

definition freeze ::
  "(nomination_event \<Rightarrow> (exn, 'l, unit) op) \<Rightarrow> ('l \<Rightarrow> nomination_event list) \<Rightarrow> ('k, 'b) selector
     \<Rightarrow> selection_observation list \<Rightarrow> (exn, 'l, frozen_nominees) op" where
  "freeze add_event events S observations =
     op_bind (op_gets (\<lambda>l. frozen_of S (events l))) (\<lambda>already.
       case already of
         Some f \<Rightarrow> op_raise (Selection (AlreadyFrozenError (hd (sort (map fst (fn_nominees f)))) ''re-freeze''))
       | None \<Rightarrow>
           let by_arm = group_by_arm observations []
           in if by_arm = [] then op_lift (rule_error ''no selection observations'')
              else op_bind (op_lift (choose_nominees (sl_rule S) by_arm)) (\<lambda>nominees.
                op_then (op_for (concat (map (arm_events S by_arm) nominees)) add_event)
                  (op_return (freeze_record S nominees))))"

definition apply_strategy_edit ::
  "('l \<Rightarrow> nomination_event list) \<Rightarrow> ('k, 'b) selector \<Rightarrow> string \<Rightarrow> string
     \<Rightarrow> (exn, 'l, selection_observation) op" where
  "apply_strategy_edit events S arm_id new_digest =
     op_bind (op_gets (\<lambda>l. frozen_of S (events l))) (\<lambda>f.
       if (case f of None \<Rightarrow> False | Some g \<Rightarrow> map_of (fn_nominees g) arm_id \<noteq> None)
       then op_raise (Selection (AlreadyFrozenError arm_id (''strategy edit to '' @ new_digest)))
       else op_lift (new_observation arm_id new_digest (Finite 0) []))"

section \<open>The ledgers\<close>

text \<open>\<^verbatim>\<open>RegistryNominationLedger\<close>: what an append draws is the row id, the event id and the time.\<close>

record 'b registry_ledger =
  rl_registry :: "'b registry_db"
  rl_draws :: "nat \<Rightarrow> string \<times> string \<times> instant"
  rl_drawn :: nat

definition arm_from_reason :: "string option \<Rightarrow> string" where
  "arm_from_reason reason =
     (case reason of
        None \<Rightarrow> []
      | Some r \<Rightarrow> if take 4 r = ''arm='' then takeWhile (\<lambda>c. c \<noteq> CHR '';'') (removeprefix ''arm='' r) else [])"

definition registry_append :: "string \<Rightarrow> nomination_event \<Rightarrow> (exn, 'b registry_ledger, unit) op" where
  "registry_append tenant_id e = (\<lambda>l.
     case rl_draws l (rl_drawn l) of (row_id, uid, now) \<Rightarrow>
       (case append_status_event row_id uid now tenant_id (ne_artifact_digest e) (ne_kind e)
               (ne_actor_identity e) (ne_reason e) (rl_registry l) of
          (Inl x, s) \<Rightarrow> (Inl x, l\<lparr>rl_registry := s, rl_drawn := Suc (rl_drawn l)\<rparr>)
        | (Inr _, s) \<Rightarrow> (Inr (), l\<lparr>rl_registry := s, rl_drawn := Suc (rl_drawn l)\<rparr>)))"

definition registry_events :: "string \<Rightarrow> 'b registry_ledger \<Rightarrow> nomination_event list" where
  "registry_events tenant_id l =
     map (\<lambda>row. \<lparr>ne_arm_id = arm_from_reason (se_reason row), ne_artifact_digest = se_artifact_digest row,
                 ne_kind = se_kind row, ne_actor_identity = se_actor_identity row, ne_reason = se_reason row\<rparr>)
       (filter (\<lambda>row. se_kind row = NOMINATE_EVENT_KIND \<or> se_kind row = REJECT_EVENT_KIND)
         (list_status_events tenant_id None (rl_registry l)))"

section \<open>What the selector needs of a ledger\<close>

text \<open>An append that returns adds the event to the ones that can be read, one that raises adds nothing; in which order
  they are read is left open. \<open>storable\<close> says which events survive the ledger's representation.\<close>

locale nomination_ledger =
  fixes add_event :: "nomination_event \<Rightarrow> (exn, 'l, unit) op"
    and events :: "'l \<Rightarrow> nomination_event list"
    and storable :: "nomination_event \<Rightarrow> bool"
  assumes add_ok: "add_event e l = (Inr u, l') \<Longrightarrow> storable e \<Longrightarrow> set (events l') = insert e (set (events l))"
    and add_failed: "add_event e l = (Inl x, l') \<Longrightarrow> set (events l') = set (events l)"
begin

lemma for_add:
  "op_for es add_event l = (r, l') \<Longrightarrow> list_all storable es \<Longrightarrow>
     \<exists>n \<le> length es. set (events l') = set (events l) \<union> set (take n es) \<and> (r = Inr () \<longrightarrow> n = length es)"
proof (induction es arbitrary: l)
  case Nil
  then show ?case by (simp add: op_return_def)
next
  case (Cons e es)
  obtain r1 l1 where step: "add_event e l = (r1, l1)" by fastforce
  show ?case
  proof (cases r1)
    case (Inl x)
    with Cons.prems(1) step have "r = Inl x" "l' = l1" by (simp_all add: op_then_def op_bind_def)
    with add_failed [of e l x l1] step Inl show ?thesis by (intro exI [of _ 0]) simp
  next
    case (Inr u)
    with Cons.prems(1) step have "op_for es add_event l1 = (r, l')" by (simp add: op_then_def op_bind_def)
    from Cons.IH [OF this] Cons.prems(2) obtain n where
      "n \<le> length es" "set (events l') = set (events l1) \<union> set (take n es)" "r = Inr () \<longrightarrow> n = length es" by auto
    with add_ok [of e l u l1] step Inr Cons.prems(2) show ?thesis by (intro exI [of _ "Suc n"]) auto
  qed
qed

end

definition nominates :: "string \<Rightarrow> nomination_event \<Rightarrow> bool" where
  "nominates arm_id e \<longleftrightarrow> ne_kind e = NOMINATE_EVENT_KIND \<and> ne_arm_id e = arm_id \<and> arm_id \<noteq> []"

lemma project_None: "map_of (project_nominees es ns) a = None \<longleftrightarrow> map_of ns a = None \<and> filter (nominates a) es = []"
  by (induction es arbitrary: ns) (auto simp: nominates_def map_of_update)

lemma project_unique:
  "\<forall>e \<in> set es. nominates a e \<longrightarrow> ne_artifact_digest e = d \<Longrightarrow>
     map_of ns a = Some d \<or> filter (nominates a) es \<noteq> [] \<Longrightarrow> map_of (project_nominees es ns) a = Some d"
proof (induction es arbitrary: ns)
  case (Cons e es)
  show ?case
  proof (cases "nominates a e")
    case True
    with Cons.prems(1) have "ne_artifact_digest e = d" by simp
    with True Cons show ?thesis by (simp add: nominates_def map_of_update)
  next
    case False
    with Cons show ?thesis by (auto simp: nominates_def map_of_update)
  qed
qed simp

lemma dict_ok_project: "dict_ok ns \<Longrightarrow> dict_ok (project_nominees es ns)"
  by (induction es arbitrary: ns) auto

lemma frozen_of_None: "frozen_of S es = None \<longleftrightarrow> (\<forall>a. filter (nominates a) es = [])"
proof -
  have "project_nominees es [] = [] \<longleftrightarrow> (\<forall>a. map_of (project_nominees es []) a = None)"
    using map_of_eq_empty_iff [of "project_nominees es []"] by (simp only: fun_eq_iff)
  then show ?thesis by (simp add: frozen_of_def project_None Let_def)
qed

lemma frozen_of_nominated:
  assumes "e \<in> set es" "nominates a e"
  obtains g where "frozen_of S es = Some g" "map_of (fn_nominees g) a \<noteq> None"
proof -
  have "filter (nominates a) es \<noteq> []" using assms by (auto simp: filter_empty_conv)
  then have some: "map_of (project_nominees es []) a \<noteq> None" by (simp add: project_None)
  then have "project_nominees es [] \<noteq> []" by auto
  with some show thesis by (intro that [of "freeze_record S (project_nominees es [])"])
      (simp_all add: frozen_of_def freeze_record_def Let_def)
qed

lemma freeze_digest_cong:
  "dict_ok d \<Longrightarrow> dict_ok d' \<Longrightarrow> map_of d = map_of d' \<Longrightarrow> freeze_digest S d = freeze_digest S d'"
  by (simp only: freeze_digest_def sorted_dict_unique [of d d'])

section \<open>Grouping and choosing\<close>

lemma map_of_map_default:
  "map_of (AList.map_default k v f d) k' =
     (if k' = k then Some (case map_of d k of None \<Rightarrow> v | Some x \<Rightarrow> f x) else map_of d k')"
  by (induction d) auto

lemma keys_map_default: "set (map fst (AList.map_default k v f d)) = insert k (set (map fst d))"
  by (induction d) auto

lemma dict_ok_map_default: "dict_ok d \<Longrightarrow> dict_ok (AList.map_default k v f d)"
proof (induction d)
  case (Cons p d)
  moreover have "fst ` set (AList.map_default k v f d) = insert k (fst ` set d)"
    using keys_map_default [of k v f d] by simp
  ultimately show ?case by (auto simp: dict_ok_def)
qed (simp add: dict_ok_def)

lemma group_lookup:
  "map_of (group_by_arm obs d) a =
     (let mine = filter (\<lambda>ob. so_arm_id ob = a) obs
      in if mine = [] then map_of d a else Some (dict_get d a [] @ mine))"
  by (induction obs arbitrary: d) (auto simp: map_of_map_default dict_get_def Let_def split: option.splits)

lemma group_keys: "set (map fst (group_by_arm obs d)) = set (map fst d) \<union> so_arm_id ` set obs"
  by (induction obs arbitrary: d) (auto simp: keys_map_default simp del: set_map)

lemma group_ok: "dict_ok d \<Longrightarrow> dict_ok (group_by_arm obs d)"
  by (induction obs arbitrary: d) (auto intro: dict_ok_map_default)

lemma group_arm: "dict_get (group_by_arm obs []) a [] = filter (\<lambda>ob. so_arm_id ob = a) obs"
  by (simp add: dict_get_def group_lookup Let_def)

lemma choose_keys:
  "choose_nominees rule by_arm = Inr ns \<Longrightarrow> map fst ns = sort (map fst by_arm)
     \<and> (\<forall>(a, d) \<in> set ns. nominate rule (dict_get by_arm a []) = Inr d)"
proof -
  have "res_map (\<lambda>a. res_bind (nominate rule (dict_get by_arm a [])) (\<lambda>d. Inr (a, d))) as = Inr ns \<Longrightarrow>
      map fst ns = as \<and> (\<forall>(a, d) \<in> set ns. nominate rule (dict_get by_arm a []) = Inr d)" for as ns
    by (induction as arbitrary: ns) (auto simp: res_bind_Inr)
  moreover assume "choose_nominees rule by_arm = Inr ns"
  ultimately show ?thesis by (simp add: choose_nominees_def)
qed

section \<open>Freezing\<close>

definition planned_events ::
  "('k, 'b) selector \<Rightarrow> selection_observation list \<Rightarrow> (string, string) dict \<Rightarrow> nomination_event list" where
  "planned_events S obs nominees = concat (map (arm_events S (group_by_arm obs [])) nominees)"

definition arms_named :: "selection_observation list \<Rightarrow> bool" where
  "arms_named obs \<longleftrightarrow> list_all (\<lambda>ob. so_arm_id ob \<noteq> []) obs"

lemma planned_nominations:
  "e \<in> set (planned_events S obs ns) \<and> nominates a e \<longleftrightarrow>
     (\<exists>d. (a, d) \<in> set ns \<and> e = nominate_event S a d \<and> a \<noteq> [])"
  by (fastforce simp: planned_events_def arm_events_def nominates_def nominate_event_def reject_event_def
      NOMINATE_EVENT_KIND_def REJECT_EVENT_KIND_def)

lemma choose_grouped:
  assumes "choose_nominees rule (group_by_arm obs []) = Inr ns"
  shows "dict_ok ns" "set (map fst ns) = so_arm_id ` set obs"
    "(a, d) \<in> set ns \<Longrightarrow> nominate rule (filter (\<lambda>ob. so_arm_id ob = a) obs) = Inr d"
proof -
  have ok: "dict_ok (group_by_arm obs [])" by (rule group_ok) (simp add: dict_ok_def)
  note keys = choose_keys [OF assms]
  then show "dict_ok ns" using ok by (simp add: dict_ok_def)
  have "set (map fst ns) = set (map fst (group_by_arm obs []))" using keys by (metis set_sort)
  then show "set (map fst ns) = so_arm_id ` set obs" by (simp add: group_keys del: set_map)
  show "(a, d) \<in> set ns \<Longrightarrow> nominate rule (filter (\<lambda>ob. so_arm_id ob = a) obs) = Inr d"
    using keys by (auto simp: group_arm)
qed

context nomination_ledger
begin

lemma freeze_run:
  assumes "frozen_of S (events l) = None" "group_by_arm obs [] \<noteq> []"
    "choose_nominees (sl_rule S) (group_by_arm obs []) = Inr ns"
  shows "freeze add_event events S obs l =
    (case op_for (planned_events S obs ns) add_event l of
       (Inl x, l') \<Rightarrow> (Inl x, l') | (Inr u, l') \<Rightarrow> (Inr (freeze_record S ns), l'))"
proof -
  have "freeze add_event events S obs l =
      op_then (op_for (planned_events S obs ns) add_event) (op_return (freeze_record S ns)) l"
    using assms by (simp add: freeze_def op_run_simps op_bind_lift Let_def planned_events_def)
  then show ?thesis by (simp add: op_then_def op_bind_def op_return_def)
qed

lemma freeze_Inr:
  assumes "freeze add_event events S obs l = (Inr f, l')"
  obtains ns where "frozen_of S (events l) = None" "choose_nominees (sl_rule S) (group_by_arm obs []) = Inr ns"
    "f = freeze_record S ns" "op_for (planned_events S obs ns) add_event l = (Inr (), l')" "obs \<noteq> []"
proof -
  from assms have none: "frozen_of S (events l) = None"
    by (cases "frozen_of S (events l)") (auto simp: freeze_def op_run_simps op_end_simps)
  with assms have some: "group_by_arm obs [] \<noteq> []"
    by (auto simp: freeze_def op_run_simps op_end_simps rule_error_def Let_def split: if_splits)
  with none assms obtain ns where "choose_nominees (sl_rule S) (group_by_arm obs []) = Inr ns"
    by (cases "choose_nominees (sl_rule S) (group_by_arm obs [])")
      (auto simp: freeze_def op_run_simps op_bind_lift op_end_simps Let_def)
  moreover from freeze_run [OF none some this] assms
  have "f = freeze_record S ns \<and> op_for (planned_events S obs ns) add_event l = (Inr (), l')"
    by (auto split: prod.splits sum.splits)
  moreover from some have "obs \<noteq> []" by auto
  ultimately show thesis using none that by blast
qed

text \<open>What a freeze returns is what the ledger then says.\<close>

lemma freeze_is_frozen:
  assumes "freeze add_event events S obs l = (Inr f, l')" "arms_named obs"
    and "\<And>ns. choose_nominees (sl_rule S) (group_by_arm obs []) = Inr ns \<Longrightarrow> list_all storable (planned_events S obs ns)"
  shows "set (map fst (fn_nominees f)) = so_arm_id ` set obs
    \<and> (\<exists>g. frozen_of S (events l') = Some g \<and> map_of (fn_nominees g) = map_of (fn_nominees f) \<and> fn_digest g = fn_digest f)"
proof -
  from freeze_Inr [OF assms(1)] obtain ns where
    none: "frozen_of S (events l) = None" and ns: "choose_nominees (sl_rule S) (group_by_arm obs []) = Inr ns"
    and f: "f = freeze_record S ns" and run: "op_for (planned_events S obs ns) add_event l = (Inr (), l')" and "obs \<noteq> []"
    by blast
  note chosen = choose_grouped [OF ns]
  from for_add [OF run assms(3) [OF ns]]
  have all: "set (events l') = set (events l) \<union> set (planned_events S obs ns)" by auto
  have old: "filter (nominates a) (events l) = []" for a using none by (simp add: frozen_of_None)
  have events: "e \<in> set (events l') \<and> nominates a e \<longleftrightarrow> (\<exists>d. (a, d) \<in> set ns \<and> e = nominate_event S a d \<and> a \<noteq> [])" for a e
    using old [of a] planned_nominations [of e S obs ns a] by (auto simp: all filter_empty_conv)
  have named: "a \<noteq> []" if "(a, d) \<in> set ns" for a d
  proof -
    from that chosen(2) have "a \<in> so_arm_id ` set obs" by force
    then show ?thesis using assms(2) by (auto simp: arms_named_def list_all_iff)
  qed
  define gs where "gs = project_nominees (events l') []"
  have "map_of gs a = map_of ns a" for a
  proof (cases "map_of ns a")
    case None
    then have "(a, d) \<notin> set ns" for d by (force simp: map_of_eq_None_iff)
    with events have "\<not> nominates a e" if "e \<in> set (events l')" for e using that by blast
    then have "filter (nominates a) (events l') = []" by (simp add: filter_empty_conv)
    then show ?thesis using None by (simp add: gs_def project_None)
  next
    case (Some d)
    then have d: "(a, d) \<in> set ns" by (rule map_of_SomeD)
    have unique: "x = d" if "(a, x) \<in> set ns" for x
      using that chosen(1) Some by (simp add: dict_ok_def map_of_is_SomeI)
    have "\<forall>e \<in> set (events l'). nominates a e \<longrightarrow> ne_artifact_digest e = d"
    proof (intro ballI impI)
      fix e assume "e \<in> set (events l')" "nominates a e"
      with events obtain x where "(a, x) \<in> set ns" "e = nominate_event S a x" by blast
      with unique show "ne_artifact_digest e = d" by (simp add: nominate_event_def)
    qed
    moreover have "nominate_event S a d \<in> set (events l') \<and> nominates a (nominate_event S a d)"
      using events [of "nominate_event S a d" a] d named by blast
    then have "filter (nominates a) (events l') \<noteq> []" by (auto simp: filter_empty_conv)
    ultimately show ?thesis using Some by (simp add: gs_def project_unique)
  qed
  then have same: "map_of gs = map_of ns" by (rule ext)
  have "dict_ok gs" unfolding gs_def by (rule dict_ok_project) (simp add: dict_ok_def)
  from freeze_digest_cong [OF this chosen(1) same] have digest: "freeze_digest S gs = freeze_digest S ns" .
  have "ns \<noteq> []" using chosen(2) \<open>obs \<noteq> []\<close> by auto
  then have "gs \<noteq> []" using same by (metis map_of_eq_empty_iff)
  then have "frozen_of S (events l') = Some (freeze_record S gs)" by (simp add: frozen_of_def gs_def Let_def)
  then show ?thesis using same digest chosen(2) by (simp add: f freeze_record_def)
qed

text \<open>Any nomination in the ledger closes it to every selector.\<close>

lemma nominated_refuses_freeze:
  assumes "e \<in> set (events l)" "nominates a e"
  shows "\<exists>arm. freeze add_event events S obs l = (Inl (Selection (AlreadyFrozenError arm ''re-freeze'')), l)"
proof -
  obtain g where "frozen_of S (events l) = Some g" using frozen_of_nominated [OF assms, of S] by blast
  then show ?thesis by (simp add: freeze_def op_run_simps op_end_simps)
qed

lemma nominated_refuses_edit:
  assumes "e \<in> set (events l)" "nominates a e"
  shows "apply_strategy_edit events S a d l
    = (Inl (Selection (AlreadyFrozenError a (''strategy edit to '' @ d))), l)"
proof -
  obtain g where "frozen_of S (events l) = Some g" "map_of (fn_nominees g) a \<noteq> None"
    using frozen_of_nominated [OF assms, of S] by blast
  then show ?thesis by (simp add: apply_strategy_edit_def op_run_simps op_end_simps)
qed

text \<open>A freeze that fails after its first append has nominated its first arm for good.\<close>

lemma failed_freeze:
  assumes "freeze add_event events S obs l = (Inl x, l')" "arms_named obs"
    and "\<And>ns. choose_nominees (sl_rule S) (group_by_arm obs []) = Inr ns \<Longrightarrow> list_all storable (planned_events S obs ns)"
    and "set (events l') \<noteq> set (events l)"
  shows "\<exists>e a. e \<in> set (events l') \<and> nominates a e"
proof -
  have none: "frozen_of S (events l) = None"
    using assms(1,4) by (cases "frozen_of S (events l)") (auto simp: freeze_def op_run_simps op_end_simps)
  have some: "group_by_arm obs [] \<noteq> []"
    using assms(1,4) none by (auto simp: freeze_def op_run_simps op_end_simps rule_error_def Let_def)
  obtain ns where ns: "choose_nominees (sl_rule S) (group_by_arm obs []) = Inr ns"
    using assms(1,4) none some
    by (cases "choose_nominees (sl_rule S) (group_by_arm obs [])")
      (auto simp: freeze_def op_run_simps op_bind_lift op_end_simps Let_def)
  obtain r where run: "op_for (planned_events S obs ns) add_event l = (r, l')"
    using assms(1) freeze_run [OF none some ns] by (auto split: prod.splits sum.splits)
  from for_add [OF run assms(3) [OF ns]] assms(4) obtain n where
    n: "set (events l') = set (events l) \<union> set (take n (planned_events S obs ns))" "take n (planned_events S obs ns) \<noteq> []"
    by (metis Un_empty_right list.set(1))
  then obtain a d rest where ns': "ns = (a, d) # rest" by (cases ns) (auto simp: planned_events_def)
  then have "planned_events S obs ns = nominate_event S a d # tl (planned_events S obs ns)"
    by (simp add: planned_events_def arm_events_def)
  with n(2) have "nominate_event S a d \<in> set (take n (planned_events S obs ns))" by (cases n) (metis take0, metis list.set_intros(1) take_Suc_Cons)
  moreover from choose_grouped(2) [OF ns] ns' have "a \<in> so_arm_id ` set obs" by auto
  with assms(2) have "a \<noteq> []" by (auto simp: arms_named_def list_all_iff)
  ultimately show ?thesis using n(1) by (auto simp: nominates_def nominate_event_def)
qed

end

section \<open>The two ledgers keep the contract\<close>

interpretation mem_ledger: nomination_ledger mem_append "\<lambda>l. l" "\<lambda>_. True"
  by unfold_locales (auto simp: mem_append_def)

definition read_back :: "artifact_status_event \<Rightarrow> nomination_event" where
  "read_back row = \<lparr>ne_arm_id = arm_from_reason (se_reason row), ne_artifact_digest = se_artifact_digest row,
     ne_kind = se_kind row, ne_actor_identity = se_actor_identity row, ne_reason = se_reason row\<rparr>"

definition row_kept :: "nomination_event \<Rightarrow> bool" where
  "row_kept e \<longleftrightarrow> valid_kind e \<and> arm_from_reason (ne_reason e) = ne_arm_id e"

lemma set_registry_events:
  "set (registry_events t l) = read_back ` {row \<in> set (rg_events (rl_registry l)).
     se_tenant_id row = t \<and> (se_kind row = NOMINATE_EVENT_KIND \<or> se_kind row = REJECT_EVENT_KIND)}"
  by (auto simp: registry_events_def list_status_events_def read_back_def)

lemma registry_append_cases:
  obtains x where "registry_append t e l = (Inl x, l\<lparr>rl_drawn := Suc (rl_drawn l)\<rparr>)"
  | row where "registry_append t e l = (Inr (), l\<lparr>rl_registry := (rl_registry l)\<lparr>rg_events := rg_events (rl_registry l) @ [row]\<rparr>,
      rl_drawn := Suc (rl_drawn l)\<rparr>)"
      "se_tenant_id row = t" "se_kind row = ne_kind e"
      "read_back row = e\<lparr>ne_arm_id := arm_from_reason (ne_reason e)\<rparr>"
proof -
  obtain i u now where draw: "rl_draws l (rl_drawn l) = (i, u, now)" by (metis prod_cases3)
  show thesis
    by (cases rule: append_status_event_cases [of i u now t "ne_artifact_digest e" "ne_kind e" "ne_actor_identity e"
          "ne_reason e" "rl_registry l"])
      (use draw that in \<open>simp_all add: registry_append_def read_back_def\<close>)
qed

interpretation reg_ledger: nomination_ledger "registry_append t" "registry_events t" row_kept for t
proof
  fix e l u l' assume run: "registry_append t e l = (Inr u, l')" and kept: "row_kept e"
  from run show "set (registry_events t l') = insert e (set (registry_events t l))"
  proof (cases rule: registry_append_cases [of t e l])
    case (2 row)
    from kept 2(4) have "read_back row = e" by (simp add: row_kept_def)
    moreover have "rg_events (rl_registry l') = rg_events (rl_registry l) @ [row]" using run 2(1) by auto
    ultimately show ?thesis using kept 2(2,3) by (auto simp: set_registry_events row_kept_def valid_kind_def)
  qed simp
next
  fix e l x l' assume run: "registry_append t e l = (Inl x, l')"
  then show "set (registry_events t l') = set (registry_events t l)"
    by (cases rule: registry_append_cases [of t e l]) (auto simp: set_registry_events)
qed

text \<open>The arm survives the reason text if it holds no semicolon.\<close>

lemma takeWhile_arm: "CHR '';'' \<notin> set arm \<Longrightarrow> takeWhile (\<lambda>c. c \<noteq> CHR '';'') (arm @ CHR '';'' # rest) = arm"
  by (induction arm) auto

lemma arm_of_reason:
  assumes "CHR '';'' \<notin> set arm"
  shows "arm_from_reason (Some (''arm='' @ arm @ CHR '';'' # rest)) = arm"
proof -
  have "removeprefix ''arm='' (''arm='' @ arm @ CHR '';'' # rest) = arm @ CHR '';'' # rest" by (rule removeprefix_append)
  then show ?thesis using takeWhile_arm [OF assms, of rest] by (simp add: arm_from_reason_def)
qed

lemmas arm_of_reason_chars = arm_of_reason [simplified]

definition plain_arms :: "selection_observation list \<Rightarrow> bool" where
  "plain_arms obs \<longleftrightarrow> list_all (\<lambda>ob. so_arm_id ob \<noteq> [] \<and> CHR '';'' \<notin> set (so_arm_id ob)) obs"

lemma planned_kept:
  assumes "plain_arms obs" "choose_nominees rule (group_by_arm obs []) = Inr ns"
  shows "list_all row_kept (planned_events S obs ns)"
proof -
  have "CHR '';'' \<notin> set a" if "(a, d) \<in> set ns" for a d
  proof -
    have "a \<in> so_arm_id ` set obs" using choose_grouped(2) [OF assms(2)] that by force
    with assms(1) show ?thesis by (auto simp: plain_arms_def list_all_iff)
  qed
  then show ?thesis
    by (auto simp: planned_events_def arm_events_def list_all_iff row_kept_def valid_kind_def nominate_event_def
        reject_event_def arm_of_reason_chars)
qed

lemma registry_events_later:
  assumes "e \<in> set (registry_events t l)" "rl_registry m = run_calls (do_registry_call C K) cs (rl_registry l)"
  shows "e \<in> set (registry_events t m)"
  using assms by (auto simp: set_registry_events intro: events_stay_run)

section \<open>Properties\<close>














definition demo_rule :: nomination_rule where
  "demo_rule = \<lparr>nr_metric = ''productivity_score'', nr_min_score = 1/2, nr_tiebreak = ''lowest_digest'',
     nr_cost_metric = ''tokens'', nr_cost_normalization = ''arm_max''\<rparr>"

definition demo_observation :: "string \<Rightarrow> string \<Rightarrow> rat \<Rightarrow> rat \<Rightarrow> selection_observation" where
  "demo_observation arm name score cost =
     \<lparr>so_arm_id = arm, so_candidate_digest = ''sha256:'' @ name, so_selection_score = score,
      so_cost_metrics = [(''tokens'', cost)]\<rparr>"


text \<open>A freeze is a one-way door. After a freeze through the registry the ledger says exactly what the freeze
  returned, one nominee per observed arm under the same freeze digest; and whatever registry calls follow,
  every further freeze is refused, and so is every edit of a frozen arm. The refusal does not depend on
  the selector: a selector of another campaign of the same tenant is refused as well.\<close>

theorem freeze_is_one_way:
  assumes "freeze (registry_append t) (registry_events t) S obs l = (Inr f, l')"
    and "plain_arms obs" "arm \<in> so_arm_id ` set obs"
    and "rl_registry m = run_calls (do_registry_call C K) cs (rl_registry l')"
  shows "set (map fst (fn_nominees f)) = so_arm_id ` set obs
    \<and> (\<exists>g. frozen_of S (registry_events t l') = Some g \<and> map_of (fn_nominees g) = map_of (fn_nominees f)
          \<and> fn_digest g = fn_digest f)
    \<and> (\<exists>a. freeze (registry_append t) (registry_events t) S' obs' m = (Inl (Selection (AlreadyFrozenError a ''re-freeze'')), m))
    \<and> apply_strategy_edit (registry_events t) S arm d m =
        (Inl (Selection (AlreadyFrozenError arm (''strategy edit to '' @ d))), m)"
proof -
  have named: "arms_named obs" using assms(2) by (auto simp: plain_arms_def arms_named_def list_all_iff)
  note frozen = reg_ledger.freeze_is_frozen [OF assms(1) named planned_kept [where rule = "sl_rule S", OF assms(2)]]
  then obtain g where g: "frozen_of S (registry_events t l') = Some g" "map_of (fn_nominees g) = map_of (fn_nominees f)" by blast
  have "map_of (fn_nominees g) arm \<noteq> None" using frozen assms(3) g(2) by (auto simp: map_of_eq_None_iff)
  with g(1) have "filter (nominates arm) (registry_events t l') \<noteq> []"
    using project_None [of "registry_events t l'" "[]" arm]
    by (auto simp: frozen_of_def freeze_record_def Let_def split: if_splits)
  then obtain e where "e \<in> set (registry_events t l')" "nominates arm e" by (auto simp: filter_empty_conv)
  with registry_events_later [OF _ assms(4)] have e: "e \<in> set (registry_events t m)" "nominates arm e" by blast+
  show ?thesis
    using frozen reg_ledger.nominated_refuses_freeze [OF e, of S' obs'] reg_ledger.nominated_refuses_edit [OF e, of S d]
    by blast
qed

definition demo_selector :: "(string, json) selector" where
  "demo_selector = \<lparr>sl_crypto = plain_crypto, sl_repr = (\<lambda>_. ''r''), sl_rule = demo_rule, sl_campaign_id = ''c1'',
     sl_actor = SELECTOR_ACTOR\<rparr>"

definition demo_ledger :: "json registry_ledger" where
  "demo_ledger = \<lparr>rl_registry = demo_registry [demo_register ''x'' [], demo_register ''y'' [], demo_register ''z'' []],
     rl_draws = (\<lambda>n. (nat_str (9 - n), nat_str n, 5)), rl_drawn = 0\<rparr>"

definition demo_observations :: "selection_observation list" where
  "demo_observations = [demo_observation ''a'' ''x'' (9/10) 8, demo_observation ''a'' ''y'' (6/10) 3,
     demo_observation ''b'' ''z'' (7/10) 1]"

lemma freeze_is_one_way_witness:
  "\<exists>f l'. freeze (registry_append ''acme'') (registry_events ''acme'') demo_selector demo_observations demo_ledger = (Inr f, l')
     \<and> map_of (fn_nominees f) ''a'' \<noteq> None
     \<and> (\<exists>a. freeze (registry_append ''acme'') (registry_events ''acme'') (demo_selector\<lparr>sl_campaign_id := ''c2''\<rparr>)
              [demo_observation ''p'' ''x'' 1 1] l' = (Inl (Selection (AlreadyFrozenError a ''re-freeze'')), l'))"
proof -
  let ?run = "freeze (registry_append ''acme'') (registry_events ''acme'') demo_selector demo_observations demo_ledger"
  have "\<not> isl (fst ?run)" by code_simp
  then obtain f l' where run: "?run = (Inr f, l')" by (metis isl_def prod.collapse sum.exhaust)
  have arms: "plain_arms demo_observations" "''a'' \<in> so_arm_id ` set demo_observations" by code_simp+
  have same: "rl_registry l' = run_calls (do_registry_call demo_crypto demo_keys) [] (rl_registry l')" by simp
  note all = freeze_is_one_way [OF run arms same, of "demo_selector\<lparr>sl_campaign_id := ''c2''\<rparr>" "[demo_observation ''p'' ''x'' 1 1]" "[]"]
  then have "map_of (fn_nominees f) ''a'' \<noteq> None" using arms(2) by (auto simp: map_of_eq_None_iff)
  with run all show ?thesis by blast
qed

text \<open>A freeze that fails midway cannot be repaired. When an append fails after the freeze has begun to write
  (a later arm's candidate is not registered), no freeze record was returned, yet every later freeze of
  the tenant is refused as a re-freeze: the arms not yet written never get a nominee.\<close>

theorem failed_freeze_cannot_be_retried:
  assumes "freeze (registry_append t) (registry_events t) S obs l = (Inl x, l')"
    and "plain_arms obs" "set (registry_events t l') \<noteq> set (registry_events t l)"
    and "rl_registry m = run_calls (do_registry_call C K) cs (rl_registry l')"
  shows "\<exists>a. freeze (registry_append t) (registry_events t) S' obs' m = (Inl (Selection (AlreadyFrozenError a ''re-freeze'')), m)"
proof -
  have named: "arms_named obs" using assms(2) by (auto simp: plain_arms_def arms_named_def list_all_iff)
  from reg_ledger.failed_freeze [OF assms(1) named planned_kept [where rule = "sl_rule S", OF assms(2)] assms(3)]
  obtain e a where e: "e \<in> set (registry_events t l')" "nominates a e" by blast
  from reg_ledger.nominated_refuses_freeze [OF registry_events_later [OF e(1) assms(4)] e(2)] show ?thesis by blast
qed

lemma failed_freeze_witness:
  "\<exists>x l' a. freeze (registry_append ''acme'') (registry_events ''acme'') demo_selector
       [demo_observation ''a'' ''x'' 1 1, demo_observation ''b'' ''missing'' 1 1] demo_ledger = (Inl x, l')
     \<and> freeze (registry_append ''acme'') (registry_events ''acme'') demo_selector
         [demo_observation ''b'' ''z'' 1 1] l' = (Inl (Selection (AlreadyFrozenError a ''re-freeze'')), l')"
proof -
  let ?obs = "[demo_observation ''a'' ''x'' 1 1, demo_observation ''b'' ''missing'' 1 1]"
  let ?run = "freeze (registry_append ''acme'') (registry_events ''acme'') demo_selector ?obs demo_ledger"
  have "isl (fst ?run)" and grown: "length (registry_events ''acme'' (snd ?run)) = 1"
    "registry_events ''acme'' demo_ledger = []" and arms: "plain_arms ?obs"
    by code_simp+
  then obtain x l' where run: "?run = (Inl x, l')" by (metis isl_def prod.collapse)
  have differ: "set (registry_events ''acme'' l') \<noteq> set (registry_events ''acme'' demo_ledger)"
    using grown run by auto
  have same: "rl_registry l' = run_calls (do_registry_call demo_crypto demo_keys) [] (rl_registry l')" by simp
  from failed_freeze_cannot_be_retried [OF run arms differ same, of demo_selector "[demo_observation ''b'' ''z'' 1 1]"] run
  show ?thesis by blast
qed

end
