(* ===== verification/Graduation.thy ===== *)
theory Graduation
  imports Authority Database
begin

text \<open>
  Graduation of a mutation class out of the research tenant (\<^verbatim>\<open>selection/graduation.py\<close>): risk dossiers as
  signed policy data, the pure comparability check, and the append-only ledger of signed decisions
  (\<^verbatim>\<open>db/models/graduation.py\<close>). The lemmas characterise the check exactly, show that no sequence of graduations
  ever raises the highest tier production runs at, and what the declared blast radius does to the tier.
\<close>

section \<open>Vocabulary\<close>

text \<open>\<^verbatim>\<open>core/isolation.py\<close>\<close>

datatype isolation_tier = TEXT_ONLY | BROKERED | EXECUTABLE | HIGHEST

fun isolation_value :: "isolation_tier \<Rightarrow> string" where
  "isolation_value TEXT_ONLY = ''text-only''" | "isolation_value BROKERED = ''brokered''"
| "isolation_value EXECUTABLE = ''executable''" | "isolation_value HIGHEST = ''highest''"

definition isolation_of_value :: "string \<Rightarrow> isolation_tier option" where
  "isolation_of_value v = find (\<lambda>t. isolation_value t = v) [TEXT_ONLY, BROKERED, EXECUTABLE, HIGHEST]"

fun TIER_RANK :: "isolation_tier \<Rightarrow> nat" where
  "TIER_RANK TEXT_ONLY = 0" | "TIER_RANK BROKERED = 1" | "TIER_RANK EXECUTABLE = 2" | "TIER_RANK HIGHEST = 3"

datatype blast_radius = SUGGESTION | KEPT_STATE | RUNTIME | SELF_SOURCE

fun blast_value :: "blast_radius \<Rightarrow> string" where
  "blast_value SUGGESTION = ''suggestion''" | "blast_value KEPT_STATE = ''kept_state''"
| "blast_value RUNTIME = ''runtime''" | "blast_value SELF_SOURCE = ''self_source''"

definition blast_of_value :: "string \<Rightarrow> blast_radius option" where
  "blast_of_value v = find (\<lambda>b. blast_value b = v) [SUGGESTION, KEPT_STATE, RUNTIME, SELF_SOURCE]"

fun BLAST_RADIUS_SURFACES :: "blast_radius \<Rightarrow> string" where
  "BLAST_RADIUS_SURFACES SUGGESTION = ''read_only''" | "BLAST_RADIUS_SURFACES KEPT_STATE = ''config''"
| "BLAST_RADIUS_SURFACES RUNTIME = ''runtime''" | "BLAST_RADIUS_SURFACES SELF_SOURCE = ''runtime''"

definition PLUGIN_ARTIFACT_TYPES :: "string list" where
  "PLUGIN_ARTIFACT_TYPES =
     [''memory_entry'', ''prompt_bundle'', ''demonstration_set'', ''compiled_prompt_program'', ''skill_package'',
      ''workflow_graph'', ''tool_spec'', ''skill_script'', ''algorithm'', ''harness_patch'', ''scaffold'']"

definition GRADUATION_DOSSIER_SCHEMA_ID :: string where
  "GRADUATION_DOSSIER_SCHEMA_ID = ''evoruntime.policy.risk-dossier/v1''"

definition GRADUATION_DECISION_SCHEMA_ID :: string where
  "GRADUATION_DECISION_SCHEMA_ID = ''evoruntime.decision.graduation/v1''"

section \<open>Risk dossiers\<close>

record risk_dossier =
  rd_dossier_id :: string
  rd_class_id :: string
  rd_artifact_class :: string
  rd_isolation_tier_demanded :: isolation_tier
  rd_blast_radius :: blast_radius
  rd_reversible :: bool
  rd_compensable :: bool
  rd_dossier_version :: int

definition dossier_refused :: "string \<Rightarrow> exn + 'a" where
  "dossier_refused why = Inl (Graduation (InvalidRiskDossierError why))"

definition coherent :: "risk_dossier \<Rightarrow> exn + unit" where
  "coherent d =
     (let demanded = TIER_RANK (rd_isolation_tier_demanded d)
      in if rd_blast_radius d = SELF_SOURCE \<and> demanded < TIER_RANK HIGHEST
           then dossier_refused ''self_source demands isolation tier HIGHEST''
         else if rd_blast_radius d = RUNTIME \<and> demanded < TIER_RANK EXECUTABLE
           then dossier_refused ''runtime demands at least isolation tier EXECUTABLE''
         else if rd_reversible d \<and> \<not> rd_compensable d
           then dossier_refused ''reversible without compensable is incoherent''
         else Inr ())"

text \<open>The constructor takes an enum member or its value; a member is its value.\<close>

definition new_risk_dossier ::
  "string \<Rightarrow> string \<Rightarrow> string \<Rightarrow> string \<Rightarrow> string \<Rightarrow> bool \<Rightarrow> bool \<Rightarrow> int \<Rightarrow> exn + risk_dossier" where
  "new_risk_dossier dossier_id class_id artifact_class isolation blast reversible compensable version =
     (if dossier_id = [] \<or> dossier_id \<noteq> py_strip dossier_id then dossier_refused ''dossier_id''
      else if class_id = [] \<or> class_id \<noteq> py_strip class_id then dossier_refused ''class_id''
      else if artifact_class \<notin> set PLUGIN_ARTIFACT_TYPES then dossier_refused ''artifact_class''
      else if version < 1 then dossier_refused ''dossier_version''
      else (case isolation_of_value isolation of None \<Rightarrow> dossier_refused ''isolation_tier_demanded''
            | Some t \<Rightarrow> (case blast_of_value blast of None \<Rightarrow> dossier_refused ''blast_radius''
              | Some b \<Rightarrow>
                  let d = \<lparr>rd_dossier_id = dossier_id, rd_class_id = class_id, rd_artifact_class = artifact_class,
                           rd_isolation_tier_demanded = t, rd_blast_radius = b, rd_reversible = reversible,
                           rd_compensable = compensable, rd_dossier_version = version\<rparr>
                  in res_bind (coherent d) (\<lambda>_. Inr d))))"

definition dossier_json :: "risk_dossier \<Rightarrow> json" where
  "dossier_json d = JObj
     [(''schema_id'', JStr GRADUATION_DOSSIER_SCHEMA_ID), (''dossier_id'', JStr (rd_dossier_id d)),
      (''dossier_version'', JInt (rd_dossier_version d)), (''class_id'', JStr (rd_class_id d)),
      (''artifact_class'', JStr (rd_artifact_class d)),
      (''isolation_tier_demanded'', JStr (isolation_value (rd_isolation_tier_demanded d))),
      (''blast_radius'', JStr (blast_value (rd_blast_radius d))), (''reversible'', JBool (rd_reversible d)),
      (''compensable'', JBool (rd_compensable d))]"

definition dossier_bytes :: "('k, 'b) crypto \<Rightarrow> risk_dossier \<Rightarrow> 'b" where
  "dossier_bytes C d = canonical_json C (dossier_json d)"

definition dossier_digest :: "('k, 'b) crypto \<Rightarrow> risk_dossier \<Rightarrow> string" where
  "dossier_digest C d = sha256_digest C (dossier_bytes C d)"

definition dossier_release :: "risk_dossier \<Rightarrow> resolved_release" where
  "dossier_release d =
     \<lparr>artifact_classes = [rd_artifact_class d],
      contains_executable_content = (rd_blast_radius d \<in> {RUNTIME, SELF_SOURCE}),
      touches_harness = (rd_blast_radius d = SELF_SOURCE), memory_write_mode = ''suggestion'',
      rr_reversible = rd_reversible d, runtime_surface = BLAST_RADIUS_SURFACES (rd_blast_radius d)\<rparr>"

record 'b signed_risk_dossier =
  srd_dossier :: risk_dossier
  srd_digest :: string
  srd_signature :: 'b
  srd_public_key :: 'b

definition dossier_verifies :: "('k, 'b) crypto \<Rightarrow> 'b signed_risk_dossier \<Rightarrow> bool" where
  "dossier_verifies C s =
     (if srd_digest s \<noteq> dossier_digest C (srd_dossier s) then False
      else verify C \<lparr>ds_signature = srd_signature s, ds_public_key = srd_public_key s\<rparr> (dossier_bytes C (srd_dossier s)))"

definition sign_risk_dossier :: "('k, 'b) crypto \<Rightarrow> risk_dossier \<Rightarrow> 'k \<Rightarrow> 'b signed_risk_dossier" where
  "sign_risk_dossier C d private_key =
     (let detached = sign C private_key (dossier_bytes C d)
      in \<lparr>srd_dossier = d, srd_digest = dossier_digest C d, srd_signature = ds_signature detached,
          srd_public_key = ds_public_key detached\<rparr>)"

definition verify_risk_dossier :: "('k, 'b) crypto \<Rightarrow> 'b signed_risk_dossier \<Rightarrow> exn + unit" where
  "verify_risk_dossier C s =
     (if \<not> dossier_verifies C s
      then Inl (Graduation (UnsignedRiskDossierError (rd_dossier_id (srd_dossier s)) (srd_digest s)))
      else Inr ())"

section \<open>The comparability check\<close>

record graduation_binding =
  gb_class_id :: string
  gb_risk_dossier_digest :: string
  gb_max_tier :: isolation_tier

datatype graduation_refusal =
    NO_DOSSIER | UNVERIFIED_DOSSIER | DOSSIER_DIGEST_MISMATCH | CLASS_ID_MISMATCH
  | TIER_EXCEEDS_BINDING | NOT_COMPENSABLE | RISK_NOT_COMPARABLE

fun refusal_value :: "graduation_refusal \<Rightarrow> string" where
  "refusal_value NO_DOSSIER = ''no_dossier''"
| "refusal_value UNVERIFIED_DOSSIER = ''unverified_dossier''"
| "refusal_value DOSSIER_DIGEST_MISMATCH = ''dossier_digest_mismatch''"
| "refusal_value CLASS_ID_MISMATCH = ''class_id_mismatch''"
| "refusal_value TIER_EXCEEDS_BINDING = ''tier_exceeds_binding''"
| "refusal_value NOT_COMPENSABLE = ''not_compensable''"
| "refusal_value RISK_NOT_COMPARABLE = ''risk_not_comparable''"

record graduation_decision =
  gd_class_id :: string
  gd_granted :: bool
  gd_refusal_reason :: "graduation_refusal option"
  gd_detail :: string
  gd_dossier_digest :: "string option"
  gd_candidate_resolved_tier :: nat
  gd_production_resolved_tier :: "nat option"

definition decision_json_fields :: "graduation_decision \<Rightarrow> json_object" where
  "decision_json_fields d =
     [(''schema_id'', JStr GRADUATION_DECISION_SCHEMA_ID), (''class_id'', JStr (gd_class_id d)),
      (''granted'', JBool (gd_granted d)),
      (''refusal_reason'', json_opt_str (map_option refusal_value (gd_refusal_reason d))),
      (''detail'', JStr (gd_detail d)), (''dossier_digest'', json_opt_str (gd_dossier_digest d)),
      (''candidate_resolved_tier'', JInt (int (gd_candidate_resolved_tier d))),
      (''production_resolved_tier'',
         (case gd_production_resolved_tier d of None \<Rightarrow> JNull | Some n \<Rightarrow> JInt (int n)))]"

definition refused_decision ::
  "string \<Rightarrow> graduation_refusal \<Rightarrow> string \<Rightarrow> string option \<Rightarrow> nat \<Rightarrow> nat option \<Rightarrow> graduation_decision" where
  "refused_decision class_id reason detail digest candidate_tier production_tier =
     \<lparr>gd_class_id = class_id, gd_granted = False, gd_refusal_reason = Some reason, gd_detail = detail,
      gd_dossier_digest = digest, gd_candidate_resolved_tier = candidate_tier,
      gd_production_resolved_tier = production_tier\<rparr>"

definition dossier_tier :: "risk_dossier \<Rightarrow> authority_tier" where
  "dossier_tier d = resolve_authority_tier (dossier_release d)"

text \<open>From the resolved tier on: the production references are verified, then compared.\<close>

definition compare_with_production ::
  "('k, 'b) crypto \<Rightarrow> string \<Rightarrow> string \<Rightarrow> authority_tier \<Rightarrow> 'b signed_risk_dossier list \<Rightarrow> graduation_decision" where
  "compare_with_production C class_id digest candidate_tier production_dossiers =
     (if \<not> list_all (dossier_verifies C) production_dossiers
        then refused_decision class_id UNVERIFIED_DOSSIER ''production reference dossier fails verification''
               (Some digest) (tier_int candidate_tier) None
      else if production_dossiers = []
        then refused_decision class_id RISK_NOT_COMPARABLE ''no production extensions exist'' (Some digest)
               (tier_int candidate_tier) None
      else (let production_tier = Max (set (map (\<lambda>p. dossier_tier (srd_dossier p)) production_dossiers))
            in if production_tier < candidate_tier
               then refused_decision class_id RISK_NOT_COMPARABLE ''resolved authority tier exceeds production''
                      (Some digest) (tier_int candidate_tier) (Some (tier_int production_tier))
               else \<lparr>gd_class_id = class_id, gd_granted = True, gd_refusal_reason = None,
                     gd_detail = ''comparable'', gd_dossier_digest = Some digest,
                     gd_candidate_resolved_tier = tier_int candidate_tier,
                     gd_production_resolved_tier = Some (tier_int production_tier)\<rparr>))"

definition evaluate_graduation ::
  "('k, 'b) crypto \<Rightarrow> string \<Rightarrow> 'b signed_risk_dossier option \<Rightarrow> graduation_binding option
     \<Rightarrow> 'b signed_risk_dossier list \<Rightarrow> graduation_decision" where
  "evaluate_graduation C class_id signed_dossier binding production_dossiers =
     (case signed_dossier of
        None \<Rightarrow> refused_decision class_id NO_DOSSIER ''no risk dossier was presented'' None 0 None
      | Some s \<Rightarrow>
          if \<not> dossier_verifies C s
            then refused_decision class_id UNVERIFIED_DOSSIER ''candidate risk dossier fails verification''
                   (Some (srd_digest s)) 0 None
          else if rd_class_id (srd_dossier s) \<noteq> class_id
            then refused_decision class_id CLASS_ID_MISMATCH ''dossier describes another class''
                   (Some (srd_digest s)) 0 None
          else (case binding of
              None \<Rightarrow> refused_decision class_id DOSSIER_DIGEST_MISMATCH ''no pinned digest'' (Some (srd_digest s)) 0 None
            | Some b \<Rightarrow>
                if srd_digest s \<noteq> gb_risk_dossier_digest b
                  then refused_decision class_id DOSSIER_DIGEST_MISMATCH ''dossier digest does not match the pinned digest''
                         (Some (srd_digest s)) 0 None
                else if TIER_RANK (gb_max_tier b) < TIER_RANK (rd_isolation_tier_demanded (srd_dossier s))
                  then refused_decision class_id TIER_EXCEEDS_BINDING ''dossier demands more than max_tier''
                         (Some (srd_digest s)) 0 None
                else if \<not> rd_compensable (srd_dossier s)
                  then refused_decision class_id NOT_COMPENSABLE ''no compensation path'' (Some (srd_digest s)) 0 None
                else compare_with_production C class_id (srd_digest s) (dossier_tier (srd_dossier s)) production_dossiers))"

section \<open>The ledger\<close>

record 'b graduation_row =
  gr_id :: string
  gr_tenant_id :: string
  gr_class_id :: string
  gr_dossier_digest :: "string option"
  gr_granted :: bool
  gr_refusal_reason :: "string option"
  gr_detail :: json
  gr_candidate_resolved_tier :: nat
  gr_production_resolved_tier :: "nat option"
  gr_signature :: 'b
  gr_signer_public_key :: 'b

definition decision_payload :: "graduation_decision \<Rightarrow> string \<Rightarrow> json" where
  "decision_payload d tenant_id = JObj ((''tenant_id'', JStr tenant_id) # decision_json_fields d)"

definition decision_canonical_bytes :: "('k, 'b) crypto \<Rightarrow> json \<Rightarrow> 'b" where
  "decision_canonical_bytes C payload = canonical_json C payload"

definition new_graduation_row ::
  "('k, 'b) crypto \<Rightarrow> 'k \<Rightarrow> string \<Rightarrow> string \<Rightarrow> graduation_decision \<Rightarrow> 'b graduation_row" where
  "new_graduation_row C private_key row_id tenant_id d =
     (let payload = decision_payload d tenant_id;
          detached = sign C private_key (decision_canonical_bytes C payload)
      in \<lparr>gr_id = row_id, gr_tenant_id = tenant_id, gr_class_id = gd_class_id d,
          gr_dossier_digest = gd_dossier_digest d, gr_granted = gd_granted d,
          gr_refusal_reason = map_option refusal_value (gd_refusal_reason d), gr_detail = payload,
          gr_candidate_resolved_tier = gd_candidate_resolved_tier d,
          gr_production_resolved_tier = gd_production_resolved_tier d,
          gr_signature = ds_signature detached, gr_signer_public_key = ds_public_key detached\<rparr>)"

definition record_graduation_decision ::
  "('k, 'b) crypto \<Rightarrow> 'k \<Rightarrow> string \<Rightarrow> string \<Rightarrow> graduation_decision
     \<Rightarrow> (exn, 'b graduation_row list, 'b graduation_row) op" where
  "record_graduation_decision C private_key row_id tenant_id d =
     (let row = new_graduation_row C private_key row_id tenant_id d
      in op_then (op_require (\<lambda>rows. row_id \<notin> set (map gr_id rows)) integrity_error)
           (op_then (op_modify (\<lambda>rows. rows @ [row])) (op_return row)))"

definition verify_graduation_decision :: "('k, 'b) crypto \<Rightarrow> 'b graduation_row \<Rightarrow> bool" where
  "verify_graduation_decision C row =
     (case gr_detail row of
        JObj kvs \<Rightarrow>
          if ''tenant_id'' \<notin> set (map fst kvs) then False
          else verify C \<lparr>ds_signature = gr_signature row, ds_public_key = gr_signer_public_key row\<rparr>
                 (decision_canonical_bytes C (gr_detail row))
      | _ \<Rightarrow> False)"

section \<open>What is granted\<close>

lemma compare_granted:
  "gd_granted (compare_with_production C cid digest t ps) \<longleftrightarrow>
     ps \<noteq> [] \<and> list_all (dossier_verifies C) ps \<and> (\<exists>p \<in> set ps. t \<le> dossier_tier (srd_dossier p))"
  by (auto simp: compare_with_production_def refused_decision_def Let_def not_less Max_ge_iff list_all_iff)

lemma compare_class: "gd_class_id (compare_with_production C cid digest t ps) = cid"
  by (simp add: compare_with_production_def refused_decision_def Let_def)

text \<open>A mutation class graduates exactly when a verified dossier of that class is presented, it is the one the
  binding pinned, it demands no more isolation than the binding allows, it can be compensated, every production
  reference verifies and at least one production extension resolves to its authority tier or above.\<close>

theorem graduation_granted_iff:
  "gd_granted (evaluate_graduation C cid presented binding ps) \<longleftrightarrow>
     (\<exists>s b. presented = Some s \<and> binding = Some b \<and> dossier_verifies C s \<and> rd_class_id (srd_dossier s) = cid
        \<and> srd_digest s = gb_risk_dossier_digest b
        \<and> TIER_RANK (rd_isolation_tier_demanded (srd_dossier s)) \<le> TIER_RANK (gb_max_tier b)
        \<and> rd_compensable (srd_dossier s) \<and> list_all (dossier_verifies C) ps
        \<and> (\<exists>p. p \<in> set ps \<and> dossier_tier (srd_dossier s) \<le> dossier_tier (srd_dossier p)))"
  by (cases presented; cases binding)
    (auto simp: evaluate_graduation_def refused_decision_def compare_granted)

text \<open>Production over time: a class that is granted joins the extensions later ones are compared with.\<close>

type_synonym 'b graduation_try = "string \<times> 'b signed_risk_dossier \<times> graduation_binding option"

definition graduate ::
  "('k, 'b) crypto \<Rightarrow> 'b graduation_try \<Rightarrow> 'b signed_risk_dossier list \<Rightarrow> 'b signed_risk_dossier list" where
  "graduate C = (\<lambda>(class_id, s, binding) ps.
     if gd_granted (evaluate_graduation C class_id (Some s) binding ps) then ps @ [s] else ps)"

definition no_more_risk :: "'b signed_risk_dossier list \<Rightarrow> 'b signed_risk_dossier list \<Rightarrow> bool" where
  "no_more_risk ps qs \<longleftrightarrow> (\<forall>q \<in> set qs. \<exists>p \<in> set ps. dossier_tier (srd_dossier q) \<le> dossier_tier (srd_dossier p))"

lemma granted_some:
  "gd_granted (evaluate_graduation C cid (Some s) b ps) \<Longrightarrow>
     \<exists>p \<in> set ps. dossier_tier (srd_dossier s) \<le> dossier_tier (srd_dossier p)"
  by (cases b) (auto simp: evaluate_graduation_def refused_decision_def compare_granted split: if_splits)

lemma graduate_no_more_risk: "no_more_risk ps qs \<Longrightarrow> no_more_risk ps (graduate C g qs)"
proof (cases g)
  case (fields cid s b)
  assume ih: "no_more_risk ps qs"
  show ?thesis
  proof (cases "gd_granted (evaluate_graduation C cid (Some s) b qs)")
    case True
    from granted_some [OF True] obtain q where q: "q \<in> set qs" "dossier_tier (srd_dossier s) \<le> dossier_tier (srd_dossier q)"
      by blast
    with ih obtain p where "p \<in> set ps" "dossier_tier (srd_dossier q) \<le> dossier_tier (srd_dossier p)"
      unfolding no_more_risk_def by blast
    with q(2) have "\<exists>p \<in> set ps. dossier_tier (srd_dossier s) \<le> dossier_tier (srd_dossier p)" by (meson order_trans)
    with ih True fields show ?thesis by (simp add: graduate_def no_more_risk_def)
  next
    case False
    with ih fields show ?thesis by (simp add: graduate_def)
  qed
qed

text \<open>No sequence of graduations, however the granted classes are fed back as production references, puts a class
  into production whose tier is above every tier production ran at to begin with.\<close>

theorem graduations_never_raise_risk:
  "no_more_risk ps (run_calls (graduate C) gs ps)"
  by (rule run_calls_invariant) (auto simp: no_more_risk_def intro: graduate_no_more_risk [unfolded no_more_risk_def, rule_format])

section \<open>What a record proves\<close>

lemma decision_payload_wf: "json_wf (decision_payload d t)"
  by (auto simp: decision_payload_def decision_json_fields_def json_opt_str_def split: option.splits)

lemma refusal_value_inject [simp]: "refusal_value a = refusal_value b \<longleftrightarrow> a = b"
  by (cases a; cases b) auto

lemma map_refusal_inject [simp]: "map_option refusal_value a = map_option refusal_value b \<longleftrightarrow> a = b"
  by (cases a; cases b) auto

lemma decision_payload_inject:
  assumes "sort_keys (decision_payload d t) = sort_keys (decision_payload d' t')"
  shows "d = d' \<and> t = t'"
proof -
  have eq: "map_option sort_keys (json_get (decision_payload d t) k) = map_option sort_keys (json_get (decision_payload d' t') k)" for k
    using assms json_get_sort_keys decision_payload_wf by metis
  note fields = decision_payload_def decision_json_fields_def json_get_def
  have "t = t'" using eq [of "''tenant_id''"] by (simp add: fields)
  moreover have "gd_class_id d = gd_class_id d'" using eq [of "''class_id''"] by (simp add: fields)
  moreover have "gd_granted d = gd_granted d'" using eq [of "''granted''"] by (simp add: fields)
  moreover have "gd_refusal_reason d = gd_refusal_reason d'" using eq [of "''refusal_reason''"] by (simp add: fields)
  moreover have "gd_detail d = gd_detail d'" using eq [of "''detail''"] by (simp add: fields)
  moreover have "gd_dossier_digest d = gd_dossier_digest d'" using eq [of "''dossier_digest''"] by (simp add: fields)
  moreover have "gd_candidate_resolved_tier d = gd_candidate_resolved_tier d'"
    using eq [of "''candidate_resolved_tier''"] by (simp add: fields)
  moreover have "gd_production_resolved_tier d = gd_production_resolved_tier d'"
    using eq [of "''production_resolved_tier''"] by (simp add: fields split: option.splits)
  ultimately show ?thesis by (simp add: graduation_decision.equality)
qed

text \<open>A recorded decision verifies, and the bytes its signature covers determine the decision and the tenant:
  granted cannot be told apart from refused by the signature only if the payload is the same.\<close>

theorem recorded_decision_verifies:
  assumes "crypto_laws C"
    and "record_graduation_decision C k i t d rows = (Inr row, rows')"
  shows "rows' = rows @ [row] \<and> verify_graduation_decision C row
    \<and> (decision_canonical_bytes C (gr_detail row) = decision_canonical_bytes C (decision_payload d' t')
         \<longleftrightarrow> d' = d \<and> t' = t)"
proof -
  have row: "row = new_graduation_row C k i t d" "rows' = rows @ [row]"
    using assms(2) by (auto simp: record_graduation_decision_def Let_def op_run_simps op_end_simps op_then_def op_bind_def
        op_require_def op_modify_def op_return_def split: if_splits)
  have "verify_graduation_decision C row"
    using assms(1) by (simp add: row new_graduation_row_def verify_graduation_decision_def decision_payload_def Let_def)
  moreover have "decision_canonical_bytes C (decision_payload d t) = decision_canonical_bytes C (decision_payload d' t')
      \<longleftrightarrow> d' = d \<and> t' = t"
    using canonical_json_eqD [OF assms(1) decision_payload_wf decision_payload_wf] decision_payload_inject
    unfolding decision_canonical_bytes_def by metis
  ultimately show ?thesis by (simp add: row new_graduation_row_def Let_def)
qed

definition demo_refusal :: graduation_decision where
  "demo_refusal = refused_decision ''cls'' NO_DOSSIER ''none'' None 0 None"

lemma recorded_decision_witness:
  "verify_graduation_decision plain_crypto (new_graduation_row plain_crypto ''k'' ''grd_1'' ''acme'' demo_refusal)
   \<and> decision_canonical_bytes plain_crypto (decision_payload demo_refusal ''acme'')
       \<noteq> decision_canonical_bytes plain_crypto (decision_payload (demo_refusal\<lparr>gd_granted := True\<rparr>) ''acme'')"
proof -
  have run: "record_graduation_decision plain_crypto ''k'' ''grd_1'' ''acme'' demo_refusal [] =
      (Inr (new_graduation_row plain_crypto ''k'' ''grd_1'' ''acme'' demo_refusal),
       [new_graduation_row plain_crypto ''k'' ''grd_1'' ''acme'' demo_refusal])"
    by (simp add: record_graduation_decision_def Let_def op_defs)
  from recorded_decision_verifies [OF plain_crypto_laws run, of "demo_refusal\<lparr>gd_granted := True\<rparr>" "''acme''"]
  show ?thesis by (auto simp: new_graduation_row_def Let_def demo_refusal_def refused_decision_def)
qed

text \<open>The columns beside the payload are not covered: editing them leaves the record verified.\<close>

lemma columns_are_not_covered:
  "verify_graduation_decision C (row\<lparr>gr_granted := g, gr_refusal_reason := r, gr_class_id := c, gr_tenant_id := t\<rparr>)
     = verify_graduation_decision C row"
  by (cases "gr_detail row") (simp_all add: verify_graduation_decision_def)

section \<open>What the blast radius does to the tier\<close>

lemma tier_of_class:
  "rd_reversible d \<Longrightarrow> rd_blast_radius d \<in> {SUGGESTION, KEPT_STATE} \<Longrightarrow>
     dossier_tier d = dict_get tier_by_class (rd_artifact_class d) TIER_3"
  by (auto simp: dossier_tier_def dossier_release_def resolve_authority_tier_def)

lemma tier_of_runtime: "rd_blast_radius d = RUNTIME \<Longrightarrow> dossier_tier d = TIER_3"
  by (simp add: dossier_tier_def dossier_release_def resolve_authority_tier_def)

text \<open>Declaring a wider blast radius can lower the tier that graduation compares. A scaffold or harness-patch class
  declared read-only or kept-state resolves to tier 4; the same class declared to run executable content on the
  runtime surface resolves to tier 3, and so graduates against a production that runs no tier-4 extension.\<close>

theorem runtime_blast_understates_scaffolds:
  assumes "rd_artifact_class d \<in> {''scaffold'', ''harness_patch''}" "rd_reversible d"
    and "rd_blast_radius d \<in> {SUGGESTION, KEPT_STATE}"
    and "list_all (dossier_verifies C) ps" "map (\<lambda>p. dossier_tier (srd_dossier p)) ps = [TIER_3]"
    and "dossier_verifies C s" "dossier_verifies C s'" "srd_dossier s = d" "srd_dossier s' = d\<lparr>rd_blast_radius := RUNTIME\<rparr>"
    and "rd_compensable d" "TIER_RANK (rd_isolation_tier_demanded d) \<le> TIER_RANK (gb_max_tier b)"
  shows "\<not> gd_granted (evaluate_graduation C (rd_class_id d) (Some s) (Some (b\<lparr>gb_risk_dossier_digest := srd_digest s\<rparr>)) ps)
    \<and> gd_granted (evaluate_graduation C (rd_class_id d) (Some s') (Some (b\<lparr>gb_risk_dossier_digest := srd_digest s'\<rparr>)) ps)"
proof -
  have "dossier_tier d = TIER_4" using tier_of_class [OF assms(2,3)] assms(1) by (auto simp: dict_get_def tier_by_class_def)
  moreover have "dossier_tier (srd_dossier s') = TIER_3" using assms(9) by (simp add: tier_of_runtime)
  moreover obtain p where "ps = [p]" "dossier_tier (srd_dossier p) = TIER_3" using assms(5) by (cases ps) auto
  ultimately show ?thesis
    using assms(4,6-11) by (simp add: evaluate_graduation_def compare_granted tier_order refused_decision_def)
qed

definition demo_dossier :: risk_dossier where
  "demo_dossier = \<lparr>rd_dossier_id = ''d1'', rd_class_id = ''cls'', rd_artifact_class = ''scaffold'',
     rd_isolation_tier_demanded = HIGHEST, rd_blast_radius = KEPT_STATE, rd_reversible = True, rd_compensable = True,
     rd_dossier_version = 1\<rparr>"

lemma runtime_blast_witness:
  "gd_granted (evaluate_graduation plain_crypto ''cls''
     (Some (sign_risk_dossier plain_crypto (demo_dossier\<lparr>rd_blast_radius := RUNTIME\<rparr>) ''k''))
     (Some \<lparr>gb_class_id = ''cls'', gb_risk_dossier_digest = ''sha256:0'', gb_max_tier = HIGHEST\<rparr>)
     [sign_risk_dossier plain_crypto (demo_dossier\<lparr>rd_artifact_class := ''algorithm''\<rparr>) ''k''])"
proof -
  let ?sign = "\<lambda>d. sign_risk_dossier plain_crypto d ''k''"
  let ?b = "\<lparr>gb_class_id = ''cls'', gb_risk_dossier_digest = ''sha256:0'', gb_max_tier = HIGHEST\<rparr>"
  let ?ps = "[?sign (demo_dossier\<lparr>rd_artifact_class := ''algorithm''\<rparr>)]"
  have signed: "dossier_verifies plain_crypto (?sign d)" "srd_dossier (?sign d) = d" "srd_digest (?sign d) = ''sha256:0''" for d
    using verify_sign [OF plain_crypto_laws]
    by (simp_all add: dossier_verifies_def sign_risk_dossier_def Let_def dossier_digest_def plain_digest)
  have fields: "rd_artifact_class demo_dossier \<in> {''scaffold'', ''harness_patch''}" "rd_reversible demo_dossier"
    "rd_blast_radius demo_dossier \<in> {SUGGESTION, KEPT_STATE}" "rd_compensable demo_dossier" "rd_class_id demo_dossier = ''cls''"
    "TIER_RANK (rd_isolation_tier_demanded demo_dossier) \<le> TIER_RANK (gb_max_tier ?b)"
    by (simp_all add: demo_dossier_def)
  have ps: "list_all (dossier_verifies plain_crypto) ?ps" "map (\<lambda>p. dossier_tier (srd_dossier p)) ?ps = [TIER_3]"
    by (simp_all add: signed tier_of_class demo_dossier_def dict_get_def tier_by_class_def)
  from runtime_blast_understates_scaffolds [OF fields(1-3) ps signed(1) signed(1) signed(2) signed(2) fields(4,6)]
  show ?thesis by (simp add: signed fields(5))
qed

end
