(* ===== verification/Projection.thy ===== *)
theory Projection
  imports Registry
begin

text \<open>
  What the three rebuildable projections over the append-only evidence share (\<^verbatim>\<open>selection/productivity.py\<close>,
  \<^verbatim>\<open>selection/mutation_archive.py\<close>, \<^verbatim>\<open>selection/pareto_archive.py\<close> with their tables in \<^verbatim>\<open>db/models/\<close>): the join of
  proposals with the attestations of the proposed artifact, \<^verbatim>\<open>rebuild\<close>, \<^verbatim>\<open>rows\<close>, \<^verbatim>\<open>reconcile\<close>, and the
  dictionaries their summaries fill row by row. The three modules repeat this code; here it takes what
  differs as arguments. The locale \<open>projection\<close> says what such a module must provide, and proves that a rebuild
  reconciles, that it leaves other tenants alone, and what an empty reconciliation means.
\<close>

section \<open>Rows\<close>

text \<open>One proposal with one attestation of its artifact; every projection row and every table row extends it.\<close>

record pair_row =
  pw_proposal_id :: string
  pw_artifact_digest :: string
  pw_parent_digest :: "string option"
  pw_strategy_id :: string
  pw_campaign_id :: "string option"
  pw_attestation_id :: string
  pw_outcome :: string

abbreviation pair_key :: "'a pair_row_scheme \<Rightarrow> string \<times> string" where
  "pair_key r \<equiv> (pw_proposal_id r, pw_attestation_id r)"

definition pair_of :: "proposal_record \<Rightarrow> 'b evaluation_attestation \<Rightarrow> pair_row" where
  "pair_of p a = \<lparr>pw_proposal_id = pr_proposal_id p, pw_artifact_digest = pr_proposed_digest p,
     pw_parent_digest = pr_parent_digest p, pw_strategy_id = pr_strategy_id p, pw_campaign_id = pr_campaign_id p,
     pw_attestation_id = ea_attestation_id a, pw_outcome = ea_outcome a\<rparr>"

text \<open>The join: proposals by id, for each the attestations of its artifact by id. \<open>row\<close> says whether a proposal is a
  member of the projection and what its rows are.\<close>

definition attestations_of :: "proposal_record \<Rightarrow> 'b evaluation_attestation list \<Rightarrow> 'b evaluation_attestation list" where
  "attestations_of p as = sort_key ea_attestation_id (filter (\<lambda>a. ea_artifact_digest a = pr_proposed_digest p) as)"

definition join_evidence ::
  "(proposal_record \<Rightarrow> ('b evaluation_attestation \<Rightarrow> 'r) option) \<Rightarrow> proposal_record list
     \<Rightarrow> 'b evaluation_attestation list \<Rightarrow> 'r list" where
  "join_evidence row proposals attestations =
     concat (map (\<lambda>p. case row p of None \<Rightarrow> [] | Some f \<Rightarrow> map f (attestations_of p attestations))
       (sort_key pr_proposal_id proposals))"

definition tenant_evidence ::
  "(proposal_record \<Rightarrow> ('b evaluation_attestation \<Rightarrow> 'r) option) \<Rightarrow> string \<Rightarrow> 'b registry_db \<Rightarrow> 'r list" where
  "tenant_evidence row tenant_id g =
     join_evidence row (filter (\<lambda>p. pr_tenant p = tenant_id) (rg_proposals g))
       (filter (\<lambda>a. ea_tenant_id a = tenant_id) (rg_attestations g))"

section \<open>The table\<close>

text \<open>A stored row adds the tenant, and the module's own columns. The session sees the registry's tables and the
  projection's; a row must satisfy the outcome check and the three foreign keys.\<close>

record stored_pair = pair_row +
  sp_tenant_id :: string

type_synonym ('b, 's) projection_db = "'b registry_db \<times> 's list"

definition row_admissible :: "'b registry_db \<Rightarrow> 'a stored_pair_scheme \<Rightarrow> bool" where
  "row_admissible g r \<longleftrightarrow>
     pw_outcome r \<in> {''pass'', ''fail''}
     \<and> (sp_tenant_id r, pw_proposal_id r) \<in> (\<lambda>p. (pr_tenant p, pr_proposal_id p)) ` set (rg_proposals g)
     \<and> pw_attestation_id r \<in> ea_attestation_id ` set (rg_attestations g)
     \<and> (sp_tenant_id r, pw_artifact_digest r) \<in> registered g"

definition insert_row :: "'a stored_pair_scheme \<Rightarrow> (exn, ('b, 'a stored_pair_scheme) projection_db, unit) op" where
  "insert_row r =
     op_then (op_require (\<lambda>(g, table). row_admissible g r) integrity_error)
       (op_modify (\<lambda>(g, table). (g, table @ [r])))"

definition rebuild_with ::
  "(proposal_record \<Rightarrow> ('b evaluation_attestation \<Rightarrow> 'r) option) \<Rightarrow> (string \<Rightarrow> 'r \<Rightarrow> 'a stored_pair_scheme)
     \<Rightarrow> string \<Rightarrow> (exn, ('b, 'a stored_pair_scheme) projection_db, nat) op" where
  "rebuild_with row store tenant_id =
     op_bind (op_gets (\<lambda>(g, table). tenant_evidence row tenant_id g)) (\<lambda>rows.
       op_then (op_modify (\<lambda>(g, table). (g, filter (\<lambda>r. sp_tenant_id r \<noteq> tenant_id) table)))
         (op_then (op_for rows (\<lambda>r. insert_row (store tenant_id r))) (op_return (length rows))))"

definition rows_of :: "string \<Rightarrow> 'a stored_pair_scheme list \<Rightarrow> 'a stored_pair_scheme list" where
  "rows_of tenant_id table = sort_key pair_key (filter (\<lambda>r. sp_tenant_id r = tenant_id) table)"

section \<open>Reconciliation\<close>

datatype drift =
    Missing_row "string \<times> string"
  | Stale_row "string \<times> string"
  | Field_differs "string \<times> string" string

definition pair_drift :: "'a pair_row_scheme \<Rightarrow> 'c pair_row_scheme \<Rightarrow> string list" where
  "pair_drift stored expected =
     (if pw_artifact_digest stored \<noteq> pw_artifact_digest expected then [''artifact_digest''] else [])
     @ (if pw_parent_digest stored \<noteq> pw_parent_digest expected then [''parent_digest''] else [])
     @ (if pw_strategy_id stored \<noteq> pw_strategy_id expected then [''strategy_id''] else [])
     @ (if pw_campaign_id stored \<noteq> pw_campaign_id expected then [''campaign_id''] else [])
     @ (if pw_outcome stored \<noteq> pw_outcome expected then [''outcome''] else [])"

text \<open>\<^verbatim>\<open>{(row.proposal_id, row.attestation_id): row for row in rows}\<close>: of two rows with one key the later stays.\<close>

definition by_key :: "'a pair_row_scheme list \<Rightarrow> string \<times> string \<Rightarrow> 'a pair_row_scheme option" where
  "by_key rows = map_of (rev (map (\<lambda>r. (pair_key r, r)) rows))"

definition row_diffs ::
  "('s pair_row_scheme \<Rightarrow> 'r pair_row_scheme \<Rightarrow> string list) \<Rightarrow> 's pair_row_scheme list \<Rightarrow> 'r pair_row_scheme list
     \<Rightarrow> drift list" where
  "row_diffs differs stored expected =
     concat (map (\<lambda>k. case by_key stored k of
         None \<Rightarrow> [Missing_row k]
       | Some s \<Rightarrow> (case by_key expected k of
             None \<Rightarrow> [Stale_row k]
           | Some e \<Rightarrow> map (Field_differs k) (differs s e)))
       (sort (remdups (map pair_key stored @ map pair_key expected))))"

definition reconcile_with ::
  "(proposal_record \<Rightarrow> ('b evaluation_attestation \<Rightarrow> 'r pair_row_scheme) option)
     \<Rightarrow> ('a stored_pair_scheme \<Rightarrow> 'r pair_row_scheme \<Rightarrow> string list) \<Rightarrow> string
     \<Rightarrow> ('b, 'a stored_pair_scheme) projection_db \<Rightarrow> drift list" where
  "reconcile_with row differs tenant_id = (\<lambda>(g, table).
     row_diffs differs (rows_of tenant_id table) (tenant_evidence row tenant_id g))"

section \<open>Facts about the join and the diff\<close>

lemma by_key_None: "by_key rows k = None \<longleftrightarrow> k \<notin> pair_key ` set rows"
  by (auto simp: by_key_def map_of_eq_None_iff image_iff)

lemma by_key_Some: "by_key rows k = Some r \<Longrightarrow> r \<in> set rows \<and> pair_key r = k"
  by (auto simp: by_key_def dest: map_of_SomeD)

lemma by_key_unique:
  assumes "distinct (map pair_key rows)" "r \<in> set rows"
  shows "by_key rows (pair_key r) = Some r"
proof -
  have "distinct (map fst (rev (map (\<lambda>r. (pair_key r, r)) rows)))"
    using assms(1) by (simp add: rev_map [symmetric] comp_def)
  moreover have "(pair_key r, r) \<in> set (rev (map (\<lambda>r. (pair_key r, r)) rows))" using assms(2) by auto
  ultimately show ?thesis unfolding by_key_def by (rule map_of_is_SomeI)
qed

lemma row_diffs_Nil:
  "row_diffs differs stored expected = [] \<longleftrightarrow>
     pair_key ` set stored = pair_key ` set expected
     \<and> (\<forall>k s e. by_key stored k = Some s \<longrightarrow> by_key expected k = Some e \<longrightarrow> differs s e = [])"
proof
  assume nil: "row_diffs differs stored expected = []"
  have each: "\<exists>s e. by_key stored k = Some s \<and> by_key expected k = Some e \<and> differs s e = []"
    if "k \<in> pair_key ` set stored \<union> pair_key ` set expected" for k
    using nil that unfolding row_diffs_def by (fastforce split: option.splits)
  show "pair_key ` set stored = pair_key ` set expected
     \<and> (\<forall>k s e. by_key stored k = Some s \<longrightarrow> by_key expected k = Some e \<longrightarrow> differs s e = [])"
  proof (intro conjI equalityI subsetI allI impI)
    fix k assume "k \<in> pair_key ` set stored"
    with each [of k] by_key_None [of expected k] show "k \<in> pair_key ` set expected" by auto
  next
    fix k assume "k \<in> pair_key ` set expected"
    with each [of k] by_key_None [of stored k] show "k \<in> pair_key ` set stored" by auto
  next
    fix k s e assume "by_key stored k = Some s" "by_key expected k = Some e"
    with each [of k] by_key_Some [of stored k s] show "differs s e = []" by auto
  qed
next
  assume same: "pair_key ` set stored = pair_key ` set expected
     \<and> (\<forall>k s e. by_key stored k = Some s \<longrightarrow> by_key expected k = Some e \<longrightarrow> differs s e = [])"
  have "(case by_key stored k of None \<Rightarrow> [Missing_row k] | Some s \<Rightarrow> (case by_key expected k of
        None \<Rightarrow> [Stale_row k] | Some e \<Rightarrow> map (Field_differs k) (differs s e))) = []"
    if "k \<in> pair_key ` set stored \<union> pair_key ` set expected" for k
    using that same by_key_None [of stored k] by_key_None [of expected k] by (auto split: option.splits)
  then show "row_diffs differs stored expected = []" by (simp add: row_diffs_def)
qed

text \<open>The check looks rows up by key: it cannot see that a row is stored twice.\<close>

lemma row_diffs_twice: "row_diffs differs (stored @ stored) expected = row_diffs differs stored expected"
proof -
  have "by_key (stored @ stored) = by_key stored" by (rule ext) (simp add: by_key_def map_add_def split: option.splits)
  moreover have "sort (remdups (map pair_key (stored @ stored) @ ks)) = sort (remdups (map pair_key stored @ ks))" for ks
    by (rule sorted_distinct_set_unique) auto
  ultimately show ?thesis by (simp add: row_diffs_def)
qed

lemma set_attestations_of: "a \<in> set (attestations_of p as) \<longleftrightarrow> a \<in> set as \<and> ea_artifact_digest a = pr_proposed_digest p"
  by (simp add: attestations_of_def)

lemma set_join:
  "r \<in> set (join_evidence row ps as) \<longleftrightarrow>
     (\<exists>p f a. p \<in> set ps \<and> row p = Some f \<and> a \<in> set as \<and> ea_artifact_digest a = pr_proposed_digest p \<and> r = f a)"
proof -
  have "r \<in> set (case row p of None \<Rightarrow> [] | Some f \<Rightarrow> map f (attestations_of p as)) \<longleftrightarrow>
      (\<exists>f a. row p = Some f \<and> a \<in> set as \<and> ea_artifact_digest a = pr_proposed_digest p \<and> r = f a)" for p
    by (cases "row p") (auto simp: set_attestations_of)
  then show ?thesis by (simp add: join_evidence_def) blast
qed

text \<open>What a registry run keeps: the ids of proposals and of attestations are unique.\<close>

definition evidence_ids_ok :: "'b registry_db \<Rightarrow> bool" where
  "evidence_ids_ok g \<longleftrightarrow> distinct (map pr_proposal_id (rg_proposals g)) \<and> distinct (map ea_attestation_id (rg_attestations g))"

lemma proposals_keep_ids:
  "keeps evidence_ids_ok (record_member t i v)"
  "keeps evidence_ids_ok (insert_proposal p)"
  by (auto simp: keeps_def record_member_def insert_member_def insert_proposal_def op_run_simps op_end_simps
      evidence_ids_ok_def case_prod_unfold split: sum.splits)

lemma evidence_ids_call:
  assumes "evidence_ids_ok s"
  shows "evidence_ids_ok (do_registry_call C K c s)"
proof (cases c)
  case (Register u n t ty b ds cs ex cl)
  then show ?thesis
    by (cases rule: register_cases [of C K u n t ty b ds cs ex cl s]) (use assms in \<open>simp_all add: evidence_ids_ok_def\<close>)
next
  case (Propose u t d st pa ca m)
  with assms show ?thesis
    by (auto simp: record_proposal_def insert_proposal_def op_run_simps op_end_simps evidence_ids_ok_def split: sum.splits)
next
  case (Propose_composite u t d st ms ca m)
  have "keeps evidence_ids_ok (record_composite_proposal u t d st ms ca m)"
    unfolding record_composite_proposal_def by (auto intro!: keeps_intros proposals_keep_ids)
  then show ?thesis using Propose_composite assms by (auto dest: keepsD)
next
  case (Attest u t w d out rm pd k)
  with assms show ?thesis
    by (auto simp: record_attestation_def Let_def op_run_simps op_end_simps evidence_ids_ok_def split: sum.splits)
next
  case (Status_event i u now t d kind who why)
  with assms show ?thesis
    by (auto simp: append_status_event_def Let_def op_run_simps op_end_simps evidence_ids_ok_def split: sum.splits)
next
  case (Create_manifest u t ds av mr ps prior k)
  with assms show ?thesis
    by (auto simp: create_release_manifest_def insert_manifest_def Let_def op_run_simps op_end_simps evidence_ids_ok_def
        split: sum.splits)
qed (use assms in \<open>simp_all add: evidence_ids_ok_def\<close>)

lemma evidence_ids_run: "evidence_ids_ok (run_calls (do_registry_call C K) cs empty_registry)"
  by (rule run_calls_invariant [where P = evidence_ids_ok])
    (simp add: evidence_ids_ok_def empty_registry_def, rule evidence_ids_call)

lemma distinct_map_filter_sort: "distinct (map k xs) \<Longrightarrow> distinct (map k (sort_key k' (filter P xs)))"
  by (metis distinct_map_filter mset_eq_imp_distinct_iff mset_map mset_sort)

lemma sorted_strict: "sorted (map k xs) \<Longrightarrow> distinct (map k xs) \<Longrightarrow> sorted_wrt (\<lambda>x y. k x < k y) xs"
  for k :: "'x \<Rightarrow> 'k :: linorder"
  by (induction xs) (auto simp: order_le_less image_iff)

text \<open>The rows of a join come in the order of their keys, each key once.\<close>

lemma join_in_key_order:
  assumes "distinct (map pr_proposal_id ps)" "distinct (map ea_attestation_id as)"
    and key: "\<And>p f a. row p = Some f \<Longrightarrow> pair_key (f a) = (pr_proposal_id p, ea_attestation_id a)"
  shows "sorted_wrt (\<lambda>x y. pair_key x < pair_key y) (join_evidence row ps as)"
proof -
  let ?rows = "\<lambda>p. case row p of None \<Rightarrow> [] | Some f \<Rightarrow> map f (attestations_of p as)"
  have one: "sorted_wrt (\<lambda>x y. pair_key x < pair_key y) (?rows p)" for p
  proof (cases "row p")
    case (Some f)
    have "sorted_wrt (\<lambda>x y. ea_attestation_id x < ea_attestation_id y) (attestations_of p as)"
      unfolding attestations_of_def
      by (rule sorted_strict) (simp_all add: distinct_map_filter_sort assms(2) del: map_map)
    then have "sorted_wrt (\<lambda>x y. pair_key (f x) < pair_key (f y)) (attestations_of p as)"
      by (rule sorted_wrt_mono_rel [rotated]) (use key [OF Some] in \<open>auto simp: less_prod_def'\<close>)
    with Some show ?thesis by (simp add: sorted_wrt_map)
  qed simp
  have "sorted_wrt (\<lambda>x y. pair_key x < pair_key y) (concat (map ?rows qs))"
    if "sorted_wrt (\<lambda>p q. pr_proposal_id p < pr_proposal_id q) qs" for qs
    using that
  proof (induction qs)
    case (Cons q qs)
    have "pair_key x < pair_key y" if x: "x \<in> set (?rows q)" and y: "y \<in> set (concat (map ?rows qs))" for x y
    proof -
      from x have "pw_proposal_id x = pr_proposal_id q" using key by (auto split: option.splits)
      moreover from y obtain p where "p \<in> set qs" "y \<in> set (?rows p)" by auto
      moreover from this(2) have "pw_proposal_id y = pr_proposal_id p" using key by (auto split: option.splits)
      ultimately show ?thesis using Cons.prems by (auto simp: less_prod_def')
    qed
    with Cons one [of q] show ?case by (simp add: sorted_wrt_append)
  qed simp
  moreover have "sorted_wrt (\<lambda>p q. pr_proposal_id p < pr_proposal_id q) (sort_key pr_proposal_id ps)"
    by (rule sorted_strict) (use distinct_map_filter_sort [of pr_proposal_id ps pr_proposal_id "\<lambda>_. True"] assms(1) in simp_all)
  ultimately show ?thesis unfolding join_evidence_def .
qed

lemma strict_distinct: "sorted_wrt (\<lambda>x y. k x < k y) xs \<Longrightarrow> distinct (map k xs)" for k :: "'x \<Rightarrow> 'k :: linorder"
  by (induction xs) auto

lemma strict_sorted: "sorted_wrt (\<lambda>x y. k x < k y) xs \<Longrightarrow> sorted (map k xs)" for k :: "'x \<Rightarrow> 'k :: linorder"
  by (induction xs) auto

lemma tenant_join_order:
  assumes "evidence_ids_ok g"
    and "\<And>p f a. row p = Some f \<Longrightarrow> pair_key (f a) = (pr_proposal_id p, ea_attestation_id a)"
  shows "sorted_wrt (\<lambda>x y. pair_key x < pair_key y) (tenant_evidence row t g)"
  unfolding tenant_evidence_def
  by (rule join_in_key_order) (use assms in \<open>auto simp: evidence_ids_ok_def intro: distinct_map_filter\<close>)

section \<open>What a projection provides, and what follows\<close>

lemma pair_truncate:
  "pw_proposal_id (pair_row.truncate r) = pw_proposal_id r" "pw_artifact_digest (pair_row.truncate r) = pw_artifact_digest r"
  "pw_parent_digest (pair_row.truncate r) = pw_parent_digest r" "pw_strategy_id (pair_row.truncate r) = pw_strategy_id r"
  "pw_campaign_id (pair_row.truncate r) = pw_campaign_id r" "pw_attestation_id (pair_row.truncate r) = pw_attestation_id r"
  "pw_outcome (pair_row.truncate r) = pw_outcome r"
  by (simp_all add: pair_row.truncate_def)

lemma pair_drift_truncate: "pair_row.truncate s = pair_row.truncate r \<Longrightarrow> pair_drift s r = []"
  by (simp add: pair_drift_def pair_row.truncate_def)

text \<open>A row carries its proposal and attestation, a stored row its row and tenant, and a row that was just stored does not
  differ from its source.\<close>

locale projection =
  fixes row :: "proposal_record \<Rightarrow> ('b evaluation_attestation \<Rightarrow> 'r pair_row_scheme) option"
    and store :: "string \<Rightarrow> 'r pair_row_scheme \<Rightarrow> 'a stored_pair_scheme"
    and differs :: "'a stored_pair_scheme \<Rightarrow> 'r pair_row_scheme \<Rightarrow> string list"
  assumes row_pair: "row p = Some f \<Longrightarrow> pair_row.truncate (f a) = pair_of p a"
    and store_pair: "pair_row.truncate (store t r) = pair_row.truncate r"
    and store_tenant: "sp_tenant_id (store t r) = t"
    and store_faithful: "differs (store t r) r = []"
begin

lemma row_fields:
  assumes "row p = Some f"
  shows "pair_key (f a) = (pr_proposal_id p, ea_attestation_id a)" "pw_artifact_digest (f a) = pr_proposed_digest p"
    "pw_outcome (f a) = ea_outcome a"
  using row_pair [OF assms, of a] pair_truncate(1,2,6,7) [of "f a"] by (simp_all add: pair_of_def)

lemma store_key [simp]: "pair_key (store t r) = pair_key r"
  using store_pair [of t r] pair_truncate(1,6) [of "store t r"] pair_truncate(1,6) [of r] by simp

lemma rows_in_order: "evidence_ids_ok g \<Longrightarrow> sorted_wrt (\<lambda>x y. pair_key x < pair_key y) (tenant_evidence row t g)"
  by (rule tenant_join_order) (simp_all add: row_fields)

lemma row_admitted:
  assumes "registry_ok C K g" "r \<in> set (tenant_evidence row t g)"
  shows "row_admissible g (store t r)"
proof -
  from assms(2) obtain p f a where r: "p \<in> set (rg_proposals g)" "pr_tenant p = t" "row p = Some f"
      "a \<in> set (rg_attestations g)" "r = f a"
    by (auto simp: tenant_evidence_def set_join)
  have "proposal_ok (registered g) p" "attestation_ok C (registered g) a"
    using assms(1) r(1,4) by (auto simp: registry_ok_def list_all_iff)
  then have "(t, pr_proposed_digest p) \<in> registered g" "ea_outcome a \<in> {''pass'', ''fail''}"
    using r(2) by (auto simp: proposal_ok_def attestation_ok_def VALID_OUTCOMES_def)
  moreover have "pw_artifact_digest (store t r) = pr_proposed_digest p" "pw_outcome (store t r) = ea_outcome a"
    using store_pair [of t r] pair_truncate(2,7) [of "store t r"] pair_truncate(2,7) [of r] row_fields(2,3) [OF r(3), of a] r(5)
    by simp_all
  moreover have "pw_proposal_id (store t r) = pr_proposal_id p" "pw_attestation_id (store t r) = ea_attestation_id a"
    using store_pair [of t r] pair_truncate(1,6) [of "store t r"] pair_truncate(1,6) [of r] row_fields(1) [OF r(3), of a] r(5)
    by simp_all
  ultimately show ?thesis using r(1,2,4) by (auto simp: row_admissible_def store_tenant)
qed

lemma inserts_run:
  "list_all (\<lambda>r. row_admissible g (store t r)) rs \<Longrightarrow>
     op_for rs (\<lambda>r. insert_row (store t r)) (g, table) = (Inr (), (g, table @ map (store t) rs))"
  by (induction rs arbitrary: table)
    (simp_all add: op_end_simps insert_row_def op_then_def op_bind_def op_require_def op_modify_def)

lemma rebuild_runs:
  assumes "registry_ok C K g"
  shows "rebuild_with row store t (g, table) =
    (Inr (length (tenant_evidence row t g)),
     (g, filter (\<lambda>r. sp_tenant_id r \<noteq> t) table @ map (store t) (tenant_evidence row t g)))"
proof -
  have "list_all (\<lambda>r. row_admissible g (store t r)) (tenant_evidence row t g)"
    using row_admitted [OF assms] by (simp add: list_all_iff)
  note run = inserts_run [OF this, of "filter (\<lambda>r. sp_tenant_id r \<noteq> t) table"]
  show ?thesis
    by (simp add: rebuild_with_def op_run_simps op_end_simps
        op_then_run [where m = "op_for (tenant_evidence row t g) (\<lambda>r. insert_row (store t r))", OF run])
qed

lemma rebuilt_rows:
  assumes "evidence_ids_ok g"
  shows "rows_of t (filter (\<lambda>r. sp_tenant_id r \<noteq> t) table @ map (store t) (tenant_evidence row t g))
    = map (store t) (tenant_evidence row t g)"
proof -
  have "filter (\<lambda>r. sp_tenant_id r = t) (filter (\<lambda>r. sp_tenant_id r \<noteq> t) table @ map (store t) rs) = map (store t) rs" for rs
    by (simp add: filter_map comp_def store_tenant)
  moreover have "sorted (map pair_key (map (store t) (tenant_evidence row t g)))"
    using strict_sorted [OF rows_in_order [OF assms]] by (simp add: comp_def)
  ultimately show ?thesis by (simp only: rows_of_def sorted_sort_id sort_key_id_if_sorted)
qed

lemma other_rows:
  "t' \<noteq> t \<Longrightarrow> rows_of t' (filter (\<lambda>r. sp_tenant_id r \<noteq> t) table @ map (store t) rs) = rows_of t' table"
  by (simp add: rows_of_def filter_map comp_def store_tenant conj_commute cong: conj_cong)

lemma rebuilt_reconciles:
  assumes "evidence_ids_ok g"
  shows "row_diffs differs (map (store t) (tenant_evidence row t g)) (tenant_evidence row t g) = []"
proof -
  let ?rs = "tenant_evidence row t g"
  have keys: "distinct (map pair_key ?rs)" by (rule strict_distinct) (rule rows_in_order [OF assms])
  have "differs s e = []" if "by_key (map (store t) ?rs) k = Some s" "by_key ?rs k = Some e" for k s e
  proof -
    from by_key_Some [OF that(1)] obtain r where r: "r \<in> set ?rs" "s = store t r" "pair_key r = k" by auto
    with by_key_unique [OF keys r(1)] that(2) have "e = r" by simp
    with r(2) show ?thesis by (simp add: store_faithful)
  qed
  then show ?thesis by (auto simp: row_diffs_Nil image_comp comp_def)
qed

text \<open>What \<^verbatim>\<open>rebuild\<close> promises: it returns, the check finds nothing, the stored rows are the projection in order, other
  tenants keep theirs.\<close>

lemma rebuild_spec:
  assumes "registry_ok C K g" "evidence_ids_ok g"
  shows "\<exists>table'. rebuild_with row store t (g, table) = (Inr (length (tenant_evidence row t g)), (g, table'))
    \<and> reconcile_with row differs t (g, table') = []
    \<and> rows_of t table' = map (store t) (tenant_evidence row t g)
    \<and> (\<forall>t'. t' \<noteq> t \<longrightarrow> rows_of t' table' = rows_of t' table)"
  using rebuild_runs [OF assms(1), of t table] rebuilt_rows [OF assms(2), of t table] rebuilt_reconciles [OF assms(2), of t]
    other_rows [of _ t table "tenant_evidence row t g"]
  by (auto simp: reconcile_with_def)

end

end
