(* ===== verification/Tally.thy ===== *)
theory Tally
  imports Database
begin

text \<open>
  The dictionaries that the summaries of \<^verbatim>\<open>selection/\<close> fill in one pass over their rows: counters, sets of ids and
  totals of costs, each keyed by a field of the row. A loop that fills several of them is written as one fold per
  dictionary. The lemmas say what such a dictionary holds in the end.
\<close>

section \<open>One pass\<close>

text \<open>\<^verbatim>\<open>d[k] = g(row, d.get(k, z))\<close> for every row that has a key.\<close>

definition group_fold :: "('r \<Rightarrow> 'k option) \<Rightarrow> 'v \<Rightarrow> ('r \<Rightarrow> 'v \<Rightarrow> 'v) \<Rightarrow> 'r list \<Rightarrow> ('k, 'v) dict" where
  "group_fold key z g rows =
     fold (\<lambda>r d. case key r of None \<Rightarrow> d | Some k \<Rightarrow> AList.update k (g r (dict_get d k z)) d) rows []"

definition tally :: "('r \<Rightarrow> 'k option) \<Rightarrow> 'r list \<Rightarrow> ('k, nat) dict" where
  "tally key = group_fold key 0 (\<lambda>_ n. n + 1)"

definition collect :: "('r \<Rightarrow> 'k option) \<Rightarrow> ('r \<Rightarrow> 'x) \<Rightarrow> 'r list \<Rightarrow> ('k, 'x list) dict" where
  "collect key member = group_fold key [] (\<lambda>r xs. List.insert (member r) xs)"

text \<open>\<^verbatim>\<open>for key, cost in row.cost.items(): sums[key] = sums.get(key, 0.0) + cost\<close>\<close>

definition add_costs :: "(string, rat) dict \<Rightarrow> (string, rat) dict \<Rightarrow> (string, rat) dict" where
  "add_costs cost acc = fold (\<lambda>(m, v) s. AList.update m (dict_get s m 0 + v) s) cost acc"

definition sum_costs :: "('r \<Rightarrow> 'k option) \<Rightarrow> ('r \<Rightarrow> (string, rat) dict) \<Rightarrow> 'r list \<Rightarrow> ('k, (string, rat) dict) dict" where
  "sum_costs key cost = group_fold key [] (\<lambda>r. add_costs (cost r))"

text \<open>\<^verbatim>\<open>{key: total / count for key, total in sorted(acc.items())}\<close>\<close>

definition mean_costs :: "(string, rat) dict \<Rightarrow> nat \<Rightarrow> (string, rat) dict" where
  "mean_costs acc n = map (\<lambda>(m, total). (m, total / of_nat n)) (sort_key fst acc)"

text \<open>\<^verbatim>\<open>isinstance(value, (int, float)) and not isinstance(value, bool)\<close>, and the cost metrics of a metrics mapping.\<close>

definition numeric_value :: "json \<Rightarrow> rat option" where
  "numeric_value v = (case v of JInt i \<Rightarrow> Some (of_int i) | JFloat q \<Rightarrow> Some q | _ \<Rightarrow> None)"

definition numeric_entry :: "string \<times> json \<Rightarrow> (string \<times> rat) list" where
  "numeric_entry = (\<lambda>(k, v). if k \<in> set COST_METRIC_KEYS
     then (case numeric_value v of None \<Rightarrow> [] | Some q \<Rightarrow> [(k, q)]) else [])"

definition numeric_cost_metrics :: "json_object \<Rightarrow> (string, rat) dict" where
  "numeric_cost_metrics raw = concat (map numeric_entry raw)"

section \<open>What the dictionaries hold\<close>

abbreviation rows_at :: "('r \<Rightarrow> 'k option) \<Rightarrow> 'k \<Rightarrow> 'r list \<Rightarrow> 'r list" where
  "rows_at key k rows \<equiv> filter (\<lambda>r. key r = Some k) rows"

lemma map_of_fold_group:
  "map_of (fold (\<lambda>r d. case key r of None \<Rightarrow> d | Some k \<Rightarrow> AList.update k (g r (dict_get d k z)) d) rows d) k =
     (if rows_at key k rows = [] then map_of d k else Some (fold g (rows_at key k rows) (dict_get d k z)))"
proof (induction rows arbitrary: d)
  case (Cons r rows)
  show ?case
  proof (cases "key r = Some k")
    case True
    then show ?thesis by (simp add: Cons.IH dict_get_update map_of_update)
  next
    case False
    then show ?thesis by (cases "key r") (simp_all add: Cons.IH dict_get_update map_of_update)
  qed
qed simp

lemma map_of_group_fold:
  "map_of (group_fold key z g rows) k =
     (if rows_at key k rows = [] then None else Some (fold g (rows_at key k rows) z))"
  by (simp add: group_fold_def map_of_fold_group dict_get_def)

lemma dict_ok_fold_group:
  "dict_ok d \<Longrightarrow>
     dict_ok (fold (\<lambda>r d. case key r of None \<Rightarrow> d | Some k \<Rightarrow> AList.update k (g r (dict_get d k z)) d) rows d)"
  by (induction rows arbitrary: d) (auto split: option.splits)

lemma dict_ok_group_fold [simp]: "dict_ok (group_fold key z g rows)"
  unfolding group_fold_def by (rule dict_ok_fold_group) (simp add: dict_ok_def)

lemma keys_map_of: "set (map fst d) = {k. map_of d k \<noteq> None}"
  by (force simp: map_of_eq_None_iff)

lemma keys_group_fold: "set (map fst (group_fold key z g rows)) = {k. rows_at key k rows \<noteq> []}"
  unfolding keys_map_of by (simp add: map_of_group_fold)

lemma fold_count: "fold (\<lambda>_. Suc) rs n = n + length rs"
  by (induction rs arbitrary: n) simp_all

lemma tally_get: "dict_get (tally key rows) k 0 = length (rows_at key k rows)"
  by (simp add: tally_def dict_get_def map_of_group_fold fold_count)

lemma fold_insert_set: "set (fold (\<lambda>r xs. List.insert (member r) xs) rs xs) = member ` set rs \<union> set xs"
  by (induction rs arbitrary: xs) auto

lemma collect_get: "set (dict_get (collect key member rows) k []) = member ` set (rows_at key k rows)"
  by (cases "rows_at key k rows = []") (auto simp: collect_def dict_get_def map_of_group_fold fold_insert_set)

lemma dict_ok_add_costs: "dict_ok s \<Longrightarrow> dict_ok (add_costs c s)"
  unfolding add_costs_def by (induction c arbitrary: s) auto

lemma map_of_add_costs:
  "dict_ok c \<Longrightarrow> map_of (add_costs c s) m =
     (case map_of c m of None \<Rightarrow> map_of s m | Some v \<Rightarrow> Some (dict_get s m 0 + v))"
proof (induction c arbitrary: s)
  case (Cons kv c)
  obtain k v where kv: "kv = (k, v)" by fastforce
  have ok: "dict_ok c" and new: "map_of c k = None" using Cons.prems kv by (auto simp: dict_ok_def map_of_eq_None_iff)
  show ?case
    using Cons.IH [OF ok] new kv by (auto simp: add_costs_def dict_get_update map_of_update split: option.splits)
qed (simp add: add_costs_def)

lemma sum_list_unattested: "\<forall>r \<in> set rs. map_of (cost r) m = None \<Longrightarrow> sum_list (map (\<lambda>r. dict_get (cost r) m (0 :: rat)) rs) = 0"
  by (induction rs) (auto simp: dict_get_def)

lemma map_of_sum_costs:
  assumes "\<forall>r \<in> set rs. dict_ok (cost r)"
  shows "map_of (fold (\<lambda>r. add_costs (cost r)) rs s) m =
    (if \<exists>r \<in> set rs. map_of (cost r) m \<noteq> None
     then Some (dict_get s m 0 + sum_list (map (\<lambda>r. dict_get (cost r) m 0) rs)) else map_of s m)"
  using assms
proof (induction rs arbitrary: s)
  case (Cons r rs)
  have "dict_get (add_costs (cost r) s) m 0 = dict_get s m 0 + dict_get (cost r) m 0"
    using Cons.prems by (simp add: dict_get_def map_of_add_costs split: option.splits)
  then show ?case
    using Cons sum_list_unattested [of rs cost m]
    by (cases "map_of (cost r) m") (auto simp: map_of_add_costs dict_get_def)
qed simp

lemma sum_costs_get:
  assumes "\<forall>r \<in> set rows. dict_ok (cost r)"
  shows "map_of (dict_get (sum_costs key cost rows) k []) m =
    (if \<exists>r \<in> set (rows_at key k rows). map_of (cost r) m \<noteq> None
     then Some (sum_list (map (\<lambda>r. dict_get (cost r) m 0) (rows_at key k rows))) else None)"
proof -
  have "dict_get (sum_costs key cost rows) k [] = fold (\<lambda>r. add_costs (cost r)) (rows_at key k rows) []"
    by (simp add: sum_costs_def dict_get_def map_of_group_fold)
  then show ?thesis using assms by (simp add: map_of_sum_costs) (auto simp: dict_get_def)
qed

lemma dict_ok_sum_costs: "dict_ok (dict_get (sum_costs key cost rows) k [])"
proof -
  have "dict_ok (fold (\<lambda>r. add_costs (cost r)) rs s)" if "dict_ok s" for rs s
    using that by (induction rs arbitrary: s) (auto simp: dict_ok_add_costs)
  then show ?thesis by (simp add: sum_costs_def dict_get_def map_of_group_fold) (simp add: dict_ok_def)
qed

lemma map_of_mean_costs:
  assumes "dict_ok acc"
  shows "map_of (mean_costs acc n) m = map_option (\<lambda>total. total / of_nat n) (map_of acc m)"
proof -
  have "map_of (mean_costs acc n) m = map_option (\<lambda>total. total / of_nat n) (map_of (sort_key fst acc) m)"
    unfolding mean_costs_def by (simp add: map_of_map)
  then show ?thesis using map_of_sort_key [of acc] assms by (simp add: dict_ok_def)
qed

lemma dict_ok_mean_costs: "dict_ok acc \<Longrightarrow> dict_ok (mean_costs acc n)"
proof -
  assume "dict_ok acc"
  then have "distinct (map fst (sort_key fst acc))"
    unfolding dict_ok_def by (metis mset_eq_imp_distinct_iff mset_map mset_sort)
  then show ?thesis by (simp add: dict_ok_def mean_costs_def case_prod_unfold comp_def)
qed

lemma numeric_entry_cases:
  obtains "numeric_entry kv = []"
  | q where "numeric_entry kv = [(fst kv, q)]" "fst kv \<in> set COST_METRIC_KEYS"
proof (cases kv)
  case (Pair k v)
  then show thesis using that by (cases "k \<in> set COST_METRIC_KEYS"; cases "numeric_value v") (simp_all add: numeric_entry_def)
qed

lemma numeric_cost_Cons: "numeric_cost_metrics (kv # raw) = numeric_entry kv @ numeric_cost_metrics raw"
  by (simp add: numeric_cost_metrics_def)

lemma numeric_cost_keys: "set (map fst (numeric_cost_metrics raw)) \<subseteq> set (map fst raw) \<inter> set COST_METRIC_KEYS"
proof (induction raw)
  case (Cons kv raw)
  then show ?case by (cases rule: numeric_entry_cases [of kv]) (auto simp: numeric_cost_Cons)
qed (simp add: numeric_cost_metrics_def)

lemma dict_ok_numeric: "dict_ok raw \<Longrightarrow> dict_ok (numeric_cost_metrics raw)"
proof (induction raw)
  case (Cons kv raw)
  then have "fst kv \<notin> set (map fst (numeric_cost_metrics raw))" "dict_ok (numeric_cost_metrics raw)"
    using numeric_cost_keys [of raw] by (auto simp: dict_ok_def)
  then show ?case by (cases rule: numeric_entry_cases [of kv]) (simp_all add: dict_ok_def numeric_cost_Cons)
qed (simp add: dict_ok_def numeric_cost_metrics_def)

lemma group_fold_map: "group_fold key z g (map f rows) = group_fold (key \<circ> f) z (g \<circ> f) rows"
  by (simp add: group_fold_def fold_map comp_def)

lemma tally_map: "tally key (map f rows) = tally (key \<circ> f) rows"
  by (simp add: tally_def group_fold_map comp_def)

lemma collect_map: "collect key member (map f rows) = collect (key \<circ> f) (member \<circ> f) rows"
  by (simp add: collect_def group_fold_map comp_def)

text \<open>Means depend on the costs only as mappings: the order in which a row lists them does not matter.\<close>

lemma mean_costs_cong:
  "dict_ok d \<Longrightarrow> dict_ok d' \<Longrightarrow> map_of d = map_of d' \<Longrightarrow> mean_costs d n = mean_costs d' n"
  by (simp only: mean_costs_def sorted_dict_unique [of d d'])

definition same_costs :: "('r \<Rightarrow> 'k option) \<Rightarrow> ('r \<Rightarrow> (string, rat) dict) \<Rightarrow> ('s \<Rightarrow> 'k option) \<Rightarrow> ('s \<Rightarrow> (string, rat) dict)
    \<Rightarrow> 'r \<Rightarrow> 's \<Rightarrow> bool" where
  "same_costs key cost key' cost' r s \<longleftrightarrow>
     key r = key' s \<and> dict_ok (cost r) \<and> dict_ok (cost' s) \<and> map_of (cost r) = map_of (cost' s)"

lemma rows_at_map: "rows_at key k (map f rows) = map f (rows_at (key \<circ> f) k rows)"
  by (simp add: filter_map comp_def)

lemma mean_sum_costs_map:
  assumes "\<forall>r \<in> set rows. same_costs key cost key' cost' (f r) r"
  shows "mean_costs (dict_get (sum_costs key cost (map f rows)) k []) n = mean_costs (dict_get (sum_costs key' cost' rows) k []) n"
proof (rule mean_costs_cong)
  have at: "rows_at key k (map f rows) = map f (rows_at key' k rows)"
    using assms by (induction rows) (auto simp: same_costs_def)
  show "map_of (dict_get (sum_costs key cost (map f rows)) k []) = map_of (dict_get (sum_costs key' cost' rows) k [])"
  proof
    fix m
    have "\<forall>r \<in> set (map f rows). dict_ok (cost r)" "\<forall>r \<in> set rows. dict_ok (cost' r)"
      using assms by (auto simp: same_costs_def)
    moreover have "map (\<lambda>r. dict_get (cost (f r)) m 0) (rows_at key' k rows) = map (\<lambda>r. dict_get (cost' r) m 0) (rows_at key' k rows)"
      using assms by (auto simp: same_costs_def dict_get_def)
    moreover have "(\<exists>r \<in> set (rows_at key k (map f rows)). map_of (cost r) m \<noteq> None)
        \<longleftrightarrow> (\<exists>r \<in> set (rows_at key' k rows). map_of (cost' r) m \<noteq> None)"
      unfolding at using assms by (auto simp: same_costs_def)
    ultimately show "map_of (dict_get (sum_costs key cost (map f rows)) k []) m = map_of (dict_get (sum_costs key' cost' rows) k []) m"
      by (simp only: sum_costs_get at map_map comp_def)
  qed
qed (rule dict_ok_sum_costs)+

end
