(* ===== verification/Productivity.thy ===== *)
theory Productivity
  imports Projection Tally
begin

text \<open>
  Two projections over the evidence: typed costs per proposal and attestation (\<^verbatim>\<open>selection/productivity.py\<close>,
  \<^verbatim>\<open>db/models/productivity.py\<close>) and the scaffold-mutation archive (\<^verbatim>\<open>selection/mutation_archive.py\<close>,
  \<^verbatim>\<open>db/models/mutation_archive.py\<close>), with their summaries. Both interpret the locale \<open>projection\<close>.
\<close>

section \<open>Typed costs\<close>

definition PRODUCTIVITY_COST_COLUMNS :: "string list" where
  "PRODUCTIVITY_COST_COLUMNS = [''tokens'', ''total_tokens'', ''mean_total_tokens'', ''cost_usd'', ''wall_clock_s'']"

record costed_row = pair_row +
  cr_cost :: "(string, rat) dict"

text \<open>The five nullable cost columns of a table.\<close>

record stored_costs = stored_pair +
  sc_tokens :: "rat option"
  sc_total_tokens :: "rat option"
  sc_mean_total_tokens :: "rat option"
  sc_cost_usd :: "rat option"
  sc_wall_clock_s :: "rat option"

definition cost_column :: "'a stored_costs_scheme \<Rightarrow> string \<Rightarrow> rat option" where
  "cost_column s c =
     (if c = ''tokens'' then sc_tokens s else if c = ''total_tokens'' then sc_total_tokens s
      else if c = ''mean_total_tokens'' then sc_mean_total_tokens s else if c = ''cost_usd'' then sc_cost_usd s
      else if c = ''wall_clock_s'' then sc_wall_clock_s s else None)"

definition column_entry :: "(string \<Rightarrow> 'v option) \<Rightarrow> string \<Rightarrow> (string \<times> 'v) list" where
  "column_entry column c = (case column c of None \<Rightarrow> [] | Some v \<Rightarrow> [(c, v)])"

text \<open>\<^verbatim>\<open>{c: getattr(row, c) for c in columns if getattr(row, c) is not None}\<close>\<close>

definition column_dict :: "(string \<Rightarrow> 'v option) \<Rightarrow> string list \<Rightarrow> (string, 'v) dict" where
  "column_dict column columns = concat (map (column_entry column) columns)"

definition productivity_row :: "proposal_record \<Rightarrow> ('b evaluation_attestation \<Rightarrow> costed_row) option" where
  "productivity_row p = Some (\<lambda>a.
     \<lparr>pw_proposal_id = pr_proposal_id p, pw_artifact_digest = pr_proposed_digest p, pw_parent_digest = pr_parent_digest p,
      pw_strategy_id = pr_strategy_id p, pw_campaign_id = pr_campaign_id p, pw_attestation_id = ea_attestation_id a,
      pw_outcome = ea_outcome a, cr_cost = numeric_cost_metrics (ea_result_metrics a)\<rparr>)"

definition project_productivity ::
  "proposal_record list \<Rightarrow> 'b evaluation_attestation list \<Rightarrow> costed_row list" where
  "project_productivity = join_evidence productivity_row"

definition store_productivity :: "string \<Rightarrow> costed_row \<Rightarrow> stored_costs" where
  "store_productivity tenant_id r =
     \<lparr>pw_proposal_id = pw_proposal_id r, pw_artifact_digest = pw_artifact_digest r, pw_parent_digest = pw_parent_digest r,
      pw_strategy_id = pw_strategy_id r, pw_campaign_id = pw_campaign_id r, pw_attestation_id = pw_attestation_id r,
      pw_outcome = pw_outcome r, sp_tenant_id = tenant_id,
      sc_tokens = map_of (cr_cost r) ''tokens'', sc_total_tokens = map_of (cr_cost r) ''total_tokens'',
      sc_mean_total_tokens = map_of (cr_cost r) ''mean_total_tokens'', sc_cost_usd = map_of (cr_cost r) ''cost_usd'',
      sc_wall_clock_s = map_of (cr_cost r) ''wall_clock_s''\<rparr>"

definition productivity_drift :: "stored_costs \<Rightarrow> costed_row \<Rightarrow> string list" where
  "productivity_drift s e =
     pair_drift s e @ filter (\<lambda>c. cost_column s c \<noteq> map_of (cr_cost e) c) PRODUCTIVITY_COST_COLUMNS"

definition load_productivity :: "stored_costs \<Rightarrow> costed_row" where
  "load_productivity s =
     \<lparr>pw_proposal_id = pw_proposal_id s, pw_artifact_digest = pw_artifact_digest s, pw_parent_digest = pw_parent_digest s,
      pw_strategy_id = pw_strategy_id s, pw_campaign_id = pw_campaign_id s, pw_attestation_id = pw_attestation_id s,
      pw_outcome = pw_outcome s, cr_cost = column_dict (cost_column s) PRODUCTIVITY_COST_COLUMNS\<rparr>"

record productivity_summary =
  ps_artifact_digest :: string
  ps_proposal_count :: nat
  ps_attestation_count :: nat
  ps_mean_cost :: "(string, rat) dict"

abbreviation artifact_key :: "'a pair_row_scheme \<Rightarrow> string option" where
  "artifact_key r \<equiv> Some (pw_artifact_digest r)"

definition summarize_productivity :: "costed_row list \<Rightarrow> productivity_summary list" where
  "summarize_productivity rows =
     (let proposals_by_artifact = collect artifact_key pw_proposal_id rows;
          counts_by_artifact = tally artifact_key rows;
          sums_by_artifact = sum_costs artifact_key cr_cost rows
      in map (\<lambda>d. \<lparr>ps_artifact_digest = d, ps_proposal_count = length (dict_get proposals_by_artifact d []),
                   ps_attestation_count = dict_get counts_by_artifact d 0,
                   ps_mean_cost = mean_costs (dict_get sums_by_artifact d []) (dict_get counts_by_artifact d 0)\<rparr>)
           (sort (map fst proposals_by_artifact)))"

definition rebuild_productivity :: "string \<Rightarrow> (exn, ('b, stored_costs) projection_db, nat) op" where
  "rebuild_productivity = rebuild_with productivity_row store_productivity"

definition productivity_rows :: "string \<Rightarrow> ('b, stored_costs) projection_db \<Rightarrow> stored_costs list" where
  "productivity_rows tenant_id = (\<lambda>(g, table). rows_of tenant_id table)"

definition productivity_of :: "string \<Rightarrow> ('b, stored_costs) projection_db \<Rightarrow> productivity_summary list" where
  "productivity_of tenant_id s = summarize_productivity (map load_productivity (productivity_rows tenant_id s))"

definition reconcile_productivity :: "string \<Rightarrow> ('b, stored_costs) projection_db \<Rightarrow> drift list" where
  "reconcile_productivity = reconcile_with productivity_row productivity_drift"

section \<open>The mutation archive\<close>

definition MUTATION_CLASS_METADATA_KEY :: string where "MUTATION_CLASS_METADATA_KEY = ''mutation_class''"
definition FITNESS_METRIC_KEY :: string where "FITNESS_METRIC_KEY = ''fitness''"

record mutation_row = pair_row +
  mu_mutation_class :: string
  mu_fitness :: "rat option"

record stored_mutation = stored_pair +
  sm_mutation_class :: string
  sm_fitness :: "rat option"

definition declared_mutation_class :: "json_object \<Rightarrow> string option" where
  "declared_mutation_class metadata =
     (case map_of metadata MUTATION_CLASS_METADATA_KEY of
        Some (JStr s) \<Rightarrow> if py_blank s then None else Some s
      | _ \<Rightarrow> None)"

definition attested_fitness :: "json_object \<Rightarrow> rat option" where
  "attested_fitness metrics = (case map_of metrics FITNESS_METRIC_KEY of None \<Rightarrow> None | Some v \<Rightarrow> numeric_value v)"

definition mutation_row_of :: "proposal_record \<Rightarrow> ('b evaluation_attestation \<Rightarrow> mutation_row) option" where
  "mutation_row_of p =
     (case declared_mutation_class (pr_metadata p) of
        None \<Rightarrow> None
      | Some c \<Rightarrow> Some (\<lambda>a.
          \<lparr>pw_proposal_id = pr_proposal_id p, pw_artifact_digest = pr_proposed_digest p, pw_parent_digest = pr_parent_digest p,
           pw_strategy_id = pr_strategy_id p, pw_campaign_id = pr_campaign_id p, pw_attestation_id = ea_attestation_id a,
           pw_outcome = ea_outcome a, mu_mutation_class = c, mu_fitness = attested_fitness (ea_result_metrics a)\<rparr>))"

definition project_mutation_archive ::
  "proposal_record list \<Rightarrow> 'b evaluation_attestation list \<Rightarrow> mutation_row list" where
  "project_mutation_archive = join_evidence mutation_row_of"

definition store_mutation :: "string \<Rightarrow> mutation_row \<Rightarrow> stored_mutation" where
  "store_mutation tenant_id r =
     \<lparr>pw_proposal_id = pw_proposal_id r, pw_artifact_digest = pw_artifact_digest r, pw_parent_digest = pw_parent_digest r,
      pw_strategy_id = pw_strategy_id r, pw_campaign_id = pw_campaign_id r, pw_attestation_id = pw_attestation_id r,
      pw_outcome = pw_outcome r, sp_tenant_id = tenant_id, sm_mutation_class = mu_mutation_class r,
      sm_fitness = mu_fitness r\<rparr>"

definition mutation_drift :: "stored_mutation \<Rightarrow> mutation_row \<Rightarrow> string list" where
  "mutation_drift s e =
     pair_drift s e
     @ (if sm_mutation_class s \<noteq> mu_mutation_class e then [''mutation_class''] else [])
     @ (if sm_fitness s \<noteq> mu_fitness e then [''fitness''] else [])"

definition load_mutation :: "stored_mutation \<Rightarrow> mutation_row" where
  "load_mutation s =
     \<lparr>pw_proposal_id = pw_proposal_id s, pw_artifact_digest = pw_artifact_digest s, pw_parent_digest = pw_parent_digest s,
      pw_strategy_id = pw_strategy_id s, pw_campaign_id = pw_campaign_id s, pw_attestation_id = pw_attestation_id s,
      pw_outcome = pw_outcome s, mu_mutation_class = sm_mutation_class s, mu_fitness = sm_fitness s\<rparr>"

record mutation_class_summary =
  mc_mutation_class :: string
  mc_proposal_count :: nat
  mc_attestation_count :: nat
  mc_pass_count :: nat
  mc_mean_fitness :: "rat option"

abbreviation class_key :: "mutation_row \<Rightarrow> string option" where
  "class_key r \<equiv> Some (mu_mutation_class r)"

definition fitness_total :: "mutation_row \<Rightarrow> rat \<times> nat \<Rightarrow> rat \<times> nat" where
  "fitness_total r = (\<lambda>(amount, n). case mu_fitness r of None \<Rightarrow> (amount, n) | Some f \<Rightarrow> (amount + f, n + 1))"

definition summarize_mutation_archive :: "mutation_row list \<Rightarrow> mutation_class_summary list" where
  "summarize_mutation_archive rows =
     (let proposals_by_class = collect class_key pw_proposal_id rows;
          counts_by_class = tally class_key rows;
          passes_by_class = tally (\<lambda>r. if pw_outcome r = ''pass'' then class_key r else None) rows;
          fitness_sums = group_fold (\<lambda>r. if mu_fitness r \<noteq> None then class_key r else None) (0, 0) fitness_total rows
      in map (\<lambda>c. case dict_get fitness_sums c (0, 0) of (amount, n) \<Rightarrow>
                \<lparr>mc_mutation_class = c, mc_proposal_count = length (dict_get proposals_by_class c []),
                 mc_attestation_count = dict_get counts_by_class c 0, mc_pass_count = dict_get passes_by_class c 0,
                 mc_mean_fitness = (if n \<noteq> 0 then Some (amount / of_nat n) else None)\<rparr>)
           (sort (map fst proposals_by_class)))"

definition rebuild_mutations :: "string \<Rightarrow> (exn, ('b, stored_mutation) projection_db, nat) op" where
  "rebuild_mutations = rebuild_with mutation_row_of store_mutation"

definition mutation_rows :: "string \<Rightarrow> ('b, stored_mutation) projection_db \<Rightarrow> stored_mutation list" where
  "mutation_rows tenant_id = (\<lambda>(g, table). rows_of tenant_id table)"

definition mutation_classes :: "string \<Rightarrow> ('b, stored_mutation) projection_db \<Rightarrow> mutation_class_summary list" where
  "mutation_classes tenant_id s = summarize_mutation_archive (map load_mutation (mutation_rows tenant_id s))"

definition reconcile_mutations :: "string \<Rightarrow> ('b, stored_mutation) projection_db \<Rightarrow> drift list" where
  "reconcile_mutations = reconcile_with mutation_row_of mutation_drift"

section \<open>Both are projections\<close>

lemma cost_column_stored:
  "c \<in> set PRODUCTIVITY_COST_COLUMNS \<Longrightarrow> cost_column (store_productivity t r) c = map_of (cr_cost r) c"
  by (auto simp: PRODUCTIVITY_COST_COLUMNS_def cost_column_def store_productivity_def)

interpretation costs: projection productivity_row store_productivity productivity_drift
proof
  fix t and r :: costed_row
  show truncate: "pair_row.truncate (store_productivity t r) = pair_row.truncate r"
    by (simp add: store_productivity_def pair_row.truncate_def)
  show "productivity_drift (store_productivity t r) r = []"
    using pair_drift_truncate [OF truncate] by (simp add: productivity_drift_def cost_column_stored)
qed (auto simp: productivity_row_def pair_of_def pair_row.truncate_def store_productivity_def)

interpretation mutations: projection mutation_row_of store_mutation mutation_drift
proof
  fix t and r :: mutation_row
  show truncate: "pair_row.truncate (store_mutation t r) = pair_row.truncate r"
    by (simp add: store_mutation_def pair_row.truncate_def)
  show "mutation_drift (store_mutation t r) r = []"
    using pair_drift_truncate [OF truncate] by (simp add: mutation_drift_def store_mutation_def)
qed (auto simp: mutation_row_of_def pair_of_def pair_row.truncate_def store_mutation_def split: option.splits)

lemma load_store_mutation: "load_mutation (store_mutation t r) = r"
  by (simp add: load_mutation_def store_mutation_def)

section \<open>Reading back through the columns\<close>

lemma column_entry_cases:
  obtains "column c = None" "column_entry column c = []" | v where "column c = Some v" "column_entry column c = [(c, v)]"
  by (cases "column c") (auto simp: column_entry_def)

lemma map_of_column_dict:
  "map_of (column_dict column columns) c = (if c \<in> set columns then column c else None)"
proof (induction columns)
  case (Cons x columns)
  then show ?case
    by (cases rule: column_entry_cases [of column x]) (auto simp: column_dict_def)
qed (simp add: column_dict_def)

lemma column_dict_keys: "set (map fst (column_dict column columns)) \<subseteq> set columns"
proof (induction columns)
  case (Cons x columns)
  then show ?case by (cases rule: column_entry_cases [of column x]) (auto simp: column_dict_def)
qed (simp add: column_dict_def)

lemma dict_ok_column_dict: "distinct columns \<Longrightarrow> dict_ok (column_dict column columns)"
proof (induction columns)
  case (Cons x columns)
  have "x \<notin> set (map fst (column_dict column columns))" using Cons.prems column_dict_keys [of column columns] by auto
  with Cons show ?case
    by (cases rule: column_entry_cases [of column x]) (simp_all add: dict_ok_def column_dict_def)
qed (simp add: column_dict_def dict_ok_def)

lemma columns_are_the_vocabulary: "set PRODUCTIVITY_COST_COLUMNS = set COST_METRIC_KEYS" "distinct PRODUCTIVITY_COST_COLUMNS"
  by (simp_all add: PRODUCTIVITY_COST_COLUMNS_def COST_METRIC_KEYS_def)

definition metrics_ok :: "'b registry_db \<Rightarrow> bool" where
  "metrics_ok g \<longleftrightarrow> list_all (\<lambda>a. dict_ok (ea_result_metrics a)) (rg_attestations g)"

lemma numeric_column:
  "c \<notin> set COST_METRIC_KEYS \<Longrightarrow> map_of (numeric_cost_metrics raw) c = None"
  using numeric_cost_keys [of raw] by (auto simp: map_of_eq_None_iff)

lemma evidence_costs:
  assumes "metrics_ok g" "r \<in> set (tenant_evidence productivity_row t g)"
  shows "dict_ok (cr_cost r)" "\<And>c. c \<notin> set COST_METRIC_KEYS \<Longrightarrow> map_of (cr_cost r) c = None"
  using assms by (auto simp: tenant_evidence_def set_join productivity_row_def metrics_ok_def list_all_iff
      dict_ok_numeric numeric_column)

text \<open>The summary read from the table after a rebuild is the summary of the evidence.\<close>

lemma productivity_after_rebuild:
  assumes "metrics_ok g" "productivity_rows t s = map (store_productivity t) (tenant_evidence productivity_row t g)"
  shows "productivity_of t s = summarize_productivity (tenant_evidence productivity_row t g)"
proof -
  let ?load = "\<lambda>r. load_productivity (store_productivity t r)"
  let ?rows = "tenant_evidence productivity_row t g"
  have same: "pw_artifact_digest (?load r) = pw_artifact_digest r" "pw_proposal_id (?load r) = pw_proposal_id r" for r
    by (simp_all add: load_productivity_def store_productivity_def)
  have "same_costs artifact_key cr_cost artifact_key cr_cost (?load r) r" if "r \<in> set ?rows" for r
    using evidence_costs [OF assms(1) that] cost_column_stored [of _ t r] columns_are_the_vocabulary
    by (auto simp: same_costs_def same fun_eq_iff)
      (auto simp: load_productivity_def dict_ok_column_dict map_of_column_dict)
  then have means: "mean_costs (dict_get (sum_costs artifact_key cr_cost (map ?load ?rows)) k []) n
      = mean_costs (dict_get (sum_costs artifact_key cr_cost ?rows) k []) n" for k n
    by (intro mean_sum_costs_map) blast
  have "tally artifact_key (map ?load ?rows) = tally artifact_key ?rows"
    "collect artifact_key pw_proposal_id (map ?load ?rows) = collect artifact_key pw_proposal_id ?rows"
    by (simp_all add: tally_map collect_map comp_def same)
  with means show ?thesis
    by (simp add: productivity_of_def assms(2) summarize_productivity_def comp_def)
qed

end
