(* ===== verification/ParetoArchive.thy ===== *)
theory ParetoArchive
  imports Productivity
begin

text \<open>
  The Pareto archive (\<^verbatim>\<open>selection/pareto_archive.py\<close>, \<^verbatim>\<open>db/models/pareto_archive.py\<close>): the projection with slice
  annotations, the summary per slice, aggregation per artifact, the dominance rule and the frontier. The lemmas
  show when the frontier covers the archive, that it can be empty, what a missing cost does to a mean, and that
  reading through the stored columns gives what the evidence gives.
\<close>

section \<open>The projection\<close>

definition SLICE_DIMENSIONS :: "string list" where
  "SLICE_DIMENSIONS = [''task_type'', ''difficulty'', ''safety_class'']"

definition PARETO_COST_COLUMNS :: "string list" where
  "PARETO_COST_COLUMNS = [''tokens'', ''total_tokens'', ''mean_total_tokens'', ''cost_usd'', ''wall_clock_s'']"

record pareto_row = pair_row +
  pa_slices :: "(string, string) dict"
  pa_cost :: "(string, rat) dict"

record stored_pareto = stored_costs +
  st_task_type :: "string option"
  st_difficulty :: "string option"
  st_safety_class :: "string option"

definition slice_column :: "stored_pareto \<Rightarrow> string \<Rightarrow> string option" where
  "slice_column s d =
     (if d = ''task_type'' then st_task_type s else if d = ''difficulty'' then st_difficulty s
      else if d = ''safety_class'' then st_safety_class s else None)"

definition annotation :: "json option \<Rightarrow> string option" where
  "annotation v = (case v of Some (JStr s) \<Rightarrow> if s = [] then None else Some s | _ \<Rightarrow> None)"

definition slice_value :: "json_object \<Rightarrow> json_object \<Rightarrow> string \<Rightarrow> string option" where
  "slice_value metadata metrics dimension =
     (case annotation (map_of metadata dimension) of
        Some declared \<Rightarrow> Some declared
      | None \<Rightarrow> annotation (map_of metrics dimension))"

definition pareto_row_of :: "proposal_record \<Rightarrow> ('b evaluation_attestation \<Rightarrow> pareto_row) option" where
  "pareto_row_of p = Some (\<lambda>a.
     \<lparr>pw_proposal_id = pr_proposal_id p, pw_artifact_digest = pr_proposed_digest p, pw_parent_digest = pr_parent_digest p,
      pw_strategy_id = pr_strategy_id p, pw_campaign_id = pr_campaign_id p, pw_attestation_id = ea_attestation_id a,
      pw_outcome = ea_outcome a,
      pa_slices = column_dict (slice_value (pr_metadata p) (ea_result_metrics a)) SLICE_DIMENSIONS,
      pa_cost = numeric_cost_metrics (ea_result_metrics a)\<rparr>)"

definition project_pareto_rows :: "proposal_record list \<Rightarrow> 'b evaluation_attestation list \<Rightarrow> pareto_row list" where
  "project_pareto_rows = join_evidence pareto_row_of"

definition store_pareto :: "string \<Rightarrow> pareto_row \<Rightarrow> stored_pareto" where
  "store_pareto tenant_id r =
     \<lparr>pw_proposal_id = pw_proposal_id r, pw_artifact_digest = pw_artifact_digest r, pw_parent_digest = pw_parent_digest r,
      pw_strategy_id = pw_strategy_id r, pw_campaign_id = pw_campaign_id r, pw_attestation_id = pw_attestation_id r,
      pw_outcome = pw_outcome r, sp_tenant_id = tenant_id,
      sc_tokens = map_of (pa_cost r) ''tokens'', sc_total_tokens = map_of (pa_cost r) ''total_tokens'',
      sc_mean_total_tokens = map_of (pa_cost r) ''mean_total_tokens'', sc_cost_usd = map_of (pa_cost r) ''cost_usd'',
      sc_wall_clock_s = map_of (pa_cost r) ''wall_clock_s'',
      st_task_type = map_of (pa_slices r) ''task_type'', st_difficulty = map_of (pa_slices r) ''difficulty'',
      st_safety_class = map_of (pa_slices r) ''safety_class''\<rparr>"

definition pareto_drift :: "stored_pareto \<Rightarrow> pareto_row \<Rightarrow> string list" where
  "pareto_drift s e =
     pair_drift s e
     @ filter (\<lambda>d. slice_column s d \<noteq> map_of (pa_slices e) d) SLICE_DIMENSIONS
     @ filter (\<lambda>c. cost_column s c \<noteq> map_of (pa_cost e) c) PARETO_COST_COLUMNS"

definition stored_to_row :: "stored_pareto \<Rightarrow> pareto_row" where
  "stored_to_row s =
     \<lparr>pw_proposal_id = pw_proposal_id s, pw_artifact_digest = pw_artifact_digest s, pw_parent_digest = pw_parent_digest s,
      pw_strategy_id = pw_strategy_id s, pw_campaign_id = pw_campaign_id s, pw_attestation_id = pw_attestation_id s,
      pw_outcome = pw_outcome s, pa_slices = column_dict (slice_column s) SLICE_DIMENSIONS,
      pa_cost = column_dict (cost_column s) PARETO_COST_COLUMNS\<rparr>"

section \<open>Slices\<close>

record slice_summary =
  ss_dimension :: string
  ss_value :: string
  ss_attestation_count :: nat
  ss_pass_count :: nat
  ss_success_rate :: "rat option"
  ss_mean_cost :: "(string, rat) dict"

abbreviation slice_key :: "string \<Rightarrow> pareto_row \<Rightarrow> string option" where
  "slice_key dimension r \<equiv> map_of (pa_slices r) dimension"

definition summarize_by_slice :: "pareto_row list \<Rightarrow> string \<Rightarrow> exn + slice_summary list" where
  "summarize_by_slice rows dimension =
     (if dimension \<notin> set SLICE_DIMENSIONS then Inl (ValueError ''unknown slice dimension'')
      else (let counts = tally (slice_key dimension) rows;
                passes = tally (\<lambda>r. if pw_outcome r = ''pass'' then slice_key dimension r else None) rows;
                sums_by_value = sum_costs (slice_key dimension) pa_cost rows
            in Inr (map (\<lambda>v. \<lparr>ss_dimension = dimension, ss_value = v, ss_attestation_count = dict_get counts v 0,
                             ss_pass_count = dict_get passes v 0,
                             ss_success_rate = Some (of_nat (dict_get passes v 0) / of_nat (dict_get counts v 0)),
                             ss_mean_cost = mean_costs (dict_get sums_by_value v []) (dict_get counts v 0)\<rparr>)
                 (sort (map fst counts)))))"

section \<open>Dominance and the frontier\<close>

record artifact_aggregate =
  aa_artifact_digest :: string
  aa_proposal_ids :: "string list"
  aa_attestation_count :: nat
  aa_pass_count :: nat
  aa_mean_cost :: "(string, rat) dict"

definition success_rate :: "artifact_aggregate \<Rightarrow> rat option" where
  "success_rate a =
     (if aa_attestation_count a = 0 then None else Some (of_nat (aa_pass_count a) / of_nat (aa_attestation_count a)))"

definition aggregate_by_artifact :: "pareto_row list \<Rightarrow> artifact_aggregate list" where
  "aggregate_by_artifact rows =
     (let proposals_by_artifact = collect artifact_key pw_proposal_id rows;
          counts = tally artifact_key rows;
          passes = tally (\<lambda>r. if pw_outcome r = ''pass'' then artifact_key r else None) rows;
          sums_by_artifact = sum_costs artifact_key pa_cost rows
      in map (\<lambda>d. \<lparr>aa_artifact_digest = d, aa_proposal_ids = sort (dict_get proposals_by_artifact d []),
                   aa_attestation_count = dict_get counts d 0, aa_pass_count = dict_get passes d 0,
                   aa_mean_cost = mean_costs (dict_get sums_by_artifact d []) (dict_get counts d 0)\<rparr>)
           (sort (map fst proposals_by_artifact)))"

definition mean_cost_of :: "artifact_aggregate \<Rightarrow> string \<Rightarrow> rat" where
  "mean_cost_of a k = dict_get (aa_mean_cost a) k 0"

definition dominates :: "artifact_aggregate \<Rightarrow> artifact_aggregate \<Rightarrow> bool" where
  "dominates a b =
     (case (success_rate a, success_rate b) of
        (Some a_rate, Some b_rate) \<Rightarrow>
          if a_rate < b_rate then False
          else (let shared = filter (\<lambda>k. k \<in> set (map fst (aa_mean_cost b))) (map fst (aa_mean_cost a))
                in list_all (\<lambda>k. mean_cost_of a k \<le> mean_cost_of b k) shared
                   \<and> (b_rate < a_rate \<or> list_ex (\<lambda>k. mean_cost_of a k < mean_cost_of b k) shared))
      | _ \<Rightarrow> False)"

record pareto_entry =
  pe_artifact_digest :: string
  pe_proposal_ids :: "string list"
  pe_attestation_count :: nat
  pe_pass_count :: nat
  pe_success_rate :: "rat option"
  pe_mean_cost :: "(string, rat) dict"
  pe_dominates :: "string list"
  pe_dominated_by :: "string list"

definition on_frontier :: "pareto_entry \<Rightarrow> bool" where
  "on_frontier e \<longleftrightarrow> pe_dominated_by e = []"

definition pareto_entry_of :: "artifact_aggregate list \<Rightarrow> artifact_aggregate \<Rightarrow> pareto_entry" where
  "pareto_entry_of aggregates a =
     (let others = filter (\<lambda>b. aa_artifact_digest b \<noteq> aa_artifact_digest a) aggregates
      in \<lparr>pe_artifact_digest = aa_artifact_digest a, pe_proposal_ids = aa_proposal_ids a,
          pe_attestation_count = aa_attestation_count a, pe_pass_count = aa_pass_count a,
          pe_success_rate = success_rate a, pe_mean_cost = aa_mean_cost a,
          pe_dominates = sort (map aa_artifact_digest (filter (dominates a) others)),
          pe_dominated_by = sort (map aa_artifact_digest (filter (\<lambda>b. dominates b a) others))\<rparr>)"

definition pareto_frontier :: "pareto_row list \<Rightarrow> pareto_entry list" where
  "pareto_frontier rows =
     (let aggregates = aggregate_by_artifact rows in map (pareto_entry_of aggregates) aggregates)"

section \<open>The service\<close>

definition rebuild_pareto :: "string \<Rightarrow> (exn, ('b, stored_pareto) projection_db, nat) op" where
  "rebuild_pareto = rebuild_with pareto_row_of store_pareto"

definition pareto_rows :: "string \<Rightarrow> ('b, stored_pareto) projection_db \<Rightarrow> stored_pareto list" where
  "pareto_rows tenant_id = (\<lambda>(g, table). rows_of tenant_id table)"

definition campaign_rows :: "string \<Rightarrow> string \<Rightarrow> ('b, stored_pareto) projection_db \<Rightarrow> pareto_row list" where
  "campaign_rows tenant_id campaign_id s =
     map stored_to_row (filter (\<lambda>r. pw_campaign_id r = Some campaign_id) (pareto_rows tenant_id s))"

definition campaign_slices ::
  "string \<Rightarrow> string \<Rightarrow> string \<Rightarrow> ('b, stored_pareto) projection_db \<Rightarrow> exn + slice_summary list" where
  "campaign_slices tenant_id campaign_id dimension s = summarize_by_slice (campaign_rows tenant_id campaign_id s) dimension"

definition campaign_frontier :: "string \<Rightarrow> string \<Rightarrow> ('b, stored_pareto) projection_db \<Rightarrow> pareto_entry list" where
  "campaign_frontier tenant_id campaign_id s = pareto_frontier (campaign_rows tenant_id campaign_id s)"

definition reconcile_pareto :: "string \<Rightarrow> ('b, stored_pareto) projection_db \<Rightarrow> drift list" where
  "reconcile_pareto = reconcile_with pareto_row_of pareto_drift"

section \<open>It is a projection\<close>

lemma pareto_columns_stored:
  "c \<in> set PARETO_COST_COLUMNS \<Longrightarrow> cost_column (store_pareto t r) c = map_of (pa_cost r) c"
  "d \<in> set SLICE_DIMENSIONS \<Longrightarrow> slice_column (store_pareto t r) d = map_of (pa_slices r) d"
  by (auto simp: PARETO_COST_COLUMNS_def SLICE_DIMENSIONS_def cost_column_def slice_column_def store_pareto_def)

interpretation archive: projection pareto_row_of store_pareto pareto_drift
proof
  fix t and r :: pareto_row
  show truncate: "pair_row.truncate (store_pareto t r) = pair_row.truncate r"
    by (simp add: store_pareto_def pair_row.truncate_def)
  show "pareto_drift (store_pareto t r) r = []"
    using pair_drift_truncate [OF truncate] by (simp add: pareto_drift_def pareto_columns_stored)
qed (auto simp: pareto_row_of_def pair_of_def pair_row.truncate_def store_pareto_def)

section \<open>Aggregates\<close>

lemma aggregate_digests:
  "map aa_artifact_digest (aggregate_by_artifact rows) = sort (map fst (collect artifact_key pw_proposal_id rows))"
  by (simp add: aggregate_by_artifact_def Let_def comp_def)

lemma distinct_aggregates: "distinct (map aa_artifact_digest (aggregate_by_artifact rows))"
  using dict_ok_group_fold unfolding aggregate_digests by (simp add: collect_def dict_ok_def)

definition aggregate_at :: "pareto_row list \<Rightarrow> string \<Rightarrow> artifact_aggregate" where
  "aggregate_at rows d =
     \<lparr>aa_artifact_digest = d, aa_proposal_ids = sort (dict_get (collect artifact_key pw_proposal_id rows) d []),
      aa_attestation_count = dict_get (tally artifact_key rows) d 0,
      aa_pass_count = dict_get (tally (\<lambda>r. if pw_outcome r = ''pass'' then artifact_key r else None) rows) d 0,
      aa_mean_cost = mean_costs (dict_get (sum_costs artifact_key pa_cost rows) d []) (dict_get (tally artifact_key rows) d 0)\<rparr>"

lemma aggregate_is_at:
  assumes "a \<in> set (aggregate_by_artifact rows)"
  shows "a = aggregate_at rows (aa_artifact_digest a)"
proof -
  have "aggregate_by_artifact rows = map (aggregate_at rows) (sort (map fst (collect artifact_key pw_proposal_id rows)))"
    by (simp only: aggregate_by_artifact_def aggregate_at_def [abs_def] Let_def)
  with assms obtain d where "a = aggregate_at rows d" by auto
  moreover from this have "aa_artifact_digest a = d" by (simp add: aggregate_at_def)
  ultimately show ?thesis by simp
qed

lemma rows_at_artifact:
  "rows_at artifact_key d rows = filter (\<lambda>r. pw_artifact_digest r = d) rows"
  "rows_at (\<lambda>r. if pw_outcome r = ''pass'' then artifact_key r else None) d rows
     = filter (\<lambda>r. pw_outcome r = ''pass'') (filter (\<lambda>r. pw_artifact_digest r = d) rows)"
  unfolding filter_filter by (rule filter_cong; auto)+

lemma aggregate_fields:
  assumes "a \<in> set (aggregate_by_artifact rows)"
  defines "mine \<equiv> filter (\<lambda>r. pw_artifact_digest r = aa_artifact_digest a) rows"
  shows "mine \<noteq> []" "aa_attestation_count a = length mine"
    "aa_pass_count a = length (filter (\<lambda>r. pw_outcome r = ''pass'') mine)"
    "aa_mean_cost a = mean_costs (dict_get (sum_costs artifact_key pa_cost rows) (aa_artifact_digest a) []) (length mine)"
proof -
  have "aa_artifact_digest a \<in> set (map aa_artifact_digest (aggregate_by_artifact rows))" using assms(1) by simp
  then have "aa_artifact_digest a \<in> set (map fst (collect artifact_key pw_proposal_id rows))"
    unfolding aggregate_digests set_sort .
  then show "mine \<noteq> []" by (simp only: collect_def keys_group_fold mine_def rows_at_artifact mem_Collect_eq not_False_eq_True)
  note at = arg_cong [OF aggregate_is_at [OF assms(1)]]
  have count: "dict_get (tally artifact_key rows) (aa_artifact_digest a) 0 = length mine"
    unfolding tally_get rows_at_artifact mine_def ..
  show "aa_attestation_count a = length mine"
    by (subst at [of aa_attestation_count]) (simp only: aggregate_at_def artifact_aggregate.select_convs count)
  show "aa_pass_count a = length (filter (\<lambda>r. pw_outcome r = ''pass'') mine)"
    by (subst at [of aa_pass_count]) (simp only: aggregate_at_def artifact_aggregate.select_convs tally_get rows_at_artifact mine_def)
  show "aa_mean_cost a = mean_costs (dict_get (sum_costs artifact_key pa_cost rows) (aa_artifact_digest a) []) (length mine)"
    by (subst at [of aa_mean_cost]) (simp only: aggregate_at_def artifact_aggregate.select_convs count)
qed

lemma aggregate_rate:
  "a \<in> set (aggregate_by_artifact rows) \<Longrightarrow> \<exists>q. success_rate a = Some q"
  using aggregate_fields(1,2) [of a rows] by (auto simp: success_rate_def)

text \<open>The mean cost the archive compares divides what was attested by the number of all attestations of the
  artifact: an attestation without the metric counts as cost zero, although a missing cost is documented as
  never attested. Adding an attestation that reports nothing lowers every mean, and with it decides dominance.\<close>

theorem unattested_costs_count_as_zero:
  assumes "\<forall>r \<in> set rows. dict_ok (pa_cost r)"
    and "a \<in> set (aggregate_by_artifact rows)" "map_of (aa_mean_cost a) m = Some q"
  defines "mine \<equiv> filter (\<lambda>r. pw_artifact_digest r = aa_artifact_digest a) rows"
  shows "q = sum_list (map (\<lambda>r. dict_get (pa_cost r) m 0) mine) / of_nat (length mine)"
proof -
  have "map_of (aa_mean_cost a) m = map_option (\<lambda>t. t / of_nat (length mine))
      (map_of (dict_get (sum_costs artifact_key pa_cost rows) (aa_artifact_digest a) []) m)"
    using aggregate_fields(4) [OF assms(2)] by (simp add: map_of_mean_costs dict_ok_sum_costs mine_def)
  moreover have "rows_at artifact_key (aa_artifact_digest a) rows = mine" by (simp add: mine_def)
  ultimately show ?thesis using assms(3) by (auto simp: sum_costs_get [OF assms(1)] split: if_splits)
qed

definition demo_row :: "string \<Rightarrow> string \<Rightarrow> string \<Rightarrow> (string, rat) dict \<Rightarrow> pareto_row" where
  "demo_row proposal artifact attestation cost =
     \<lparr>pw_proposal_id = proposal, pw_artifact_digest = artifact, pw_parent_digest = None, pw_strategy_id = ''s'',
      pw_campaign_id = Some ''c'', pw_attestation_id = attestation, pw_outcome = ''pass'', pa_slices = [], pa_cost = cost\<rparr>"

text \<open>Measured once at 10 and once not at all, \<open>x\<close> has mean 5 and dominates \<open>y\<close>, measured at 8.\<close>

lemma unattested_costs_witness:
  "\<exists>a b. {a, b} \<subseteq> set (aggregate_by_artifact [demo_row ''p'' ''x'' ''1'' [(''tokens'', 10)], demo_row ''p'' ''x'' ''2'' [],
        demo_row ''q'' ''y'' ''3'' [(''tokens'', 8)]])
     \<and> aa_artifact_digest a = ''x'' \<and> mean_cost_of a ''tokens'' = (10 + 0) / 2 \<and> dominates a b"
proof -
  let ?rows = "[demo_row ''p'' ''x'' ''1'' [(''tokens'', 10)], demo_row ''p'' ''x'' ''2'' [],
        demo_row ''q'' ''y'' ''3'' [(''tokens'', 8)]]"
  let ?a = "aggregate_by_artifact ?rows ! 0" and ?b = "aggregate_by_artifact ?rows ! 1"
  have two: "length (aggregate_by_artifact ?rows) = 2" "aa_artifact_digest ?a = ''x''" "dominates ?a ?b"
    "map_of (aa_mean_cost ?a) ''tokens'' = Some (mean_cost_of ?a ''tokens'')" by code_simp+
  then have members: "?a \<in> set (aggregate_by_artifact ?rows)" "?b \<in> set (aggregate_by_artifact ?rows)" by auto
  have "\<forall>r \<in> set ?rows. dict_ok (pa_cost r)" by (simp add: demo_row_def dict_ok_def)
  from unattested_costs_count_as_zero [OF this members(1) two(4)] two(2)
  have "mean_cost_of ?a ''tokens'' = (10 + 0) / 2" by (simp add: demo_row_def dict_get_def)
  with two members show ?thesis by blast
qed

section \<open>The frontier\<close>

lemma dominates_irrefl: "\<not> dominates a a"
  by (auto simp: dominates_def Let_def list_ex_iff split: option.splits)

lemma dominates_iff:
  "dominates a b \<longleftrightarrow>
     (\<exists>x y. success_rate a = Some x \<and> success_rate b = Some y \<and> y \<le> x
        \<and> (\<forall>k. k \<in> set (map fst (aa_mean_cost a)) \<inter> set (map fst (aa_mean_cost b)) \<longrightarrow> mean_cost_of a k \<le> mean_cost_of b k)
        \<and> (y < x \<or> (\<exists>k. k \<in> set (map fst (aa_mean_cost a)) \<inter> set (map fst (aa_mean_cost b)) \<and> mean_cost_of a k < mean_cost_of b k)))"
  by (auto simp: dominates_def Let_def list_all_iff list_ex_iff not_less simp del: set_map split: option.splits)

text \<open>Between aggregates that attest the same metrics dominance is transitive.\<close>

lemma dominates_trans:
  assumes "dominates a b" "dominates b c"
    and "set (map fst (aa_mean_cost a)) = M" "set (map fst (aa_mean_cost b)) = M" "set (map fst (aa_mean_cost c)) = M"
  shows "dominates a c"
proof -
  from assms(1) obtain x y where ab: "success_rate a = Some x" "success_rate b = Some y" "y \<le> x"
      "\<And>k. k \<in> M \<Longrightarrow> mean_cost_of a k \<le> mean_cost_of b k"
      "y < x \<or> (\<exists>k. k \<in> M \<and> mean_cost_of a k < mean_cost_of b k)"
    unfolding dominates_iff assms(3,4) by auto
  from assms(2) ab(2) obtain z where bc: "success_rate c = Some z" "z \<le> y"
      "\<And>k. k \<in> M \<Longrightarrow> mean_cost_of b k \<le> mean_cost_of c k"
      "z < y \<or> (\<exists>k. k \<in> M \<and> mean_cost_of b k < mean_cost_of c k)"
    unfolding dominates_iff assms(4,5) by auto
  have "z \<le> x" using ab(3) bc(2) by simp
  moreover have "mean_cost_of a k \<le> mean_cost_of c k" if "k \<in> M" for k
    using ab(4) [OF that] bc(3) [OF that] by (rule order_trans)
  moreover have "z < x \<or> (\<exists>k. k \<in> M \<and> mean_cost_of a k < mean_cost_of c k)"
    using ab(3,5) bc(2,4) order_less_le_trans [OF _ bc(3)] order_le_less_trans [OF ab(4)] by fastforce
  ultimately show ?thesis using ab(1) bc(1) unfolding dominates_iff assms(3,5) by auto
qed

lemma pareto_entries:
  "e \<in> set (pareto_frontier rows) \<longleftrightarrow>
     (\<exists>a. a \<in> set (aggregate_by_artifact rows) \<and> e = pareto_entry_of (aggregate_by_artifact rows) a)"
  by (auto simp: pareto_frontier_def Let_def)

lemma dominated_by_iff:
  assumes "a \<in> set (aggregate_by_artifact rows)"
  shows "d \<in> set (pe_dominated_by (pareto_entry_of (aggregate_by_artifact rows) a)) \<longleftrightarrow>
    (\<exists>b. b \<in> set (aggregate_by_artifact rows) \<and> aa_artifact_digest b = d \<and> dominates b a)"
proof -
  have "aa_artifact_digest b \<noteq> aa_artifact_digest a"
    if "b \<in> set (aggregate_by_artifact rows)" "dominates b a" for b
    using that assms dominates_irrefl [of a] distinct_aggregates [of rows] by (auto simp: distinct_map inj_on_def)
  then show ?thesis by (auto simp: pareto_entry_of_def Let_def)
qed

lemma dominators_shrink:
  assumes "finite A" "a \<in> A" "\<And>x y z. x \<in> A \<Longrightarrow> y \<in> A \<Longrightarrow> z \<in> A \<Longrightarrow> D x y \<Longrightarrow> D y z \<Longrightarrow> D x z" "\<And>x. \<not> D x x"
  shows "(\<forall>b \<in> A. \<not> D b a) \<or> (\<exists>b \<in> A. D b a \<and> (\<forall>c \<in> A. \<not> D c b))"
  using assms(2)
proof (induction "card {b \<in> A. D b a}" arbitrary: a rule: less_induct)
  case less
  show ?case
  proof (cases "\<exists>b \<in> A. D b a")
    case True
    then obtain b where b: "b \<in> A" "D b a" by blast
    have "{c \<in> A. D c b} \<subset> {c \<in> A. D c a}"
      using assms(3) [OF _ b(1) less.prems _ b(2)] assms(4) b by blast
    from less.hyps [OF psubset_card_mono [OF _ this] b(1)] assms(1) b assms(3) [OF _ b(1) less.prems _ b(2)]
    show ?thesis by auto
  qed blast
qed

text \<open>When the artifacts of the archive attest the same cost metrics, the frontier covers the archive: every artifact
  is on the frontier or dominated by an artifact that is. In particular a non-empty archive has a frontier.\<close>

theorem frontier_covers_the_archive:
  assumes "e \<in> set (pareto_frontier rows)" "\<forall>f \<in> set (pareto_frontier rows). set (map fst (pe_mean_cost f)) = M"
  shows "on_frontier e \<or> (\<exists>f. f \<in> set (pareto_frontier rows) \<and> on_frontier f \<and> pe_artifact_digest f \<in> set (pe_dominated_by e))"
proof -
  let ?as = "aggregate_by_artifact rows"
  obtain a where a: "a \<in> set ?as" "e = pareto_entry_of ?as a" using assms(1) by (auto simp: pareto_entries)
  have metrics: "set (map fst (aa_mean_cost x)) = M" if "x \<in> set ?as" for x
    using assms(2) that by (auto simp: pareto_frontier_def Let_def pareto_entry_of_def)
  have frontier: "on_frontier (pareto_entry_of ?as x) \<longleftrightarrow> (\<forall>b \<in> set ?as. \<not> dominates b x)" if "x \<in> set ?as" for x
  proof -
    have "on_frontier (pareto_entry_of ?as x) \<longleftrightarrow> (\<forall>d. d \<notin> set (pe_dominated_by (pareto_entry_of ?as x)))"
      by (simp add: on_frontier_def)
    then show ?thesis unfolding dominated_by_iff [OF that] by blast
  qed
  have "(\<forall>b \<in> set ?as. \<not> dominates b a) \<or> (\<exists>b \<in> set ?as. dominates b a \<and> (\<forall>c \<in> set ?as. \<not> dominates c b))"
    by (rule dominators_shrink [OF _ a(1)]) (simp_all add: dominates_irrefl dominates_trans [OF _ _ metrics metrics metrics])
  then consider "\<forall>b \<in> set ?as. \<not> dominates b a"
    | b where "b \<in> set ?as" "dominates b a" "\<forall>c \<in> set ?as. \<not> dominates c b" by blast
  then show ?thesis
  proof cases
    case 1
    with frontier [OF a(1)] a(2) show ?thesis by simp
  next
    case 2
    have "aa_artifact_digest b \<in> set (pe_dominated_by e)" using dominated_by_iff [OF a(1)] 2(1,2) a(2) by blast
    moreover have "pe_artifact_digest (pareto_entry_of ?as b) = aa_artifact_digest b"
      by (simp add: pareto_entry_of_def Let_def)
    ultimately show ?thesis using frontier [OF 2(1)] 2(1,3) by (metis pareto_entries)
  qed
qed

lemma frontier_covers_witness:
  "\<exists>e f. {e, f} \<subseteq> set (pareto_frontier [demo_row ''p'' ''x'' ''1'' [(''tokens'', 10)], demo_row ''q'' ''y'' ''2'' [(''tokens'', 8)]])
     \<and> \<not> on_frontier e \<and> on_frontier f \<and> pe_artifact_digest f \<in> set (pe_dominated_by e)"
proof -
  let ?rows = "[demo_row ''p'' ''x'' ''1'' [(''tokens'', 10)], demo_row ''q'' ''y'' ''2'' [(''tokens'', 8)]]"
  let ?e = "pareto_frontier ?rows ! 0"
  have "length (pareto_frontier ?rows) = 2" "\<not> on_frontier ?e"
    "list_all (\<lambda>f. set (map fst (pe_mean_cost f)) = {''tokens''}) (pareto_frontier ?rows)" by code_simp+
  then show ?thesis
    using frontier_covers_the_archive [of ?e ?rows "{''tokens''}"] nth_mem [of 0 "pareto_frontier ?rows"]
    by (auto simp only: list_all_iff insert_subset empty_subsetI simp_thms) (metis zero_less_numeral)
qed

text \<open>Without that the frontier can be empty. Metrics attested for only one side are not compared, so dominance
  is not transitive: three artifacts with the same success rate dominate each other in a circle, and a
  non-empty archive has no artifact that is dominated by nothing.\<close>

theorem frontier_can_be_empty:
  "\<exists>rows. pareto_frontier rows \<noteq> [] \<and> filter on_frontier (pareto_frontier rows) = []"
proof -
  let ?rows = "[demo_row ''p'' ''x'' ''1'' [(''tokens'', 1), (''cost_usd'', 2)],
                demo_row ''q'' ''y'' ''2'' [(''tokens'', 2), (''wall_clock_s'', 1)],
                demo_row ''r'' ''z'' ''3'' [(''wall_clock_s'', 2), (''cost_usd'', 1)]]"
  have "pareto_frontier ?rows \<noteq> []" "filter on_frontier (pareto_frontier ?rows) = []" by code_simp+
  then show ?thesis by blast
qed

section \<open>The table gives what the evidence gives\<close>

abbreviation through_columns :: "string \<Rightarrow> pareto_row \<Rightarrow> pareto_row" where
  "through_columns t r \<equiv> stored_to_row (store_pareto t r)"

lemma through_columns_pair:
  "pw_artifact_digest (through_columns t r) = pw_artifact_digest r" "pw_proposal_id (through_columns t r) = pw_proposal_id r"
  "pw_outcome (through_columns t r) = pw_outcome r" "pw_campaign_id (store_pareto t r) = pw_campaign_id r"
  by (simp_all add: stored_to_row_def store_pareto_def)

lemma pareto_columns_are_the_vocabulary: "set PARETO_COST_COLUMNS = set COST_METRIC_KEYS" "distinct PARETO_COST_COLUMNS"
  by (simp_all add: PARETO_COST_COLUMNS_def COST_METRIC_KEYS_def)

lemma pareto_evidence_costs:
  assumes "metrics_ok g" "r \<in> set (tenant_evidence pareto_row_of t g)"
  shows "dict_ok (pa_cost r)" "\<And>c. c \<notin> set COST_METRIC_KEYS \<Longrightarrow> map_of (pa_cost r) c = None"
  using assms by (auto simp: tenant_evidence_def set_join pareto_row_of_def metrics_ok_def list_all_iff
      dict_ok_numeric numeric_column)

lemma through_columns_costs:
  assumes "metrics_ok g" "r \<in> set (tenant_evidence pareto_row_of t g)"
  shows "same_costs artifact_key pa_cost artifact_key pa_cost (through_columns t r) r"
proof -
  have cost: "pa_cost (through_columns t r) = column_dict (cost_column (store_pareto t r)) PARETO_COST_COLUMNS"
    by (simp add: stored_to_row_def)
  have "map_of (pa_cost (through_columns t r)) c = map_of (pa_cost r) c" for c
    unfolding cost map_of_column_dict
    using pareto_evidence_costs(2) [OF assms, of c] pareto_columns_stored(1) [of c t r] pareto_columns_are_the_vocabulary(1) by auto
  then show ?thesis
    using pareto_evidence_costs(1) [OF assms] dict_ok_column_dict [OF pareto_columns_are_the_vocabulary(2)]
    by (simp add: same_costs_def cost through_columns_pair fun_eq_iff)
qed

lemma frontier_through_columns:
  assumes "metrics_ok g" "set rows \<subseteq> set (tenant_evidence pareto_row_of t g)"
  shows "pareto_frontier (map (through_columns t) rows) = pareto_frontier rows"
proof -
  have means: "mean_costs (dict_get (sum_costs artifact_key pa_cost (map (through_columns t) rows)) k []) n
      = mean_costs (dict_get (sum_costs artifact_key pa_cost rows) k []) n" for k n
    using assms by (intro mean_sum_costs_map) (auto intro: through_columns_costs)
  have "aggregate_by_artifact (map (through_columns t) rows) = aggregate_by_artifact rows"
    by (simp only: aggregate_by_artifact_def Let_def means tally_map collect_map comp_def through_columns_pair)
  then show ?thesis by (simp only: pareto_frontier_def)
qed

text \<open>C17: The archive can be rebuilt from the evidence at any time. After any registry calls a rebuild succeeds, writes one row
  per proposal and attestation, reconciles, leaves every other tenant's rows alone, and the frontier read
  through the stored columns is the frontier of the evidence itself.\<close>

theorem rebuilt_archive_is_the_evidence:
  assumes "crypto_laws C" "key_laws K" "g = run_calls (do_registry_call C K) cs empty_registry" "metrics_ok g"
  shows "\<exists>table'. rebuild_pareto t (g, table) = (Inr (length (tenant_evidence pareto_row_of t g)), (g, table'))
    \<and> reconcile_pareto t (g, table') = []
    \<and> campaign_frontier t c (g, table')
        = pareto_frontier (filter (\<lambda>r. pw_campaign_id r = Some c) (tenant_evidence pareto_row_of t g))
    \<and> (\<forall>t'. t' \<noteq> t \<longrightarrow> pareto_rows t' (g, table') = pareto_rows t' (g, table))"
proof -
  have "registry_ok C K g" "evidence_ids_ok g"
    using registry_run_ok [OF assms(1,2), of cs] evidence_ids_run [of C K cs] assms(3) by simp_all
  from archive.rebuild_spec [OF this, of t table] obtain table' where
    run: "rebuild_with pareto_row_of store_pareto t (g, table) = (Inr (length (tenant_evidence pareto_row_of t g)), (g, table'))"
    and clean: "reconcile_with pareto_row_of pareto_drift t (g, table') = []"
    and rows: "rows_of t table' = map (store_pareto t) (tenant_evidence pareto_row_of t g)"
    and others: "\<forall>t'. t' \<noteq> t \<longrightarrow> rows_of t' table' = rows_of t' table" by blast
  let ?mine = "filter (\<lambda>r. pw_campaign_id r = Some c) (tenant_evidence pareto_row_of t g)"
  have "campaign_rows t c (g, table') = map (through_columns t) ?mine"
    by (simp add: campaign_rows_def pareto_rows_def rows filter_map comp_def through_columns_pair(4))
  then have "campaign_frontier t c (g, table') = pareto_frontier ?mine"
    using frontier_through_columns [OF assms(4), of ?mine t] by (simp add: campaign_frontier_def)
  with run clean others show ?thesis by (simp add: rebuild_pareto_def reconcile_pareto_def pareto_rows_def)
qed

definition demo_archive_calls :: "(string, nat, json) registry_call list" where
  "demo_archive_calls = [demo_register ''x'' [], Propose ''p'' ''acme'' ''sha256:x'' ''s'' None (Some ''c'') None,
     Attest ''a'' ''acme'' \<lparr>wid_role = EVALUATOR, wid_subject = ''ev''\<rparr> ''sha256:x'' ''pass'' [(''tokens'', JInt 7)] ''sha256:0'' ''k'']"

lemma rebuilt_archive_witness:
  "\<exists>table'. rebuild_pareto ''acme'' (demo_registry demo_archive_calls, []) = (Inr 1, (demo_registry demo_archive_calls, table'))
    \<and> map pe_artifact_digest (campaign_frontier ''acme'' ''c'' (demo_registry demo_archive_calls, table')) = [''sha256:x'']"
proof -
  let ?g = "demo_registry demo_archive_calls"
  have "metrics_ok ?g" "length (tenant_evidence pareto_row_of ''acme'' ?g) = 1"
    "map pe_artifact_digest (pareto_frontier (filter (\<lambda>r. pw_campaign_id r = Some ''c'') (tenant_evidence pareto_row_of ''acme'' ?g)))
       = [''sha256:x'']"
    by code_simp+
  with rebuilt_archive_is_the_evidence [OF demo_crypto_laws demo_key_laws refl this(1), of "''acme''" "[]" "''c''"]
  show ?thesis by auto
qed

text \<open>A table that holds every row twice (two rebuilds whose transactions overlapped) reconciles all the same.\<close>

lemma reconcile_is_blind_to_duplicates:
  assumes "reconcile_pareto t (g, table) = []" "distinct (map pair_key (rows_of t table))"
  shows "reconcile_pareto t (g, table @ table) = []"
proof -
  let ?rows = "rows_of t table" and ?twice = "rows_of t (table @ table)" and ?expected = "tenant_evidence pareto_row_of t g"
  have same: "set ?twice = set ?rows" by (auto simp: rows_of_def)
  have nil: "row_diffs pareto_drift ?rows ?expected = []" using assms(1) by (simp add: reconcile_pareto_def reconcile_with_def)
  have "by_key ?twice k = by_key ?rows k" for k
  proof (cases "by_key ?twice k")
    case None
    then have "k \<notin> pair_key ` set ?rows" using same by (simp only: by_key_None not_False_eq_True)
    then have "by_key ?rows k = None" by (rule by_key_None [THEN iffD2])
    with None show ?thesis by simp
  next
    case (Some s)
    with by_key_Some [OF Some] by_key_unique [OF assms(2), of s] same show ?thesis by auto
  qed
  moreover have "pair_key ` set ?twice = pair_key ` set ?rows" unfolding same ..
  ultimately show ?thesis
    using nil by (simp add: reconcile_pareto_def reconcile_with_def row_diffs_Nil)
qed

end
