(* ===== verification/Approvals.thy ===== *)
theory Approvals
  imports Registry Tenancy Authority Compensation Holdout
begin

text \<open>
  The review board (\<^verbatim>\<open>api/approvals.py\<close>, \<^verbatim>\<open>db/models/approvals.py\<close>) and the privileged-admission gate it
  delegates to (\<^verbatim>\<open>plugins/privileged.py\<close>): requests, decisions by verified callers, the status that is a projection
  of them, admission with its signed record, and the compensation plans recorded beside them. A view is the row
  it is built from.
\<close>

section \<open>The privileged-admission gate\<close>

definition PRIVILEGED_ROLES :: "string list" where
  "PRIVILEGED_ROLES = [''adapter'', ''evaluator'']"

text \<open>\<^verbatim>\<open>^sha256:[0-9a-f]{64}$\<close>: \<^verbatim>\<open>$\<close> also matches before a final newline.\<close>

definition content_digest_shape :: "string \<Rightarrow> bool" where
  "content_digest_shape s \<longleftrightarrow>
     (let t = (if s \<noteq> [] \<and> last s = CHR 0x0A then butlast s else s)
      in take 7 t = ''sha256:'' \<and> length t = 71 \<and> list_all hex_digit (drop 7 t))"

definition validation_error :: exn where
  "validation_error = ValueError ''ValidationError''"

record pinned_version =
  pv_plugin_id :: string
  pv_digest :: string

definition new_pinned_version :: "string \<Rightarrow> string \<Rightarrow> exn + pinned_version" where
  "new_pinned_version plugin_id digest =
     (if plugin_id = [] \<or> \<not> content_digest_shape digest then Inl validation_error
      else Inr \<lparr>pv_plugin_id = plugin_id, pv_digest = digest\<rparr>)"

record approval_record =
  av_approver :: string
  av_approver_role :: string
  av_note :: string

definition new_approval_record :: "string \<Rightarrow> string \<Rightarrow> string \<Rightarrow> exn + approval_record" where
  "new_approval_record approver approver_role note =
     (if approver = [] \<or> approver_role = [] then Inl validation_error
      else Inr \<lparr>av_approver = approver, av_approver_role = approver_role, av_note = note\<rparr>)"

record admission_request =
  aq_pinned :: pinned_version
  aq_privileged_role :: string
  aq_requested_by :: string
  aq_justification :: string

definition new_admission_request :: "pinned_version \<Rightarrow> string \<Rightarrow> string \<Rightarrow> string \<Rightarrow> exn + admission_request" where
  "new_admission_request pinned role requested_by justification =
     (if role \<notin> set PRIVILEGED_ROLES then Inl (ValueError ''PrivilegedRole'')
      else if requested_by = [] \<or> justification = [] then Inl validation_error
      else Inr \<lparr>aq_pinned = pinned, aq_privileged_role = role, aq_requested_by = requested_by,
                aq_justification = justification\<rparr>)"

definition pinned_json :: "pinned_version \<Rightarrow> json" where
  "pinned_json p = JObj [(''plugin_id'', JStr (pv_plugin_id p)), (''digest'', JStr (pv_digest p))]"

definition approval_json :: "approval_record \<Rightarrow> json" where
  "approval_json a = JObj [(''approver'', JStr (av_approver a)), (''approver_role'', JStr (av_approver_role a)),
     (''note'', JStr (av_note a))]"

text \<open>\<^verbatim>\<open>model_dump_json\<close> writes the fields in their declared order.\<close>

definition request_digest :: "('k, 'b) crypto \<Rightarrow> admission_request \<Rightarrow> string" where
  "request_digest C r =
     sha256_digest C (cr_dumps C (JObj
       [(''pinned'', pinned_json (aq_pinned r)), (''privileged_role'', JStr (aq_privileged_role r)),
        (''requested_by'', JStr (aq_requested_by r)), (''justification'', JStr (aq_justification r))]))"

text \<open>The signed record; the two base64 fields are the bytes they encode.\<close>

record 'b signed_admission =
  sa_record_id :: string
  sa_request_digest :: string
  sa_decision :: string
  sa_admitted_version :: pinned_version
  sa_privileged_role :: string
  sa_approvals :: "approval_record list"
  sa_signature :: 'b
  sa_public_key :: 'b

definition admission_body ::
  "string \<Rightarrow> string option \<Rightarrow> string \<Rightarrow> json \<Rightarrow> string option \<Rightarrow> approval_record list \<Rightarrow> json" where
  "admission_body record_id rdigest decision version role approvals = JObj
     [(''record_id'', JStr record_id), (''request_digest'', json_opt_str rdigest), (''decision'', JStr decision),
      (''admitted_version'', version), (''privileged_role'', json_opt_str role),
      (''approvals'', JList (map approval_json approvals))]"

definition denied :: "string \<Rightarrow> exn" where
  "denied reason = Api (ApprovalDeniedError reason)"

text \<open>The gate raises \<^verbatim>\<open>PrivilegedAdmissionDeniedError(reason)\<close>; its only caller here turns it into
  \<^verbatim>\<open>ApprovalDeniedError(reason)\<close>, so the reason is all that is kept.\<close>

definition admit_privileged ::
  "('k, 'b) crypto \<Rightarrow> admission_request \<Rightarrow> approval_record list \<Rightarrow> workload_identity \<Rightarrow> 'k
     \<Rightarrow> exn + 'b signed_admission" where
  "admit_privileged C request approvals signer private_key =
     res_bind (require_evaluator_key_access signer) (\<lambda>_.
       case approvals of
         [first, second] \<Rightarrow>
           if casefold (av_approver first) = casefold (av_approver second) then Inl (denied ''duplicate_approver'')
           else if \<exists>a \<in> set [first, second]. casefold (av_approver a) = casefold (aq_requested_by request)
             then Inl (denied ''self_approval'')
           else (let record_id = ''adm-'' @ take 23 (request_digest C request);
                     body = canonical_json C (admission_body record_id (Some (request_digest C request)) ''admitted''
                              (pinned_json (aq_pinned request)) (Some (aq_privileged_role request)) [first, second]);
                     detached = sign C private_key body
                 in Inr \<lparr>sa_record_id = record_id, sa_request_digest = request_digest C request,
                         sa_decision = ''admitted'', sa_admitted_version = aq_pinned request,
                         sa_privileged_role = aq_privileged_role request, sa_approvals = [first, second],
                         sa_signature = ds_signature detached, sa_public_key = ds_public_key detached\<rparr>)
       | _ \<Rightarrow> Inl (denied ''insufficient_approvals''))"

definition verify_admission_record :: "('k, 'b) crypto \<Rightarrow> 'b signed_admission \<Rightarrow> bool" where
  "verify_admission_record C r =
     verify C \<lparr>ds_signature = sa_signature r, ds_public_key = sa_public_key r\<rparr>
       (canonical_json C (admission_body (sa_record_id r) (Some (sa_request_digest r)) (sa_decision r)
         (pinned_json (sa_admitted_version r)) (Some (sa_privileged_role r)) (sa_approvals r)))"

section \<open>The tables\<close>

definition REQUEST_KINDS :: "string list" where
  "REQUEST_KINDS = [''privileged_admission'', ''tier3_promotion'', ''tier4_promotion'']"

definition PROMOTION_REQUEST_KINDS :: "string list" where
  "PROMOTION_REQUEST_KINDS = [''tier3_promotion'', ''tier4_promotion'']"

definition DECISION_KINDS :: "string list" where
  "DECISION_KINDS = [''approve'', ''reject'']"

record approval_request =
  ar_tenant_id :: string
  ar_request_id :: string
  ar_kind :: string
  ar_campaign_id :: "string option"
  ar_proposal_id :: "string option"
  ar_plugin_id :: "string option"
  ar_content_digest :: "string option"
  ar_privileged_role :: "string option"
  ar_tier :: nat
  ar_justification :: string
  ar_requested_by :: string
  ar_human_signoff :: bool
  ar_manually_initiated :: bool
  ar_status :: string
  ar_created_at :: instant

record approval_decision =
  ad_tenant_id :: string
  ad_decision_id :: string
  ad_request_id :: string
  ad_decision :: string
  ad_approver :: string
  ad_approver_role :: string
  ad_note :: string
  ad_created_at :: instant

record 'b admission_row =
  aw_tenant_id :: string
  aw_record_id :: string
  aw_request_id :: string
  aw_kind :: string
  aw_decision :: string
  aw_plugin_id :: "string option"
  aw_content_digest :: "string option"
  aw_privileged_role :: "string option"
  aw_proposal_digest :: "string option"
  aw_tier :: nat
  aw_requested_by :: string
  aw_request_digest :: "string option"
  aw_approvals :: "approval_record list"
  aw_signature :: 'b
  aw_signer_public_key :: 'b
  aw_created_at :: instant

record 'b plan_row =
  pl_tenant_id :: string
  pl_plan :: "'b signed_plan"
  pl_created_at :: instant

record 'b approvals_db =
  ap_registry :: "'b registry_db"
  ap_requests :: "approval_request list"
  ap_decisions :: "approval_decision list"
  ap_admissions :: "'b admission_row list"
  ap_plans :: "'b plan_row list"

definition empty_approvals :: "'b registry_db \<Rightarrow> 'b approvals_db" where
  "empty_approvals g = \<lparr>ap_registry = g, ap_requests = [], ap_decisions = [], ap_admissions = [], ap_plans = []\<rparr>"

record ('k, 'b) approval_service =
  sv_crypto :: "('k, 'b) crypto"
  sv_signing_key :: 'k
  sv_evaluator_subject :: string
  sv_tenant_policies :: tenant_registry
  sv_str_of :: "json \<Rightarrow> string"

section \<open>Lookups\<close>

definition require_request :: "string \<Rightarrow> string \<Rightarrow> 'b approvals_db \<Rightarrow> exn + approval_request" where
  "require_request tenant_id request_id s =
     res_bind (one_or_none (filter (\<lambda>r. ar_tenant_id r = tenant_id \<and> ar_request_id r = request_id) (ap_requests s)))
       (\<lambda>row. case row of None \<Rightarrow> Inl (Api (ApprovalRequestNotFoundError request_id)) | Some r \<Rightarrow> Inr r)"

definition require_proposal :: "string \<Rightarrow> string \<Rightarrow> string \<Rightarrow> 'b approvals_db \<Rightarrow> exn + proposal_record" where
  "require_proposal tenant_id campaign_id proposal_id s =
     res_bind (one_or_none (filter (\<lambda>p. pr_tenant p = tenant_id \<and> pr_proposal_id p = proposal_id)
                 (rg_proposals (ap_registry s))))
       (\<lambda>row. case row of
          None \<Rightarrow> Inl (Api (ProposalNotFoundError proposal_id))
        | Some p \<Rightarrow> if pr_campaign_id p \<noteq> Some campaign_id
                     then Inl (Api (InvalidSpecError ''candidate does not belong to campaign'')) else Inr p)"

definition require_admission :: "string \<Rightarrow> string \<Rightarrow> 'b approvals_db \<Rightarrow> exn + 'b admission_row" where
  "require_admission tenant_id record_id s =
     res_bind (one_or_none (filter (\<lambda>r. aw_tenant_id r = tenant_id \<and> aw_record_id r = record_id) (ap_admissions s)))
       (\<lambda>row. case row of None \<Rightarrow> Inl (Api (AdmissionRecordNotFoundError record_id)) | Some r \<Rightarrow> Inr r)"

definition request_decisions :: "string \<Rightarrow> string \<Rightarrow> 'b approvals_db \<Rightarrow> approval_decision list" where
  "request_decisions tenant_id request_id s =
     sort_key ad_created_at
       (filter (\<lambda>d. ad_tenant_id d = tenant_id \<and> ad_request_id d = request_id) (ap_decisions s))"

definition rows_where :: "approval_decision list \<Rightarrow> string \<Rightarrow> approval_decision list" where
  "rows_where decisions decision = filter (\<lambda>d. ad_decision d = decision) decisions"

definition decision_by :: "string \<Rightarrow> string \<Rightarrow> string \<Rightarrow> 'b approvals_db \<Rightarrow> exn + approval_decision option" where
  "decision_by tenant_id request_id approver s =
     one_or_none (filter (\<lambda>d. ad_tenant_id d = tenant_id \<and> ad_request_id d = request_id \<and> ad_approver d = approver)
       (ap_decisions s))"

section \<open>Opening a request\<close>

definition invalid_spec :: "string \<Rightarrow> exn" where
  "invalid_spec why = Api (InvalidSpecError why)"

definition PRIVILEGED_ADMISSION_TIER :: nat where
  "PRIVILEGED_ADMISSION_TIER = 3"

definition is_given :: "string option \<Rightarrow> bool" where
  "is_given v = (case v of None \<Rightarrow> False | Some s \<Rightarrow> s \<noteq> [])"

definition require_privileged_target :: "string option \<Rightarrow> string option \<Rightarrow> string option \<Rightarrow> exn + nat" where
  "require_privileged_target plugin_id content_digest privileged_role =
     (case (plugin_id, content_digest, privileged_role) of
        (Some plugin, Some digest, Some role) \<Rightarrow>
          if plugin = [] \<or> digest = [] \<or> role = [] then Inl (invalid_spec ''requires plugin_id, content_digest, and privileged_role'')
          else if role \<notin> set PRIVILEGED_ROLES then Inl (invalid_spec ''privileged_role'')
          else (case new_pinned_version plugin digest of
                  Inl _ \<Rightarrow> Inl (invalid_spec ''content_digest is not a pinned version'')
                | Inr _ \<Rightarrow> Inr PRIVILEGED_ADMISSION_TIER)
      | _ \<Rightarrow> Inl (invalid_spec ''requires plugin_id, content_digest, and privileged_role''))"

definition proposal_tier :: "string \<Rightarrow> string \<Rightarrow> string \<Rightarrow> 'b approvals_db \<Rightarrow> exn + nat" where
  "proposal_tier tenant_id campaign_id proposal_id s =
     res_bind (require_proposal tenant_id campaign_id proposal_id s) (\<lambda>p.
     res_bind (find_artifact tenant_id (pr_proposed_digest p) (ap_registry s)) (\<lambda>artifact.
       case artifact of
         None \<Rightarrow> Inl (Api (ProposalNotFoundError proposal_id))
       | Some a \<Rightarrow>
           (let tier = resolve_authority_tier (plain_release [ac_artifact_type a])
            in if tier \<le> APPROVAL_FREE_MAX_TIER then Inl (invalid_spec ''approval is only for tier-3/4 promotions'')
               else Inr (tier_int tier))))"

definition require_tier4_admissible :: "tenant_registry \<Rightarrow> string \<Rightarrow> nat \<Rightarrow> bool \<Rightarrow> bool \<Rightarrow> exn + unit" where
  "require_tier4_admissible policies tenant_id tier human_signoff manually_initiated =
     (if tier \<noteq> 4 then Inl (invalid_spec ''open a tier3_promotion request'')
      else if (case policy_for policies tenant_id of None \<Rightarrow> True | Some d \<Rightarrow> \<not> allows_tier d 4)
        then Inl (denied ''tier4_environment_refused'')
      else if \<not> (human_signoff \<and> manually_initiated) then Inl (invalid_spec ''full evidence chain'')
      else Inr ())"

text \<open>The tier of a request, or why it cannot be opened.\<close>

definition request_tier ::
  "('k, 'b) approval_service \<Rightarrow> principal \<Rightarrow> string \<Rightarrow> string option \<Rightarrow> string option \<Rightarrow> string option \<Rightarrow> string option
     \<Rightarrow> string option \<Rightarrow> bool \<Rightarrow> bool \<Rightarrow> 'b approvals_db \<Rightarrow> exn + nat" where
  "request_tier V p kind campaign_id proposal_id plugin_id content_digest privileged_role human_signoff
       manually_initiated s =
     (if kind = ''privileged_admission'' then
        if human_signoff \<or> manually_initiated then Inl (invalid_spec ''tier-4 evidence legs'')
        else res_bind (require_privileged_target plugin_id content_digest privileged_role) (\<lambda>tier.
          if campaign_id \<noteq> None \<or> proposal_id \<noteq> None
          then Inl (invalid_spec ''does not target a campaign candidate'') else Inr tier)
      else if plugin_id \<noteq> None \<or> content_digest \<noteq> None \<or> privileged_role \<noteq> None
        then Inl (invalid_spec ''does not target a plugin'')
      else (case (campaign_id, proposal_id) of
          (Some campaign, Some proposal) \<Rightarrow>
            res_bind (proposal_tier (pr_tenant_id p) campaign proposal s) (\<lambda>tier.
              if kind = ''tier4_promotion''
              then res_bind (require_tier4_admissible (sv_tenant_policies V) (pr_tenant_id p) tier human_signoff
                     manually_initiated) (\<lambda>_. Inr tier)
              else if human_signoff \<or> manually_initiated then Inl (invalid_spec ''tier-4 evidence legs'')
              else Inr tier)
        | _ \<Rightarrow> Inl (invalid_spec ''requires campaign_id and proposal_id'')))"

definition get_request ::
  "principal \<Rightarrow> string \<Rightarrow> (exn, 'b approvals_db, approval_request \<times> approval_decision list) op" where
  "get_request p request_id =
     transaction (op_bind (op_read (require_request (pr_tenant_id p) request_id)) (\<lambda>r.
       op_gets (\<lambda>s. (r, request_decisions (pr_tenant_id p) request_id s))))"

definition new_request ::
  "principal \<Rightarrow> string \<Rightarrow> instant \<Rightarrow> string \<Rightarrow> string \<Rightarrow> string option \<Rightarrow> string option \<Rightarrow> string option \<Rightarrow> string option
     \<Rightarrow> string option \<Rightarrow> bool \<Rightarrow> bool \<Rightarrow> nat \<Rightarrow> approval_request" where
  "new_request p uid now kind justification campaign_id proposal_id plugin_id content_digest privileged_role human_signoff
       manually_initiated tier =
     \<lparr>ar_tenant_id = pr_tenant_id p, ar_request_id = new_id ''apr'' uid, ar_kind = kind, ar_campaign_id = campaign_id,
      ar_proposal_id = proposal_id, ar_plugin_id = plugin_id, ar_content_digest = content_digest,
      ar_privileged_role = privileged_role, ar_tier = tier, ar_justification = justification,
      ar_requested_by = identity_id p, ar_human_signoff = human_signoff, ar_manually_initiated = manually_initiated,
      ar_status = ''pending'', ar_created_at = now\<rparr>"

definition create_request ::
  "('k, 'b) approval_service \<Rightarrow> principal \<Rightarrow> string \<Rightarrow> instant \<Rightarrow> string \<Rightarrow> string \<Rightarrow> string option \<Rightarrow> string option
     \<Rightarrow> string option \<Rightarrow> string option \<Rightarrow> string option \<Rightarrow> bool \<Rightarrow> bool
     \<Rightarrow> (exn, 'b approvals_db, approval_request \<times> approval_decision list) op" where
  "create_request V p uid now kind justification campaign_id proposal_id plugin_id content_digest privileged_role
       human_signoff manually_initiated =
     (if kind \<notin> set REQUEST_KINDS then op_raise (invalid_spec ''request kind'')
      else if py_blank justification then op_raise (invalid_spec ''justification must be a non-empty rationale'')
      else op_bind (op_read (request_tier V p kind campaign_id proposal_id plugin_id content_digest privileged_role
                      human_signoff manually_initiated)) (\<lambda>tier.
        let r = new_request p uid now kind justification campaign_id proposal_id plugin_id content_digest privileged_role
                  human_signoff manually_initiated tier
        in op_then (transaction
             (op_then (op_require (\<lambda>s. ar_request_id r \<notin> ar_request_id ` set (ap_requests s)) integrity_error)
               (op_modify (\<lambda>s. s\<lparr>ap_requests := ap_requests s @ [r]\<rparr>))))
             (get_request p (ar_request_id r))))"

definition list_requests :: "principal \<Rightarrow> string option \<Rightarrow> 'b approvals_db \<Rightarrow> approval_request list" where
  "list_requests p campaign_id s =
     sort_key ar_created_at (filter (\<lambda>r. ar_tenant_id r = pr_tenant_id p
       \<and> (case campaign_id of None \<Rightarrow> True | Some c \<Rightarrow> ar_campaign_id r = Some c)) (ap_requests s))"

section \<open>Decisions\<close>

fun role_value :: "workload_role \<Rightarrow> string" where
  "role_value EVALUATOR = ''evaluator''" | "role_value CANDIDATE_RUNNER = ''candidate-runner''"
| "role_value RELEASE_CONTROLLER = ''release-controller''"

definition set_status :: "approval_request \<Rightarrow> string \<Rightarrow> 'b approvals_db \<Rightarrow> 'b approvals_db" where
  "set_status request status s =
     s\<lparr>ap_requests := map (\<lambda>r. if ar_request_id r = ar_request_id request then r\<lparr>ar_status := status\<rparr> else r) (ap_requests s)\<rparr>"

definition projected_status :: "approval_decision list \<Rightarrow> string \<Rightarrow> string" where
  "projected_status decisions status =
     (if list_ex (\<lambda>d. ad_decision d = ''reject'') decisions then ''rejected''
      else if 2 \<le> card (set (map (\<lambda>d. casefold (ad_approver d)) (rows_where decisions ''approve''))) then ''approved''
      else status)"

definition project_request_status :: "approval_request \<Rightarrow> (exn, 'b approvals_db, unit) op" where
  "project_request_status request =
     op_modify (\<lambda>s. set_status request
       (projected_status (request_decisions (ar_tenant_id request) (ar_request_id request) s) (ar_status request)) s)"

definition get_decision :: "principal \<Rightarrow> string \<Rightarrow> string \<Rightarrow> (exn, 'b approvals_db, approval_decision) op" where
  "get_decision p request_id approver =
     transaction (op_bind (op_read (require_request (pr_tenant_id p) request_id)) (\<lambda>_.
       op_bind (op_read (decision_by (pr_tenant_id p) request_id approver)) (\<lambda>row.
         case row of None \<Rightarrow> op_raise (Api (ApprovalRequestNotFoundError request_id)) | Some d \<Rightarrow> op_return d)))"

definition new_decision :: "principal \<Rightarrow> string \<Rightarrow> instant \<Rightarrow> string \<Rightarrow> string \<Rightarrow> string \<Rightarrow> approval_decision" where
  "new_decision p uid now request_id decision note =
     \<lparr>ad_tenant_id = pr_tenant_id p, ad_decision_id = new_id ''dec'' uid, ad_request_id = request_id,
      ad_decision = decision, ad_approver = identity_id p, ad_approver_role = role_value (pr_role p), ad_note = note,
      ad_created_at = now\<rparr>"

text \<open>The checks of \<^verbatim>\<open>decide\<close>, in order, and its insert with the table's two uniqueness constraints.\<close>

definition decision_allowed :: "principal \<Rightarrow> string \<Rightarrow> string \<Rightarrow> 'b approvals_db \<Rightarrow> exn + approval_request" where
  "decision_allowed p request_id decision s =
     res_bind (require_request (pr_tenant_id p) request_id s) (\<lambda>request.
       if ar_status request = ''rejected'' \<or> ar_status request = ''admitted'' then Inl (denied ''review_closed'')
       else if decision = ''approve'' \<and> casefold (identity_id p) = casefold (ar_requested_by request)
         then Inl (denied ''self_approval'')
       else res_bind (decision_by (pr_tenant_id p) request_id (identity_id p) s) (\<lambda>existing.
         if existing \<noteq> None then Inl (denied ''duplicate_approver'') else Inr request))"

definition insert_decision :: "approval_decision \<Rightarrow> (exn, 'b approvals_db, unit) op" where
  "insert_decision d =
     op_then (op_require (\<lambda>s. ad_decision_id d \<notin> ad_decision_id ` set (ap_decisions s)
         \<and> (ad_tenant_id d, ad_request_id d, ad_approver d)
             \<notin> (\<lambda>e. (ad_tenant_id e, ad_request_id e, ad_approver e)) ` set (ap_decisions s)) integrity_error)
       (op_modify (\<lambda>s. s\<lparr>ap_decisions := ap_decisions s @ [d]\<rparr>))"

definition decide ::
  "principal \<Rightarrow> string \<Rightarrow> instant \<Rightarrow> string \<Rightarrow> string \<Rightarrow> string \<Rightarrow> (exn, 'b approvals_db, approval_decision) op" where
  "decide p uid now request_id decision note =
     (if decision \<notin> set DECISION_KINDS then op_raise (invalid_spec ''decision'')
      else op_then
        (transaction (op_bind (op_read (decision_allowed p request_id decision)) (\<lambda>request.
           op_then (insert_decision (new_decision p uid now request_id decision note)) (project_request_status request))))
        (get_decision p request_id (identity_id p)))"

section \<open>Admission\<close>

definition promotion_json :: "string \<Rightarrow> string \<Rightarrow> nat \<Rightarrow> string \<Rightarrow> string list \<Rightarrow> string \<Rightarrow> json" where
  "promotion_json request_id proposal_digest tier requested_by approvers kind = JObj
     [(''kind'', JStr kind), (''request_id'', JStr request_id), (''proposal_digest'', JStr proposal_digest),
      (''tier'', JInt (int tier)), (''requested_by'', JStr requested_by), (''approvers'', JList (map JStr (sort approvers)))]"

definition promotion_body ::
  "('k, 'b) crypto \<Rightarrow> string \<Rightarrow> string \<Rightarrow> nat \<Rightarrow> string \<Rightarrow> string list \<Rightarrow> string \<Rightarrow> 'b" where
  "promotion_body C request_id proposal_digest tier requested_by approvers kind =
     canonical_json C (promotion_json request_id proposal_digest tier requested_by approvers kind)"

definition tier_of_int :: "nat \<Rightarrow> exn + authority_tier" where
  "tier_of_int n = (case find (\<lambda>t. tier_int t = n) [TIER_1, TIER_2, TIER_3, TIER_4] of
     None \<Rightarrow> Inl (ValueError ''AuthorityTier'') | Some t \<Rightarrow> Inr t)"

text \<open>\<^verbatim>\<open>str(v)\<close> of a nullable column.\<close>

definition opt_str :: "string option \<Rightarrow> string" where
  "opt_str v = (case v of None \<Rightarrow> ''None'' | Some s \<Rightarrow> s)"

definition admit_request_privileged ::
  "('k, 'b) approval_service \<Rightarrow> approval_request \<Rightarrow> approval_record list \<Rightarrow> exn + 'b signed_admission" where
  "admit_request_privileged V request approvals =
     res_bind (new_pinned_version (opt_str (ar_plugin_id request)) (opt_str (ar_content_digest request))) (\<lambda>pinned.
     res_bind (new_admission_request pinned (opt_str (ar_privileged_role request)) (ar_requested_by request)
                 (ar_justification request)) (\<lambda>admission_request.
       admit_privileged (sv_crypto V) admission_request approvals
         \<lparr>wid_role = EVALUATOR, wid_subject = sv_evaluator_subject V\<rparr> (sv_signing_key V)))"

definition tier_gate :: "approval_request \<Rightarrow> string list \<Rightarrow> exn + unit" where
  "tier_gate request approver_ids =
     res_bind (tier_of_int (ar_tier request)) (\<lambda>tier.
       case assert_phase2_admissible tier (Some \<lparr>ae_approvers = approver_ids, ae_requested_by = Some (ar_requested_by request),
              ae_human_signoff = ar_human_signoff request, ae_manually_initiated = ar_manually_initiated request\<rparr>) of
         Inr u \<Rightarrow> Inr u
       | Inl (Selection (TierRejectedError _ _)) \<Rightarrow> Inl (Api (TierPromotionRefusedError (ar_tier request)))
       | Inl e \<Rightarrow> Inl e)"

definition base_admission ::
  "approval_request \<Rightarrow> instant \<Rightarrow> string \<Rightarrow> string option \<Rightarrow> string option \<Rightarrow> approval_record list \<Rightarrow> 'b \<Rightarrow> 'b \<Rightarrow> 'b admission_row" where
  "base_admission request now record_id proposal_digest rdigest approvals signature public_key =
     \<lparr>aw_tenant_id = ar_tenant_id request, aw_record_id = record_id, aw_request_id = ar_request_id request,
      aw_kind = ar_kind request, aw_decision = ''admitted'', aw_plugin_id = ar_plugin_id request,
      aw_content_digest = ar_content_digest request, aw_privileged_role = ar_privileged_role request,
      aw_proposal_digest = proposal_digest, aw_tier = ar_tier request, aw_requested_by = ar_requested_by request,
      aw_request_digest = rdigest, aw_approvals = approvals, aw_signature = signature,
      aw_signer_public_key = public_key, aw_created_at = now\<rparr>"

text \<open>The record an approved request is due, or the refusal.\<close>

definition admission_record_for ::
  "('k, 'b) approval_service \<Rightarrow> string \<Rightarrow> instant \<Rightarrow> approval_request \<Rightarrow> approval_decision list \<Rightarrow> 'b approvals_db
     \<Rightarrow> exn + 'b admission_row" where
  "admission_record_for V uid now request decisions s =
     res_bind (res_map (\<lambda>d. new_approval_record (ad_approver d) (ad_approver_role d) (ad_note d))
                 (rows_where decisions ''approve'')) (\<lambda>approvals.
       if ar_kind request = ''privileged_admission'' then
         res_bind (admit_request_privileged V request approvals) (\<lambda>signed.
           Inr (base_admission request now (sa_record_id signed) None (Some (sa_request_digest signed)) (sa_approvals signed)
                  (sa_signature signed) (sa_public_key signed)))
       else
         res_bind (require_proposal (ar_tenant_id request) (opt_str (ar_campaign_id request)) (opt_str (ar_proposal_id request)) s)
           (\<lambda>proposal.
         res_bind (tier_gate request (map ad_approver (rows_where decisions ''approve''))) (\<lambda>_.
           let body = promotion_body (sv_crypto V) (ar_request_id request) (pr_proposed_digest proposal) (ar_tier request)
                        (ar_requested_by request) (map ad_approver (rows_where decisions ''approve'')) (ar_kind request);
               detached = sign (sv_crypto V) (sv_signing_key V) body
           in Inr (base_admission request now (new_id ''adm'' uid) (Some (pr_proposed_digest proposal)) None approvals
                     (ds_signature detached) (ds_public_key detached)))))"

definition admission_open :: "approval_request \<Rightarrow> exn + unit" where
  "admission_open request =
     (if ar_status request = ''admitted'' then Inl (denied ''already_admitted'')
      else if ar_status request = ''rejected'' then Inl (denied ''review_rejected'')
      else if ar_status request \<noteq> ''approved'' \<and> ar_kind request = ''tier4_promotion''
        then Inl (denied ''review_not_approved'')
      else Inr ())"

definition admit_locked ::
  "('k, 'b) approval_service \<Rightarrow> principal \<Rightarrow> string \<Rightarrow> instant \<Rightarrow> string \<Rightarrow> (exn, 'b approvals_db, 'b admission_row) op" where
  "admit_locked V p uid now request_id =
     transaction (op_bind (op_read (require_request (pr_tenant_id p) request_id)) (\<lambda>request.
       op_bind (op_lift (admission_open request)) (\<lambda>_.
       op_bind (op_read (\<lambda>s. admission_record_for V uid now request
                   (request_decisions (pr_tenant_id p) request_id s) s)) (\<lambda>row.
       op_then (op_require (\<lambda>s. aw_record_id row \<notin> aw_record_id ` set (ap_admissions s)) integrity_error)
         (op_then (op_modify (\<lambda>s. set_status request ''admitted'' (s\<lparr>ap_admissions := ap_admissions s @ [row]\<rparr>)))
           (op_return row))))))"

definition get_admission :: "principal \<Rightarrow> string \<Rightarrow> (exn, 'b approvals_db, 'b admission_row) op" where
  "get_admission p record_id = transaction (op_read (require_admission (pr_tenant_id p) record_id))"

definition admit ::
  "('k, 'b) approval_service \<Rightarrow> principal \<Rightarrow> string \<Rightarrow> instant \<Rightarrow> string \<Rightarrow> (exn, 'b approvals_db, 'b admission_row) op" where
  "admit V p uid now request_id =
     op_except (op_bind (admit_locked V p uid now request_id) (\<lambda>row. get_admission p (aw_record_id row)))
       (\<lambda>e. e = integrity_error) (\<lambda>_. op_raise (denied ''already_admitted''))"

definition list_admissions :: "principal \<Rightarrow> string option \<Rightarrow> 'b approvals_db \<Rightarrow> 'b admission_row list" where
  "list_admissions p request_id s =
     sort_key aw_created_at (filter (\<lambda>r. aw_tenant_id r = pr_tenant_id p
       \<and> (case request_id of None \<Rightarrow> True | Some i \<Rightarrow> aw_request_id r = i)) (ap_admissions s))"

text \<open>\<^verbatim>\<open>verify_admission_signature\<close>: a privileged record is only checked when the caller presents its request.\<close>

definition verify_admission_signature :: "('k, 'b) crypto \<Rightarrow> 'b admission_row \<Rightarrow> admission_request option \<Rightarrow> bool" where
  "verify_admission_signature C row request =
     (let detached = \<lparr>ds_signature = aw_signature row, ds_public_key = aw_signer_public_key row\<rparr>
      in if aw_kind row \<in> set PROMOTION_REQUEST_KINDS
         then verify C detached (promotion_body C (aw_request_id row) (opt_str (aw_proposal_digest row)) (aw_tier row)
                (aw_requested_by row) (map av_approver (aw_approvals row)) (aw_kind row))
         else if request = None then False
         else verify C detached (canonical_json C (admission_body (aw_record_id row) (aw_request_digest row) (aw_decision row)
                (JObj [(''plugin_id'', json_opt_str (aw_plugin_id row)), (''digest'', json_opt_str (aw_content_digest row))])
                (aw_privileged_role row) (aw_approvals row))))"

section \<open>Compensation plans\<close>

definition get_compensation_plan :: "principal \<Rightarrow> string \<Rightarrow> (exn, 'b approvals_db, 'b plan_row) op" where
  "get_compensation_plan p plan_id =
     transaction (op_bind (op_read (\<lambda>s. one_or_none (filter (\<lambda>r. pl_tenant_id r = pr_tenant_id p
         \<and> cp_plan_id (pl_plan r) = plan_id) (ap_plans s)))) (\<lambda>row.
       case row of None \<Rightarrow> op_raise (Api (CompensationPlanNotFoundError plan_id)) | Some r \<Rightarrow> op_return r))"

definition record_compensation_plan ::
  "('k, 'b) approval_service \<Rightarrow> principal \<Rightarrow> string \<Rightarrow> instant \<Rightarrow> json list \<Rightarrow> string option \<Rightarrow> string option
     \<Rightarrow> (exn, 'b approvals_db, 'b plan_row) op" where
  "record_compensation_plan V p uid now actions campaign_id manifest_digest =
     op_bind (op_lift (case sign_compensation_plan (sv_crypto V) (sv_str_of V) (new_id ''cpl'' uid) (json_opt_str campaign_id)
                         (json_opt_str manifest_digest) actions (sv_signing_key V) of
                  Inl (Campaign (CompensationPlanBuildError why)) \<Rightarrow> Inl (invalid_spec why)
                | r \<Rightarrow> r)) (\<lambda>plan.
       op_then (transaction
         (op_then (op_require (\<lambda>s. cp_plan_id plan \<notin> (\<lambda>r. cp_plan_id (pl_plan r)) ` set (ap_plans s)) integrity_error)
           (op_modify (\<lambda>s. s\<lparr>ap_plans := ap_plans s @ [\<lparr>pl_tenant_id = pr_tenant_id p, pl_plan = plan, pl_created_at = now\<rparr>]\<rparr>))))
         (get_compensation_plan p (cp_plan_id plan)))"

definition list_compensation_plans :: "principal \<Rightarrow> string option \<Rightarrow> 'b approvals_db \<Rightarrow> 'b plan_row list" where
  "list_compensation_plans p campaign_id s =
     sort_key pl_created_at (filter (\<lambda>r. pl_tenant_id r = pr_tenant_id p
       \<and> (case campaign_id of None \<Rightarrow> True | Some c \<Rightarrow> cp_campaign_id (pl_plan r) = JStr c)) (ap_plans s))"

end
