(* ===== verification/AdmissionRecords.thy ===== *)
theory AdmissionRecords
  imports Approvals
begin

text \<open>
  What a review board's tables may hold after any sequence of calls (\<^verbatim>\<open>api/approvals.py\<close>): which approvals stand
  behind a signed admission record, and which requests can never get one.
\<close>

section \<open>Calls\<close>

text \<open>The registry behind the board (proposals and artifacts) is another plane's: between two calls it may
  become anything.\<close>

datatype 'b approval_call =
    Open_request principal string instant string string "string option" "string option" "string option" "string option"
      "string option" bool bool
  | Decide_request principal string instant string string string
  | Admit_request principal string instant string
  | Record_plan principal string instant "json list" "string option" "string option"
  | Registry_moves "'b registry_db"

fun do_approval_call :: "('k, 'b) approval_service \<Rightarrow> 'b approval_call \<Rightarrow> 'b approvals_db \<Rightarrow> 'b approvals_db" where
  "do_approval_call V (Open_request p uid now kind why c i pl cd role hs mi) s =
     snd (create_request V p uid now kind why c i pl cd role hs mi s)"
| "do_approval_call V (Decide_request p uid now i decision note) s = snd (decide p uid now i decision note s)"
| "do_approval_call V (Admit_request p uid now i) s = snd (admit V p uid now i s)"
| "do_approval_call V (Record_plan p uid now actions c m) s = snd (record_compensation_plan V p uid now actions c m s)"
| "do_approval_call V (Registry_moves g) s = s\<lparr>ap_registry := g\<rparr>"

section \<open>What each call leaves\<close>

lemma gets_only [simp]:
  "snd (get_request p i s) = s" "snd (get_decision p i a s) = s" "snd (get_admission p i s) = s"
  "snd (get_compensation_plan p i s) = s"
  by (auto simp: get_request_def get_decision_def get_admission_def get_compensation_plan_def transaction_def op_run_simps op_end_simps
      op_defs split: sum.splits option.splits prod.splits)

lemma then_gets: "(\<And>s. snd (k s) = s) \<Longrightarrow> snd (op_then m k s) = snd (m s)"
  by (auto simp: op_then_def op_bind_def split: prod.splits sum.splits)

lemma bind_gets: "(\<And>x s. snd (k x s) = s) \<Longrightarrow> snd (op_bind m k s) = snd (m s)"
  by (auto simp: op_bind_def split: prod.splits sum.splits)

lemma create_request_effect:
  "snd (create_request V p uid now kind why c i pl cd role hs mi s) = s
   \<or> (\<exists>tier r. kind \<in> set REQUEST_KINDS \<and> request_tier V p kind c i pl cd role hs mi s = Inr tier
        \<and> r = new_request p uid now kind why c i pl cd role hs mi tier
        \<and> ar_request_id r \<notin> ar_request_id ` set (ap_requests s)
        \<and> snd (create_request V p uid now kind why c i pl cd role hs mi s) = s\<lparr>ap_requests := ap_requests s @ [r]\<rparr>)"
  by (cases "request_tier V p kind c i pl cd role hs mi s")
    (auto simp: create_request_def op_run_simps op_end_simps Let_def then_gets transaction_def)

definition record_decision :: "approval_request \<Rightarrow> approval_decision \<Rightarrow> 'b approvals_db \<Rightarrow> 'b approvals_db" where
  "record_decision r d s =
     (let s' = s\<lparr>ap_decisions := ap_decisions s @ [d]\<rparr>
      in set_status r (projected_status (request_decisions (ar_tenant_id r) (ar_request_id r) s') (ar_status r)) s')"

lemma decide_effect:
  "snd (decide p uid now i decision note s) = s
   \<or> (\<exists>r. decision \<in> set DECISION_KINDS \<and> decision_allowed p i decision s = Inr r
        \<and> snd (decide p uid now i decision note s) = record_decision r (new_decision p uid now i decision note) s)"
  by (cases "decision_allowed p i decision s")
    (auto simp: decide_def op_run_simps op_end_simps then_gets transaction_def insert_decision_def op_then_def [of "op_then _ _"]
      op_bind_def [of "op_then _ _"] project_request_status_def record_decision_def Let_def)

lemma admit_effect:
  "snd (admit V p uid now i s) = s
   \<or> (\<exists>r w. require_request (pr_tenant_id p) i s = Inr r \<and> admission_open r = Inr ()
        \<and> admission_record_for V uid now r (request_decisions (pr_tenant_id p) i s) s = Inr w
        \<and> aw_record_id w \<notin> aw_record_id ` set (ap_admissions s)
        \<and> snd (admit V p uid now i s) = set_status r ''admitted'' (s\<lparr>ap_admissions := ap_admissions s @ [w]\<rparr>))"
proof -
  have "snd (admit V p uid now i s) = snd (admit_locked V p uid now i s)"
    by (auto simp: admit_def op_except_def op_raise_def op_bind_def split: prod.splits sum.splits) (metis gets_only(3) snd_conv)+
  moreover have "snd (admit_locked V p uid now i s) = s \<or> (\<exists>r w. require_request (pr_tenant_id p) i s = Inr r \<and> admission_open r = Inr ()
        \<and> admission_record_for V uid now r (request_decisions (pr_tenant_id p) i s) s = Inr w
        \<and> aw_record_id w \<notin> aw_record_id ` set (ap_admissions s)
        \<and> snd (admit_locked V p uid now i s) = set_status r ''admitted'' (s\<lparr>ap_admissions := ap_admissions s @ [w]\<rparr>))"
  proof (cases "require_request (pr_tenant_id p) i s")
    case (Inl e)
    then show ?thesis by (simp add: admit_locked_def transaction_def op_run_simps)
  next
    case r: (Inr r)
    show ?thesis
    proof (cases "admission_open r")
      case (Inl e)
      with r show ?thesis by (simp add: admit_locked_def transaction_def op_run_simps op_end_simps)
    next
      case (Inr u)
      with r show ?thesis
        by (cases "admission_record_for V uid now r (request_decisions (pr_tenant_id p) i s) s")
          (auto simp: admit_locked_def transaction_def op_run_simps op_end_simps)
    qed
  qed
  ultimately show ?thesis by simp
qed

lemma plan_effect:
  "\<exists>ps. snd (record_compensation_plan V p uid now actions c m s) = s\<lparr>ap_plans := ps\<rparr>"
proof -
  have same: "\<exists>ps. s = s\<lparr>ap_plans := ps\<rparr>" by (rule exI [of _ "ap_plans s"]) simp
  let ?signed = "case sign_compensation_plan (sv_crypto V) (sv_str_of V) (new_id ''cpl'' uid) (json_opt_str c) (json_opt_str m)
      actions (sv_signing_key V) of Inl (Campaign (CompensationPlanBuildError why)) \<Rightarrow> Inl (invalid_spec why) | r \<Rightarrow> r"
  show ?thesis
  proof (cases ?signed)
    case (Inl e)
    then show ?thesis using same by (simp add: record_compensation_plan_def op_end_simps)
  next
    case (Inr plan)
    then show ?thesis
      using same by (auto simp: record_compensation_plan_def then_gets transaction_def op_run_simps op_end_simps)
  qed
qed

section \<open>The invariant\<close>

abbreviation decisions_on :: "'b approvals_db \<Rightarrow> approval_request \<Rightarrow> approval_decision list" where
  "decisions_on s r \<equiv> request_decisions (ar_tenant_id r) (ar_request_id r) s"

abbreviation approvals_on :: "'b approvals_db \<Rightarrow> approval_request \<Rightarrow> approval_decision list" where
  "approvals_on s r \<equiv> rows_where (decisions_on s r) ''approve''"

definition approver_names :: "approval_decision list \<Rightarrow> string set" where
  "approver_names ds = (\<lambda>d. casefold (ad_approver d)) ` set ds"

definition as_record :: "approval_decision \<Rightarrow> approval_record" where
  "as_record d = \<lparr>av_approver = ad_approver d, av_approver_role = ad_approver_role d, av_note = ad_note d\<rparr>"

definition tier4_legs :: "('k, 'b) approval_service \<Rightarrow> approval_request \<Rightarrow> bool" where
  "tier4_legs V r \<longleftrightarrow> ar_tier r = 4 \<and> ar_human_signoff r \<and> ar_manually_initiated r
     \<and> (\<exists>d. policy_for (sv_tenant_policies V) (ar_tenant_id r) = Some d \<and> allows_tier d 4)"

definition request_ok :: "('k, 'b) approval_service \<Rightarrow> 'b approvals_db \<Rightarrow> approval_request \<Rightarrow> bool" where
  "request_ok V s r \<longleftrightarrow>
     ar_kind r \<in> set REQUEST_KINDS \<and> 3 \<le> ar_tier r
     \<and> (if ar_kind r = ''tier4_promotion'' then tier4_legs V r else \<not> ar_human_signoff r)
     \<and> (ar_kind r = ''privileged_admission'' \<longrightarrow> ar_tier r = 3 \<and> ar_plugin_id r \<noteq> None \<and> ar_content_digest r \<noteq> None \<and> ar_privileged_role r \<noteq> None)
     \<and> casefold (ar_requested_by r) \<notin> approver_names (approvals_on s r)
     \<and> (ar_status r \<noteq> ''rejected'' \<longrightarrow> rows_where (decisions_on s r) ''reject'' = [])
     \<and> (ar_status r = ''approved'' \<longrightarrow> 2 \<le> card (approver_names (approvals_on s r)))"

definition admission_ok :: "('k, 'b) approval_service \<Rightarrow> 'b approvals_db \<Rightarrow> approval_request \<Rightarrow> 'b admission_row \<Rightarrow> bool" where
  "admission_ok V s r w \<longleftrightarrow>
     ar_status r = ''admitted'' \<and> aw_tenant_id w = ar_tenant_id r \<and> aw_request_id w = ar_request_id r \<and> aw_kind w = ar_kind r
     \<and> aw_tier w = ar_tier r \<and> aw_requested_by w = ar_requested_by r
     \<and> aw_approvals w = map as_record (approvals_on s r)
     \<and> 2 \<le> card (approver_names (approvals_on s r))
     \<and> (ar_kind r \<noteq> ''tier4_promotion'' \<longrightarrow> length (approvals_on s r) = 2)
     \<and> (ar_tier r = 4 \<longrightarrow> ar_kind r = ''tier4_promotion'')
     \<and> (\<forall>q. verify_admission_signature (sv_crypto V) w (Some q))"

definition approvals_inv :: "('k, 'b) approval_service \<Rightarrow> 'b approvals_db \<Rightarrow> bool" where
  "approvals_inv V s \<longleftrightarrow>
     distinct (map ar_request_id (ap_requests s)) \<and> distinct (map aw_request_id (ap_admissions s))
     \<and> (\<forall>d \<in> set (ap_decisions s). ad_decision d \<in> set DECISION_KINDS
          \<and> (\<exists>r \<in> set (ap_requests s). ar_tenant_id r = ad_tenant_id d \<and> ar_request_id r = ad_request_id d))
     \<and> (\<forall>r \<in> set (ap_requests s). request_ok V s r)
     \<and> (\<forall>w \<in> set (ap_admissions s). \<exists>r \<in> set (ap_requests s). admission_ok V s r w)"

lemma decisions_cong: "ap_decisions s = ap_decisions s' \<Longrightarrow> request_decisions t i s = request_decisions t i s'"
  by (simp add: request_decisions_def)

lemma legs_keep_status [simp]: "tier4_legs V (r\<lparr>ar_status := st\<rparr>) = tier4_legs V r"
  by (simp add: tier4_legs_def)

lemma ok_by_decisions:
  assumes "decisions_on s r = decisions_on s' r"
  shows "request_ok V s r = request_ok V s' r" "admission_ok V s r w = admission_ok V s' r w"
  by (simp_all add: request_ok_def admission_ok_def assms)

lemma request_ok_cong: "ap_decisions s = ap_decisions s' \<Longrightarrow> request_ok V s r = request_ok V s' r"
  by (intro ok_by_decisions decisions_cong)

lemma admission_ok_cong: "ap_decisions s = ap_decisions s' \<Longrightarrow> admission_ok V s r w = admission_ok V s' r w"
  by (intro ok_by_decisions decisions_cong)

lemma decisions_of_others:
  "ad_request_id d \<noteq> i \<Longrightarrow> request_decisions t i (s\<lparr>ap_decisions := ap_decisions s @ [d]\<rparr>) = request_decisions t i s"
  by (simp add: request_decisions_def)

lemma set_status_reads [simp]:
  "ap_decisions (set_status r st s) = ap_decisions s" "ap_admissions (set_status r st s) = ap_admissions s"
  "ap_registry (set_status r st s) = ap_registry s"
  "map ar_request_id (ap_requests (set_status r st s)) = map ar_request_id (ap_requests s)"
  by (auto simp: set_status_def)

lemma in_set_status:
  assumes "distinct (map ar_request_id (ap_requests s))" "r \<in> set (ap_requests s)"
  shows "r' \<in> set (ap_requests (set_status r st s)) \<longleftrightarrow>
    r' = r\<lparr>ar_status := st\<rparr> \<or> (r' \<in> set (ap_requests s) \<and> ar_request_id r' \<noteq> ar_request_id r)"
proof -
  have "q = r" if "q \<in> set (ap_requests s)" "ar_request_id q = ar_request_id r" for q
    using assms that by (auto simp: distinct_map dest: inj_onD)
  then show ?thesis using assms(2) by (force simp: set_status_def)
qed

lemma set_status_refs:
  assumes "x \<in> set (ap_requests s)"
  shows "\<exists>q \<in> set (ap_requests (set_status r st s)). ar_tenant_id q = ar_tenant_id x \<and> ar_request_id q = ar_request_id x
    \<and> ar_kind q = ar_kind x"
  using assms
  by (intro bexI [of _ "if ar_request_id x = ar_request_id r then x\<lparr>ar_status := st\<rparr> else x"]) (auto simp: set_status_def)

lemma set_status_owners:
  assumes "\<exists>x \<in> set (ap_requests s). ar_tenant_id x = t \<and> ar_request_id x = i"
  shows "\<exists>q \<in> set (ap_requests (set_status r st s)). ar_tenant_id q = t \<and> ar_request_id q = i"
proof -
  from assms obtain x where x: "x \<in> set (ap_requests s)" "ar_tenant_id x = t" "ar_request_id x = i" by blast
  from set_status_refs [OF x(1), of r st] show ?thesis unfolding x(2,3) by blast
qed

section \<open>Every call keeps it\<close>

lemma require_requestD:
  "require_request t i s = Inr r \<Longrightarrow> r \<in> set (ap_requests s) \<and> ar_tenant_id r = t \<and> ar_request_id r = i"
  by (auto simp: require_request_def res_bind_Inr split: option.splits dest!: one_or_none_filter)

lemma proposal_tier_high: "proposal_tier t c i s = Inr n \<Longrightarrow> 3 \<le> n"
  by (auto simp: proposal_tier_def res_bind_Inr Let_def tier_order split: option.splits if_splits)

lemma tier4_admissibleD:
  "require_tier4_admissible policies t n hs mi = Inr u \<Longrightarrow>
     n = 4 \<and> hs \<and> mi \<and> (\<exists>d. policy_for policies t = Some d \<and> allows_tier d 4)"
  by (auto simp: require_tier4_admissible_def split: if_splits option.splits)

lemma privileged_targetD:
  "require_privileged_target pl cd role = Inr n \<Longrightarrow> n = 3 \<and> pl \<noteq> None \<and> cd \<noteq> None \<and> role \<noteq> None"
  by (auto simp: require_privileged_target_def PRIVILEGED_ADMISSION_TIER_def split: option.splits if_splits sum.splits)

lemma request_tierD:
  assumes "request_tier V p kind c i pl cd role hs mi s = Inr n" "kind \<in> set REQUEST_KINDS"
    and "r = new_request p uid now kind why c i pl cd role hs mi n"
  shows "3 \<le> n \<and> (if kind = ''tier4_promotion'' then tier4_legs V r else \<not> hs)
    \<and> (kind = ''privileged_admission'' \<longrightarrow> n = 3 \<and> pl \<noteq> None \<and> cd \<noteq> None \<and> role \<noteq> None)"
proof (cases "kind = ''privileged_admission''")
  case True
  with assms(1) show ?thesis
    by (auto simp: request_tier_def res_bind_Inr split: if_splits dest: privileged_targetD)
next
  case False
  with assms(1) obtain cc ii where ci: "c = Some cc" "i = Some ii"
    by (cases c; cases i) (auto simp: request_tier_def split: if_splits)
  with False assms(1) have tier: "proposal_tier (pr_tenant_id p) cc ii s = Inr n"
    by (auto simp: request_tier_def res_bind_Inr split: if_splits)
  from ci False assms(1) have legs: "if kind = ''tier4_promotion'' then
        require_tier4_admissible (sv_tenant_policies V) (pr_tenant_id p) n hs mi = Inr () else \<not> hs"
    by (auto simp: request_tier_def res_bind_Inr split: if_splits)
  from legs have "if kind = ''tier4_promotion'' then tier4_legs V r else \<not> hs"
    unfolding assms(3) by (auto simp: tier4_legs_def new_request_def split: if_splits dest: tier4_admissibleD)
  with False proposal_tier_high [OF tier] show ?thesis by simp
qed

lemma inv_open:
  assumes inv: "approvals_inv V s"
  shows "approvals_inv V (snd (create_request V p uid now kind why c i pl cd role hs mi s))"
proof -
  let ?t = "snd (create_request V p uid now kind why c i pl cd role hs mi s)"
  from create_request_effect [of V p uid now kind why c i pl cd role hs mi s]
  consider "?t = s" | n r where "kind \<in> set REQUEST_KINDS" "request_tier V p kind c i pl cd role hs mi s = Inr n"
      "r = new_request p uid now kind why c i pl cd role hs mi n" "ar_request_id r \<notin> ar_request_id ` set (ap_requests s)"
      "?t = s\<lparr>ap_requests := ap_requests s @ [r]\<rparr>"
    by blast
  then show ?thesis
  proof cases
    case 1
    with inv show ?thesis by simp
  next
    case 2
    have "ad_request_id d \<in> ar_request_id ` set (ap_requests s)" if "d \<in> set (ap_decisions s)" for d
      using inv that unfolding approvals_inv_def by (metis imageI)
    with 2(4) have "filter (\<lambda>d. ad_tenant_id d = ar_tenant_id r \<and> ad_request_id d = ar_request_id r) (ap_decisions s) = []"
      unfolding filter_empty_conv by metis
    then have "decisions_on s r = []" by (simp add: request_decisions_def)
    then have none: "approvals_on s r = []" "rows_where (decisions_on s r) ''reject'' = []" by (simp_all add: rows_where_def)
    have cols: "ar_kind r = kind" "ar_tier r = n" "ar_human_signoff r = hs" "ar_plugin_id r = pl" "ar_content_digest r = cd"
      "ar_privileged_role r = role" "ar_status r = ''pending''"
      unfolding 2(3) by (simp_all add: new_request_def)
    have "request_ok V s r"
      using request_tierD [OF 2(2,1,3)] 2(1) unfolding request_ok_def cols none by (simp add: approver_names_def)
    then have ok: "\<forall>q \<in> set (ap_requests ?t). request_ok V ?t q"
      using inv unfolding 2(5) request_ok_cong [of "s\<lparr>ap_requests := ap_requests s @ [r]\<rparr>" s, simplified]
      by (simp add: approvals_inv_def)
    have "\<forall>w \<in> set (ap_admissions ?t). \<exists>q \<in> set (ap_requests ?t). admission_ok V ?t q w"
      using inv unfolding 2(5) admission_ok_cong [of "s\<lparr>ap_requests := ap_requests s @ [r]\<rparr>" s, simplified]
      by (auto simp: approvals_inv_def)
    moreover have "distinct (map ar_request_id (ap_requests ?t))" "distinct (map aw_request_id (ap_admissions ?t))"
      "\<forall>d \<in> set (ap_decisions ?t). ad_decision d \<in> set DECISION_KINDS
          \<and> (\<exists>q \<in> set (ap_requests ?t). ar_tenant_id q = ad_tenant_id d \<and> ar_request_id q = ad_request_id d)"
      using inv 2(4) unfolding 2(5) by (auto simp: approvals_inv_def)
    ultimately show ?thesis using ok by (simp add: approvals_inv_def)
  qed
qed

lemma decision_allowedD:
  assumes "decision_allowed p i decision s = Inr r"
  shows "r \<in> set (ap_requests s)" "ar_tenant_id r = pr_tenant_id p" "ar_request_id r = i"
    "ar_status r \<noteq> ''rejected''" "ar_status r \<noteq> ''admitted''"
    "decision = ''approve'' \<Longrightarrow> casefold (identity_id p) \<noteq> casefold (ar_requested_by r)"
  using assms by (auto simp: decision_allowed_def res_bind_Inr split: if_splits dest!: require_requestD)

lemma approver_names_mono:
  "set ds \<subseteq> set es \<Longrightarrow> card (approver_names ds) \<le> card (approver_names es)"
  unfolding approver_names_def by (intro card_mono image_mono) auto

lemma new_decision_ok:
  assumes old: "request_ok V s r" and d: "ad_tenant_id d = ar_tenant_id r" "ad_request_id d = ar_request_id r"
    and other: "ad_decision d = ''approve'' \<Longrightarrow> casefold (ad_approver d) \<noteq> casefold (ar_requested_by r)"
    and s1: "s1 = s\<lparr>ap_decisions := ap_decisions s @ [d]\<rparr>" and open_: "ar_status r \<noteq> ''rejected''"
  shows "request_ok V s1 (r\<lparr>ar_status := projected_status (decisions_on s1 r) (ar_status r)\<rparr>)"
proof -
  let ?st = "projected_status (decisions_on s1 r) (ar_status r)"
  have ds: "set (decisions_on s1 r) = insert d (set (decisions_on s r))"
    using d by (auto simp: s1 request_decisions_def)
  have names: "approver_names (approvals_on s1 r)
      = (if ad_decision d = ''approve'' then {casefold (ad_approver d)} else {}) \<union> approver_names (approvals_on s r)"
    by (auto simp: approver_names_def rows_where_def ds)
  have "2 \<le> card (approver_names (approvals_on s1 r))" if "?st = ''approved''"
  proof (cases "ar_status r = ''approved''")
    case True
    with old have "2 \<le> card (approver_names (approvals_on s r))" by (simp add: request_ok_def)
    also have "\<dots> \<le> card (approver_names (approvals_on s1 r))"
      by (rule approver_names_mono) (auto simp: rows_where_def ds)
    finally show ?thesis .
  next
    case False
    with that show ?thesis by (auto simp: projected_status_def approver_names_def split: if_splits)
  qed
  moreover have "rows_where (decisions_on s1 r) ''reject'' = []" if "?st \<noteq> ''rejected''"
    using that by (auto simp: projected_status_def rows_where_def filter_empty_conv list_ex_iff split: if_splits)
  moreover have "casefold (ar_requested_by r) \<notin> approver_names (approvals_on s1 r)"
    using old other by (auto simp: names request_ok_def)
  ultimately show ?thesis using old by (simp add: request_ok_def)
qed

lemma inv_decide:
  assumes inv: "approvals_inv V s"
  shows "approvals_inv V (snd (decide p uid now i decision note s))"
proof -
  let ?t = "snd (decide p uid now i decision note s)"
  from decide_effect [of p uid now i decision "note" s]
  consider "?t = s" | r where "decision \<in> set DECISION_KINDS" "decision_allowed p i decision s = Inr r"
      "?t = record_decision r (new_decision p uid now i decision note) s"
    by blast
  then show ?thesis
  proof cases
    case 1
    with inv show ?thesis by simp
  next
    case 2
    note r = decision_allowedD [OF 2(2)]
    define d where "d = new_decision p uid now i decision note"
    have d: "ad_tenant_id d = ar_tenant_id r" "ad_request_id d = ar_request_id r" "ad_decision d = decision"
      "ad_approver d = identity_id p"
      using r(2,3) by (simp_all add: d_def new_decision_def)
    define s1 where "s1 = s\<lparr>ap_decisions := ap_decisions s @ [d]\<rparr>"
    define st where "st = projected_status (decisions_on s1 r) (ar_status r)"
    have t: "?t = set_status r st s1" by (simp add: 2(3) record_decision_def Let_def s1_def st_def d_def)
    have s1: "ap_requests s1 = ap_requests s" "ap_admissions s1 = ap_admissions s" by (simp_all add: s1_def)
    have ids: "distinct (map ar_request_id (ap_requests s1))" using inv s1 by (simp add: approvals_inv_def)
    have on: "decisions_on ?t q = decisions_on s1 q" for q by (rule decisions_cong) (simp add: t)
    have rows: "q \<in> set (ap_requests ?t) \<longleftrightarrow> q = r\<lparr>ar_status := st\<rparr> \<or> (q \<in> set (ap_requests s) \<and> ar_request_id q \<noteq> ar_request_id r)" for q
      unfolding t using in_set_status [OF ids, of r] r(1) s1(1) by simp
    have others: "decisions_on s1 q = decisions_on s q" if "ar_request_id q \<noteq> ar_request_id r" for q
      using that d(2) unfolding s1_def by (intro decisions_of_others) simp
    have "request_ok V s1 (r\<lparr>ar_status := st\<rparr>)"
      unfolding st_def by (rule new_decision_ok [OF _ d(1,2) _ s1_def r(4)]) (use inv r(1,6) d(3,4) in \<open>auto simp: approvals_inv_def\<close>)
    then have reqs: "\<forall>q \<in> set (ap_requests ?t). request_ok V ?t q"
      using inv rows on others ok_by_decisions(1) unfolding approvals_inv_def by metis
    have adms: "\<exists>q \<in> set (ap_requests ?t). admission_ok V ?t q w" if "w \<in> set (ap_admissions ?t)" for w
    proof -
      from that inv obtain q where q: "q \<in> set (ap_requests s)" "admission_ok V s q w"
        unfolding approvals_inv_def by (auto simp: t s1)
      have "q \<noteq> r" using q(2) r(5) by (auto simp: admission_ok_def)
      with q(1) r(1) ids have "ar_request_id q \<noteq> ar_request_id r" by (auto simp: s1 distinct_map dest: inj_onD)
      with q rows on others ok_by_decisions(2) show ?thesis by metis
    qed
    have "\<exists>q \<in> set (ap_requests ?t). ar_tenant_id q = ar_tenant_id x \<and> ar_request_id q = ar_request_id x"
      if "x \<in> set (ap_requests s)" for x
      unfolding t by (rule set_status_owners) (use that s1 in auto)
    moreover have "ap_decisions ?t = ap_decisions s @ [d]" by (simp add: t s1_def)
    ultimately have decs: "\<forall>e \<in> set (ap_decisions ?t). ad_decision e \<in> set DECISION_KINDS
        \<and> (\<exists>q \<in> set (ap_requests ?t). ar_tenant_id q = ad_tenant_id e \<and> ar_request_id q = ad_request_id e)"
      using inv r(1) d 2(1) unfolding approvals_inv_def by (auto, metis)
    show ?thesis
      using inv reqs adms decs by (simp add: approvals_inv_def t s1)
  qed
qed

text \<open>What a minted record says.\<close>

lemma res_map_same:
  assumes "res_map f xs = Inr ys" "\<And>x y. f x = Inr y \<Longrightarrow> y = g x"
  shows "ys = map g xs"
  using assms(1) by (induction xs arbitrary: ys) (auto simp: res_bind_Inr dest: assms(2))

lemma approval_records:
  "res_map (\<lambda>d. new_approval_record (ad_approver d) (ad_approver_role d) (ad_note d)) ds = Inr as \<Longrightarrow> as = map as_record ds"
  by (rule res_map_same) (auto simp: new_approval_record_def as_record_def split: if_splits)

lemma two_names:
  assumes "length ds = 2" "casefold (ad_approver (ds ! 0)) \<noteq> casefold (ad_approver (ds ! 1))"
  shows "2 \<le> card (approver_names ds)"
proof -
  from assms(1) obtain x y where "ds = [x, y]" by (auto simp: numeral_2_eq_2 length_Suc_conv)
  with assms(2) show ?thesis by (simp add: approver_names_def)
qed

lemma admit_privilegedD:
  assumes "admit_privileged C q as signer k = Inr sa"
  shows "length as = 2" "casefold (av_approver (as ! 0)) \<noteq> casefold (av_approver (as ! 1))" "sa_approvals sa = as"
    "crypto_laws C \<Longrightarrow> verify C \<lparr>ds_signature = sa_signature sa, ds_public_key = sa_public_key sa\<rparr>
       (canonical_json C (admission_body (sa_record_id sa) (Some (sa_request_digest sa)) ''admitted''
         (pinned_json (aq_pinned q)) (Some (aq_privileged_role q)) as))"
  using assms by (auto simp: admit_privileged_def res_bind_Inr Let_def sign_def verify_def split: list.splits if_splits)

lemma tier_gateD:
  assumes "tier_gate r names = Inr u"
  shows "ar_tier r \<le> 2 \<or> (ar_tier r = 3 \<and> (\<exists>x y. names = [x, y] \<and> casefold x \<noteq> casefold y))
    \<or> (ar_tier r = 4 \<and> ar_human_signoff r)"
proof -
  from assms obtain t where t: "tier_of_int (ar_tier r) = Inr t" by (auto simp: tier_gate_def res_bind_Inr)
  let ?ok = "assert_phase2_admissible t (Some \<lparr>ae_approvers = names, ae_requested_by = Some (ar_requested_by r),
      ae_human_signoff = ar_human_signoff r, ae_manually_initiated = ar_manually_initiated r\<rparr>)"
  have ok: "?ok = Inr ()"
  proof (cases ?ok)
    case (Inl e)
    have "\<exists>e'. tier_gate r names = Inl e'"
      by (cases e) (simp_all add: tier_gate_def t Inl split: selection_error.split)
    with assms show ?thesis by simp
  qed simp
  from t have "tier_int t = ar_tier r"
    by (auto simp: tier_of_int_def find_Some_iff split: option.splits if_splits)
  with ok show ?thesis by (auto simp: tier_admission_exact)
qed

lemma as_record_reads [simp]: "av_approver (as_record d) = ad_approver d"
  by (simp add: as_record_def)

lemma privileged_minted:
  assumes C: "crypto_laws (sv_crypto V)" and ok: "request_ok V s r" and kind: "ar_kind r = ''privileged_admission''"
    and made: "admission_record_for V uid now r (decisions_on s r) s = Inr w"
  shows "length (approvals_on s r) = 2 \<and> 2 \<le> card (approver_names (approvals_on s r)) \<and> ar_tier r = 3
      \<and> aw_approvals w = map as_record (approvals_on s r) \<and> (\<forall>q. verify_admission_signature (sv_crypto V) w (Some q))"
proof -
  from made kind obtain as sa where as: "as = map as_record (approvals_on s r)" and sa: "admit_request_privileged V r as = Inr sa"
    and w: "w = base_admission r now (sa_record_id sa) None (Some (sa_request_digest sa)) (sa_approvals sa) (sa_signature sa)
      (sa_public_key sa)"
    by (auto simp: admission_record_for_def res_bind_Inr dest: approval_records)
  from sa obtain pin q where pin: "new_pinned_version (opt_str (ar_plugin_id r)) (opt_str (ar_content_digest r)) = Inr pin"
    and q: "new_admission_request pin (opt_str (ar_privileged_role r)) (ar_requested_by r) (ar_justification r) = Inr q"
    and adm: "admit_privileged (sv_crypto V) q as \<lparr>wid_role = EVALUATOR, wid_subject = sv_evaluator_subject V\<rparr> (sv_signing_key V) = Inr sa"
    by (auto simp: admit_request_privileged_def res_bind_Inr)
  note D = admit_privilegedD [OF adm]
  from D(1,2) as have two: "length (approvals_on s r) = 2" "2 \<le> card (approver_names (approvals_on s r))"
    by (simp_all add: two_names)
  from ok kind obtain pl cd role where some: "ar_plugin_id r = Some pl" "ar_content_digest r = Some cd" "ar_privileged_role r = Some role"
    and tier: "ar_tier r = 3" by (auto simp: request_ok_def)
  from pin q some have fields: "pinned_json (aq_pinned q) = JObj [(''plugin_id'', JStr pl), (''digest'', JStr cd)]" "aq_privileged_role q = role"
    by (auto simp: new_pinned_version_def new_admission_request_def opt_str_def pinned_json_def split: if_splits)
  have "verify_admission_signature (sv_crypto V) w (Some x)" for x
    using D(4) [OF C] by (simp add: w base_admission_def verify_admission_signature_def kind PROMOTION_REQUEST_KINDS_def some
        json_opt_str_def D(3) fields)
  with two tier show ?thesis by (simp add: w base_admission_def D(3) as)
qed

lemma promotion_minted:
  assumes C: "crypto_laws (sv_crypto V)" and ok: "request_ok V s r" and kind: "ar_kind r \<noteq> ''privileged_admission''"
    and opened: "admission_open r = Inr u"
    and made: "admission_record_for V uid now r (decisions_on s r) s = Inr w"
  shows "2 \<le> card (approver_names (approvals_on s r)) \<and> (ar_kind r \<noteq> ''tier4_promotion'' \<longrightarrow> length (approvals_on s r) = 2)
      \<and> (ar_tier r = 4 \<longrightarrow> ar_kind r = ''tier4_promotion'')
      \<and> aw_approvals w = map as_record (approvals_on s r) \<and> (\<forall>q. verify_admission_signature (sv_crypto V) w (Some q))"
proof -
  from made kind have recs: "aw_approvals w = map as_record (approvals_on s r)"
    and gate: "\<exists>u. tier_gate r (map ad_approver (approvals_on s r)) = Inr u"
    by (auto simp: admission_record_for_def res_bind_Inr base_admission_def Let_def dest: approval_records)
  from gate obtain u' where "tier_gate r (map ad_approver (approvals_on s r)) = Inr u'" ..
  note gate = tier_gateD [OF this]
  have k: "ar_kind r = ''tier3_promotion'' \<or> ar_kind r = ''tier4_promotion''"
    using ok kind by (simp add: request_ok_def REQUEST_KINDS_def)
  have two: "length (approvals_on s r) = 2 \<and> 2 \<le> card (approver_names (approvals_on s r)) \<and> ar_tier r = 3"
    if t3: "ar_kind r = ''tier3_promotion''"
  proof -
    from t3 ok have "3 \<le> ar_tier r" "\<not> ar_human_signoff r" by (auto simp: request_ok_def)
    with gate have "ar_tier r = 3" "\<exists>x y. map ad_approver (approvals_on s r) = [x, y] \<and> casefold x \<noteq> casefold y" by auto
    then show ?thesis by (auto simp: approver_names_def)
  qed
  have four: "2 \<le> card (approver_names (approvals_on s r))" if t4: "ar_kind r = ''tier4_promotion''"
    using ok opened t4 by (auto simp: request_ok_def admission_open_def split: if_splits)
  have "verify_admission_signature (sv_crypto V) w (Some q)" for q
    using made kind k C
    by (auto simp: admission_record_for_def res_bind_Inr base_admission_def Let_def verify_admission_signature_def
        PROMOTION_REQUEST_KINDS_def opt_str_def sign_def verify_def as_record_def comp_def dest!: approval_records)
  with k two four recs show ?thesis by auto
qed

lemma minted:
  assumes C: "crypto_laws (sv_crypto V)" and ok: "request_ok V s r" and opened: "admission_open r = Inr u"
    and made: "admission_record_for V uid now r (decisions_on s r) s = Inr w"
  shows "admission_ok V s (r\<lparr>ar_status := ''admitted''\<rparr>) w"
proof -
  have cols: "aw_tenant_id w = ar_tenant_id r \<and> aw_request_id w = ar_request_id r \<and> aw_kind w = ar_kind r
      \<and> aw_tier w = ar_tier r \<and> aw_requested_by w = ar_requested_by r"
    using made by (auto simp: admission_record_for_def res_bind_Inr base_admission_def Let_def split: if_splits)
  show ?thesis
  proof (cases "ar_kind r = ''privileged_admission''")
    case True
    with privileged_minted [OF C ok True made] cols show ?thesis by (simp add: admission_ok_def)
  next
    case False
    from promotion_minted [OF C ok False opened made] cols show ?thesis by (simp add: admission_ok_def)
  qed
qed

lemma inv_admit:
  assumes C: "crypto_laws (sv_crypto V)" and inv: "approvals_inv V s"
  shows "approvals_inv V (snd (admit V p uid now i s))"
proof -
  let ?t = "snd (admit V p uid now i s)"
  from admit_effect [of V p uid now i s]
  consider "?t = s" | r w where "require_request (pr_tenant_id p) i s = Inr r" "admission_open r = Inr ()"
      "admission_record_for V uid now r (request_decisions (pr_tenant_id p) i s) s = Inr w"
      "?t = set_status r ''admitted'' (s\<lparr>ap_admissions := ap_admissions s @ [w]\<rparr>)"
    by blast
  then show ?thesis
  proof cases
    case 1
    with inv show ?thesis by simp
  next
    case 2
    from require_requestD [OF 2(1)] have r: "r \<in> set (ap_requests s)" "ar_tenant_id r = pr_tenant_id p" "ar_request_id r = i" by auto
    define r' where "r' = r\<lparr>ar_status := ''admitted''\<rparr>"
    let ?s1 = "s\<lparr>ap_admissions := ap_admissions s @ [w]\<rparr>"
    have ids: "distinct (map ar_request_id (ap_requests s))" and okr: "request_ok V s r"
      using inv r(1) by (auto simp: approvals_inv_def)
    have made: "admission_record_for V uid now r (decisions_on s r) s = Inr w" using 2(3) r(2,3) by simp
    have w: "admission_ok V s r' w" unfolding r'_def by (rule minted [OF C okr 2(2) made])
    have decs: "ap_decisions ?t = ap_decisions s" by (simp add: 2(4))
    have rows: "q \<in> set (ap_requests ?t) \<longleftrightarrow> q = r' \<or> (q \<in> set (ap_requests s) \<and> ar_request_id q \<noteq> ar_request_id r)" for q
      unfolding 2(4) r'_def using in_set_status [of ?s1 r q] ids r(1) by simp
    have opened: "ar_status r \<noteq> ''admitted''" "ar_status r \<noteq> ''rejected''"
      using 2(2) by (auto simp: admission_open_def split: if_splits)
    have "request_ok V s r'" using okr opened(2) by (simp add: r'_def request_ok_def)
    then have reqs: "\<forall>q \<in> set (ap_requests ?t). request_ok V ?t q"
      using inv rows unfolding request_ok_cong [OF decs] by (auto simp: approvals_inv_def)
    have old: "aw_request_id v \<noteq> ar_request_id r \<and> (\<exists>q \<in> set (ap_requests ?t). admission_ok V s q v)"
      if "v \<in> set (ap_admissions s)" for v
    proof -
      from that inv obtain q where q: "q \<in> set (ap_requests s)" "admission_ok V s q v" by (auto simp: approvals_inv_def)
      then have "q \<noteq> r" "aw_request_id v = ar_request_id q" using opened(1) by (auto simp: admission_ok_def)
      moreover from this(1) q(1) r(1) ids have "ar_request_id q \<noteq> ar_request_id r" by (auto simp: distinct_map dest: inj_onD)
      ultimately show ?thesis using q rows by auto
    qed
    have adms: "ap_admissions ?t = ap_admissions s @ [w]" by (simp add: 2(4))
    have wid: "aw_request_id w = ar_request_id r" using w by (simp add: admission_ok_def r'_def)
    have "ar_request_id r \<notin> aw_request_id ` set (ap_admissions s)" using old by (metis imageE)
    moreover have "distinct (map aw_request_id (ap_admissions s))" using inv by (simp add: approvals_inv_def)
    ultimately have once: "distinct (map aw_request_id (ap_admissions ?t))"
      unfolding adms by (simp add: wid)
    have all: "\<forall>v \<in> set (ap_admissions ?t). \<exists>q \<in> set (ap_requests ?t). admission_ok V ?t q v"
      unfolding adms admission_ok_cong [OF decs] using old w rows by auto
    have refs: "\<forall>d \<in> set (ap_decisions ?t). ad_decision d \<in> set DECISION_KINDS
        \<and> (\<exists>q \<in> set (ap_requests ?t). ar_tenant_id q = ad_tenant_id d \<and> ar_request_id q = ad_request_id d)"
      using inv unfolding decs unfolding 2(4) approvals_inv_def by (auto intro!: set_status_owners)
    have "distinct (map ar_request_id (ap_requests ?t))" by (simp add: 2(4) ids)
    with reqs once all refs show ?thesis by (simp add: approvals_inv_def)
  qed
qed

lemma inv_elsewhere: "approvals_inv V s \<Longrightarrow> approvals_inv V (s\<lparr>ap_plans := ps\<rparr>)" "approvals_inv V s \<Longrightarrow> approvals_inv V (s\<lparr>ap_registry := g\<rparr>)"
  by (simp_all add: approvals_inv_def request_ok_def admission_ok_def request_decisions_def)

lemma reachable_approvals:
  assumes "crypto_laws (sv_crypto V)"
  shows "approvals_inv V (run_calls (do_approval_call V) cs (empty_approvals g))"
proof (rule run_calls_invariant)
  show "approvals_inv V (empty_approvals g)" by (simp add: approvals_inv_def empty_approvals_def)
next
  fix c :: "'b approval_call" and s :: "'b approvals_db"
  assume inv: "approvals_inv V s"
  show "approvals_inv V (do_approval_call V c s)"
  proof (cases c)
    case (Record_plan p uid now actions c m)
    with plan_effect [of V p uid now actions c m s] inv_elsewhere(1) [OF inv] show ?thesis by auto
  qed (simp_all add: inv inv_open inv_decide inv_admit [OF assms] inv_elsewhere)
qed

section \<open>Rows are only added\<close>

definition grows :: "'b approvals_db \<Rightarrow> 'b approvals_db \<Rightarrow> bool" where
  "grows s t \<longleftrightarrow> prefix (ap_decisions s) (ap_decisions t)
     \<and> (\<forall>r \<in> set (ap_requests s). \<exists>q \<in> set (ap_requests t).
          ar_tenant_id q = ar_tenant_id r \<and> ar_request_id q = ar_request_id r \<and> ar_kind q = ar_kind r)"

lemma grows_refl [simp]: "grows s s"
  by (auto simp: grows_def)

lemma grows_trans: "grows s t \<Longrightarrow> grows t u \<Longrightarrow> grows s u"
  unfolding grows_def by (metis (no_types, lifting) prefix_order.trans)

lemma grows_status: "ap_requests t = ap_requests s \<Longrightarrow> prefix (ap_decisions s) (ap_decisions t) \<Longrightarrow> grows s (set_status r st t)"
  unfolding grows_def using set_status_refs [of _ t r st] by simp

lemma call_grows: "grows s (do_approval_call V c s)"
proof (cases c)
  case (Open_request p uid now kind why c i pl cd role hs mi)
  with create_request_effect [of V p uid now kind why c i pl cd role hs mi s] show ?thesis by (auto simp: grows_def)
next
  case (Decide_request p uid now i decision nt)
  with decide_effect [of p uid now i decision nt s] show ?thesis by (auto simp: record_decision_def Let_def intro!: grows_status)
next
  case (Admit_request p uid now i)
  with admit_effect [of V p uid now i s] show ?thesis by (auto intro!: grows_status)
next
  case (Record_plan p uid now actions c m)
  with plan_effect [of V p uid now actions c m s] show ?thesis by (auto simp: grows_def)
qed (auto simp: grows_def)

lemma run_grows: "grows s (run_calls (do_approval_call V) cs s)"
proof (rule run_calls_invariant)
  show "grows s s" by simp
  show "grows s (do_approval_call V c t)" if "grows s t" for c t
    using that call_grows by (rule grows_trans)
qed

lemma approvals_grow:
  assumes "grows s t"
  shows "length (rows_where (request_decisions k i s) v) \<le> length (rows_where (request_decisions k i t) v)"
proof -
  have len: "length (rows_where (request_decisions k i x) v)
      = length (filter (\<lambda>d. ad_decision d = v \<and> ad_tenant_id d = k \<and> ad_request_id d = i) (ap_decisions x))" for x :: "'a approvals_db"
    by (simp add: rows_where_def request_decisions_def filter_sort conj_ac)
  from assms obtain ds where "ap_decisions t = ap_decisions s @ ds" by (auto simp: grows_def prefix_def)
  then show ?thesis by (simp add: len)
qed

section \<open>What an admission returns\<close>

lemma admit_result:
  assumes ok: "fst (admit V p uid now i s) = Inr w"
  shows "w \<in> set (ap_admissions (snd (admit V p uid now i s))) \<and> aw_request_id w = i"
proof -
  obtain x t where xt: "admit_locked V p uid now i s = (x, t)" by fastforce
  with ok obtain row where x: "x = Inr row"
    by (cases x) (auto simp: admit_def op_except_def op_bind_def op_raise_def split: if_splits)
  with xt have run: "admit_locked V p uid now i s = (Inr row, t)" by simp
  have "fst (get_admission p (aw_record_id row) t) = Inr w"
    using ok run by (auto simp: admit_def op_except_def op_bind_def op_raise_def split: sum.splits prod.splits if_splits)
  then have got: "get_admission p (aw_record_id row) t = (Inr w, t)"
    using gets_only(3) [of p "aw_record_id row" t] by (metis prod.collapse)
  from run obtain r where r: "require_request (pr_tenant_id p) i s = Inr r"
    and made: "admission_record_for V uid now r (request_decisions (pr_tenant_id p) i s) s = Inr row"
    and t: "ap_admissions t = ap_admissions s @ [row]"
    by (auto simp: admit_locked_def transaction_def op_run_simps op_end_simps op_bind_def [of "op_lift _"]
        split: sum.splits prod.splits if_splits)
  have row: "aw_request_id row = i" "aw_tenant_id row = pr_tenant_id p"
    using made require_requestD [OF r]
    by (auto simp: admission_record_for_def res_bind_Inr base_admission_def Let_def split: if_splits)
  from got have "one_or_none (filter (\<lambda>x. aw_tenant_id x = pr_tenant_id p \<and> aw_record_id x = aw_record_id row) (ap_admissions t)) = Inr (Some w)"
    by (auto simp: get_admission_def transaction_def op_read_def require_admission_def res_bind_Inr split: sum.splits option.splits)
  then have one: "filter (\<lambda>x. aw_tenant_id x = pr_tenant_id p \<and> aw_record_id x = aw_record_id row) (ap_admissions t) = [w]"
    by (simp add: one_or_none_Some)
  have "row \<in> set (filter (\<lambda>x. aw_tenant_id x = pr_tenant_id p \<and> aw_record_id x = aw_record_id row) (ap_admissions t))"
    by (simp add: t row)
  then have "w = row" by (simp add: one)
  moreover have "snd (admit V p uid now i s) = t"
    using run got by (simp add: admit_def op_except_def op_bind_def)
  ultimately show ?thesis by (simp add: t row)
qed

section \<open>Properties\<close>

lemma two_of_names:
  assumes "2 \<le> card (approver_names ds)"
  obtains d e where "d \<in> set ds" "e \<in> set ds" "casefold (ad_approver d) \<noteq> casefold (ad_approver e)"
proof -
  have "\<not> card (approver_names ds) \<le> Suc 0" using assms by simp
  moreover have "finite (approver_names ds)" by (simp add: approver_names_def)
  ultimately obtain x y where "x \<in> approver_names ds" "y \<in> approver_names ds" "x \<noteq> y"
    using card_le_Suc0_iff_eq by blast
  then show thesis unfolding approver_names_def by (auto intro: that)
qed

text \<open>C18: Whatever calls the board has served, every signed admission record stands on an admitted request of its
  tenant with approvals by two different people (their names differ even up to case), neither of them the requester,
  and with no rejection; a tier-4 record further has both evidence legs and a tenant policy that allows
  tier 4; it is the only record of its request; and its signature verifies.\<close>

theorem admissions_rest_on_two_approvers:
  assumes C: "crypto_laws (sv_crypto V)" and s: "s = run_calls (do_approval_call V) cs (empty_approvals g)"
    and w: "w \<in> set (ap_admissions s)"
  shows "\<exists>r \<in> set (ap_requests s). ar_tenant_id r = aw_tenant_id w \<and> ar_request_id r = aw_request_id w \<and> ar_status r = ''admitted''
    \<and> (\<exists>d \<in> set (ap_decisions s). \<exists>e \<in> set (ap_decisions s). casefold (ad_approver d) \<noteq> casefold (ad_approver e)
         \<and> (\<forall>x \<in> {d, e}. ad_tenant_id x = aw_tenant_id w \<and> ad_request_id x = aw_request_id w \<and> ad_decision x = ''approve''
              \<and> casefold (ad_approver x) \<noteq> casefold (ar_requested_by r)))
    \<and> (\<forall>d \<in> set (ap_decisions s). ad_tenant_id d = aw_tenant_id w \<and> ad_request_id d = aw_request_id w \<longrightarrow> ad_decision d = ''approve'')
    \<and> (aw_tier w = 4 \<longrightarrow> tier4_legs V r)
    \<and> filter (\<lambda>v. aw_request_id v = aw_request_id w) (ap_admissions s) = [w]
    \<and> verify_admission_signature (sv_crypto V) w (Some q)"
proof -
  have inv: "approvals_inv V s" unfolding s by (rule reachable_approvals [OF C])
  with w obtain r where r: "r \<in> set (ap_requests s)" and ok: "admission_ok V s r w" by (auto simp: approvals_inv_def)
  from inv r have rok: "request_ok V s r" by (simp add: approvals_inv_def)
  from ok have cols: "aw_tenant_id w = ar_tenant_id r" "aw_request_id w = ar_request_id r" "ar_status r = ''admitted''"
    "aw_tier w = ar_tier r" by (auto simp: admission_ok_def)
  have on: "x \<in> set (rows_where (decisions_on s r) v) \<longleftrightarrow>
      x \<in> set (ap_decisions s) \<and> ad_tenant_id x = aw_tenant_id w \<and> ad_request_id x = aw_request_id w \<and> ad_decision x = v" for x v
    by (auto simp: rows_where_def request_decisions_def cols)
  from ok have "2 \<le> card (approver_names (approvals_on s r))" by (simp add: admission_ok_def)
  then obtain d e where de: "d \<in> set (approvals_on s r)" "e \<in> set (approvals_on s r)"
    "casefold (ad_approver d) \<noteq> casefold (ad_approver e)" by (rule two_of_names)
  have "casefold (ar_requested_by r) \<notin> approver_names (approvals_on s r)" using rok by (simp add: request_ok_def)
  then have self: "casefold (ad_approver x) \<noteq> casefold (ar_requested_by r)" if "x \<in> set (approvals_on s r)" for x
    using that unfolding approver_names_def by (metis imageI)
  have "rows_where (decisions_on s r) ''reject'' = []" using rok cols(3) by (simp add: request_ok_def)
  then have "x \<notin> set (rows_where (decisions_on s r) ''reject'')" for x by simp
  moreover have "ad_decision x \<in> set DECISION_KINDS" if "x \<in> set (ap_decisions s)" for x
    using inv that by (simp add: approvals_inv_def)
  ultimately have yes: "\<forall>x \<in> set (ap_decisions s). ad_tenant_id x = aw_tenant_id w \<and> ad_request_id x = aw_request_id w
      \<longrightarrow> ad_decision x = ''approve''"
    unfolding on DECISION_KINDS_def by fastforce
  have legs: "aw_tier w = 4 \<longrightarrow> tier4_legs V r"
    using ok rok cols(4) by (auto simp: admission_ok_def request_ok_def)
  have "distinct (map aw_request_id (ap_admissions s))" using inv by (simp add: approvals_inv_def)
  then have "filter (\<lambda>v. aw_request_id v = aw_request_id w) (ap_admissions s) = [w]" by (rule filter_key_unique) (rule w)
  moreover have "verify_admission_signature (sv_crypto V) w (Some q)" using ok by (simp add: admission_ok_def)
  ultimately show ?thesis
    using r cols(1-3) de(3) de(1,2) [unfolded on] self [OF de(1)] self [OF de(2)] yes legs by (intro bexI [of _ r]) auto
qed

definition demo_board :: "(string, json) approval_service" where
  "demo_board = \<lparr>sv_crypto = demo_crypto, sv_signing_key = ''k'', sv_evaluator_subject = ''evaluator'', sv_tenant_policies = [],
     sv_str_of = (\<lambda>_. [])\<rparr>"

definition demo_person :: "string \<Rightarrow> principal" where
  "demo_person name = \<lparr>pr_identity = \<lparr>wid_role = RELEASE_CONTROLLER, wid_subject = name\<rparr>, pr_tenant_id = ''acme''\<rparr>"

definition demo_plugin_request :: "json approval_call" where
  "demo_plugin_request = Open_request (demo_person ''ann'') ''1'' 1 ''privileged_admission'' ''why'' None None (Some ''p'')
     (Some (''sha256:'' @ replicate 64 (CHR ''0''))) (Some ''adapter'') False False"

definition demo_approve :: "string \<Rightarrow> json approval_call" where
  "demo_approve name = Decide_request (demo_person name) name 2 (new_id ''apr'' ''1'') ''approve'' []"

abbreviation demo_board_after :: "json approval_call list \<Rightarrow> json approvals_db" where
  "demo_board_after cs \<equiv> run_calls (do_approval_call demo_board) cs (empty_approvals empty_registry)"

definition demo_review :: "json approval_call list" where
  "demo_review = [demo_plugin_request, demo_approve ''bob'', demo_approve ''carol'']"

definition demo_admit :: "json approval_call" where
  "demo_admit = Admit_request (demo_person ''ann'') ''x'' 3 (new_id ''apr'' ''1'')"

lemma demo_board_crypto: "crypto_laws (sv_crypto demo_board)"
  using demo_crypto_laws by (simp add: demo_board_def)

lemma admissions_rest_witness:
  "\<exists>r \<in> set (ap_requests (demo_board_after (demo_review @ [demo_admit]))). ar_status r = ''admitted''"
proof -
  have "ap_admissions (demo_board_after (demo_review @ [demo_admit])) \<noteq> []" by code_simp
  then have "hd (ap_admissions (demo_board_after (demo_review @ [demo_admit]))) \<in> set (ap_admissions (demo_board_after (demo_review @ [demo_admit])))"
    by (rule hd_in_set)
  from admissions_rest_on_two_approvers [OF demo_board_crypto refl this] show ?thesis by blast
qed

text \<open>A third approval locks a tier-3 promotion or a privileged admission out for good: the gates behind both demand
  exactly two approvals, approvals cannot be withdrawn, and a request may be approved by anyone who has not
  decided it yet as long as it is not admitted. Whatever is called afterwards, every admission of that request
  raises and no record for it exists.\<close>

theorem third_approval_locks_out:
  assumes C: "crypto_laws (sv_crypto V)" and s: "s = run_calls (do_approval_call V) cs (empty_approvals g)"
    and r: "r \<in> set (ap_requests s)" and kind: "ar_kind r \<noteq> ''tier4_promotion''"
    and three: "3 \<le> length (rows_where (request_decisions (ar_tenant_id r) (ar_request_id r) s) ''approve'')"
    and t: "t = run_calls (do_approval_call V) later s"
  shows "(\<exists>e. fst (admit V p uid now (ar_request_id r) t) = Inl e) \<and> (\<forall>w \<in> set (ap_admissions t). aw_request_id w \<noteq> ar_request_id r)"
proof -
  have none: "aw_request_id w \<noteq> ar_request_id r"
    if u: "u = run_calls (do_approval_call V) (cs @ ds) (empty_approvals g)" and w: "w \<in> set (ap_admissions u)" for ds u w
  proof
    assume same: "aw_request_id w = ar_request_id r"
    have inv: "approvals_inv V u" unfolding u by (rule reachable_approvals [OF C])
    with w obtain q where q: "q \<in> set (ap_requests u)" and ok: "admission_ok V u q w" by (auto simp: approvals_inv_def)
    have grow: "grows s u" unfolding u s run_calls_append by (rule run_grows)
    with r obtain q' where q': "q' \<in> set (ap_requests u)" "ar_tenant_id q' = ar_tenant_id r" "ar_request_id q' = ar_request_id r"
      "ar_kind q' = ar_kind r" unfolding grows_def by blast
    have "ar_request_id q = ar_request_id q'" using ok same q'(3) by (simp add: admission_ok_def)
    with inv q q'(1) have "q = q'" by (auto simp: approvals_inv_def distinct_map dest: inj_onD)
    with ok kind q' have "length (rows_where (request_decisions (ar_tenant_id r) (ar_request_id r) u) ''approve'') = 2"
      by (simp add: admission_ok_def)
    with approvals_grow [OF grow, of "ar_tenant_id r" "ar_request_id r" "''approve''"] three show False by simp
  qed
  have "fst (admit V p uid now (ar_request_id r) t) \<noteq> Inr w" for w
  proof
    assume "fst (admit V p uid now (ar_request_id r) t) = Inr w"
    from admit_result [OF this] none [OF refl, of w "later @ [Admit_request p uid now (ar_request_id r)]"]
    show False by (simp add: t s run_calls_append)
  qed
  then have "\<exists>e. fst (admit V p uid now (ar_request_id r) t) = Inl e"
    by (cases "fst (admit V p uid now (ar_request_id r) t)") auto
  moreover have "t = run_calls (do_approval_call V) (cs @ later) (empty_approvals g)" by (simp add: t s run_calls_append)
  ultimately show ?thesis using none by blast
qed

lemma third_approval_witness:
  "\<exists>e. fst (admit demo_board (demo_person ''ann'') ''x'' 9 (new_id ''apr'' ''1'') (demo_board_after (demo_review @ [demo_approve ''dave'', demo_admit]))) = Inl e"
proof -
  let ?s = "demo_board_after (demo_review @ [demo_approve ''dave''])"
  let ?r = "hd (ap_requests ?s)"
  have ne: "ap_requests ?s \<noteq> []" by code_simp
  have id: "ar_request_id ?r = new_id ''apr'' ''1''" by code_simp
  have kind: "ar_kind ?r \<noteq> ''tier4_promotion''" by code_simp
  have three: "3 \<le> length (rows_where (request_decisions (ar_tenant_id ?r) (ar_request_id ?r) ?s) ''approve'')" by code_simp
  have later: "demo_board_after (demo_review @ [demo_approve ''dave'', demo_admit]) = run_calls (do_approval_call demo_board) [demo_admit] ?s"
    by (simp add: run_calls_append)
  from third_approval_locks_out [OF demo_board_crypto refl hd_in_set [OF ne] kind three later] show ?thesis unfolding id by blast
qed

end
