(* ===== verification/SpecReading.thy ===== *)
theory SpecReading
  imports Graduation Tenancy
begin

text \<open>
  How a campaign spec is read (\<^verbatim>\<open>campaign/spec.py\<close>): Python's indexing and iteration on parsed values, the \<^verbatim>\<open>_require_*\<close>
  helpers, and the locale \<open>section_codec\<close>, which states what a section of the document owes it: what the canonical
  form wrote is read back, whatever the order of the keys.
\<close>

section \<open>Reading a mapping\<close>

definition spec_error :: "string \<Rightarrow> exn + 'a" where
  "spec_error why = Inl (Campaign (InvalidCampaignSpecError why))"

text \<open>\<^verbatim>\<open>j[k]\<close> on a parsed value, \<^verbatim>\<open>j.get(k)\<close>, and iterating over one.\<close>

definition item :: "json \<Rightarrow> string \<Rightarrow> exn + json" where
  "item j k = (case j of
       JObj kvs \<Rightarrow> (case map_of kvs k of None \<Rightarrow> Inl (KeyError k) | Some v \<Rightarrow> Inr v)
     | _ \<Rightarrow> Inl (TypeError ''not subscriptable by a string''))"

definition get_item :: "json \<Rightarrow> string \<Rightarrow> exn + json option" where
  "get_item j k = (case j of JObj kvs \<Rightarrow> Inr (map_of kvs k) | _ \<Rightarrow> Inl (AttributeError ''get''))"

definition get_or :: "json \<Rightarrow> string \<Rightarrow> json \<Rightarrow> exn + json" where
  "get_or j k d = res_bind (get_item j k) (\<lambda>v. Inr (case v of None \<Rightarrow> d | Some x \<Rightarrow> x))"

definition py_iter :: "json \<Rightarrow> exn + json list" where
  "py_iter j = (case j of
       JList xs \<Rightarrow> Inr xs
     | JStr s \<Rightarrow> Inr (map (\<lambda>c. JStr [c]) s)
     | JObj kvs \<Rightarrow> Inr (map (\<lambda>kv. JStr (fst kv)) kvs)
     | _ \<Rightarrow> Inl (TypeError ''not iterable''))"

definition require_str :: "json \<Rightarrow> exn + string" where
  "require_str j = (case j of JStr s \<Rightarrow> Inr s | _ \<Rightarrow> spec_error ''must be a string'')"

definition require_int :: "json \<Rightarrow> exn + int" where
  "require_int j = (case j of JInt i \<Rightarrow> Inr i | _ \<Rightarrow> spec_error ''must be an integer'')"

definition require_float :: "json \<Rightarrow> exn + rat" where
  "require_float j = (case j of JInt i \<Rightarrow> Inr (of_int i) | JFloat q \<Rightarrow> Inr q | _ \<Rightarrow> spec_error ''must be a number'')"

definition require_bool :: "json \<Rightarrow> exn + bool" where
  "require_bool j = (case j of JBool b \<Rightarrow> Inr b | _ \<Rightarrow> spec_error ''must be a boolean'')"

definition str_field :: "json \<Rightarrow> string \<Rightarrow> exn + string" where
  "str_field j k = res_bind (item j k) require_str"

definition int_field :: "json \<Rightarrow> string \<Rightarrow> exn + int" where
  "int_field j k = res_bind (item j k) require_int"

definition float_field :: "json \<Rightarrow> string \<Rightarrow> exn + rat" where
  "float_field j k = res_bind (item j k) require_float"

text \<open>A field that may be missing (\<^verbatim>\<open>if "k" in j\<close>) or null (\<^verbatim>\<open>if j.get("k") is not None\<close>).\<close>

definition present_str :: "json \<Rightarrow> string \<Rightarrow> exn + string option" where
  "present_str j k = (case json_get j k of None \<Rightarrow> Inr None | Some v \<Rightarrow> res_bind (require_str v) (\<lambda>s. Inr (Some s)))"

definition given_str :: "json \<Rightarrow> string \<Rightarrow> exn + string option" where
  "given_str j k = (case json_get j k of
       None \<Rightarrow> Inr None | Some JNull \<Rightarrow> Inr None | Some v \<Rightarrow> res_bind (require_str v) (\<lambda>s. Inr (Some s)))"

lemmas field_readers = str_field_def int_field_def float_field_def

section \<open>Shared checks\<close>

definition is_admissible_artifact_type :: "string \<Rightarrow> bool" where
  "is_admissible_artifact_type v \<longleftrightarrow> v \<in> set PLUGIN_ARTIFACT_TYPES \<or> is_scaffold_class v"

definition require_digest :: "string \<Rightarrow> exn + unit" where
  "require_digest v =
     (if \<not> prefix ''sha256:'' v \<or> \<not> (length (drop 7 v) = 64 \<and> list_all hex_digit (drop 7 v))
      then spec_error ''must be a sha256 digest'' else Inr ())"

definition require_pinned_image :: "string \<Rightarrow> exn + unit" where
  "require_pinned_image v = (if \<not> sublist ''@sha256:'' v then spec_error ''must be digest-pinned'' else Inr ())"

definition trimmed :: "string \<Rightarrow> bool" where
  "trimmed s \<longleftrightarrow> s \<noteq> [] \<and> s = py_strip s"

definition constructed :: "('a \<Rightarrow> exn + unit) \<Rightarrow> 'a \<Rightarrow> exn + 'a" where
  "constructed check x = res_bind (check x) (\<lambda>_. Inr x)"

lemma constructed_eq: "check x = Inr () \<Longrightarrow> y = x \<Longrightarrow> constructed check y = Inr x"
  by (simp add: constructed_def)

lemma constructedD: "constructed check x = Inr y \<Longrightarrow> y = x \<and> check x = Inr ()"
  by (auto simp: constructed_def res_bind_Inr)

section \<open>What a section owes the document\<close>

locale section_codec =
  fixes enc :: "'a \<Rightarrow> json" and dec :: "json \<Rightarrow> exn + 'a" and check :: "'a \<Rightarrow> exn + unit"
  assumes enc_wf: "json_wf (enc x)"
    and dec_enc: "check x = Inr () \<Longrightarrow> same_json j (enc x) \<Longrightarrow> dec j = Inr x"
begin

lemma dec_all:
  assumes "\<forall>x \<in> set xs. check x = Inr ()" "list_all2 same_json js (map enc xs)"
  shows "res_map dec js = Inr xs"
  using assms(2,1)
proof (induction xs arbitrary: js)
  case (Cons x xs)
  then obtain j js' where "js = j # js'" "same_json j (enc x)" "list_all2 same_json js' (map enc xs)"
    by (auto simp: list_all2_Cons2)
  with Cons dec_enc [of x j] show ?case by simp
qed simp

lemma enc_all_wf: "json_wf (JList (map enc xs))"
  by (simp add: list_all_iff enc_wf)

text \<open>A list of sections, as the document holds it.\<close>

lemma dec_section_list:
  assumes "\<forall>x \<in> set xs. check x = Inr ()" "same_json j (JList (map enc xs))"
  shows "\<exists>js. j = JList js \<and> length js = length xs \<and> res_map dec js = Inr xs"
proof -
  from same_json_list [OF assms(2)] obtain js where "j = JList js" and l: "list_all2 same_json js (map enc xs)" by blast
  with dec_all [OF assms(1) l] list_all2_lengthD [OF l] show ?thesis by simp
qed

end

text \<open>Reading the fields of an object that was written.\<close>

lemma read_written:
  assumes "same_json j (JObj kvs)" "map_of kvs k = Some v"
  shows "\<exists>w. json_get j k = Some w \<and> item j k = Inr w \<and> get_item j k = Inr (Some w) \<and> same_json w v"
proof -
  from same_json_obj(1) [OF assms(1)] obtain xs where xs: "j = JObj xs" ..
  from same_json_obj(2) [OF assms(1), of k] assms(2) obtain w where "json_get j k = Some w" "same_json w v"
    by (auto simp: option.rel_sel split: option.splits)
  then show ?thesis by (simp add: xs json_get_def item_def get_item_def)
qed

context section_codec
begin

lemma dec_field:
  assumes "check x = Inr ()" "same_json j (JObj kvs)" "map_of kvs k = Some (enc x)"
  shows "res_bind (item j k) dec = Inr x"
proof -
  from read_written [OF assms(2,3)] obtain w where "item j k = Inr w" "same_json w (enc x)" by blast
  with dec_enc [OF assms(1)] show ?thesis by simp
qed

lemma dec_list_field:
  assumes "\<forall>x \<in> set xs. check x = Inr ()" "same_json j (JObj kvs)" "map_of kvs k = Some (JList (map enc xs))"
  shows "\<exists>js. json_get j k = Some (JList js) \<and> item j k = Inr (JList js) \<and> length js = length xs \<and> res_map dec js = Inr xs"
proof -
  from read_written [OF assms(2,3)] obtain w where w: "json_get j k = Some w" "item j k = Inr w" "same_json w (JList (map enc xs))" by blast
  from dec_section_list [OF assms(1) w(3)] w show ?thesis by auto
qed

end

lemma read_unwritten:
  assumes "same_json j (JObj kvs)" "map_of kvs k = None"
  shows "json_get j k = None \<and> get_item j k = Inr None"
proof -
  from same_json_obj(1) [OF assms(1)] obtain xs where xs: "j = JObj xs" ..
  from same_json_obj(2) [OF assms(1), of k] assms(2) have "json_get j k = None" by (simp add: option.rel_sel)
  then show ?thesis by (simp add: xs json_get_def get_item_def)
qed

lemma read_str: "same_json j (JObj kvs) \<Longrightarrow> map_of kvs k = Some (JStr s) \<Longrightarrow> str_field j k = Inr s"
  using read_written [of j kvs k "JStr s"] by (auto simp: str_field_def same_json_atoms require_str_def)

lemma read_int: "same_json j (JObj kvs) \<Longrightarrow> map_of kvs k = Some (JInt n) \<Longrightarrow> int_field j k = Inr n"
  using read_written [of j kvs k "JInt n"] by (auto simp: int_field_def same_json_atoms require_int_def)

lemma read_float: "same_json j (JObj kvs) \<Longrightarrow> map_of kvs k = Some (JFloat q) \<Longrightarrow> float_field j k = Inr q"
  using read_written [of j kvs k "JFloat q"] by (auto simp: float_field_def same_json_atoms require_float_def)

lemma read_get: 
  "same_json j (JObj kvs) \<Longrightarrow> map_of kvs k = Some (JInt n) \<Longrightarrow> get_or j k d = Inr (JInt n)"
  "same_json j (JObj kvs) \<Longrightarrow> map_of kvs k = Some (JStr s) \<Longrightarrow> get_or j k d = Inr (JStr s)"
  "same_json j (JObj kvs) \<Longrightarrow> map_of kvs k = Some (JBool b) \<Longrightarrow> get_or j k d = Inr (JBool b)"
  using read_written [of j kvs k "JInt n"] read_written [of j kvs k "JStr s"] read_written [of j kvs k "JBool b"]
  by (auto simp: get_or_def same_json_atoms)

lemma read_optional:
  "same_json j (JObj kvs) \<Longrightarrow> map_of kvs k = Some (JStr s) \<Longrightarrow> present_str j k = Inr (Some s)"
  "same_json j (JObj kvs) \<Longrightarrow> map_of kvs k = None \<Longrightarrow> present_str j k = Inr None"
  "same_json j (JObj kvs) \<Longrightarrow> map_of kvs k = Some (json_opt_str v) \<Longrightarrow> given_str j k = Inr v"
  "same_json j (JObj kvs) \<Longrightarrow> map_of kvs k = None \<Longrightarrow> given_str j k = Inr None"
proof -
  assume j: "same_json j (JObj kvs)"
  show "map_of kvs k = Some (JStr s) \<Longrightarrow> present_str j k = Inr (Some s)"
    using read_written [OF j, of k "JStr s"] by (auto simp: present_str_def same_json_atoms require_str_def)
  show "map_of kvs k = None \<Longrightarrow> present_str j k = Inr None" "map_of kvs k = None \<Longrightarrow> given_str j k = Inr None"
    using read_unwritten [OF j, of k] by (auto simp: present_str_def given_str_def)
  show "map_of kvs k = Some (json_opt_str v) \<Longrightarrow> given_str j k = Inr v"
    using read_written [OF j, of k "json_opt_str v"]
    by (cases v) (auto simp: given_str_def same_json_atoms json_opt_str_def require_str_def)
qed

lemmas read_fields = read_str read_int read_float read_get read_optional

end
