(* ===== verification/ProtectedModules.thy ===== *)
theory ProtectedModules
  imports MutationMask
begin

text \<open>
  The protected-modules deny-list (\<^verbatim>\<open>security/protected_modules.py\<close>): the document and its validation, the match of
  module names and file paths against its roots, and its signature. \<^verbatim>\<open>str.isidentifier\<close> is modelled on ASCII.
\<close>

section \<open>The document\<close>

definition PROTECTED_MODULES_SCHEMA_ID :: string where
  "PROTECTED_MODULES_SCHEMA_ID = ''evoruntime.policy.protected-modules/v1''"

definition DEFAULT_PROTECTED_ROOTS :: "string list" where
  "DEFAULT_PROTECTED_ROOTS =
     [''evoruntime.security'', ''evoruntime.selection'', ''evoruntime.release'', ''evoruntime.sandbox'', ''evoruntime.dlp'',
      ''evoruntime.datasets'', ''evoruntime.sdk.attestation'']"

definition normalize_root :: "string \<Rightarrow> string" where
  "normalize_root r = rev (dropWhile (\<lambda>c. c = CHR ''.'') (rev (py_strip r)))"

definition ident_start :: "char \<Rightarrow> bool" where
  "ident_start c \<longleftrightarrow> c = CHR ''_'' \<or> (CHR ''a'' \<le> c \<and> c \<le> CHR ''z'') \<or> (CHR ''A'' \<le> c \<and> c \<le> CHR ''Z'')"

definition isidentifier :: "string \<Rightarrow> bool" where
  "isidentifier s = (case s of [] \<Rightarrow> False
     | c # cs \<Rightarrow> ident_start c \<and> list_all (\<lambda>d. ident_start d \<or> (CHR ''0'' \<le> d \<and> d \<le> CHR ''9'')) cs)"

record protected_document =
  pm_document_id :: string
  pm_document_version :: int
  pm_roots :: "string list"

definition protected_refused :: "string \<Rightarrow> exn + 'a" where
  "protected_refused why = Inl (ValueError why)"

definition new_protected_document :: "string \<Rightarrow> int \<Rightarrow> string list \<Rightarrow> exn + protected_document" where
  "new_protected_document document_id version raw_roots =
     (let roots = map normalize_root raw_roots
      in if document_id = [] then protected_refused ''document_id''
         else if version < 1 then protected_refused ''document_version''
         else if roots = [] then protected_refused ''at least one root''
         else if \<exists>r \<in> set roots. r = [] \<or> r \<noteq> normalize_root r
                    \<or> \<not> list_all (\<lambda>s. s \<noteq> [] \<and> isidentifier s) (split_on (CHR ''.'') r)
           then protected_refused ''not a dotted module prefix''
         else if \<not> distinct roots then protected_refused ''duplicate protected root''
         else Inr \<lparr>pm_document_id = document_id, pm_document_version = version, pm_roots = roots\<rparr>)"

definition default_document :: protected_document where
  "default_document = \<lparr>pm_document_id = ''evoruntime-default-protected-modules'', pm_document_version = 1,
     pm_roots = DEFAULT_PROTECTED_ROOTS\<rparr>"

section \<open>What it covers\<close>

definition covers :: "protected_document \<Rightarrow> string \<Rightarrow> string option" where
  "covers d module_name = find (\<lambda>r. module_name = r \<or> prefix (r @ ''.'') module_name) (pm_roots d)"

definition path_segments :: "string \<Rightarrow> string list" where
  "path_segments path =
     filter (\<lambda>s. s \<noteq> []) (split_on (CHR ''/'') (map (\<lambda>c. if c = CHR 0x5C then CHR ''/'' else c) (py_strip path)))"

definition drop_py :: "string list \<Rightarrow> string list" where
  "drop_py segments =
     (if segments \<noteq> [] \<and> suffix ''.py'' (last segments)
      then butlast segments @ [take (length (last segments) - 3) (last segments)] else segments)"

definition path_to_module :: "string \<Rightarrow> string" where
  "path_to_module path =
     (let segments = path_segments path;
          segments = (if segments \<noteq> [] \<and> hd segments = ''src'' then tl segments else segments)
      in join_with (CHR ''.'') (drop_py segments))"

definition covers_path :: "protected_document \<Rightarrow> string \<Rightarrow> string option" where
  "covers_path d path = covers d (path_to_module path)"

section \<open>Its bytes and signature\<close>

definition protected_json :: "protected_document \<Rightarrow> json" where
  "protected_json d = JObj
     [(''schema_id'', JStr PROTECTED_MODULES_SCHEMA_ID), (''document_id'', JStr (pm_document_id d)),
      (''document_version'', JInt (pm_document_version d)), (''roots'', JList (map JStr (sort (pm_roots d))))]"

definition protected_bytes :: "('k, 'b) crypto \<Rightarrow> protected_document \<Rightarrow> 'b" where
  "protected_bytes C d = canonical_json C (protected_json d)"

definition protected_digest :: "('k, 'b) crypto \<Rightarrow> protected_document \<Rightarrow> string" where
  "protected_digest C d = sha256_digest C (protected_bytes C d)"

record 'b signed_protected =
  sp_document :: protected_document
  sp_digest :: string
  sp_signature :: 'b
  sp_public_key :: 'b

definition protected_verifies :: "('k, 'b) crypto \<Rightarrow> 'b signed_protected \<Rightarrow> bool" where
  "protected_verifies C s =
     (if sp_digest s \<noteq> protected_digest C (sp_document s) then False
      else verify C \<lparr>ds_signature = sp_signature s, ds_public_key = sp_public_key s\<rparr> (protected_bytes C (sp_document s)))"

definition sign_protected_modules :: "('k, 'b) crypto \<Rightarrow> protected_document \<Rightarrow> 'k \<Rightarrow> 'b signed_protected" where
  "sign_protected_modules C d key =
     (let detached = sign C key (protected_bytes C d)
      in \<lparr>sp_document = d, sp_digest = protected_digest C d, sp_signature = ds_signature detached,
          sp_public_key = ds_public_key detached\<rparr>)"

definition verify_protected_modules :: "('k, 'b) crypto \<Rightarrow> 'b signed_protected \<Rightarrow> exn + unit" where
  "verify_protected_modules C s =
     (if protected_verifies C s then Inr () else protected_refused ''no valid signature over its canonical bytes'')"

section \<open>Matching whole segments\<close>

lemma split_on_Cons: "split_on c s = hd (split_on c s) # tl (split_on c s)"
  by (simp add: split_on_not_Nil)

lemma prefix_split_on:
  "m = r \<or> prefix (r @ [c]) m \<longleftrightarrow> prefix (split_on c r) (split_on c m)"
proof (induction r arbitrary: m)
  case Nil
  then show ?case
    using split_on_not_Nil [of c "tl m"] by (cases m) (auto split: list.splits)
next
  case (Cons x r)
  show ?case
  proof (cases m)
    case Nil
    then show ?thesis using split_on_not_Nil [of c r] by (auto split: list.splits)
  next
    case m: (Cons y m')
    obtain a as where a: "split_on c r = a # as" using split_on_not_Nil by (meson neq_Nil_conv)
    obtain b bs where b: "split_on c m' = b # bs" using split_on_not_Nil by (meson neq_Nil_conv)
    show ?thesis using Cons.IH [of m'] by (auto simp: m a b)
  qed
qed

lemma covers_segments:
  "covers d m \<noteq> None \<longleftrightarrow> (\<exists>r \<in> set (pm_roots d). prefix (split_on (CHR ''.'') r) (split_on (CHR ''.'') m))"
  unfolding covers_def prefix_split_on [symmetric] by (auto simp: find_None_iff)

lemma new_document_roots:
  assumes "new_protected_document i v raw = Inr d" "r \<in> set (pm_roots d)"
  shows "list_all isidentifier (split_on (CHR ''.'') r)"
  using assms by (auto simp: new_protected_document_def protected_refused_def Let_def list_all_iff split: if_splits)

text \<open>A leading \<^verbatim>\<open>.\<close> segment leaves the module name outside every root.\<close>

lemma path_segments_dot: "\<exists>ss. path_segments (''./'' @ p) = ''.'' # ss"
proof -
  have "py_strip (''./'' @ p) = ''.'' @ rev (dropWhile py_space (rev (CHR ''/'' # p)))"
  proof -
    have s: "\<not> py_space (CHR ''.'')" "\<not> py_space (CHR ''/'')" by code_simp+
    have "dropWhile py_space (rev p @ [CHR ''/'', CHR ''.'']) = dropWhile py_space (rev p @ [CHR ''/'']) @ [CHR ''.'']"
      using dropWhile_append1 [of "CHR ''/''" "rev p @ [CHR ''/'']" py_space "[CHR ''.'']"] s by simp
    with s show ?thesis by (simp add: py_strip_def)
  qed
  moreover obtain q where "rev (dropWhile py_space (rev (CHR ''/'' # p))) = CHR ''/'' # q"
  proof -
    have "\<not> py_space (CHR ''/'')" by code_simp
    then have "dropWhile py_space (rev p @ [CHR ''/'']) = dropWhile py_space (rev p) @ [CHR ''/'']"
      by (induction "rev p" rule: rev_induct) (simp_all add: dropWhile_append3)
    then show ?thesis using that by simp
  qed
  ultimately have "py_strip (''./'' @ p) = ''./'' @ q" by simp
  then show ?thesis by (simp add: path_segments_def)
qed

lemma dot_module: "\<exists>m. path_to_module (''./'' @ p) = CHR ''.'' # m"
proof -
  obtain ss where ss: "path_segments (''./'' @ p) = ''.'' # ss" using path_segments_dot by blast
  have "drop_py (''.'' # ss) = ''.'' # (if ss = [] then [] else drop_py ss)"
    by (auto simp: drop_py_def suffix_def)
  then show ?thesis unfolding path_to_module_def ss by (simp add: join_with_def)
qed

lemma dot_paths_not_covered:
  assumes "new_protected_document i v raw = Inr d"
  shows "covers_path d (''./'' @ p) = None"
proof -
  obtain m where m: "path_to_module (''./'' @ p) = CHR ''.'' # m" using dot_module by blast
  have "r \<noteq> CHR ''.'' # q \<and> \<not> prefix (r @ ''.'') (CHR ''.'' # m)" if r: "r \<in> set (pm_roots d)" for r q
  proof -
    from new_document_roots [OF assms r] have "isidentifier (hd (split_on (CHR ''.'') r))"
      by (subst (asm) split_on_Cons) simp
    then have "r \<noteq> []" "hd r \<noteq> CHR ''.''"
      by (cases r; auto simp: isidentifier_def ident_start_def split: if_splits list.splits)+
    then show ?thesis by (cases r) auto
  qed
  then show ?thesis unfolding covers_path_def covers_def m by (auto simp: find_None_iff)
qed

lemma default_document_new:
  "new_protected_document ''evoruntime-default-protected-modules'' 1 DEFAULT_PROTECTED_ROOTS = Inr default_document"
proof -
  have "map normalize_root DEFAULT_PROTECTED_ROOTS = DEFAULT_PROTECTED_ROOTS" by code_simp
  moreover have "\<forall>r \<in> set DEFAULT_PROTECTED_ROOTS. r \<noteq> [] \<and> r = normalize_root r \<and> list_all (\<lambda>s. s \<noteq> [] \<and> isidentifier s) (split_on (CHR ''.'') r)"
    by code_simp
  moreover have "distinct DEFAULT_PROTECTED_ROOTS" "DEFAULT_PROTECTED_ROOTS \<noteq> []" by code_simp+
  ultimately show ?thesis by (auto simp: new_protected_document_def default_document_def)
qed

lemma signed_document_verifies: "crypto_laws C \<Longrightarrow> verify_protected_modules C (sign_protected_modules C d k) = Inr ()"
  by (simp add: verify_protected_modules_def protected_verifies_def sign_protected_modules_def Let_def sign_def verify_def)

end
