(* ===== verification/SpecSections.thy ===== *)
theory SpecSections
  imports SpecReading ProtectedModules Budgets Compensation Statistics Holdout
begin

text \<open>
  The sections of a campaign spec (\<^verbatim>\<open>campaign/spec.py\<close>, the arms of \<^verbatim>\<open>eval/experiment.py\<close>): for each its record, the
  check its constructor makes (\<^verbatim>\<open>__post_init__\<close>), its canonical form and its parser, and the interpretation of
  \<open>section_codec\<close> on them. Messages are shortened.
\<close>

section \<open>Incumbent and mutation surface\<close>

record incumbent_binding =
  ib_release_manifest_digest :: string
  ib_artifact_type :: string

definition check_incumbent :: "incumbent_binding \<Rightarrow> exn + unit" where
  "check_incumbent b =
     res_bind (require_digest (ib_release_manifest_digest b)) (\<lambda>_.
       if \<not> is_admissible_artifact_type (ib_artifact_type b) then spec_error ''incumbent artifact_type'' else Inr ())"

definition incumbent_json :: "incumbent_binding \<Rightarrow> json" where
  "incumbent_json b = JObj [(''release_manifest_digest'', JStr (ib_release_manifest_digest b)),
     (''artifact_type'', JStr (ib_artifact_type b))]"

definition parse_incumbent :: "json \<Rightarrow> exn + incumbent_binding" where
  "parse_incumbent j =
     res_bind (str_field j ''release_manifest_digest'') (\<lambda>digest.
     res_bind (str_field j ''artifact_type'') (\<lambda>kind.
       constructed check_incumbent \<lparr>ib_release_manifest_digest = digest, ib_artifact_type = kind\<rparr>))"

record mutable_artifact =
  ma_artifact_type :: string
  ma_paths :: "string list"

definition validate_mask_path :: "string \<Rightarrow> exn + unit" where
  "validate_mask_path path =
     (if path = [] \<or> path \<noteq> py_strip path then spec_error ''must be non-empty and trimmed''
      else if prefix ''/'' path \<or> (1 < length path \<and> path ! 1 = CHR '':'') then spec_error ''is absolute''
      else if ''..'' \<in> set (split_on (CHR ''/'') path) then spec_error ''contains traversal'' else Inr ())"

definition check_mutable_artifact :: "mutable_artifact \<Rightarrow> exn + unit" where
  "check_mutable_artifact a =
     (if \<not> is_admissible_artifact_type (ma_artifact_type a) then spec_error ''mutable artifact_type''
      else if ma_paths a = [] then spec_error ''at least one mutable path''
      else res_bind (res_map validate_mask_path (ma_paths a)) (\<lambda>_.
        if list_ex (\<lambda>p. covers_path default_document p \<noteq> None) (ma_paths a)
        then spec_error ''maps under the protected module'' else Inr ()))"

definition mutable_artifact_json :: "mutable_artifact \<Rightarrow> json" where
  "mutable_artifact_json a = JObj [(''artifact_type'', JStr (ma_artifact_type a)), (''paths'', JList (map JStr (ma_paths a)))]"

definition parse_mutable_artifact :: "json \<Rightarrow> exn + mutable_artifact" where
  "parse_mutable_artifact j =
     res_bind (str_field j ''artifact_type'') (\<lambda>kind.
     res_bind (res_bind (item j ''paths'') py_iter) (\<lambda>entries.
     res_bind (res_map require_str entries) (\<lambda>paths.
       constructed check_mutable_artifact \<lparr>ma_artifact_type = kind, ma_paths = paths\<rparr>)))"

definition check_artifact_set :: "mutable_artifact list \<Rightarrow> exn + unit" where
  "check_artifact_set as =
     (if as = [] then spec_error ''at least one mutable artifact''
      else if \<not> distinct (map ma_artifact_type as) then spec_error ''duplicate artifact_type'' else Inr ())"

record mutation_class_binding =
  mb_class_id :: string
  mb_risk_dossier_digest :: string
  mb_max_tier :: isolation_tier

definition check_mutation_class :: "mutation_class_binding \<Rightarrow> exn + unit" where
  "check_mutation_class b =
     (if \<not> trimmed (mb_class_id b) then spec_error ''class_id must be non-empty and trimmed''
      else require_digest (mb_risk_dossier_digest b))"

definition mutation_class_json :: "mutation_class_binding \<Rightarrow> json" where
  "mutation_class_json b = JObj [(''class_id'', JStr (mb_class_id b)), (''risk_dossier_digest'', JStr (mb_risk_dossier_digest b)),
     (''max_tier'', JStr (isolation_value (mb_max_tier b)))]"

definition require_isolation_tier :: "json \<Rightarrow> exn + isolation_tier" where
  "require_isolation_tier j = (case j of
       JStr s \<Rightarrow> (case isolation_of_value s of None \<Rightarrow> spec_error ''not an isolation tier'' | Some t \<Rightarrow> Inr t)
     | _ \<Rightarrow> spec_error ''must be a string'')"

definition parse_mutation_class :: "json \<Rightarrow> exn + mutation_class_binding" where
  "parse_mutation_class j =
     res_bind (str_field j ''class_id'') (\<lambda>class_id.
     res_bind (str_field j ''risk_dossier_digest'') (\<lambda>digest.
     res_bind (res_bind (item j ''max_tier'') require_isolation_tier) (\<lambda>tier.
       constructed check_mutation_class \<lparr>mb_class_id = class_id, mb_risk_dossier_digest = digest, mb_max_tier = tier\<rparr>)))"

section \<open>Compensation plan\<close>

record compensation_action_spec = spec_action +
  ca_hook_image :: "string option"

definition check_compensation_action :: "compensation_action_spec \<Rightarrow> exn + unit" where
  "check_compensation_action a =
     (if sa_artifact_type a \<notin> set PLUGIN_ARTIFACT_TYPES then spec_error ''compensation artifact_type''
      else (case action_kind_of_value (sa_action a) of
        None \<Rightarrow> spec_error ''not a declared compensating action''
      | Some RUN_COMPENSATION_HOOK \<Rightarrow>
          (case ca_hook_image a of None \<Rightarrow> spec_error ''must pin its hook image'' | Some h \<Rightarrow> require_pinned_image h)
      | Some k \<Rightarrow>
          if ca_hook_image a \<noteq> None then spec_error ''takes no hook_image''
          else if k \<in> {RERUN_CONFORMANCE_SUITE, RESTORE_SCAFFOLD_SOURCE} \<and> sa_artifact_type a \<noteq> ''scaffold''
            then spec_error ''scaffold-specific compensations name the scaffold class''
          else Inr ()))"

definition compensation_action_json :: "compensation_action_spec \<Rightarrow> json" where
  "compensation_action_json a = JObj ([(''artifact_type'', JStr (sa_artifact_type a)), (''action'', JStr (sa_action a))]
     @ (case ca_hook_image a of None \<Rightarrow> [] | Some h \<Rightarrow> [(''hook_image'', JStr h)]))"

definition parse_compensation_action :: "json \<Rightarrow> exn + compensation_action_spec" where
  "parse_compensation_action j =
     res_bind (str_field j ''artifact_type'') (\<lambda>kind.
     res_bind (str_field j ''action'') (\<lambda>action.
     res_bind (given_str j ''hook_image'') (\<lambda>hook.
       constructed check_compensation_action \<lparr>sa_artifact_type = kind, sa_action = action, ca_hook_image = hook\<rparr>)))"

definition duplicated :: "string list \<Rightarrow> string list" where
  "duplicated xs = sort (dedupe (filter (\<lambda>x. 1 < count_list xs x) xs))"

definition index_of :: "'a \<Rightarrow> 'a list \<Rightarrow> nat" where
  "index_of x xs = length (takeWhile (\<lambda>y. y \<noteq> x) xs)"

definition scaffold_rollback_order :: "compensation_action_spec list \<Rightarrow> exn + unit" where
  "scaffold_rollback_order as =
     (let scaffold_actions = map sa_action (filter (\<lambda>a. sa_artifact_type a = ''scaffold'') as);
          restore = ''restore_scaffold_source''; rerun = ''rerun_conformance_suite''
      in if length scaffold_actions < 2 then Inr ()
         else if sort scaffold_actions \<noteq> sort [restore, rerun] then spec_error ''the only allowed pair''
         else if index_of rerun scaffold_actions < index_of restore scaffold_actions
           then spec_error ''the rerun must follow the source restore'' else Inr ())"

definition check_compensation_plan :: "compensation_action_spec list \<Rightarrow> exn + unit" where
  "check_compensation_plan as =
     (let duplicates = duplicated (map sa_artifact_type as)
      in if as = [] then spec_error ''at least one action''
         else if duplicates \<noteq> [] \<and> duplicates \<noteq> [''scaffold''] then spec_error ''duplicate artifact_type in the compensation plan''
         else scaffold_rollback_order as)"

definition compensation_plan_json :: "compensation_action_spec list \<Rightarrow> json" where
  "compensation_plan_json as = JObj [(''actions'', JList (map compensation_action_json as))]"

definition parse_compensation_plan :: "json \<Rightarrow> exn + compensation_action_spec list option" where
  "parse_compensation_plan raw =
     (case json_get raw ''compensation_plan'' of
        None \<Rightarrow> Inr None
      | Some JNull \<Rightarrow> Inr None
      | Some section \<Rightarrow>
          (case section of
             JObj _ \<Rightarrow> (case json_get section ''actions'' of
                Some (JList entries) \<Rightarrow>
                  if entries = [] then spec_error ''non-empty ordered actions list''
                  else res_bind (res_map parse_compensation_action entries) (\<lambda>as.
                    res_bind (constructed check_compensation_plan as) (\<lambda>as. Inr (Some as)))
              | _ \<Rightarrow> spec_error ''non-empty ordered actions list'')
           | _ \<Rightarrow> spec_error ''compensation_plan must be a mapping''))"

section \<open>Strategy, data, evaluators\<close>

record strategy_binding =
  sb_plugin_id :: string
  sb_pinned_image :: string

definition check_strategy :: "strategy_binding \<Rightarrow> exn + unit" where
  "check_strategy b = (if sb_plugin_id b = [] then spec_error ''strategy plugin_id'' else require_pinned_image (sb_pinned_image b))"

definition strategy_json :: "strategy_binding \<Rightarrow> json" where
  "strategy_json b = JObj [(''plugin_id'', JStr (sb_plugin_id b)), (''pinned_image'', JStr (sb_pinned_image b))]"

definition parse_strategy :: "json \<Rightarrow> exn + strategy_binding" where
  "parse_strategy j =
     res_bind (str_field j ''plugin_id'') (\<lambda>plugin. res_bind (str_field j ''pinned_image'') (\<lambda>image.
       constructed check_strategy \<lparr>sb_plugin_id = plugin, sb_pinned_image = image\<rparr>))"

record dataset_bindings =
  db_dev_partition :: string
  db_selection_partition :: string
  db_holdout_handle :: string

definition check_datasets :: "dataset_bindings \<Rightarrow> exn + unit" where
  "check_datasets b =
     (if db_dev_partition b = [] \<or> db_selection_partition b = [] then spec_error ''dataset bindings must name both partitions''
      else if \<not> prefix HANDLE_PREFIX (db_holdout_handle b) then spec_error ''holdout binding must be a sealed D5 handle''
      else Inr ())"

definition datasets_json :: "dataset_bindings \<Rightarrow> json" where
  "datasets_json b = JObj [(''dev_partition'', JStr (db_dev_partition b)), (''selection_partition'', JStr (db_selection_partition b)),
     (''holdout_handle'', JStr (db_holdout_handle b))]"

definition parse_datasets :: "json \<Rightarrow> exn + dataset_bindings" where
  "parse_datasets j =
     res_bind (str_field j ''dev_partition'') (\<lambda>dev. res_bind (str_field j ''selection_partition'') (\<lambda>selection.
     res_bind (str_field j ''holdout_handle'') (\<lambda>handle.
       constructed check_datasets \<lparr>db_dev_partition = dev, db_selection_partition = selection, db_holdout_handle = handle\<rparr>)))"

datatype evaluator_cost_class = CHEAP | STANDARD | EXPENSIVE

fun cost_class_value :: "evaluator_cost_class \<Rightarrow> string" where
  "cost_class_value CHEAP = ''cheap''" | "cost_class_value STANDARD = ''standard''" | "cost_class_value EXPENSIVE = ''expensive''"

definition cost_class_of_value :: "string \<Rightarrow> exn + evaluator_cost_class" where
  "cost_class_of_value v = (case find (\<lambda>c. cost_class_value c = v) [CHEAP, STANDARD, EXPENSIVE] of
     None \<Rightarrow> Inl (ValueError ''EvaluatorCostClass'') | Some c \<Rightarrow> Inr c)"

lemma cost_class_of_value [simp]: "cost_class_of_value (cost_class_value c) = Inr c"
  by (cases c) (simp_all add: cost_class_of_value_def)

record evaluator_binding =
  eb_name :: string
  eb_pinned_image :: string
  eb_stage :: int
  eb_cost_class :: evaluator_cost_class
  eb_short_circuit :: bool

definition check_evaluator :: "evaluator_binding \<Rightarrow> exn + unit" where
  "check_evaluator b =
     (if eb_name b = [] then spec_error ''evaluator name''
      else res_bind (require_pinned_image (eb_pinned_image b)) (\<lambda>_.
        if eb_stage b < 0 then spec_error ''stage must be >= 0'' else Inr ()))"

definition evaluator_json :: "evaluator_binding \<Rightarrow> json" where
  "evaluator_json b = JObj [(''name'', JStr (eb_name b)), (''pinned_image'', JStr (eb_pinned_image b)), (''stage'', JInt (eb_stage b)),
     (''cost_class'', JStr (cost_class_value (eb_cost_class b))), (''short_circuit'', JBool (eb_short_circuit b))]"

definition parse_evaluator :: "json \<Rightarrow> exn + evaluator_binding" where
  "parse_evaluator j =
     res_bind (str_field j ''name'') (\<lambda>name. res_bind (str_field j ''pinned_image'') (\<lambda>image.
     res_bind (res_bind (get_or j ''stage'' (JInt 0)) require_int) (\<lambda>stage.
     res_bind (res_bind (res_bind (get_or j ''cost_class'' (JStr (cost_class_value CHEAP))) require_str) cost_class_of_value) (\<lambda>cost.
     res_bind (res_bind (get_or j ''short_circuit'' (JBool True)) require_bool) (\<lambda>short.
       constructed check_evaluator \<lparr>eb_name = name, eb_pinned_image = image, eb_stage = stage, eb_cost_class = cost,
         eb_short_circuit = short\<rparr>)))))"

section \<open>Budgets, stopping, policy, statistics\<close>

definition DEFAULT_MAX_SANDBOX_EXECUTIONS :: int where
  "DEFAULT_MAX_SANDBOX_EXECUTIONS = 240"

definition budgets_json :: "campaign_budgets \<Rightarrow> json" where
  "budgets_json b = JObj [(''task_budget_profile'', JStr (task_budget_profile b)), (''max_proposals'', JInt (cb_max_proposals b)),
     (''max_model_tokens'', JInt (cb_max_model_tokens b)), (''max_wall_clock_minutes'', JFloat (cb_max_wall_clock_minutes b)),
     (''max_sandbox_executions'', JInt (cb_max_sandbox_executions b))]"

definition parse_budgets :: "json \<Rightarrow> exn + campaign_budgets" where
  "parse_budgets j =
     res_bind (str_field j ''task_budget_profile'') (\<lambda>profile. res_bind (int_field j ''max_proposals'') (\<lambda>proposals.
     res_bind (int_field j ''max_model_tokens'') (\<lambda>tokens. res_bind (float_field j ''max_wall_clock_minutes'') (\<lambda>minutes.
     res_bind (res_bind (get_or j ''max_sandbox_executions'' (JInt DEFAULT_MAX_SANDBOX_EXECUTIONS)) require_int) (\<lambda>executions.
       new_campaign_budgets profile proposals tokens minutes executions)))))"

definition check_budgets :: "campaign_budgets \<Rightarrow> exn + unit" where
  "check_budgets b =
     res_bind (new_campaign_budgets (task_budget_profile b) (cb_max_proposals b) (cb_max_model_tokens b)
       (cb_max_wall_clock_minutes b) (cb_max_sandbox_executions b)) (\<lambda>_. Inr ())"

record stopping_rules =
  sr_max_rounds :: int
  sr_max_no_improvement_rounds :: int

definition check_stopping :: "stopping_rules \<Rightarrow> exn + unit" where
  "check_stopping r =
     (if sr_max_rounds r < 1 then spec_error ''max_rounds'' else if sr_max_no_improvement_rounds r < 1
      then spec_error ''max_no_improvement_rounds'' else Inr ())"

definition stopping_json :: "stopping_rules \<Rightarrow> json" where
  "stopping_json r = JObj [(''max_rounds'', JInt (sr_max_rounds r)),
     (''max_no_improvement_rounds'', JInt (sr_max_no_improvement_rounds r))]"

definition parse_stopping :: "json \<Rightarrow> exn + stopping_rules" where
  "parse_stopping j =
     res_bind (int_field j ''max_rounds'') (\<lambda>rounds. res_bind (int_field j ''max_no_improvement_rounds'') (\<lambda>idle.
       constructed check_stopping \<lparr>sr_max_rounds = rounds, sr_max_no_improvement_rounds = idle\<rparr>))"

record promotion_policy_ref =
  pp_policy_id :: string
  pp_policy_digest :: string

definition check_policy_ref :: "promotion_policy_ref \<Rightarrow> exn + unit" where
  "check_policy_ref r = (if pp_policy_id r = [] then spec_error ''promotion policy_id'' else require_digest (pp_policy_digest r))"

definition policy_ref_json :: "promotion_policy_ref \<Rightarrow> json" where
  "policy_ref_json r = JObj [(''policy_id'', JStr (pp_policy_id r)), (''policy_digest'', JStr (pp_policy_digest r))]"

definition parse_policy_ref :: "json \<Rightarrow> exn + promotion_policy_ref" where
  "parse_policy_ref j =
     res_bind (str_field j ''policy_id'') (\<lambda>policy. res_bind (str_field j ''policy_digest'') (\<lambda>digest.
       constructed check_policy_ref \<lparr>pp_policy_id = policy, pp_policy_digest = digest\<rparr>))"

fun multiplicity_value :: "multiplicity_method \<Rightarrow> string" where
  "multiplicity_value BONFERRONI = ''bonferroni''" | "multiplicity_value NO_CORRECTION = ''none''"

definition multiplicity_of_value :: "string \<Rightarrow> exn + multiplicity_method" where
  "multiplicity_of_value v = (case find (\<lambda>m. multiplicity_value m = v) [BONFERRONI, NO_CORRECTION] of
     None \<Rightarrow> Inl (ValueError ''MultiplicityMethod'') | Some m \<Rightarrow> Inr m)"

lemma multiplicity_of_value [simp]: "multiplicity_of_value (multiplicity_value m) = Inr m"
  by (cases m) (simp_all add: multiplicity_of_value_def)

record statistics_plan =
  st_alpha :: rat
  st_multiplicity :: multiplicity_method
  st_bootstrap_iterations :: int
  st_bootstrap_seed :: int
  st_ablation_family :: "string list"
  st_required_sample_size :: "int option"

definition check_statistics :: "statistics_plan \<Rightarrow> exn + unit" where
  "check_statistics p =
     (if (case st_required_sample_size p of None \<Rightarrow> False | Some n \<Rightarrow> n < 1) then spec_error ''required_sample_size''
      else if \<not> list_all trimmed (st_ablation_family p) then spec_error ''ablation family entries must be non-empty and trimmed''
      else if \<not> distinct (st_ablation_family p) then spec_error ''duplicate component in the ablation family''
      else if \<not> (0 < st_alpha p \<and> st_alpha p < 1) then spec_error ''alpha must be in (0, 1)''
      else if st_bootstrap_iterations p < MIN_BOOTSTRAP_ITERATIONS then spec_error ''bootstrap_iterations''
      else Inr ())"

definition statistics_json :: "statistics_plan \<Rightarrow> json" where
  "statistics_json p = JObj ([(''alpha'', JFloat (st_alpha p)), (''multiplicity'', JStr (multiplicity_value (st_multiplicity p))),
     (''bootstrap_iterations'', JInt (st_bootstrap_iterations p)), (''bootstrap_seed'', JInt (st_bootstrap_seed p)),
     (''ablation_family'', JList (map JStr (st_ablation_family p)))]
     @ (case st_required_sample_size p of None \<Rightarrow> [] | Some n \<Rightarrow> [(''required_sample_size'', JInt n)]))"

definition parse_sample_size :: "json \<Rightarrow> exn + int option" where
  "parse_sample_size j = (case json_get j ''required_sample_size'' of
       None \<Rightarrow> Inr None | Some JNull \<Rightarrow> Inr None | Some v \<Rightarrow> res_bind (require_int v) (\<lambda>n. Inr (Some n)))"

definition parse_statistics :: "json \<Rightarrow> exn + statistics_plan" where
  "parse_statistics j =
     res_bind (float_field j ''alpha'') (\<lambda>alpha.
     res_bind (res_bind (str_field j ''multiplicity'') multiplicity_of_value) (\<lambda>multiplicity.
     res_bind (int_field j ''bootstrap_iterations'') (\<lambda>iterations. res_bind (int_field j ''bootstrap_seed'') (\<lambda>seed.
     res_bind (res_bind (get_or j ''ablation_family'' (JList [])) py_iter) (\<lambda>components.
     res_bind (res_map require_str components) (\<lambda>family.
     res_bind (parse_sample_size j) (\<lambda>sample.
       constructed check_statistics \<lparr>st_alpha = alpha, st_multiplicity = multiplicity, st_bootstrap_iterations = iterations,
         st_bootstrap_seed = seed, st_ablation_family = family, st_required_sample_size = sample\<rparr>)))))))"

section \<open>Arms\<close>

datatype arm_kind =
    ARM_INCUMBENT | ARM_RETRY_SELF_CONSISTENCY | ARM_ONE_SHOT_CONTROL | ARM_STRATEGY | ARM_ABLATION | ARM_FIXED_EDITOR

fun arm_kind_value :: "arm_kind \<Rightarrow> string" where
  "arm_kind_value ARM_INCUMBENT = ''incumbent''"
| "arm_kind_value ARM_RETRY_SELF_CONSISTENCY = ''retry-self-consistency''"
| "arm_kind_value ARM_ONE_SHOT_CONTROL = ''one-shot-control''"
| "arm_kind_value ARM_STRATEGY = ''strategy''"
| "arm_kind_value ARM_ABLATION = ''ablation''"
| "arm_kind_value ARM_FIXED_EDITOR = ''fixed-editor''"

definition arm_kind_of_value :: "string \<Rightarrow> exn + arm_kind" where
  "arm_kind_of_value v = (case find (\<lambda>k. arm_kind_value k = v)
       [ARM_INCUMBENT, ARM_RETRY_SELF_CONSISTENCY, ARM_ONE_SHOT_CONTROL, ARM_STRATEGY, ARM_ABLATION, ARM_FIXED_EDITOR] of
     None \<Rightarrow> Inl (ValueError ''ArmKind'') | Some k \<Rightarrow> Inr k)"

lemma arm_kind_of_value [simp]: "arm_kind_of_value (arm_kind_value k) = Inr k"
  by (cases k) (simp_all add: arm_kind_of_value_def)

record arm =
  arm_id :: string
  arm_kind_of :: arm_kind
  arm_max_attempts :: int
  arm_component_id :: "string option"
  arm_editor_ref :: "string option"

definition arm_error :: "string \<Rightarrow> exn + 'a" where
  "arm_error why = Inl (Eval (ExperimentDefinitionError why))"

definition is_named :: "string option \<Rightarrow> bool" where
  "is_named v = (case v of None \<Rightarrow> False | Some s \<Rightarrow> s \<noteq> [])"

definition check_arm :: "arm \<Rightarrow> exn + unit" where
  "check_arm a =
     (if arm_id a = [] then arm_error ''arm id must be non-empty''
      else if arm_kind_of a = ARM_ABLATION \<and> \<not> is_named (arm_component_id a)
        then arm_error ''an ablation arm must name the component it removes''
      else if arm_kind_of a \<noteq> ARM_ABLATION \<and> arm_component_id a \<noteq> None then arm_error ''component_id''
      else if arm_kind_of a = ARM_FIXED_EDITOR \<and> \<not> is_named (arm_editor_ref a)
        then arm_error ''a fixed-editor arm must name the frozen editor''
      else if arm_kind_of a \<noteq> ARM_FIXED_EDITOR \<and> arm_editor_ref a \<noteq> None then arm_error ''editor_ref''
      else if arm_max_attempts a < 1 then arm_error ''max_attempts must be at least 1''
      else if arm_kind_of a \<noteq> ARM_RETRY_SELF_CONSISTENCY \<and> arm_max_attempts a \<noteq> 1 then arm_error ''only a retry arm may retry''
      else Inr ())"

definition arm_json :: "arm \<Rightarrow> json" where
  "arm_json a = JObj ([(''id'', JStr (arm_id a)), (''kind'', JStr (arm_kind_value (arm_kind_of a))),
      (''max_attempts'', JInt (arm_max_attempts a))]
     @ (case arm_component_id a of None \<Rightarrow> [] | Some c \<Rightarrow> [(''component_id'', JStr c)])
     @ (case arm_editor_ref a of None \<Rightarrow> [] | Some e \<Rightarrow> [(''editor_ref'', JStr e)]))"

definition parse_arm :: "json \<Rightarrow> exn + arm" where
  "parse_arm j =
     res_bind (str_field j ''id'') (\<lambda>i. res_bind (res_bind (str_field j ''kind'') arm_kind_of_value) (\<lambda>kind.
     res_bind (res_bind (get_or j ''max_attempts'' (JInt 1)) require_int) (\<lambda>attempts.
     res_bind (present_str j ''component_id'') (\<lambda>component. res_bind (present_str j ''editor_ref'') (\<lambda>editor.
       constructed check_arm \<lparr>arm_id = i, arm_kind_of = kind, arm_max_attempts = attempts, arm_component_id = component,
         arm_editor_ref = editor\<rparr>)))))"

section \<open>Every section reads back what it wrote\<close>

lemma isolation_of_value [simp]: "isolation_of_value (isolation_value t) = Some t"
  by (cases t) (simp_all add: isolation_of_value_def)

lemma read_str_list:
  assumes "same_json j (JObj kvs)" "map_of kvs k = Some (JList (map JStr xs))"
  shows "\<exists>js. item j k = Inr (JList js) \<and> get_or j k d = Inr (JList js) \<and> res_map require_str js = Inr xs"
proof -
  from read_written [OF assms] obtain w where w: "item j k = Inr w" "get_item j k = Inr (Some w)" "same_json w (JList (map JStr xs))" by blast
  from same_json_list [OF w(3)] obtain js where js: "w = JList js" "list_all2 same_json js (map JStr xs)" by blast
  have "js = map JStr xs"
    using js(2) by (induction xs arbitrary: js) (auto simp: list_all2_Cons2 same_json_atoms)
  then have "res_map require_str js = Inr xs" by (induction xs arbitrary: js) (auto simp: require_str_def)
  with w js show ?thesis by (simp add: get_or_def)
qed

interpretation incumbent_codec: section_codec incumbent_json parse_incumbent check_incumbent
  by unfold_locales (auto simp: incumbent_json_def parse_incumbent_def read_fields intro!: constructed_eq)

interpretation artifact_codec: section_codec mutable_artifact_json parse_mutable_artifact check_mutable_artifact
proof unfold_locales
  show "json_wf (mutable_artifact_json x)" for x by (simp add: mutable_artifact_json_def list_all_iff)
  fix x j
  assume ok: "check_mutable_artifact x = Inr ()" and j: "same_json j (mutable_artifact_json x)"
  note j = j [unfolded mutable_artifact_json_def]
  from read_str_list [OF j, of "''paths''" "ma_paths x"] obtain js where
    "item j ''paths'' = Inr (JList js)" "res_map require_str js = Inr (ma_paths x)" by auto
  then show "parse_mutable_artifact j = Inr x"
    using ok by (auto simp: parse_mutable_artifact_def read_str [OF j] py_iter_def intro!: constructed_eq)
qed

interpretation mutation_class_codec: section_codec mutation_class_json parse_mutation_class check_mutation_class
proof unfold_locales
  show "json_wf (mutation_class_json x)" for x by (simp add: mutation_class_json_def)
  fix x j
  assume ok: "check_mutation_class x = Inr ()" and j: "same_json j (mutation_class_json x)"
  note j = j [unfolded mutation_class_json_def]
  from read_written [OF j, of "''max_tier''"] have "item j ''max_tier'' = Inr (JStr (isolation_value (mb_max_tier x)))"
    by (auto simp: same_json_atoms)
  then show "parse_mutation_class j = Inr x"
    using ok by (auto simp: parse_mutation_class_def read_str [OF j] require_isolation_tier_def intro!: constructed_eq)
qed

interpretation action_codec: section_codec compensation_action_json parse_compensation_action check_compensation_action
proof unfold_locales
  show "json_wf (compensation_action_json x)" for x by (simp add: compensation_action_json_def split: option.splits)
  fix x j
  assume ok: "check_compensation_action x = Inr ()" and j: "same_json j (compensation_action_json x)"
  note j = j [unfolded compensation_action_json_def]
  have "given_str j ''hook_image'' = Inr (ca_hook_image x)"
    using read_optional(3) [OF j, of "''hook_image''" "ca_hook_image x"] read_optional(4) [OF j, of "''hook_image''"]
    by (cases "ca_hook_image x") (simp_all add: json_opt_str_def)
  moreover have "str_field j ''artifact_type'' = Inr (sa_artifact_type x)" "str_field j ''action'' = Inr (sa_action x)"
    by (rule read_str [OF j]; simp)+
  ultimately show "parse_compensation_action j = Inr x"
    using ok by (auto simp: parse_compensation_action_def intro!: constructed_eq)
qed

interpretation strategy_codec: section_codec strategy_json parse_strategy check_strategy
  by unfold_locales (auto simp: strategy_json_def parse_strategy_def read_fields intro!: constructed_eq)

interpretation datasets_codec: section_codec datasets_json parse_datasets check_datasets
  by unfold_locales (auto simp: datasets_json_def parse_datasets_def read_fields intro!: constructed_eq)

interpretation evaluator_codec: section_codec evaluator_json parse_evaluator check_evaluator
proof unfold_locales
  show "json_wf (evaluator_json x)" for x by (simp add: evaluator_json_def)
  fix x j
  assume ok: "check_evaluator x = Inr ()" and j: "same_json j (evaluator_json x)"
  note j = j [unfolded evaluator_json_def]
  have "str_field j ''name'' = Inr (eb_name x)" "str_field j ''pinned_image'' = Inr (eb_pinned_image x)" by (rule read_str [OF j]; simp)+
  moreover have "get_or j ''stage'' d = Inr (JInt (eb_stage x))" for d by (rule read_get(1) [OF j]) simp
  moreover have "get_or j ''cost_class'' d = Inr (JStr (cost_class_value (eb_cost_class x)))" for d by (rule read_get(2) [OF j]) simp
  moreover have "get_or j ''short_circuit'' d = Inr (JBool (eb_short_circuit x))" for d by (rule read_get(3) [OF j]) simp
  ultimately show "parse_evaluator j = Inr x"
    using ok by (auto simp: parse_evaluator_def require_int_def require_str_def require_bool_def intro!: constructed_eq)
qed

lemma new_budgets_same:
  "new_campaign_budgets p n t w e = Inr b \<Longrightarrow> b = \<lparr>task_budget_profile = p, cb_max_proposals = n, cb_max_model_tokens = t,
     cb_max_wall_clock_minutes = w, cb_max_sandbox_executions = e\<rparr>"
  by (auto simp: new_campaign_budgets_def split: if_splits sum.splits)

lemma check_budgetsD:
  "check_budgets b = Inr () \<Longrightarrow> new_campaign_budgets (task_budget_profile b) (cb_max_proposals b) (cb_max_model_tokens b)
     (cb_max_wall_clock_minutes b) (cb_max_sandbox_executions b) = Inr b"
  by (cases b) (auto simp: check_budgets_def res_bind_Inr dest: new_budgets_same)

interpretation budgets_codec: section_codec budgets_json parse_budgets check_budgets
proof unfold_locales
  show "json_wf (budgets_json x)" for x by (simp add: budgets_json_def)
  fix x j
  assume ok: "check_budgets x = Inr ()" and j: "same_json j (budgets_json x)"
  note j = j [unfolded budgets_json_def]
  have "str_field j ''task_budget_profile'' = Inr (task_budget_profile x)" by (rule read_str [OF j]) simp
  moreover have "int_field j ''max_proposals'' = Inr (cb_max_proposals x)" "int_field j ''max_model_tokens'' = Inr (cb_max_model_tokens x)"
    by (rule read_int [OF j]; simp)+
  moreover have "float_field j ''max_wall_clock_minutes'' = Inr (cb_max_wall_clock_minutes x)" by (rule read_float [OF j]) simp
  moreover have "get_or j ''max_sandbox_executions'' d = Inr (JInt (cb_max_sandbox_executions x))" for d by (rule read_get(1) [OF j]) simp
  ultimately show "parse_budgets j = Inr x"
    using check_budgetsD [OF ok] by (simp add: parse_budgets_def require_int_def)
qed

interpretation stopping_codec: section_codec stopping_json parse_stopping check_stopping
  by unfold_locales (auto simp: stopping_json_def parse_stopping_def read_fields intro!: constructed_eq)

interpretation policy_ref_codec: section_codec policy_ref_json parse_policy_ref check_policy_ref
  by unfold_locales (auto simp: policy_ref_json_def parse_policy_ref_def read_fields intro!: constructed_eq)

interpretation statistics_codec: section_codec statistics_json parse_statistics check_statistics
proof unfold_locales
  show "json_wf (statistics_json x)" for x by (simp add: statistics_json_def list_all_iff split: option.splits)
  fix x j
  assume ok: "check_statistics x = Inr ()" and j: "same_json j (statistics_json x)"
  note j = j [unfolded statistics_json_def]
  have "float_field j ''alpha'' = Inr (st_alpha x)" by (rule read_float [OF j]) simp
  moreover have "str_field j ''multiplicity'' = Inr (multiplicity_value (st_multiplicity x))" by (rule read_str [OF j]) simp
  moreover have "int_field j ''bootstrap_iterations'' = Inr (st_bootstrap_iterations x)" "int_field j ''bootstrap_seed'' = Inr (st_bootstrap_seed x)"
    by (rule read_int [OF j]; simp)+
  moreover obtain js where "get_or j ''ablation_family'' (JList []) = Inr (JList js)" "res_map require_str js = Inr (st_ablation_family x)"
    using read_str_list [OF j, of "''ablation_family''" "st_ablation_family x" "JList []"] by auto
  moreover have "parse_sample_size j = Inr (st_required_sample_size x)"
  proof (cases "st_required_sample_size x")
    case None
    with read_unwritten [OF j, of "''required_sample_size''"] show ?thesis by (simp add: parse_sample_size_def)
  next
    case (Some n)
    with read_written [OF j, of "''required_sample_size''" "JInt n"] show ?thesis
      by (auto simp: parse_sample_size_def same_json_atoms require_int_def)
  qed
  ultimately show "parse_statistics j = Inr x"
    using ok by (auto simp: parse_statistics_def py_iter_def intro!: constructed_eq)
qed

interpretation arm_codec: section_codec arm_json parse_arm check_arm
proof unfold_locales
  show "json_wf (arm_json x)" for x by (simp add: arm_json_def split: option.splits)
  fix x j
  assume ok: "check_arm x = Inr ()" and j: "same_json j (arm_json x)"
  note j = j [unfolded arm_json_def]
  have "str_field j ''id'' = Inr (arm_id x)" "str_field j ''kind'' = Inr (arm_kind_value (arm_kind_of x))" by (rule read_str [OF j]; simp)+
  moreover have "get_or j ''max_attempts'' d = Inr (JInt (arm_max_attempts x))" for d by (rule read_get(1) [OF j]) simp
  moreover have "present_str j ''component_id'' = Inr (arm_component_id x)"
    using read_optional(1,2) [OF j, of "''component_id''"] by (cases "arm_component_id x"; cases "arm_editor_ref x") simp_all
  moreover have "present_str j ''editor_ref'' = Inr (arm_editor_ref x)"
    using read_optional(1,2) [OF j, of "''editor_ref''"] by (cases "arm_component_id x"; cases "arm_editor_ref x") simp_all
  ultimately show "parse_arm j = Inr x"
    using ok by (auto simp: parse_arm_def require_int_def intro!: constructed_eq)
qed

end
