(* ===== verification/ContentStore.thy ===== *)
theory ContentStore
  imports Compensation
begin

text \<open>
  Content-addressed stores: the contract the campaign package relies on, its in-memory
  implementation (\<^verbatim>\<open>InMemoryCheckpointStore\<close> of \<^verbatim>\<open>plugins/protocol.py\<close>) and the persistence of signed
  compensation plans over it (\<^verbatim>\<open>CompensationPlanStore\<close> of \<^verbatim>\<open>campaign/compensation.py\<close>).
\<close>

section \<open>The in-memory store\<close>

definition mem_store :: "('k, 'b) crypto \<Rightarrow> 'b \<Rightarrow> string \<Rightarrow> (exn, (string, 'b) dict, string) op" where
  "mem_store C data schema_id = (\<lambda>blobs.
     let digest = sha256_digest C data in (Inr digest, AList.update digest data blobs))"

definition mem_load :: "string \<Rightarrow> (exn, (string, 'b) dict, 'b) op" where
  "mem_load digest = (\<lambda>blobs.
     case map_of blobs digest of None \<Rightarrow> (Inl (KeyError digest), blobs) | Some data \<Rightarrow> (Inr data, blobs))"

section \<open>Plan envelopes\<close>

definition plan_envelope :: "('k, 'b) crypto \<Rightarrow> 'b signed_plan \<Rightarrow> json" where
  "plan_envelope C p =
     JObj [(''schema_id'', JStr ''evoruntime.compensation.plan/v1''),
           (''plan_id'', JStr (cp_plan_id p)),
           (''campaign_id'', cp_campaign_id p),
           (''manifest_digest'', cp_manifest_digest p),
           (''actions'', JList (map JObj (cp_actions p))),
           (''plan_digest'', JStr (cp_plan_digest p)),
           (''signature_hex'', JStr (cr_hex C (cp_signature p))),
           (''signer_public_key_hex'', JStr (cr_hex C (cp_public_key p)))]"

definition plan_store_save ::
  "('k, 'b) crypto \<Rightarrow> ('b \<Rightarrow> string \<Rightarrow> (exn, 's, string) op) \<Rightarrow> 'b signed_plan \<Rightarrow> (exn, 's, string) op" where
  "plan_store_save C store p =
     store (canonical_json C (plan_envelope C p)) ''evoruntime.compensation.plan/v1''"

text \<open>The parse is one \<^verbatim>\<open>try\<close> block: a missing key or a value of the wrong kind is \<^const>\<open>None\<close>. An
  action must be an object (the code's \<^verbatim>\<open>dict(action)\<close> would also take a list of key/value pairs).\<close>

fun object_fields :: "json list \<Rightarrow> json_object list option" where
  "object_fields [] = Some []"
| "object_fields (JObj kvs # js) = map_option (Cons kvs) (object_fields js)"
| "object_fields (_ # js) = None"

definition hex_field :: "('k, 'b) crypto \<Rightarrow> json option \<Rightarrow> 'b option" where
  "hex_field C v = (case v of Some (JStr h) \<Rightarrow> cr_unhex C h | _ \<Rightarrow> None)"

definition parse_plan :: "('k, 'b) crypto \<Rightarrow> (json \<Rightarrow> string) \<Rightarrow> json \<Rightarrow> 'b signed_plan option" where
  "parse_plan C str_of payload =
     (case (json_get payload ''plan_id'', json_get payload ''campaign_id'',
            json_get payload ''manifest_digest'', json_get payload ''actions'',
            json_get payload ''plan_digest'',
            hex_field C (json_get payload ''signature_hex''),
            hex_field C (json_get payload ''signer_public_key_hex'')) of
        (Some pid, Some cid, Some md, Some (JList acts), Some dg, Some sg, Some pk) \<Rightarrow>
          (case object_fields acts of
             None \<Rightarrow> None
           | Some as \<Rightarrow> Some \<lparr>cp_plan_id = py_str str_of pid, cp_campaign_id = cid,
               cp_manifest_digest = md, cp_actions = as, cp_plan_digest = py_str str_of dg,
               cp_signature = sg, cp_public_key = pk\<rparr>)
      | _ \<Rightarrow> None)"

definition plan_store_load ::
  "('k, 'b) crypto \<Rightarrow> (json \<Rightarrow> string) \<Rightarrow> (string \<Rightarrow> (exn, 's, 'b) op) \<Rightarrow> string \<Rightarrow>
   (exn, 's, 'b signed_plan) op" where
  "plan_store_load C str_of load digest =
     op_bind (load digest) (\<lambda>data.
       if sha256_digest C data \<noteq> digest
       then op_raise (Campaign (CompensationPlanTamperedError ''content address''))
       else (case cr_loads C data of
               None \<Rightarrow> op_raise (Campaign (CompensationPlanTamperedError ''not a parseable signed plan''))
             | Some payload \<Rightarrow>
                 (case parse_plan C str_of payload of
                    None \<Rightarrow> op_raise (Campaign (CompensationPlanTamperedError ''not a parseable signed plan''))
                  | Some plan \<Rightarrow>
                      if \<not> plan_verify C plan
                      then op_raise (Campaign (CompensationPlanTamperedError ''failed verification''))
                      else op_return plan)))"

text \<open>What comes back is the plan with the keys of its dictionaries in order.\<close>

definition sorted_plan :: "'b signed_plan \<Rightarrow> 'b signed_plan" where
  "sorted_plan p = p\<lparr>cp_campaign_id := sort_keys (cp_campaign_id p),
     cp_manifest_digest := sort_keys (cp_manifest_digest p),
     cp_actions := map sorted_obj (cp_actions p)\<rparr>"

lemma object_fields_map: "object_fields (map (\<lambda>a. JObj (f a)) as) = Some (map f as)"
  by (induction as) auto

lemma object_fields_JObj [simp]: "object_fields (map JObj as) = Some as"
  by (induction as) auto

lemma sort_keys_plan_body:
  "sort_keys (plan_body pid (sort_keys cid) (sort_keys md) (map sorted_obj as)) =
   sort_keys (plan_body pid cid md as)"
  by (simp add: plan_body_def sorted_obj_def [of "(_, _) # _"] comp_def)

lemma sorted_plan_verify: "plan_verify C (sorted_plan p) = plan_verify C p"
  by (simp add: plan_verify_def signed_plan_body_def compensation_plan_body_def canonical_json_def
      sorted_plan_def sort_keys_plan_body)

lemma json_get_envelope:
  "json_get (plan_envelope C p) ''plan_id'' = Some (JStr (cp_plan_id p))"
  "json_get (plan_envelope C p) ''campaign_id'' = Some (cp_campaign_id p)"
  "json_get (plan_envelope C p) ''manifest_digest'' = Some (cp_manifest_digest p)"
  "json_get (plan_envelope C p) ''actions'' = Some (JList (map JObj (cp_actions p)))"
  "json_get (plan_envelope C p) ''plan_digest'' = Some (JStr (cp_plan_digest p))"
  "json_get (plan_envelope C p) ''signature_hex'' = Some (JStr (cr_hex C (cp_signature p)))"
  "json_get (plan_envelope C p) ''signer_public_key_hex'' = Some (JStr (cr_hex C (cp_public_key p)))"
  by (simp_all add: plan_envelope_def json_get_def)

lemma parse_sorted_envelope:
  assumes "json_wf (plan_envelope C p)"
    and "cr_unhex C (cr_hex C (cp_signature p)) = Some (cp_signature p)"
    and "cr_unhex C (cr_hex C (cp_public_key p)) = Some (cp_public_key p)"
  shows "parse_plan C str_of (sort_keys (plan_envelope C p)) = Some (sorted_plan p)"
  using assms
  by (simp add: parse_plan_def json_get_sort_keys json_get_envelope hex_field_def sorted_plan_def
      comp_def object_fields_map)

section \<open>The contract\<close>

text \<open>Storing returns the content address, and loading that address right after gives the bytes back;
  loading changes nothing.\<close>

locale content_store =
  fixes C :: "('k, 'b) crypto"
    and store :: "'b \<Rightarrow> string \<Rightarrow> (exn, 's, string) op"
    and load :: "string \<Rightarrow> (exn, 's, 'b) op"
  assumes store_load: "store data sid s = (Inr d, s') \<Longrightarrow>
      d = sha256_digest C data \<and> load d s' = (Inr data, s')"
    and load_reads: "snd (load d s) = s"
begin

lemma plan_roundtrip:
  assumes "crypto_laws C" "plan_verify C p" "json_wf (plan_envelope C p)"
    and "cr_unhex C (cr_hex C (cp_signature p)) = Some (cp_signature p)"
    and "cr_unhex C (cr_hex C (cp_public_key p)) = Some (cp_public_key p)"
    and saved: "plan_store_save C store p s = (Inr d, s')"
  shows "plan_store_load C str_of load d s' = (Inr (sorted_plan p), s')"
proof -
  let ?data = "canonical_json C (plan_envelope C p)"
  have d: "d = sha256_digest C ?data" and l: "load d s' = (Inr ?data, s')"
    using store_load [OF saved [unfolded plan_store_save_def]] by blast+
  from assms(1-5) l show ?thesis
    by (simp add: d [symmetric] plan_store_load_def op_defs parse_sorted_envelope sorted_plan_verify)
qed

text \<open>Whatever a load accepts hashes to its address and verifies.\<close>

lemma plan_load_verified:
  assumes "plan_store_load C str_of load d s = (Inr p, s')"
  shows "plan_verify C p \<and> s' = s \<and>
    (\<exists>data. load d s = (Inr data, s) \<and> sha256_digest C data = d
       \<and> (\<exists>payload. cr_loads C data = Some payload \<and> parse_plan C str_of payload = Some p))"
proof (cases "load d s")
  case (Pair r s1)
  with load_reads [of d s] have "s1 = s" by simp
  with Pair assms show ?thesis
    by (auto simp: plan_store_load_def op_defs split: sum.splits if_splits option.splits)
qed

end

interpretation mem_blobs: content_store C "mem_store C" mem_load for C
  by unfold_locales (auto simp: mem_store_def mem_load_def Let_def map_of_update split: option.splits)

text \<open>The in-memory store keeps earlier blobs unless new bytes hash to the same address.\<close>

lemma mem_store_keeps:
  "sha256_digest C data \<noteq> d \<Longrightarrow> mem_load d (snd (mem_store C data sid s)) =
     (fst (mem_load d s), snd (mem_store C data sid s))"
  by (auto simp: mem_store_def mem_load_def Let_def map_of_update split: option.splits)

section \<open>Properties\<close>

text \<open>Saving a verified plan in the content-addressed store and loading the returned address gives
  back the plan, its dictionaries with their keys in canonical order.\<close>

theorem plan_store_roundtrip:
  assumes "crypto_laws C" "sign_compensation_plan C str_of pid cid md js k = Inr p" "json_wf (plan_envelope C p)"
  shows "\<exists>d s'. plan_store_save C (mem_store C) p s = (Inr d, s')
    \<and> plan_store_load C str_of mem_load d s' = (Inr (sorted_plan p), s')"
proof -
  obtain d s' where saved: "plan_store_save C (mem_store C) p s = (Inr d, s')"
    by (simp add: plan_store_save_def mem_store_def Let_def)
  have keys: "cp_signature p = cr_sign C k (signed_plan_body C p)" "cp_public_key p = cr_public C k"
    using assms(2) by (auto simp: sign_compensation_plan_def sign_def Let_def signed_plan_body_def split: sum.splits)
  have "plan_verify C p" by (rule sign_compensation_plan_verifies [OF assms(1,2)])
  from mem_blobs.plan_roundtrip [OF assms(1) this assms(3) _ _ saved] keys assms(1) saved
  show ?thesis by auto
qed

lemma plan_store_roundtrip_witness:
  "\<exists>p d s'. sign_compensation_plan plain_crypto (\<lambda>_. []) ''p'' (JStr ''c'') JNull
       [JObj (build_action ''sha256:a'' ''revoke_artifact'' CAS_MODE False)] ''k'' = Inr p
     \<and> plan_store_save plain_crypto (mem_store plain_crypto) p [] = (Inr d, s')
     \<and> plan_store_load plain_crypto (\<lambda>_. []) mem_load d s' = (Inr (sorted_plan p), s')"
proof -
  define p where "p = (\<lparr>cp_plan_id = ''p'', cp_campaign_id = JStr ''c'', cp_manifest_digest = JNull,
     cp_actions = [build_action ''sha256:a'' ''revoke_artifact'' CAS_MODE False], cp_plan_digest = ''sha256:0'',
     cp_signature = JStr ''sk'', cp_public_key = JStr ''k''\<rparr> :: json signed_plan)"
  have signed: "sign_compensation_plan plain_crypto (\<lambda>_. []) ''p'' (JStr ''c'') JNull
       [JObj (build_action ''sha256:a'' ''revoke_artifact'' CAS_MODE False)] ''k'' = Inr p"
    by (simp add: sign_compensation_plan_def validate_built_action compensation_modes_def p_def Let_def
        sign_def sha256_digest_def plain_crypto_def)
  have "json_wf (plan_envelope plain_crypto p)"
    by (simp add: p_def plan_envelope_def build_action_def plain_crypto_def)
  from plan_store_roundtrip [OF plain_crypto_laws signed this, of "[]"] signed show ?thesis by blast
qed

text \<open>A plan is only ever loaded verified: whatever bytes the store holds at an address, a load that
  succeeds returns a plan whose digest and signature check out and whose bytes hash to that address.\<close>

theorem plan_store_load_verified:
  assumes "plan_store_load C str_of mem_load d s = (Inr p, s')"
  shows "plan_verify C p \<and> s' = s \<and> (\<exists>data. map_of s d = Some data \<and> sha256_digest C data = d)"
  using mem_blobs.plan_load_verified [OF assms]
  by (auto simp: mem_load_def split: option.splits)

lemma plan_store_load_verified_witness:
  "plan_verify plain_crypto (sorted_plan demo_signed)"
proof -
  have "plan_store_load plain_crypto (\<lambda>_. []) mem_load ''sha256:0''
      (snd (plan_store_save plain_crypto (mem_store plain_crypto) demo_signed [])) =
    (Inr (sorted_plan demo_signed), snd (plan_store_save plain_crypto (mem_store plain_crypto) demo_signed []))"
  proof (rule mem_blobs.plan_roundtrip [OF plain_crypto_laws demo_signed_verifies])
    show "plan_store_save plain_crypto (mem_store plain_crypto) demo_signed [] =
        (Inr ''sha256:0'', snd (plan_store_save plain_crypto (mem_store plain_crypto) demo_signed []))"
      by (simp add: plan_store_save_def mem_store_def plain_digest Let_def)
  qed (simp_all add: plan_envelope_def demo_signed_def demo_actions_def build_action_def plain_crypto_def)
  from plan_store_load_verified [OF this] show ?thesis by blast
qed

end
