(* ===== verification/CampaignMachine.thy ===== *)
theory CampaignMachine
  imports ContentStore
begin

text \<open>
  The campaign lifecycle (\<^verbatim>\<open>campaign/machine.py\<close>): the transition table, the orchestrator's
  operations with their gates and their transition sink, and the content-addressed checkpoint.
  Sink, gates and clock are objects the caller passes in: the sink has state \<open>'l\<close>, the gates and the
  clock share the world \<open>'g\<close>. The replay automaton is the abstract reading of a transition log.
\<close>

section \<open>Phases and the transition table\<close>

datatype campaign_phase =
    DISCOVER | PLAN | PROPOSE | DEV_EVALUATE | SELECT_FREEZE | HOLDOUT | APPROVE | CANARY
  | PROMOTED | ROLLED_BACK | LEARN | PAUSED | CANCELLED

definition all_phases :: "campaign_phase list" where
  "all_phases = [DISCOVER, PLAN, PROPOSE, DEV_EVALUATE, SELECT_FREEZE, HOLDOUT, APPROVE, CANARY,
     PROMOTED, ROLLED_BACK, LEARN, PAUSED, CANCELLED]"

fun phase_value :: "campaign_phase \<Rightarrow> string" where
  "phase_value DISCOVER = ''discover''"
| "phase_value PLAN = ''plan''"
| "phase_value PROPOSE = ''propose''"
| "phase_value DEV_EVALUATE = ''dev_evaluate''"
| "phase_value SELECT_FREEZE = ''select_freeze''"
| "phase_value HOLDOUT = ''holdout''"
| "phase_value APPROVE = ''approve''"
| "phase_value CANARY = ''canary''"
| "phase_value PROMOTED = ''promoted''"
| "phase_value ROLLED_BACK = ''rolled_back''"
| "phase_value LEARN = ''learn''"
| "phase_value PAUSED = ''paused''"
| "phase_value CANCELLED = ''cancelled''"

definition phase_of_value :: "string \<Rightarrow> campaign_phase option" where
  "phase_of_value v = List.find (\<lambda>p. phase_value p = v) all_phases"

lemma phase_of_value_value [simp]: "phase_of_value (phase_value p) = Some p"
  by (cases p) (simp_all add: phase_of_value_def all_phases_def)

text \<open>\<^verbatim>\<open>_FORWARD_EDGES\<close>, each set in the order in which the error message sorts it.\<close>

fun forward_edges :: "campaign_phase \<Rightarrow> campaign_phase list" where
  "forward_edges DISCOVER = [PLAN]"
| "forward_edges PLAN = [PROPOSE]"
| "forward_edges PROPOSE = [DEV_EVALUATE]"
| "forward_edges DEV_EVALUATE = [PROPOSE, SELECT_FREEZE]"
| "forward_edges SELECT_FREEZE = [HOLDOUT]"
| "forward_edges HOLDOUT = [APPROVE]"
| "forward_edges APPROVE = [CANARY, ROLLED_BACK]"
| "forward_edges CANARY = [PROMOTED, ROLLED_BACK]"
| "forward_edges PROMOTED = [LEARN]"
| "forward_edges ROLLED_BACK = [LEARN]"
| "forward_edges LEARN = []"
| "forward_edges PAUSED = []"
| "forward_edges CANCELLED = []"

definition terminal_phases :: "campaign_phase list" where
  "terminal_phases = [LEARN, CANCELLED]"

definition allowed_transitions :: "campaign_phase \<Rightarrow> campaign_phase list" where
  "allowed_transitions phase = forward_edges phase"

definition is_terminal :: "campaign_phase \<Rightarrow> bool" where
  "is_terminal phase \<longleftrightarrow> phase \<in> set terminal_phases"

definition can_pause :: "campaign_phase \<Rightarrow> bool" where
  "can_pause phase \<longleftrightarrow> \<not> is_terminal phase \<and> phase \<noteq> PAUSED"

definition can_cancel :: "campaign_phase \<Rightarrow> bool" where
  "can_cancel phase \<longleftrightarrow> \<not> is_terminal phase"

lemmas phase_tests = is_terminal_def terminal_phases_def can_pause_def can_cancel_def

lemma no_edge_to_control: "PAUSED \<notin> set (forward_edges p)" "CANCELLED \<notin> set (forward_edges p)"
  by (cases p; simp)+

section \<open>Transitions\<close>

record campaign_transition =
  tr_sequence :: int
  tr_from :: campaign_phase
  tr_to :: campaign_phase
  tr_reason :: string
  tr_at :: rat

definition transition_to_json :: "campaign_transition \<Rightarrow> json" where
  "transition_to_json t = JObj [(''sequence'', JInt (tr_sequence t)),
     (''from_phase'', JStr (phase_value (tr_from t))), (''to_phase'', JStr (phase_value (tr_to t))),
     (''reason'', JStr (tr_reason t)), (''at'', JFloat (tr_at t))]"

text \<open>The conversions of \<^verbatim>\<open>from_canonical_dict\<close>: \<^verbatim>\<open>str\<close> of a value that is not a string and the parses
  \<^verbatim>\<open>int("...")\<close>, \<^verbatim>\<open>float("...")\<close> are Python's own and stay parameters.\<close>

record py_text =
  pt_str :: "json \<Rightarrow> string"
  pt_int :: "string \<Rightarrow> int option"
  pt_float :: "string \<Rightarrow> rat option"

definition json_item :: "json \<Rightarrow> string \<Rightarrow> exn + json" where
  "json_item j k = (case j of
     JObj kvs \<Rightarrow> (case map_of kvs k of None \<Rightarrow> Inl (KeyError k) | Some v \<Rightarrow> Inr v)
   | _ \<Rightarrow> Inl (TypeError ''not subscriptable by a string''))"

definition py_int :: "py_text \<Rightarrow> json \<Rightarrow> exn + int" where
  "py_int T j = (case j of
     JInt i \<Rightarrow> Inr i | JBool b \<Rightarrow> Inr (if b then 1 else 0)
   | JFloat r \<Rightarrow> Inr (if 0 \<le> r then \<lfloor>r\<rfloor> else \<lceil>r\<rceil>)
   | JStr s \<Rightarrow> (case pt_int T s of None \<Rightarrow> Inl (ValueError ''int'') | Some i \<Rightarrow> Inr i)
   | _ \<Rightarrow> Inl (TypeError ''int''))"

definition py_float :: "py_text \<Rightarrow> json \<Rightarrow> exn + rat" where
  "py_float T j = (case j of
     JInt i \<Rightarrow> Inr (of_int i) | JBool b \<Rightarrow> Inr (if b then 1 else 0) | JFloat r \<Rightarrow> Inr r
   | JStr s \<Rightarrow> (case pt_float T s of None \<Rightarrow> Inl (ValueError ''float'') | Some r \<Rightarrow> Inr r)
   | _ \<Rightarrow> Inl (TypeError ''float''))"

definition phase_of_json :: "json \<Rightarrow> exn + campaign_phase" where
  "phase_of_json j = (case j of
     JStr v \<Rightarrow> (case phase_of_value v of None \<Rightarrow> Inl (ValueError ''CampaignPhase'') | Some p \<Rightarrow> Inr p)
   | _ \<Rightarrow> Inl (ValueError ''CampaignPhase''))"

definition transition_of_json :: "py_text \<Rightarrow> json \<Rightarrow> exn + campaign_transition" where
  "transition_of_json T j =
     res_bind (res_bind (json_item j ''sequence'') (py_int T)) (\<lambda>n.
     res_bind (res_bind (json_item j ''from_phase'') phase_of_json) (\<lambda>f.
     res_bind (res_bind (json_item j ''to_phase'') phase_of_json) (\<lambda>t.
     res_bind (json_item j ''reason'') (\<lambda>r.
     res_bind (res_bind (json_item j ''at'') (py_float T)) (\<lambda>a.
       Inr \<lparr>tr_sequence = n, tr_from = f, tr_to = t, tr_reason = py_str (pt_str T) r, tr_at = a\<rparr>)))))"

lemma json_item_eq: "json_item (JObj kvs) k = (case map_of kvs k of None \<Rightarrow> Inl (KeyError k) | Some v \<Rightarrow> Inr v)"
  by (simp add: json_item_def)

lemma json_item_sorted:
  "json_wf (JObj kvs) \<Longrightarrow> json_item (sort_keys (JObj kvs)) k =
     (case map_of kvs k of None \<Rightarrow> Inl (KeyError k) | Some v \<Rightarrow> Inr (sort_keys v))"
  using json_get_sort_keys [of "JObj kvs" k]
  by (simp add: json_item_def json_get_def split: option.splits)

lemma transition_json_wf: "json_wf (transition_to_json t)"
  by (simp add: transition_to_json_def)

lemma phase_of_json_value [simp]: "phase_of_json (JStr (phase_value p)) = Inr p"
  by (simp add: phase_of_json_def)

lemma transition_roundtrip: "transition_of_json T (sort_keys (transition_to_json t)) = Inr t"
proof -
  let ?kvs = "[(''sequence'', JInt (tr_sequence t)),
     (''from_phase'', JStr (phase_value (tr_from t))), (''to_phase'', JStr (phase_value (tr_to t))),
     (''reason'', JStr (tr_reason t)), (''at'', JFloat (tr_at t))]"
  have wf: "json_wf (JObj ?kvs)" by simp
  note item = json_item_sorted [OF wf]
  have "json_item (sort_keys (JObj ?kvs)) ''sequence'' = Inr (JInt (tr_sequence t))"
    "json_item (sort_keys (JObj ?kvs)) ''from_phase'' = Inr (JStr (phase_value (tr_from t)))"
    "json_item (sort_keys (JObj ?kvs)) ''to_phase'' = Inr (JStr (phase_value (tr_to t)))"
    "json_item (sort_keys (JObj ?kvs)) ''reason'' = Inr (JStr (tr_reason t))"
    "json_item (sort_keys (JObj ?kvs)) ''at'' = Inr (JFloat (tr_at t))"
    unfolding item by simp_all
  then show ?thesis
    unfolding transition_to_json_def transition_of_json_def
    by (simp add: py_int_def py_float_def del: sort_keys_JObj)
qed

section \<open>The orchestrator\<close>

text \<open>A pinned spec is its canonical bytes, the digest it was pinned to and the signature over them.\<close>

record 'b pinned_spec =
  pin_bytes :: 'b
  pin_digest :: string
  pin_signature :: "'b detached_signature"

definition pinned_verify :: "('k, 'b) crypto \<Rightarrow> 'b pinned_spec \<Rightarrow> bool" where
  "pinned_verify C p =
     (if pin_digest p \<noteq> sha256_digest C (pin_bytes p) then False
      else verify C (pin_signature p) (pin_bytes p))"

definition pin_and_sign :: "('k, 'b) crypto \<Rightarrow> 'b \<Rightarrow> 'k \<Rightarrow> 'b pinned_spec" where
  "pin_and_sign C canonical key =
     \<lparr>pin_bytes = canonical, pin_digest = sha256_digest C canonical, pin_signature = sign C key canonical\<rparr>"

lemma pin_and_sign_verifies: "crypto_laws C \<Longrightarrow> pinned_verify C (pin_and_sign C b k)"
  by (simp add: pinned_verify_def pin_and_sign_def verify_def sign_def)

text \<open>What is fixed at construction, and what the calls change. \<open>or_now\<close> is constantly 0 without a clock.\<close>

record ('b, 'l, 'g, 's) orchestrator =
  or_spec :: "'b pinned_spec"
  or_append :: "campaign_transition \<Rightarrow> (exn, 'l, unit) op"
  or_all :: "'l \<Rightarrow> campaign_transition list"
  or_now :: "'g \<Rightarrow> rat"
  or_execution_gate :: "(exn, 'g, unit) op option"
  or_compensation_gate :: "((exn, 'g, unit) op \<times> (exn, 'g, unit) op) option"
  or_store :: "'b \<Rightarrow> string \<Rightarrow> (exn, 's, string) op"
  or_load :: "string \<Rightarrow> (exn, 's, 'b) op"

record ('l, 'g, 's) campaign =
  cam_phase :: campaign_phase
  cam_resume :: "campaign_phase option"
  cam_sink :: 'l
  cam_gates :: 'g
  cam_store :: 's

definition init_campaign ::
  "('k, 'b) crypto \<Rightarrow> ('b, 'l, 'g, 's) orchestrator \<Rightarrow> campaign_phase \<Rightarrow> campaign_phase option \<Rightarrow>
   campaign_transition list \<Rightarrow> 'g \<Rightarrow> 's \<Rightarrow> (exn, 'l, ('l, 'g, 's) campaign) op" where
  "init_campaign C M phase resume transitions g s =
     (if \<not> pinned_verify C (or_spec M) then op_raise (Campaign SpecTamperedError)
      else op_then (op_for transitions (or_append M))
             (op_gets (\<lambda>l. \<lparr>cam_phase = phase, cam_resume = resume, cam_sink = l,
                            cam_gates = g, cam_store = s\<rparr>)))"

abbreviation on_gates where "on_gates \<equiv> op_zoom cam_gates (\<lambda>g c. c\<lparr>cam_gates := g\<rparr>)"

definition record_transition ::
  "('b, 'l, 'g, 's) orchestrator \<Rightarrow> campaign_phase \<Rightarrow> campaign_phase \<Rightarrow> string \<Rightarrow>
   (exn, ('l, 'g, 's) campaign, campaign_transition) op" where
  "record_transition M from_phase to_phase reason =
     op_bind (op_gets (\<lambda>c. \<lparr>tr_sequence = int (length (or_all M (cam_sink c))), tr_from = from_phase,
                            tr_to = to_phase, tr_reason = reason, tr_at = or_now M (cam_gates c)\<rparr>))
       (\<lambda>t. op_then (op_zoom cam_sink (\<lambda>l c. c\<lparr>cam_sink := l\<rparr>) (or_append M t))
              (op_then (op_modify (\<lambda>c. c\<lparr>cam_phase := to_phase\<rparr>)) (op_return t)))"

definition invalid_transition :: "campaign_phase \<Rightarrow> string \<Rightarrow> string list \<Rightarrow> exn" where
  "invalid_transition p target allowed = Campaign (InvalidTransitionError (phase_value p) target allowed)"

definition consult_gates ::
  "('b, 'l, 'g, 's) orchestrator \<Rightarrow> campaign_phase \<Rightarrow> campaign_phase \<Rightarrow> (exn, ('l, 'g, 's) campaign, unit) op" where
  "consult_gates M p to_phase =
     op_then (if p = PROPOSE \<and> to_phase = DEV_EVALUATE
              then (case or_execution_gate M of None \<Rightarrow> op_return () | Some gate \<Rightarrow> on_gates gate)
              else op_return ())
       (case or_compensation_gate M of
          None \<Rightarrow> op_return ()
        | Some (approve_canary, execute_rollback) \<Rightarrow>
            op_then (if p = APPROVE \<and> to_phase = CANARY then on_gates approve_canary else op_return ())
              (if to_phase = ROLLED_BACK then on_gates execute_rollback else op_return ()))"

definition transition ::
  "('b, 'l, 'g, 's) orchestrator \<Rightarrow> campaign_phase \<Rightarrow> string \<Rightarrow>
   (exn, ('l, 'g, 's) campaign, campaign_transition) op" where
  "transition M to_phase reason =
     op_bind (op_gets cam_phase) (\<lambda>p.
       if to_phase \<notin> set (forward_edges p)
       then op_raise (invalid_transition p (phase_value to_phase) (map phase_value (forward_edges p)))
       else op_then (consult_gates M p to_phase) (record_transition M p to_phase reason))"

definition pause ::
  "('b, 'l, 'g, 's) orchestrator \<Rightarrow> string \<Rightarrow> (exn, ('l, 'g, 's) campaign, campaign_transition) op" where
  "pause M reason =
     op_bind (op_gets cam_phase) (\<lambda>p.
       if \<not> can_pause p
       then op_raise (invalid_transition p (phase_value PAUSED)
              [if is_terminal p then ''nothing - terminal phase'' else ''already paused''])
       else op_then (op_modify (\<lambda>c. c\<lparr>cam_resume := Some p\<rparr>)) (record_transition M p PAUSED reason))"

definition resume ::
  "('b, 'l, 'g, 's) orchestrator \<Rightarrow> string \<Rightarrow> (exn, ('l, 'g, 's) campaign, campaign_transition) op" where
  "resume M reason =
     op_bind (op_gets (\<lambda>c. (cam_phase c, cam_resume c))) (\<lambda>(p, target).
       case target of
         Some to_phase \<Rightarrow>
           if p \<noteq> PAUSED then op_raise (invalid_transition p ''resume'' [''nothing - not paused''])
           else op_then (op_modify (\<lambda>c. c\<lparr>cam_resume := None\<rparr>)) (record_transition M PAUSED to_phase reason)
       | None \<Rightarrow> op_raise (invalid_transition p ''resume'' [''nothing - not paused'']))"

definition cancel ::
  "('b, 'l, 'g, 's) orchestrator \<Rightarrow> string \<Rightarrow> (exn, ('l, 'g, 's) campaign, campaign_transition) op" where
  "cancel M reason =
     op_bind (op_gets cam_phase) (\<lambda>p.
       if \<not> can_cancel p
       then op_raise (invalid_transition p (phase_value CANCELLED) [''nothing - terminal phase''])
       else op_then (op_modify (\<lambda>c. c\<lparr>cam_resume := None\<rparr>)) (record_transition M p CANCELLED reason))"

datatype campaign_call = Transition campaign_phase string | Pause string | Resume string | Cancel string

fun campaign_step ::
  "('b, 'l, 'g, 's) orchestrator \<Rightarrow> campaign_call \<Rightarrow> (exn, ('l, 'g, 's) campaign, campaign_transition) op" where
  "campaign_step M (Transition p r) = transition M p r"
| "campaign_step M (Pause r) = pause M r"
| "campaign_step M (Resume r) = resume M r"
| "campaign_step M (Cancel r) = cancel M r"

abbreviation campaign_run where
  "campaign_run M \<equiv> run_calls (\<lambda>c s. snd (campaign_step M c s))"

section \<open>Checkpoints\<close>

abbreviation SNAPSHOT_SCHEMA_ID :: string where
  "SNAPSHOT_SCHEMA_ID \<equiv> ''evoruntime.campaign.snapshot/v1''"

definition snapshot_json ::
  "string \<Rightarrow> campaign_phase \<Rightarrow> campaign_phase option \<Rightarrow> campaign_transition list \<Rightarrow> json" where
  "snapshot_json digest phase target ts =
     JObj [(''schema_id'', JStr SNAPSHOT_SCHEMA_ID), (''spec_digest'', JStr digest),
           (''phase'', JStr (phase_value phase)),
           (''resume_target'', json_opt_str (map_option phase_value target)),
           (''transitions'', JList (map transition_to_json ts))]"

definition checkpoint ::
  "('k, 'b) crypto \<Rightarrow> ('b, 'l, 'g, 's) orchestrator \<Rightarrow> (exn, ('l, 'g, 's) campaign, string) op" where
  "checkpoint C M =
     op_bind (op_gets (\<lambda>c. snapshot_json (pin_digest (or_spec M)) (cam_phase c) (cam_resume c) (or_all M (cam_sink c))))
       (\<lambda>payload. op_zoom cam_store (\<lambda>s c. c\<lparr>cam_store := s\<rparr>)
          (or_store M (canonical_json C payload) SNAPSHOT_SCHEMA_ID))"

record snapshot =
  sn_spec_digest :: json
  sn_phase :: json
  sn_resume :: json
  sn_transitions :: "json list"

definition checkpoint_error :: "string \<Rightarrow> exn" where
  "checkpoint_error what = Campaign (CampaignCheckpointError what)"

definition snapshot_field :: "json_object \<Rightarrow> string \<Rightarrow> exn + json" where
  "snapshot_field kvs k = (case map_of kvs k of None \<Rightarrow> Inl (checkpoint_error k) | Some v \<Rightarrow> Inr v)"

definition parse_snapshot :: "('k, 'b) crypto \<Rightarrow> 'b \<Rightarrow> exn + snapshot" where
  "parse_snapshot C data =
     (case cr_loads C data of
        None \<Rightarrow> Inl (checkpoint_error ''not valid JSON'')
      | Some (JObj kvs) \<Rightarrow>
          res_bind (snapshot_field kvs ''spec_digest'') (\<lambda>d.
          res_bind (snapshot_field kvs ''phase'') (\<lambda>p.
          res_bind (snapshot_field kvs ''resume_target'') (\<lambda>r.
          res_bind (snapshot_field kvs ''transitions'') (\<lambda>ts.
            (case ts of
               JList xs \<Rightarrow> Inr \<lparr>sn_spec_digest = d, sn_phase = p, sn_resume = r, sn_transitions = xs\<rparr>
             | _ \<Rightarrow> Inl (checkpoint_error ''transitions must be a list''))))))
      | Some _ \<Rightarrow> Inl (checkpoint_error ''payload is not an object''))"

definition resume_of_json :: "json \<Rightarrow> exn + campaign_phase option" where
  "resume_of_json j = (case j of JNull \<Rightarrow> Inr None | _ \<Rightarrow> res_bind (phase_of_json j) (\<lambda>p. Inr (Some p)))"

text \<open>\<^verbatim>\<open>reconstruct\<close>: \<open>M\<close> holds the sink, gates and store of the new orchestrator, \<open>g\<close> their world. The arguments
  are converted before the constructor checks the pinned spec.\<close>

definition reconstruct ::
  "('k, 'b) crypto \<Rightarrow> py_text \<Rightarrow> ('b, 'l, 'g, 's) orchestrator \<Rightarrow> string \<Rightarrow> 'g \<Rightarrow>
   (exn, 'l \<times> 's, ('l, 'g, 's) campaign) op" where
  "reconstruct C T M digest g =
     op_bind (op_zoom snd (\<lambda>s w. (fst w, s)) (or_load M digest)) (\<lambda>data.
       if sha256_digest C data \<noteq> digest then op_raise (checkpoint_error ''does not hash to its content address'')
       else op_bind (op_lift (parse_snapshot C data)) (\<lambda>sn.
         if sn_spec_digest sn \<noteq> JStr (pin_digest (or_spec M))
         then op_raise (checkpoint_error ''belongs to a different campaign spec'')
         else op_bind (op_lift (phase_of_json (sn_phase sn))) (\<lambda>p.
              op_bind (op_lift (resume_of_json (sn_resume sn))) (\<lambda>r.
              op_bind (op_lift (res_map (transition_of_json T) (sn_transitions sn))) (\<lambda>ts.
              op_bind (op_gets snd) (\<lambda>s.
                op_zoom fst (\<lambda>l w. (l, snd w)) (init_campaign C M p r ts g s)))))))"

lemmas machine_ops = transition_def pause_def resume_def cancel_def record_transition_def

section \<open>The abstract reading of a log\<close>

text \<open>A state of the lifecycle: the phase, and the phase a paused campaign resumes to. A record is legal
  from a state when it is a forward edge, a pause, the resumption of the phase paused in, or a
  cancellation.\<close>

type_synonym life = "campaign_phase \<times> campaign_phase option"

definition life_step :: "life \<Rightarrow> campaign_transition \<Rightarrow> life option" where
  "life_step st t =
     (if tr_from t \<noteq> fst st then None
      else if tr_to t \<in> set (forward_edges (fst st)) then Some (tr_to t, None)
      else if tr_to t = PAUSED \<and> can_pause (fst st) then Some (PAUSED, Some (fst st))
      else if fst st = PAUSED \<and> snd st = Some (tr_to t) then Some (tr_to t, None)
      else if tr_to t = CANCELLED \<and> can_cancel (fst st) then Some (CANCELLED, None)
      else None)"

fun life_replay :: "life \<Rightarrow> campaign_transition list \<Rightarrow> life option" where
  "life_replay st [] = Some st"
| "life_replay st (t # ts) = (case life_step st t of None \<Rightarrow> None | Some st' \<Rightarrow> life_replay st' ts)"

definition gapless :: "campaign_transition list \<Rightarrow> bool" where
  "gapless ts \<longleftrightarrow> map tr_sequence ts = map int [0..<length ts]"

lemma life_replay_append:
  "life_replay st (ts @ us) = (case life_replay st ts of None \<Rightarrow> None | Some st' \<Rightarrow> life_replay st' us)"
  by (induction ts arbitrary: st) (auto split: option.splits)

lemma gapless_snoc: "gapless ts \<Longrightarrow> tr_sequence t = int (length ts) \<Longrightarrow> gapless (ts @ [t])"
  by (simp add: gapless_def)

section \<open>Every call keeps the log the history\<close>

lemma consult_gates_frame:
  "cam_phase (snd (consult_gates M p q c)) = cam_phase c \<and> cam_resume (snd (consult_gates M p q c)) = cam_resume c
   \<and> cam_sink (snd (consult_gates M p q c)) = cam_sink c \<and> cam_store (snd (consult_gates M p q c)) = cam_store c"
  by (auto simp: consult_gates_def op_then_def op_bind_def op_zoom_def op_return_def
      split: option.splits prod.splits sum.splits)

locale campaign_sink =
  fixes M :: "('b, 'l, 'g, 's) orchestrator"
  assumes sink: "append_log (or_append M) (or_all M)"
begin

abbreviation log :: "('l, 'g, 's) campaign \<Rightarrow> campaign_transition list" where
  "log c \<equiv> or_all M (cam_sink c)"

lemma record_cases:
  obtains (failed) e c' where "record_transition M p q r c = (Inl e, c')" "log c' = log c"
      "cam_phase c' = cam_phase c" "cam_resume c' = cam_resume c"
  | (recorded) t c' where "record_transition M p q r c = (Inr t, c')" "log c' = log c @ [t]"
      "cam_phase c' = q" "cam_resume c' = cam_resume c" "tr_from t = p" "tr_to t = q"
      "tr_sequence t = int (length (log c))"
proof -
  let ?t = "\<lparr>tr_sequence = int (length (log c)), tr_from = p, tr_to = q, tr_reason = r,
             tr_at = or_now M (cam_gates c)\<rparr>"
  show thesis
  proof (cases "or_append M ?t (cam_sink c)")
    case (Pair res l')
    show thesis
    proof (cases res)
      case (Inl e)
      with Pair have "or_all M l' = log c" by (auto dest: append_log.append_failed [OF sink])
      with Pair Inl show thesis
        by (intro failed [of e "c\<lparr>cam_sink := l'\<rparr>"]) (simp_all add: record_transition_def op_defs)
    next
      case (Inr u)
      with Pair have "or_all M l' = log c @ [?t]" by (auto dest: append_log.append_ok [OF sink])
      with Pair Inr show thesis
        by (intro recorded [of ?t "c\<lparr>cam_sink := l', cam_phase := q\<rparr>"]) (simp_all add: record_transition_def op_defs)
    qed
  qed
qed

definition follows_log :: "('l, 'g, 's) campaign \<Rightarrow> bool" where
  "follows_log c \<longleftrightarrow> gapless (log c) \<and>
     (\<exists>r. life_replay (DISCOVER, None) (log c) = Some (cam_phase c, r)
        \<and> (cam_phase c = PAUSED \<longrightarrow> cam_resume c = r \<or> cam_resume c = None))"

text \<open>A record that is legal from where the log ends keeps the invariant, whether the sink takes it or not.\<close>

lemma record_follows:
  assumes "follows_log c" and c1: "log c1 = log c" "cam_phase c1 = cam_phase c"
    and legal: "\<And>r t. life_replay (DISCOVER, None) (log c) = Some (cam_phase c, r) \<Longrightarrow>
      (cam_phase c = PAUSED \<longrightarrow> cam_resume c = r \<or> cam_resume c = None) \<Longrightarrow>
      tr_from t = p \<Longrightarrow> tr_to t = q \<Longrightarrow>
      \<exists>r'. life_step (cam_phase c, r) t = Some (q, r') \<and> (q = PAUSED \<longrightarrow> cam_resume c1 = r' \<or> cam_resume c1 = None)"
    and keep: "cam_phase c = PAUSED \<Longrightarrow> cam_resume c1 = cam_resume c \<or> cam_resume c1 = None"
  shows "follows_log (snd (record_transition M p q reason c1))"
proof (rule record_cases [of p q reason c1], goal_cases)
  case (1 e c')
  then show ?case using assms(1) c1 keep by (auto simp: follows_log_def)
next
  case (2 t c')
  obtain r where r: "life_replay (DISCOVER, None) (log c) = Some (cam_phase c, r)"
    "cam_phase c = PAUSED \<longrightarrow> cam_resume c = r \<or> cam_resume c = None"
    using assms(1) by (auto simp: follows_log_def)
  obtain r' where "life_step (cam_phase c, r) t = Some (q, r')" "q = PAUSED \<longrightarrow> cam_resume c1 = r' \<or> cam_resume c1 = None"
    using legal [OF r 2(5,6)] by blast
  moreover have "gapless (log c @ [t])"
    using assms(1) 2(7) c1 by (simp add: follows_log_def gapless_snoc)
  ultimately show ?case
    using 2 c1 r(1) by (simp add: follows_log_def life_replay_append)
qed

lemma transition_follows: "follows_log c \<Longrightarrow> follows_log (snd (transition M q reason c))"
proof -
  assume f: "follows_log c"
  show ?thesis
  proof (cases "q \<in> set (forward_edges (cam_phase c))")
    case False
    with f show ?thesis by (simp add: transition_def op_defs)
  next
    case True
    obtain res c1 where g: "consult_gates M (cam_phase c) q c = (res, c1)" by fastforce
    have fr: "log c1 = log c" "cam_phase c1 = cam_phase c" "cam_resume c1 = cam_resume c"
      using consult_gates_frame [of M "cam_phase c" q c] by (simp_all add: g)
    have "q \<noteq> PAUSED" "cam_phase c \<noteq> PAUSED" using True no_edge_to_control by auto
    then have "follows_log (snd (record_transition M (cam_phase c) q reason c1))"
      using True by (intro record_follows [OF f fr(1,2)]) (auto simp: life_step_def)
    moreover have "follows_log c1" using f fr by (auto simp: follows_log_def)
    ultimately show ?thesis
      using True g by (cases res) (simp_all add: transition_def op_then_def op_bind_def op_gets_def)
  qed
qed

lemma pause_follows: "follows_log c \<Longrightarrow> follows_log (snd (pause M reason c))"
proof -
  assume f: "follows_log c"
  show ?thesis
  proof (cases "can_pause (cam_phase c)")
    case False
    with f show ?thesis by (simp add: pause_def op_defs)
  next
    case True
    then have "cam_phase c \<noteq> PAUSED" by (simp add: can_pause_def)
    with True no_edge_to_control have
      "follows_log (snd (record_transition M (cam_phase c) PAUSED reason (c\<lparr>cam_resume := Some (cam_phase c)\<rparr>)))"
      by (intro record_follows [OF f]) (auto simp: life_step_def)
    with True show ?thesis by (simp add: pause_def op_then_def op_bind_def op_gets_def op_modify_def)
  qed
qed

lemma resume_follows: "follows_log c \<Longrightarrow> follows_log (snd (resume M reason c))"
proof -
  assume f: "follows_log c"
  show ?thesis
  proof (cases "cam_phase c = PAUSED \<and> cam_resume c \<noteq> None")
    case False
    with f show ?thesis by (auto simp: resume_def op_defs split: option.splits)
  next
    case True
    then obtain q where q: "cam_resume c = Some q" by auto
    have "follows_log (snd (record_transition M PAUSED q reason (c\<lparr>cam_resume := None\<rparr>)))"
      using True q by (intro record_follows [OF f]) (auto simp: life_step_def can_pause_def)
    with True q show ?thesis by (simp add: resume_def op_then_def op_bind_def op_gets_def op_modify_def)
  qed
qed

lemma cancel_follows: "follows_log c \<Longrightarrow> follows_log (snd (cancel M reason c))"
proof -
  assume f: "follows_log c"
  show ?thesis
  proof (cases "can_cancel (cam_phase c)")
    case False
    with f show ?thesis by (simp add: cancel_def op_defs)
  next
    case True
    with no_edge_to_control have
      "follows_log (snd (record_transition M (cam_phase c) CANCELLED reason (c\<lparr>cam_resume := None\<rparr>)))"
      by (intro record_follows [OF f]) (auto simp: life_step_def)
    with True show ?thesis by (simp add: cancel_def op_then_def op_bind_def op_gets_def op_modify_def)
  qed
qed

lemma run_follows: "follows_log c \<Longrightarrow> follows_log (campaign_run M calls c)"
proof (rule run_calls_invariant)
  fix call c assume "follows_log c"
  then show "follows_log (snd (campaign_step M call c))"
    by (cases call) (simp_all add: transition_follows pause_follows resume_follows cancel_follows)
qed

end

section \<open>What a history must contain\<close>

definition route :: "campaign_phase list" where
  "route = [PLAN, PROPOSE, DEV_EVALUATE, SELECT_FREEZE, HOLDOUT, APPROVE, CANARY, PROMOTED, LEARN]"

fun rank :: "campaign_phase \<Rightarrow> nat" where
  "rank DISCOVER = 0" | "rank PLAN = 1" | "rank PROPOSE = 2" | "rank DEV_EVALUATE = 3"
| "rank SELECT_FREEZE = 4" | "rank HOLDOUT = 5" | "rank APPROVE = 6" | "rank CANARY = 7"
| "rank PROMOTED = 8" | "rank ROLLED_BACK = 8" | "rank LEARN = 9" | "rank PAUSED = 0" | "rank CANCELLED = 0"

text \<open>The phases a campaign in phase \<open>p\<close> has been through: the route up to \<open>p\<close>; a rollback and the learning
  after it may come without the canary and the promotion.\<close>

definition milestones :: "campaign_phase \<Rightarrow> campaign_phase list" where
  "milestones p = (if p = ROLLED_BACK \<or> p = LEARN then take 6 route @ [p] else take (rank p) route)"

lemma milestones_edge: "q \<in> set (forward_edges p) \<Longrightarrow> subseq (milestones q) (milestones p @ [q])"
  by (cases p) (auto simp: milestones_def route_def)

lemma milestones_control: "milestones PAUSED = []" "milestones CANCELLED = []" "milestones DISCOVER = []"
  by (simp_all add: milestones_def)

lemma life_milestones:
  "life_replay (DISCOVER, None) ts = Some (p, r) \<Longrightarrow>
     subseq (milestones p) (map tr_to ts)
     \<and> (case r of None \<Rightarrow> p \<noteq> PAUSED | Some q \<Rightarrow> p = PAUSED \<and> can_pause q \<and> subseq (milestones q) (map tr_to ts))"
proof (induction ts arbitrary: p r rule: rev_induct)
  case Nil
  then show ?case by (auto simp: milestones_control)
next
  case (snoc t ts)
  then obtain p0 r0 where r0: "life_replay (DISCOVER, None) ts = Some (p0, r0)"
      and step: "life_step (p0, r0) t = Some (p, r)"
    by (auto simp: life_replay_append split: option.splits)
  note IH = snoc.IH [OF r0]
  from step consider (edge) "tr_to t = p" "p \<in> set (forward_edges p0)" "r = None"
    | (paused) "tr_to t = PAUSED" "p = PAUSED" "r = Some p0" "can_pause p0"
    | (resumed) "tr_to t = p" "p0 = PAUSED" "r0 = Some p" "r = None"
    | (cancelled) "tr_to t = CANCELLED" "p = CANCELLED" "r = None"
    by (auto simp: life_step_def split: if_splits)
  then show ?case
  proof cases
    case edge
    then have "subseq (milestones p) (milestones p0 @ [p])" by (simp add: milestones_edge)
    moreover have "subseq (milestones p0 @ [p]) (map tr_to ts @ [p])"
      using IH by (intro list_emb_append_mono) auto
    ultimately show ?thesis using edge no_edge_to_control by (auto intro: subseq_order.trans)
  next
    case paused
    with IH show ?thesis by (auto simp: milestones_control intro: subseq_order.trans)
  next
    case resumed
    with IH show ?thesis by (auto simp: can_pause_def intro: subseq_order.trans)
  next
    case cancelled
    then show ?thesis by (simp add: milestones_control)
  qed
qed

section \<open>The in-memory sink\<close>

text \<open>The default sink of the code: \<^verbatim>\<open>InMemoryTransitionSink\<close>.\<close>

definition in_memory ::
  "('b, campaign_transition list, 'g, 's) orchestrator \<Rightarrow> ('b, campaign_transition list, 'g, 's) orchestrator" where
  "in_memory M = M\<lparr>or_append := mem_append, or_all := (\<lambda>l. l)\<rparr>"

lemma in_memory_fields [simp]:
  "or_append (in_memory M) = mem_append" "or_all (in_memory M) = (\<lambda>l. l)" "or_spec (in_memory M) = or_spec M"
  "or_now (in_memory M) = or_now M" "or_execution_gate (in_memory M) = or_execution_gate M"
  "or_compensation_gate (in_memory M) = or_compensation_gate M" "or_store (in_memory M) = or_store M"
  "or_load (in_memory M) = or_load M"
  by (simp_all add: in_memory_def)

interpretation mem_campaign: campaign_sink "in_memory M" for M
  by unfold_locales (auto simp: mem_append_def)

lemma mem_record_eq:
  "record_transition (in_memory M) p q reason c =
     (Inr \<lparr>tr_sequence = int (length (cam_sink c)), tr_from = p, tr_to = q, tr_reason = reason,
           tr_at = or_now M (cam_gates c)\<rparr>,
      c\<lparr>cam_phase := q, cam_sink := cam_sink c @ [\<lparr>tr_sequence = int (length (cam_sink c)), tr_from = p,
           tr_to = q, tr_reason = reason, tr_at = or_now M (cam_gates c)\<rparr>]\<rparr>)"
  by (simp add: record_transition_def op_defs mem_append_def)

text \<open>With it a paused campaign can always be resumed.\<close>

definition resumable :: "('l, 'g, 's) campaign \<Rightarrow> bool" where
  "resumable c \<longleftrightarrow> (cam_phase c = PAUSED \<longrightarrow> (\<exists>q. cam_resume c = Some q \<and> can_pause q))"

lemma mem_step_resumable: "resumable c \<Longrightarrow> resumable (snd (campaign_step (in_memory M) call c))"
proof (cases call)
  case (Transition q reason)
  obtain res c1 where g: "consult_gates (in_memory M) (cam_phase c) q c = (res, c1)" by fastforce
  have fr: "cam_phase c1 = cam_phase c" "cam_resume c1 = cam_resume c"
    using consult_gates_frame [of "in_memory M" "cam_phase c" q c] by (simp_all add: g)
  assume "resumable c"
  with fr g no_edge_to_control [of "cam_phase c"] Transition show ?thesis
    by (cases res)
      (auto simp: transition_def op_then_def op_bind_def op_gets_def op_raise_def mem_record_eq resumable_def)
next
  case (Pause reason)
  assume "resumable c"
  with Pause show ?thesis
    by (auto simp: pause_def op_then_def op_bind_def op_gets_def op_raise_def op_modify_def mem_record_eq resumable_def)
next
  case (Resume reason)
  assume "resumable c"
  with Resume show ?thesis
    by (auto simp: resume_def op_then_def op_bind_def op_gets_def op_raise_def op_modify_def mem_record_eq
        resumable_def can_pause_def split: option.splits)
next
  case (Cancel reason)
  assume "resumable c"
  with Cancel show ?thesis
    by (auto simp: cancel_def op_then_def op_bind_def op_gets_def op_raise_def op_modify_def mem_record_eq resumable_def)
qed

lemma mem_run_resumable: "resumable c \<Longrightarrow> resumable (campaign_run (in_memory M) calls c)"
  by (rule run_calls_invariant) (auto intro: mem_step_resumable)

lemma ungated_transition:
  assumes "or_execution_gate M = None" "or_compensation_gate M = None" "q \<in> set (forward_edges (cam_phase c))"
  shows "cam_phase (snd (campaign_step (in_memory M) (Transition q reason) c)) = q"
  using assms by (simp add: transition_def consult_gates_def op_then_def op_bind_def op_gets_def op_return_def mem_record_eq)

lemma ungated_route:
  assumes "or_execution_gate M = None" "or_compensation_gate M = None"
  shows "\<forall>i < length ps. ps ! i \<in> set (forward_edges ((cam_phase c # ps) ! i)) \<Longrightarrow>
    cam_phase (campaign_run (in_memory M) (map (\<lambda>p. Transition p []) ps) c) = last (cam_phase c # ps)"
proof (induction ps arbitrary: c)
  case Nil
  then show ?case by simp
next
  case (Cons p ps)
  let ?c1 = "snd (campaign_step (in_memory M) (Transition p []) c)"
  have p: "cam_phase ?c1 = p" using Cons.prems [THEN spec, of 0] by (intro ungated_transition [OF assms]) simp
  have "\<forall>i < length ps. ps ! i \<in> set (forward_edges ((p # ps) ! i))"
    using Cons.prems by force
  with Cons.IH [of ?c1] p show ?case by simp
qed

lemma route_edges:
  "\<not> is_terminal p \<Longrightarrow> p \<noteq> PAUSED \<Longrightarrow>
     (\<forall>i < length (drop (rank p) route). drop (rank p) route ! i \<in> set (forward_edges ((p # drop (rank p) route) ! i)))
     \<and> last (p # drop (rank p) route) = LEARN"
  by (cases p) (auto simp: route_def phase_tests less_Suc_eq numeral_eq_Suc)

section \<open>Checkpoint and reconstruct\<close>

lemma snapshot_wf: "json_wf (snapshot_json d p r ts)"
  by (simp add: snapshot_json_def json_opt_str_def list_all_iff transition_json_wf split: option.splits)

lemma resume_of_json_value [simp]: "resume_of_json (json_opt_str (map_option phase_value r)) = Inr r"
  by (cases r) (simp_all add: resume_of_json_def json_opt_str_def)

lemma parse_snapshot_json:
  assumes "crypto_laws C"
  shows "parse_snapshot C (canonical_json C (snapshot_json d p r ts)) =
    Inr \<lparr>sn_spec_digest = JStr d, sn_phase = JStr (phase_value p),
         sn_resume = json_opt_str (map_option phase_value r),
         sn_transitions = map (\<lambda>t. sort_keys (transition_to_json t)) ts\<rparr>"
proof -
  define kvs where "kvs = [(''schema_id'', JStr SNAPSHOT_SCHEMA_ID), (''spec_digest'', JStr d),
           (''phase'', JStr (phase_value p)),
           (''resume_target'', json_opt_str (map_option phase_value r)),
           (''transitions'', JList (map transition_to_json ts))]"
  have wf: "json_wf (JObj kvs)" using snapshot_wf [of d p r ts] by (simp add: kvs_def snapshot_json_def)
  have get: "map_of (sorted_obj kvs) k = map_option sort_keys (map_of kvs k)" for k
    using json_get_sort_keys [OF wf, of k] by (simp add: json_get_def)
  have "cr_loads C (canonical_json C (JObj kvs)) = Some (JObj (sorted_obj kvs))"
    using assms wf by simp
  then show ?thesis
    unfolding snapshot_json_def kvs_def [symmetric] parse_snapshot_def snapshot_field_def
    by (simp add: get) (simp add: kvs_def comp_def)
qed

lemma transitions_roundtrip:
  "res_map (transition_of_json T) (map (\<lambda>t. sort_keys (transition_to_json t)) ts) = Inr ts"
  using res_map_map [of ts "transition_of_json T" "\<lambda>t. sort_keys (transition_to_json t)" "\<lambda>t. t"]
  by (simp add: transition_roundtrip)

text \<open>Reading a snapshot's bytes from the store appends its transitions to whatever the sink holds.\<close>

lemma reconstruct_snapshot:
  assumes "crypto_laws C" "pinned_verify C (or_spec M)"
    and "or_load M d s = (Inr (canonical_json C (snapshot_json (pin_digest (or_spec M)) p r ts)), s)"
    and "sha256_digest C (canonical_json C (snapshot_json (pin_digest (or_spec M)) p r ts)) = d"
  shows "reconstruct C T (in_memory M) d g (l, s) =
    (Inr \<lparr>cam_phase = p, cam_resume = r, cam_sink = l @ ts, cam_gates = g, cam_store = s\<rparr>, (l @ ts, s))"
  using assms
  by (simp add: reconstruct_def op_defs parse_snapshot_json transitions_roundtrip init_campaign_def)

section \<open>A concrete campaign\<close>

definition demo_machine ::
  "(json, campaign_transition list, execution_record list \<times> nat list, (string, json) dict) orchestrator" where
  "demo_machine = in_memory \<lparr>or_spec = pin_and_sign plain_crypto (JStr ''spec'') ''key'', or_append = mem_append,
     or_all = (\<lambda>l. l), or_now = (\<lambda>_. 0), or_execution_gate = None,
     or_compensation_gate = Some (gate_approve_canary plain_crypto (\<lambda>_. []) (\<lambda>l. l) demo_signed,
        gate_execute_rollback (\<lambda>_. []) mem_append (\<lambda>i a. mem_append i) (\<lambda>_. 0) demo_signed),
     or_store = mem_store plain_crypto, or_load = mem_load\<rparr>"

definition plain_text :: py_text where
  "plain_text = \<lparr>pt_str = (\<lambda>_. []), pt_int = (\<lambda>_. None), pt_float = (\<lambda>_. None)\<rparr>"

definition demo_campaign :: "campaign_phase \<Rightarrow> execution_record list \<Rightarrow>
    (campaign_transition list, execution_record list \<times> nat list, (string, json) dict) campaign" where
  "demo_campaign p ex = \<lparr>cam_phase = p, cam_resume = None, cam_sink = [], cam_gates = (ex, []), cam_store = []\<rparr>"

abbreviation demo_evidence :: "execution_record list" where
  "demo_evidence \<equiv> [\<lparr>er_plan_id = ''plan'', er_action_index = 1, er_artifact_digest = ''sha256:a'', er_at = 0\<rparr>]"

lemma demo_approval:
  "gate_approve_canary plain_crypto (\<lambda>_. []) (\<lambda>l. l) demo_signed (demo_evidence, x) = (Inr (), (demo_evidence, x))"
  using demo_signed_verifies
  by (simp add: gate_approve_canary_def op_defs promotion_allowed_iff subset_iff set_owed executed_indices_def)
    (auto simp: demo_signed_def demo_actions_def less_Suc_eq)

section \<open>Properties\<close>

text \<open>C1: Whatever calls are made on a fresh campaign, in any order, with gates that refuse and a sink that may
  fail, the transition log is the history: its sequence numbers are 0, 1, 2, ..., every record is legal
  from where the records before it lead, and the current phase is the one the log leads to.\<close>

theorem campaign_log_is_history:
  assumes "append_log (or_append M) (or_all M)" "or_all M l = []"
  shows "let c = campaign_run M calls \<lparr>cam_phase = DISCOVER, cam_resume = None, cam_sink = l, cam_gates = g, cam_store = s\<rparr>;
             log = or_all M (cam_sink c)
         in map tr_sequence log = map int [0..<length log]
            \<and> (\<exists>r. life_replay (DISCOVER, None) log = Some (cam_phase c, r))"
proof -
  have k: "campaign_sink M" by (rule campaign_sink.intro [OF assms(1)])
  have "campaign_sink.follows_log M \<lparr>cam_phase = DISCOVER, cam_resume = None, cam_sink = l, cam_gates = g, cam_store = s\<rparr>"
    using assms(2) by (simp add: campaign_sink.follows_log_def [OF k] gapless_def)
  from campaign_sink.run_follows [OF k this] show ?thesis
    by (auto simp: campaign_sink.follows_log_def [OF k] gapless_def Let_def)
qed

text \<open>A sink that loses every second append with an error.\<close>

definition flaky_sink :: "campaign_transition \<Rightarrow> (exn, campaign_transition list \<times> bool, unit) op" where
  "flaky_sink t = (\<lambda>(l, up). if up then (Inr (), (l @ [t], False)) else (Inl (Foreign ''sink down''), (l, True)))"

definition flaky_machine ::
  "(json, campaign_transition list \<times> bool, execution_record list \<times> nat list, (string, json) dict) orchestrator" where
  "flaky_machine = \<lparr>or_spec = or_spec demo_machine, or_append = flaky_sink, or_all = fst, or_now = (\<lambda>_. 0),
     or_execution_gate = None, or_compensation_gate = None, or_store = or_store demo_machine, or_load = or_load demo_machine\<rparr>"

lemma flaky_log: "append_log (or_append flaky_machine) (or_all flaky_machine)"
  by unfold_locales (auto simp: flaky_machine_def flaky_sink_def split: if_splits)

interpretation flaky_campaign: campaign_sink flaky_machine
  by (rule campaign_sink.intro [OF flaky_log])

lemma campaign_log_witness:
  "\<exists>r. life_replay (DISCOVER, None) (fst (cam_sink (campaign_run flaky_machine [Transition PLAN [], Pause [], Pause [], Resume []]
      \<lparr>cam_phase = DISCOVER, cam_resume = None, cam_sink = ([], True), cam_gates = ([], []), cam_store = []\<rparr>)))
    = Some (cam_phase (campaign_run flaky_machine [Transition PLAN [], Pause [], Pause [], Resume []]
      \<lparr>cam_phase = DISCOVER, cam_resume = None, cam_sink = ([], True), cam_gates = ([], []), cam_store = []\<rparr>), r)"
  using campaign_log_is_history [OF flaky_log, of "([], True)"
      "[Transition PLAN [], Pause [], Pause [], Resume []]" "([], [])" "[]"]
  by (simp add: Let_def flaky_machine_def)

text \<open>C2: A campaign is in the promoted phase only if its log went through planning, proposing, development
  evaluation, freezing, the sealed holdout, approval and the canary, in that order.\<close>

theorem promotion_after_every_stage:
  assumes "append_log (or_append M) (or_all M)" "or_all M l = []"
    and "cam_phase (campaign_run M calls \<lparr>cam_phase = DISCOVER, cam_resume = None, cam_sink = l, cam_gates = g, cam_store = s\<rparr>) = PROMOTED"
  shows "subseq [PLAN, PROPOSE, DEV_EVALUATE, SELECT_FREEZE, HOLDOUT, APPROVE, CANARY, PROMOTED]
    (map tr_to (or_all M (cam_sink (campaign_run M calls
      \<lparr>cam_phase = DISCOVER, cam_resume = None, cam_sink = l, cam_gates = g, cam_store = s\<rparr>))))"
proof -
  have k: "campaign_sink M" by (rule campaign_sink.intro [OF assms(1)])
  have "campaign_sink.follows_log M \<lparr>cam_phase = DISCOVER, cam_resume = None, cam_sink = l, cam_gates = g, cam_store = s\<rparr>"
    using assms(2) by (simp add: campaign_sink.follows_log_def [OF k] gapless_def)
  from campaign_sink.run_follows [OF k this, of calls] assms(3) obtain r where
    "life_replay (DISCOVER, None) (or_all M (cam_sink (campaign_run M calls
      \<lparr>cam_phase = DISCOVER, cam_resume = None, cam_sink = l, cam_gates = g, cam_store = s\<rparr>))) = Some (PROMOTED, r)"
    by (auto simp: campaign_sink.follows_log_def [OF k])
  from life_milestones [OF this] show ?thesis by (simp add: milestones_def route_def)
qed

definition to_promoted :: "campaign_call list" where
  "to_promoted = map (\<lambda>p. Transition p []) (take 8 route)"

lemma demo_log: "append_log (or_append demo_machine) (or_all demo_machine)"
  unfolding demo_machine_def in_memory_fields by unfold_locales (auto simp: mem_append_def)

lemma demo_all_nil: "or_all demo_machine [] = []"
  by (simp add: demo_machine_def)

lemma demo_to_promoted: "cam_phase (campaign_run demo_machine to_promoted (demo_campaign DISCOVER demo_evidence)) = PROMOTED"
  unfolding demo_machine_def to_promoted_def route_def demo_campaign_def
  by (simp add: transition_def consult_gates_def op_then_def op_bind_def op_gets_def op_return_def op_zoom_def
      mem_record_eq demo_approval [simplified])

lemma promotion_after_every_stage_witness:
  "HOLDOUT \<in> set (map tr_to (or_all demo_machine (cam_sink (campaign_run demo_machine to_promoted (demo_campaign DISCOVER demo_evidence)))))"
proof -
  have "subseq [PLAN, PROPOSE, DEV_EVALUATE, SELECT_FREEZE, HOLDOUT, APPROVE, CANARY, PROMOTED]
    (map tr_to (or_all demo_machine (cam_sink (campaign_run demo_machine to_promoted (demo_campaign DISCOVER demo_evidence)))))"
    unfolding demo_campaign_def
    by (rule promotion_after_every_stage [OF demo_log demo_all_nil demo_to_promoted [unfolded demo_campaign_def]])
  then have "set [PLAN, PROPOSE, DEV_EVALUATE, SELECT_FREEZE, HOLDOUT, APPROVE, CANARY, PROMOTED] \<subseteq>
    set (map tr_to (or_all demo_machine (cam_sink (campaign_run demo_machine to_promoted (demo_campaign DISCOVER demo_evidence)))))"
    by (blast dest: list_emb_set)
  then show ?thesis by (rule subsetD) simp
qed

text \<open>C6: No reachable campaign on the in-memory sink is stuck: without gates, whatever calls were made, either
  the campaign is in a terminal phase or some calls bring it to the learning phase.\<close>

theorem campaign_never_stuck:
  assumes "or_execution_gate M = None" "or_compensation_gate M = None"
    and "c = campaign_run (in_memory M) calls \<lparr>cam_phase = DISCOVER, cam_resume = None, cam_sink = [], cam_gates = g, cam_store = s\<rparr>"
  shows "is_terminal (cam_phase c) \<or> (\<exists>more. cam_phase (campaign_run (in_memory M) more c) = LEARN)"
proof (cases "is_terminal (cam_phase c)")
  case False
  have finish: "\<exists>more. cam_phase (campaign_run (in_memory M) more c') = LEARN"
    if "\<not> is_terminal (cam_phase c')" "cam_phase c' \<noteq> PAUSED" for c'
    using route_edges [OF that] ungated_route [OF assms(1,2), of "drop (rank (cam_phase c')) route" c'] by metis
  show ?thesis
  proof (cases "cam_phase c = PAUSED")
    case True
    have "resumable c" unfolding assms(3) by (rule mem_run_resumable) (simp add: resumable_def)
    with True obtain q where q: "cam_resume c = Some q" "can_pause q" by (auto simp: resumable_def)
    define c' where "c' = snd (campaign_step (in_memory M) (Resume []) c)"
    have "cam_phase c' = q"
      using True q by (simp add: c'_def resume_def op_then_def op_bind_def op_gets_def op_modify_def mem_record_eq)
    then obtain more where "cam_phase (campaign_run (in_memory M) more c') = LEARN"
      using finish [of c'] q(2) by (auto simp: can_pause_def)
    then have "cam_phase (campaign_run (in_memory M) (Resume [] # more) c) = LEARN" by (simp add: c'_def)
    then show ?thesis by blast
  next
    case paused: False
    from finish [OF False paused] show ?thesis by blast
  qed
qed blast

lemma campaign_never_stuck_witness:
  "\<exists>more. cam_phase (campaign_run (in_memory (demo_machine\<lparr>or_compensation_gate := None\<rparr>)) more
     (campaign_run (in_memory (demo_machine\<lparr>or_compensation_gate := None\<rparr>)) [Transition PLAN [], Pause []]
       \<lparr>cam_phase = DISCOVER, cam_resume = None, cam_sink = [], cam_gates = ([], []), cam_store = []\<rparr>)) = LEARN"
  using campaign_never_stuck [of "demo_machine\<lparr>or_compensation_gate := None\<rparr>", OF _ _ refl,
      of "[Transition PLAN [], Pause []]" "([], [])" "[]"]
  by (simp add: demo_machine_def transition_def pause_def consult_gates_def op_then_def op_bind_def op_gets_def
      op_return_def op_modify_def mem_record_eq phase_tests)

text \<open>A gate that refuses an edge stops it before anything is recorded: the call ends in the gate's own
  exception, and the campaign's phase, resume target and log are what they were.\<close>

theorem gate_refusal_leaves_no_trace:
  assumes "q \<in> set (forward_edges (cam_phase c))" "fst (consult_gates M (cam_phase c) q c) = Inl e"
  shows "\<exists>c'. transition M q reason c = (Inl e, c') \<and> cam_phase c' = cam_phase c
    \<and> cam_resume c' = cam_resume c \<and> or_all M (cam_sink c') = or_all M (cam_sink c)"
proof -
  obtain c' where g: "consult_gates M (cam_phase c) q c = (Inl e, c')"
    using assms(2) by (metis prod.collapse)
  with assms(1) have "transition M q reason c = (Inl e, c')"
    by (simp add: transition_def op_then_def op_bind_def op_gets_def)
  then show ?thesis using consult_gates_frame [of M "cam_phase c" q c] g by auto
qed

lemma demo_refusal:
  "consult_gates demo_machine APPROVE CANARY (demo_campaign APPROVE []) =
    (Inl (Campaign (UnexecutedCompensationError ''plan'' 1 ''run_compensation_hook'' ''sha256:a'')), demo_campaign APPROVE [])"
proof -
  have "assert_promotion_allowed plain_crypto (\<lambda>_. []) demo_signed [] =
    Inl (Campaign (UnexecutedCompensationError ''plan'' 1 ''run_compensation_hook'' ''sha256:a''))"
    using demo_signed_verifies
    by (simp add: assert_promotion_allowed_def)
      (simp add: demo_signed_def demo_actions_def executed_indices_def action_str_def build_action_def is_cas_def)
  then show ?thesis
    by (simp add: consult_gates_def demo_machine_def demo_campaign_def gate_approve_canary_def op_defs)
qed

lemma gate_refusal_witness:
  "\<exists>c'. transition demo_machine CANARY [] (demo_campaign APPROVE []) =
      (Inl (Campaign (UnexecutedCompensationError ''plan'' 1 ''run_compensation_hook'' ''sha256:a'')), c')
    \<and> cam_phase c' = APPROVE"
proof -
  have "CANARY \<in> set (forward_edges (cam_phase (demo_campaign APPROVE [])))" by (simp add: demo_campaign_def)
  moreover have "fst (consult_gates demo_machine (cam_phase (demo_campaign APPROVE [])) CANARY (demo_campaign APPROVE [])) =
      Inl (Campaign (UnexecutedCompensationError ''plan'' 1 ''run_compensation_hook'' ''sha256:a''))"
    using demo_refusal by (simp add: demo_campaign_def)
  ultimately show ?thesis
    using gate_refusal_leaves_no_trace [of CANARY "demo_campaign APPROVE []" demo_machine _ "[]"]
    by (fastforce simp: demo_campaign_def)
qed

text \<open>With the checkpointed compensation gate installed, a campaign enters the canary only while its plan
  verifies and every action that requires execution has its record in the gate's sink.\<close>

theorem canary_edge_needs_evidence:
  assumes "or_compensation_gate M = Some (gate_approve_canary C str_of all_of plan, execute_rollback)"
    and "transition M CANARY reason c = (Inr t, c')"
  shows "plan_verify C plan
    \<and> (\<forall>i < length (cp_actions plan). is_cas (cp_actions plan ! i)
         \<or> (\<exists>r \<in> set (all_of (fst (cam_gates c))). er_plan_id r = cp_plan_id plan \<and> er_action_index r = i))"
proof -
  have "CANARY \<in> set (forward_edges (cam_phase c))"
    using assms(2) by (auto simp: transition_def op_defs split: if_splits)
  then have p: "cam_phase c = APPROVE" by (cases "cam_phase c") auto
  from assms p have "assert_promotion_allowed C str_of plan (all_of (fst (cam_gates c))) = Inr ()"
    by (cases "assert_promotion_allowed C str_of plan (all_of (fst (cam_gates c)))")
      (auto simp: transition_def consult_gates_def op_then_def op_bind_def op_gets_def op_zoom_def op_return_def
        gate_approve_canary_def op_lift_def)
  then have "plan_verify C plan" "set (owed plan) \<subseteq> set (executed_indices (cp_plan_id plan) (all_of (fst (cam_gates c))))"
    by (simp_all add: promotion_allowed_iff)
  then show ?thesis by (fastforce simp: set_owed executed_indices_def)
qed

lemma demo_canary: "\<exists>t c'. transition demo_machine CANARY [] (demo_campaign APPROVE demo_evidence) = (Inr t, c')"
  by (simp add: demo_machine_def demo_campaign_def transition_def consult_gates_def op_then_def op_bind_def
      op_gets_def op_return_def op_zoom_def mem_record_eq demo_approval [simplified])

lemma canary_edge_witness: "plan_verify plain_crypto demo_signed"
proof -
  obtain t c' where "transition demo_machine CANARY [] (demo_campaign APPROVE demo_evidence) = (Inr t, c')"
    using demo_canary by blast
  from canary_edge_needs_evidence [OF _ this, of plain_crypto "\<lambda>_. []" "\<lambda>l. l" demo_signed
      "gate_execute_rollback (\<lambda>_. []) mem_append (\<lambda>i a. mem_append i) (\<lambda>_. 0) demo_signed"]
  show ?thesis by (simp add: demo_machine_def)
qed

text \<open>C5: A checkpoint reconstructs: a campaign stored in the content-addressed store and rebuilt from the
  returned address onto an empty in-memory sink has the same phase, the same resume target and the
  same transition log, under the same verified spec.\<close>

theorem checkpoint_reconstructs:
  assumes "crypto_laws C" "pinned_verify C (or_spec M)" "or_store M = mem_store C" "or_load M = mem_load"
  shows "\<exists>d c1. checkpoint C (in_memory M) c = (Inr d, c1)
    \<and> reconstruct C T (in_memory M) d g ([], cam_store c1) =
       (Inr \<lparr>cam_phase = cam_phase c, cam_resume = cam_resume c, cam_sink = cam_sink c,
             cam_gates = g, cam_store = cam_store c1\<rparr>, (cam_sink c, cam_store c1))"
proof -
  let ?data = "canonical_json C (snapshot_json (pin_digest (or_spec M)) (cam_phase c) (cam_resume c) (cam_sink c))"
  obtain d s' where st: "mem_store C ?data SNAPSHOT_SCHEMA_ID (cam_store c) = (Inr d, s')"
    by (simp add: mem_store_def Let_def)
  from mem_blobs.store_load [OF st] have d: "d = sha256_digest C ?data" "mem_load d s' = (Inr ?data, s')" by blast+
  have "checkpoint C (in_memory M) c = (Inr d, c\<lparr>cam_store := s'\<rparr>)"
    using st by (simp add: checkpoint_def op_defs assms(3))
  moreover have "reconstruct C T (in_memory M) d g ([], s') =
      (Inr \<lparr>cam_phase = cam_phase c, cam_resume = cam_resume c, cam_sink = [] @ cam_sink c,
            cam_gates = g, cam_store = s'\<rparr>, ([] @ cam_sink c, s'))"
    by (rule reconstruct_snapshot [OF assms(1,2)]) (simp_all add: assms(4) d(2), simp add: d(1))
  ultimately show ?thesis by simp
qed

lemma demo_pinned: "pinned_verify plain_crypto (or_spec demo_machine)"
  by (simp add: demo_machine_def pin_and_sign_verifies [OF plain_crypto_laws])

lemma checkpoint_reconstructs_witness:
  "\<exists>d c1 c2. checkpoint plain_crypto (in_memory demo_machine) (demo_campaign HOLDOUT []) = (Inr d, c1)
    \<and> fst (reconstruct plain_crypto plain_text (in_memory demo_machine) d ([], []) ([], cam_store c1)) = Inr c2 \<and> cam_phase c2 = HOLDOUT"
proof -
  have "or_store demo_machine = mem_store plain_crypto" "or_load demo_machine = mem_load"
    by (simp_all add: demo_machine_def)
  from checkpoint_reconstructs [OF plain_crypto_laws demo_pinned this, of "demo_campaign HOLDOUT []" plain_text "([], [])"]
  obtain d c1 where "checkpoint plain_crypto (in_memory demo_machine) (demo_campaign HOLDOUT []) = (Inr d, c1)"
    "fst (reconstruct plain_crypto plain_text (in_memory demo_machine) d ([], []) ([], cam_store c1)) =
      Inr \<lparr>cam_phase = cam_phase (demo_campaign HOLDOUT []), cam_resume = cam_resume (demo_campaign HOLDOUT []),
           cam_sink = cam_sink (demo_campaign HOLDOUT []), cam_gates = ([], []), cam_store = cam_store c1\<rparr>"
    by (metis fst_conv)
  moreover have "cam_phase (demo_campaign HOLDOUT []) = HOLDOUT" by (simp add: demo_campaign_def)
  ultimately show ?thesis by (metis campaign.select_convs(1))
qed

text \<open>A resume whose sink fails loses the resume target before anything is recorded: the campaign stays
  paused, and from then on no transition, pause or resume moves it, also when the sink works again.\<close>

theorem failed_resume_strands_campaign:
  assumes "cam_phase c = PAUSED" "cam_resume c = Some q" "resume M reason c = (Inl e, c')"
    and "\<forall>call \<in> set calls. \<nexists>r. call = Cancel r"
  shows "cam_phase (campaign_run M calls c') = PAUSED \<and> cam_sink (campaign_run M calls c') = cam_sink c'"
proof -
  have "cam_phase c' = PAUSED \<and> cam_resume c' = None"
    using assms(1-3)
    by (auto simp: resume_def record_transition_def op_defs split: prod.splits sum.splits)
  with assms(4) show ?thesis
  proof (induction calls)
    case Nil
    then show ?case by simp
  next
    case (Cons call calls)
    then have "snd (campaign_step M call c') = c'"
      by (cases call) (auto simp: machine_ops op_defs can_pause_def)
    with Cons show ?case by simp
  qed
qed

lemma flaky_resume:
  "resume flaky_machine [] \<lparr>cam_phase = PAUSED, cam_resume = Some PLAN, cam_sink = ([], False), cam_gates = ([], []), cam_store = []\<rparr> =
    (Inl (Foreign ''sink down''),
     \<lparr>cam_phase = PAUSED, cam_resume = None, cam_sink = ([], True), cam_gates = ([], []), cam_store = []\<rparr>)"
  by (simp add: resume_def record_transition_def op_defs flaky_machine_def flaky_sink_def)

lemma failed_resume_witness:
  "cam_phase (campaign_run flaky_machine [Resume [], Resume [], Transition PLAN []]
     \<lparr>cam_phase = PAUSED, cam_resume = None, cam_sink = ([], True), cam_gates = ([], []), cam_store = []\<rparr>) = PAUSED"
  using failed_resume_strands_campaign [OF _ _ flaky_resume, of PLAN "[Resume [], Resume [], Transition PLAN []]"]
  by simp

text \<open>Reconstructing onto a sink that already holds the campaign's history, as a durable sink does,
  appends the whole history again: the log is the old one twice, and it is no longer gapless.\<close>

theorem reconstruct_duplicates_history:
  assumes "crypto_laws C" "pinned_verify C (or_spec M)" "or_store M = mem_store C" "or_load M = mem_load"
    and "cam_sink c \<noteq> []" "gapless (cam_sink c)"
  shows "\<exists>d c1 c2. checkpoint C (in_memory M) c = (Inr d, c1)
    \<and> fst (reconstruct C T (in_memory M) d g (cam_sink c, cam_store c1)) = Inr c2
    \<and> cam_sink c2 = cam_sink c @ cam_sink c \<and> \<not> gapless (cam_sink c2)"
proof -
  let ?data = "canonical_json C (snapshot_json (pin_digest (or_spec M)) (cam_phase c) (cam_resume c) (cam_sink c))"
  obtain d s' where st: "mem_store C ?data SNAPSHOT_SCHEMA_ID (cam_store c) = (Inr d, s')"
    by (simp add: mem_store_def Let_def)
  from mem_blobs.store_load [OF st] have d: "d = sha256_digest C ?data" "mem_load d s' = (Inr ?data, s')" by blast+
  have "checkpoint C (in_memory M) c = (Inr d, c\<lparr>cam_store := s'\<rparr>)"
    using st by (simp add: checkpoint_def op_defs assms(3))
  moreover have "reconstruct C T (in_memory M) d g (cam_sink c, s') =
      (Inr \<lparr>cam_phase = cam_phase c, cam_resume = cam_resume c, cam_sink = cam_sink c @ cam_sink c,
            cam_gates = g, cam_store = s'\<rparr>, (cam_sink c @ cam_sink c, s'))"
    by (rule reconstruct_snapshot [OF assms(1,2)]) (simp_all add: assms(4) d(2), simp add: d(1))
  moreover have "\<not> gapless (cam_sink c @ cam_sink c)"
  proof
    assume "gapless (cam_sink c @ cam_sink c)"
    with assms(6) have "map int [0..<length (cam_sink c)] @ map int [0..<length (cam_sink c)] =
        map int [0..<length (cam_sink c) + length (cam_sink c)]" by (simp add: gapless_def)
    from arg_cong [OF this, of distinct] assms(5) show False
      by (simp add: distinct_map del: map_append upt_add_eq_append)
  qed
  ultimately show ?thesis by simp
qed

abbreviation demo_entry :: campaign_transition where
  "demo_entry \<equiv> \<lparr>tr_sequence = 0, tr_from = DISCOVER, tr_to = PLAN, tr_reason = [], tr_at = 0\<rparr>"

lemma reconstruct_duplicates_witness:
  "\<exists>d c1 c2. checkpoint plain_crypto (in_memory demo_machine) ((demo_campaign PLAN [])\<lparr>cam_sink := [demo_entry]\<rparr>) = (Inr d, c1)
    \<and> fst (reconstruct plain_crypto plain_text (in_memory demo_machine) d ([], []) ([demo_entry], cam_store c1)) = Inr c2
    \<and> cam_sink c2 = [demo_entry, demo_entry]"
proof -
  have "or_store demo_machine = mem_store plain_crypto" "or_load demo_machine = mem_load"
    by (simp_all add: demo_machine_def)
  from reconstruct_duplicates_history [OF plain_crypto_laws demo_pinned this,
      of "(demo_campaign PLAN [])\<lparr>cam_sink := [demo_entry]\<rparr>" plain_text "([], [])"]
  show ?thesis by (simp add: gapless_def) blast
qed

end
