(* ===== verification/CampaignSpec.thy ===== *)
theory CampaignSpec
  imports SpecSections CampaignMachine
begin

text \<open>
  The campaign spec as a document (\<^verbatim>\<open>campaign/spec.py\<close>): the checks that span its sections, its canonical form, the
  parser with the dated migration windows of the older versions, and pinning. A date is year, month, day.
\<close>

section \<open>The spec\<close>

record campaign_spec =
  cs_schema_version :: int
  cs_name :: string
  cs_incumbent :: incumbent_binding
  cs_mutable_artifacts :: "mutable_artifact list"
  cs_strategy_plugin :: strategy_binding
  cs_arms :: "arm list"
  cs_datasets :: dataset_bindings
  cs_evaluators :: "evaluator_binding list"
  cs_budgets :: campaign_budgets
  cs_promotion_policy :: promotion_policy_ref
  cs_statistics :: statistics_plan
  cs_stopping_rules :: stopping_rules
  cs_compensation_plan :: "compensation_action_spec list option"
  cs_mutation_classes :: "mutation_class_binding list"
  cs_metadata :: "(string, string) dict"
  cs_environment :: "string option"
  cs_tier4_policy_digest :: "string option"

definition SUPPORTED_SPEC_VERSION :: int where
  "SUPPORTED_SPEC_VERSION = 3"

type_synonym date = "int \<times> int \<times> int"

definition V1_MIGRATION_WINDOW_END :: date where
  "V1_MIGRATION_WINDOW_END = (2026, 10, 27)"

definition V2_MIGRATION_WINDOW_END :: date where
  "V2_MIGRATION_WINDOW_END = (2026, 10, 28)"

definition has_scaffold_mutable :: "campaign_spec \<Rightarrow> bool" where
  "has_scaffold_mutable s \<longleftrightarrow> list_ex (\<lambda>a. is_scaffold_class (ma_artifact_type a)) (cs_mutable_artifacts s)"

text \<open>\<^verbatim>\<open>for x in xs: check(x)\<close>\<close>

definition res_each :: "('a \<Rightarrow> exn + unit) \<Rightarrow> 'a list \<Rightarrow> exn + unit" where
  "res_each f xs = res_bind (res_map f xs) (\<lambda>_. Inr ())"

definition validate_artifact_consistency :: "campaign_spec \<Rightarrow> exn + unit" where
  "validate_artifact_consistency s =
     (if length (filter (\<lambda>a. ma_artifact_type a = ib_artifact_type (cs_incumbent s)) (cs_mutable_artifacts s)) \<noteq> 1
      then spec_error ''exactly one artifact of the incumbent type'' else Inr ())"

definition validate_environment :: "campaign_spec \<Rightarrow> exn + unit" where
  "validate_environment s =
     (if (case cs_environment s of None \<Rightarrow> False | Some e \<Rightarrow> e \<notin> {''research'', ''production''}) then spec_error ''environment''
      else if \<not> has_scaffold_mutable s then Inr ()
      else if cs_environment s \<noteq> Some ''research''
        then Inl (Campaign (ScaffoldEnvironmentRefusedError ''requires environment: research''))
      else Inr ())"

definition validate_mutation_classes :: "campaign_spec \<Rightarrow> exn + unit" where
  "validate_mutation_classes s =
     (if has_scaffold_mutable s \<and> cs_mutation_classes s = [] then spec_error ''must pin its mutation_classes'' else Inr ())"

definition validate_tier4_policy :: "campaign_spec \<Rightarrow> exn + unit" where
  "validate_tier4_policy s =
     (if has_scaffold_mutable s
      then (case cs_tier4_policy_digest s of None \<Rightarrow> spec_error ''must pin tier4_policy_digest'' | Some d \<Rightarrow> require_digest d)
      else if cs_tier4_policy_digest s \<noteq> None then spec_error ''tier4_policy_digest is only valid on a scaffold-mutable spec''
      else Inr ())"

definition required_arm_kinds :: "arm_kind list" where
  "required_arm_kinds = [ARM_INCUMBENT, ARM_RETRY_SELF_CONSISTENCY, ARM_ONE_SHOT_CONTROL, ARM_STRATEGY]"

definition validate_fixed_editor_arm :: "campaign_spec \<Rightarrow> exn + unit" where
  "validate_fixed_editor_arm s =
     (if has_scaffold_mutable s \<and> length (filter (\<lambda>a. arm_kind_of a = ARM_FIXED_EDITOR) (cs_arms s)) \<noteq> 1
      then spec_error ''exactly one fixed-editor arm'' else Inr ())"

definition validate_ablation_arms :: "campaign_spec \<Rightarrow> exn + unit" where
  "validate_ablation_arms s =
     res_each (\<lambda>a. if arm_kind_of a \<noteq> ARM_ABLATION then Inr ()
       else if st_ablation_family (cs_statistics s) = [] then spec_error ''no preregistered ablation family''
       else if arm_component_id a \<notin> Some ` set (st_ablation_family (cs_statistics s)) then spec_error ''not in the preregistered ablation family''
       else Inr ()) (cs_arms s)"

definition validate_arms :: "campaign_spec \<Rightarrow> exn + unit" where
  "validate_arms s =
     (if cs_arms s = [] then spec_error ''at least one arm''
      else if \<not> distinct (map arm_id (cs_arms s)) then spec_error ''duplicate arm ids''
      else res_bind (res_each (\<lambda>k. if count_list (map arm_kind_of (cs_arms s)) k \<noteq> 1 then spec_error ''exactly one arm of each kind'' else Inr ())
             required_arm_kinds) (\<lambda>_.
        res_bind (validate_fixed_editor_arm s) (\<lambda>_. validate_ablation_arms s)))"

definition validate_compensation_plan :: "campaign_spec \<Rightarrow> exn + unit" where
  "validate_compensation_plan s =
     (case cs_compensation_plan s of None \<Rightarrow> Inr ()
      | Some actions \<Rightarrow> res_each (\<lambda>a. if sa_artifact_type a \<notin> ma_artifact_type ` set (cs_mutable_artifacts s)
          then spec_error ''a campaign can only compensate what it mutates'' else Inr ()) actions)"

definition check_campaign_spec :: "campaign_spec \<Rightarrow> exn + unit" where
  "check_campaign_spec s =
     (if cs_schema_version s \<noteq> SUPPORTED_SPEC_VERSION then spec_error ''unsupported schema_version''
      else if cs_name s = [] then spec_error ''campaign name''
      else if \<not> distinct (map mb_class_id (cs_mutation_classes s)) then spec_error ''duplicate class_id''
      else res_bind (validate_artifact_consistency s) (\<lambda>_. res_bind (validate_environment s) (\<lambda>_.
        res_bind (validate_mutation_classes s) (\<lambda>_. res_bind (validate_tier4_policy s) (\<lambda>_.
        res_bind (validate_arms s) (\<lambda>_. res_bind (validate_compensation_plan s) (\<lambda>_.
          if cs_evaluators s = [] then spec_error ''at least one evaluator'' else Inr ())))))))"

definition primary_artifact :: "campaign_spec \<Rightarrow> mutable_artifact option" where
  "primary_artifact s = find (\<lambda>a. ma_artifact_type a = ib_artifact_type (cs_incumbent s)) (cs_mutable_artifacts s)"

section \<open>Canonical form and pinning\<close>

definition metadata_json :: "(string, string) dict \<Rightarrow> json" where
  "metadata_json m = JObj (map (\<lambda>(k, v). (k, JStr v)) (sort_key fst m))"

definition spec_object :: "campaign_spec \<Rightarrow> json_object" where
  "spec_object s =
     [(''schema_version'', JInt SUPPORTED_SPEC_VERSION), (''name'', JStr (cs_name s)),
      (''incumbent'', incumbent_json (cs_incumbent s)),
      (''mutable_artifacts'', JList (map mutable_artifact_json (cs_mutable_artifacts s))),
      (''strategy_plugin'', strategy_json (cs_strategy_plugin s)), (''arms'', JList (map arm_json (cs_arms s))),
      (''datasets'', datasets_json (cs_datasets s)), (''evaluators'', JList (map evaluator_json (cs_evaluators s))),
      (''budgets'', budgets_json (cs_budgets s)), (''promotion_policy'', policy_ref_json (cs_promotion_policy s)),
      (''statistics'', statistics_json (cs_statistics s)), (''stopping_rules'', stopping_json (cs_stopping_rules s)),
      (''compensation_plan'', case cs_compensation_plan s of None \<Rightarrow> JNull | Some as \<Rightarrow> compensation_plan_json as),
      (''environment'', json_opt_str (cs_environment s)),
      (''mutation_classes'', JList (map mutation_class_json (cs_mutation_classes s))),
      (''metadata'', metadata_json (cs_metadata s)),
      (''tier4_policy_digest'', json_opt_str (cs_tier4_policy_digest s))]"

definition spec_bytes :: "('k, 'b) crypto \<Rightarrow> campaign_spec \<Rightarrow> 'b" where
  "spec_bytes C s = canonical_json C (JObj (spec_object s))"

definition spec_digest :: "('k, 'b) crypto \<Rightarrow> campaign_spec \<Rightarrow> string" where
  "spec_digest C s = sha256_digest C (spec_bytes C s)"

definition pin_campaign_spec :: "('k, 'b) crypto \<Rightarrow> campaign_spec \<Rightarrow> 'k \<Rightarrow> 'b pinned_spec" where
  "pin_campaign_spec C s key = pin_and_sign C (spec_bytes C s) key"

section \<open>Parsing\<close>

definition parse_each :: "(json \<Rightarrow> exn + 'a) \<Rightarrow> json \<Rightarrow> exn + 'a list" where
  "parse_each f j = res_bind (py_iter j) (res_map f)"

definition parse_mutable_artifacts :: "date \<Rightarrow> json \<Rightarrow> int \<Rightarrow> exn + mutable_artifact list" where
  "parse_mutable_artifacts today raw version =
     (if version = SUPPORTED_SPEC_VERSION \<or> version = 2 then
        if version = 2 \<and> V2_MIGRATION_WINDOW_END < today then spec_error ''the v2 migration window closed''
        else (case json_get raw ''mutable_artifacts'' of
            Some (JList entries) \<Rightarrow>
              if entries = [] then spec_error ''must declare mutable_artifacts''
              else res_bind (res_map parse_mutable_artifact entries) (constructed check_artifact_set)
          | _ \<Rightarrow> spec_error ''must declare mutable_artifacts'')
      else if version = 1 then
        if V1_MIGRATION_WINDOW_END < today then spec_error ''the v1 migration window closed''
        else (case json_get raw ''mutable_artifact'' of
            Some (JObj kvs) \<Rightarrow> res_bind (parse_mutable_artifact (JObj kvs)) (\<lambda>a. constructed check_artifact_set [a])
          | _ \<Rightarrow> spec_error ''must declare mutable_artifact'')
      else spec_error ''unsupported schema_version'')"

definition parse_mutation_classes :: "json \<Rightarrow> exn + mutation_class_binding list" where
  "parse_mutation_classes raw =
     (case json_get raw ''mutation_classes'' of
        None \<Rightarrow> Inr []
      | Some v \<Rightarrow> if \<not> py_truthy v then Inr []
          else (case v of JList entries \<Rightarrow> res_map parse_mutation_class entries | _ \<Rightarrow> spec_error ''mutation_classes must be a list''))"

definition parse_tier4 :: "json \<Rightarrow> exn + string option" where
  "parse_tier4 raw = res_bind (given_str raw ''tier4_policy_digest'') (\<lambda>v.
     case v of None \<Rightarrow> Inr None | Some d \<Rightarrow> res_bind (require_digest d) (\<lambda>_. Inr (Some d)))"

definition parse_metadata :: "(json \<Rightarrow> string) \<Rightarrow> json \<Rightarrow> exn + (string, string) dict" where
  "parse_metadata str_of raw =
     (case json_get raw ''metadata'' of
        None \<Rightarrow> Inr []
      | Some (JObj kvs) \<Rightarrow> Inr (map (\<lambda>(k, v). (k, py_str str_of v)) kvs)
      | Some _ \<Rightarrow> Inl (AttributeError ''items''))"

definition parse_spec :: "date \<Rightarrow> (json \<Rightarrow> string) \<Rightarrow> json \<Rightarrow> exn + campaign_spec" where
  "parse_spec today str_of raw =
     res_bind (int_field raw ''schema_version'') (\<lambda>version.
     res_bind (str_field raw ''name'') (\<lambda>name.
     res_bind (res_bind (item raw ''incumbent'') parse_incumbent) (\<lambda>incumbent.
     res_bind (parse_mutable_artifacts today raw version) (\<lambda>artifacts.
     res_bind (res_bind (item raw ''strategy_plugin'') parse_strategy) (\<lambda>strategy.
     res_bind (res_bind (item raw ''arms'') (parse_each parse_arm)) (\<lambda>arms.
     res_bind (res_bind (item raw ''datasets'') parse_datasets) (\<lambda>datasets.
     res_bind (res_bind (item raw ''evaluators'') (parse_each parse_evaluator)) (\<lambda>evaluators.
     res_bind (res_bind (item raw ''budgets'') parse_budgets) (\<lambda>budgets.
     res_bind (res_bind (item raw ''promotion_policy'') parse_policy_ref) (\<lambda>policy.
     res_bind (parse_tier4 raw) (\<lambda>tier4.
     res_bind (res_bind (item raw ''statistics'') parse_statistics) (\<lambda>statistics.
     res_bind (res_bind (item raw ''stopping_rules'') parse_stopping) (\<lambda>stopping.
     res_bind (given_str raw ''environment'') (\<lambda>environment.
     res_bind (parse_compensation_plan raw) (\<lambda>plan.
     res_bind (parse_mutation_classes raw) (\<lambda>classes.
     res_bind (parse_metadata str_of raw) (\<lambda>metadata.
       constructed check_campaign_spec
         \<lparr>cs_schema_version = SUPPORTED_SPEC_VERSION, cs_name = name, cs_incumbent = incumbent, cs_mutable_artifacts = artifacts,
          cs_strategy_plugin = strategy, cs_arms = arms, cs_datasets = datasets, cs_evaluators = evaluators,
          cs_budgets = budgets, cs_promotion_policy = policy, cs_statistics = statistics, cs_stopping_rules = stopping,
          cs_compensation_plan = plan, cs_mutation_classes = classes, cs_metadata = metadata, cs_environment = environment,
          cs_tier4_policy_digest = tier4\<rparr>)))))))))))))))))"

text \<open>\<^verbatim>\<open>except KeyError\<close>, \<^verbatim>\<open>except (TypeError, ValueError)\<close>\<close>

definition from_mapping :: "date \<Rightarrow> (json \<Rightarrow> string) \<Rightarrow> json \<Rightarrow> exn + campaign_spec" where
  "from_mapping today str_of raw =
     (case parse_spec today str_of raw of
        Inl (KeyError _) \<Rightarrow> spec_error ''is missing field''
      | Inl (TypeError _) \<Rightarrow> spec_error ''field has the wrong shape''
      | Inl (ValueError _) \<Rightarrow> spec_error ''field has the wrong shape''
      | r \<Rightarrow> r)"

text \<open>The YAML parser is a parameter.\<close>

definition from_yaml :: "('t \<Rightarrow> json option) \<Rightarrow> date \<Rightarrow> (json \<Rightarrow> string) \<Rightarrow> 't \<Rightarrow> exn + campaign_spec" where
  "from_yaml safe_load today str_of text =
     (case safe_load text of
        None \<Rightarrow> spec_error ''is not valid YAML''
      | Some (JObj kvs) \<Rightarrow> from_mapping today str_of (JObj kvs)
      | Some _ \<Rightarrow> spec_error ''must be a YAML mapping'')"

section \<open>What a parsed spec has been checked for\<close>

definition sections_ok :: "campaign_spec \<Rightarrow> bool" where
  "sections_ok s \<longleftrightarrow>
     check_incumbent (cs_incumbent s) = Inr ()
     \<and> cs_mutable_artifacts s \<noteq> [] \<and> (\<forall>a \<in> set (cs_mutable_artifacts s). check_mutable_artifact a = Inr ())
     \<and> check_artifact_set (cs_mutable_artifacts s) = Inr () \<and> check_strategy (cs_strategy_plugin s) = Inr ()
     \<and> (\<forall>a \<in> set (cs_arms s). check_arm a = Inr ()) \<and> check_datasets (cs_datasets s) = Inr ()
     \<and> (\<forall>e \<in> set (cs_evaluators s). check_evaluator e = Inr ()) \<and> check_budgets (cs_budgets s) = Inr ()
     \<and> check_policy_ref (cs_promotion_policy s) = Inr () \<and> check_statistics (cs_statistics s) = Inr ()
     \<and> check_stopping (cs_stopping_rules s) = Inr ()
     \<and> (\<forall>as. cs_compensation_plan s = Some as \<longrightarrow>
          as \<noteq> [] \<and> (\<forall>a \<in> set as. check_compensation_action a = Inr ()) \<and> check_compensation_plan as = Inr ())
     \<and> (\<forall>b \<in> set (cs_mutation_classes s). check_mutation_class b = Inr ())
     \<and> (\<forall>d. cs_tier4_policy_digest s = Some d \<longrightarrow> require_digest d = Inr ())
     \<and> check_campaign_spec s = Inr ()"

lemma res_map_all:
  assumes "res_map f xs = Inr ys" "\<And>x y. f x = Inr y \<Longrightarrow> P y"
  shows "\<forall>y \<in> set ys. P y"
  using assms(1) by (induction xs arbitrary: ys) (auto simp: res_bind_Inr dest: assms(2))

lemma parsed_checked:
  "parse_incumbent j = Inr i \<Longrightarrow> check_incumbent i = Inr ()"
  "parse_mutable_artifact j = Inr a \<Longrightarrow> check_mutable_artifact a = Inr ()"
  "parse_mutation_class j = Inr b \<Longrightarrow> check_mutation_class b = Inr ()"
  "parse_compensation_action j = Inr c \<Longrightarrow> check_compensation_action c = Inr ()"
  "parse_strategy j = Inr st \<Longrightarrow> check_strategy st = Inr ()"
  "parse_datasets j = Inr d \<Longrightarrow> check_datasets d = Inr ()"
  "parse_evaluator j = Inr e \<Longrightarrow> check_evaluator e = Inr ()"
  "parse_stopping j = Inr r \<Longrightarrow> check_stopping r = Inr ()"
  "parse_policy_ref j = Inr p \<Longrightarrow> check_policy_ref p = Inr ()"
  "parse_statistics j = Inr q \<Longrightarrow> check_statistics q = Inr ()"
  "parse_arm j = Inr m \<Longrightarrow> check_arm m = Inr ()"
  by (auto simp: parse_incumbent_def parse_mutable_artifact_def parse_mutation_class_def parse_compensation_action_def
      parse_strategy_def parse_datasets_def parse_evaluator_def parse_stopping_def parse_policy_ref_def parse_statistics_def
      parse_arm_def res_bind_Inr dest: constructedD)

lemma parsed_budgets: "parse_budgets j = Inr b \<Longrightarrow> check_budgets b = Inr ()"
proof -
  assume "parse_budgets j = Inr b"
  then obtain p n t w e where new: "new_campaign_budgets p n t w e = Inr b"
    unfolding parse_budgets_def res_bind_Inr by blast
  from new_budgets_same [OF new] new show ?thesis by (simp add: check_budgets_def)
qed

lemma parsed_artifacts:
  assumes "parse_mutable_artifacts today raw v = Inr as"
  shows "as \<noteq> [] \<and> (\<forall>a \<in> set as. check_mutable_artifact a = Inr ()) \<and> check_artifact_set as = Inr ()"
proof -
  from assms have set_ok: "check_artifact_set as = Inr ()"
    by (auto simp: parse_mutable_artifacts_def res_bind_Inr spec_error_def split: if_splits option.splits json.splits dest!: constructedD)
  then have "as \<noteq> []" by (auto simp: check_artifact_set_def spec_error_def)
  moreover have "\<forall>a \<in> set as. check_mutable_artifact a = Inr ()"
    using assms parsed_checked(2)
    by (auto simp: parse_mutable_artifacts_def res_bind_Inr spec_error_def split: if_splits option.splits json.splits
        dest!: constructedD dest: res_map_all [where P = "\<lambda>a. check_mutable_artifact a = Inr ()"])
  ultimately show ?thesis using set_ok by simp
qed

lemma parsed_plan:
  assumes "parse_compensation_plan raw = Inr (Some as)"
  shows "as \<noteq> [] \<and> (\<forall>a \<in> set as. check_compensation_action a = Inr ()) \<and> check_compensation_plan as = Inr ()"
proof -
  from assms obtain es where "res_map parse_compensation_action es = Inr as" "check_compensation_plan as = Inr ()"
    by (auto simp: parse_compensation_plan_def res_bind_Inr spec_error_def split: if_splits option.splits json.splits dest!: constructedD)
  then show ?thesis
    using res_map_all [of parse_compensation_action es as "\<lambda>a. check_compensation_action a = Inr ()"] parsed_checked(4)
    by (auto simp: check_compensation_plan_def spec_error_def Let_def)
qed

lemma parsed_classes:
  assumes "parse_mutation_classes raw = Inr bs"
  shows "\<forall>b \<in> set bs. check_mutation_class b = Inr ()"
  using assms parsed_checked(3)
  by (auto simp: parse_mutation_classes_def spec_error_def split: option.splits if_splits json.splits
      dest: res_map_all [where P = "\<lambda>b. check_mutation_class b = Inr ()"])

lemma parse_each_all:
  assumes "parse_each f j = Inr ys" "\<And>x y. f x = Inr y \<Longrightarrow> P y"
  shows "\<forall>y \<in> set ys. P y"
proof -
  from assms(1) obtain xs where "res_map f xs = Inr ys" by (auto simp: parse_each_def res_bind_Inr)
  then show ?thesis by (rule res_map_all) (rule assms(2))
qed

lemma parsed_spec:
  assumes "parse_spec today f raw = Inr s"
  shows "sections_ok s \<and> parse_metadata f raw = Inr (cs_metadata s) \<and> cs_schema_version s = SUPPORTED_SPEC_VERSION"
proof -
  from assms obtain version name incumbent artifacts strategy arms datasets evaluators budgets policy tier4 statistics stopping
      environment plan classes metadata ji js ja jd je jb jp jt jr where
    p: "parse_incumbent ji = Inr incumbent" "parse_mutable_artifacts today raw version = Inr artifacts"
       "parse_strategy js = Inr strategy" "parse_each parse_arm ja = Inr arms" "parse_datasets jd = Inr datasets"
       "parse_each parse_evaluator je = Inr evaluators" "parse_budgets jb = Inr budgets" "parse_policy_ref jp = Inr policy"
       "parse_tier4 raw = Inr tier4" "parse_statistics jt = Inr statistics" "parse_stopping jr = Inr stopping"
       "parse_compensation_plan raw = Inr plan" "parse_mutation_classes raw = Inr classes" "parse_metadata f raw = Inr metadata"
    and made: "constructed check_campaign_spec
         \<lparr>cs_schema_version = SUPPORTED_SPEC_VERSION, cs_name = name, cs_incumbent = incumbent, cs_mutable_artifacts = artifacts,
          cs_strategy_plugin = strategy, cs_arms = arms, cs_datasets = datasets, cs_evaluators = evaluators,
          cs_budgets = budgets, cs_promotion_policy = policy, cs_statistics = statistics, cs_stopping_rules = stopping,
          cs_compensation_plan = plan, cs_mutation_classes = classes, cs_metadata = metadata, cs_environment = environment,
          cs_tier4_policy_digest = tier4\<rparr> = Inr s"
    unfolding parse_spec_def res_bind_Inr by (elim exE conjE) (rule that; assumption)
  from p(9) have tier4: "tier4 = Some d \<Longrightarrow> require_digest d = Inr ()" for d
    by (auto simp: parse_tier4_def res_bind_Inr split: option.splits)
  have arms: "\<forall>a \<in> set arms. check_arm a = Inr ()" by (rule parse_each_all [OF p(4)]) (rule parsed_checked)
  have evals: "\<forall>e \<in> set evaluators. check_evaluator e = Inr ()" by (rule parse_each_all [OF p(6)]) (rule parsed_checked)
  have plan: "\<forall>as. plan = Some as \<longrightarrow> as \<noteq> [] \<and> (\<forall>a \<in> set as. check_compensation_action a = Inr ()) \<and> check_compensation_plan as = Inr ()"
    using parsed_plan p(12) by blast
  from constructedD [OF made] show ?thesis
    using parsed_checked(1) [OF p(1)] parsed_artifacts [OF p(2)] parsed_checked(5) [OF p(3)] arms parsed_checked(6) [OF p(5)] evals
      parsed_budgets [OF p(7)] parsed_checked(9) [OF p(8)] tier4 parsed_checked(10) [OF p(10)] parsed_checked(8) [OF p(11)]
      plan parsed_classes [OF p(13)] p(14)
    by (simp add: sections_ok_def)
qed

lemma from_mappingD: "from_mapping today f raw = Inr s \<Longrightarrow> parse_spec today f raw = Inr s"
  by (auto simp: from_mapping_def spec_error_def split: sum.splits exn.splits)

lemma from_mappingI: "parse_spec today f raw = Inr s \<Longrightarrow> from_mapping today f raw = Inr s"
  by (simp add: from_mapping_def)

section \<open>Reading back the canonical form\<close>

lemma metadata_wf: "dict_ok m \<Longrightarrow> json_wf (metadata_json m)"
proof -
  assume "dict_ok m"
  have "mset (map fst (sort_key fst m)) = mset (map fst m)" by simp
  with \<open>dict_ok m\<close> have "distinct (map fst (sort_key fst m))" unfolding dict_ok_def by (metis mset_eq_imp_distinct_iff)
  moreover have "fst \<circ> (\<lambda>(k, v). (k, JStr v)) = (fst :: string \<times> string \<Rightarrow> string)" by auto
  ultimately show ?thesis by (auto simp: metadata_json_def list_all_iff)
qed

lemma plan_wf: "json_wf (compensation_plan_json as)"
  using action_codec.enc_all_wf [of as] by (simp add: compensation_plan_json_def)

lemma spec_object_wf:
  assumes "dict_ok (cs_metadata s)"
  shows "json_wf (JObj (spec_object s))"
proof -
  have opt: "json_wf (json_opt_str v)" for v by (cases v) (simp_all add: json_opt_str_def)
  show ?thesis
    unfolding spec_object_def
    using metadata_wf [OF assms] plan_wf artifact_codec.enc_all_wf [of "cs_mutable_artifacts s"] arm_codec.enc_all_wf [of "cs_arms s"]
      evaluator_codec.enc_all_wf [of "cs_evaluators s"] mutation_class_codec.enc_all_wf [of "cs_mutation_classes s"]
    by (auto simp: opt incumbent_codec.enc_wf strategy_codec.enc_wf datasets_codec.enc_wf budgets_codec.enc_wf policy_ref_codec.enc_wf
        statistics_codec.enc_wf stopping_codec.enc_wf split: option.splits)
qed

lemma metadata_back:
  assumes j: "same_json w (metadata_json m)" and m: "dict_ok m"
  shows "\<exists>kvs. w = JObj kvs \<and> dict_ok (map (\<lambda>(k, v). (k, py_str f v)) kvs) \<and> map_of (map (\<lambda>(k, v). (k, py_str f v)) kvs) = map_of m"
proof -
  let ?M = "map (\<lambda>(k, v). (k, JStr v)) (sort_key fst m)"
  note j = j [unfolded metadata_json_def]
  from same_json_obj(1) [OF j] obtain kvs where w: "w = JObj kvs" ..
  have "distinct (map fst kvs)" using j by (simp add: w same_json_def)
  moreover have "map fst (map (\<lambda>(k, v). (k, py_str f v)) kvs) = map fst kvs" by (induction kvs) auto
  ultimately have ok: "dict_ok (map (\<lambda>(k, v). (k, py_str f v)) kvs)" unfolding dict_ok_def by (simp only:)
  have M: "map_of ?M k = map_option JStr (map_of m k)" for k
    using m map_of_sort_key [of m] by (simp add: dict_ok_def map_of_map [of JStr, simplified])
  have "map_of (map (\<lambda>(k, v). (k, py_str f v)) kvs) k = map_of m k" for k
  proof -
    have l: "map_of (map (\<lambda>(k, v). (k, py_str f v)) kvs) k = map_option (py_str f) (map_of kvs k)"
      by (induction kvs) auto
    from same_json_obj(2) [OF j, of k] M [of k] show ?thesis
      unfolding l by (cases "map_of m k"; cases "map_of kvs k") (auto simp: w json_get_def same_json_atoms)
  qed
  with w ok show ?thesis by blast
qed

lemma has_scaffold_metadata: "has_scaffold_mutable (s\<lparr>cs_metadata := m\<rparr>) = has_scaffold_mutable s"
  by (simp add: has_scaffold_mutable_def)

lemma validate_metadata:
  "validate_artifact_consistency (s\<lparr>cs_metadata := m\<rparr>) = validate_artifact_consistency s"
  "validate_environment (s\<lparr>cs_metadata := m\<rparr>) = validate_environment s"
  "validate_mutation_classes (s\<lparr>cs_metadata := m\<rparr>) = validate_mutation_classes s"
  "validate_tier4_policy (s\<lparr>cs_metadata := m\<rparr>) = validate_tier4_policy s"
  "validate_fixed_editor_arm (s\<lparr>cs_metadata := m\<rparr>) = validate_fixed_editor_arm s"
  "validate_ablation_arms (s\<lparr>cs_metadata := m\<rparr>) = validate_ablation_arms s"
  "validate_compensation_plan (s\<lparr>cs_metadata := m\<rparr>) = validate_compensation_plan s"
  unfolding validate_artifact_consistency_def validate_environment_def validate_mutation_classes_def
    validate_tier4_policy_def validate_fixed_editor_arm_def validate_ablation_arms_def validate_compensation_plan_def
    has_scaffold_metadata by (simp_all cong: if_cong option.case_cong)

lemma check_reads_no_metadata [simp]: "check_campaign_spec (s\<lparr>cs_metadata := m\<rparr>) = check_campaign_spec s"
  unfolding check_campaign_spec_def validate_arms_def validate_metadata by simp

lemma plan_back:
  assumes j: "same_json j (JObj kvs)" and k: "map_of kvs ''compensation_plan'' = Some (case plan of None \<Rightarrow> JNull | Some as \<Rightarrow> compensation_plan_json as)"
    and ok: "\<forall>as. plan = Some as \<longrightarrow> as \<noteq> [] \<and> (\<forall>a \<in> set as. check_compensation_action a = Inr ()) \<and> check_compensation_plan as = Inr ()"
  shows "parse_compensation_plan j = Inr plan"
proof -
  from read_written [OF j k] obtain w where w: "json_get j ''compensation_plan'' = Some w"
    "same_json w (case plan of None \<Rightarrow> JNull | Some as \<Rightarrow> compensation_plan_json as)" by blast
  show ?thesis
  proof (cases plan)
    case None
    with w show ?thesis by (simp add: same_json_atoms parse_compensation_plan_def)
  next
    case (Some as)
    with w(2) have s: "same_json w (JObj [(''actions'', JList (map compensation_action_json as))])" by (simp add: compensation_plan_json_def)
    from read_written [OF s, of "''actions''"] obtain v where v: "json_get w ''actions'' = Some v"
      "same_json v (JList (map compensation_action_json as))" by auto
    from ok Some have good: "as \<noteq> []" "\<forall>a \<in> set as. check_compensation_action a = Inr ()" "check_compensation_plan as = Inr ()" by auto
    from action_codec.dec_section_list [OF good(2) v(2)] obtain es where es: "v = JList es" "length es = length as"
      "res_map parse_compensation_action es = Inr as" by blast
    moreover from es(2) good(1) have "es \<noteq> []" by auto
    moreover obtain xs where "w = JObj xs" using same_json_obj(1) [OF s] by blast
    ultimately show ?thesis
      using w v Some good(3) by (simp add: parse_compensation_plan_def constructed_def)
  qed
qed

lemma spec_object_fields:
  "map_of (spec_object s) ''schema_version'' = Some (JInt SUPPORTED_SPEC_VERSION)"
  "map_of (spec_object s) ''name'' = Some (JStr (cs_name s))"
  "map_of (spec_object s) ''incumbent'' = Some (incumbent_json (cs_incumbent s))"
  "map_of (spec_object s) ''mutable_artifacts'' = Some (JList (map mutable_artifact_json (cs_mutable_artifacts s)))"
  "map_of (spec_object s) ''strategy_plugin'' = Some (strategy_json (cs_strategy_plugin s))"
  "map_of (spec_object s) ''arms'' = Some (JList (map arm_json (cs_arms s)))"
  "map_of (spec_object s) ''datasets'' = Some (datasets_json (cs_datasets s))"
  "map_of (spec_object s) ''evaluators'' = Some (JList (map evaluator_json (cs_evaluators s)))"
  "map_of (spec_object s) ''budgets'' = Some (budgets_json (cs_budgets s))"
  "map_of (spec_object s) ''promotion_policy'' = Some (policy_ref_json (cs_promotion_policy s))"
  "map_of (spec_object s) ''statistics'' = Some (statistics_json (cs_statistics s))"
  "map_of (spec_object s) ''stopping_rules'' = Some (stopping_json (cs_stopping_rules s))"
  "map_of (spec_object s) ''compensation_plan'' = Some (case cs_compensation_plan s of None \<Rightarrow> JNull | Some as \<Rightarrow> compensation_plan_json as)"
  "map_of (spec_object s) ''environment'' = Some (json_opt_str (cs_environment s))"
  "map_of (spec_object s) ''mutation_classes'' = Some (JList (map mutation_class_json (cs_mutation_classes s)))"
  "map_of (spec_object s) ''metadata'' = Some (metadata_json (cs_metadata s))"
  "map_of (spec_object s) ''tier4_policy_digest'' = Some (json_opt_str (cs_tier4_policy_digest s))"
  by (simp_all add: spec_object_def)

lemma classes_back:
  assumes "same_json j (JObj (spec_object s))" "\<forall>b \<in> set (cs_mutation_classes s). check_mutation_class b = Inr ()"
  shows "parse_mutation_classes j = Inr (cs_mutation_classes s)"
proof -
  from mutation_class_codec.dec_list_field [OF assms(2) assms(1) spec_object_fields(15)] obtain js where
    "json_get j ''mutation_classes'' = Some (JList js)" "length js = length (cs_mutation_classes s)"
    "res_map parse_mutation_class js = Inr (cs_mutation_classes s)" by blast
  then show ?thesis by (cases js) (simp_all add: parse_mutation_classes_def)
qed

lemma artifacts_back:
  assumes "same_json j (JObj (spec_object s))" "sections_ok s"
  shows "parse_mutable_artifacts today j SUPPORTED_SPEC_VERSION = Inr (cs_mutable_artifacts s)"
proof -
  from assms(2) have ok: "cs_mutable_artifacts s \<noteq> []" "\<forall>a \<in> set (cs_mutable_artifacts s). check_mutable_artifact a = Inr ()"
    "check_artifact_set (cs_mutable_artifacts s) = Inr ()" by (simp_all add: sections_ok_def)
  from artifact_codec.dec_list_field [OF ok(2) assms(1) spec_object_fields(4)] obtain js where
    "json_get j ''mutable_artifacts'' = Some (JList js)" "length js = length (cs_mutable_artifacts s)"
    "res_map parse_mutable_artifact js = Inr (cs_mutable_artifacts s)" by blast
  with ok show ?thesis
    by (cases js) (simp_all add: parse_mutable_artifacts_def SUPPORTED_SPEC_VERSION_def constructed_def)
qed

lemma each_back:
  "item j k = Inr (JList js) \<Longrightarrow> res_map dec js = Inr xs \<Longrightarrow> res_bind (item j k) (parse_each dec) = Inr xs"
  by (simp add: parse_each_def py_iter_def)

lemma spec_back:
  assumes j: "same_json j (JObj (spec_object s))" and ok: "sections_ok s" and m: "dict_ok (cs_metadata s)"
    and version: "cs_schema_version s = SUPPORTED_SPEC_VERSION"
  shows "\<exists>m. parse_spec today f j = Inr (s\<lparr>cs_metadata := m\<rparr>) \<and> dict_ok m \<and> map_of m = map_of (cs_metadata s)"
proof -
  note F = spec_object_fields [of s]
  note K = ok [unfolded sections_ok_def]
  have heads: "int_field j ''schema_version'' = Inr SUPPORTED_SPEC_VERSION" "str_field j ''name'' = Inr (cs_name s)"
    "given_str j ''environment'' = Inr (cs_environment s)" "given_str j ''tier4_policy_digest'' = Inr (cs_tier4_policy_digest s)"
    by (rule read_int [OF j F(1)], rule read_str [OF j F(2)], rule read_optional(3) [OF j F(14)], rule read_optional(3) [OF j F(17)])
  have tier4: "parse_tier4 j = Inr (cs_tier4_policy_digest s)"
    using heads(4) K by (cases "cs_tier4_policy_digest s") (simp_all add: parse_tier4_def)
  have sections: "res_bind (item j ''incumbent'') parse_incumbent = Inr (cs_incumbent s)"
    "res_bind (item j ''strategy_plugin'') parse_strategy = Inr (cs_strategy_plugin s)"
    "res_bind (item j ''datasets'') parse_datasets = Inr (cs_datasets s)"
    "res_bind (item j ''budgets'') parse_budgets = Inr (cs_budgets s)"
    "res_bind (item j ''promotion_policy'') parse_policy_ref = Inr (cs_promotion_policy s)"
    "res_bind (item j ''statistics'') parse_statistics = Inr (cs_statistics s)"
    "res_bind (item j ''stopping_rules'') parse_stopping = Inr (cs_stopping_rules s)"
    using K by (auto intro!: incumbent_codec.dec_field [OF _ j F(3)] strategy_codec.dec_field [OF _ j F(5)]
        datasets_codec.dec_field [OF _ j F(7)] budgets_codec.dec_field [OF _ j F(9)] policy_ref_codec.dec_field [OF _ j F(10)]
        statistics_codec.dec_field [OF _ j F(11)] stopping_codec.dec_field [OF _ j F(12)])
  have arms: "res_bind (item j ''arms'') (parse_each parse_arm) = Inr (cs_arms s)"
    using arm_codec.dec_list_field [OF _ j F(6)] K by (auto intro: each_back)
  have evals: "res_bind (item j ''evaluators'') (parse_each parse_evaluator) = Inr (cs_evaluators s)"
    using evaluator_codec.dec_list_field [OF _ j F(8)] K by (auto intro: each_back)
  have plan: "parse_compensation_plan j = Inr (cs_compensation_plan s)" by (rule plan_back [OF j F(13)]) (use K in blast)
  have classes: "parse_mutation_classes j = Inr (cs_mutation_classes s)" by (rule classes_back [OF j]) (use K in blast)
  from read_written [OF j F(16)] obtain w where w: "json_get j ''metadata'' = Some w" "same_json w (metadata_json (cs_metadata s))" by blast
  from metadata_back [OF w(2) m, of f] obtain kvs where kvs: "w = JObj kvs" "dict_ok (map (\<lambda>(k, v). (k, py_str f v)) kvs)"
    "map_of (map (\<lambda>(k, v). (k, py_str f v)) kvs) = map_of (cs_metadata s)" by blast
  define m' where "m' = map (\<lambda>(k, v). (k, py_str f v)) kvs"
  have meta: "parse_metadata f j = Inr m'" by (simp add: parse_metadata_def w(1) kvs(1) m'_def)
  have check: "constructed check_campaign_spec (s\<lparr>cs_metadata := m'\<rparr>) = Inr (s\<lparr>cs_metadata := m'\<rparr>)"
    using K by (intro constructed_eq) simp_all
  have "parse_spec today f j = constructed check_campaign_spec (s\<lparr>cs_metadata := m'\<rparr>)"
    unfolding parse_spec_def heads res_bind_simps sections artifacts_back [OF j ok] arms evals tier4 plan classes meta
    by (cases s) (use version in simp)
  with check kvs show ?thesis by (auto simp: m'_def)
qed

lemma same_spec_object:
  assumes "dict_ok m" "dict_ok (cs_metadata s)" "map_of m = map_of (cs_metadata s)"
  shows "spec_object (s\<lparr>cs_metadata := m\<rparr>) = spec_object s"
  using sorted_dict_unique [OF assms] by (simp add: spec_object_def metadata_json_def)

section \<open>The older versions\<close>

lemma read_updated:
  "json_get (JObj (AList.update k v raw)) k' = (if k' = k then Some v else json_get (JObj raw) k')"
  "item (JObj (AList.update k v raw)) k' = (if k' = k then Inr v else item (JObj raw) k')"
  by (simp_all add: json_get_def item_def map_of_update)

lemma fields_updated:
  "k' \<noteq> k \<Longrightarrow> str_field (JObj (AList.update k v raw)) k' = str_field (JObj raw) k'"
  "k' \<noteq> k \<Longrightarrow> given_str (JObj (AList.update k v raw)) k' = given_str (JObj raw) k'"
  "int_field (JObj (AList.update k (JInt n) raw)) k = Inr n"
  by (simp_all add: field_readers given_str_def read_updated require_int_def)

lemma sections_updated:
  "k \<noteq> ''compensation_plan'' \<Longrightarrow> parse_compensation_plan (JObj (AList.update k v raw)) = parse_compensation_plan (JObj raw)"
  "k \<noteq> ''mutation_classes'' \<Longrightarrow> parse_mutation_classes (JObj (AList.update k v raw)) = parse_mutation_classes (JObj raw)"
  "k \<noteq> ''tier4_policy_digest'' \<Longrightarrow> parse_tier4 (JObj (AList.update k v raw)) = parse_tier4 (JObj raw)"
  "k \<noteq> ''metadata'' \<Longrightarrow> parse_metadata f (JObj (AList.update k v raw)) = parse_metadata f (JObj raw)"
  by (simp_all add: parse_compensation_plan_def parse_mutation_classes_def parse_tier4_def parse_metadata_def read_updated fields_updated)

lemma upgraded_spec:
  assumes "int_field (JObj raw) ''schema_version'' = Inr v"
    and "parse_mutable_artifacts today (JObj raw) v = parse_mutable_artifacts today (JObj raw') w"
    and "raw' = AList.update ''schema_version'' (JInt w) raw \<or>
         raw' = AList.update ''schema_version'' (JInt w) (AList.update ''mutable_artifacts'' x raw)"
  shows "from_mapping today f (JObj raw) = from_mapping today f (JObj raw')"
proof -
  have same: "str_field (JObj raw') ''name'' = str_field (JObj raw) ''name''"
    "given_str (JObj raw') ''environment'' = given_str (JObj raw) ''environment''"
    "item (JObj raw') ''incumbent'' = item (JObj raw) ''incumbent''" "item (JObj raw') ''strategy_plugin'' = item (JObj raw) ''strategy_plugin''"
    "item (JObj raw') ''arms'' = item (JObj raw) ''arms''" "item (JObj raw') ''datasets'' = item (JObj raw) ''datasets''"
    "item (JObj raw') ''evaluators'' = item (JObj raw) ''evaluators''" "item (JObj raw') ''budgets'' = item (JObj raw) ''budgets''"
    "item (JObj raw') ''promotion_policy'' = item (JObj raw) ''promotion_policy''" "item (JObj raw') ''statistics'' = item (JObj raw) ''statistics''"
    "item (JObj raw') ''stopping_rules'' = item (JObj raw) ''stopping_rules''"
    "parse_compensation_plan (JObj raw') = parse_compensation_plan (JObj raw)" "parse_mutation_classes (JObj raw') = parse_mutation_classes (JObj raw)"
    "parse_tier4 (JObj raw') = parse_tier4 (JObj raw)" "parse_metadata f (JObj raw') = parse_metadata f (JObj raw)"
    using assms(3) by (elim disjE; simp add: fields_updated read_updated sections_updated)+
  have "int_field (JObj raw') ''schema_version'' = Inr w" using assms(3) by (elim disjE) (simp_all add: fields_updated)
  with assms(1,2) have "parse_spec today f (JObj raw) = parse_spec today f (JObj raw')"
    unfolding parse_spec_def same by simp
  then show ?thesis by (simp add: from_mapping_def)
qed

lemma parsed_metadata_ok:
  assumes "parse_metadata f raw = Inr m" "json_wf raw"
  shows "dict_ok m"
proof -
  from assms(1) have "m = [] \<or> (\<exists>kvs. json_get raw ''metadata'' = Some (JObj kvs) \<and> m = map (\<lambda>(k, v). (k, py_str f v)) kvs)"
    by (auto simp: parse_metadata_def split: option.splits json.splits)
  moreover have "dict_ok (map (\<lambda>(k, v). (k, py_str f v)) kvs)" if "json_get raw ''metadata'' = Some (JObj kvs)" for kvs
  proof -
    from that obtain xs where xs: "raw = JObj xs" "(''metadata'', JObj kvs) \<in> set xs"
      by (cases raw) (auto simp: json_get_def dest: map_of_SomeD)
    have "\<forall>x \<in> set xs. json_wf (snd x)" using assms(2) by (simp add: xs list_all_iff)
    from bspec [OF this xs(2)] have "json_wf (JObj kvs)" unfolding snd_conv .
    then have "distinct (map fst kvs)" by simp
    moreover have "map fst (map (\<lambda>(k, v). (k, py_str f v)) kvs) = map fst kvs" by (induction kvs) auto
    ultimately show ?thesis unfolding dict_ok_def by (simp only:)
  qed
  ultimately show ?thesis by (auto simp: dict_ok_def)
qed

section \<open>Properties\<close>

text \<open>Within the migration windows an older document parses to exactly what its upgrade to version 3 parses to (the
  singular mutable artifact of version 1 becoming the only member of the set), with the same error when it is
  refused; so both pin to the same digest.\<close>

theorem old_versions_parse_as_upgraded:
  assumes "map_of raw ''schema_version'' = Some (JInt v)"
    and "v = 1 \<and> today \<le> V1_MIGRATION_WINDOW_END \<and> map_of raw ''mutable_artifact'' = Some (JObj kvs)
         \<and> raw' = AList.update ''schema_version'' (JInt 3) (AList.update ''mutable_artifacts'' (JList [JObj kvs]) raw)
       \<or> v = 2 \<and> today \<le> V2_MIGRATION_WINDOW_END \<and> raw' = AList.update ''schema_version'' (JInt 3) raw"
  shows "from_mapping today f (JObj raw) = from_mapping today f (JObj raw')"
proof (rule upgraded_spec)
  show "int_field (JObj raw) ''schema_version'' = Inr v" using assms(1) by (simp add: int_field_def item_def require_int_def)
  show "raw' = AList.update ''schema_version'' (JInt 3) raw \<or>
      raw' = AList.update ''schema_version'' (JInt 3) (AList.update ''mutable_artifacts'' (JList [JObj kvs]) raw)"
    using assms(2) by blast
  show "parse_mutable_artifacts today (JObj raw) v = parse_mutable_artifacts today (JObj raw') 3"
    using assms(2)
  proof (elim disjE conjE)
    assume "v = 1" and window: "today \<le> V1_MIGRATION_WINDOW_END" and "map_of raw ''mutable_artifact'' = Some (JObj kvs)"
      and "raw' = AList.update ''schema_version'' (JInt 3) (AList.update ''mutable_artifacts'' (JList [JObj kvs]) raw)"
    with leD [OF window] show ?thesis
      by (cases "parse_mutable_artifact (JObj kvs)")
        (simp_all add: parse_mutable_artifacts_def SUPPORTED_SPEC_VERSION_def read_updated json_get_def map_of_update)
  next
    assume "v = 2" and window: "today \<le> V2_MIGRATION_WINDOW_END" and "raw' = AList.update ''schema_version'' (JInt 3) raw"
    with leD [OF window] show ?thesis by (simp add: parse_mutable_artifacts_def SUPPORTED_SPEC_VERSION_def read_updated)
  qed
qed

text \<open>After its window a version is refused, whatever the rest of the document up to the mutation surface.\<close>

lemma closed_windows_refuse:
  assumes "v = 1 \<and> V1_MIGRATION_WINDOW_END < today \<or> v = 2 \<and> V2_MIGRATION_WINDOW_END < today"
  shows "\<exists>why. parse_mutable_artifacts today raw v = spec_error why"
  using assms by (auto simp: parse_mutable_artifacts_def SUPPORTED_SPEC_VERSION_def)

lemma stored_spec_parses:
  assumes raw: "json_wf raw" and parsed: "from_mapping today f raw = Inr s" and stored: "same_json stored (JObj (spec_object s))"
  shows "\<exists>m'. from_mapping later f' stored = Inr (s\<lparr>cs_metadata := m'\<rparr>) \<and> spec_object (s\<lparr>cs_metadata := m'\<rparr>) = spec_object s"
proof -
  from parsed_spec [OF from_mappingD [OF parsed]] have ok: "sections_ok s" "parse_metadata f raw = Inr (cs_metadata s)"
    "cs_schema_version s = SUPPORTED_SPEC_VERSION" by auto
  have m: "dict_ok (cs_metadata s)" using ok(2) raw by (rule parsed_metadata_ok)
  from spec_back [OF stored ok(1) m ok(3), of later f'] obtain m' where
    p: "parse_spec later f' stored = Inr (s\<lparr>cs_metadata := m'\<rparr>)" and m': "dict_ok m'" "map_of m' = map_of (cs_metadata s)" by blast
  from from_mappingI [OF p] same_spec_object [OF m'(1) m m'(2)] show ?thesis by blast
qed

text \<open>C19: A spec that was accepted once is accepted for ever: its canonical form, stored and loaded with its keys in any
  order and read on any later day, whatever migration windows have closed by then, parses to a spec with the
  same canonical bytes, so the pinned digest and signature still verify for it.\<close>

theorem stored_spec_reloads:
  assumes C: "crypto_laws C" and raw: "json_wf raw" and parsed: "from_mapping today f raw = Inr s"
    and stored: "same_json stored (JObj (spec_object s))"
  shows "\<exists>s'. from_mapping later f' stored = Inr s' \<and> spec_bytes C s' = spec_bytes C s
    \<and> pinned_verify C (pin_campaign_spec C s key) \<and> pin_digest (pin_campaign_spec C s key) = spec_digest C s'"
proof -
  from stored_spec_parses [OF raw parsed stored, of later f'] obtain m' where
    p: "from_mapping later f' stored = Inr (s\<lparr>cs_metadata := m'\<rparr>)" "spec_object (s\<lparr>cs_metadata := m'\<rparr>) = spec_object s" by blast
  then have "spec_bytes C (s\<lparr>cs_metadata := m'\<rparr>) = spec_bytes C s" by (simp add: spec_bytes_def)
  with p(1) pin_and_sign_verifies [OF C, of "spec_bytes C s" key] show ?thesis
    by (intro exI [of _ "s\<lparr>cs_metadata := m'\<rparr>"]) (simp add: pin_campaign_spec_def spec_digest_def pin_and_sign_def)
qed


lemma no_spec_error [simp]: "spec_error why \<noteq> Inr x"
  by (simp add: spec_error_def)





definition demo_digest :: string where
  "demo_digest = ''sha256:'' @ replicate 64 (CHR ''0'')"

definition demo_document :: "int \<Rightarrow> (string \<times> json) \<Rightarrow> json_object" where
  "demo_document version surface =
     [(''schema_version'', JInt version), (''name'', JStr ''c''),
      (''incumbent'', JObj [(''release_manifest_digest'', JStr demo_digest), (''artifact_type'', JStr ''prompt_bundle'')]),
      surface, (''strategy_plugin'', JObj [(''plugin_id'', JStr ''p''), (''pinned_image'', JStr ''p@sha256:1'')]),
      (''arms'', JList (map (\<lambda>k. JObj [(''id'', JStr (arm_kind_value k)), (''kind'', JStr (arm_kind_value k))]) required_arm_kinds)),
      (''datasets'', JObj [(''dev_partition'', JStr ''d''), (''selection_partition'', JStr ''s''), (''holdout_handle'', JStr ''holdout://h'')]),
      (''evaluators'', JList [JObj [(''name'', JStr ''e''), (''pinned_image'', JStr ''e@sha256:1'')]]),
      (''budgets'', JObj [(''task_budget_profile'', JStr ''task-budget-v1''), (''max_proposals'', JInt 1), (''max_model_tokens'', JInt 1),
         (''max_wall_clock_minutes'', JInt 1)]),
      (''promotion_policy'', JObj [(''policy_id'', JStr ''p''), (''policy_digest'', JStr demo_digest)]),
      (''statistics'', JObj [(''alpha'', JFloat (1/20)), (''multiplicity'', JStr ''none''), (''bootstrap_iterations'', JInt 200),
         (''bootstrap_seed'', JInt 1)]),
      (''stopping_rules'', JObj [(''max_rounds'', JInt 1), (''max_no_improvement_rounds'', JInt 1)])]"

definition demo_artifact :: json_object where
  "demo_artifact = [(''artifact_type'', JStr ''prompt_bundle''), (''paths'', JList [JStr ''prompts/a.md''])]"

definition demo_raw :: json where
  "demo_raw = JObj (demo_document 3 (''mutable_artifacts'', JList [JObj demo_artifact]))"

lemma demo_spec_parses: "\<exists>s. from_mapping (2027, 1, 1) (\<lambda>_. []) demo_raw = Inr s"
proof -
  have "\<not> isl (from_mapping (2027, 1, 1) (\<lambda>_. []) demo_raw)" by code_simp
  then show ?thesis by (cases "from_mapping (2027, 1, 1) (\<lambda>_. []) demo_raw") simp_all
qed


definition demo_v1 :: json_object where
  "demo_v1 = demo_document 1 (''mutable_artifact'', JObj demo_artifact)"

lemma old_versions_witness:
  "from_mapping (2026, 9, 1) (\<lambda>_. []) (JObj demo_v1)
     = from_mapping (2026, 9, 1) (\<lambda>_. [])
         (JObj (AList.update ''schema_version'' (JInt 3) (AList.update ''mutable_artifacts'' (JList [JObj demo_artifact]) demo_v1)))"
proof (rule old_versions_parse_as_upgraded [of demo_v1 1 _ demo_artifact])
  show "map_of demo_v1 ''schema_version'' = Some (JInt 1)" by (simp add: demo_v1_def demo_document_def)
  have "map_of demo_v1 ''mutable_artifact'' = Some (JObj demo_artifact)" by (simp add: demo_v1_def demo_document_def)
  moreover have "(2026, 9, 1) \<le> V1_MIGRATION_WINDOW_END" by (simp add: V1_MIGRATION_WINDOW_END_def)
  ultimately show "(1::int) = 1 \<and> (2026, 9, 1) \<le> V1_MIGRATION_WINDOW_END \<and> map_of demo_v1 ''mutable_artifact'' = Some (JObj demo_artifact)
       \<and> AList.update ''schema_version'' (JInt 3) (AList.update ''mutable_artifacts'' (JList [JObj demo_artifact]) demo_v1)
         = AList.update ''schema_version'' (JInt 3) (AList.update ''mutable_artifacts'' (JList [JObj demo_artifact]) demo_v1)
     \<or> (1::int) = 2 \<and> (2026, 9, 1) \<le> V2_MIGRATION_WINDOW_END
       \<and> AList.update ''schema_version'' (JInt 3) (AList.update ''mutable_artifacts'' (JList [JObj demo_artifact]) demo_v1)
         = AList.update ''schema_version'' (JInt 3) demo_v1"
    by simp
qed

lemma stored_spec_witness:
  "\<exists>s s'. from_mapping (2027, 1, 1) (\<lambda>_. []) demo_raw = Inr s
     \<and> from_mapping (2030, 1, 1) (\<lambda>_. []) (sort_keys (JObj (spec_object s))) = Inr s' \<and> spec_bytes plain_crypto s' = spec_bytes plain_crypto s"
proof -
  obtain s where s: "from_mapping (2027, 1, 1) (\<lambda>_. []) demo_raw = Inr s" using demo_spec_parses by blast
  have wf: "json_wf demo_raw" by code_simp
  from parsed_spec [OF from_mappingD [OF s]] parsed_metadata_ok [OF _ wf] have "dict_ok (cs_metadata s)" by blast
  then have "same_json (sort_keys (JObj (spec_object s))) (JObj (spec_object s))" by (intro same_json_sort_keys spec_object_wf)
  from stored_spec_reloads [OF plain_crypto_laws wf s this, of "(2030, 1, 1)" "\<lambda>_. []"] s show ?thesis by blast
qed

text \<open>A path with a leading \<^verbatim>\<open>./\<close> passes the checks its bare form fails.\<close>

lemma strip_dot:
  assumes "p = [] \<or> \<not> py_space (last p)"
  shows "py_strip (''./'' @ p) = ''./'' @ p"
proof -
  have s: "\<not> py_space (CHR ''.'')" "\<not> py_space (CHR ''/'')" by code_simp+
  have "dropWhile py_space (rev (''./'' @ p)) = rev (''./'' @ p)"
    using assms s by (cases p rule: rev_cases) auto
  with s show ?thesis by (simp add: py_strip_def)
qed

lemma dot_segments: "''..'' \<notin> set (split_on (CHR ''/'') p) \<Longrightarrow> ''..'' \<notin> set (split_on (CHR ''/'') (''./'' @ p))"
  by simp

text \<open>The protected-modules bound on the mutation mask is not one: a path that maps under a protected module, and so is refused
  in a mask, is accepted with a leading \<^verbatim>\<open>./\<close>, for its module name then starts with a dot that no root has; and the
  mask it is part of lets a candidate edit that path.\<close>

theorem dot_prefix_evades_protection:
  assumes "is_admissible_artifact_type t" and "covers_path default_document p = Some r"
    and "\<not> py_space (last p)" "''..'' \<notin> set (split_on (CHR ''/'') p)"
  shows "check_mutable_artifact \<lparr>ma_artifact_type = t, ma_paths = [p]\<rparr> \<noteq> Inr ()
    \<and> check_mutable_artifact \<lparr>ma_artifact_type = t, ma_paths = [''./'' @ p]\<rparr> = Inr ()
    \<and> path_violation \<lparr>mask_artifact_type = t, allowed_paths = [''./'' @ p]\<rparr> None (''./'' @ p) = []"
proof -
  have "validate_mask_path (''./'' @ p) = Inr ()"
    using strip_dot [of p] dot_segments [OF assms(4)] assms(3) by (simp add: validate_mask_path_def)
  moreover have "covers_path default_document (''./'' @ p) = None" by (rule dot_paths_not_covered [OF default_document_new])
  ultimately have "check_mutable_artifact \<lparr>ma_artifact_type = t, ma_paths = [''./'' @ p]\<rparr> = Inr ()"
    using assms(1) by (simp add: check_mutable_artifact_def)
  moreover have "check_mutable_artifact \<lparr>ma_artifact_type = t, ma_paths = [p]\<rparr> \<noteq> Inr ()"
    using assms(2) by (auto simp: check_mutable_artifact_def res_bind_Inr split: if_splits)
  moreover have "\<not> bad_shape (''./'' @ p)" using dot_segments [OF assms(4)] by (simp add: bad_shape_def)
  ultimately show ?thesis by (simp add: path_violation_def)
qed

lemma dot_prefix_witness:
  "check_mutable_artifact \<lparr>ma_artifact_type = ''prompt_bundle'', ma_paths = [''./src/evoruntime/security/policy.py'']\<rparr> = Inr ()"
proof -
  have "is_admissible_artifact_type ''prompt_bundle''" by code_simp
  moreover have "covers_path default_document ''src/evoruntime/security/policy.py'' = Some ''evoruntime.security''" by code_simp
  moreover have "\<not> py_space (last ''src/evoruntime/security/policy.py'')" by code_simp
  moreover have "''..'' \<notin> set (split_on (CHR ''/'') ''src/evoruntime/security/policy.py'')" by code_simp
  ultimately show ?thesis using dot_prefix_evades_protection [of "''prompt_bundle''" "''src/evoruntime/security/policy.py''" "''evoruntime.security''"] by simp
qed

text \<open>A document whose metadata is null raises an \<^verbatim>\<open>AttributeError\<close> that the parser does not turn into its own error.\<close>

lemma null_metadata_escapes:
  assumes "from_mapping today f (JObj raw) = Inr s"
  shows "from_mapping today f (JObj (AList.update ''metadata'' JNull raw)) = Inl (AttributeError ''items'')"
proof -
  let ?raw = "AList.update ''metadata'' JNull raw"
  have same: "str_field (JObj ?raw) ''name'' = str_field (JObj raw) ''name''" "int_field (JObj ?raw) ''schema_version'' = int_field (JObj raw) ''schema_version''"
    "given_str (JObj ?raw) ''environment'' = given_str (JObj raw) ''environment''"
    "item (JObj ?raw) ''incumbent'' = item (JObj raw) ''incumbent''" "item (JObj ?raw) ''strategy_plugin'' = item (JObj raw) ''strategy_plugin''"
    "item (JObj ?raw) ''arms'' = item (JObj raw) ''arms''" "item (JObj ?raw) ''datasets'' = item (JObj raw) ''datasets''"
    "item (JObj ?raw) ''evaluators'' = item (JObj raw) ''evaluators''" "item (JObj ?raw) ''budgets'' = item (JObj raw) ''budgets''"
    "item (JObj ?raw) ''promotion_policy'' = item (JObj raw) ''promotion_policy''" "item (JObj ?raw) ''statistics'' = item (JObj raw) ''statistics''"
    "item (JObj ?raw) ''stopping_rules'' = item (JObj raw) ''stopping_rules''"
    "parse_compensation_plan (JObj ?raw) = parse_compensation_plan (JObj raw)" "parse_mutation_classes (JObj ?raw) = parse_mutation_classes (JObj raw)"
    "parse_tier4 (JObj ?raw) = parse_tier4 (JObj raw)"
    "parse_mutable_artifacts today (JObj ?raw) v = parse_mutable_artifacts today (JObj raw) v" for v
    by (simp_all add: fields_updated read_updated sections_updated int_field_def parse_mutable_artifacts_def)
  have meta: "parse_metadata f (JObj ?raw) = Inl (AttributeError ''items'')" by (simp add: parse_metadata_def read_updated)
  from from_mappingD [OF assms] have "parse_spec today f (JObj ?raw) = Inl (AttributeError ''items'')"
    unfolding parse_spec_def same meta res_bind_Inr by (elim exE conjE) simp
  then show ?thesis by (simp add: from_mapping_def)
qed

end
