(* ===== verification/MemoryEntries.thy ===== *)
theory MemoryEntries
  imports Registry Statistics
begin

text \<open>
  Memory entries and what is decided about them (\<^verbatim>\<open>memory/schemas.py\<close>, \<^verbatim>\<open>memory/hygiene.py\<close>,
  \<^verbatim>\<open>memory/canonical.py\<close>, \<^verbatim>\<open>memory/gates.py\<close>): the schema with the checks of its fields and validators, the
  canonical body, the quarantine decision at intake and the three promotion gates. Pydantic's ISO text of a
  datetime is the parameter \<open>isoformat\<close>. Of a gate's detail only the verdict is kept.
\<close>

section \<open>The schema (memory/schemas.py)\<close>

definition MEMORY_SCHEMA_VERSION :: int where
  "MEMORY_SCHEMA_VERSION = 1"

datatype semantic_type = FACT | PREFERENCE | PROCEDURE | OBSERVATION

datatype sensitivity = PUBLIC | INTERNAL | SENSITIVE | RESTRICTED

datatype memory_status = SUGGESTION | ACTIVE | QUARANTINED | REVOKED | EXPIRED

datatype evidence_kind = Ev_trace | Ev_attestation | Ev_task_run | Ev_memory

fun semantic_value :: "semantic_type \<Rightarrow> string" where
  "semantic_value FACT = ''fact''"
| "semantic_value PREFERENCE = ''preference''"
| "semantic_value PROCEDURE = ''procedure''"
| "semantic_value OBSERVATION = ''observation''"

fun sensitivity_value :: "sensitivity \<Rightarrow> string" where
  "sensitivity_value PUBLIC = ''public''"
| "sensitivity_value INTERNAL = ''internal''"
| "sensitivity_value SENSITIVE = ''sensitive''"
| "sensitivity_value RESTRICTED = ''restricted''"

fun evidence_value :: "evidence_kind \<Rightarrow> string" where
  "evidence_value Ev_trace = ''trace''"
| "evidence_value Ev_attestation = ''attestation''"
| "evidence_value Ev_task_run = ''task_run''"
| "evidence_value Ev_memory = ''memory''"

record evidence_ref =
  ev_kind :: evidence_kind
  ev_ref :: string

record provenance =
  pv_strategy_id :: string
  pv_trust_domain :: string
  pv_source_ref :: "string option"

record memory_scope =
  sc_subject :: string
  sc_environment :: string
  sc_task_type :: string
  sc_model_id :: "string option"
  sc_harness_id :: "string option"

record memory_claim =
  cl_key :: string
  cl_statement :: string

record time_validity =
  tv_valid_from :: instant
  tv_valid_until :: "instant option"

record memory_entry =
  me_schema_version :: int
  me_semantic_type :: semantic_type
  me_provenance :: provenance
  me_scope :: memory_scope
  me_claim :: memory_claim
  me_confidence :: rat
  me_supporting_evidence :: "evidence_ref list"
  me_contradicting_evidence :: "evidence_ref list"
  me_time_validity :: time_validity
  me_sensitivity :: sensitivity
  me_retrieval_utility :: rat
  me_supersedes :: "string list"
  me_is_generalized_lesson :: bool
  me_parent_memory_ids :: "string list"

definition evidence_ref_ok :: "evidence_ref \<Rightarrow> bool" where
  "evidence_ref_ok e \<longleftrightarrow> ev_ref e \<noteq> []"

definition provenance_ok :: "provenance \<Rightarrow> bool" where
  "provenance_ok p \<longleftrightarrow> pv_strategy_id p \<noteq> [] \<and> pv_trust_domain p \<noteq> []"

definition scope_ok :: "memory_scope \<Rightarrow> bool" where
  "scope_ok c \<longleftrightarrow> sc_subject c \<noteq> [] \<and> sc_environment c \<noteq> [] \<and> sc_task_type c \<noteq> []"

definition claim_ok :: "memory_claim \<Rightarrow> bool" where
  "claim_ok c \<longleftrightarrow> cl_key c \<noteq> [] \<and> cl_statement c \<noteq> []"

definition window_ordered :: "time_validity \<Rightarrow> bool" where
  "window_ordered w \<longleftrightarrow> (case tv_valid_until w of None \<Rightarrow> True | Some u \<Rightarrow> tv_valid_from w < u)"

definition unit_interval :: "rat \<Rightarrow> bool" where
  "unit_interval x \<longleftrightarrow> 0 \<le> x \<and> x \<le> 1"

definition lesson_shape :: "memory_entry \<Rightarrow> bool" where
  "lesson_shape e \<longleftrightarrow> me_is_generalized_lesson e = (me_parent_memory_ids e \<noteq> [])"

text \<open>Constructing the model with typed field values: pydantic raises a \<^verbatim>\<open>ValidationError\<close>, which is a
  \<^verbatim>\<open>ValueError\<close>.\<close>

definition new_memory_entry :: "memory_entry \<Rightarrow> exn + memory_entry" where
  "new_memory_entry e =
     (if provenance_ok (me_provenance e) \<and> scope_ok (me_scope e) \<and> claim_ok (me_claim e)
         \<and> unit_interval (me_confidence e) \<and> unit_interval (me_retrieval_utility e)
         \<and> list_all evidence_ref_ok (me_supporting_evidence e) \<and> list_all evidence_ref_ok (me_contradicting_evidence e)
         \<and> window_ordered (me_time_validity e) \<and> lesson_shape e
      then Inr e else Inl (ValueError ''memory entry''))"

abbreviation valid_entry :: "memory_entry \<Rightarrow> bool" where
  "valid_entry e \<equiv> new_memory_entry e = Inr e"

section \<open>The canonical body (memory/canonical.py)\<close>

definition MEMORY_ID_PREFIX :: string where
  "MEMORY_ID_PREFIX = ''mem''"

definition MEMORY_ENTRY_ARTIFACT_TYPE :: string where
  "MEMORY_ENTRY_ARTIFACT_TYPE = ''memory_entry''"

definition new_memory_id :: "string \<Rightarrow> string" where
  "new_memory_id uid = new_id MEMORY_ID_PREFIX uid"

definition evidence_json :: "evidence_ref \<Rightarrow> json" where
  "evidence_json e = JObj [(''kind'', JStr (evidence_value (ev_kind e))), (''ref'', JStr (ev_ref e))]"

definition entry_dump :: "(instant \<Rightarrow> string) \<Rightarrow> memory_entry \<Rightarrow> json" where
  "entry_dump isoformat e = JObj
     [(''schema_version'', JInt (me_schema_version e)),
      (''semantic_type'', JStr (semantic_value (me_semantic_type e))),
      (''provenance'', JObj [(''strategy_id'', JStr (pv_strategy_id (me_provenance e))),
         (''trust_domain'', JStr (pv_trust_domain (me_provenance e))),
         (''source_ref'', json_opt_str (pv_source_ref (me_provenance e)))]),
      (''scope'', JObj [(''subject'', JStr (sc_subject (me_scope e))), (''environment'', JStr (sc_environment (me_scope e))),
         (''task_type'', JStr (sc_task_type (me_scope e))), (''model_id'', json_opt_str (sc_model_id (me_scope e))),
         (''harness_id'', json_opt_str (sc_harness_id (me_scope e)))]),
      (''claim'', JObj [(''key'', JStr (cl_key (me_claim e))), (''statement'', JStr (cl_statement (me_claim e)))]),
      (''confidence'', JFloat (me_confidence e)),
      (''supporting_evidence'', JList (map evidence_json (me_supporting_evidence e))),
      (''contradicting_evidence'', JList (map evidence_json (me_contradicting_evidence e))),
      (''time_validity'', JObj [(''valid_from'', JStr (isoformat (tv_valid_from (me_time_validity e)))),
         (''valid_until'', json_opt_str (map_option isoformat (tv_valid_until (me_time_validity e))))]),
      (''sensitivity'', JStr (sensitivity_value (me_sensitivity e))),
      (''retrieval_utility'', JFloat (me_retrieval_utility e)),
      (''supersedes'', JList (map JStr (me_supersedes e))),
      (''is_generalized_lesson'', JBool (me_is_generalized_lesson e)),
      (''parent_memory_ids'', JList (map JStr (me_parent_memory_ids e)))]"

definition entry_canonical_bytes ::
  "('k, 'b) crypto \<Rightarrow> (instant \<Rightarrow> string) \<Rightarrow> string \<Rightarrow> memory_entry \<Rightarrow> 'b" where
  "entry_canonical_bytes C isoformat memory_id e =
     canonical_json C (JObj [(''memory_id'', JStr memory_id), (''entry'', entry_dump isoformat e)])"

section \<open>Hygiene at intake (memory/hygiene.py)\<close>

definition DEFAULT_TRUSTED_TRUST_DOMAINS :: "string list" where
  "DEFAULT_TRUSTED_TRUST_DOMAINS = [''evaluator-attested'', ''candidate-proposed'']"

record quarantine_decision =
  qd_quarantine :: bool
  qd_reason :: "string option"

definition allow :: quarantine_decision where
  "allow = \<lparr>qd_quarantine = False, qd_reason = None\<rparr>"

definition block_entry :: "string \<Rightarrow> quarantine_decision" where
  "block_entry why = \<lparr>qd_quarantine = True, qd_reason = Some why\<rparr>"

definition poison_reason :: "memory_entry \<Rightarrow> string list \<Rightarrow> string option" where
  "poison_reason e trusted_domains =
     (if pv_trust_domain (me_provenance e) \<notin> set trusted_domains
      then Some (''poison: trust domain '' @ pv_trust_domain (me_provenance e) @ '' is not an admitted trust domain'')
      else if me_supporting_evidence e = [] then Some ''poison: claim carries no supporting evidence''
      else None)"

definition past_validity :: "instant option \<Rightarrow> instant \<Rightarrow> bool" where
  "past_validity valid_until now = (case valid_until of None \<Rightarrow> False | Some u \<Rightarrow> u < now)"

definition is_stale :: "memory_entry \<Rightarrow> instant \<Rightarrow> bool" where
  "is_stale e now = past_validity (tv_valid_until (me_time_validity e)) now"

definition claims_conflict :: "string \<Rightarrow> string \<Rightarrow> memory_entry \<Rightarrow> bool" where
  "claims_conflict first_key first_statement second \<longleftrightarrow>
     first_key = cl_key (me_claim second) \<and> first_statement \<noteq> cl_statement (me_claim second)"

definition intake_decision :: "memory_entry \<Rightarrow> instant \<Rightarrow> string list \<Rightarrow> quarantine_decision" where
  "intake_decision e now trusted_domains =
     (case poison_reason e trusted_domains of
        Some why \<Rightarrow> block_entry why
      | None \<Rightarrow> if is_stale e now
                then block_entry ''stale data: entry is already past its declared time validity'' else allow)"

lemma intake_allows:
  "qd_quarantine (intake_decision e now trusted) \<longleftrightarrow>
     \<not> (pv_trust_domain (me_provenance e) \<in> set trusted \<and> me_supporting_evidence e \<noteq> [] \<and> \<not> is_stale e now)"
  by (simp add: intake_decision_def poison_reason_def block_entry_def allow_def)

section \<open>The promotion gates (memory/gates.py)\<close>

definition DEFAULT_GATE_ALPHA :: rat where
  "DEFAULT_GATE_ALPHA = 1/20"

definition DEFAULT_NON_INFERIORITY_MARGIN :: rat where
  "DEFAULT_NON_INFERIORITY_MARGIN = 0"

definition DEFAULT_MAX_NEGATIVE_TRANSFER :: rat where
  "DEFAULT_MAX_NEGATIVE_TRANSFER = 0"

definition PERSISTENCE_GATE :: string where
  "PERSISTENCE_GATE = ''persistence_non_inferiority''"

definition NEGATIVE_TRANSFER_GATE :: string where
  "NEGATIVE_TRANSFER_GATE = ''negative_transfer''"

definition HYGIENE_GATE :: string where
  "HYGIENE_GATE = ''hygiene_clear''"

record gate_result =
  gr_gate :: string
  gr_passed :: bool

type_synonym gate_report = "gate_result list"

definition report_passed :: "gate_report \<Rightarrow> bool" where
  "report_passed results = list_all gr_passed results"

definition report_failures :: "gate_report \<Rightarrow> string list" where
  "report_failures results = map gr_gate (filter (\<lambda>r. \<not> gr_passed r) results)"

text \<open>The scores, the margin, the alpha and the number of resamples the caller passes; \<open>Inl\<close> can only be a
  \<^verbatim>\<open>StatisticsError\<close>, which both gates turn into a failed result.\<close>

definition persistence_non_inferiority_gate ::
  "randrange \<Rightarrow> rat list \<Rightarrow> rat list \<Rightarrow> rat \<Rightarrow> rat \<Rightarrow> int \<Rightarrow> int \<Rightarrow> gate_result" where
  "persistence_non_inferiority_gate rng persistence_on persistence_off margin alpha iterations seed =
     \<lparr>gr_gate = PERSISTENCE_GATE,
      gr_passed = (case paired_bootstrap rng persistence_off persistence_on iterations (2 * alpha) seed of
                     Inl _ \<Rightarrow> False | Inr r \<Rightarrow> - margin \<le> ci_low r)\<rparr>"

definition negative_transfer_gate ::
  "randrange \<Rightarrow> rat list \<Rightarrow> rat list \<Rightarrow> rat \<Rightarrow> rat \<Rightarrow> int \<Rightarrow> int \<Rightarrow> gate_result" where
  "negative_transfer_gate rng probe_baseline probe_with_memory max_regression alpha iterations seed =
     \<lparr>gr_gate = NEGATIVE_TRANSFER_GATE,
      gr_passed = (case paired_bootstrap rng probe_baseline probe_with_memory iterations (2 * alpha) seed of
                     Inl _ \<Rightarrow> False | Inr r \<Rightarrow> - max_regression \<le> ci_high r)\<rparr>"

definition hygiene_gate :: "memory_status \<Rightarrow> nat \<Rightarrow> gate_result" where
  "hygiene_gate status unresolved_conflicts =
     \<lparr>gr_gate = HYGIENE_GATE, gr_passed = (status = SUGGESTION \<and> unresolved_conflicts = 0)\<rparr>"

text \<open>The bootstrap raises nothing else.\<close>

lemma bootstrap_raises_statistics:
  "paired_bootstrap rng baseline candidate iterations alpha seed = Inl e \<Longrightarrow> \<exists>why. e = Eval (StatisticsError why)"
  by (auto simp: paired_bootstrap_def paired_differences_def mean_of_def quantile_def statistics_error_def res_bind_def
      Let_def split: if_splits sum.splits)

end
