(* ===== verification/MemoryService.thy ===== *)
theory MemoryService
  imports MemoryEntries
begin

text \<open>
  The memory plane's table and its service (\<^verbatim>\<open>db/models/memory.py\<close>, \<^verbatim>\<open>memory/service.py\<close>): proposal, gated
  promotion, quarantine, revocation with its propagation, the expiry sweep, derived data and retrievals. It
  writes through the artifact registry and the deletion service, so its state holds the registry's. The
  session is the caller's: a call that raises leaves what it has written. Ids and clock readings are
  arguments; \<open>ids i\<close> is the pair drawn for the call's \<open>i\<close>-th status event.
\<close>

section \<open>Rows (db/models/memory.py)\<close>

record memory_row =
  mw_tenant_id :: string
  mw_memory_id :: string
  mw_artifact_digest :: string
  mw_semantic_type :: string
  mw_trust_domain :: string
  mw_subject :: string
  mw_environment :: string
  mw_task_type :: string
  mw_model_id :: "string option"
  mw_harness_id :: "string option"
  mw_claim_key :: string
  mw_claim_statement :: string
  mw_confidence :: rat
  mw_sensitivity :: string
  mw_valid_from :: instant
  mw_valid_until :: "instant option"
  mw_status :: memory_status
  mw_status_reason :: "string option"
  mw_is_lesson :: bool
  mw_parents :: "string list"
  mw_supersedes :: "string list"
  mw_retrieval_count :: nat
  mw_last_retrieved_at :: "instant option"

record 'b memory_db =
  mm_registry :: "'b registry_db"
  mm_rows :: "memory_row list"

definition empty_memory :: "'b memory_db" where
  "empty_memory = \<lparr>mm_registry = empty_registry, mm_rows = []\<rparr>"

definition op_registry :: "(exn, 'b registry_db, 'a) op \<Rightarrow> (exn, 'b memory_db, 'a) op" where
  "op_registry = op_zoom mm_registry (\<lambda>g s. s\<lparr>mm_registry := g\<rparr>)"

definition DERIVED_DATA_KINDS :: "string list" where
  "DERIVED_DATA_KINDS = [''embedding'', ''cache'', ''plugin_checkpoint'', ''export'']"

definition LIVE_STATUSES :: "memory_status list" where
  "LIVE_STATUSES = [SUGGESTION, ACTIVE]"

definition live :: "memory_row \<Rightarrow> bool" where
  "live r \<longleftrightarrow> mw_status r \<in> set LIVE_STATUSES"

text \<open>An assignment to a row's columns, written by the flush.\<close>

definition update_row :: "string \<Rightarrow> (memory_row \<Rightarrow> memory_row) \<Rightarrow> 'b memory_db \<Rightarrow> 'b memory_db" where
  "update_row memory_id f s = s\<lparr>mm_rows := map (\<lambda>r. if mw_memory_id r = memory_id then f r else r) (mm_rows s)\<rparr>"

definition set_memory_status ::
  "string \<Rightarrow> memory_status \<Rightarrow> string option \<Rightarrow> 'b memory_db \<Rightarrow> 'b memory_db" where
  "set_memory_status memory_id status reason =
     update_row memory_id (\<lambda>r. r\<lparr>mw_status := status, mw_status_reason := reason\<rparr>)"

section \<open>Queries\<close>

definition memory_rows_of :: "string \<Rightarrow> string \<Rightarrow> 'b memory_db \<Rightarrow> memory_row list" where
  "memory_rows_of tenant_id memory_id s =
     filter (\<lambda>r. mw_tenant_id r = tenant_id \<and> mw_memory_id r = memory_id) (mm_rows s)"

definition require_row :: "string \<Rightarrow> string \<Rightarrow> 'b memory_db \<Rightarrow> exn + memory_row" where
  "require_row tenant_id memory_id s =
     res_bind (one_or_none (memory_rows_of tenant_id memory_id s)) (\<lambda>found.
       case found of None \<Rightarrow> Inl (Memory (MemoryNotFoundError memory_id tenant_id)) | Some r \<Rightarrow> Inr r)"

definition scalar_one :: "'a list \<Rightarrow> exn + 'a" where
  "scalar_one rows = res_bind (one_or_none rows) (\<lambda>found.
     case found of None \<Rightarrow> Inl (Foreign ''NoResultFound'') | Some r \<Rightarrow> Inr r)"

text \<open>Same tenant, claim key and scope, another statement, and live.\<close>

definition competes ::
  "string \<Rightarrow> string \<Rightarrow> string \<Rightarrow> string \<Rightarrow> string \<Rightarrow> string \<Rightarrow> memory_row \<Rightarrow> bool" where
  "competes tenant_id claim_key claim_statement subject environment task_type r \<longleftrightarrow>
     mw_tenant_id r = tenant_id \<and> mw_claim_key r = claim_key \<and> mw_claim_statement r \<noteq> claim_statement
     \<and> mw_subject r = subject \<and> mw_environment r = environment \<and> mw_task_type r = task_type \<and> live r"

definition conflicting_rows :: "string \<Rightarrow> memory_entry \<Rightarrow> string option \<Rightarrow> 'b memory_db \<Rightarrow> memory_row list" where
  "conflicting_rows tenant_id e exclude_memory_id s =
     filter (\<lambda>r. competes tenant_id (cl_key (me_claim e)) (cl_statement (me_claim e)) (sc_subject (me_scope e))
                   (sc_environment (me_scope e)) (sc_task_type (me_scope e)) r
               \<and> (case exclude_memory_id of None \<Rightarrow> True | Some x \<Rightarrow> mw_memory_id r \<noteq> x)) (mm_rows s)"

definition first_conflict :: "string \<Rightarrow> memory_entry \<Rightarrow> 'b memory_db \<Rightarrow> memory_row option" where
  "first_conflict tenant_id e s =
     (case conflicting_rows tenant_id e None s of [] \<Rightarrow> None | r # _ \<Rightarrow> Some r)"

definition find_conflicts :: "string \<Rightarrow> memory_entry \<Rightarrow> 'b memory_db \<Rightarrow> memory_row list" where
  "find_conflicts tenant_id e s = conflicting_rows tenant_id e None s"

definition count_conflicts ::
  "string \<Rightarrow> string \<Rightarrow> string \<Rightarrow> string \<Rightarrow> string \<Rightarrow> string \<Rightarrow> string \<Rightarrow> 'b memory_db \<Rightarrow> nat" where
  "count_conflicts tenant_id claim_key claim_statement subject environment task_type exclude_memory_id s =
     length (filter (\<lambda>r. competes tenant_id claim_key claim_statement subject environment task_type r
                       \<and> mw_memory_id r \<noteq> exclude_memory_id) (mm_rows s))"

definition dependent_lessons :: "string \<Rightarrow> string \<Rightarrow> 'b memory_db \<Rightarrow> memory_row list" where
  "dependent_lessons tenant_id memory_id s =
     filter (\<lambda>r. mw_tenant_id r = tenant_id \<and> mw_is_lesson r \<and> memory_id \<in> set (mw_parents r) \<and> live r) (mm_rows s)"

definition lesson_dependencies :: "string \<Rightarrow> memory_entry \<Rightarrow> 'b memory_db \<Rightarrow> exn + string list" where
  "lesson_dependencies tenant_id e s =
     res_map (\<lambda>p. res_bind (require_row tenant_id p s) (\<lambda>r. Inr (mw_artifact_digest r))) (me_parent_memory_ids e)"

definition payload_digest_of :: "artifact_content \<Rightarrow> string" where
  "payload_digest_of a = removeprefix (STORAGE_URI_SCHEME @ ''://'') (ac_storage_uri a)"

definition payload_digest :: "string \<Rightarrow> string \<Rightarrow> 'b memory_db \<Rightarrow> exn + string" where
  "payload_digest tenant_id memory_id s =
     res_bind (require_row tenant_id memory_id s) (\<lambda>row.
     res_bind (scalar_one (filter (\<lambda>a. ac_tenant_id a = tenant_id \<and> ac_digest a = mw_artifact_digest row)
                 (rg_artifacts (mm_registry s)))) (\<lambda>a. Inr (payload_digest_of a)))"

definition get_entry :: "string \<Rightarrow> string \<Rightarrow> 'b memory_db \<Rightarrow> exn + memory_row" where
  "get_entry = require_row"

section \<open>Proposal\<close>

definition proposal_decision ::
  "string list \<Rightarrow> instant \<Rightarrow> string \<Rightarrow> memory_entry \<Rightarrow> 'b memory_db \<Rightarrow> quarantine_decision" where
  "proposal_decision trusted now tenant_id e s =
     (let decision = intake_decision e now trusted
      in if qd_quarantine decision then decision
         else (case first_conflict tenant_id e s of
                 None \<Rightarrow> decision
               | Some r \<Rightarrow> block_entry (''conflict: competing claim with memory '' @ mw_memory_id r
                             @ '' under claim key '' @ cl_key (me_claim e))))"

definition new_memory_row :: "string \<Rightarrow> string \<Rightarrow> string \<Rightarrow> memory_entry \<Rightarrow> quarantine_decision \<Rightarrow> memory_row" where
  "new_memory_row tenant_id memory_id artifact_digest e decision =
     \<lparr>mw_tenant_id = tenant_id, mw_memory_id = memory_id, mw_artifact_digest = artifact_digest,
      mw_semantic_type = semantic_value (me_semantic_type e), mw_trust_domain = pv_trust_domain (me_provenance e),
      mw_subject = sc_subject (me_scope e), mw_environment = sc_environment (me_scope e),
      mw_task_type = sc_task_type (me_scope e), mw_model_id = sc_model_id (me_scope e),
      mw_harness_id = sc_harness_id (me_scope e), mw_claim_key = cl_key (me_claim e),
      mw_claim_statement = cl_statement (me_claim e), mw_confidence = me_confidence e,
      mw_sensitivity = sensitivity_value (me_sensitivity e), mw_valid_from = tv_valid_from (me_time_validity e),
      mw_valid_until = tv_valid_until (me_time_validity e),
      mw_status = (if qd_quarantine decision then QUARANTINED else SUGGESTION),
      mw_status_reason = qd_reason decision, mw_is_lesson = me_is_generalized_lesson e,
      mw_parents = me_parent_memory_ids e, mw_supersedes = me_supersedes e, mw_retrieval_count = 0,
      mw_last_retrieved_at = None\<rparr>"

text \<open>The table's constraints: the unique id, the two checks and the key into \<^verbatim>\<open>artifact_content\<close>.\<close>

definition row_fits :: "memory_row \<Rightarrow> 'b memory_db \<Rightarrow> bool" where
  "row_fits r s \<longleftrightarrow>
     mw_memory_id r \<notin> mw_memory_id ` set (mm_rows s)
     \<and> unit_interval (mw_confidence r)
     \<and> (case mw_valid_until r of None \<Rightarrow> True | Some u \<Rightarrow> mw_valid_from r < u)
     \<and> (mw_tenant_id r, mw_artifact_digest r) \<in> registered (mm_registry s)"

definition insert_memory_row :: "memory_row \<Rightarrow> (exn, 'b memory_db, memory_row) op" where
  "insert_memory_row r =
     op_then (op_require (row_fits r) integrity_error)
       (op_then (op_modify (\<lambda>s. s\<lparr>mm_rows := mm_rows s @ [r]\<rparr>)) (op_return r))"

definition propose_entry ::
  "('k, 'b) crypto \<Rightarrow> ('n, 'b) key_provider \<Rightarrow> (instant \<Rightarrow> string) \<Rightarrow> string list \<Rightarrow> string \<Rightarrow> string \<Rightarrow> 'n \<Rightarrow> instant
     \<Rightarrow> string \<Rightarrow> memory_entry \<Rightarrow> (exn, 'b memory_db, memory_row) op" where
  "propose_entry C K isoformat trusted uid art_uid nonce now tenant_id e =
     (let memory_id = new_memory_id uid in
      op_bind (op_gets (proposal_decision trusted now tenant_id e)) (\<lambda>decision.
      op_bind (op_read (lesson_dependencies tenant_id e)) (\<lambda>dependencies.
      op_bind (op_registry (register_artifact C K art_uid nonce tenant_id MEMORY_ENTRY_ARTIFACT_TYPE
                 (entry_canonical_bytes C isoformat memory_id e) dependencies [] None ''artifact'')) (\<lambda>artifact.
        insert_memory_row (new_memory_row tenant_id memory_id (ac_digest artifact) e decision)))))"

section \<open>Promotion\<close>

type_synonym event_ids = "nat \<Rightarrow> string \<times> string"

definition memory_event ::
  "event_ids \<Rightarrow> nat \<Rightarrow> instant \<Rightarrow> string \<Rightarrow> string \<Rightarrow> string \<Rightarrow> string \<Rightarrow> string
     \<Rightarrow> (exn, 'b memory_db, artifact_status_event) op" where
  "memory_event ids i now tenant_id artifact_digest kind actor_identity reason =
     op_registry (append_status_event (fst (ids i)) (snd (ids i)) now tenant_id artifact_digest kind actor_identity
       (Some reason))"

record gate_inputs =
  gi_persistence_on :: "rat list"
  gi_persistence_off :: "rat list"
  gi_probe_baseline :: "rat list"
  gi_probe_with_memory :: "rat list"
  gi_margin :: rat
  gi_max_regression :: rat
  gi_alpha :: rat
  gi_seed :: int

definition promotion_report :: "randrange \<Rightarrow> gate_inputs \<Rightarrow> memory_row \<Rightarrow> 'b memory_db \<Rightarrow> gate_report" where
  "promotion_report rng g row s =
     [persistence_non_inferiority_gate rng (gi_persistence_on g) (gi_persistence_off g) (gi_margin g) (gi_alpha g)
        DEFAULT_BOOTSTRAP_ITERATIONS (gi_seed g),
      negative_transfer_gate rng (gi_probe_baseline g) (gi_probe_with_memory g) (gi_max_regression g) (gi_alpha g)
        DEFAULT_BOOTSTRAP_ITERATIONS (gi_seed g),
      hygiene_gate (mw_status row)
        (count_conflicts (mw_tenant_id row) (mw_claim_key row) (mw_claim_statement row) (mw_subject row)
           (mw_environment row) (mw_task_type row) (mw_memory_id row) s)]"

fun validate_supersession_targets :: "string \<Rightarrow> string \<Rightarrow> string list \<Rightarrow> 'b memory_db \<Rightarrow> exn + unit" where
  "validate_supersession_targets tenant_id memory_id [] s = Inr ()"
| "validate_supersession_targets tenant_id memory_id (target # targets) s =
     res_bind (one_or_none (memory_rows_of tenant_id target s)) (\<lambda>found.
       case found of
         None \<Rightarrow> Inl (Memory (SupersessionTargetNotFoundError memory_id target))
       | Some _ \<Rightarrow> validate_supersession_targets tenant_id memory_id targets s)"

definition supersede_target ::
  "event_ids \<Rightarrow> instant \<Rightarrow> string \<Rightarrow> string \<Rightarrow> string \<Rightarrow> nat \<times> string \<Rightarrow> (exn, 'b memory_db, unit) op" where
  "supersede_target ids now tenant_id memory_id actor_identity = (\<lambda>(i, target_id).
     op_bind (op_read (\<lambda>s. scalar_one (memory_rows_of tenant_id target_id s))) (\<lambda>target.
     op_bind (memory_event ids (Suc i) now tenant_id (mw_artifact_digest target) ''supersede'' actor_identity
                (''superseded by '' @ memory_id)) (\<lambda>_.
       op_modify (set_memory_status (mw_memory_id target) REVOKED (Some (''superseded by '' @ memory_id))))))"

definition apply_supersession ::
  "event_ids \<Rightarrow> instant \<Rightarrow> string \<Rightarrow> memory_row \<Rightarrow> string \<Rightarrow> (exn, 'b memory_db, unit) op" where
  "apply_supersession ids now tenant_id row actor_identity =
     op_for (enumerate0 (mw_supersedes row)) (supersede_target ids now tenant_id (mw_memory_id row) actor_identity)"

text \<open>The row returned is the mapped object, that is the row as it stands at the end.\<close>

definition promote_entry ::
  "randrange \<Rightarrow> event_ids \<Rightarrow> instant \<Rightarrow> string \<Rightarrow> string \<Rightarrow> gate_inputs \<Rightarrow> string \<Rightarrow> (exn, 'b memory_db, memory_row) op" where
  "promote_entry rng ids now tenant_id memory_id g actor_identity =
     op_bind (op_read (require_row tenant_id memory_id)) (\<lambda>row.
     op_bind (op_gets (promotion_report rng g row)) (\<lambda>report.
       if \<not> report_passed report then op_raise (Memory (PromotionBlockedError (report_failures report)))
       else
         op_bind (op_read (validate_supersession_targets tenant_id memory_id (mw_supersedes row))) (\<lambda>_.
         op_bind (memory_event ids 0 now tenant_id (mw_artifact_digest row) ''nominate'' actor_identity
                    ''promotion gates passed'') (\<lambda>_.
         op_then (op_modify (set_memory_status memory_id ACTIVE None))
         (op_then (apply_supersession ids now tenant_id row actor_identity)
           (op_read (require_row tenant_id memory_id)))))))"

section \<open>Quarantine, revocation, expiry\<close>

definition quarantine_entry ::
  "event_ids \<Rightarrow> instant \<Rightarrow> string \<Rightarrow> string \<Rightarrow> string \<Rightarrow> string \<Rightarrow> (exn, 'b memory_db, memory_row) op" where
  "quarantine_entry ids now tenant_id memory_id reason actor_identity =
     op_bind (op_read (require_row tenant_id memory_id)) (\<lambda>row.
     op_bind (memory_event ids 0 now tenant_id (mw_artifact_digest row) ''quarantine'' actor_identity reason) (\<lambda>_.
     op_then (op_modify (set_memory_status memory_id QUARANTINED (Some reason)))
       (op_read (require_row tenant_id memory_id))))"

record revocation_outcome =
  ro_revoked :: memory_row
  ro_quarantined_lessons :: "string list"
  ro_tombstone :: tombstone

definition quarantine_lesson ::
  "event_ids \<Rightarrow> instant \<Rightarrow> string \<Rightarrow> string \<Rightarrow> string \<Rightarrow> nat \<times> memory_row \<Rightarrow> (exn, 'b memory_db, unit) op" where
  "quarantine_lesson ids now tenant_id memory_id actor_identity = (\<lambda>(i, lesson).
     op_bind (memory_event ids (Suc i) now tenant_id (mw_artifact_digest lesson) ''quarantine'' actor_identity
                (''supporting evidence revoked: '' @ memory_id)) (\<lambda>_.
       op_modify (set_memory_status (mw_memory_id lesson) QUARANTINED
                    (Some (''supporting evidence revoked: '' @ memory_id)))))"

definition revoke_entry ::
  "event_ids \<Rightarrow> string \<Rightarrow> instant \<Rightarrow> string \<Rightarrow> string \<Rightarrow> string \<Rightarrow> string \<Rightarrow> string
     \<Rightarrow> (exn, 'b memory_db, revocation_outcome) op" where
  "revoke_entry ids tombstone_id now tenant_id memory_id reason requested_by actor_identity =
     op_bind (op_read (require_row tenant_id memory_id)) (\<lambda>row.
     op_bind (memory_event ids 0 now tenant_id (mw_artifact_digest row) ''revoke'' actor_identity reason) (\<lambda>_.
     op_then (op_modify (set_memory_status memory_id REVOKED (Some reason)))
     (op_bind (op_gets (dependent_lessons tenant_id memory_id)) (\<lambda>lessons.
      op_then (op_for (enumerate0 lessons) (quarantine_lesson ids now tenant_id memory_id actor_identity))
      (op_bind (op_read (\<lambda>s. get_artifact tenant_id (mw_artifact_digest row) (mm_registry s))) (\<lambda>artifact.
       op_bind (op_registry (op_lineage (request_deletion tombstone_id now tenant_id ''payload''
                  (payload_digest_of artifact) requested_by (Some reason)))) (\<lambda>tombstone.
       op_bind (op_read (require_row tenant_id memory_id)) (\<lambda>revoked.
         op_return \<lparr>ro_revoked = revoked, ro_quarantined_lessons = map mw_memory_id lessons,
                    ro_tombstone = tombstone\<rparr>))))))))"

definition stale_row :: "instant \<Rightarrow> memory_row \<Rightarrow> bool" where
  "stale_row now r \<longleftrightarrow> past_validity (mw_valid_until r) now \<and> live r"

definition expire_row :: "event_ids \<Rightarrow> instant \<Rightarrow> nat \<times> memory_row \<Rightarrow> (exn, 'b memory_db, unit) op" where
  "expire_row ids now = (\<lambda>(i, row).
     op_bind (memory_event ids i now (mw_tenant_id row) (mw_artifact_digest row) ''expire'' ''system:ttl-sweep''
                ''ttl expired'') (\<lambda>_.
       op_modify (set_memory_status (mw_memory_id row) EXPIRED (Some ''ttl expired''))))"

definition expire_stale :: "event_ids \<Rightarrow> instant \<Rightarrow> (exn, 'b memory_db, string list) op" where
  "expire_stale ids now =
     op_bind (op_gets (\<lambda>s. filter (stale_row now) (mm_rows s))) (\<lambda>stale.
       op_then (op_for (enumerate0 stale) (expire_row ids now)) (op_return (map mw_memory_id stale)))"

section \<open>Derived data and retrievals\<close>

definition register_derived_data ::
  "string \<Rightarrow> string \<Rightarrow> string \<Rightarrow> string \<Rightarrow> (exn, 'b memory_db, derived_data_record) op" where
  "register_derived_data tenant_id memory_id kind ref =
     (if kind \<notin> set DERIVED_DATA_KINDS then op_raise (ValueError ''derived data kind'')
      else op_bind (op_read (payload_digest tenant_id memory_id)) (\<lambda>resource.
        let d = \<lparr>dd_tenant_id = tenant_id, dd_resource_id = resource, dd_kind = kind, dd_ref = ref\<rparr>
        in op_then (op_registry (op_lineage (op_modify (\<lambda>l. l\<lparr>derived_data := derived_data l @ [d]\<rparr>))))
             (op_return d)))"

definition record_retrieval :: "instant \<Rightarrow> string \<Rightarrow> string \<Rightarrow> (exn, 'b memory_db, memory_row) op" where
  "record_retrieval now tenant_id memory_id =
     op_bind (op_read (require_row tenant_id memory_id)) (\<lambda>_.
     op_then (op_modify (update_row memory_id (\<lambda>r. r\<lparr>mw_retrieval_count := mw_retrieval_count r + 1,
                                                    mw_last_retrieved_at := Some now\<rparr>)))
       (op_read (require_row tenant_id memory_id)))"

section \<open>Any sequence of calls\<close>

text \<open>\<open>Elsewhere\<close> is any call on the registry or the lineage plane, the deletion sweeps among them. A proposed
  entry is one the schema has constructed.\<close>

datatype ('k, 'n, 'b) memory_call =
    Propose_memory string string 'n instant string memory_entry
  | Promote_memory event_ids instant string string gate_inputs string
  | Quarantine_memory event_ids instant string string string string
  | Revoke_memory event_ids string instant string string string string string
  | Expire_stale event_ids instant
  | Register_derived string string string string
  | Record_retrieval instant string string
  | Elsewhere "('k, 'n, 'b) registry_call"

fun do_memory_call ::
  "('k, 'b) crypto \<Rightarrow> ('n, 'b) key_provider \<Rightarrow> (instant \<Rightarrow> string) \<Rightarrow> string list \<Rightarrow> randrange
     \<Rightarrow> ('k, 'n, 'b) memory_call \<Rightarrow> 'b memory_db \<Rightarrow> 'b memory_db" where
  "do_memory_call C K isoformat tr rng (Propose_memory u a n now t e) s =
     (if valid_entry e then snd (propose_entry C K isoformat tr u a n now t e s) else s)"
| "do_memory_call C K isoformat tr rng (Promote_memory ids now t m g who) s = snd (promote_entry rng ids now t m g who s)"
| "do_memory_call C K isoformat tr rng (Quarantine_memory ids now t m why who) s = snd (quarantine_entry ids now t m why who s)"
| "do_memory_call C K isoformat tr rng (Revoke_memory ids ts now t m why by who) s = snd (revoke_entry ids ts now t m why by who s)"
| "do_memory_call C K isoformat tr rng (Expire_stale ids now) s = snd (expire_stale ids now s)"
| "do_memory_call C K isoformat tr rng (Register_derived t m k r) s = snd (register_derived_data t m k r s)"
| "do_memory_call C K isoformat tr rng (Record_retrieval now t m) s = snd (record_retrieval now t m s)"
| "do_memory_call C K isoformat tr rng (Elsewhere c) s = s\<lparr>mm_registry := do_registry_call C K c (mm_registry s)\<rparr>"

end
