(* ===== verification/MemoryLife.thy ===== *)
theory MemoryLife
  imports MemoryService
begin

text \<open>
  What holds of the memory plane after any calls: the registry below it stays well formed, a row changes only
  along the lifecycle, live claims never compete, and only a promotion whose gates pass activates an entry.
\<close>

section \<open>The lifecycle of a row\<close>

text \<open>A row may leave circulation at any time and a suggestion may become active; nothing comes back.\<close>

definition may_become :: "memory_status \<Rightarrow> memory_status \<Rightarrow> bool" where
  "may_become a b \<longleftrightarrow> a = b \<or> b \<notin> set LIVE_STATUSES \<or> (a = SUGGESTION \<and> b = ACTIVE)"

definition evolves :: "memory_row \<Rightarrow> memory_row \<Rightarrow> bool" where
  "evolves r r' \<longleftrightarrow>
     r' = r\<lparr>mw_status := mw_status r', mw_status_reason := mw_status_reason r',
            mw_retrieval_count := mw_retrieval_count r', mw_last_retrieved_at := mw_last_retrieved_at r'\<rparr>
     \<and> may_become (mw_status r) (mw_status r')"

definition rows_evolve :: "memory_row list \<Rightarrow> memory_row list \<Rightarrow> bool" where
  "rows_evolve rs rs' \<longleftrightarrow> length rs \<le> length rs' \<and> (\<forall>i < length rs. evolves (rs ! i) (rs' ! i))"

abbreviation claim_scope :: "memory_row \<Rightarrow> string \<times> string \<times> string \<times> string \<times> string" where
  "claim_scope r \<equiv> (mw_tenant_id r, mw_claim_key r, mw_subject r, mw_environment r, mw_task_type r)"

definition live_agree :: "memory_row list \<Rightarrow> bool" where
  "live_agree rs \<longleftrightarrow> (\<forall>r \<in> set rs. \<forall>q \<in> set rs. live r \<longrightarrow> live q \<longrightarrow> claim_scope r = claim_scope q
     \<longrightarrow> mw_claim_statement r = mw_claim_statement q)"

definition active_ids :: "memory_row list \<Rightarrow> string set" where
  "active_ids rs = mw_memory_id ` {r \<in> set rs. mw_status r = ACTIVE}"

definition memory_ok :: "('k, 'b) crypto \<Rightarrow> ('n, 'b) key_provider \<Rightarrow> 'b memory_db \<Rightarrow> bool" where
  "memory_ok C K s \<longleftrightarrow>
     registry_ok C K (mm_registry s) \<and> distinct (map mw_memory_id (mm_rows s))
     \<and> list_all (\<lambda>r. (mw_tenant_id r, mw_artifact_digest r) \<in> registered (mm_registry s)) (mm_rows s)
     \<and> live_agree (mm_rows s)"

text \<open>The state is well formed, has evolved from the rows \<open>R\<close>, and only rows named in \<open>A\<close> are active.\<close>

definition fares ::
  "('k, 'b) crypto \<Rightarrow> ('n, 'b) key_provider \<Rightarrow> memory_row list \<Rightarrow> string set \<Rightarrow> 'b memory_db \<Rightarrow> bool" where
  "fares C K R A s \<longleftrightarrow> memory_ok C K s \<and> rows_evolve R (mm_rows s) \<and> active_ids (mm_rows s) \<subseteq> A"

lemma may_become_refl [simp]: "may_become a a"
  by (simp add: may_become_def)

lemma may_become_trans: "may_become a b \<Longrightarrow> may_become b c \<Longrightarrow> may_become a c"
  by (auto simp: may_become_def LIVE_STATUSES_def)

lemma evolves_refl [simp]: "evolves r r"
  by (simp add: evolves_def)

lemma evolves_fields:
  assumes "evolves r r'"
  shows "mw_memory_id r' = mw_memory_id r" "claim_scope r' = claim_scope r" "mw_claim_statement r' = mw_claim_statement r"
    "mw_artifact_digest r' = mw_artifact_digest r" "mw_parents r' = mw_parents r" "mw_supersedes r' = mw_supersedes r"
proof -
  from assms have eq: "r' = r\<lparr>mw_status := mw_status r', mw_status_reason := mw_status_reason r',
      mw_retrieval_count := mw_retrieval_count r', mw_last_retrieved_at := mw_last_retrieved_at r'\<rparr>"
    by (simp add: evolves_def)
  show "mw_memory_id r' = mw_memory_id r" using arg_cong [OF eq, of mw_memory_id] by simp
  show "claim_scope r' = claim_scope r" using arg_cong [OF eq, of claim_scope] by simp
  show "mw_claim_statement r' = mw_claim_statement r" using arg_cong [OF eq, of mw_claim_statement] by simp
  show "mw_artifact_digest r' = mw_artifact_digest r" using arg_cong [OF eq, of mw_artifact_digest] by simp
  show "mw_parents r' = mw_parents r" using arg_cong [OF eq, of mw_parents] by simp
  show "mw_supersedes r' = mw_supersedes r" using arg_cong [OF eq, of mw_supersedes] by simp
qed

lemma evolves_trans: "evolves p q \<Longrightarrow> evolves q r \<Longrightarrow> evolves p r"
  unfolding evolves_def by (cases p; cases q; cases r) (auto intro: may_become_trans)

lemma rows_evolve_refl [simp]: "rows_evolve rs rs"
  by (simp add: rows_evolve_def)

lemma rows_evolve_trans: "rows_evolve ps qs \<Longrightarrow> rows_evolve qs rs \<Longrightarrow> rows_evolve ps rs"
  unfolding rows_evolve_def by (meson evolves_trans le_trans less_le_trans)

lemma rows_evolve_map: "(\<And>r. r \<in> set rs \<Longrightarrow> evolves r (f r)) \<Longrightarrow> rows_evolve rs (map f rs)"
  by (simp add: rows_evolve_def)

lemma rows_evolve_append: "rows_evolve rs (rs @ new)"
  by (simp add: rows_evolve_def nth_append)

lemma live_iff: "live r \<longleftrightarrow> mw_status r = SUGGESTION \<or> mw_status r = ACTIVE"
  by (simp add: live_def LIVE_STATUSES_def)

lemma evolves_live: "evolves r r' \<Longrightarrow> live r' \<Longrightarrow> live r"
  by (auto simp: evolves_def may_become_def live_def LIVE_STATUSES_def)

section \<open>The steps of the calls\<close>

lemma registry_only_run:
  "op_registry m s = (fst (m (mm_registry s)), s\<lparr>mm_registry := snd (m (mm_registry s))\<rparr>)"
  by (simp add: op_registry_def op_zoom_def case_prod_unfold)

lemma fares_registry:
  assumes "fares C K R A s" "registry_ok C K g" "registered (mm_registry s) \<subseteq> registered g"
  shows "fares C K R A (s\<lparr>mm_registry := g\<rparr>)"
  using assms by (auto simp: fares_def memory_ok_def list_all_iff)

lemma keeps_fares_registry:
  assumes "\<And>g. registry_ok C K g \<Longrightarrow> registry_ok C K (snd (m g)) \<and> registered g \<subseteq> registered (snd (m g))"
  shows "keeps (fares C K R A) (op_registry m)"
proof (rule keepsI)
  fix s assume f: "fares C K R A s"
  then have "registry_ok C K (mm_registry s)" by (simp add: fares_def memory_ok_def)
  from assms [OF this] show "fares C K R A (snd (op_registry m s))"
    by (simp add: registry_only_run fares_registry [OF f])
qed

lemma append_event_artifacts: "rg_artifacts (snd (append_status_event i u now t d k w y g)) = rg_artifacts g"
  by (auto simp: append_status_event_def op_run_simps op_end_simps Let_def split: sum.splits)

lemma keeps_event [keeps_intros]: "keeps (fares C K R A) (memory_event ids i now t d k w y)"
  unfolding memory_event_def
  by (intro keeps_fares_registry) (simp add: append_status_event_ok registered_def append_event_artifacts)

lemma keeps_lineage_step:
  assumes "\<And>l. lineage_ok C K l \<Longrightarrow> lineage_ok C K (snd (m l))"
  shows "keeps (fares C K R A) (op_registry (op_lineage m))"
  using assms by (intro keeps_fares_registry)
    (auto simp: op_lineage_run registry_ok_lineage registered_def, simp add: registry_ok_def registered_def)

lemma fares_update:
  assumes "fares C K R A s"
    and step: "\<And>r. r \<in> set (mm_rows s) \<Longrightarrow> mw_memory_id r = m \<Longrightarrow> evolves r (f r)"
    and act: "\<And>r. r \<in> set (mm_rows s) \<Longrightarrow> mw_memory_id r = m \<Longrightarrow> mw_status (f r) = ACTIVE
                \<Longrightarrow> m \<in> A' \<or> mw_status r = ACTIVE"
    and "A \<subseteq> A'"
  shows "fares C K R A' (update_row m f s)"
proof -
  let ?f = "\<lambda>r. if mw_memory_id r = m then f r else r"
  have ev: "evolves r (?f r)" if "r \<in> set (mm_rows s)" for r using step [OF that] by simp
  have rows: "mm_rows (update_row m f s) = map ?f (mm_rows s)" "mm_registry (update_row m f s) = mm_registry s"
    by (simp_all add: update_row_def)
  have "map mw_memory_id (map ?f (mm_rows s)) = map mw_memory_id (mm_rows s)"
    unfolding map_map comp_def using evolves_fields(1) [OF ev] by (intro map_cong) auto
  then have "distinct (map mw_memory_id (map ?f (mm_rows s)))"
    using assms(1) by (simp only: fares_def memory_ok_def)
  moreover have "live_agree (map ?f (mm_rows s))"
    unfolding live_agree_def
  proof (intro ballI impI)
    fix r' q' assume mem: "r' \<in> set (map ?f (mm_rows s))" "q' \<in> set (map ?f (mm_rows s))"
      and lv: "live r'" "live q'" and same: "claim_scope r' = claim_scope q'"
    from mem obtain r q where rq: "r \<in> set (mm_rows s)" "q \<in> set (mm_rows s)" "r' = ?f r" "q' = ?f q"
      unfolding set_map by blast
    have e: "evolves r r'" "evolves q q'" using ev rq by simp_all
    from assms(1) have "live_agree (mm_rows s)" by (simp add: fares_def memory_ok_def)
    with rq(1,2) e lv same show "mw_claim_statement r' = mw_claim_statement q'"
      using evolves_live [OF e(1) lv(1)] evolves_live [OF e(2) lv(2)] evolves_fields(2,3) [OF e(1)] evolves_fields(2,3) [OF e(2)]
      unfolding live_agree_def by metis
  qed
  moreover have "active_ids (map ?f (mm_rows s)) \<subseteq> A'"
  proof
    fix x assume "x \<in> active_ids (map ?f (mm_rows s))"
    then obtain r where r: "r \<in> set (mm_rows s)" "mw_status (?f r) = ACTIVE" "x = mw_memory_id (?f r)"
      by (auto simp: active_ids_def)
    have "x = mw_memory_id r" using r(3) evolves_fields(1) [OF ev [OF r(1)]] by simp
    moreover have "mw_status r = ACTIVE \<Longrightarrow> mw_memory_id r \<in> A'"
      using r(1) assms(1,4) by (auto simp: fares_def active_ids_def)
    ultimately show "x \<in> A'" using r(2) act [OF r(1)] by (cases "mw_memory_id r = m") auto
  qed
  moreover have "list_all (\<lambda>r. (mw_tenant_id r, mw_artifact_digest r) \<in> registered (mm_registry s)) (map ?f (mm_rows s))"
    unfolding list_all_iff set_map
  proof (rule ballI, erule imageE)
    fix r' r assume "r' = ?f r" and r: "r \<in> set (mm_rows s)"
    with evolves_fields(2,4) [OF ev [OF r]] assms(1)
    show "(mw_tenant_id r', mw_artifact_digest r') \<in> registered (mm_registry s)"
      by (auto simp only: fares_def memory_ok_def list_all_iff prod.inject)
  qed
  moreover have "rows_evolve R (map ?f (mm_rows s))"
    using assms(1) rows_evolve_trans [OF _ rows_evolve_map, of R "mm_rows s" ?f] ev by (simp only: fares_def)
  ultimately show ?thesis
    using assms(1) by (simp only: fares_def memory_ok_def rows)
qed

lemma evolves_status: "may_become (mw_status r) st \<Longrightarrow> evolves r (r\<lparr>mw_status := st, mw_status_reason := why\<rparr>)"
  by (simp add: evolves_def)

lemma keeps_retire [keeps_intros]:
  assumes "st \<notin> set LIVE_STATUSES"
  shows "keeps (fares C K R A) (op_modify (set_memory_status m st why))"
  using assms unfolding set_memory_status_def
  by (intro keeps_modify fares_update evolves_status) (auto simp: may_become_def LIVE_STATUSES_def)

lemma fares_activate:
  assumes "fares C K R A s" "\<And>r. r \<in> set (mm_rows s) \<Longrightarrow> mw_memory_id r = m \<Longrightarrow> mw_status r = SUGGESTION"
  shows "fares C K R (insert m A) (set_memory_status m ACTIVE why s)"
  using assms unfolding set_memory_status_def
  by (intro fares_update [OF assms(1)] evolves_status) (auto simp: may_become_def)

lemma keeps_retrieval [keeps_intros]:
  "keeps (fares C K R A) (op_modify (update_row m (\<lambda>r. r\<lparr>mw_retrieval_count := n r, mw_last_retrieved_at := w r\<rparr>)))"
  by (intro keeps_modify fares_update) (auto simp: evolves_def)

section \<open>Every call keeps the plane well formed\<close>

lemma register_grows: "registered g \<subseteq> registered (snd (register_artifact C K u n t ty b ds cs ex cl g))"
  by (cases rule: register_cases [of C K u n t ty b ds cs ex cl g]) (auto simp: registered_def)

lemma artifacts_kept:
  "keeps (\<lambda>g. rg_artifacts g = X) (insert_proposal p)" "keeps (\<lambda>g. rg_artifacts g = X) (insert_member q)"
  "keeps (\<lambda>g. rg_artifacts g = X) (insert_manifest w)"
  unfolding insert_proposal_def insert_member_def insert_manifest_def by (intro keeps_intros; simp)+

lemma registry_calls_kept:
  "keeps (\<lambda>g. rg_artifacts g = X) (record_proposal u t d st pa ca pm)"
  "keeps (\<lambda>g. rg_artifacts g = X) (record_composite_proposal u t d st ms ca pm)"
  "keeps (\<lambda>g. rg_artifacts g = X) (record_attestation C u t w d out rm pd k)"
  "keeps (\<lambda>g. rg_artifacts g = X) (create_release_manifest C u t ds av mr ps prior k)"
  unfolding record_proposal_def record_composite_proposal_def record_attestation_def create_release_manifest_def Let_def
    record_member_def
  by (auto intro!: keeps_intros artifacts_kept split: prod.splits)

lemma registry_call_grows: "registered g \<subseteq> registered (do_registry_call C K c g)"
proof (cases c)
  case (Register u n t ty b ds cs ex cl)
  then show ?thesis using register_grows by simp
next
  case (Status_event i u now t d k w y)
  then show ?thesis by (simp add: registered_def append_event_artifacts)
qed (simp_all add: registered_def keepsD [OF registry_calls_kept(1), OF refl] keepsD [OF registry_calls_kept(2), OF refl]
      keepsD [OF registry_calls_kept(3), OF refl] keepsD [OF registry_calls_kept(4), OF refl])

lemma fares_elsewhere:
  assumes "crypto_laws C" "key_laws K" "fares C K R A s"
  shows "fares C K R A (s\<lparr>mm_registry := do_registry_call C K c (mm_registry s)\<rparr>)"
  using assms by (intro fares_registry registry_call_ok registry_call_grows) (simp_all add: fares_def memory_ok_def)

lemma find_in_rows: "require_row t m s = Inr r \<Longrightarrow> r \<in> set (mm_rows s) \<and> mw_memory_id r = m \<and> mw_tenant_id r = t"
  by (auto simp: require_row_def res_bind_Inr memory_rows_of_def split: option.splits dest!: one_or_none_filter)

lemma row_of_id:
  assumes "memory_ok C K s" "r \<in> set (mm_rows s)" "q \<in> set (mm_rows s)" "mw_memory_id q = mw_memory_id r"
  shows "q = r"
  using assms by (auto simp: memory_ok_def distinct_map inj_on_def)

lemma event_rows [simp]: "mm_rows (snd (memory_event ids i now t d k w y s)) = mm_rows s"
  by (simp add: memory_event_def registry_only_run)

lemma keeps_tails [keeps_intros]:
  "keeps (fares C K R A) (supersede_target ids now t m who v)"
  "keeps (fares C K R A) (quarantine_lesson ids now t m who l)"
  "keeps (fares C K R A) (expire_row ids now l)"
  unfolding supersede_target_def quarantine_lesson_def expire_row_def
  by (cases v, simp, intro keeps_intros, simp add: LIVE_STATUSES_def,
      cases l, simp, intro keeps_intros, simp add: LIVE_STATUSES_def,
      cases l, simp, intro keeps_intros, simp add: LIVE_STATUSES_def)

lemma keeps_deletion [keeps_intros]:
  "keeps (fares C K R A) (op_registry (op_lineage (request_deletion u now t ty r by why)))"
  by (intro keeps_lineage_step)
    (auto simp: request_deletion_def op_run_simps op_end_simps Let_def lineage_ok_def)

lemma keeps_derived [keeps_intros]:
  "keeps (fares C K R A) (op_registry (op_lineage (op_modify (\<lambda>l. l\<lparr>derived_data := derived_data l @ [d]\<rparr>))))"
  by (intro keeps_lineage_step) (simp add: op_modify_def lineage_ok_def)

lemma keeps_quarantine: "keeps (fares C K R A) (quarantine_entry ids now t m why who)"
  unfolding quarantine_entry_def by (intro keeps_intros) (simp add: LIVE_STATUSES_def)

lemma keeps_revoke: "keeps (fares C K R A) (revoke_entry ids ts now t m why by who)"
  unfolding revoke_entry_def by (intro keeps_intros) (simp add: LIVE_STATUSES_def)

lemma keeps_expire: "keeps (fares C K R A) (expire_stale ids now)"
  unfolding expire_stale_def by (intro keeps_intros)

lemma keeps_register_derived: "keeps (fares C K R A) (register_derived_data t m k ref)"
  unfolding register_derived_data_def Let_def by (auto intro!: keeps_intros)

lemma keeps_record_retrieval: "keeps (fares C K R A) (record_retrieval now t m)"
  unfolding record_retrieval_def by (intro keeps_intros)

text \<open>A proposal adds at most a row, which competes with no live one unless it is quarantined.\<close>

lemma proposal_free:
  assumes "\<not> qd_quarantine (proposal_decision tr now t e s)" "r \<in> set (mm_rows s)"
  shows "\<not> competes t (cl_key (me_claim e)) (cl_statement (me_claim e)) (sc_subject (me_scope e))
           (sc_environment (me_scope e)) (sc_task_type (me_scope e)) r"
proof -
  from assms(1) have "first_conflict t e s = None"
    by (auto simp: proposal_decision_def block_entry_def Let_def split: if_splits option.splits)
  then have "conflicting_rows t e None s = []" by (simp add: first_conflict_def split: list.splits)
  with assms(2) show ?thesis by (simp add: conflicting_rows_def filter_empty_conv)
qed

lemma fares_insert:
  assumes "fares C K R A s" "row_fits r s" "mw_status r \<noteq> ACTIVE"
    and free: "\<And>q. live r \<Longrightarrow> q \<in> set (mm_rows s) \<Longrightarrow> live q \<Longrightarrow> claim_scope q = claim_scope r
      \<Longrightarrow> mw_claim_statement q = mw_claim_statement r"
  shows "fares C K R A (s\<lparr>mm_rows := mm_rows s @ [r]\<rparr>)"
proof -
  have "live_agree (mm_rows s @ [r])"
    unfolding live_agree_def
  proof (intro ballI impI)
    fix p q assume mem: "p \<in> set (mm_rows s @ [r])" "q \<in> set (mm_rows s @ [r])" and lv: "live p" "live q"
      and same: "claim_scope p = claim_scope q"
    have old: "live_agree (mm_rows s)" using assms(1) by (simp add: fares_def memory_ok_def)
    consider "p \<in> set (mm_rows s)" "q \<in> set (mm_rows s)" | "p = r" "q \<in> set (mm_rows s)"
      | "q = r" "p \<in> set (mm_rows s)" | "p = r" "q = r"
      using mem by auto
    then show "mw_claim_statement p = mw_claim_statement q"
    proof cases
      case 1
      with old lv same show ?thesis unfolding live_agree_def by blast
    next
      case 2
      with free [of q] lv same show ?thesis by simp
    next
      case 3
      with free [of p] lv same show ?thesis by simp
    qed simp
  qed
  moreover have "active_ids (mm_rows s @ [r]) = active_ids (mm_rows s)" using assms(3) by (auto simp: active_ids_def)
  ultimately show ?thesis
    using assms(1,2) rows_evolve_trans [OF _ rows_evolve_append, of R "mm_rows s" "[r]"]
    by (auto simp: fares_def memory_ok_def row_fits_def list_all_iff)
qed

lemma insert_row_run:
  "insert_memory_row r s = (if row_fits r s then (Inr r, s\<lparr>mm_rows := mm_rows s @ [r]\<rparr>) else (Inl integrity_error, s))"
  by (simp add: insert_memory_row_def op_run_simps op_end_simps)

lemma propose_run:
  "propose_entry C K isoformat tr uid u n now t e s =
     (case lesson_dependencies t e s of
        Inl x \<Rightarrow> (Inl x, s)
      | Inr ds \<Rightarrow>
         (case register_artifact C K u n t MEMORY_ENTRY_ARTIFACT_TYPE
                 (entry_canonical_bytes C isoformat (new_memory_id uid) e) ds [] None ''artifact'' (mm_registry s) of
            (Inl x, g) \<Rightarrow> (Inl x, s\<lparr>mm_registry := g\<rparr>)
          | (Inr a, g) \<Rightarrow> insert_memory_row
               (new_memory_row t (new_memory_id uid) (ac_digest a) e (proposal_decision tr now t e s)) (s\<lparr>mm_registry := g\<rparr>)))"
  by (simp add: propose_entry_def Let_def op_bind_def op_gets_def op_read_def registry_only_run case_prod_unfold
      split: sum.splits)

lemma new_memory_row_fields [simp]:
  "claim_scope (new_memory_row t m d e q) = (t, cl_key (me_claim e), sc_subject (me_scope e),
     sc_environment (me_scope e), sc_task_type (me_scope e))"
  "mw_claim_statement (new_memory_row t m d e q) = cl_statement (me_claim e)"
  "mw_memory_id (new_memory_row t m d e q) = m"
  "mw_status (new_memory_row t m d e q) = (if qd_quarantine q then QUARANTINED else SUGGESTION)"
  by (simp_all add: new_memory_row_def)

lemma fares_propose:
  assumes "key_laws K" "fares C K R A s"
  shows "fares C K R A (snd (propose_entry C K isoformat tr uid u n now t e s))"
proof -
  have ok: "registry_ok C K (mm_registry s)" using assms(2) by (simp add: fares_def memory_ok_def)
  have step: "fares C K R A (s\<lparr>mm_registry := g\<rparr>)"
    if "register_artifact C K u n t ty b ds cs ex cl (mm_registry s) = (x, g)" for ty b ds cs ex cl x g
    using fares_registry [OF assms(2) register_ok [OF assms(1) ok] register_grows] that by (metis snd_conv)
  have row: "fares C K R A (snd (insert_memory_row (new_memory_row t m d e (proposal_decision tr now t e s))
      (s\<lparr>mm_registry := g\<rparr>)))" if "fares C K R A (s\<lparr>mm_registry := g\<rparr>)" for m d g
  proof (cases "row_fits (new_memory_row t m d e (proposal_decision tr now t e s)) (s\<lparr>mm_registry := g\<rparr>)")
    case True
    have "mw_claim_statement q = cl_statement (me_claim e)"
      if "live (new_memory_row t m d e (proposal_decision tr now t e s))" "q \<in> set (mm_rows s)" "live q"
        "claim_scope q = claim_scope (new_memory_row t m d e (proposal_decision tr now t e s))" for q
      using that proposal_free [of tr now t e s q] by (simp add: live_iff competes_def split: if_splits)
    then show ?thesis using fares_insert [OF that True] True by (simp add: insert_row_run)
  next
    case False
    with that show ?thesis by (simp add: insert_row_run)
  qed
  show ?thesis
  proof (cases "lesson_dependencies t e s")
    case (Inl x)
    with assms(2) show ?thesis by (simp add: propose_run)
  next
    case (Inr ds)
    obtain x g where reg: "register_artifact C K u n t MEMORY_ENTRY_ARTIFACT_TYPE
        (entry_canonical_bytes C isoformat (new_memory_id uid) e) ds [] None ''artifact'' (mm_registry s) = (x, g)"
      by fastforce
    with Inr step [OF reg] row [OF step [OF reg]] show ?thesis by (cases x) (simp_all add: propose_run)
  qed
qed

text \<open>A promotion activates the entry when it gets past its gates, its targets and its event.\<close>

definition promotable :: "randrange \<Rightarrow> gate_inputs \<Rightarrow> memory_row \<Rightarrow> 'b memory_db \<Rightarrow> bool" where
  "promotable rng g r s \<longleftrightarrow> report_passed (promotion_report rng g r s)"

lemma promotable_suggestion: "promotable rng g r s \<Longrightarrow> mw_status r = SUGGESTION"
  by (simp add: promotable_def report_passed_def promotion_report_def hygiene_gate_def)

lemma promote_cases:
  assumes "fares C K R A s"
  obtains e where "promote_entry rng ids now t m g who s = (Inl e, s)"
  | r where "require_row t m s = Inr r" "promotable rng g r s"
      "fares C K R (insert m A) (snd (promote_entry rng ids now t m g who s))"
proof (cases "require_row t m s")
  case (Inl e)
  then show thesis by (intro that(1)) (simp add: promote_entry_def op_run_simps)
next
  case row: (Inr r)
  note found = find_in_rows [OF row]
  show thesis
  proof (cases "promotable rng g r s \<and> validate_supersession_targets t m (mw_supersedes r) s = Inr ()")
    case False
    then have "\<exists>e. promote_entry rng ids now t m g who s = (Inl e, s)"
      using row by (cases "validate_supersession_targets t m (mw_supersedes r) s")
        (auto simp: promote_entry_def promotable_def op_run_simps op_end_simps)
    then show thesis using that(1) by blast
  next
    case True
    let ?event = "memory_event ids 0 now t (mw_artifact_digest r) ''nominate'' who ''promotion gates passed''"
    let ?rest = "op_then (op_modify (set_memory_status m ACTIVE None))
        (op_then (apply_supersession ids now t r who) (op_read (require_row t m)))"
    have run: "promote_entry rng ids now t m g who s = op_bind ?event (\<lambda>_. ?rest) s"
      using True row by (simp add: promote_entry_def promotable_def op_run_simps)
    obtain x s1 where ev: "?event s = (x, s1)" by fastforce
    have f1: "fares C K R A s1" using keepsD [OF keeps_event assms, of ids 0 now t "mw_artifact_digest r"] ev by (metis snd_conv)
    have rows1: "mm_rows s1 = mm_rows s" using event_rows [of ids 0 now t "mw_artifact_digest r"] ev by (metis snd_conv)
    have tail: "keeps (fares C K R (insert m A)) (op_then (apply_supersession ids now t r who) (op_read (require_row t m)))"
      unfolding apply_supersession_def by (intro keeps_intros)
    have "fares C K R (insert m A) (set_memory_status m ACTIVE None s1)"
    proof (rule fares_activate [OF f1])
      fix q assume "q \<in> set (mm_rows s1)" "mw_memory_id q = m"
      with found row_of_id [of C K s r q] assms have "q = r" by (simp add: rows1 fares_def)
      with True show "mw_status q = SUGGESTION" by (auto dest: promotable_suggestion)
    qed
    then have done_ok: "fares C K R (insert m A) (snd (?rest s1))"
      unfolding op_run_simps by (rule keepsD [OF tail])
    have more: "fares C K R (insert m A) s1" using f1 by (auto simp: fares_def)
    show thesis
      by (rule that(2) [OF row]) (use True run ev done_ok more in \<open>simp_all add: op_bind_def split: sum.splits\<close>)
  qed
qed

section \<open>Whatever is called\<close>

abbreviation memory_run ::
  "('k, 'b) crypto \<Rightarrow> ('n, 'b) key_provider \<Rightarrow> (instant \<Rightarrow> string) \<Rightarrow> string list \<Rightarrow> randrange
     \<Rightarrow> ('k, 'n, 'b) memory_call list \<Rightarrow> 'b memory_db" where
  "memory_run C K isoformat tr rng cs \<equiv> run_calls (do_memory_call C K isoformat tr rng) cs empty_memory"

text \<open>One call: only a promotion past its gates adds to the active entries, and only its own.\<close>

definition activates :: "randrange \<Rightarrow> ('k, 'n, 'b) memory_call \<Rightarrow> 'b memory_db \<Rightarrow> string set" where
  "activates rng c s =
     (case c of
        Promote_memory ids now t m g who \<Rightarrow>
          {x. x = m \<and> (\<exists>r. require_row t m s = Inr r \<and> promotable rng g r s)}
      | _ \<Rightarrow> {})"

lemma call_fares:
  assumes "crypto_laws C" "key_laws K" "fares C K R A s"
  shows "fares C K R (A \<union> activates rng c s) (do_memory_call C K isoformat tr rng c s)"
proof (cases c)
  case (Propose_memory u a n now t e)
  then show ?thesis using fares_propose [OF assms(2,3)] assms(3) by (simp add: activates_def)
next
  case (Promote_memory ids now t m g who)
  have more: "fares C K R (A \<union> B) s" for B using assms(3) by (auto simp: fares_def)
  show ?thesis
  proof (rule promote_cases [OF assms(3), of rng ids now t m g who])
    fix e assume "promote_entry rng ids now t m g who s = (Inl e, s)"
    then show ?thesis using Promote_memory more by simp
  next
    fix r assume "require_row t m s = Inr r" "promotable rng g r s"
      and f: "fares C K R (insert m A) (snd (promote_entry rng ids now t m g who s))"
    then have "A \<union> activates rng c s = insert m A" using Promote_memory by (auto simp: activates_def)
    with f Promote_memory show ?thesis by simp
  qed
next
  case (Elsewhere x)
  then show ?thesis using fares_elsewhere [OF assms] by (simp add: activates_def)
qed (use keepsD [OF keeps_quarantine assms(3)] keepsD [OF keeps_revoke assms(3)] keepsD [OF keeps_expire assms(3)]
    keepsD [OF keeps_register_derived assms(3)] keepsD [OF keeps_record_retrieval assms(3)]
    in \<open>simp_all add: activates_def\<close>)

lemma memory_ok_fares: "memory_ok C K s \<Longrightarrow> fares C K (mm_rows s) (active_ids (mm_rows s)) s"
  by (simp add: fares_def)

lemma memory_call_ok:
  assumes "crypto_laws C" "key_laws K" "memory_ok C K s"
  shows "memory_ok C K (do_memory_call C K isoformat tr rng c s)"
    "rows_evolve (mm_rows s) (mm_rows (do_memory_call C K isoformat tr rng c s))"
    "active_ids (mm_rows (do_memory_call C K isoformat tr rng c s)) \<subseteq> active_ids (mm_rows s) \<union> activates rng c s"
  using call_fares [OF assms(1,2) memory_ok_fares [OF assms(3)], of rng c isoformat tr] by (simp_all add: fares_def)

lemma memory_calls_ok:
  assumes "crypto_laws C" "key_laws K" "memory_ok C K s"
  shows "memory_ok C K (run_calls (do_memory_call C K isoformat tr rng) cs s)
    \<and> rows_evolve (mm_rows s) (mm_rows (run_calls (do_memory_call C K isoformat tr rng) cs s))"
  using assms(3)
proof (induction cs arbitrary: s)
  case (Cons c cs)
  let ?s = "do_memory_call C K isoformat tr rng c s"
  have "memory_ok C K ?s" "rows_evolve (mm_rows s) (mm_rows ?s)" using memory_call_ok [OF assms(1,2) Cons.prems] by blast+
  with Cons.IH [of ?s] rows_evolve_trans [of "mm_rows s" "mm_rows ?s"] show ?case by simp
qed simp

lemma memory_ok_empty: "memory_ok C K empty_memory"
  by (simp add: memory_ok_def empty_memory_def registry_ok_empty live_agree_def)

lemma reachable_memory:
  assumes "crypto_laws C" "key_laws K"
  shows "memory_ok C K (memory_run C K isoformat tr rng cs)"
  using memory_calls_ok [OF assms memory_ok_empty] by blast

text \<open>A row once written is found again by its id.\<close>

lemma evolved_row:
  assumes "rows_evolve rs rs'" "r \<in> set rs"
  shows "\<exists>r' \<in> set rs'. evolves r r'"
  using assms unfolding rows_evolve_def by (metis in_set_conv_nth less_le_trans)

section \<open>Circulation\<close>

lemma run_snoc: "run_calls f (cs @ [c]) s = f c (run_calls f cs s)"
  by (simp add: run_calls_append)

lemma active_cause:
  assumes "crypto_laws C" "key_laws K" "m \<in> active_ids (mm_rows (memory_run C K isoformat tr rng cs))"
  shows "\<exists>pre t ids now g who post r0. cs = pre @ Promote_memory ids now t m g who # post
    \<and> require_row t m (memory_run C K isoformat tr rng pre) = Inr r0
    \<and> promotable rng g r0 (memory_run C K isoformat tr rng pre)"
  using assms(3)
proof (induction cs rule: rev_induct)
  case Nil
  then show ?case by (simp add: active_ids_def empty_memory_def)
next
  case (snoc c cs)
  let ?s = "memory_run C K isoformat tr rng cs"
  have "m \<in> active_ids (mm_rows ?s) \<union> activates rng c ?s"
    using snoc.prems memory_call_ok(3) [OF assms(1,2) reachable_memory [OF assms(1,2)],
        where isoformat = isoformat and tr = tr and rng = rng and c = c]
    unfolding run_snoc by blast
  then show ?case
  proof
    assume "m \<in> active_ids (mm_rows ?s)"
    from snoc.IH [OF this] show ?thesis by (metis append_Cons append_assoc)
  next
    assume "m \<in> activates rng c ?s"
    then obtain ids now t g who r0 where "c = Promote_memory ids now t m g who" "require_row t m ?s = Inr r0"
      "promotable rng g r0 ?s"
      by (auto simp: activates_def split: memory_call.splits)
    then show ?thesis by blast
  qed
qed

lemma row_later:
  assumes "crypto_laws C" "key_laws K" "q \<in> set (mm_rows (memory_run C K isoformat tr rng pre))"
    "r \<in> set (mm_rows (memory_run C K isoformat tr rng (pre @ post)))" "mw_memory_id q = mw_memory_id r"
  shows "evolves q r"
proof -
  let ?s = "memory_run C K isoformat tr rng pre" and ?s' = "memory_run C K isoformat tr rng (pre @ post)"
  have "rows_evolve (mm_rows ?s) (mm_rows ?s')"
    using memory_calls_ok [OF assms(1,2) reachable_memory [OF assms(1,2)],
        where isoformat = isoformat and tr = tr and rng = rng and cs = post]
    unfolding run_calls_append by blast
  from evolved_row [OF this assms(3)] obtain r' where r': "r' \<in> set (mm_rows ?s')" "evolves q r'" by blast
  with row_of_id [OF reachable_memory [OF assms(1,2)] assms(4) r'(1)] evolves_fields(1) [OF r'(2)] assms(5)
  show ?thesis by simp
qed

text \<open>In a reachable state no live row has a live competitor, so the hygiene gate is about the status alone.\<close>

lemma no_competitor:
  assumes "memory_ok C K s" "r \<in> set (mm_rows s)" "live r"
  shows "count_conflicts (mw_tenant_id r) (mw_claim_key r) (mw_claim_statement r) (mw_subject r) (mw_environment r)
           (mw_task_type r) x s = 0"
proof -
  have "\<not> competes (mw_tenant_id r) (mw_claim_key r) (mw_claim_statement r) (mw_subject r) (mw_environment r)
          (mw_task_type r) q" if "q \<in> set (mm_rows s)" for q
    using assms that unfolding memory_ok_def live_agree_def competes_def by fastforce
  then show ?thesis by (simp add: count_conflicts_def)
qed

definition gates_pass :: "randrange \<Rightarrow> gate_inputs \<Rightarrow> bool" where
  "gates_pass rng g \<longleftrightarrow>
     (\<exists>r. paired_bootstrap rng (gi_persistence_off g) (gi_persistence_on g) DEFAULT_BOOTSTRAP_ITERATIONS (2 * gi_alpha g)
            (gi_seed g) = Inr r \<and> - gi_margin g \<le> ci_low r)
     \<and> (\<exists>r. paired_bootstrap rng (gi_probe_baseline g) (gi_probe_with_memory g) DEFAULT_BOOTSTRAP_ITERATIONS
            (2 * gi_alpha g) (gi_seed g) = Inr r \<and> - gi_max_regression g \<le> ci_high r)"

lemma promotable_iff:
  assumes "memory_ok C K s" "r \<in> set (mm_rows s)"
  shows "promotable rng g r s \<longleftrightarrow> mw_status r = SUGGESTION \<and> gates_pass rng g"
proof -
  have "mw_status r = SUGGESTION \<Longrightarrow>
      count_conflicts (mw_tenant_id r) (mw_claim_key r) (mw_claim_statement r) (mw_subject r) (mw_environment r)
        (mw_task_type r) (mw_memory_id r) s = 0"
    by (rule no_competitor [OF assms]) (simp add: live_iff)
  then show ?thesis
    by (auto simp: promotable_def report_passed_def promotion_report_def persistence_non_inferiority_gate_def
        negative_transfer_gate_def hygiene_gate_def gates_pass_def split: sum.splits)
qed

end
