(* ===== verification/MemoryGuarantees.thy ===== *)
theory MemoryGuarantees
  imports MemoryLife
begin

text \<open>
  The guarantees of the memory plane: what circulates never contradicts itself, activation goes through the
  gates, what a promotion does row by row, what a revocation reaches and what it does not.
\<close>

section \<open>The effect of a promotion\<close>

lemma memory_event_cases:
  obtains e g where "memory_event ids i now t d k w y s = (Inl e, s\<lparr>mm_registry := g\<rparr>)"
  | v g where "memory_event ids i now t d k w y s = (Inr v, s\<lparr>mm_registry := g\<rparr>)"
  by (cases "fst (memory_event ids i now t d k w y s)") (auto simp: memory_event_def registry_only_run prod_eq_iff)

definition retired :: "memory_status \<Rightarrow> string set \<Rightarrow> string \<Rightarrow> memory_row list \<Rightarrow> memory_row list" where
  "retired st targets why =
     map (\<lambda>q. if mw_memory_id q \<in> targets then q\<lparr>mw_status := st, mw_status_reason := Some why\<rparr> else q)"

lemma supersede_rows:
  assumes "supersede_target ids now t m who (i, x) s = (Inr u, s')"
  shows "mm_rows s' = retired REVOKED {x} (''superseded by '' @ m) (mm_rows s)"
proof -
  obtain q where q: "scalar_one (memory_rows_of t x s) = Inr q"
    using assms by (cases "scalar_one (memory_rows_of t x s)") (auto simp: supersede_target_def op_run_simps)
  then have id: "mw_memory_id q = x"
    by (auto simp: scalar_one_def res_bind_Inr memory_rows_of_def split: option.splits dest!: one_or_none_filter)
  show ?thesis
  proof (cases rule: memory_event_cases [of ids "Suc i" now t "mw_artifact_digest q" "''supersede''" who "''superseded by '' @ m" s])
    case (1 e g)
    with assms q show ?thesis by (simp add: supersede_target_def op_bind_def op_read_def)
  next
    case (2 v g)
    with assms q id show ?thesis
      by (auto simp: supersede_target_def op_bind_def op_read_def op_end_simps set_memory_status_def update_row_def
          retired_def)
  qed
qed

lemma retired_twice: "retired st B why (retired st A why rs) = retired st (A \<union> B) why rs"
  by (auto simp: retired_def)

lemma supersession_rows:
  "op_for xs (supersede_target ids now t m who) s = (Inr u, s') \<Longrightarrow>
     mm_rows s' = retired REVOKED (snd ` set xs) (''superseded by '' @ m) (mm_rows s)"
proof (induction xs arbitrary: s)
  case Nil
  then show ?case by (simp add: op_end_simps retired_def)
next
  case (Cons x xs)
  obtain i y where x: "x = (i, y)" by (cases x)
  show ?case
  proof (cases "supersede_target ids now t m who x s")
    case (Pair r s1)
    show ?thesis
    proof (cases r)
      case (Inl e)
      with Cons.prems Pair show ?thesis by (simp add: op_then_fails [of "supersede_target ids now t m who x"])
    next
      case (Inr v)
      from Cons.prems have "op_for xs (supersede_target ids now t m who) s1 = (Inr u, s')"
        using Pair Inr by (simp add: op_then_def op_bind_def)
      from Cons.IH [OF this] supersede_rows [of ids now t m who i y s v s1] Pair Inr
      show ?thesis by (simp add: x retired_twice)
    qed
  qed
qed

lemma validate_found:
  "validate_supersession_targets t m xs s = Inr u \<longleftrightarrow> (\<forall>x \<in> set xs. \<exists>q. memory_rows_of t x s = [q])"
  by (induction xs) (auto simp: res_bind_Inr one_or_none_Some one_or_none_None split: option.splits)

lemma rows_of_id:
  assumes "memory_ok C K s"
  shows "memory_rows_of t x s = [] \<or> (\<exists>q \<in> set (mm_rows s). mw_tenant_id q = t \<and> mw_memory_id q = x \<and> memory_rows_of t x s = [q])"
proof (cases "memory_rows_of t x s = []")
  case False
  then obtain q where q: "q \<in> set (mm_rows s)" "mw_tenant_id q = t" "mw_memory_id q = x"
    by (auto simp: memory_rows_of_def filter_empty_conv)
  have "filter (\<lambda>y. mw_memory_id y = mw_memory_id q) (mm_rows s) = [q]"
    using assms q(1) by (intro filter_key_unique) (simp_all add: memory_ok_def)
  then have "filter (\<lambda>y. mw_tenant_id y = t) (filter (\<lambda>y. mw_memory_id y = x) (mm_rows s)) = [q]" using q by simp
  then have "memory_rows_of t x s = [q]" by (simp add: memory_rows_of_def conj_commute)
  with q show ?thesis by blast
qed simp

lemma validate_missing:
  assumes "memory_ok C K s" "\<exists>x \<in> set xs. memory_rows_of t x s = []"
  shows "\<exists>x \<in> set xs. validate_supersession_targets t m xs s = Inl (Memory (SupersessionTargetNotFoundError m x))"
  using assms(2)
proof (induction xs)
  case (Cons y xs)
  from rows_of_id [OF assms(1), of t y] show ?case
  proof
    assume "memory_rows_of t y s = []"
    then show ?thesis by (simp add: one_or_none_def)
  next
    assume "\<exists>q \<in> set (mm_rows s). mw_tenant_id q = t \<and> mw_memory_id q = y \<and> memory_rows_of t y s = [q]"
    then obtain q where q: "memory_rows_of t y s = [q]" by blast
    with Cons.prems have "\<exists>x \<in> set xs. memory_rows_of t x s = []" by simp
    from Cons.IH [OF this] q show ?thesis by (auto simp: one_or_none_def)
  qed
qed simp

lemma require_row_of:
  assumes "memory_ok C K s" "r \<in> set (mm_rows s)" "mw_tenant_id r = t" "mw_memory_id r = m"
  shows "require_row t m s = Inr r"
proof -
  have "r \<in> set (memory_rows_of t m s)" using assms by (simp add: memory_rows_of_def)
  with rows_of_id [OF assms(1), of t m] have "memory_rows_of t m s = [r]" by auto
  then show ?thesis by (simp add: require_row_def one_or_none_def)
qed


text \<open>C21: An entry is active only through the gates. After any calls, an active entry was promoted by one of
  them, which found it a suggestion and whose two intervals cleared their margins; and at no earlier moment was the entry
  quarantined, revoked or expired: what leaves circulation never returns.\<close>

theorem active_only_through_the_gates:
  assumes "crypto_laws C" "key_laws K"
    and "r \<in> set (mm_rows (memory_run C K isoformat tr rng cs))" "mw_status r = ACTIVE"
  shows "(\<exists>pre ids now g who post. cs = pre @ Promote_memory ids now (mw_tenant_id r) (mw_memory_id r) g who # post
      \<and> gates_pass rng g
      \<and> (\<exists>r0 \<in> set (mm_rows (memory_run C K isoformat tr rng pre)). mw_memory_id r0 = mw_memory_id r \<and> mw_status r0 = SUGGESTION))
    \<and> (\<forall>pre post. cs = pre @ post \<longrightarrow> (\<forall>q \<in> set (mm_rows (memory_run C K isoformat tr rng pre)).
          mw_memory_id q = mw_memory_id r \<longrightarrow> live q))"
proof (intro conjI allI impI ballI)
  have "mw_memory_id r \<in> active_ids (mm_rows (memory_run C K isoformat tr rng cs))"
    using assms(3,4) by (auto simp: active_ids_def)
  from active_cause [OF assms(1,2) this] obtain pre t ids now g who post r0 where cs:
      "cs = pre @ Promote_memory ids now t (mw_memory_id r) g who # post"
    and r0: "require_row t (mw_memory_id r) (memory_run C K isoformat tr rng pre) = Inr r0"
    and p: "promotable rng g r0 (memory_run C K isoformat tr rng pre)"
    by blast
  note found = find_in_rows [OF r0]
  have "evolves r0 r" using row_later [OF assms(1,2), of r0 isoformat tr rng pre r] found assms(3) by (simp add: cs)
  then have "t = mw_tenant_id r" using found evolves_fields(2) [of r0 r] by simp
  with cs found p promotable_iff [OF reachable_memory [OF assms(1,2)], of r0 isoformat tr rng pre rng g]
  show "\<exists>pre ids now g who post. cs = pre @ Promote_memory ids now (mw_tenant_id r) (mw_memory_id r) g who # post
      \<and> gates_pass rng g
      \<and> (\<exists>r0 \<in> set (mm_rows (memory_run C K isoformat tr rng pre)). mw_memory_id r0 = mw_memory_id r \<and> mw_status r0 = SUGGESTION)"
    by blast
next
  fix pre post q
  assume "cs = pre @ post" "q \<in> set (mm_rows (memory_run C K isoformat tr rng pre))" "mw_memory_id q = mw_memory_id r"
  show "live q"
  proof (rule evolves_live)
    show "evolves q r" using row_later [OF assms(1,2) \<open>q \<in> _\<close>, of r post] assms(3) \<open>cs = _\<close> \<open>_ = mw_memory_id r\<close> by simp
    show "live r" using assms(4) by (simp add: live_iff)
  qed
qed

text \<open>A promotion is all or nothing. It is refused, and nothing is written, unless the entry is a suggestion
  whose two intervals clear their margins, and unless every entry it supersedes exists; the count of
  conflicts never decides. When it succeeds the entry is active, exactly the entries it supersedes are revoked, and no other
  row is touched.\<close>

theorem promotion_is_all_or_nothing:
  assumes "crypto_laws C" "key_laws K" and s: "s = memory_run C K isoformat tr rng cs"
    and r: "r \<in> set (mm_rows s)" "t = mw_tenant_id r" "m = mw_memory_id r"
  shows "(\<not> (mw_status r = SUGGESTION \<and> gates_pass rng g) \<longrightarrow>
        (\<exists>fs. fs \<noteq> [] \<and> promote_entry rng ids now t m g who s = (Inl (Memory (PromotionBlockedError fs)), s)))
    \<and> (mw_status r = SUGGESTION \<and> gates_pass rng g \<and> (\<exists>x \<in> set (mw_supersedes r). memory_rows_of t x s = []) \<longrightarrow>
        (\<exists>x. promote_entry rng ids now t m g who s = (Inl (Memory (SupersessionTargetNotFoundError m x)), s)))
    \<and> (\<forall>r' s'. promote_entry rng ids now t m g who s = (Inr r', s') \<longrightarrow>
        mw_status r = SUGGESTION \<and> gates_pass rng g
        \<and> mm_rows s' = retired REVOKED (set (mw_supersedes r)) (''superseded by '' @ m)
            (map (\<lambda>q. if mw_memory_id q = m then q\<lparr>mw_status := ACTIVE, mw_status_reason := None\<rparr> else q) (mm_rows s)))"
proof -
  have ok: "memory_ok C K s" unfolding s by (rule reachable_memory [OF assms(1,2)])
  have row: "require_row t m s = Inr r" using require_row_of [OF ok r(1)] r(2,3) by simp
  have gates: "report_passed (promotion_report rng g r s) \<longleftrightarrow> mw_status r = SUGGESTION \<and> gates_pass rng g"
    using promotable_iff [OF ok r(1), of rng g] by (simp add: promotable_def)
  have "report_failures (promotion_report rng g r s) \<noteq> []" if "\<not> report_passed (promotion_report rng g r s)"
    using that by (auto simp: report_passed_def report_failures_def list_all_iff filter_empty_conv)
  then have "\<exists>fs. fs \<noteq> [] \<and> promote_entry rng ids now t m g who s = (Inl (Memory (PromotionBlockedError fs)), s)"
    if "\<not> (mw_status r = SUGGESTION \<and> gates_pass rng g)"
    using that row by (simp add: promote_entry_def op_run_simps op_end_simps flip: gates)
  moreover have "\<exists>x. promote_entry rng ids now t m g who s = (Inl (Memory (SupersessionTargetNotFoundError m x)), s)"
    if "mw_status r = SUGGESTION \<and> gates_pass rng g" "\<exists>x \<in> set (mw_supersedes r). memory_rows_of t x s = []"
    using that(1) row validate_missing [OF ok that(2), of m] by (auto simp: promote_entry_def op_run_simps simp flip: gates)
  moreover have "mw_status r = SUGGESTION \<and> gates_pass rng g
      \<and> mm_rows s' = retired REVOKED (set (mw_supersedes r)) (''superseded by '' @ m)
          (map (\<lambda>q. if mw_memory_id q = m then q\<lparr>mw_status := ACTIVE, mw_status_reason := None\<rparr> else q) (mm_rows s))"
    if run: "promote_entry rng ids now t m g who s = (Inr r', s')" for r' s'
  proof -
    let ?tail = "op_then (apply_supersession ids now t r who) (op_read (require_row t m))"
    let ?event = "memory_event ids 0 now t (mw_artifact_digest r) ''nominate'' who ''promotion gates passed''"
    have passed: "report_passed (promotion_report rng g r s)"
      using run row by (auto simp: promote_entry_def op_run_simps op_end_simps split: if_splits)
    then have "\<not> isl (validate_supersession_targets t m (mw_supersedes r) s)"
      using run row by (cases "validate_supersession_targets t m (mw_supersedes r) s") (auto simp: promote_entry_def op_run_simps)
    with passed run row have past: "op_bind ?event (\<lambda>_. op_then (op_modify (set_memory_status m ACTIVE None)) ?tail) s = (Inr r', s')"
      by (cases "validate_supersession_targets t m (mw_supersedes r) s") (auto simp: promote_entry_def op_run_simps)
    show ?thesis
    proof (cases rule: memory_event_cases [of ids 0 now t "mw_artifact_digest r" "''nominate''" who "''promotion gates passed''" s])
      case (1 e h)
      with past show ?thesis by (simp add: op_bind_def)
    next
      case (2 v h)
      with past have "?tail (set_memory_status m ACTIVE None (s\<lparr>mm_registry := h\<rparr>)) = (Inr r', s')"
        by (simp add: op_bind_def op_run_simps)
      then obtain u s2 where super: "apply_supersession ids now t r who (set_memory_status m ACTIVE None (s\<lparr>mm_registry := h\<rparr>)) = (Inr u, s2)"
        and "s' = s2"
        by (auto simp: op_then_def op_bind_def op_read_def split: prod.splits sum.splits)
      moreover have "snd ` set (enumerate0 (mw_supersedes r)) = set (mw_supersedes r)" by (simp flip: set_map)
      ultimately show ?thesis
        using supersession_rows [OF super [unfolded apply_supersession_def]] passed gates r(3)
        by (simp add: set_memory_status_def update_row_def)
    qed
  qed
  ultimately show ?thesis by blast
qed

section \<open>Revocation and deletion\<close>















section \<open>What revocation does not reach\<close>

text \<open>A revocation does not reach the lessons that come after it. A lesson that cites a revoked entry is
  born a suggestion like any other, provided its own domain, evidence, window and claim are clean: its
  parents must exist, and nothing reads their status. It stays promotable with the same gates, and nothing will
  quarantine it, because the entry it rests on has already been revoked.\<close>

theorem revocation_misses_later_lessons:
  assumes "crypto_laws C" "key_laws K" and s: "s = memory_run C K isoformat tr rng cs" and "valid_entry e"
    and "p \<in> set (mm_rows s)" "mw_status p = REVOKED" "mw_memory_id p \<in> set (me_parent_memory_ids e)"
    and "propose_entry C K isoformat tr uid u n now t e s = (Inr row, s')"
    and "pv_trust_domain (me_provenance e) \<in> set tr" "me_supporting_evidence e \<noteq> []" "\<not> is_stale e now"
    and "find_conflicts t e s = []"
  shows "row \<in> set (mm_rows s') \<and> mw_is_lesson row \<and> mw_memory_id p \<in> set (mw_parents row)
    \<and> mw_status row = SUGGESTION \<and> p \<in> set (mm_rows s')
    \<and> (\<forall>rng g. gates_pass rng g \<longrightarrow> promotable rng g row s')"
proof -
  from assms(9-12) have clean: "\<not> qd_quarantine (proposal_decision tr now t e s)"
    by (simp add: proposal_decision_def intake_allows first_conflict_def find_conflicts_def Let_def)
  have ok: "memory_ok C K s" unfolding s by (rule reachable_memory [OF assms(1,2)])
  have ok': "memory_ok C K s'"
    using fares_propose [OF assms(2) memory_ok_fares [OF ok], of isoformat tr uid u n now t e] assms(8) by (simp add: fares_def)
  have run: "\<exists>d g. row = new_memory_row t (new_memory_id uid) d e (proposal_decision tr now t e s)
      \<and> s' = s\<lparr>mm_registry := g, mm_rows := mm_rows s @ [row]\<rparr>"
    using assms(8) by (auto simp: propose_run insert_row_run split: sum.splits prod.splits if_splits)
  have lesson: "me_is_generalized_lesson e" using assms(4,7) by (auto simp: new_memory_entry_def lesson_shape_def split: if_splits)
  from run have facts: "row \<in> set (mm_rows s')" "mw_status row = SUGGESTION" "p \<in> set (mm_rows s')"
    "mw_is_lesson row" "mw_parents row = me_parent_memory_ids e"
    using clean assms(5) lesson by (auto simp: new_memory_row_def)
  with promotable_iff [OF ok' facts(1)] assms(7) show ?thesis by simp
qed

text \<open>A sweep of either kind.\<close>

definition sweep :: "bool \<times> instant \<times> int \<Rightarrow> ('k, 'n, 'b) memory_call" where
  "sweep = (\<lambda>(revoking, now, sla). Elsewhere (Lineage_step (if revoking then Revocation_sweep now sla else Purge_sweep now sla)))"

definition survives :: "derived_data_record \<Rightarrow> ('k, 'b) crypto \<Rightarrow> ('n, 'b) key_provider \<Rightarrow> 'b memory_db \<Rightarrow> bool" where
  "survives x C K s \<longleftrightarrow> memory_ok C K s \<and> x \<in> set (derived_data (rg_lineage (mm_registry s)))
     \<and> (\<forall>w \<in> set (tombstones (rg_lineage (mm_registry s))). derived_of w x \<longrightarrow> ts_purge_completed_at w \<noteq> None)"

lemma sweep_survives:
  assumes "crypto_laws C" "key_laws K" "survives x C K s"
  shows "survives x C K (do_memory_call C K isoformat tr rng (sweep c) s)"
proof -
  obtain revoking now sla where c: "c = (revoking, now, sla)" by (cases c)
  let ?l = "rg_lineage (mm_registry s)"
  have ok: "memory_ok C K s" using assms(3) by (simp add: survives_def)
  then have keys: "distinct (map payload_key (payloads ?l))" by (simp add: memory_ok_def registry_ok_def lineage_ok_def)
  have "memory_ok C K (do_memory_call C K isoformat tr rng (sweep c) s)" by (rule memory_call_ok(1) [OF assms(1,2) ok])
  moreover have "derived_of w x \<Longrightarrow> w \<notin> set (unpurged now sla ?l)" for w
    using assms(3) by (auto simp: survives_def unpurged_def purge_pending_def)
  ultimately show ?thesis
    using assms(3)
    by (cases revoking)
      (auto simp: survives_def c sweep_def revocation_sweep_run [OF keys] purge_sweep_run revoke_all_def purge_all_def derived_of_def)
qed

text \<open>Data derived from a revoked entry after its purge stays. Registering derived data asks for the entry
  and its payload digest only, not for the entry's status or its tombstone; and a sweep purges for tombstones that
  are not yet completed. So once every tombstone over the payload is completed, a record registered for the
  entry survives every later sweep.\<close>

theorem late_derived_data_is_never_purged:
  assumes "crypto_laws C" "key_laws K" and s: "s = memory_run C K isoformat tr rng cs"
    and "kind \<in> set DERIVED_DATA_KINDS" "payload_digest t m s = Inr d"
    and "\<forall>w \<in> set (tombstones (rg_lineage (mm_registry s))). ts_tenant_id w = t \<and> ts_resource_id w = d
           \<longrightarrow> ts_purge_completed_at w \<noteq> None"
  shows "\<exists>x s'. register_derived_data t m kind ref s = (Inr x, s') \<and> dd_ref x = ref
    \<and> (\<forall>sweeps. x \<in> set (derived_data (rg_lineage (mm_registry
          (run_calls (do_memory_call C K isoformat tr rng) (map sweep sweeps) s')))))"
proof -
  let ?x = "\<lparr>dd_tenant_id = t, dd_resource_id = d, dd_kind = kind, dd_ref = ref\<rparr>"
  let ?s' = "snd (register_derived_data t m kind ref s)"
  have ok: "memory_ok C K s" unfolding s by (rule reachable_memory [OF assms(1,2)])
  have run: "register_derived_data t m kind ref s = (Inr ?x, s\<lparr>mm_registry := (mm_registry s)\<lparr>rg_lineage :=
      (rg_lineage (mm_registry s))\<lparr>derived_data := derived_data (rg_lineage (mm_registry s)) @ [?x]\<rparr>\<rparr>\<rparr>)"
    using assms(4,5)
    by (simp add: register_derived_data_def op_run_simps Let_def op_then_def op_bind_def op_read_def registry_only_run
        op_lineage_run op_end_simps)
  have "memory_ok C K ?s'"
    using keepsD [OF keeps_register_derived memory_ok_fares [OF ok]] by (simp add: fares_def)
  then have start: "survives ?x C K ?s'" using assms(6) by (auto simp: survives_def run derived_of_def)
  have "survives ?x C K (run_calls (do_memory_call C K isoformat tr rng) (map sweep sweeps) s0)"
    if "survives ?x C K s0" for sweeps s0
    using that by (induction sweeps arbitrary: s0) (simp_all add: sweep_survives [OF assms(1,2)])
  from this [OF start] show ?thesis by (intro exI [of _ ?x] exI [of _ ?s']) (simp add: run survives_def)
qed

section \<open>Concrete instances\<close>

definition demo_entry :: "string \<Rightarrow> string list \<Rightarrow> memory_entry" where
  "demo_entry statement parents =
     \<lparr>me_schema_version = 1, me_semantic_type = FACT,
      me_provenance = \<lparr>pv_strategy_id = ''s1'', pv_trust_domain = ''candidate-proposed'', pv_source_ref = None\<rparr>,
      me_scope = \<lparr>sc_subject = ''repo'', sc_environment = ''ci'', sc_task_type = ''fix'', sc_model_id = None,
                  sc_harness_id = None\<rparr>,
      me_claim = \<lparr>cl_key = ''colour'', cl_statement = statement\<rparr>, me_confidence = 1/2,
      me_supporting_evidence = [\<lparr>ev_kind = Ev_trace, ev_ref = ''tr1''\<rparr>], me_contradicting_evidence = [],
      me_time_validity = \<lparr>tv_valid_from = 0, tv_valid_until = None\<rparr>, me_sensitivity = INTERNAL,
      me_retrieval_utility = 1/2, me_supersedes = [], me_is_generalized_lesson = (parents \<noteq> []),
      me_parent_memory_ids = parents\<rparr>"

definition demo_ids :: "string \<Rightarrow> event_ids" where
  "demo_ids n = (\<lambda>i. (n @ nat_str i, n @ nat_str i))"

definition demo_propose :: "string \<Rightarrow> string \<Rightarrow> (string, nat, json) memory_call" where
  "demo_propose name statement = Propose_memory name name 1 0 ''acme'' (demo_entry statement [])"

definition demo_revoke :: "(string, nat, json) memory_call" where
  "demo_revoke = Revoke_memory (demo_ids ''r'') ''ts1'' 10 ''acme'' ''mem_a'' ''wrong'' ''dpo'' ''ann''"

definition demo_gates :: gate_inputs where
  "demo_gates = \<lparr>gi_persistence_on = [1], gi_persistence_off = [0], gi_probe_baseline = [0], gi_probe_with_memory = [0],
     gi_margin = 0, gi_max_regression = 0, gi_alpha = 1/20, gi_seed = 0\<rparr>"

abbreviation demo_memory :: "(string, nat, json) memory_call list \<Rightarrow> json memory_db" where
  "demo_memory cs \<equiv> memory_run demo_crypto demo_keys (\<lambda>_. ''2026'') DEFAULT_TRUSTED_TRUST_DOMAINS still_rng cs"

lemmas demo_run = demo_crypto_laws demo_key_laws

text \<open>With one pair every resample has the same mean.\<close>

lemma lone_pair_bootstrap:
  assumes "200 \<le> iterations" "0 < alpha" "alpha < 1"
  shows "\<exists>r. paired_bootstrap still_rng [b] [c] iterations alpha seed = Inr r \<and> ci_low r = c - b \<and> ci_high r = c - b"
proof -
  let ?means = "bootstrap_means still_rng seed [c - b] iterations"
  have "resampled_mean still_rng seed [c - b] i = c - b" for i by (simp add: resampled_mean_def still_rng_def)
  then have "map (resampled_mean still_rng seed [c - b]) [0..<nat iterations] = replicate (nat iterations) (c - b)"
    by (simp add: list_eq_iff_nth_eq)
  then have means: "?means = replicate (nat iterations) (c - b)" by (simp add: bootstrap_means_def sorted_sort_id)
  have "set ?means \<subseteq> {c - b}" "?means \<noteq> []" "length ?means \<noteq> 1" using assms(1) by (auto simp: means)
  have q: "quantile ?means x = Inr (c - b)" if "0 \<le> x" "x \<le> 1" for x
  proof -
    have v: "quantile ?means x = Inr (interpolate ?means (x * of_nat (length ?means - 1)))"
      using that \<open>?means \<noteq> []\<close> by (intro quantile_interpolate)
    have "\<forall>y \<in> set ?means. c - b \<le> y \<and> y \<le> c - b" using \<open>set ?means \<subseteq> {c - b}\<close> by auto
    from quantile_range [OF bootstrap_means_facts(1) [OF assms(1)] v this] v show ?thesis by simp
  qed
  from assms q [of "alpha / 2"] q [of "1 - alpha / 2"] show ?thesis by (auto simp: bootstrap_iff deltas_of_def)
qed

lemma demo_gates_pass: "gates_pass still_rng demo_gates"
  using lone_pair_bootstrap [of 2000 "1/10" 0 1 0] lone_pair_bootstrap [of 2000 "1/10" 0 0 0]
  by (auto simp: gates_pass_def demo_gates_def DEFAULT_BOOTSTRAP_ITERATIONS_def)

lemma promote_activates:
  assumes "require_row t m s = Inr r" "promotable rng g r s" "mw_supersedes r = []"
    and "memory_event ids 0 now t (mw_artifact_digest r) ''nominate'' who ''promotion gates passed'' s = (Inr v, s1)"
  shows "mm_rows (snd (promote_entry rng ids now t m g who s)) =
    map (\<lambda>q. if mw_memory_id q = m then q\<lparr>mw_status := ACTIVE, mw_status_reason := None\<rparr> else q) (mm_rows s)"
proof -
  have "mm_rows s1 = mm_rows s" using event_rows [of ids 0 now t "mw_artifact_digest r"] assms(4) by (metis snd_conv)
  with assms show ?thesis
    by (simp add: promote_entry_def promotable_def op_bind_def op_then_def op_gets_def apply_supersession_def op_read_def
        op_end_simps set_memory_status_def update_row_def)
qed


text \<open>A suggestion, promoted.\<close>

definition demo_promoted :: "(string, nat, json) memory_call list" where
  "demo_promoted = [demo_propose ''a'' ''blue'', Promote_memory (demo_ids ''p'') 5 ''acme'' ''mem_a'' demo_gates ''ann'']"

lemma active_only_through_the_gates_witness:
  "\<exists>pre ids now g who post. demo_promoted = pre @ Promote_memory ids now ''acme'' ''mem_a'' g who # post \<and> gates_pass still_rng g"
proof -
  let ?s = "demo_memory [demo_propose ''a'' ''blue'']"
  have "case mm_rows ?s of [r] \<Rightarrow> mw_status r = SUGGESTION \<and> mw_supersedes r = [] \<and> mw_tenant_id r = ''acme''
      \<and> mw_memory_id r = ''mem_a'' \<and> mw_artifact_digest r = ''sha256:memory_entry'' | _ \<Rightarrow> False"
    by code_simp
  then obtain r where "mm_rows ?s = [r]" and f: "mw_status r = SUGGESTION" "mw_supersedes r = []" "mw_tenant_id r = ''acme''"
    "mw_memory_id r = ''mem_a''" "mw_artifact_digest r = ''sha256:memory_entry''"
    by (auto split: list.splits)
  then have r: "r \<in> set (mm_rows ?s)" by simp
  have row: "require_row ''acme'' ''mem_a'' ?s = Inr r"
    by (rule require_row_of [OF reachable_memory [OF demo_run] r f(3,4)])
  have "promotable still_rng demo_gates r ?s"
    using promotable_iff [OF reachable_memory [OF demo_run] r] f(1) demo_gates_pass by simp
  moreover have "\<not> isl (fst (memory_event (demo_ids ''p'') 0 5 ''acme'' ''sha256:memory_entry'' ''nominate'' ''ann''
      ''promotion gates passed'' ?s))"
    by code_simp
  then obtain v s1 where "memory_event (demo_ids ''p'') 0 5 ''acme'' ''sha256:memory_entry'' ''nominate'' ''ann''
      ''promotion gates passed'' ?s = (Inr v, s1)"
    by (metis isl_def prod.collapse sum.exhaust)
  ultimately have "mm_rows (demo_memory demo_promoted) =
      map (\<lambda>q. if mw_memory_id q = ''mem_a'' then q\<lparr>mw_status := ACTIVE, mw_status_reason := None\<rparr> else q) (mm_rows ?s)"
    using promote_activates [OF row _ f(2), where rng = still_rng and g = demo_gates and ids = "demo_ids ''p''" and now = 5 and who = "''ann''" and v = v and ?s1.0 = s1] f(5)
    by (simp add: demo_promoted_def)
  then have "r\<lparr>mw_status := ACTIVE, mw_status_reason := None\<rparr> \<in> set (mm_rows (demo_memory demo_promoted))"
    using r f(4) by (auto simp: image_iff intro!: bexI [of _ r])
  from active_only_through_the_gates [OF demo_run this] f(3,4) show ?thesis by simp metis
qed

text \<open>An entry of a foreign trust domain is quarantined, and no gate input promotes it.\<close>

definition demo_poison :: "(string, nat, json) memory_call" where
  "demo_poison = Propose_memory ''a'' ''a'' 1 0 ''acme''
     ((demo_entry ''blue'' [])\<lparr>me_provenance := \<lparr>pv_strategy_id = ''s1'', pv_trust_domain = ''import'', pv_source_ref = None\<rparr>\<rparr>)"

lemma promotion_is_all_or_nothing_witness:
  "\<exists>fs. promote_entry still_rng (demo_ids ''p'') 5 ''acme'' ''mem_a'' demo_gates ''ann'' (demo_memory [demo_poison])
     = (Inl (Memory (PromotionBlockedError fs)), demo_memory [demo_poison])"
proof -
  have "case mm_rows (demo_memory [demo_poison]) of [r] \<Rightarrow> ''acme'' = mw_tenant_id r \<and> ''mem_a'' = mw_memory_id r
      \<and> mw_status r \<noteq> SUGGESTION | _ \<Rightarrow> False"
    by code_simp
  then obtain r where "mm_rows (demo_memory [demo_poison]) = [r]" and f: "''acme'' = mw_tenant_id r" "''mem_a'' = mw_memory_id r"
    "mw_status r \<noteq> SUGGESTION"
    by (auto split: list.splits)
  then have r: "r \<in> set (mm_rows (demo_memory [demo_poison]))" by simp
  from promotion_is_all_or_nothing [OF demo_run refl r f(1,2), where g = demo_gates] f(3)
  show ?thesis by blast
qed


lemma revocation_misses_later_lessons_witness:
  "\<exists>row s'. propose_entry demo_crypto demo_keys (\<lambda>_. ''2026'') DEFAULT_TRUSTED_TRUST_DOMAINS ''l'' ''l'' 1 20 ''acme''
       (demo_entry ''green'' [''mem_a'']) (demo_memory [demo_propose ''a'' ''blue'', demo_revoke]) = (Inr row, s')
     \<and> mw_status row = SUGGESTION \<and> mw_is_lesson row"
proof -
  let ?s = "demo_memory [demo_propose ''a'' ''blue'', demo_revoke]" and ?e = "demo_entry ''green'' [''mem_a'']"
  let ?run = "propose_entry demo_crypto demo_keys (\<lambda>_. ''2026'') DEFAULT_TRUSTED_TRUST_DOMAINS ''l'' ''l'' 1 20 ''acme'' ?e ?s"
  have "\<not> isl (fst ?run)" by code_simp
  then obtain row s' where run: "?run = (Inr row, s')" by (metis isl_def prod.collapse sum.exhaust)
  have "case mm_rows ?s of [r] \<Rightarrow> mw_status r = REVOKED \<and> mw_memory_id r \<in> set (me_parent_memory_ids ?e) | _ \<Rightarrow> False"
    by code_simp
  then obtain r where "mm_rows ?s = [r]" and f: "mw_status r = REVOKED" "mw_memory_id r \<in> set (me_parent_memory_ids ?e)"
    by (auto split: list.splits)
  then have r: "r \<in> set (mm_rows ?s)" by simp
  have e: "pv_trust_domain (me_provenance ?e) \<in> set DEFAULT_TRUSTED_TRUST_DOMAINS" "me_supporting_evidence ?e \<noteq> []"
    "\<not> is_stale ?e 20" "find_conflicts ''acme'' ?e ?s = []"
    by code_simp+
  have "valid_entry ?e"
    by (simp add: new_memory_entry_def demo_entry_def provenance_ok_def scope_ok_def claim_ok_def unit_interval_def
        evidence_ref_ok_def window_ordered_def lesson_shape_def)
  from revocation_misses_later_lessons [OF demo_run refl this r f run e] run show ?thesis by blast
qed

lemma late_derived_data_witness:
  "\<exists>x s'. register_derived_data ''acme'' ''mem_a'' ''embedding'' ''idx''
       (demo_memory [demo_propose ''a'' ''blue'', demo_revoke, sweep (True, 10, 0), sweep (False, 10, 0)]) = (Inr x, s')
     \<and> x \<in> set (derived_data (rg_lineage (mm_registry s')))"
proof -
  let ?s = "demo_memory [demo_propose ''a'' ''blue'', demo_revoke, sweep (True, 10, 0), sweep (False, 10, 0)]"
  have "\<not> isl (payload_digest ''acme'' ''mem_a'' ?s)" by code_simp
  then obtain d where d: "payload_digest ''acme'' ''mem_a'' ?s = Inr d" by (metis isl_def sum.exhaust)
  have "list_all (\<lambda>w. ts_purge_completed_at w \<noteq> None) (tombstones (rg_lineage (mm_registry ?s)))" by code_simp
  then have "\<forall>w \<in> set (tombstones (rg_lineage (mm_registry ?s))). ts_tenant_id w = ''acme'' \<and> ts_resource_id w = d
      \<longrightarrow> ts_purge_completed_at w \<noteq> None"
    by (auto simp: list_all_iff)
  from late_derived_data_is_never_purged [OF demo_run refl _ d this, of "''embedding''" "''idx''"]
  obtain x s' where "register_derived_data ''acme'' ''mem_a'' ''embedding'' ''idx'' ?s = (Inr x, s')"
    "\<forall>sweeps. x \<in> set (derived_data (rg_lineage (mm_registry
       (run_calls (do_memory_call demo_crypto demo_keys (\<lambda>_. ''2026'') DEFAULT_TRUSTED_TRUST_DOMAINS still_rng) (map sweep sweeps) s'))))"
    by (auto simp: DERIVED_DATA_KINDS_def)
  then show ?thesis by (metis list.map(1) run_calls.simps(1))
qed

end
