(* ===== verification/TenantAudit.thy ===== *)
theory TenantAudit
  imports Registry Holdout PromotionPolicy
begin

text \<open>
  The refusal ledger of the tenant plane (\<^verbatim>\<open>tenancy/audit.py\<close>, \<^verbatim>\<open>tenancy/boundaries.py\<close>,
  \<^verbatim>\<open>db/models/tenancy.py\<close>) and the two boundaries that live there: the recursive label and automatic
  promotion. The session is the caller's, so a row a call appends stays only if the caller commits. The log
  line is left out.
\<close>

section \<open>The ledger\<close>

fun boundary_value :: "refusal_boundary \<Rightarrow> string" where
  "boundary_value SPEC_CONSTRUCTION = ''spec_construction''"
| "boundary_value CAMPAIGN_CREATION = ''campaign_creation''"
| "boundary_value CANDIDATE_REGISTRATION = ''candidate_registration''"
| "boundary_value RELEASE_ACTIVATION = ''release_activation''"
| "boundary_value RECURSIVE_LABEL = ''recursive_label''"
| "boundary_value AUTO_PROMOTION = ''auto_promotion''"
| "boundary_value RETENTION = ''retention''"

definition SCAFFOLD_REQUIRES_RESEARCH :: string where
  "SCAFFOLD_REQUIRES_RESEARCH = ''scaffold_requires_research_tenant''"

definition RECURSIVE_CLAIMS_RESEARCH_ONLY :: string where
  "RECURSIVE_CLAIMS_RESEARCH_ONLY = ''recursive_claims_research_only''"

definition AUTO_PROMOTION_REQUIRES_REVIEW :: string where
  "AUTO_PROMOTION_REQUIRES_REVIEW = ''auto_promotion_requires_review''"

record refusal_row =
  rf_id :: string
  rf_tenant_id :: string
  rf_boundary :: refusal_boundary
  rf_reason :: string
  rf_detail :: json_object
  rf_actor :: string

definition record_refusal ::
  "string \<Rightarrow> string \<Rightarrow> refusal_boundary \<Rightarrow> string \<Rightarrow> json_object \<Rightarrow> string \<Rightarrow> (exn, refusal_row list, refusal_row) op" where
  "record_refusal uid tenant_id boundary reason detail actor =
     (let row = \<lparr>rf_id = new_id ''tpr'' uid, rf_tenant_id = tenant_id, rf_boundary = boundary, rf_reason = reason,
                 rf_detail = detail, rf_actor = actor\<rparr>
      in op_then (op_require (\<lambda>rows. rf_id row \<notin> rf_id ` set rows) integrity_error)
           (op_then (op_modify (\<lambda>rows. rows @ [row])) (op_return row)))"

section \<open>The boundaries of the policy plane\<close>

definition document_environment :: "tenant_policy_document option \<Rightarrow> tenant_environment" where
  "document_environment document = (case document of None \<Rightarrow> PRODUCTION | Some d \<Rightarrow> td_environment d)"

definition assert_recursive_label_allowed ::
  "string \<Rightarrow> string \<Rightarrow> tenant_registry \<Rightarrow> string \<Rightarrow> recursive_claim_verdict option \<Rightarrow> string
     \<Rightarrow> (exn, refusal_row list, unit) op" where
  "assert_recursive_label_allowed uid tenant_id policies label verdict actor =
     (let document = policy_for policies tenant_id in
      case assert_label_allowed label verdict document of
        Inr _ \<Rightarrow> op_return ()
      | Inl (Selection (RecursiveClaimDeniedError why)) \<Rightarrow>
          op_then (record_refusal uid tenant_id RECURSIVE_LABEL RECURSIVE_CLAIMS_RESEARCH_ONLY
                     [(''label'', JStr label),
                      (''environment'', JStr (environment_value (document_environment document)))] actor)
            (op_raise (Tenancy (TenantRefusalError RECURSIVE_LABEL RECURSIVE_CLAIMS_RESEARCH_ONLY why)))
      | Inl e \<Rightarrow> op_raise e)"

text \<open>A tenant without a document is judged by the default production document.\<close>

definition default_tenant_document :: "string \<Rightarrow> exn + tenant_policy_document" where
  "default_tenant_document tenant_id =
     new_tenant_policy tenant_id (''fail-closed-default:'' @ tenant_id) ''production'' 1 [1, 2, 3] False
       DEFAULT_AUTO_PROMOTION_MAX_TIER False"

definition assert_auto_promotion_allowed ::
  "string \<Rightarrow> string \<Rightarrow> tenant_registry \<Rightarrow> int \<Rightarrow> string \<Rightarrow> (exn, refusal_row list, unit) op" where
  "assert_auto_promotion_allowed uid tenant_id policies tier actor =
     op_bind (op_lift (case policy_for policies tenant_id of None \<Rightarrow> default_tenant_document tenant_id | Some d \<Rightarrow> Inr d)) (\<lambda>d.
       if auto_eligible d tier then op_return ()
       else op_then (record_refusal uid tenant_id AUTO_PROMOTION AUTO_PROMOTION_REQUIRES_REVIEW
                       [(''tier'', JInt tier), (''environment'', JStr (environment_value (td_environment d))),
                        (''auto_promotion_max_tier'', JInt (td_auto_promotion_max_tier d)),
                        (''require_review_for_all_tiers'', JBool (td_require_review_for_all_tiers d))] actor)
              (op_raise (Tenancy (TenantRefusalError AUTO_PROMOTION AUTO_PROMOTION_REQUIRES_REVIEW
                 ''promotion is not auto-eligible''))))"

section \<open>Every refusal of a boundary is a row of its ledger\<close>

lemma record_refusal_run:
  "record_refusal uid t b why detail actor rows =
     (if new_id ''tpr'' uid \<in> rf_id ` set rows then (Inl integrity_error, rows)
      else (Inr \<lparr>rf_id = new_id ''tpr'' uid, rf_tenant_id = t, rf_boundary = b, rf_reason = why, rf_detail = detail,
                 rf_actor = actor\<rparr>,
            rows @ [\<lparr>rf_id = new_id ''tpr'' uid, rf_tenant_id = t, rf_boundary = b, rf_reason = why,
                     rf_detail = detail, rf_actor = actor\<rparr>]))"
  by (simp add: record_refusal_def Let_def op_run_simps op_return_def)

lemma label_refusal_cases:
  "assert_recursive_label_allowed uid t policies label verdict actor rows = (Inl e, rows') \<Longrightarrow>
     e = integrity_error \<and> rows' = rows
   \<or> (\<exists>why row. e = Tenancy (TenantRefusalError RECURSIVE_LABEL RECURSIVE_CLAIMS_RESEARCH_ONLY why)
        \<and> rows' = rows @ [row] \<and> rf_tenant_id row = t \<and> rf_boundary row = RECURSIVE_LABEL \<and> rf_actor row = actor)"
  by (auto simp: assert_recursive_label_allowed_def assert_label_allowed_def claim_denied_def Let_def op_then_def
      op_bind_def op_return_def op_raise_def record_refusal_run split: if_splits option.splits)

lemma label_allowed_iff:
  "assert_recursive_label_allowed uid t policies RECURSIVE_IMPROVEMENT_LABEL (Some v) actor rows = (Inr (), rows') \<Longrightarrow>
     claims_enabled (policy_for policies t) \<and> satisfied v \<and> rows' = rows"
  by (auto simp: assert_recursive_label_allowed_def assert_label_allowed_def claim_denied_def Let_def op_then_def
      op_bind_def op_return_def op_raise_def record_refusal_run split: if_splits)

lemma auto_promotion_cases:
  "assert_auto_promotion_allowed uid t policies tier actor rows = (Inr (), rows') \<Longrightarrow>
     rows' = rows \<and> (case policy_for policies t of None \<Rightarrow> tier \<in> {1, 2} | Some d \<Rightarrow> auto_eligible d tier)"
proof -
  assume run: "assert_auto_promotion_allowed uid t policies tier actor rows = (Inr (), rows')"
  have def: "default_tenant_document t = Inr d \<Longrightarrow> auto_eligible d tier \<longleftrightarrow> tier \<in> {1, 2}" for d
    by (auto simp: default_tenant_document_def new_tenant_policy_def environment_of_value_def Let_def res_bind_Inr
        auto_eligible_def DEFAULT_AUTO_PROMOTION_MAX_TIER_def)
  show ?thesis
    using run def by (auto simp: assert_auto_promotion_allowed_def op_bind_def op_lift_def op_then_def op_return_def
        op_raise_def record_refusal_run split: option.splits if_splits sum.splits)
qed

end
