(* ===== verification/Experiment.thy ===== *)
theory Experiment
  imports SpecSections
begin

text \<open>
  Preregistered experiments and the runner (\<^verbatim>\<open>eval/experiment.py\<close>, \<^verbatim>\<open>eval/tasks.py\<close>, the task set checks of
  \<^verbatim>\<open>eval/sources.py\<close>, \<^verbatim>\<open>eval/runner.py\<close> and the request and response of \<^verbatim>\<open>eval/backends.py\<close>): what is fixed
  before anything runs, and how every arm is run over every task and seed under one envelope. The agent
  backends and the clock are objects of the caller: they share the world \<open>'w\<close>, a backend is called with the
  run's meter. The seed's hash (BLAKE2b) and the text of an exception are parameters.
\<close>

section \<open>Arms (eval/experiment.py)\<close>

definition MIN_SEEDS :: int where
  "MIN_SEEDS = 3"

definition DEFAULT_RETRY_ATTEMPTS :: int where
  "DEFAULT_RETRY_ATTEMPTS = 3"

definition DEFAULT_BOOTSTRAP_SEED :: int where
  "DEFAULT_BOOTSTRAP_SEED = 20260827"

definition new_arm :: "string \<Rightarrow> arm_kind \<Rightarrow> int \<Rightarrow> string option \<Rightarrow> string option \<Rightarrow> exn + arm" where
  "new_arm arm kind max_attempts component_id editor_ref =
     constructed check_arm \<lparr>arm_id = arm, arm_kind_of = kind, arm_max_attempts = max_attempts,
       arm_component_id = component_id, arm_editor_ref = editor_ref\<rparr>"

definition retry_arm :: "string \<Rightarrow> int \<Rightarrow> exn + arm" where
  "retry_arm arm max_attempts = new_arm arm ARM_RETRY_SELF_CONSISTENCY max_attempts None None"

definition ablation_arm :: "string \<Rightarrow> string \<Rightarrow> exn + arm" where
  "ablation_arm arm component_id = new_arm arm ARM_ABLATION 1 (Some component_id) None"

definition fixed_editor_arm :: "string \<Rightarrow> string \<Rightarrow> exn + arm" where
  "fixed_editor_arm arm editor_ref = new_arm arm ARM_FIXED_EDITOR 1 None (Some editor_ref)"

definition ablated_component :: "arm \<Rightarrow> exn + string" where
  "ablated_component a =
     (case arm_component_id a of None \<Rightarrow> arm_error ''not an ablation arm'' | Some c \<Rightarrow> Inr c)"

definition editor_reference :: "arm \<Rightarrow> exn + string" where
  "editor_reference a =
     (case arm_editor_ref a of None \<Rightarrow> arm_error ''not a fixed-editor arm'' | Some e \<Rightarrow> Inr e)"

section \<open>Experiments\<close>

record eval_experiment =
  xp_name :: string
  xp_dataset :: string
  xp_budget_profile :: string
  xp_arms :: "arm list"
  xp_seeds :: int
  xp_partition :: partition_kind
  xp_alpha :: rat
  xp_multiplicity :: multiplicity_method
  xp_bootstrap_iterations :: int
  xp_bootstrap_seed :: int
  xp_ablation_family :: "string list"
  xp_metadata :: "(string, string) dict"

text \<open>\<^verbatim>\<open>sorted({x for x in xs if xs.count(x) > 1})\<close>\<close>

definition repeated :: "'a::linorder list \<Rightarrow> 'a list" where
  "repeated xs = sort (remdups (filter (\<lambda>x. 1 < count_list xs x) xs))"

definition arms_of_kind :: "arm_kind \<Rightarrow> eval_experiment \<Rightarrow> arm list" where
  "arms_of_kind kind x = filter (\<lambda>a. arm_kind_of a = kind) (xp_arms x)"

definition validate_experiment_arms :: "eval_experiment \<Rightarrow> exn + unit" where
  "validate_experiment_arms x =
     (if xp_arms x = [] then arm_error ''an experiment needs at least one arm''
      else if repeated (map arm_id (xp_arms x)) \<noteq> [] then arm_error ''duplicate arm ids''
      else if length (arms_of_kind ARM_INCUMBENT x) \<noteq> 1 then arm_error ''exactly one incumbent arm''
      else Inr ())"

definition validate_ablation_family :: "eval_experiment \<Rightarrow> exn + unit" where
  "validate_ablation_family x =
     (let ablations = arms_of_kind ARM_ABLATION x
      in if ablations = []
         then (if xp_ablation_family x \<noteq> [] then arm_error ''no arm ablates any of its components'' else Inr ())
         else if xp_ablation_family x = [] then arm_error ''must preregister an ablation family''
         else res_bind (res_map ablated_component ablations) (\<lambda>ablated.
           if filter (\<lambda>c. c \<notin> set (xp_ablation_family x)) ablated \<noteq> [] then arm_error ''outside the preregistered family''
           else if repeated ablated \<noteq> [] then arm_error ''duplicate ablation'' else Inr ()))"

definition validate_experiment_statistics :: "eval_experiment \<Rightarrow> exn + unit" where
  "validate_experiment_statistics x =
     (if xp_seeds x < MIN_SEEDS then arm_error ''seeds must be at least 3''
      else if \<not> (0 < xp_alpha x \<and> xp_alpha x < 1) then arm_error ''alpha must be in (0, 1)''
      else if xp_bootstrap_iterations x < MIN_BOOTSTRAP_ITERATIONS then arm_error ''bootstrap_iterations''
      else Inr ())"

definition check_experiment :: "eval_experiment \<Rightarrow> exn + unit" where
  "check_experiment x =
     (if xp_name x = [] then arm_error ''experiment name must be non-empty''
      else if xp_dataset x = [] then arm_error ''experiment dataset must be non-empty''
      else res_bind (validate_experiment_arms x) (\<lambda>_. res_bind (validate_ablation_family x) (\<lambda>_.
        if is_sealed (xp_partition x) then arm_error ''cannot run against a sealed partition''
        else res_bind (validate_experiment_statistics x) (\<lambda>_.
          res_bind (resolve_budget_profile (xp_budget_profile x)) (\<lambda>_. Inr ())))))"

definition new_experiment :: "eval_experiment \<Rightarrow> exn + eval_experiment" where
  "new_experiment x = res_bind (check_experiment x) (\<lambda>_. Inr x)"

definition incumbent_arm :: "eval_experiment \<Rightarrow> exn + arm" where
  "incumbent_arm x = (case arms_of_kind ARM_INCUMBENT x of [] \<Rightarrow> Inl (Foreign ''StopIteration'') | a # _ \<Rightarrow> Inr a)"

definition candidate_arms :: "eval_experiment \<Rightarrow> arm list" where
  "candidate_arms x = filter (\<lambda>a. arm_kind_of a \<noteq> ARM_INCUMBENT) (xp_arms x)"

definition experiment_budget :: "eval_experiment \<Rightarrow> exn + task_budget" where
  "experiment_budget x = resolve_budget_profile (xp_budget_profile x)"

text \<open>The seed of a cell: the hash of the name, the task and the replicate, never of the arm.\<close>

definition derive_seed :: "(string \<Rightarrow> int) \<Rightarrow> string \<Rightarrow> string \<Rightarrow> nat \<Rightarrow> int" where
  "derive_seed blake2b experiment_name task_id seed_index =
     blake2b (experiment_name @ [char_of (0 :: nat)] @ task_id @ [char_of (0 :: nat)] @ nat_str seed_index)"

section \<open>Tasks and runs (eval/tasks.py)\<close>

record eval_task =
  et_id :: string
  et_prompt :: string
  et_metadata :: "(string, string) dict"

definition new_eval_task :: "string \<Rightarrow> string \<Rightarrow> (string, string) dict \<Rightarrow> exn + eval_task" where
  "new_eval_task task_id prompt metadata =
     (if task_id = [] then Inl (ValueError ''task id must be non-empty'')
      else Inr \<lparr>et_id = task_id, et_prompt = prompt, et_metadata = metadata\<rparr>)"

datatype stop_reason = RUN_COMPLETED | BUDGET_EXHAUSTED | BACKEND_ERROR

record attempt_record =
  at_attempt :: nat
  at_claimed_success :: bool
  at_usage :: budget_usage
  at_output :: string

record task_run =
  run_arm_id :: string
  run_task_id :: string
  run_seed_index :: nat
  run_seed :: int
  run_success :: bool
  run_attempts :: "attempt_record list"
  run_usage :: budget_usage
  run_budget :: task_budget
  run_stop_reason :: stop_reason
  run_error :: "string option"

definition attempt_count :: "task_run \<Rightarrow> nat" where
  "attempt_count r = length (run_attempts r)"

definition run_score :: "task_run \<Rightarrow> rat" where
  "run_score r = (if run_success r then 1 else 0)"

datatype outcome_verifier = ClaimedOutcomeVerifier | MajorityVoteVerifier

fun verify_outcome :: "outcome_verifier \<Rightarrow> attempt_record list \<Rightarrow> bool" where
  "verify_outcome ClaimedOutcomeVerifier attempts =
     (if attempts = [] then False else at_claimed_success (last attempts))"
| "verify_outcome MajorityVoteVerifier attempts =
     (if attempts = [] then False
      else length attempts < length (filter at_claimed_success attempts) * 2)"

section \<open>Task sets (eval/sources.py)\<close>

definition ensure_unsealed :: "string \<Rightarrow> partition_kind \<Rightarrow> exn + unit" where
  "ensure_unsealed partition_id kind =
     (if is_sealed kind then Inl (Eval (SealedPartitionError partition_id)) else Inr ())"

definition validate_task_set :: "eval_task list \<Rightarrow> exn + eval_task list" where
  "validate_task_set tasks =
     (if tasks = [] then Inl (Eval (TaskSourceError ''task set is empty''))
      else if repeated (map et_id tasks) \<noteq> [] then Inl (Eval (TaskSourceError ''duplicate task ids in task set''))
      else Inr tasks)"

type_synonym task_source = "string \<Rightarrow> partition_kind \<Rightarrow> exn + eval_task list"

text \<open>A partition's identity in the message is its dataset here.\<close>

definition in_memory_task_source :: "eval_task list \<Rightarrow> exn + task_source" where
  "in_memory_task_source tasks =
     res_bind (validate_task_set tasks) (\<lambda>fixed.
       Inr (\<lambda>dataset partition. res_bind (ensure_unsealed dataset partition) (\<lambda>_. Inr fixed)))"

section \<open>The runner (eval/runner.py)\<close>

record agent_request =
  rq_task :: eval_task
  rq_attempt :: nat
  rq_seed :: int
  rq_remaining :: budget_usage
  rq_allow_tools :: bool

record agent_response =
  rp_claimed_success :: bool
  rp_input_tokens :: int
  rp_output_tokens :: int
  rp_tool_calls :: int
  rp_wall_clock_s :: rat
  rp_output :: string

record 'w harness =
  hn_new_clock :: "'w \<Rightarrow> 'w"
  hn_now :: "'w \<Rightarrow> rat \<times> 'w"
  hn_str :: "exn \<Rightarrow> string"
  hn_type_name :: "exn \<Rightarrow> string"
  hn_hash :: "string \<Rightarrow> int"

type_synonym 'w backend = "agent_request \<Rightarrow> (exn, budget_meter \<times> 'w, agent_response) op"

record arm_strategy =
  st_max_attempts :: int
  st_allow_tools :: bool
  st_verifier :: outcome_verifier

definition strategy_for :: "arm \<Rightarrow> arm_strategy" where
  "strategy_for a =
     (case arm_kind_of a of
        ARM_RETRY_SELF_CONSISTENCY \<Rightarrow>
          \<lparr>st_max_attempts = arm_max_attempts a, st_allow_tools = True, st_verifier = MajorityVoteVerifier\<rparr>
      | ARM_ONE_SHOT_CONTROL \<Rightarrow> \<lparr>st_max_attempts = 1, st_allow_tools = False, st_verifier = ClaimedOutcomeVerifier\<rparr>
      | _ \<Rightarrow> \<lparr>st_max_attempts = 1, st_allow_tools = True, st_verifier = ClaimedOutcomeVerifier\<rparr>)"

definition usage_delta :: "budget_usage \<Rightarrow> budget_usage \<Rightarrow> budget_usage" where
  "usage_delta before after =
     \<lparr>bu_input_tokens = bu_input_tokens after - bu_input_tokens before,
      bu_output_tokens = bu_output_tokens after - bu_output_tokens before,
      bu_tool_calls = bu_tool_calls after - bu_tool_calls before,
      bu_wall_clock_s = bu_wall_clock_s after - bu_wall_clock_s before\<rparr>"

definition read_clock :: "'w harness \<Rightarrow> (exn, budget_meter \<times> 'w, rat) op" where
  "read_clock H = (\<lambda>(m, w). case hn_now H w of (t, w') \<Rightarrow> (Inr t, (m, w')))"

definition read_usage :: "'w harness \<Rightarrow> (exn, budget_meter \<times> 'w, budget_usage) op" where
  "read_usage H = op_bind (read_clock H) (\<lambda>now. op_gets (\<lambda>(m, w). usage now m))"

abbreviation on_meter where "on_meter \<equiv> op_zoom fst (\<lambda>m s. (m, snd s))"

definition make_attempt ::
  "'w harness \<Rightarrow> 'w backend \<Rightarrow> eval_task \<Rightarrow> int \<Rightarrow> bool \<Rightarrow> nat \<Rightarrow> (exn, budget_meter \<times> 'w, agent_response) op" where
  "make_attempt H backend task seed allow_tools attempt =
     op_then (if 1 < attempt then op_bind (read_clock H) (\<lambda>now. on_meter (meter_checkpoint now)) else op_return ())
       (op_bind (read_clock H) (\<lambda>now. op_bind (op_gets (\<lambda>(m, w). task_remaining now m)) (\<lambda>remaining.
          backend \<lparr>rq_task = task, rq_attempt = attempt, rq_seed = seed, rq_remaining = remaining,
                   rq_allow_tools = allow_tools\<rparr>)))"

text \<open>The loop over the attempts: \<^verbatim>\<open>break\<close> on a refused charge and on an error of the evaluation plane, any other
  exception propagates.\<close>

definition stopped_attempts ::
  "'w harness \<Rightarrow> attempt_record list \<Rightarrow> exn \<Rightarrow> exn + attempt_record list \<times> stop_reason \<times> string option" where
  "stopped_attempts H done e =
     (case e of
        Eval (BudgetExceededError d l a) \<Rightarrow> Inr (done, BUDGET_EXHAUSTED, Some (hn_str H e))
      | Eval _ \<Rightarrow> Inr (done, BACKEND_ERROR, Some (hn_type_name H e @ '': '' @ hn_str H e))
      | _ \<Rightarrow> Inl e)"

fun attempt_loop ::
  "'w harness \<Rightarrow> 'w backend \<Rightarrow> eval_task \<Rightarrow> int \<Rightarrow> bool \<Rightarrow> nat list \<Rightarrow> attempt_record list
     \<Rightarrow> (exn, budget_meter \<times> 'w, attempt_record list \<times> stop_reason \<times> string option) op" where
  "attempt_loop H backend task seed allow_tools [] done = op_return (done, RUN_COMPLETED, None)"
| "attempt_loop H backend task seed allow_tools (k # ks) done =
     op_bind (read_usage H) (\<lambda>before s.
       case make_attempt H backend task seed allow_tools k s of
         (Inl e, s') \<Rightarrow> (stopped_attempts H done e, s')
       | (Inr response, s') \<Rightarrow>
           op_bind (read_usage H) (\<lambda>after.
             attempt_loop H backend task seed allow_tools ks
               (done @ [\<lparr>at_attempt = k, at_claimed_success = rp_claimed_success response,
                         at_usage = usage_delta before after, at_output = rp_output response\<rparr>])) s')"

definition finish_run ::
  "arm \<Rightarrow> eval_task \<Rightarrow> task_budget \<Rightarrow> nat \<Rightarrow> int \<Rightarrow> arm_strategy \<Rightarrow> attempt_record list \<times> stop_reason \<times> string option
     \<Rightarrow> budget_usage \<Rightarrow> task_run" where
  "finish_run a task budget seed_index seed strategy outcome used =
     (case outcome of (attempts, stop, error) \<Rightarrow>
        \<lparr>run_arm_id = arm_id a, run_task_id = et_id task, run_seed_index = seed_index, run_seed = seed,
         run_success = (if stop = BACKEND_ERROR then False else verify_outcome (st_verifier strategy) attempts),
         run_attempts = attempts, run_usage = used, run_budget = budget, run_stop_reason = stop, run_error = error\<rparr>)"

definition run_task ::
  "'w harness \<Rightarrow> arm \<Rightarrow> eval_task \<Rightarrow> 'w backend \<Rightarrow> task_budget \<Rightarrow> nat \<Rightarrow> int \<Rightarrow> arm_strategy \<Rightarrow> (exn, 'w, task_run) op" where
  "run_task H a task backend budget seed_index seed strategy = (\<lambda>w.
     case hn_now H w of (started, w1) \<Rightarrow>
       (case op_bind (attempt_loop H backend task seed (st_allow_tools strategy)
                        [1..<nat (st_max_attempts strategy) + 1] [])
               (\<lambda>outcome. op_bind (read_usage H) (\<lambda>used.
                  op_return (finish_run a task budget seed_index seed strategy outcome used)))
               (new_budget_meter budget started, w1) of
          (r, (m, w2)) \<Rightarrow> (r, w2)))"

text \<open>\<^verbatim>\<open>[f(x) for x in xs]\<close> over calls.\<close>

fun op_collect :: "('x \<Rightarrow> ('e, 's, 'a) op) \<Rightarrow> 'x list \<Rightarrow> ('e, 's, 'a list) op" where
  "op_collect f [] = op_return []"
| "op_collect f (x # xs) = op_bind (f x) (\<lambda>y. op_bind (op_collect f xs) (\<lambda>ys. op_return (y # ys)))"

definition run_cell ::
  "'w harness \<Rightarrow> eval_experiment \<Rightarrow> arm \<Rightarrow> 'w backend \<Rightarrow> task_budget \<Rightarrow> nat \<times> eval_task \<Rightarrow> (exn, 'w, task_run) op" where
  "run_cell H x a backend budget = (\<lambda>(seed_index, task).
     op_then (op_modify (hn_new_clock H))
       (run_task H a task backend budget seed_index (derive_seed (hn_hash H) (xp_name x) (et_id task) seed_index)
          (strategy_for a)))"

text \<open>The cells of an arm: seed by seed, every task.\<close>

definition cells :: "eval_experiment \<Rightarrow> eval_task list \<Rightarrow> (nat \<times> eval_task) list" where
  "cells x tasks = List.product [0..<nat (xp_seeds x)] tasks"

definition run_arm ::
  "'w harness \<Rightarrow> eval_experiment \<Rightarrow> arm \<Rightarrow> 'w backend \<Rightarrow> eval_task list \<Rightarrow> (exn, 'w, task_run list) op" where
  "run_arm H x a backend tasks =
     op_bind (op_lift (experiment_budget x)) (\<lambda>budget. op_collect (run_cell H x a backend budget) (cells x tasks))"

definition validate_backends :: "eval_experiment \<Rightarrow> (string, 'w backend) dict \<Rightarrow> exn + unit" where
  "validate_backends x backends =
     (if filter (\<lambda>i. i \<notin> set (map fst backends)) (map arm_id (xp_arms x)) \<noteq> []
      then arm_error ''no backend supplied for arm''
      else if filter (\<lambda>i. i \<notin> set (map arm_id (xp_arms x))) (map fst backends) \<noteq> []
      then arm_error ''backend supplied for undeclared arm''
      else Inr ())"

definition arm_backend :: "(string, 'w backend) dict \<Rightarrow> arm \<Rightarrow> exn + 'w backend" where
  "arm_backend backends a =
     (case map_of backends (arm_id a) of None \<Rightarrow> Inl (KeyError (arm_id a)) | Some b \<Rightarrow> Inr b)"

definition run_arms ::
  "'w harness \<Rightarrow> eval_experiment \<Rightarrow> (string, 'w backend) dict \<Rightarrow> task_source \<Rightarrow> (exn, 'w, task_run list) op" where
  "run_arms H x backends source =
     op_then (op_lift (validate_backends x backends))
       (op_bind (op_lift (source (xp_dataset x) (xp_partition x))) (\<lambda>tasks.
        op_bind (op_collect (\<lambda>a. op_bind (op_lift (arm_backend backends a)) (\<lambda>b. run_arm H x a b tasks)) (xp_arms x))
          (\<lambda>runs. op_return (concat runs))))"

end
