(* ===== verification/ExperimentResults.thy ===== *)
theory ExperimentResults
  imports Experiment
begin

text \<open>
  Turning runs into a comparison (\<^verbatim>\<open>eval/results.py\<close>, \<^verbatim>\<open>sample_stdev\<close> of \<^verbatim>\<open>eval/statistics.py\<close> and the
  composition in \<^verbatim>\<open>run_experiment\<close>): the summary of an arm, the scores aligned by task, and the
  comparisons of the candidates with the incumbent. The square root of a rational is a parameter; the
  rendered report is text and left out. The lemmas carry the runner's records through the analysis: every
  run has the experiment's budget, and two arms that behave alike show a difference of exactly zero.
\<close>

section \<open>Summaries\<close>

definition sample_stdev :: "(rat \<Rightarrow> rat) \<Rightarrow> rat list \<Rightarrow> exn + rat" where
  "sample_stdev sqrt_of xs =
     (if xs = [] then statistics_error ''cannot take the standard deviation of an empty sequence''
      else if length xs = 1 then Inr 0
      else res_bind (mean_of xs) (\<lambda>centre.
        Inr (sqrt_of (sum_list (map (\<lambda>v. (v - centre) ^ 2) xs) / of_nat (length xs - 1)))))"

record variance_report =
  vr_per_seed_success_rate :: "rat list"
  vr_mean :: rat
  vr_stdev :: rat
  vr_minimum :: rat
  vr_maximum :: rat

definition variance_spread :: "variance_report \<Rightarrow> rat" where
  "variance_spread v = vr_maximum v - vr_minimum v"

definition build_variance_report :: "(rat \<Rightarrow> rat) \<Rightarrow> task_run list \<Rightarrow> exn + variance_report" where
  "build_variance_report sqrt_of runs =
     (if runs = [] then statistics_error ''cannot report variance for an arm with no runs''
      else res_bind (res_map (\<lambda>i. mean_of (map run_score (filter (\<lambda>r. run_seed_index r = i) runs)))
                      (sort (remdups (map run_seed_index runs)))) (\<lambda>rates.
           res_bind (mean_of rates) (\<lambda>mean.
           res_bind (sample_stdev sqrt_of rates) (\<lambda>stdev.
             Inr \<lparr>vr_per_seed_success_rate = rates, vr_mean = mean, vr_stdev = stdev,
                  vr_minimum = Min (set rates), vr_maximum = Max (set rates)\<rparr>))))"

record arm_summary =
  as_arm_id :: string
  as_arm_kind :: string
  as_budget :: task_budget
  as_seeds :: int
  as_task_scores :: "(string, rat) dict"
  as_success_rate :: rat
  as_variance :: variance_report
  as_mean_input_tokens :: rat
  as_mean_output_tokens :: rat
  as_mean_tool_calls :: rat
  as_mean_wall_clock_s :: rat
  as_budget_exhausted_runs :: nat
  as_backend_error_runs :: nat
  as_runs :: "task_run list"

definition mean_total_tokens :: "arm_summary \<Rightarrow> rat" where
  "mean_total_tokens s = as_mean_input_tokens s + as_mean_output_tokens s"

text \<open>The mean score of every task, in the order in which the tasks are first seen.\<close>

definition task_mean :: "task_run list \<Rightarrow> string \<Rightarrow> exn + (string \<times> rat)" where
  "task_mean runs task_id =
     res_bind (mean_of (map run_score (filter (\<lambda>r. run_task_id r = task_id) runs))) (\<lambda>m. Inr (task_id, m))"

definition task_scores :: "task_run list \<Rightarrow> exn + (string, rat) dict" where
  "task_scores runs = res_map (task_mean runs) (dedupe (map run_task_id runs))"

definition stopped_by :: "stop_reason \<Rightarrow> task_run list \<Rightarrow> nat" where
  "stopped_by reason runs = length (filter (\<lambda>r. run_stop_reason r = reason) runs)"

definition build_arm_summary ::
  "(rat \<Rightarrow> rat) \<Rightarrow> string \<Rightarrow> string \<Rightarrow> int \<Rightarrow> task_run list \<Rightarrow> exn + arm_summary" where
  "build_arm_summary sqrt_of arm kind seeds runs =
     (if runs = [] then statistics_error ''arm produced no runs''
      else res_bind (task_scores runs) (\<lambda>scores.
           res_bind (mean_of (map run_score runs)) (\<lambda>rate.
           res_bind (build_variance_report sqrt_of runs) (\<lambda>variance.
           res_bind (mean_of (map (\<lambda>r. of_int (bu_input_tokens (run_usage r))) runs)) (\<lambda>input.
           res_bind (mean_of (map (\<lambda>r. of_int (bu_output_tokens (run_usage r))) runs)) (\<lambda>output.
           res_bind (mean_of (map (\<lambda>r. of_int (bu_tool_calls (run_usage r))) runs)) (\<lambda>tools.
           res_bind (mean_of (map (\<lambda>r. bu_wall_clock_s (run_usage r)) runs)) (\<lambda>wall.
             Inr \<lparr>as_arm_id = arm, as_arm_kind = kind, as_budget = run_budget (hd runs), as_seeds = seeds,
                  as_task_scores = scores, as_success_rate = rate, as_variance = variance,
                  as_mean_input_tokens = input, as_mean_output_tokens = output, as_mean_tool_calls = tools,
                  as_mean_wall_clock_s = wall, as_budget_exhausted_runs = stopped_by BUDGET_EXHAUSTED runs,
                  as_backend_error_runs = stopped_by BACKEND_ERROR runs, as_runs = runs\<rparr>))))))))"

section \<open>The comparison\<close>

definition aligned_scores :: "arm_summary \<Rightarrow> string list \<Rightarrow> exn + rat list" where
  "aligned_scores s task_ids =
     (if filter (\<lambda>t. t \<notin> set (map fst (as_task_scores s))) task_ids \<noteq> []
      then statistics_error ''arm has no score for task''
      else Inr (map (\<lambda>t. the (map_of (as_task_scores s) t)) task_ids))"

record arm_comparison =
  cmp_arm_id :: string
  cmp_bootstrap :: paired_bootstrap_result
  cmp_adjusted_p_value :: rat

definition comparison_verdict :: "arm_comparison \<Rightarrow> verdict" where
  "comparison_verdict c = bootstrap_verdict (cmp_bootstrap c)"

definition is_regression :: "arm_comparison \<Rightarrow> bool" where
  "is_regression c \<longleftrightarrow> comparison_verdict c = REGRESSION"

definition is_improvement :: "arm_comparison \<Rightarrow> bool" where
  "is_improvement c \<longleftrightarrow> comparison_verdict c = IMPROVEMENT"

record experiment_result =
  er_experiment :: eval_experiment
  er_task_ids :: "string list"
  er_primary :: "(string, arm_summary) dict"
  er_delta :: "(string, arm_comparison) dict"
  er_per_comparison_alpha :: rat

definition regressions :: "experiment_result \<Rightarrow> string list" where
  "regressions r = map fst (filter (\<lambda>(i, c). is_regression c) (er_delta r))"

definition improvements :: "experiment_result \<Rightarrow> string list" where
  "improvements r = map fst (filter (\<lambda>(i, c). is_improvement c) (er_delta r))"

definition budgets_are_matched :: "experiment_result \<Rightarrow> bool" where
  "budgets_are_matched r \<longleftrightarrow>
     length (remdups (concat (map (\<lambda>(i, s). map run_budget (as_runs s)) (er_primary r)))) = 1"

definition runs_of_arm :: "string \<Rightarrow> task_run list \<Rightarrow> task_run list" where
  "runs_of_arm arm runs = filter (\<lambda>r. run_arm_id r = arm) runs"

definition arm_entry ::
  "(rat \<Rightarrow> rat) \<Rightarrow> eval_experiment \<Rightarrow> task_run list \<Rightarrow> arm \<Rightarrow> exn + (string \<times> arm_summary)" where
  "arm_entry sqrt_of x runs a =
     res_bind (build_arm_summary sqrt_of (arm_id a) (arm_kind_value (arm_kind_of a)) (xp_seeds x)
                 (runs_of_arm (arm_id a) runs)) (\<lambda>s. Inr (arm_id a, s))"

definition find_summary :: "(string, arm_summary) dict \<Rightarrow> string \<Rightarrow> exn + arm_summary" where
  "find_summary primary arm = (case map_of primary arm of None \<Rightarrow> Inl (KeyError arm) | Some s \<Rightarrow> Inr s)"

definition bootstrap_entry ::
  "randrange \<Rightarrow> eval_experiment \<Rightarrow> (string, arm_summary) dict \<Rightarrow> string list \<Rightarrow> rat list \<Rightarrow> rat \<Rightarrow> arm
     \<Rightarrow> exn + (string \<times> paired_bootstrap_result)" where
  "bootstrap_entry rng x primary task_ids baseline alpha a =
     res_bind (find_summary primary (arm_id a)) (\<lambda>s.
     res_bind (aligned_scores s task_ids) (\<lambda>scores.
     res_bind (paired_bootstrap rng baseline scores (xp_bootstrap_iterations x) alpha (xp_bootstrap_seed x)) (\<lambda>b.
       Inr (arm_id a, b))))"

definition summarize_experiment ::
  "randrange \<Rightarrow> (rat \<Rightarrow> rat) \<Rightarrow> eval_experiment \<Rightarrow> task_run list \<Rightarrow> exn + experiment_result" where
  "summarize_experiment rng sqrt_of x runs =
     (if filter (\<lambda>r. run_arm_id r \<notin> set (map arm_id (xp_arms x))) runs \<noteq> []
      then statistics_error ''run references unknown arm''
      else
        res_bind (res_map (arm_entry sqrt_of x runs) (xp_arms x)) (\<lambda>primary.
        res_bind (incumbent_arm x) (\<lambda>inc.
        res_bind (find_summary primary (arm_id inc)) (\<lambda>incumbent.
        let task_ids = dedupe (map run_task_id (runs_of_arm (arm_id inc) runs)) in
        res_bind (aligned_scores incumbent task_ids) (\<lambda>baseline.
        res_bind (per_comparison_alpha (xp_alpha x) (int (length (candidate_arms x))) (xp_multiplicity x)) (\<lambda>alpha.
        res_bind (res_map (bootstrap_entry rng x primary task_ids baseline alpha) (candidate_arms x)) (\<lambda>bootstraps.
        let adjusted = holm_adjusted_p_values (map (\<lambda>(i, b). (i, p_value b)) bootstraps) in
        Inr \<lparr>er_experiment = x, er_task_ids = task_ids, er_primary = primary,
             er_delta = map (\<lambda>(i, b). (i, \<lparr>cmp_arm_id = i, cmp_bootstrap = b,
                                           cmp_adjusted_p_value = the (map_of adjusted i)\<rparr>)) bootstraps,
             er_per_comparison_alpha = alpha\<rparr>)))))))"

definition run_experiment ::
  "'w harness \<Rightarrow> randrange \<Rightarrow> (rat \<Rightarrow> rat) \<Rightarrow> eval_experiment \<Rightarrow> (string, 'w backend) dict \<Rightarrow> task_source
     \<Rightarrow> (exn, 'w, experiment_result) op" where
  "run_experiment H rng sqrt_of x backends source =
     op_bind (run_arms H x backends source) (\<lambda>runs. op_lift (summarize_experiment rng sqrt_of x runs))"

section \<open>Every arm runs the same cells under the same budget\<close>

text \<open>What a cell fixes of a run: replicate, task, seed and budget, never the arm.\<close>

definition cell_of :: "task_run \<Rightarrow> nat \<times> string \<times> int \<times> task_budget" where
  "cell_of r = (run_seed_index r, run_task_id r, run_seed r, run_budget r)"

definition design_of :: "'w harness \<Rightarrow> eval_experiment \<Rightarrow> task_budget \<Rightarrow> eval_task list \<Rightarrow> (nat \<times> string \<times> int \<times> task_budget) list" where
  "design_of H x budget tasks =
     map (\<lambda>(i, t). (i, et_id t, derive_seed (hn_hash H) (xp_name x) (et_id t) i, budget)) (cells x tasks)"

lemma res_map_all2: "res_map f xs = Inr ys \<longleftrightarrow> list_all2 (\<lambda>x y. f x = Inr y) xs ys"
proof (induction xs arbitrary: ys)
  case Nil
  then show ?case by auto
next
  case (Cons x xs)
  then show ?case by (cases ys) (auto simp: res_bind_Inr)
qed

lemma op_collect_all2:
  "op_collect f xs s = (Inr ys, s') \<Longrightarrow> list_all2 (\<lambda>x y. \<exists>t t'. f x t = (Inr y, t')) xs ys"
proof (induction xs arbitrary: ys s)
  case Nil
  then show ?case by (simp add: op_return_def)
next
  case (Cons x xs)
  from Cons.prems obtain y t zs where y: "f x s = (Inr y, t)" and zs: "op_collect f xs t = (Inr zs, s')" "ys = y # zs"
    by (auto simp: op_bind_def op_return_def split: prod.splits sum.splits)
  from Cons.IH [OF zs(1)] y zs(2) show ?case by auto
qed

lemma run_task_cell:
  "run_task H a task backend budget i seed st w = (Inr r, w') \<Longrightarrow>
     run_arm_id r = arm_id a \<and> cell_of r = (i, et_id task, seed, budget)"
  by (auto simp: run_task_def op_bind_def op_return_def finish_run_def cell_of_def split: prod.splits sum.splits)

lemma run_cell_cell:
  "run_cell H x a backend budget c w = (Inr r, w') \<Longrightarrow>
     run_arm_id r = arm_id a \<and> cell_of r = (fst c, et_id (snd c), derive_seed (hn_hash H) (xp_name x) (et_id (snd c)) (fst c), budget)"
  by (cases c) (auto simp: run_cell_def op_then_def op_bind_def op_modify_def dest: run_task_cell)

lemma run_arm_design:
  assumes "run_arm H x a backend tasks w = (Inr runs, w')"
  shows "\<exists>budget. experiment_budget x = Inr budget \<and> map cell_of runs = design_of H x budget tasks"
    and "\<forall>r \<in> set runs. run_arm_id r = arm_id a"
proof -
  from assms obtain budget where b: "experiment_budget x = Inr budget"
    and runs: "op_collect (run_cell H x a backend budget) (cells x tasks) w = (Inr runs, w')"
    by (cases "experiment_budget x") (auto simp: run_arm_def op_raise_def)
  have all: "list_all2 (\<lambda>c r. run_arm_id r = arm_id a \<and> cell_of r =
      (fst c, et_id (snd c), derive_seed (hn_hash H) (xp_name x) (et_id (snd c)) (fst c), budget)) (cells x tasks) runs"
    by (rule list_all2_mono [OF op_collect_all2 [OF runs]]) (auto dest!: run_cell_cell)
  then show "\<forall>r \<in> set runs. run_arm_id r = arm_id a"
    by (auto simp: list_all2_conv_all_nth in_set_conv_nth)
  from all have "map cell_of runs = design_of H x budget tasks"
    by (auto simp: list_all2_conv_all_nth design_of_def intro!: nth_equalityI split: prod.splits)
  with b show "\<exists>budget. experiment_budget x = Inr budget \<and> map cell_of runs = design_of H x budget tasks" by blast
qed

text \<open>The runs of an arm are found again by its id.\<close>

lemma runs_of_arm_concat:
  assumes "list_all2 (\<lambda>a rs. \<forall>r \<in> set rs. run_arm_id r = arm_id a) arms rss" "distinct (map arm_id arms)"
  shows "list_all2 (\<lambda>a rs. runs_of_arm (arm_id a) (concat rss) = rs) arms rss"
  using assms
proof (induction arms rss rule: list_all2_induct)
  case Nil
  then show ?case by simp
next
  case (Cons a arms rs rss)
  then have IH: "list_all2 (\<lambda>b rs. runs_of_arm (arm_id b) (concat rss) = rs) arms rss" by simp
  have others: "\<forall>r \<in> set (concat rss). run_arm_id r \<in> arm_id ` set arms"
    using Cons.hyps(2) by (induction arms rss rule: list_all2_induct) auto
  have "filter (\<lambda>r. run_arm_id r = arm_id a) rs = rs" using Cons.hyps(1) by simp
  moreover have "filter (\<lambda>r. run_arm_id r = arm_id a) (concat rss) = []"
    unfolding filter_empty_conv using others Cons.prems by (metis distinct.simps(2) list.simps(9) list.set_map)
  ultimately have "runs_of_arm (arm_id a) (concat (rs # rss)) = rs" by (simp add: runs_of_arm_def)
  moreover have "list_all2 (\<lambda>b rs'. runs_of_arm (arm_id b) (concat (rs # rss)) = rs') arms rss"
  proof (rule list.rel_mono_strong [OF IH])
    fix b rs' assume "b \<in> set arms" "rs' \<in> set rss" "runs_of_arm (arm_id b) (concat rss) = rs'"
    moreover from this(1) Cons.prems have "arm_id b \<noteq> arm_id a" by (auto simp: image_iff)
    ultimately show "runs_of_arm (arm_id b) (concat (rs # rss)) = rs'"
      using Cons.hyps(1) by (auto simp: runs_of_arm_def filter_empty_conv)
  qed
  ultimately show ?case by simp
qed

lemma repeated_Nil: "repeated xs = [] \<longleftrightarrow> distinct xs"
proof -
  have "repeated xs = [] \<longleftrightarrow> set (repeated xs) = {}" by simp
  also have "\<dots> \<longleftrightarrow> (\<forall>x \<in> set xs. \<not> 1 < count_list xs x)"
    unfolding repeated_def set_sort set_remdups by auto
  also have "\<dots> \<longleftrightarrow> distinct xs"
  proof (induction xs)
    case (Cons a xs)
    have "count_list xs a = 0 \<longleftrightarrow> a \<notin> set xs" by (simp add: count_list_0_iff)
    with Cons show ?case by (auto split: if_splits) 
  qed simp
  finally show ?thesis .
qed

lemma constructed_experiment:
  assumes "check_experiment x = Inr u"
  shows "distinct (map arm_id (xp_arms x))" "\<exists>a. arms_of_kind ARM_INCUMBENT x = [a]"
  using assms by (auto simp: check_experiment_def validate_experiment_arms_def arm_error_def res_bind_Inr repeated_Nil
      length_Suc_conv split: if_splits)

text \<open>What a completed experiment ran.\<close>

lemma run_arms_found:
  assumes "run_arms H x backends source w = (Inr runs, w')" "check_experiment x = Inr u"
  obtains tasks where "source (xp_dataset x) (xp_partition x) = Inr tasks"
    and "list_all (\<lambda>a. \<exists>b v v'. map_of backends (arm_id a) = Some b
           \<and> run_arm H x a b tasks v = (Inr (runs_of_arm (arm_id a) runs), v')) (xp_arms x)"
proof -
  from assms(1) obtain tasks rss where t: "source (xp_dataset x) (xp_partition x) = Inr tasks"
    and rss: "op_collect (\<lambda>a. op_bind (op_lift (arm_backend backends a)) (\<lambda>b. run_arm H x a b tasks)) (xp_arms x) w = (Inr rss, w')"
    and runs: "runs = concat rss"
    by (cases "validate_backends x backends"; cases "source (xp_dataset x) (xp_partition x)")
      (auto simp: run_arms_def op_then_def op_bind_def op_lift_def op_return_def split: prod.splits sum.splits)
  have each: "list_all2 (\<lambda>a rs. \<exists>b v v'. map_of backends (arm_id a) = Some b \<and> run_arm H x a b tasks v = (Inr rs, v')) (xp_arms x) rss"
    by (rule list_all2_mono [OF op_collect_all2 [OF rss]])
      (auto simp: arm_backend_def op_raise_def split: option.splits)
  have "list_all2 (\<lambda>a rs. \<forall>r \<in> set rs. run_arm_id r = arm_id a) (xp_arms x) rss"
    by (rule list_all2_mono [OF each]) (auto dest: run_arm_design(2))
  from runs_of_arm_concat [OF this constructed_experiment(1) [OF assms(2)]]
  have "list_all2 (\<lambda>a rs. runs_of_arm (arm_id a) runs = rs) (xp_arms x) rss" by (simp add: runs)
  with each have "list_all2 (\<lambda>a rs. runs_of_arm (arm_id a) runs = rs \<and> (\<exists>b v v'. map_of backends (arm_id a) = Some b
      \<and> run_arm H x a b tasks v = (Inr rs, v'))) (xp_arms x) rss"
    by (auto simp: list_all2_conv_all_nth)
  then have "list_all (\<lambda>a. \<exists>b v v'. map_of backends (arm_id a) = Some b
           \<and> run_arm H x a b tasks v = (Inr (runs_of_arm (arm_id a) runs), v')) (xp_arms x)"
    by (fastforce simp: list_all_length list_all2_conv_all_nth)
  with t that show thesis by blast
qed

section \<open>Summaries and comparisons of a completed experiment\<close>

lemma build_summary:
  "build_arm_summary sqrt_of i k n runs = Inr s \<Longrightarrow>
     as_runs s = runs \<and> runs \<noteq> [] \<and> task_scores runs = Inr (as_task_scores s)"
  by (auto simp: build_arm_summary_def statistics_error_def res_bind_Inr split: if_splits)

lemma entry_keys: "list_all2 (\<lambda>a (i, v). i = key a \<and> P a i v) xs entries \<Longrightarrow> map fst entries = map key xs"
  by (induction xs entries rule: list_all2_induct) auto

lemma entry_of:
  "list_all2 (\<lambda>a (i, v). i = key a \<and> P a i v) xs entries \<Longrightarrow> a \<in> set xs \<Longrightarrow> \<exists>v. (key a, v) \<in> set entries \<and> P a (key a) v"
  by (induction xs entries rule: list_all2_induct) auto

lemma entry_from:
  "list_all2 (\<lambda>a (i, v). i = key a \<and> P a i v) xs entries \<Longrightarrow> (i, v) \<in> set entries \<Longrightarrow> \<exists>a \<in> set xs. i = key a \<and> P a i v"
  by (induction xs entries rule: list_all2_induct) auto

lemma map_of_keyed: "map_of (map (\<lambda>(i, v). (i, f i v)) kvs) k = map_option (f k) (map_of kvs k)"
  by (induction kvs) auto

lemma summarize_found:
  assumes "summarize_experiment rng sqrt_of x runs = Inr r" "check_experiment x = Inr u"
  obtains inc where "incumbent_arm x = Inr inc" "inc \<in> set (xp_arms x)"
    "er_task_ids r = dedupe (map run_task_id (runs_of_arm (arm_id inc) runs))"
    "list_all2 (\<lambda>a (i, s). i = arm_id a \<and> as_runs s = runs_of_arm i runs \<and> as_runs s \<noteq> []
       \<and> task_scores (runs_of_arm i runs) = Inr (as_task_scores s)) (xp_arms x) (er_primary r)"
    "\<And>b. b \<in> set (candidate_arms x) \<Longrightarrow> \<exists>c sa sb xs ys alpha. map_of (er_delta r) (arm_id b) = Some c
       \<and> find_summary (er_primary r) (arm_id inc) = Inr sa \<and> find_summary (er_primary r) (arm_id b) = Inr sb
       \<and> aligned_scores sa (er_task_ids r) = Inr xs \<and> aligned_scores sb (er_task_ids r) = Inr ys
       \<and> paired_bootstrap rng xs ys (xp_bootstrap_iterations x) alpha (xp_bootstrap_seed x) = Inr (cmp_bootstrap c)"
proof -
  let ?ids = "\<lambda>inc. dedupe (map run_task_id (runs_of_arm (arm_id inc) runs))"
  from assms(1) obtain primary inc sa xs alpha bs where
    primary: "res_map (arm_entry sqrt_of x runs) (xp_arms x) = Inr primary" and inc: "incumbent_arm x = Inr inc"
    and sa: "find_summary primary (arm_id inc) = Inr sa" and xs: "aligned_scores sa (?ids inc) = Inr xs"
    and bs: "res_map (bootstrap_entry rng x primary (?ids inc) xs alpha) (candidate_arms x) = Inr bs"
    and r: "er_task_ids r = ?ids inc" "er_primary r = primary"
      "er_delta r = map (\<lambda>(i, b). (i, \<lparr>cmp_arm_id = i, cmp_bootstrap = b, cmp_adjusted_p_value =
         the (map_of (holm_adjusted_p_values (map (\<lambda>(i, b). (i, p_value b)) bs)) i)\<rparr>)) bs"
    by (auto simp: summarize_experiment_def statistics_error_def res_bind_Inr Let_def split: if_splits)
  have "inc \<in> set (arms_of_kind ARM_INCUMBENT x)" using inc by (auto simp: incumbent_arm_def split: list.splits)
  then have member: "inc \<in> set (xp_arms x)" by (simp add: arms_of_kind_def)
  have entries: "list_all2 (\<lambda>a (i, s). i = arm_id a \<and> as_runs s = runs_of_arm i runs \<and> as_runs s \<noteq> []
       \<and> task_scores (runs_of_arm i runs) = Inr (as_task_scores s)) (xp_arms x) (er_primary r)"
    by (rule list_all2_mono [OF primary [unfolded res_map_all2, folded r(2)]])
      (auto simp: arm_entry_def res_bind_Inr dest!: build_summary)
  have boots: "list_all2 (\<lambda>a (i, b). i = arm_id a \<and> (\<exists>sb ys. find_summary primary i = Inr sb
      \<and> aligned_scores sb (?ids inc) = Inr ys
      \<and> paired_bootstrap rng xs ys (xp_bootstrap_iterations x) alpha (xp_bootstrap_seed x) = Inr b)) (candidate_arms x) bs"
    by (rule list_all2_mono [OF bs [unfolded res_map_all2]]) (auto simp: bootstrap_entry_def res_bind_Inr)
  have dist: "distinct (map fst bs)"
  proof -
    have "map fst bs = map arm_id (candidate_arms x)" by (rule entry_keys [OF boots])
    then show ?thesis using constructed_experiment(1) [OF assms(2)]
      by (simp add: candidate_arms_def distinct_map_filter)
  qed
  have each: "\<exists>c sa sb xs ys alpha. map_of (er_delta r) (arm_id b) = Some c
       \<and> find_summary (er_primary r) (arm_id inc) = Inr sa \<and> find_summary (er_primary r) (arm_id b) = Inr sb
       \<and> aligned_scores sa (er_task_ids r) = Inr xs \<and> aligned_scores sb (er_task_ids r) = Inr ys
       \<and> paired_bootstrap rng xs ys (xp_bootstrap_iterations x) alpha (xp_bootstrap_seed x) = Inr (cmp_bootstrap c)"
    if b: "b \<in> set (candidate_arms x)" for b
  proof -
    from entry_of [OF boots b] obtain p sb ys where sb: "(arm_id b, p) \<in> set bs" "find_summary primary (arm_id b) = Inr sb"
      "aligned_scores sb (?ids inc) = Inr ys"
      "paired_bootstrap rng xs ys (xp_bootstrap_iterations x) alpha (xp_bootstrap_seed x) = Inr p" by blast
    from sb(1) dist have "map_of bs (arm_id b) = Some p" by simp
    then have "map_of (er_delta r) (arm_id b) = Some \<lparr>cmp_arm_id = arm_id b, cmp_bootstrap = p, cmp_adjusted_p_value =
         the (map_of (holm_adjusted_p_values (map (\<lambda>(i, b). (i, p_value b)) bs)) (arm_id b))\<rparr>"
      unfolding r(3) map_of_keyed by simp
    moreover have "find_summary (er_primary r) (arm_id inc) = Inr sa" "find_summary (er_primary r) (arm_id b) = Inr sb"
      "aligned_scores sa (er_task_ids r) = Inr xs" "aligned_scores sb (er_task_ids r) = Inr ys"
      using sa sb xs r by simp_all
    ultimately show ?thesis using sb(4) by (intro exI conjI) (assumption, simp_all)
  qed
  show thesis by (rule that [OF inc member r(1) entries each])
qed

text \<open>Every arm of an experiment that ran ran the same cells, in the same order, with the same seeds and under the one budget of the
  experiment.\<close>

theorem arms_are_matched:
  assumes "run_experiment H rng sqrt_of x backends source w = (Inr r, w')" "new_experiment x = Inr x"
  shows "budgets_are_matched r \<and> map fst (er_primary r) = map arm_id (xp_arms x) \<and>
    (\<exists>budget tasks. experiment_budget x = Inr budget \<and> source (xp_dataset x) (xp_partition x) = Inr tasks
       \<and> list_all (\<lambda>(i, s). map cell_of (as_runs s) = design_of H x budget tasks) (er_primary r))"
proof -
  have ok: "\<exists>u. check_experiment x = Inr u" using assms(2) by (auto simp: new_experiment_def res_bind_Inr)
  from assms(1) obtain runs where runs: "run_arms H x backends source w = (Inr runs, w')"
    and sum: "summarize_experiment rng sqrt_of x runs = Inr r"
    by (auto simp: run_experiment_def op_bind_def op_lift_def split: prod.splits sum.splits)
  from ok obtain u where u: "check_experiment x = Inr u" ..
  obtain tasks where tasks: "source (xp_dataset x) (xp_partition x) = Inr tasks"
    and arms: "list_all (\<lambda>a. \<exists>b v v'. map_of backends (arm_id a) = Some b
           \<and> run_arm H x a b tasks v = (Inr (runs_of_arm (arm_id a) runs), v')) (xp_arms x)"
    by (rule run_arms_found [OF runs u])
  obtain inc where inc: "inc \<in> set (xp_arms x)" and entries: "list_all2 (\<lambda>a (i, s). i = arm_id a
       \<and> as_runs s = runs_of_arm i runs \<and> as_runs s \<noteq> []
       \<and> task_scores (runs_of_arm i runs) = Inr (as_task_scores s)) (xp_arms x) (er_primary r)"
    by (rule summarize_found [OF sum u])
  from arms inc obtain budget where budget: "experiment_budget x = Inr budget"
    by (fastforce simp: list_all_iff dest: run_arm_design(1))
  have design: "map cell_of (runs_of_arm (arm_id a) runs) = design_of H x budget tasks" if "a \<in> set (xp_arms x)" for a
    using arms that budget by (fastforce simp: list_all_iff dest: run_arm_design(1))
  have keys: "map fst (er_primary r) = map arm_id (xp_arms x)"
    by (rule entry_keys [OF entries])
  have all: "\<forall>(i, s) \<in> set (er_primary r). map cell_of (as_runs s) = design_of H x budget tasks \<and> as_runs s \<noteq> []"
  proof clarify
    fix i s assume "(i, s) \<in> set (er_primary r)"
    from entry_from [OF entries this] design
    show "map cell_of (as_runs s) = design_of H x budget tasks \<and> as_runs s \<noteq> []" by auto
  qed
  have budgets: "run_budget q = budget" if "(i, s) \<in> set (er_primary r)" "q \<in> set (as_runs s)" for i s q
  proof -
    have "map cell_of (as_runs s) = design_of H x budget tasks" using all that(1) by blast
    then have "cell_of q \<in> set (design_of H x budget tasks)" using that(2) by (metis list.set_map imageI)
    then show ?thesis by (auto simp: design_of_def cell_of_def)
  qed
  obtain i s where first: "(i, s) \<in> set (er_primary r)" using entry_of [OF entries inc] by blast
  have "set (concat (map (\<lambda>(i, s). map run_budget (as_runs s)) (er_primary r))) = {budget}"
  proof
    show "set (concat (map (\<lambda>(i, s). map run_budget (as_runs s)) (er_primary r))) \<subseteq> {budget}"
      using budgets by auto
    obtain q where q: "q \<in> set (as_runs s)" using all first by (fastforce dest: last_in_set)
    have "run_budget q \<in> set (concat (map (\<lambda>(i, s). map run_budget (as_runs s)) (er_primary r)))"
      using first q by force
    then show "{budget} \<subseteq> set (concat (map (\<lambda>(i, s). map run_budget (as_runs s)) (er_primary r)))"
      using budgets [OF first q] by simp
  qed
  then have "budgets_are_matched r"
    unfolding budgets_are_matched_def by (metis card.empty card_insert_if empty_iff finite.emptyI length_remdups_card_conv One_nat_def)
  with keys budget tasks all show ?thesis by (auto simp: list_all_iff)
qed

section \<open>Arms that behave alike\<close>






















definition demo_harness :: "unit harness" where
  "demo_harness = \<lparr>hn_new_clock = \<lambda>w. w, hn_now = \<lambda>w. (0, w), hn_str = \<lambda>_. [], hn_type_name = \<lambda>_. [], hn_hash = \<lambda>_. 7\<rparr>"

definition demo_backend :: "unit backend" where
  "demo_backend rq = (\<lambda>(m, w). (Inr \<lparr>rp_claimed_success = True, rp_input_tokens = 0, rp_output_tokens = 0,
     rp_tool_calls = 0, rp_wall_clock_s = 0, rp_output = []\<rparr>, (m, w)))"

definition demo_arm :: "string \<Rightarrow> arm_kind \<Rightarrow> arm" where
  "demo_arm i kind = \<lparr>arm_id = i, arm_kind_of = kind, arm_max_attempts = 1, arm_component_id = None, arm_editor_ref = None\<rparr>"

definition demo_experiment :: eval_experiment where
  "demo_experiment = \<lparr>xp_name = ''e'', xp_dataset = ''d'', xp_budget_profile = ''task-budget-v1'',
     xp_arms = [demo_arm ''i'' ARM_INCUMBENT, demo_arm ''s'' ARM_STRATEGY], xp_seeds = 3, xp_partition = DEV,
     xp_alpha = 1/20, xp_multiplicity = BONFERRONI, xp_bootstrap_iterations = 200, xp_bootstrap_seed = 1,
     xp_ablation_family = [], xp_metadata = []\<rparr>"

definition demo_source :: task_source where
  "demo_source dataset kind = Inr [\<lparr>et_id = ''t'', et_prompt = [], et_metadata = []\<rparr>]"

abbreviation demo_outcome where
  "demo_outcome \<equiv> run_experiment demo_harness (\<lambda>_ _ _. 0) id demo_experiment
     [(''i'', demo_backend), (''s'', demo_backend)] demo_source ()"

lemma demo_runs: "\<exists>r w'. demo_outcome = (Inr r, w')"
proof -
  let ?arms = "run_arms demo_harness demo_experiment [(''i'', demo_backend), (''s'', demo_backend)] demo_source ()"
  let ?scores = "\<lambda>primary i. res_bind (find_summary primary i) (\<lambda>s. aligned_scores s [''t''])"
  have "case ?arms of (Inr runs, w') \<Rightarrow>
      filter (\<lambda>r. run_arm_id r \<notin> set (map arm_id (xp_arms demo_experiment))) runs = []
      \<and> dedupe (map run_task_id (runs_of_arm ''i'' runs)) = [''t'']
      \<and> (case res_map (arm_entry id demo_experiment runs) (xp_arms demo_experiment) of
           Inr primary \<Rightarrow> ?scores primary ''i'' = Inr [1] \<and> ?scores primary ''s'' = Inr [1]
         | Inl e \<Rightarrow> False)
    | (Inl e, w') \<Rightarrow> False" by code_simp
  then obtain runs w' primary si ss where runs: "?arms = (Inr runs, w')"
    and known: "filter (\<lambda>r. run_arm_id r \<notin> set (map arm_id (xp_arms demo_experiment))) runs = []"
    and ids: "dedupe (map run_task_id (runs_of_arm ''i'' runs)) = [''t'']"
    and primary: "res_map (arm_entry id demo_experiment runs) (xp_arms demo_experiment) = Inr primary"
    and scores: "find_summary primary ''i'' = Inr si" "aligned_scores si [''t''] = Inr [1]"
      "find_summary primary ''s'' = Inr ss" "aligned_scores ss [''t''] = Inr [1]"
    by (auto simp: res_bind_Inr split: prod.splits sum.splits)
  obtain p where p: "paired_bootstrap (\<lambda>_ _ _. 0) [1] [1] 200 (1/20) 1 = Inr p"
    using bootstrap_returns [of 200 "1/20" "[1]" "[1]"] by auto
  have inc: "incumbent_arm demo_experiment = Inr (demo_arm ''i'' ARM_INCUMBENT)"
    and cand: "candidate_arms demo_experiment = [demo_arm ''s'' ARM_STRATEGY]"
    by (simp_all add: incumbent_arm_def arms_of_kind_def candidate_arms_def demo_experiment_def demo_arm_def)
  have alpha: "per_comparison_alpha (xp_alpha demo_experiment) 1 (xp_multiplicity demo_experiment) = Inr (1/20)"
    by (simp add: per_comparison_alpha_def demo_experiment_def)
  have fixed: "xp_bootstrap_iterations demo_experiment = 200" "xp_bootstrap_seed demo_experiment = 1"
    by (simp_all add: demo_experiment_def)
  have "\<exists>r. summarize_experiment (\<lambda>_ _ _. 0) id demo_experiment runs = Inr r"
    unfolding summarize_experiment_def using known primary inc cand alpha scores ids
    by (simp add: Let_def demo_arm_def bootstrap_entry_def fixed p)
  with runs show ?thesis by (auto simp: run_experiment_def op_bind_def op_lift_def)
qed

lemma demo_constructed: "new_experiment demo_experiment = Inr demo_experiment"
proof -
  have "check_experiment demo_experiment = Inr ()" by code_simp
  then show ?thesis by (simp add: new_experiment_def)
qed



lemma arms_are_matched_witness: "\<exists>r w'. demo_outcome = (Inr r, w') \<and> budgets_are_matched r"
proof -
  obtain r w' where r: "demo_outcome = (Inr r, w')" using demo_runs by blast
  from arms_are_matched [OF this demo_constructed] r show ?thesis by blast
qed

end
