(* ===== verification/RecursiveEvidence.thy ===== *)
theory RecursiveEvidence
  imports PromotionPolicy ExperimentResults
begin

text \<open>
  Assembling the evidence of a recursive claim from the results of two generations
  (\<^verbatim>\<open>selection/recursive_evidence.py\<close>). What \<^verbatim>\<open>json.dumps\<close> writes for a number that is not finite has no
  JSON value and is an argument of the canonical form. The lemmas compute Holm's adjustment of the
  smallest p-value of a family and show which family the code adjusts in.
\<close>

section \<open>Comparisons\<close>

record arm_pair_comparison =
  pc_candidate_arm_id :: string
  pc_baseline_arm_id :: string
  pc_bootstrap :: paired_bootstrap_result
  pc_adjusted_p_value :: rat

definition pair_delta :: "arm_pair_comparison \<Rightarrow> rat" where
  "pair_delta c = observed_delta (pc_bootstrap c)"

definition pair_is_improvement :: "arm_pair_comparison \<Rightarrow> bool" where
  "pair_is_improvement c \<longleftrightarrow> bootstrap_verdict (pc_bootstrap c) = IMPROVEMENT"

definition comparison_json :: "arm_pair_comparison \<Rightarrow> json" where
  "comparison_json c = JObj
     [(''candidate_arm_id'', JStr (pc_candidate_arm_id c)), (''baseline_arm_id'', JStr (pc_baseline_arm_id c)),
      (''observed_delta'', JFloat (pair_delta c)), (''ci_low'', JFloat (ci_low (pc_bootstrap c))),
      (''ci_high'', JFloat (ci_high (pc_bootstrap c))), (''p_value'', JFloat (p_value (pc_bootstrap c))),
      (''adjusted_p_value'', JFloat (pc_adjusted_p_value c)), (''n_pairs'', JInt (int (n_pairs (pc_bootstrap c)))),
      (''seed'', JInt (pb_seed (pc_bootstrap c)))]"

record evidence_assembly =
  ea_evidence :: recursive_claim_evidence
  ea_strategy_gain :: arm_pair_comparison
  ea_fixed_editor_comparison :: "arm_pair_comparison option"
  ea_one_shot_comparison :: "arm_pair_comparison option"

section \<open>The canonical form\<close>

definition number_json :: "json \<Rightarrow> py_number option \<Rightarrow> json" where
  "number_json special v = (case v of None \<Rightarrow> JNull | Some (Finite q) \<Rightarrow> JFloat q | Some Non_Finite \<Rightarrow> special)"

definition canonical_evidence_dict :: "json \<Rightarrow> recursive_claim_evidence \<Rightarrow> json_object" where
  "canonical_evidence_dict special ev =
     [(''successive_promoted_generations'', JBool (successive_promoted_generations ev)),
      (''shared_error_budget'', JBool (shared_error_budget ev)),
      (''causal_inheritance'', JBool (causal_inheritance ev)),
      (''matched_compute_one_shot_advantage'', JBool (matched_compute_one_shot_advantage ev)),
      (''no_inheritance_control_arm'', JBool (no_inheritance_control_arm ev)),
      (''fixed_editor_control_arm'', JBool (fixed_editor_control_arm ev)),
      (''fixed_editor_advantage'', number_json special (fixed_editor_advantage ev)),
      (''fixed_editor_minimum_effect'', number_json special (fixed_editor_minimum_effect ev)),
      (''fixed_editor_holm_significant'', JBool (fixed_editor_holm_significant ev))]"

definition evidence_digest :: "('k, 'b) crypto \<Rightarrow> json \<Rightarrow> recursive_claim_evidence \<Rightarrow> string" where
  "evidence_digest C special ev = sha256_digest C (canonical_json C (JObj (canonical_evidence_dict special ev)))"

definition to_request_payload :: "json \<Rightarrow> evidence_assembly \<Rightarrow> json" where
  "to_request_payload special asm = JObj
     [(''evidence'', JObj (canonical_evidence_dict special (ea_evidence asm))),
      (''provenance'', JObj
        [(''strategy_gain'', comparison_json (ea_strategy_gain asm)),
         (''fixed_editor_comparison'',
            case ea_fixed_editor_comparison asm of None \<Rightarrow> JNull | Some c \<Rightarrow> comparison_json c),
         (''one_shot_comparison'',
            case ea_one_shot_comparison asm of None \<Rightarrow> JNull | Some c \<Rightarrow> comparison_json c)])]"

section \<open>Assembling\<close>

definition assembly_error :: "string \<Rightarrow> exn + 'a" where
  "assembly_error why = Inl (Selection (EvidenceAssemblyError why))"

definition single_arm :: "experiment_result \<Rightarrow> arm_kind \<Rightarrow> exn + arm" where
  "single_arm r kind =
     (case arms_of_kind kind (er_experiment r) of [a] \<Rightarrow> Inr a | _ \<Rightarrow> assembly_error ''must name exactly one arm'')"

definition optional_arm :: "experiment_result \<Rightarrow> arm_kind \<Rightarrow> exn + arm option" where
  "optional_arm r kind =
     (case arms_of_kind kind (er_experiment r) of
        [] \<Rightarrow> Inr None | [a] \<Rightarrow> Inr (Some a) | _ \<Rightarrow> assembly_error ''an ambiguous control fails closed'')"

definition single_arm_summary :: "experiment_result \<Rightarrow> arm \<Rightarrow> exn + arm_summary" where
  "single_arm_summary r a =
     (case map_of (er_primary r) (arm_id a) of
        None \<Rightarrow> assembly_error ''has no recorded summary'' | Some s \<Rightarrow> Inr s)"

definition comparison_from_delta :: "experiment_result \<Rightarrow> arm \<Rightarrow> exn + arm_pair_comparison" where
  "comparison_from_delta r a =
     (case map_of (er_delta r) (arm_id a) of
        None \<Rightarrow> assembly_error ''has no paired comparison''
      | Some c \<Rightarrow> res_bind (incumbent_arm (er_experiment r)) (\<lambda>inc.
          Inr \<lparr>pc_candidate_arm_id = arm_id a, pc_baseline_arm_id = arm_id inc, pc_bootstrap = cmp_bootstrap c,
               pc_adjusted_p_value = cmp_adjusted_p_value c\<rparr>))"

definition delta_vs_incumbent :: "experiment_result \<Rightarrow> arm \<Rightarrow> exn + rat" where
  "delta_vs_incumbent r a = res_bind (comparison_from_delta r a) (\<lambda>c. Inr (pair_delta c))"

text \<open>The raw p-values of the experiment's own comparisons, keyed by arm.\<close>

definition delta_p_values :: "experiment_result \<Rightarrow> (string, rat) dict" where
  "delta_p_values r = map (\<lambda>(i, c). (i, p_value (cmp_bootstrap c))) (er_delta r)"

definition holm_significance :: "experiment_result \<Rightarrow> arm \<Rightarrow> paired_bootstrap_result \<Rightarrow> exn + rat" where
  "holm_significance r candidate b =
     (let family = AList.update (arm_id candidate) (p_value b) (delta_p_values r)
      in case map_of (holm_adjusted_p_values family) (arm_id candidate) of
           None \<Rightarrow> Inl (KeyError (arm_id candidate)) | Some q \<Rightarrow> Inr q)"

definition paired_comparison ::
  "randrange \<Rightarrow> experiment_result \<Rightarrow> arm \<Rightarrow> arm \<Rightarrow> rat \<Rightarrow> exn + arm_pair_comparison" where
  "paired_comparison rng r baseline candidate alpha =
     (let x = er_experiment r in
      res_bind (single_arm_summary r baseline) (\<lambda>bs. res_bind (single_arm_summary r candidate) (\<lambda>cs.
      res_bind (per_comparison_alpha alpha (int (length (candidate_arms x))) (xp_multiplicity x)) (\<lambda>comparison_alpha.
      res_bind (aligned_scores bs (er_task_ids r)) (\<lambda>base. res_bind (aligned_scores cs (er_task_ids r)) (\<lambda>cand.
      res_bind (paired_bootstrap rng base cand (xp_bootstrap_iterations x) comparison_alpha (xp_bootstrap_seed x)) (\<lambda>b.
      res_bind (holm_significance r candidate b) (\<lambda>q.
        Inr \<lparr>pc_candidate_arm_id = arm_id candidate, pc_baseline_arm_id = arm_id baseline, pc_bootstrap = b,
             pc_adjusted_p_value = q\<rparr>))))))))"

definition optional_comparison ::
  "randrange \<Rightarrow> experiment_result \<Rightarrow> arm option \<Rightarrow> arm \<Rightarrow> rat \<Rightarrow> exn + arm_pair_comparison option" where
  "optional_comparison rng r baseline candidate alpha =
     (case baseline of
        None \<Rightarrow> Inr None
      | Some b \<Rightarrow> res_bind (paired_comparison rng r b candidate alpha) (\<lambda>c. Inr (Some c)))"

definition shares_error_budget :: "experiment_result \<Rightarrow> experiment_result \<Rightarrow> exn + bool" where
  "shares_error_budget g1 g2 =
     (if budgets_are_matched g1 \<and> budgets_are_matched g2
         \<and> xp_budget_profile (er_experiment g1) = xp_budget_profile (er_experiment g2)
      then res_bind (experiment_budget (er_experiment g1)) (\<lambda>b1.
             res_bind (experiment_budget (er_experiment g2)) (\<lambda>b2. Inr (b1 = b2)))
      else Inr False)"

definition beats_control :: "experiment_result \<Rightarrow> arm option \<Rightarrow> arm_pair_comparison \<Rightarrow> exn + bool" where
  "beats_control g2 one_shot gain =
     (case one_shot of None \<Rightarrow> Inr False
      | Some a \<Rightarrow> res_bind (delta_vs_incumbent g2 a) (\<lambda>d. Inr (d < pair_delta gain)))"

definition assemble_recursive_claim_evidence ::
  "randrange \<Rightarrow> experiment_result \<Rightarrow> experiment_result \<Rightarrow> string option \<Rightarrow> string option \<Rightarrow> string \<Rightarrow> py_number option
     \<Rightarrow> exn + evidence_assembly" where
  "assemble_recursive_claim_evidence rng g1 g2 promoted1 promoted2 incumbent_digest minimum_effect =
     (let alpha = xp_alpha (er_experiment g2) in
      res_bind (single_arm g2 ARM_STRATEGY) (\<lambda>strategy.
      res_bind (optional_arm g2 ARM_FIXED_EDITOR) (\<lambda>fixed_editor.
      res_bind (optional_arm g2 ARM_ONE_SHOT_CONTROL) (\<lambda>one_shot.
      res_bind (comparison_from_delta g2 strategy) (\<lambda>gain.
      res_bind (optional_comparison rng g2 fixed_editor strategy alpha) (\<lambda>editor_comparison.
      res_bind (optional_comparison rng g2 one_shot strategy alpha) (\<lambda>one_shot_comparison.
      res_bind (shares_error_budget g1 g2) (\<lambda>shared.
      res_bind (beats_control g2 one_shot gain) (\<lambda>control.
        Inr \<lparr>ea_evidence =
               \<lparr>successive_promoted_generations = promoted1 \<noteq> None \<and> promoted2 \<noteq> None \<and> promoted2 \<noteq> promoted1,
                shared_error_budget = shared,
                causal_inheritance = promoted1 = Some incumbent_digest \<and> pair_is_improvement gain,
                matched_compute_one_shot_advantage =
                  (case one_shot_comparison of None \<Rightarrow> False
                   | Some c \<Rightarrow> budgets_are_matched g2 \<and> pair_is_improvement c),
                no_inheritance_control_arm = control,
                fixed_editor_control_arm = fixed_editor \<noteq> None,
                fixed_editor_advantage = map_option (\<lambda>c. Finite (pair_delta c)) editor_comparison,
                fixed_editor_minimum_effect = minimum_effect,
                fixed_editor_holm_significant =
                  (case editor_comparison of None \<Rightarrow> False | Some c \<Rightarrow> pc_adjusted_p_value c < alpha)\<rparr>,
             ea_strategy_gain = gain, ea_fixed_editor_comparison = editor_comparison,
             ea_one_shot_comparison = one_shot_comparison\<rparr>)))))))))"

section \<open>Which family the code adjusts in\<close>

text \<open>Holm's adjustment of a p-value that is smaller than every other.\<close>

lemma holm_of_least:
  assumes "dict_ok d" "(k, p) \<in> set d" "0 \<le> p" "\<forall>(k', q) \<in> set d. k' \<noteq> k \<longrightarrow> p < q"
  shows "map_of (holm_adjusted_p_values d) k = Some (min 1 (of_nat (length d) * p))"
proof -
  have ne: "d \<noteq> []" using assms(2) by auto
  then have "sort_key snd d \<noteq> []" by (simp flip: length_greater_0_conv)
  then obtain y ys where ys: "sort_key snd d = y # ys" by (cases "sort_key snd d") auto
  have "(k, p) \<in> set (sort_key snd d)" using assms(2) by simp
  moreover have "sorted (map snd (y # ys))" using sorted_sort_key [of snd d] ys by simp
  ultimately have le: "snd y \<le> p" unfolding ys by auto
  have "y \<in> set d" using ys by (metis list.set_intros(1) set_sort)
  moreover have "fst y = k"
  proof (rule ccontr)
    assume "fst y \<noteq> k"
    with bspec [OF assms(4) \<open>y \<in> set d\<close>] have "p < snd y" by (simp add: case_prod_unfold)
    with le show False by simp
  qed
  ultimately have "(k, snd y) \<in> set d" by (metis prod.collapse)
  with assms(1,2) have "snd y = p" unfolding dict_ok_def by (metis eq_key_imp_eq_value)
  with \<open>fst y = k\<close> have "y = (k, p)" by (cases y) simp
  with ne show ?thesis using assms(3) by (simp add: holm_adjusted_p_values_def ys max_def Let_def)
qed

lemma length_update_present: "k \<in> set (map fst d) \<Longrightarrow> length (AList.update k v d) = length d"
  by (induction d) (auto split: if_splits)

lemma holm_significance_least:
  assumes "dict_ok (er_delta r)" "arm_id a \<in> set (map fst (er_delta r))" "0 \<le> p_value b"
    and "\<forall>(i, c) \<in> set (er_delta r). i \<noteq> arm_id a \<longrightarrow> p_value b < p_value (cmp_bootstrap c)"
  shows "holm_significance r a b = Inr (min 1 (of_nat (length (er_delta r)) * p_value b))"
proof -
  let ?d = "delta_p_values r" and ?f = "AList.update (arm_id a) (p_value b) (delta_p_values r)"
  have keys: "map fst ?d = map fst (er_delta r)" by (simp add: delta_p_values_def comp_def case_prod_unfold)
  have ok: "dict_ok ?f" using assms(1) keys by (simp add: dict_ok_def distinct_update)
  have "map_of ?f (arm_id a) = Some (p_value b)" by (simp add: update_conv')
  then have "(arm_id a, p_value b) \<in> set ?f" by (rule map_of_SomeD)
  moreover have "\<forall>(k, q) \<in> set ?f. k \<noteq> arm_id a \<longrightarrow> p_value b < q"
  proof clarify
    fix k q assume "(k, q) \<in> set ?f" and k: "k \<noteq> arm_id a"
    then have "map_of ?f k = Some q" using ok by (simp add: dict_ok_def)
    then have "map_of ?d k = Some q" using k by (simp add: update_conv')
    then have "(k, q) \<in> set ?d" by (rule map_of_SomeD)
    then show "p_value b < q" using assms(4) k by (auto simp: delta_p_values_def)
  qed
  moreover have "length ?f = length (er_delta r)"
    using length_update_present [of "arm_id a" ?d] assms(2) keys by (simp add: delta_p_values_def)
  ultimately show ?thesis using holm_of_least [OF ok _ assms(3), where k = "arm_id a"]
    by (simp add: holm_significance_def)
qed

section \<open>What an assembly measured\<close>

lemma assembled:
  assumes "assemble_recursive_claim_evidence rng g1 g2 d1 d2 inc me = Inr asm"
  obtains s fe os shared control where
    "single_arm g2 ARM_STRATEGY = Inr s" "optional_arm g2 ARM_FIXED_EDITOR = Inr fe"
    "optional_arm g2 ARM_ONE_SHOT_CONTROL = Inr os" "comparison_from_delta g2 s = Inr (ea_strategy_gain asm)"
    "optional_comparison rng g2 fe s (xp_alpha (er_experiment g2)) = Inr (ea_fixed_editor_comparison asm)"
    "optional_comparison rng g2 os s (xp_alpha (er_experiment g2)) = Inr (ea_one_shot_comparison asm)"
    "shares_error_budget g1 g2 = Inr shared" "beats_control g2 os (ea_strategy_gain asm) = Inr control"
    "ea_evidence asm = \<lparr>successive_promoted_generations = d1 \<noteq> None \<and> d2 \<noteq> None \<and> d2 \<noteq> d1,
       shared_error_budget = shared, causal_inheritance = d1 = Some inc \<and> pair_is_improvement (ea_strategy_gain asm),
       matched_compute_one_shot_advantage = (case ea_one_shot_comparison asm of None \<Rightarrow> False
          | Some c \<Rightarrow> budgets_are_matched g2 \<and> pair_is_improvement c),
       no_inheritance_control_arm = control, fixed_editor_control_arm = fe \<noteq> None,
       fixed_editor_advantage = map_option (\<lambda>c. Finite (pair_delta c)) (ea_fixed_editor_comparison asm),
       fixed_editor_minimum_effect = me,
       fixed_editor_holm_significant = (case ea_fixed_editor_comparison asm of None \<Rightarrow> False
          | Some c \<Rightarrow> pc_adjusted_p_value c < xp_alpha (er_experiment g2))\<rparr>"
  using assms unfolding assemble_recursive_claim_evidence_def Let_def res_bind_Inr by auto

lemma single_arm_kind: "single_arm r kind = Inr a \<Longrightarrow> arms_of_kind kind (er_experiment r) = [a]"
  by (auto simp: single_arm_def assembly_error_def split: list.splits)

lemma paired_comparison_fields:
  assumes "paired_comparison rng r baseline candidate alpha = Inr c"
  shows "pc_candidate_arm_id c = arm_id candidate" "pc_baseline_arm_id c = arm_id baseline"
    "holm_significance r candidate (pc_bootstrap c) = Inr (pc_adjusted_p_value c)" "0 \<le> p_value (pc_bootstrap c)"
proof -
  from assms show "pc_candidate_arm_id c = arm_id candidate" "pc_baseline_arm_id c = arm_id baseline"
    "holm_significance r candidate (pc_bootstrap c) = Inr (pc_adjusted_p_value c)"
    by (auto simp: paired_comparison_def Let_def res_bind_Inr)
  from assms obtain xs ys n al sd where "paired_bootstrap rng xs ys n al sd = Inr (pc_bootstrap c)"
    by (auto simp: paired_comparison_def Let_def res_bind_Inr)
  then have n: "200 \<le> n" and p: "p_value (pc_bootstrap c) = tail_p_value (bootstrap_means rng sd (deltas_of xs ys) n) n"
    by (auto simp: bootstrap_iff)
  from n have "1 / of_int n \<le> p_value (pc_bootstrap c)" unfolding p by (intro tail_p_value_range [THEN conjunct1]) simp
  moreover from n have "0 \<le> 1 / (of_int n :: rat)" by simp
  ultimately show "0 \<le> p_value (pc_bootstrap c)" by (rule order_trans [rotated])
qed

section \<open>Properties\<close>

text \<open>The fixed-editor comparison is adjusted in a family that is one member short. The strategy arm's own
  comparison with the incumbent has the same key and is overwritten, so the smallest p-value of a family
  over n candidate arms is multiplied by n, not by the n + 1 comparisons the claim rests on: the condition
  holds for every p-value with n p below alpha, also where the whole family's adjustment is not.\<close>

theorem fixed_editor_family_is_short:
  assumes "assemble_recursive_claim_evidence rng g1 g2 d1 d2 inc me = Inr asm"
    and "ea_fixed_editor_comparison asm = Some c" "dict_ok (er_delta g2)"
    and "\<forall>(i, d) \<in> set (er_delta g2). p_value (pc_bootstrap c) < p_value (cmp_bootstrap d)"
    and "fresh \<notin> set (map fst (er_delta g2))"
  shows "(fixed_editor_holm_significant (ea_evidence asm) \<longleftrightarrow>
      min 1 (of_nat (length (er_delta g2)) * p_value (pc_bootstrap c)) < xp_alpha (er_experiment g2))
    \<and> map_of (holm_adjusted_p_values ((fresh, p_value (pc_bootstrap c)) # delta_p_values g2)) fresh =
      Some (min 1 (of_nat (length (er_delta g2) + 1) * p_value (pc_bootstrap c)))"
proof -
  let ?p = "p_value (pc_bootstrap c)"
  obtain s fe where gain: "comparison_from_delta g2 s = Inr (ea_strategy_gain asm)"
    and cmp: "optional_comparison rng g2 fe s (xp_alpha (er_experiment g2)) = Inr (Some c)"
    and sig: "fixed_editor_holm_significant (ea_evidence asm) \<longleftrightarrow> pc_adjusted_p_value c < xp_alpha (er_experiment g2)"
    by (rule assembled [OF assms(1)]) (simp add: assms(2))
  from cmp obtain a where pair: "paired_comparison rng g2 a s (xp_alpha (er_experiment g2)) = Inr c"
    by (auto simp: optional_comparison_def res_bind_Inr split: option.splits)
  note fields = paired_comparison_fields [OF pair]
  have "arm_id s \<in> set (map fst (er_delta g2))"
    using gain by (force simp: comparison_from_delta_def assembly_error_def split: option.splits dest: map_of_SomeD)
  moreover have "\<forall>(i, d) \<in> set (er_delta g2). i \<noteq> arm_id s \<longrightarrow> ?p < p_value (cmp_bootstrap d)" using assms(4) by auto
  ultimately have q: "pc_adjusted_p_value c = min 1 (of_nat (length (er_delta g2)) * ?p)"
    using holm_significance_least [OF assms(3) _ fields(4)] fields(3) by simp
  let ?d = "(fresh, ?p) # delta_p_values g2"
  have keys: "map fst (delta_p_values g2) = map fst (er_delta g2)"
    by (simp add: delta_p_values_def comp_def case_prod_unfold)
  have "dict_ok ?d" using assms(3,5) by (simp add: dict_ok_def keys flip: set_map)
  moreover have "\<forall>(k, v) \<in> set ?d. k \<noteq> fresh \<longrightarrow> ?p < v" using assms(4) by (auto simp: delta_p_values_def)
  ultimately have "map_of (holm_adjusted_p_values ?d) fresh = Some (min 1 (of_nat (length ?d) * ?p))"
    using holm_of_least [OF _ _ fields(4), where k = fresh] by simp
  moreover have "length ?d = length (er_delta g2) + 1" by (simp add: delta_p_values_def)
  ultimately show ?thesis using sig q by simp
qed

lemma certain_p_value:
  assumes "\<forall>v \<in> set means. 0 < v" "1 \<le> iterations"
  shows "tail_p_value means iterations = 1 / of_int iterations"
proof -
  have "filter (\<lambda>v. v \<le> 0) means = []" using assms(1) by (auto simp: filter_empty_conv not_le)
  then show ?thesis using assms(2) by (simp add: tail_p_value_def Let_def)
qed

definition demo_summary :: "rat \<Rightarrow> arm_summary" where
  "demo_summary score = \<lparr>as_arm_id = [], as_arm_kind = [], as_budget = TASK_BUDGET_V1, as_seeds = 3,
     as_task_scores = [(''t'', score)], as_success_rate = score,
     as_variance = \<lparr>vr_per_seed_success_rate = [], vr_mean = 0, vr_stdev = 0, vr_minimum = 0, vr_maximum = 0\<rparr>,
     as_mean_input_tokens = 0, as_mean_output_tokens = 0, as_mean_tool_calls = 0, as_mean_wall_clock_s = 0,
     as_budget_exhausted_runs = 0, as_backend_error_runs = 0, as_runs = []\<rparr>"

definition demo_delta :: arm_comparison where
  "demo_delta = \<lparr>cmp_arm_id = [], cmp_bootstrap = \<lparr>observed_delta = 1, ci_low = 1, ci_high = 1, pb_alpha = 1/20,
     pb_iterations = 200, n_pairs = 1, p_value = 1/4, pb_seed = 1\<rparr>, cmp_adjusted_p_value = 1/2\<rparr>"

definition demo_result :: experiment_result where
  "demo_result = \<lparr>er_experiment = demo_experiment\<lparr>xp_alpha := 1/80,
       xp_arms := [demo_arm ''i'' ARM_INCUMBENT, demo_arm ''s'' ARM_STRATEGY, demo_arm ''f'' ARM_FIXED_EDITOR]\<rparr>,
     er_task_ids = [''t''], er_primary = [(''s'', demo_summary 1), (''f'', demo_summary 0)],
     er_delta = [(''s'', demo_delta), (''f'', demo_delta)], er_per_comparison_alpha = 1/160\<rparr>"

abbreviation demo_assembly where
  "demo_assembly \<equiv> assemble_recursive_claim_evidence (\<lambda>_ _ _. 0) demo_result demo_result None None [] None"

lemma demo_assembles:
  "\<exists>asm c. demo_assembly = Inr asm \<and> ea_fixed_editor_comparison asm = Some c \<and> p_value (pc_bootstrap c) = 1/200"
proof -
  let ?x = "er_experiment demo_result"
  obtain b where b: "paired_bootstrap (\<lambda>_ _ _. 0) [0] [1] 200 (1/160) 1 = Inr b"
    using bootstrap_returns [of 200 "1/160" "[0]" "[1]"] by auto
  have "p_value b = tail_p_value (bootstrap_means (\<lambda>_ _ _. 0) 1 (deltas_of [0] [1]) 200) 200"
    using b by (auto simp: bootstrap_iff)
  also have "\<dots> = 1 / of_int 200"
    by (rule certain_p_value) (simp_all add: bootstrap_means_def deltas_of_def resampled_mean_def)
  finally have p: "p_value b = 1/200" by simp
  have arms: "single_arm demo_result ARM_STRATEGY = Inr (demo_arm ''s'' ARM_STRATEGY)"
    "optional_arm demo_result ARM_FIXED_EDITOR = Inr (Some (demo_arm ''f'' ARM_FIXED_EDITOR))"
    "optional_arm demo_result ARM_ONE_SHOT_CONTROL = Inr None"
    by (simp_all add: single_arm_def optional_arm_def arms_of_kind_def demo_result_def demo_arm_def)
  have gain: "\<exists>g. comparison_from_delta demo_result (demo_arm ''s'' ARM_STRATEGY) = Inr g"
    by (simp add: comparison_from_delta_def demo_result_def demo_arm_def incumbent_arm_def arms_of_kind_def)
  have cmp: "\<exists>c. paired_comparison (\<lambda>_ _ _. 0) demo_result (demo_arm ''f'' ARM_FIXED_EDITOR) (demo_arm ''s'' ARM_STRATEGY)
      (xp_alpha ?x) = Inr c \<and> pc_bootstrap c = b"
  proof -
    have fixed: "xp_bootstrap_iterations ?x = 200" "xp_bootstrap_seed ?x = 1" "er_task_ids demo_result = [''t'']"
      "per_comparison_alpha (xp_alpha ?x) (int (length (candidate_arms ?x))) (xp_multiplicity ?x) = Inr (1/160)"
      by (simp_all add: demo_result_def demo_experiment_def per_comparison_alpha_def candidate_arms_def demo_arm_def)
    have sums: "single_arm_summary demo_result (demo_arm ''f'' ARM_FIXED_EDITOR) = Inr (demo_summary 0)"
      "single_arm_summary demo_result (demo_arm ''s'' ARM_STRATEGY) = Inr (demo_summary 1)"
      "aligned_scores (demo_summary q) [''t''] = Inr [q]" for q
      by (simp_all add: single_arm_summary_def demo_result_def demo_arm_def aligned_scores_def demo_summary_def)
    have "holm_significance demo_result (demo_arm ''s'' ARM_STRATEGY) b =
        Inr (min 1 (of_nat (length (er_delta demo_result)) * p_value b))"
      by (rule holm_significance_least) (simp_all add: p demo_result_def demo_delta_def demo_arm_def dict_ok_def)
    then show ?thesis by (auto simp: paired_comparison_def Let_def fixed sums b)
  qed
  have shared: "shares_error_budget demo_result demo_result = Inr False"
    by (simp add: shares_error_budget_def budgets_are_matched_def demo_result_def demo_summary_def)
  from gain obtain g where g: "comparison_from_delta demo_result (demo_arm ''s'' ARM_STRATEGY) = Inr g" ..
  from cmp obtain c where c: "paired_comparison (\<lambda>_ _ _. 0) demo_result (demo_arm ''f'' ARM_FIXED_EDITOR)
      (demo_arm ''s'' ARM_STRATEGY) (xp_alpha ?x) = Inr c" "pc_bootstrap c = b" by blast
  have "\<exists>asm. demo_assembly = Inr asm \<and> ea_fixed_editor_comparison asm = Some c"
    by (simp add: assemble_recursive_claim_evidence_def arms g optional_comparison_def c shared beats_control_def)
  with c p show ?thesis by auto
qed

lemma fixed_editor_family_witness:
  "\<exists>asm c. demo_assembly = Inr asm \<and> ea_fixed_editor_comparison asm = Some c
     \<and> fixed_editor_holm_significant (ea_evidence asm)
     \<and> map_of (holm_adjusted_p_values ((''new'', p_value (pc_bootstrap c)) # delta_p_values demo_result)) ''new'' = Some (3/200)
     \<and> xp_alpha (er_experiment demo_result) < 3/200"
proof -
  obtain asm c where c: "demo_assembly = Inr asm" "ea_fixed_editor_comparison asm = Some c" "p_value (pc_bootstrap c) = 1/200"
    using demo_assembles by blast
  have "dict_ok (er_delta demo_result)" by (simp add: demo_result_def dict_ok_def)
  moreover have "\<forall>(i, d) \<in> set (er_delta demo_result). p_value (pc_bootstrap c) < p_value (cmp_bootstrap d)"
    by (simp add: c(3) demo_result_def demo_delta_def)
  moreover have "''new'' \<notin> set (map fst (er_delta demo_result))" by (simp add: demo_result_def)
  ultimately have "(fixed_editor_holm_significant (ea_evidence asm) \<longleftrightarrow>
      min 1 (of_nat (length (er_delta demo_result)) * p_value (pc_bootstrap c)) < xp_alpha (er_experiment demo_result))
    \<and> map_of (holm_adjusted_p_values ((''new'', p_value (pc_bootstrap c)) # delta_p_values demo_result)) ''new'' =
      Some (min 1 (of_nat (length (er_delta demo_result) + 1) * p_value (pc_bootstrap c)))"
    by (rule fixed_editor_family_is_short [OF c(1,2)])
  moreover have "length (er_delta demo_result) = 2" "xp_alpha (er_experiment demo_result) = 1/80"
    by (simp_all add: demo_result_def)
  ultimately have "fixed_editor_holm_significant (ea_evidence asm)
     \<and> map_of (holm_adjusted_p_values ((''new'', p_value (pc_bootstrap c)) # delta_p_values demo_result)) ''new'' = Some (3/200)
     \<and> xp_alpha (er_experiment demo_result) < 3/200" by (simp add: c(3))
  with c(1,2) show ?thesis by blast
qed

end
