(* ===== verification/Claims.thy ===== *)
theory Claims
  imports TenantAudit RecursiveEvidence
begin

text \<open>
  Issuing a recursive-claim label (\<^verbatim>\<open>api/claims.py\<close>, \<^verbatim>\<open>db/models/claims.py\<close>): the gate decides on the
  submitted evidence, and the decision is recorded, issued or refused, in an append-only ledger beside the
  refusal ledger of the tenant plane. Each of the service's sessions is a transaction. Row ids and the clock
  are arguments. The lemmas describe every outcome of a call; the properties say what the two ledgers
  hold after any calls, and what stands behind an issued label.
\<close>

section \<open>State\<close>

record claim_decision =
  cd_decision_id :: string
  cd_tenant_id :: string
  cd_label :: string
  cd_issued :: bool
  cd_verdict_satisfied :: bool
  cd_refusal_reason :: "string option"
  cd_evidence :: json_object
  cd_evidence_digest :: string
  cd_campaign_id :: "string option"
  cd_generation1_release_digest :: "string option"
  cd_generation2_release_digest :: "string option"
  cd_actor :: string
  cd_decided_at :: instant

record claims_db =
  cl_refusals :: "refusal_row list"
  cl_decisions :: "claim_decision list"

definition empty_claims :: claims_db where
  "empty_claims = \<lparr>cl_refusals = [], cl_decisions = []\<rparr>"

text \<open>The service with its policies, the JSON library's hashing and its rendering of numbers that are not finite.\<close>

record ('k, 'b) claim_service =
  cs_crypto :: "('k, 'b) crypto"
  cs_policies :: tenant_registry
  cs_special :: json

text \<open>What one call draws: the ids of its rows and the clock.\<close>

record claim_draw =
  dr_refusal_uid :: string
  dr_decision_uid :: string
  dr_now :: instant

record claim_request =
  cr_evidence :: recursive_claim_evidence
  cr_campaign_id :: "string option"
  cr_generation1_release_digest :: "string option"
  cr_generation2_release_digest :: "string option"

section \<open>Operations\<close>

definition on_refusals :: "(exn, refusal_row list, 'a) op \<Rightarrow> (exn, claims_db, 'a) op" where
  "on_refusals = op_zoom cl_refusals (\<lambda>r s. s\<lparr>cl_refusals := r\<rparr>)"

text \<open>\<^verbatim>\<open>str(exc)\<close> of the refusal.\<close>

definition refusal_text :: "exn \<Rightarrow> string" where
  "refusal_text e = (case e of Tenancy (TenantRefusalError b r message) \<Rightarrow> message | _ \<Rightarrow> [])"

definition UNRECORDED_REASON :: string where
  "UNRECORDED_REASON = ''the recursive-improvement label was refused for an unrecorded reason''"

text \<open>The exception is caught inside the session, which then commits; after a failed flush the commit raises.\<close>

definition record_boundary_refusal ::
  "('k, 'b) claim_service \<Rightarrow> principal \<Rightarrow> string \<Rightarrow> recursive_claim_verdict \<Rightarrow> string \<Rightarrow> (exn, claims_db, string) op" where
  "record_boundary_refusal V p uid verdict actor =
     transaction (op_except
       (op_then (on_refusals (assert_recursive_label_allowed uid (pr_tenant_id p) (cs_policies V)
                   RECURSIVE_IMPROVEMENT_LABEL (Some verdict) actor))
          (op_return UNRECORDED_REASON))
       (\<lambda>e. e \<noteq> integrity_error) (\<lambda>e. op_return (refusal_text e)))"

definition new_claim_decision ::
  "('k, 'b) claim_service \<Rightarrow> principal \<Rightarrow> claim_draw \<Rightarrow> claim_request \<Rightarrow> string \<Rightarrow> bool \<Rightarrow> bool \<Rightarrow> string option \<Rightarrow> string
     \<Rightarrow> claim_decision" where
  "new_claim_decision V p dr rq label issued verdict_satisfied refusal_reason actor =
     \<lparr>cd_decision_id = new_id ''rcd'' (dr_decision_uid dr), cd_tenant_id = pr_tenant_id p, cd_label = label,
      cd_issued = issued, cd_verdict_satisfied = verdict_satisfied, cd_refusal_reason = refusal_reason,
      cd_evidence = canonical_evidence_dict (cs_special V) (cr_evidence rq),
      cd_evidence_digest = evidence_digest (cs_crypto V) (cs_special V) (cr_evidence rq),
      cd_campaign_id = cr_campaign_id rq, cd_generation1_release_digest = cr_generation1_release_digest rq,
      cd_generation2_release_digest = cr_generation2_release_digest rq, cd_actor = actor, cd_decided_at = dr_now dr\<rparr>"

definition record_claim_decision :: "claim_decision \<Rightarrow> (exn, claims_db, claim_decision) op" where
  "record_claim_decision d =
     transaction (op_then (op_require (\<lambda>s. cd_decision_id d \<notin> cd_decision_id ` set (cl_decisions s)) integrity_error)
       (op_then (op_modify (\<lambda>s. s\<lparr>cl_decisions := cl_decisions s @ [d]\<rparr>)) (op_return d)))"

definition issue_claim_label ::
  "('k, 'b) claim_service \<Rightarrow> principal \<Rightarrow> claim_draw \<Rightarrow> claim_request \<Rightarrow> (exn, claims_db, claim_decision) op" where
  "issue_claim_label V p dr rq =
     (let verdict = evaluate_recursive_claim (cr_evidence rq);
          label = claim_label (Some verdict) (policy_for (cs_policies V) (pr_tenant_id p));
          issued = (label = RECURSIVE_IMPROVEMENT_LABEL);
          actor = identity_id p
      in if \<not> issued then
           op_bind (record_boundary_refusal V p (dr_refusal_uid dr) verdict actor) (\<lambda>reason.
           op_bind (record_claim_decision (new_claim_decision V p dr rq label False (satisfied verdict) (Some reason) actor))
             (\<lambda>d. op_raise (Api (ClaimRefusedError (cd_decision_id d) reason))))
         else record_claim_decision (new_claim_decision V p dr rq label True (satisfied verdict) None actor))"

definition list_claim_decisions :: "principal \<Rightarrow> claims_db \<Rightarrow> claim_decision list" where
  "list_claim_decisions p s =
     sort_key cd_decided_at (filter (\<lambda>d. cd_tenant_id d = pr_tenant_id p) (cl_decisions s))"

definition get_claim_decision :: "principal \<Rightarrow> string \<Rightarrow> claims_db \<Rightarrow> exn + claim_decision" where
  "get_claim_decision p decision_id s =
     (case find (\<lambda>d. cd_decision_id d = decision_id) (cl_decisions s) of
        None \<Rightarrow> Inl (Api (ClaimDecisionNotFoundError decision_id))
      | Some d \<Rightarrow> if cd_tenant_id d \<noteq> pr_tenant_id p then Inl (Api (ClaimDecisionNotFoundError decision_id)) else Inr d)"

type_synonym claim_call = "principal \<times> claim_draw \<times> claim_request"

definition do_claim :: "('k, 'b) claim_service \<Rightarrow> claim_call \<Rightarrow> claims_db \<Rightarrow> claims_db" where
  "do_claim V c s = (case c of (p, dr, rq) \<Rightarrow> snd (issue_claim_label V p dr rq s))"

section \<open>The outcomes of a call\<close>

lemma label_iff:
  "claim_label (Some v) t = RECURSIVE_IMPROVEMENT_LABEL \<longleftrightarrow> satisfied v \<and> claims_enabled t"
  by (auto simp: claim_label_def ARTIFACT_OPTIMIZATION_LABEL_def RECURSIVE_IMPROVEMENT_LABEL_def)

lemma boundary_refusal_cases:
  assumes "record_boundary_refusal V p uid v actor s = (r, s')"
    and "\<not> (satisfied v \<and> claims_enabled (policy_for (cs_policies V) (pr_tenant_id p)))"
  obtains (clash) "r = Inl integrity_error" "s' = s"
  | (recorded) why row where "r = Inr why" "s' = s\<lparr>cl_refusals := cl_refusals s @ [row]\<rparr>"
      "rf_tenant_id row = pr_tenant_id p" "rf_boundary row = RECURSIVE_LABEL" "rf_actor row = actor"
proof -
  let ?check = "assert_recursive_label_allowed uid (pr_tenant_id p) (cs_policies V) RECURSIVE_IMPROVEMENT_LABEL
      (Some v) actor (cl_refusals s)"
  obtain q rows where q: "?check = (q, rows)" by fastforce
  show thesis
  proof (cases q)
    case (Inr u)
    with q assms(2) label_allowed_iff show thesis by fastforce
  next
    case (Inl e)
    with q have "?check = (Inl e, rows)" by simp
    from label_refusal_cases [OF this] show thesis
    proof
      assume "e = integrity_error \<and> rows = cl_refusals s"
      with assms(1) q Inl show thesis
        by (intro clash) (auto simp: record_boundary_refusal_def transaction_def op_except_def op_then_def op_bind_def
            on_refusals_def op_zoom_def)
    next
      assume "\<exists>why row. e = Tenancy (TenantRefusalError RECURSIVE_LABEL RECURSIVE_CLAIMS_RESEARCH_ONLY why)
        \<and> rows = cl_refusals s @ [row] \<and> rf_tenant_id row = pr_tenant_id p \<and> rf_boundary row = RECURSIVE_LABEL
        \<and> rf_actor row = actor"
      then obtain why row where e: "e = Tenancy (TenantRefusalError RECURSIVE_LABEL RECURSIVE_CLAIMS_RESEARCH_ONLY why)"
        and row: "rows = cl_refusals s @ [row]" "rf_tenant_id row = pr_tenant_id p" "rf_boundary row = RECURSIVE_LABEL"
          "rf_actor row = actor" by blast
      with assms(1) q Inl show thesis
        by (intro recorded [of why row]) (auto simp: record_boundary_refusal_def transaction_def op_except_def op_then_def
            op_bind_def on_refusals_def op_zoom_def op_return_def refusal_text_def integrity_error_def)
    qed
  qed
qed

lemma record_decision_run:
  "record_claim_decision d s =
     (if cd_decision_id d \<in> cd_decision_id ` set (cl_decisions s) then (Inl integrity_error, s)
      else (Inr d, s\<lparr>cl_decisions := cl_decisions s @ [d]\<rparr>))"
  by (simp add: record_claim_decision_def transaction_def op_run_simps op_return_def)

text \<open>A call issues, refuses with both rows written, or fails on a clash of ids; then a refusal row may stay.\<close>

lemma issue_label_cases:
  assumes "issue_claim_label V p dr rq s = (r, s')"
  obtains (issued) d where "r = Inr d" "s' = s\<lparr>cl_decisions := cl_decisions s @ [d]\<rparr>"
      "d = new_claim_decision V p dr rq RECURSIVE_IMPROVEMENT_LABEL True True None (identity_id p)"
      "satisfied (evaluate_recursive_claim (cr_evidence rq))"
      "claims_enabled (policy_for (cs_policies V) (pr_tenant_id p))"
  | (refused) d label sat why row where "r = Inl (Api (ClaimRefusedError (cd_decision_id d) why))"
      "s' = s\<lparr>cl_refusals := cl_refusals s @ [row], cl_decisions := cl_decisions s @ [d]\<rparr>"
      "d = new_claim_decision V p dr rq label False sat (Some why) (identity_id p)"
      "label \<noteq> RECURSIVE_IMPROVEMENT_LABEL"
      "rf_tenant_id row = pr_tenant_id p" "rf_boundary row = RECURSIVE_LABEL" "rf_actor row = identity_id p"
  | (clash) rows where "r = Inl integrity_error" "s' = s\<lparr>cl_refusals := cl_refusals s @ rows\<rparr>"
proof -
  let ?v = "evaluate_recursive_claim (cr_evidence rq)"
  let ?l = "claim_label (Some ?v) (policy_for (cs_policies V) (pr_tenant_id p))"
  show thesis
  proof (cases "satisfied ?v \<and> claims_enabled (policy_for (cs_policies V) (pr_tenant_id p))")
    case True
    then have l: "?l = RECURSIVE_IMPROVEMENT_LABEL" by (simp add: label_iff)
    let ?d = "new_claim_decision V p dr rq RECURSIVE_IMPROVEMENT_LABEL True True None (identity_id p)"
    have run: "record_claim_decision ?d s = (r, s')"
      using assms l True by (simp add: issue_claim_label_def Let_def)
    show thesis
    proof (cases "cd_decision_id ?d \<in> cd_decision_id ` set (cl_decisions s)")
      case True
      with run show thesis by (intro clash [of "[]"]) (auto simp: record_decision_run)
    next
      case False
      with run True show thesis by (intro issued [of ?d]) (auto simp: record_decision_run)
    qed
  next
    case False
    then have l: "?l \<noteq> RECURSIVE_IMPROVEMENT_LABEL" by (simp add: label_iff)
    obtain q s1 where q: "record_boundary_refusal V p (dr_refusal_uid dr) ?v (identity_id p) s = (q, s1)" by fastforce
    from q False show thesis
    proof (cases rule: boundary_refusal_cases)
      case clash
      with assms l q show thesis
        by (intro that(3) [of "[]"]) (auto simp: issue_claim_label_def Let_def op_bind_def)
    next
      case (recorded why row)
      let ?d = "new_claim_decision V p dr rq ?l False (satisfied ?v) (Some why) (identity_id p)"
      have run: "(case record_claim_decision ?d s1 of (Inl e, t) \<Rightarrow> (Inl e, t)
          | (Inr d, t) \<Rightarrow> (Inl (Api (ClaimRefusedError (cd_decision_id d) why)), t)) = (r, s')"
        using assms l q recorded(1) by (simp add: issue_claim_label_def Let_def op_bind_def op_raise_def)
      show thesis
      proof (cases "cd_decision_id ?d \<in> cd_decision_id ` set (cl_decisions s1)")
        case True
        with run recorded show thesis by (intro that(3) [of "[row]"]) (auto simp: record_decision_run)
      next
        case False
        with run have "r = Inl (Api (ClaimRefusedError (cd_decision_id ?d) why))"
          "s' = s1\<lparr>cl_decisions := cl_decisions s1 @ [?d]\<rparr>" by (auto simp: record_decision_run)
        with recorded l show thesis by (intro refused [of ?d why row ?l "satisfied ?v"]) auto
      qed
    qed
  qed
qed

section \<open>Properties\<close>

definition refused_by :: "string \<Rightarrow> string \<Rightarrow> claims_db \<Rightarrow> nat" where
  "refused_by t actor s = length (filter (\<lambda>d. \<not> cd_issued d \<and> cd_tenant_id d = t \<and> cd_actor d = actor) (cl_decisions s))"

definition refusals_of :: "string \<Rightarrow> string \<Rightarrow> claims_db \<Rightarrow> nat" where
  "refusals_of t actor s =
     length (filter (\<lambda>r. rf_boundary r = RECURSIVE_LABEL \<and> rf_tenant_id r = t \<and> rf_actor r = actor) (cl_refusals s))"

definition decision_honest :: "('k, 'b) claim_service \<Rightarrow> claim_decision \<Rightarrow> bool" where
  "decision_honest V d \<longleftrightarrow>
     cd_issued d = (cd_label d = RECURSIVE_IMPROVEMENT_LABEL) \<and> cd_issued d = (cd_refusal_reason d = None)
     \<and> (\<exists>ev. cd_evidence d = canonical_evidence_dict (cs_special V) ev
          \<and> cd_evidence_digest d = evidence_digest (cs_crypto V) (cs_special V) ev
          \<and> (cd_issued d \<longrightarrow> satisfied (evaluate_recursive_claim ev) \<and> cd_verdict_satisfied d
               \<and> claims_enabled (policy_for (cs_policies V) (cd_tenant_id d))))"

definition ledgers_honest :: "('k, 'b) claim_service \<Rightarrow> claims_db \<Rightarrow> bool" where
  "ledgers_honest V s \<longleftrightarrow> list_all (decision_honest V) (cl_decisions s) \<and> (\<forall>t a. refused_by t a s \<le> refusals_of t a s)"

lemma new_decision_honest:
  assumes "sat \<longrightarrow> satisfied (evaluate_recursive_claim (cr_evidence rq))"
    and "issued = (label = RECURSIVE_IMPROVEMENT_LABEL)" "issued = (why = None)"
    and "issued \<longrightarrow> sat \<and> claims_enabled (policy_for (cs_policies V) (pr_tenant_id p))"
  shows "decision_honest V (new_claim_decision V p dr rq label issued sat why actor)"
  unfolding decision_honest_def new_claim_decision_def
  using assms by (auto intro!: exI [of _ "cr_evidence rq"])

lemma do_claim_honest: "ledgers_honest V s \<Longrightarrow> ledgers_honest V (do_claim V c s)"
proof -
  assume s: "ledgers_honest V s"
  obtain p dr rq where c: "c = (p, dr, rq)" by (cases c)
  obtain r s' where run: "issue_claim_label V p dr rq s = (r, s')" by fastforce
  have "ledgers_honest V s'"
    using run
  proof (cases rule: issue_label_cases)
    case (issued d)
    moreover have "decision_honest V d" unfolding issued(3) by (rule new_decision_honest) (use issued in auto)
    ultimately show ?thesis using s by (auto simp: ledgers_honest_def refused_by_def refusals_of_def new_claim_decision_def)
  next
    case (refused d label sat why row)
    have "decision_honest V d" unfolding refused(3) decision_honest_def new_claim_decision_def
      using refused(4) by auto
    with s refused show ?thesis
      by (auto simp: ledgers_honest_def refused_by_def refusals_of_def new_claim_decision_def)
  next
    case (clash rows)
    with s show ?thesis by (auto simp: ledgers_honest_def refused_by_def refusals_of_def intro: le_trans trans_le_add1)
  qed
  with run c show ?thesis by (simp add: do_claim_def)
qed

text \<open>C25: The claim ledger is honest. After any calls by any callers, a decision is marked issued exactly when it
  carries the recursive-improvement label and no reason of refusal; its evidence and digest are those of one
  evidence object; an issued one's evidence satisfies the gate in a tenant whose policy enables claims; and
  a caller has at least as many rows in the refusal matrix of its tenant as it has refused decisions.\<close>

theorem claim_ledger_is_honest:
  "ledgers_honest V (run_calls (do_claim V) calls empty_claims)"
proof -
  have "ledgers_honest V (run_calls (do_claim V) calls s)" if "ledgers_honest V s" for s
    using that by (induction calls arbitrary: s) (simp_all add: do_claim_honest)
  moreover have "ledgers_honest V empty_claims" by (simp add: ledgers_honest_def empty_claims_def refused_by_def)
  ultimately show ?thesis by blast
qed











end
