(* ===== verification/StaticAnalysis.thy ===== *)
theory StaticAnalysis
  imports ProtectedModules
begin

text \<open>
  The static-analysis gate over executable candidates (\<^verbatim>\<open>plugins/static_analysis.py\<close>). A Python syntax tree is given
  by the nodes the scanner looks at and \<open>Other\<close> for every other node; the parser (\<^verbatim>\<open>ast.parse\<close>) is a parameter that
  returns a tree or a syntax error. Of a violation's message the subject is kept and the wording left out. The lemmas
  say exactly which source passes.
\<close>

section \<open>Syntax trees\<close>

text \<open>Line numbers are kept where the scanner reads them. A keyword argument is a node of its own that carries
  its value.\<close>

datatype py_node =
    Import "string list" nat
  | Import_from "string option" nat
  | Call py_node "py_node list" "py_node list" nat
  | Attribute py_node string
  | Name string
  | Str_literal string
  | Other "py_node list"

fun child_nodes :: "py_node \<Rightarrow> py_node list" where
  "child_nodes (Call f as kws line) = f # as @ map (\<lambda>v. Other [v]) kws"
| "child_nodes (Attribute v a) = [v]"
| "child_nodes (Other ns) = ns"
| "child_nodes _ = []"

fun node_weight :: "py_node \<Rightarrow> nat" where
  "node_weight (Call f as kws line) = Suc (node_weight f + sum_list (map node_weight as) + sum_list (map (\<lambda>v. Suc (node_weight v)) kws))"
| "node_weight (Attribute v a) = Suc (node_weight v)"
| "node_weight (Other ns) = Suc (sum_list (map node_weight ns))"
| "node_weight _ = 1"

lemma child_weight: "sum_list (map node_weight (child_nodes n)) < node_weight n"
  by (cases n) (simp_all add: comp_def)

text \<open>\<^verbatim>\<open>ast.walk\<close>: breadth first.\<close>

function walk_nodes :: "py_node list \<Rightarrow> py_node list" where
  "walk_nodes [] = []"
| "walk_nodes (n # queue) = n # walk_nodes (queue @ child_nodes n)"
  by pat_completeness auto
termination
  by (relation "measure (\<lambda>q. sum_list (map node_weight q))") (simp_all add: child_weight)




datatype py_parse = Parsed py_node | Syntax_error string nat

section \<open>The verdict\<close>

definition ANALYSIS_SCHEMA_ID :: string where
  "ANALYSIS_SCHEMA_ID = ''evoruntime.analysis.report/v1''"

datatype severity = BLOCKER | WARNING

fun severity_value :: "severity \<Rightarrow> string" where
  "severity_value BLOCKER = ''blocker''" | "severity_value WARNING = ''warning''"

datatype violation_code =
    NETWORK_IMPORT | SUBPROCESS_SPAWN | DYNAMIC_EXEC | MASK_PATH_WRITE | UNPARSEABLE_SOURCE | OPAQUE_PATH_WRITE
  | PROTECTED_MODULE_IMPORT | PROTECTED_MODULE_WRITE

fun violation_code_value :: "violation_code \<Rightarrow> string" where
  "violation_code_value NETWORK_IMPORT = ''network_import''"
| "violation_code_value SUBPROCESS_SPAWN = ''subprocess_spawn''"
| "violation_code_value DYNAMIC_EXEC = ''dynamic_exec''"
| "violation_code_value MASK_PATH_WRITE = ''mask_path_write''"
| "violation_code_value UNPARSEABLE_SOURCE = ''unparseable_source''"
| "violation_code_value OPAQUE_PATH_WRITE = ''opaque_path_write''"
| "violation_code_value PROTECTED_MODULE_IMPORT = ''protected_module_import''"
| "violation_code_value PROTECTED_MODULE_WRITE = ''protected_module_write''"

definition NETWORK_MODULE_ROOTS :: "string list" where
  "NETWORK_MODULE_ROOTS = [''socket'', ''ssl'', ''urllib'', ''http'', ''httplib'', ''requests'', ''httpx'', ''aiohttp'',
     ''ftplib'', ''telnetlib'', ''smtplib'', ''xmlrpc'', ''socketserver'', ''websockets'']"

definition SUBPROCESS_MODULE_ROOTS :: "string list" where
  "SUBPROCESS_MODULE_ROOTS = [''subprocess'', ''pty'', ''multiprocessing'']"

definition DYNAMIC_BUILTINS :: "string list" where
  "DYNAMIC_BUILTINS = [''eval'', ''exec'', ''compile'', ''__import__'']"

definition FS_MUTATING_ATTRS :: "string list" where
  "FS_MUTATING_ATTRS = [''system'', ''popen'', ''remove'', ''unlink'', ''rmdir'', ''rename'', ''replace'', ''mkdir'', ''makedirs'',
     ''write_text'', ''write_bytes'', ''copy'', ''copy2'', ''copytree'', ''move'', ''rmtree'']"

definition WRITE_MODE_CHARS :: "char list" where
  "WRITE_MODE_CHARS = ''wax+''"

record analysis_violation =
  av_code :: violation_code
  av_severity :: severity
  av_path :: string
  av_detail :: string
  av_line :: nat

record analysis_report =
  sr_candidate_digest :: string
  sr_artifact_type :: string
  sr_violations :: "analysis_violation list"

definition blocker :: "violation_code \<Rightarrow> string \<Rightarrow> string \<Rightarrow> nat \<Rightarrow> analysis_violation" where
  "blocker code path detail line =
     \<lparr>av_code = code, av_severity = BLOCKER, av_path = path, av_detail = detail, av_line = line\<rparr>"

definition report_blocked :: "analysis_report \<Rightarrow> bool" where
  "report_blocked r \<longleftrightarrow> list_ex (\<lambda>v. av_severity v = BLOCKER) (sr_violations r)"

definition report_outcome :: "analysis_report \<Rightarrow> string" where
  "report_outcome r = (if report_blocked r then ''block'' else ''pass'')"

definition violation_json :: "analysis_violation \<Rightarrow> json" where
  "violation_json v = JObj [(''code'', JStr (violation_code_value (av_code v))), (''severity'', JStr (severity_value (av_severity v))),
     (''path'', JStr (av_path v)), (''detail'', JStr (av_detail v)), (''line'', JInt (int (av_line v)))]"

definition report_bytes :: "('k, 'b) crypto \<Rightarrow> analysis_report \<Rightarrow> 'b" where
  "report_bytes C r = canonical_json C (JObj
     [(''schema_id'', JStr ANALYSIS_SCHEMA_ID), (''candidate_digest'', JStr (sr_candidate_digest r)),
      (''artifact_type'', JStr (sr_artifact_type r)), (''violations'', JList (map violation_json (sr_violations r)))])"

definition verdict_digest :: "('k, 'b) crypto \<Rightarrow> analysis_report \<Rightarrow> string" where
  "verdict_digest C r = sha256_digest C (report_bytes C r)"

section \<open>The scanners\<close>

definition module_root :: "string \<Rightarrow> string" where
  "module_root name = hd (split_on (CHR ''.'') name)"

definition import_violation :: "protected_document \<Rightarrow> string \<Rightarrow> nat \<Rightarrow> string \<Rightarrow> analysis_violation list" where
  "import_violation protected path line name =
     (case covers protected name of
        Some r \<Rightarrow> [blocker PROTECTED_MODULE_IMPORT path name line]
      | None \<Rightarrow>
          if module_root name \<in> set NETWORK_MODULE_ROOTS then [blocker NETWORK_IMPORT path name line]
          else if module_root name \<in> set SUBPROCESS_MODULE_ROOTS then [blocker SUBPROCESS_SPAWN path name line]
          else [])"

definition check_import :: "protected_document \<Rightarrow> string \<Rightarrow> py_node \<Rightarrow> analysis_violation list" where
  "check_import protected path n =
     (case n of
        Import names line \<Rightarrow> concat (map (import_violation protected path line) names)
      | Import_from (Some m) line \<Rightarrow> if m = [] then [] else import_violation protected path line m
      | _ \<Rightarrow> [])"

definition literal_str :: "py_node \<Rightarrow> string option" where
  "literal_str n = (case n of Str_literal s \<Rightarrow> Some s | _ \<Rightarrow> None)"

fun dotted_parts :: "py_node \<Rightarrow> string list" where
  "dotted_parts (Attribute v a) = dotted_parts v @ [a]"
| "dotted_parts (Name i) = [i]"
| "dotted_parts _ = []"

definition dotted_name :: "py_node \<Rightarrow> string" where
  "dotted_name n = join_with (CHR ''.'') (dotted_parts n)"

text \<open>\<^verbatim>\<open>dotted.rpartition(".")\<close>\<close>

definition rpartition_dot :: "string \<Rightarrow> string \<times> string" where
  "rpartition_dot s = (let parts = split_on (CHR ''.'') s in (join_with (CHR ''.'') (butlast parts), last parts))"

definition mask_violation_for :: "string \<Rightarrow> analysis_violation" where
  "mask_violation_for path = blocker MASK_PATH_WRITE path path 0"

definition check_write_target ::
  "string list \<Rightarrow> protected_document \<Rightarrow> string \<Rightarrow> string \<Rightarrow> py_node list \<Rightarrow> nat \<Rightarrow> analysis_violation list" where
  "check_write_target allowed protected path call args line =
     (case args of
        [] \<Rightarrow> []
      | a # _ \<Rightarrow>
          (case literal_str a of
             None \<Rightarrow> [\<lparr>av_code = OPAQUE_PATH_WRITE, av_severity = WARNING, av_path = path, av_detail = call, av_line = line\<rparr>]
           | Some target \<Rightarrow>
               (case covers_path protected target of
                  Some r \<Rightarrow> [blocker PROTECTED_MODULE_WRITE path target line]
                | None \<Rightarrow> if target \<notin> set allowed then [mask_violation_for target] else [])))"

definition open_mode :: "py_node list \<Rightarrow> string option" where
  "open_mode args = (if length args > 1 then literal_str (args ! 1) else Some ''r'')"

definition check_open_call ::
  "string list \<Rightarrow> protected_document \<Rightarrow> string \<Rightarrow> py_node list \<Rightarrow> nat \<Rightarrow> analysis_violation list" where
  "check_open_call allowed protected path args line =
     (case open_mode args of
        None \<Rightarrow> []
      | Some mode \<Rightarrow>
          if set mode \<inter> set WRITE_MODE_CHARS = {} then []
          else check_write_target allowed protected path ''open'' args line)"

definition check_named_call ::
  "string list \<Rightarrow> protected_document \<Rightarrow> string \<Rightarrow> string \<Rightarrow> py_node list \<Rightarrow> nat \<Rightarrow> analysis_violation list" where
  "check_named_call allowed protected path name args line =
     (if name \<in> set DYNAMIC_BUILTINS then [blocker DYNAMIC_EXEC path name line]
      else if name = ''open'' then check_open_call allowed protected path args line
      else [])"

definition check_attribute_call ::
  "string list \<Rightarrow> protected_document \<Rightarrow> string \<Rightarrow> py_node \<Rightarrow> py_node list \<Rightarrow> nat \<Rightarrow> analysis_violation list" where
  "check_attribute_call allowed protected path attr args line =
     (let dotted = dotted_name attr; (base, leaf) = rpartition_dot dotted
      in if dotted = ''importlib.import_module'' \<or> dotted = ''importlib.reload'' then [blocker DYNAMIC_EXEC path dotted line]
         else if base = ''os'' \<and> leaf \<in> {''system'', ''popen'', ''spawnl'', ''spawnle'', ''spawnv'', ''spawnve''}
           then [blocker SUBPROCESS_SPAWN path dotted line]
         else if leaf \<in> set FS_MUTATING_ATTRS \<and> (suffix ''Path'' base \<or> base \<in> {''os'', ''shutil'', ''pathlib''})
           then check_write_target allowed protected path dotted args line
         else [])"

definition check_call ::
  "string list \<Rightarrow> protected_document \<Rightarrow> string \<Rightarrow> py_node \<Rightarrow> analysis_violation list" where
  "check_call allowed protected path n =
     (case n of
        Call (Name f) args kws line \<Rightarrow> check_named_call allowed protected path f args line
      | Call (Attribute v a) args kws line \<Rightarrow> check_attribute_call allowed protected path (Attribute v a) args line
      | _ \<Rightarrow> [])"

definition scan_node :: "string list \<Rightarrow> protected_document \<Rightarrow> string \<Rightarrow> py_node \<Rightarrow> analysis_violation list" where
  "scan_node allowed protected path n =
     (case n of
        Import _ _ \<Rightarrow> check_import protected path n
      | Import_from _ _ \<Rightarrow> check_import protected path n
      | Call _ _ _ _ \<Rightarrow> check_call allowed protected path n
      | _ \<Rightarrow> [])"

definition scan_source ::
  "(string \<Rightarrow> py_parse) \<Rightarrow> string list \<Rightarrow> protected_document \<Rightarrow> string \<Rightarrow> string \<Rightarrow> analysis_violation list" where
  "scan_source parse allowed protected path source =
     (case parse source of
        Syntax_error msg line \<Rightarrow> [blocker UNPARSEABLE_SOURCE path msg line]
      | Parsed tree \<Rightarrow> concat (map (scan_node allowed protected path) (walk_nodes [tree])))"

section \<open>The gate\<close>

definition entry_item :: "json \<Rightarrow> string \<Rightarrow> json option" where
  "entry_item entry key = (case entry of JObj kvs \<Rightarrow> map_of kvs key | _ \<Rightarrow> None)"

definition check_file ::
  "(string \<Rightarrow> py_parse) \<Rightarrow> string list \<Rightarrow> protected_document \<Rightarrow> nat \<times> json \<Rightarrow> analysis_violation list" where
  "check_file parse allowed protected = (\<lambda>(index, entry).
     case usable_str entry ''path'' of
       None \<Rightarrow> [blocker MASK_PATH_WRITE (''<file #'' @ nat_str index @ ''>'') ''file entry declares no path'' 0]
     | Some path \<Rightarrow>
         (if path \<notin> set allowed then [mask_violation_for path] else [])
         @ (case covers_path protected path of None \<Rightarrow> [] | Some r \<Rightarrow> [blocker PROTECTED_MODULE_WRITE path path 0])
         @ (case entry_item entry ''content'' of
              Some (JStr content) \<Rightarrow> if suffix ''.py'' path then scan_source parse allowed protected path content else []
            | _ \<Rightarrow> []))"

definition analyze_files ::
  "(string \<Rightarrow> py_parse) \<Rightarrow> json list \<Rightarrow> mutation_mask list \<Rightarrow> string \<Rightarrow> string \<Rightarrow> protected_document option \<Rightarrow> analysis_report" where
  "analyze_files parse files masks artifact_type candidate_digest protected_modules =
     (let allowed = concat (map allowed_paths masks);
          protected = (case protected_modules of None \<Rightarrow> default_document | Some d \<Rightarrow> d)
      in \<lparr>sr_candidate_digest = candidate_digest, sr_artifact_type = artifact_type,
          sr_violations = concat (map (check_file parse allowed protected) (enumerate0 files))\<rparr>)"

text \<open>\<^verbatim>\<open>StaticAnalysisGate.approve_execution\<close>; the report provider is the caller's.\<close>

definition approve_execution :: "('g \<Rightarrow> analysis_report) \<Rightarrow> (exn, 'g, unit) op" where
  "approve_execution report_provider =
     op_bind (op_gets report_provider) (\<lambda>report.
       if report_blocked report then op_raise (RuntimeError ''StaticAnalysisBlockedError'') else op_return ())"

section \<open>What passes\<close>








definition no_blocker :: "analysis_violation list \<Rightarrow> bool" where
  "no_blocker vs \<longleftrightarrow> list_all (\<lambda>v. av_severity v \<noteq> BLOCKER) vs"

lemma no_blocker_simps [simp]:
  "no_blocker []" "no_blocker (blocker c p d l # vs) = False" "no_blocker (vs @ ws) \<longleftrightarrow> no_blocker vs \<and> no_blocker ws"
  "no_blocker (concat (map f xs)) \<longleftrightarrow> (\<forall>x \<in> set xs. no_blocker (f x))"
  by (auto simp: no_blocker_def blocker_def list_all_iff)









section \<open>Properties\<close>





definition unseen_writes :: "string \<Rightarrow> string \<Rightarrow> py_node" where
  "unseen_writes own target = Other
     [Import [''shutil'', ''pathlib''] 1,
      Import_from (Some ''evoruntime'') 2,
      Other [Call (Attribute (Name ''shutil'') ''copy'') [Str_literal own, Str_literal target] [] 3],
      Other [Call (Attribute (Call (Name ''open'') [Str_literal target] [Str_literal ''w''] 4) ''write'') [Str_literal ''x''] [] 4],
      Other [Call (Name ''open'') [Str_literal target, Name ''m''] [] 5],
      Other [Call (Attribute (Call (Name ''Path'') [Str_literal target] [] 6) ''write_text'') [Str_literal ''x''] [] 6]]"

text \<open>C33: The protected modules can be overwritten and imported unseen: a candidate whose one file copies itself onto any
  path, opens any path with \<^verbatim>\<open>mode="w"\<close> or with a computed mode, writes through \<^verbatim>\<open>Path(...).write_text\<close>, and takes a
  protected module by \<^verbatim>\<open>from evoruntime import security\<close>, gets a report without a single violation or warning.\<close>

theorem protected_modules_can_be_overwritten_unseen:
  assumes "own \<noteq> []" "covers_path default_document own = None" "parse content = Parsed (unseen_writes own target)"
  shows "sr_violations (analyze_files parse [JObj [(''path'', JStr own), (''content'', JStr content)]]
     [\<lparr>mask_artifact_type = artifact_type, allowed_paths = [own]\<rparr>] artifact_type digest None) = []"
proof -
  have imps: "import_violation default_document own l ''shutil'' = []" "import_violation default_document own l ''pathlib'' = []"
    "import_violation default_document own l ''evoruntime'' = []" for l
    by code_simp+
  have names: "dotted_name (Attribute (Name ''shutil'') ''copy'') = ''shutil.copy''"
    "dotted_name (Attribute (Call f as kws l) ''write'') = ''write''" "dotted_name (Attribute (Call f as kws l) ''write_text'') = ''write_text''" for f as kws l
    by (simp_all add: dotted_name_def join_with_def)
  have parts: "rpartition_dot ''shutil.copy'' = (''shutil'', ''copy'')" "rpartition_dot ''write'' = ([], ''write'')"
    "rpartition_dot ''write_text'' = ([], ''write_text'')" by code_simp+
  have scan: "scan_source parse [own] default_document own content = []"
    using assms by (simp add: scan_source_def unseen_writes_def scan_node_def check_import_def check_call_def check_named_call_def
        check_open_call_def check_attribute_call_def open_mode_def literal_str_def names parts imps check_write_target_def
        DYNAMIC_BUILTINS_def FS_MUTATING_ATTRS_def WRITE_MODE_CHARS_def suffix_def)
  show ?thesis
    using assms scan by (simp add: analyze_files_def check_file_def usable_str_def json_get_def entry_item_def)
qed

lemma unseen_writes_witness:
  "sr_violations (analyze_files (\<lambda>_. Parsed (unseen_writes ''candidate/main.py'' ''src/evoruntime/security/policy.py''))
      [JObj [(''path'', JStr ''candidate/main.py''), (''content'', JStr [])]]
      [\<lparr>mask_artifact_type = ''algorithm'', allowed_paths = [''candidate/main.py'']\<rparr>] ''algorithm'' ''d'' None) = []
   \<and> covers_path default_document ''src/evoruntime/security/policy.py'' = Some ''evoruntime.security''"
proof
  have "covers_path default_document ''candidate/main.py'' = None" by code_simp
  from protected_modules_can_be_overwritten_unseen [OF _ this, of "\<lambda>_. Parsed (unseen_writes ''candidate/main.py'' ''src/evoruntime/security/policy.py'')"]
  show "sr_violations (analyze_files (\<lambda>_. Parsed (unseen_writes ''candidate/main.py'' ''src/evoruntime/security/policy.py''))
      [JObj [(''path'', JStr ''candidate/main.py''), (''content'', JStr [])]]
      [\<lparr>mask_artifact_type = ''algorithm'', allowed_paths = [''candidate/main.py'']\<rparr>] ''algorithm'' ''d'' None) = []" by simp
qed code_simp

end
