(* ===== verification/OutputAdmission.thy ===== *)
theory OutputAdmission
  imports Database
begin

text \<open>
  The admission gate over a candidate's output entries (\<^verbatim>\<open>plugins/admission.py\<close>). A path is its list of code points;
  Python's Unicode database (NFKC, the format category, case folding) is a parameter. Of a violation the code and the
  path are kept, its message is left out. Sizes are unbounded integers and the compression ratio is exact.
\<close>

section \<open>Entries and limits\<close>

type_synonym code_points = "nat list"

definition points :: "string \<Rightarrow> code_points" where
  "points s = map of_char s"

record unicode_db =
  uc_nfkc :: "code_points \<Rightarrow> code_points"
  uc_format :: "nat \<Rightarrow> bool"
  uc_casefold :: "code_points \<Rightarrow> code_points"

datatype output_kind = FILE | DIRECTORY | SYMLINK | DEVICE

record archive_info =
  ar_uncompressed_total_bytes :: nat
  ar_entry_count :: nat

record output_entry =
  oe_path :: code_points
  oe_kind :: output_kind
  oe_size_bytes :: nat
  oe_executable :: bool
  oe_sparse :: bool
  oe_target :: "string option"
  oe_archive :: "archive_info option"

datatype admission_code =
    PATH_TRAVERSAL | ABSOLUTE_PATH | SYMLINK_ENTRY | DEVICE_NODE | ARCHIVE_BOMB | OVERSIZED_FILE | SPARSE_FILE
  | UNDECLARED_EXECUTABLE | CONFUSABLE_PATH

fun admission_code_value :: "admission_code \<Rightarrow> string" where
  "admission_code_value PATH_TRAVERSAL = ''path_traversal''"
| "admission_code_value ABSOLUTE_PATH = ''absolute_path''"
| "admission_code_value SYMLINK_ENTRY = ''symlink''"
| "admission_code_value DEVICE_NODE = ''device_node''"
| "admission_code_value ARCHIVE_BOMB = ''archive_bomb''"
| "admission_code_value OVERSIZED_FILE = ''oversized_file''"
| "admission_code_value SPARSE_FILE = ''sparse_file''"
| "admission_code_value UNDECLARED_EXECUTABLE = ''undeclared_executable''"
| "admission_code_value CONFUSABLE_PATH = ''confusable_path''"

type_synonym admission_violation = "admission_code \<times> code_points"

record admission_decision =
  ao_admitted :: bool
  ao_violations :: "admission_violation list"

record admission_limits =
  al_declared_executables :: "code_points list"
  al_max_file_bytes :: nat
  al_max_total_bytes :: nat
  al_max_compression_ratio :: rat
  al_protected_paths :: "code_points list"

definition DEFAULT_MAX_FILE_BYTES :: nat where "DEFAULT_MAX_FILE_BYTES = 10 * 1024 * 1024"
definition DEFAULT_MAX_TOTAL_BYTES :: nat where "DEFAULT_MAX_TOTAL_BYTES = 64 * 1024 * 1024"
definition DEFAULT_MAX_COMPRESSION_RATIO :: rat where "DEFAULT_MAX_COMPRESSION_RATIO = 100"

definition DEFAULT_PROTECTED_PATHS :: "code_points list" where
  "DEFAULT_PROTECTED_PATHS = map points [''src'', ''tests'', ''docs'', ''fixtures'', ''evoruntime'', ''.github'']"

definition default_limits :: admission_limits where
  "default_limits = \<lparr>al_declared_executables = [], al_max_file_bytes = DEFAULT_MAX_FILE_BYTES,
     al_max_total_bytes = DEFAULT_MAX_TOTAL_BYTES, al_max_compression_ratio = DEFAULT_MAX_COMPRESSION_RATIO,
     al_protected_paths = DEFAULT_PROTECTED_PATHS\<rparr>"

definition SKELETON_MAP :: "(nat \<times> nat) list" where
  "SKELETON_MAP =
     [(0x430, 0x61), (0x435, 0x65), (0x43E, 0x6F), (0x440, 0x70), (0x441, 0x63), (0x443, 0x79), (0x445, 0x78),
      (0x456, 0x69), (0x455, 0x73), (0x458, 0x6A), (0x4BB, 0x68), (0x501, 0x64), (0x261, 0x67), (0x51B, 0x71),
      (0x51D, 0x77), (0x3BF, 0x6F), (0x3B1, 0x61), (0x3B5, 0x65), (0x3C1, 0x70), (0x3BD, 0x76), (0x3C4, 0x74),
      (0x3C5, 0x75), (0x3B9, 0x69), (0x3BA, 0x6B), (0x3B2, 0x62)]"

section \<open>Paths\<close>

abbreviation slash :: nat where "slash \<equiv> 0x2F"
abbreviation dot_segment :: code_points where "dot_segment \<equiv> [0x2E]"
abbreviation dotdot_segment :: code_points where "dotdot_segment \<equiv> [0x2E, 0x2E]"

fun split_slash :: "code_points \<Rightarrow> code_points list" where
  "split_slash [] = [[]]"
| "split_slash (x # xs) =
     (if x = slash then [] # split_slash xs
      else (case split_slash xs of [] \<Rightarrow> [[x]] | seg # segs \<Rightarrow> (x # seg) # segs))"

text \<open>\<^verbatim>\<open>PurePosixPath(path).parts\<close>: the anchor, then the segments that are neither empty nor \<^verbatim>\<open>.\<close>\<close>

definition path_anchor :: "code_points \<Rightarrow> code_points list" where
  "path_anchor path =
     (if \<not> prefix [slash] path then []
      else if prefix [slash, slash] path \<and> \<not> prefix [slash, slash, slash] path then [[slash, slash]] else [[slash]])"

definition path_parts :: "code_points \<Rightarrow> code_points list" where
  "path_parts path = path_anchor path @ filter (\<lambda>s. s \<noteq> [] \<and> s \<noteq> dot_segment) (split_slash path)"

definition is_absolute :: "code_points \<Rightarrow> bool" where
  "is_absolute path \<longleftrightarrow> prefix [slash] path \<or> (length path > 1 \<and> path ! 1 = 0x3A)"

definition check_path_shape :: "output_entry \<Rightarrow> admission_violation list" where
  "check_path_shape e =
     (if is_absolute (oe_path e) then [(ABSOLUTE_PATH, oe_path e)]
      else if dotdot_segment \<in> set (path_parts (oe_path e)) then [(PATH_TRAVERSAL, oe_path e)]
      else [])"

definition check_archive :: "admission_limits \<Rightarrow> output_entry \<Rightarrow> archive_info \<Rightarrow> admission_violation list" where
  "check_archive L e a =
     (let compressed = max (oe_size_bytes e) 1
      in if ar_uncompressed_total_bytes a > al_max_total_bytes L then [(ARCHIVE_BOMB, oe_path e)]
         else if of_nat (ar_uncompressed_total_bytes a) / of_nat compressed > al_max_compression_ratio L
           then [(ARCHIVE_BOMB, oe_path e)]
         else [])"

definition skeleton :: "unicode_db \<Rightarrow> code_points \<Rightarrow> code_points" where
  "skeleton U segment =
     uc_casefold U (map (\<lambda>c. case map_of SKELETON_MAP c of Some a \<Rightarrow> a | None \<Rightarrow> c) (uc_nfkc U segment))"

definition shadows_protected :: "unicode_db \<Rightarrow> admission_limits \<Rightarrow> code_points \<Rightarrow> bool" where
  "shadows_protected U L segment \<longleftrightarrow>
     skeleton U segment \<in> uc_casefold U ` set (al_protected_paths L) \<and> skeleton U segment \<noteq> uc_casefold U segment"

definition check_confusables :: "unicode_db \<Rightarrow> admission_limits \<Rightarrow> output_entry \<Rightarrow> admission_violation list" where
  "check_confusables U L e =
     (if uc_nfkc U (oe_path e) \<noteq> oe_path e then [(CONFUSABLE_PATH, oe_path e)]
      else if list_ex (uc_format U) (oe_path e) then [(CONFUSABLE_PATH, oe_path e)]
      else if list_ex (shadows_protected U L) (path_parts (oe_path e)) then [(CONFUSABLE_PATH, oe_path e)]
      else [])"

section \<open>The gate\<close>

definition check_entry :: "unicode_db \<Rightarrow> admission_limits \<Rightarrow> output_entry \<Rightarrow> admission_violation list" where
  "check_entry U L e =
     check_path_shape e
     @ (if oe_kind e = SYMLINK then [(SYMLINK_ENTRY, oe_path e)] else [])
     @ (if oe_kind e = DEVICE then [(DEVICE_NODE, oe_path e)] else [])
     @ (if oe_sparse e then [(SPARSE_FILE, oe_path e)] else [])
     @ (if oe_size_bytes e > al_max_file_bytes L then [(OVERSIZED_FILE, oe_path e)] else [])
     @ (case oe_archive e of None \<Rightarrow> [] | Some a \<Rightarrow> check_archive L e a)
     @ (if oe_executable e \<and> oe_path e \<notin> set (al_declared_executables L) then [(UNDECLARED_EXECUTABLE, oe_path e)] else [])
     @ check_confusables U L e"

definition admit_output :: "unicode_db \<Rightarrow> admission_limits \<Rightarrow> output_entry list \<Rightarrow> admission_decision" where
  "admit_output U L entries =
     (let violations = concat (map (check_entry U L) entries)
            @ (if sum_list (map oe_size_bytes entries) > al_max_total_bytes L then [(OVERSIZED_FILE, points ''<bundle>'')] else [])
      in \<lparr>ao_admitted = (violations = []), ao_violations = violations\<rparr>)"

section \<open>What is admitted\<close>

definition safe_path :: "unicode_db \<Rightarrow> admission_limits \<Rightarrow> code_points \<Rightarrow> bool" where
  "safe_path U L path \<longleftrightarrow> \<not> is_absolute path \<and> dotdot_segment \<notin> set (split_slash path)
     \<and> uc_nfkc U path = path \<and> (\<forall>c \<in> set path. \<not> uc_format U c)
     \<and> (\<forall>s \<in> set (split_slash path). s \<noteq> [] \<and> s \<noteq> dot_segment \<longrightarrow> \<not> shadows_protected U L s)"

definition safe_archive :: "admission_limits \<Rightarrow> output_entry \<Rightarrow> archive_info \<Rightarrow> bool" where
  "safe_archive L e a \<longleftrightarrow> ar_uncompressed_total_bytes a \<le> al_max_total_bytes L
     \<and> of_nat (ar_uncompressed_total_bytes a) \<le> al_max_compression_ratio L * of_nat (max (oe_size_bytes e) 1)"

definition safe_output :: "unicode_db \<Rightarrow> admission_limits \<Rightarrow> output_entry \<Rightarrow> bool" where
  "safe_output U L e \<longleftrightarrow> safe_path U L (oe_path e) \<and> oe_kind e \<in> {FILE, DIRECTORY} \<and> \<not> oe_sparse e
     \<and> oe_size_bytes e \<le> al_max_file_bytes L \<and> (\<forall>a. oe_archive e = Some a \<longrightarrow> safe_archive L e a)
     \<and> (oe_executable e \<longrightarrow> oe_path e \<in> set (al_declared_executables L))"

lemma archive_safe: "check_archive L e a = [] \<longleftrightarrow> safe_archive L e a"
proof -
  obtain c where c: "c = rat_of_nat (max (oe_size_bytes e) 1)" by blast
  then have "al_max_compression_ratio L < u / c \<longleftrightarrow> \<not> u \<le> al_max_compression_ratio L * c" for u
    by (simp add: pos_less_divide_eq not_le)
  then show ?thesis
    unfolding check_archive_def safe_archive_def Let_def c [symmetric] by simp
qed

lemma relative_parts: "\<not> is_absolute path \<Longrightarrow> path_parts path = filter (\<lambda>s. s \<noteq> [] \<and> s \<noteq> dot_segment) (split_slash path)"
  by (simp add: path_parts_def path_anchor_def is_absolute_def)

lemma path_safe: "check_path_shape e = [] \<and> check_confusables U L e = [] \<longleftrightarrow> safe_path U L (oe_path e)"
proof (cases "is_absolute (oe_path e)")
  case True
  then show ?thesis by (simp add: check_path_shape_def safe_path_def)
next
  case False
  then show ?thesis
    by (auto simp: check_path_shape_def check_confusables_def safe_path_def relative_parts list_ex_iff)
qed

lemma entry_safe: "check_entry U L e = [] \<longleftrightarrow> safe_output U L e"
proof -
  have k: "oe_kind e \<noteq> SYMLINK \<and> oe_kind e \<noteq> DEVICE \<longleftrightarrow> oe_kind e \<in> {FILE, DIRECTORY}" by (cases "oe_kind e") simp_all
  have a: "(case oe_archive e of None \<Rightarrow> [] | Some a \<Rightarrow> check_archive L e a) = [] \<longleftrightarrow> (\<forall>a. oe_archive e = Some a \<longrightarrow> safe_archive L e a)"
    by (simp add: archive_safe split: option.split)
  show ?thesis
    unfolding check_entry_def safe_output_def append_is_Nil_conv a path_safe [symmetric] k [symmetric]
    by (auto simp: not_less)
qed

lemma admitted_no_violation: "ao_admitted (admit_output U L es) \<longleftrightarrow> ao_violations (admit_output U L es) = []"
  by (simp add: admit_output_def Let_def)

section \<open>Properties\<close>


text \<open>A capital homoglyph hides a protected name: with the case folding of the Unicode standard, the path whose first
  letter is the Cyrillic capital DZE (U+0405) and that otherwise spells \<^verbatim>\<open>src\<close> is admitted, although the same path with the
  small letter is refused as a lookalike of \<^verbatim>\<open>src\<close>: the skeleton is taken before the case is folded.\<close>

definition plain_file :: "code_points \<Rightarrow> output_entry" where
  "plain_file path = \<lparr>oe_path = path, oe_kind = FILE, oe_size_bytes = 1, oe_executable = False, oe_sparse = False,
     oe_target = None, oe_archive = None\<rparr>"

theorem capital_homoglyph_is_admitted:
  assumes nfkc: "uc_nfkc U [0x405, 0x72, 0x63] = [0x405, 0x72, 0x63]" "uc_nfkc U [0x455, 0x72, 0x63] = [0x455, 0x72, 0x63]"
    and format: "\<forall>c \<in> {0x405, 0x455, 0x72, 0x63}. \<not> uc_format U c"
    and fold: "\<And>p. uc_casefold U p = concat (map fold_one p)" "fold_one 0x405 = [0x455]" "fold_one 0x455 = [0x455]"
      "\<forall>c \<in> {0x61..0x7A}. fold_one c = [c]"
  shows "ao_admitted (admit_output U default_limits [plain_file [0x405, 0x72, 0x63]])
    \<and> ao_violations (admit_output U default_limits [plain_file [0x455, 0x72, 0x63]]) = [(CONFUSABLE_PATH, [0x455, 0x72, 0x63])]"
proof
  have low: "fold_one 0x72 = [0x72]" "fold_one 0x63 = [0x63]" "fold_one 0x73 = [0x73]" using fold(4) by auto
  have sk: "skeleton U [0x405, 0x72, 0x63] = [0x455, 0x72, 0x63]" "skeleton U [0x455, 0x72, 0x63] = [0x73, 0x72, 0x63]"
    by (simp_all add: skeleton_def nfkc fold SKELETON_MAP_def low)
  have cf: "uc_casefold U [0x405, 0x72, 0x63] = [0x455, 0x72, 0x63]" "uc_casefold U [0x455, 0x72, 0x63] = [0x455, 0x72, 0x63]"
    "uc_casefold U (points ''src'') = [0x73, 0x72, 0x63]"
    by (simp_all add: fold low points_def)
  have src: "points ''src'' \<in> set (al_protected_paths default_limits)" by (simp add: default_limits_def DEFAULT_PROTECTED_PATHS_def)
  have "safe_output U default_limits (plain_file [0x405, 0x72, 0x63])"
    using format by (simp add: safe_output_def plain_file_def safe_path_def is_absolute_def shadows_protected_def sk cf nfkc default_limits_def
        DEFAULT_MAX_FILE_BYTES_def)
  then show "ao_admitted (admit_output U default_limits [plain_file [0x405, 0x72, 0x63]])"
    by (simp add: admit_output_def Let_def entry_safe plain_file_def default_limits_def DEFAULT_MAX_TOTAL_BYTES_def)
  have "shadows_protected U default_limits [0x455, 0x72, 0x63]"
    using imageI [OF src, of "uc_casefold U"] by (simp add: shadows_protected_def sk cf)
  then show "ao_violations (admit_output U default_limits [plain_file [0x455, 0x72, 0x63]]) = [(CONFUSABLE_PATH, [0x455, 0x72, 0x63])]"
    using format by (simp add: admit_output_def Let_def check_entry_def check_path_shape_def check_confusables_def plain_file_def
        is_absolute_def path_parts_def path_anchor_def nfkc default_limits_def DEFAULT_MAX_FILE_BYTES_def DEFAULT_MAX_TOTAL_BYTES_def)
qed

text \<open>Case folding on the letters the witness needs.\<close>

definition small_unicode :: unicode_db where
  "small_unicode = \<lparr>uc_nfkc = (\<lambda>p. p), uc_format = (\<lambda>c. c = 0x200B),
     uc_casefold = (\<lambda>p. concat (map (\<lambda>c. if c = 0x405 then [0x455] else if 0x41 \<le> c \<and> c \<le> 0x5A then [c + 0x20] else [c]) p))\<rparr>"

lemma capital_homoglyph_witness:
  "ao_admitted (admit_output small_unicode default_limits [plain_file [0x405, 0x72, 0x63]])
   \<and> \<not> ao_admitted (admit_output small_unicode default_limits [plain_file [0x455, 0x72, 0x63]])"
proof
  note t = capital_homoglyph_is_admitted [of small_unicode
      "\<lambda>c. if c = 0x405 then [0x455] else if 0x41 \<le> c \<and> c \<le> 0x5A then [c + 0x20] else [c]"]
  show "ao_admitted (admit_output small_unicode default_limits [plain_file [0x405, 0x72, 0x63]])"
    using t by (simp add: small_unicode_def)
  show "\<not> ao_admitted (admit_output small_unicode default_limits [plain_file [0x455, 0x72, 0x63]])"
    using t by (simp add: small_unicode_def admitted_no_violation)
qed

end
