(* ===== verification/ControlPlane.thy ===== *)
theory ControlPlane
  imports TenantAudit Approvals StaticAnalysis OutputAdmission CampaignSpec
begin

text \<open>
  The control plane's campaigns (\<^verbatim>\<open>api/service.py\<close>, \<^verbatim>\<open>db/models/campaign.py\<close>): specs are checked, pinned and
  stored, and every transition rebuilds the lifecycle machine from the stored row and the stored log, moves it
  once and stores what it says. Sessions are transactions; a refusal at a tenant boundary is committed before
  it is raised. Drawn ids, the clock and today's date are arguments; Python's \<^verbatim>\<open>str\<close> is a field of the service.
\<close>

section \<open>Tables\<close>

record 'b campaign_row =
  cg_tenant_id :: string
  cg_campaign_id :: string
  cg_name :: string
  cg_spec_digest :: string
  cg_spec_canonical :: json
  cg_spec_signature :: 'b
  cg_signer_public_key :: 'b
  cg_phase :: string
  cg_resume_target :: "string option"
  cg_created_at :: instant
  cg_updated_at :: instant

record transition_row =
  ct_tenant_id :: string
  ct_campaign_id :: string
  ct_sequence :: int
  ct_from_phase :: string
  ct_to_phase :: string
  ct_reason :: string
  ct_occurred_at :: instant

record agent_row =
  ag_tenant_id :: string
  ag_agent_id :: string
  ag_plugin_id :: string
  ag_kind :: string
  ag_pinned_image :: string
  ag_artifact_types :: "string list"
  ag_registered_by :: string
  ag_created_at :: instant

record evidence_row =
  ev_tenant_id :: string
  ev_bundle_id :: string
  ev_campaign_id :: "string option"
  ev_artifact_digest :: "string option"
  ev_redacted_items :: "json_object list"
  ev_created_at :: instant

record activation_row =
  ra_id :: string
  ra_tenant_id :: string
  ra_manifest_digest :: string
  ra_status :: string
  ra_prior_manifest_digest :: "string option"
  ra_activated_by :: string
  ra_created_at :: instant

record 'b report_row =
  rp_tenant_id :: string
  rp_report_id :: string
  rp_campaign_id :: "string option"
  rp_candidate_digest :: string
  rp_artifact_type :: string
  rp_outcome :: string
  rp_violations :: "analysis_violation list"
  rp_verdict_digest :: string
  rp_signature :: 'b
  rp_signer_public_key :: 'b
  rp_created_at :: instant

record 'b control_db =
  cp_registry :: "'b registry_db"
  cp_campaigns :: "'b campaign_row list"
  cp_transitions :: "transition_row list"
  cp_agents :: "agent_row list"
  cp_evidence :: "evidence_row list"
  cp_activations :: "activation_row list"
  cp_reports :: "'b report_row list"
  cp_refusals :: "refusal_row list"

definition empty_control_db :: "'b control_db" where
  "empty_control_db = \<lparr>cp_registry = empty_registry, cp_campaigns = [], cp_transitions = [], cp_agents = [],
     cp_evidence = [], cp_activations = [], cp_reports = [], cp_refusals = []\<rparr>"

text \<open>\<^verbatim>\<open>CampaignApiService.__init__\<close>\<close>

record ('k, 'b) control_service =
  cv_crypto :: "('k, 'b) crypto"
  cv_signing_key :: 'k
  cv_evaluator_subject :: string
  cv_tenant_policies :: tenant_registry
  cv_str_of :: "json \<Rightarrow> string"

abbreviation on_registry where "on_registry \<equiv> op_zoom cp_registry (\<lambda>r s. s\<lparr>cp_registry := r\<rparr>)"
abbreviation on_refusals where "on_refusals \<equiv> op_zoom cp_refusals (\<lambda>r s. s\<lparr>cp_refusals := r\<rparr>)"

section \<open>The scaffold boundary\<close>

definition scaffold_refused :: "('k, 'b) control_service \<Rightarrow> string \<Rightarrow> string list \<Rightarrow> bool" where
  "scaffold_refused V tenant_id artifact_types \<longleftrightarrow>
     list_ex is_scaffold_class artifact_types \<and> environment_for (cv_tenant_policies V) tenant_id \<noteq> RESEARCH"

definition refuse_scaffold_outside_research ::
  "('k, 'b) control_service \<Rightarrow> principal \<Rightarrow> string \<Rightarrow> refusal_boundary \<Rightarrow> string list \<Rightarrow> json_object
     \<Rightarrow> (exn, 'b control_db, unit) op" where
  "refuse_scaffold_outside_research V p uid boundary artifact_types detail =
     (if \<not> scaffold_refused V (pr_tenant_id p) artifact_types then op_return ()
      else op_then
        (on_refusals (record_refusal uid (pr_tenant_id p) boundary SCAFFOLD_REQUIRES_RESEARCH
          (detail @ [(''environment'', JStr (environment_value (environment_for (cv_tenant_policies V) (pr_tenant_id p))))])
          (identity_id p)))
        (op_raise (Tenancy (TenantRefusalError boundary SCAFFOLD_REQUIRES_RESEARCH
          ''scaffold-class artifacts are refused''))))"

section \<open>Reading a campaign back\<close>

definition require_campaign :: "string \<Rightarrow> string \<Rightarrow> 'b control_db \<Rightarrow> exn + 'b campaign_row" where
  "require_campaign tenant_id campaign_id s =
     res_bind (one_or_none (filter (\<lambda>c. cg_tenant_id c = tenant_id \<and> cg_campaign_id c = campaign_id) (cp_campaigns s)))
       (\<lambda>found. case found of None \<Rightarrow> Inl (Api (CampaignNotFoundError campaign_id)) | Some c \<Rightarrow> Inr c)"

record campaign_summary =
  sm_campaign_id :: string
  sm_name :: string
  sm_phase :: string
  sm_spec_digest :: string
  sm_created_at :: instant
  sm_updated_at :: instant

record campaign_detail = campaign_summary +
  dt_resume_target :: "string option"
  dt_transitions :: "transition_row list"
  dt_candidate_count :: nat

definition campaign_summary_of :: "'b campaign_row \<Rightarrow> campaign_summary" where
  "campaign_summary_of c =
     \<lparr>sm_campaign_id = cg_campaign_id c, sm_name = cg_name c, sm_phase = cg_phase c, sm_spec_digest = cg_spec_digest c,
      sm_created_at = cg_created_at c, sm_updated_at = cg_updated_at c\<rparr>"

definition campaign_log :: "string \<Rightarrow> string \<Rightarrow> 'b control_db \<Rightarrow> transition_row list" where
  "campaign_log tenant_id campaign_id s =
     sort_key ct_sequence (filter (\<lambda>r. ct_tenant_id r = tenant_id \<and> ct_campaign_id r = campaign_id) (cp_transitions s))"

definition campaign_proposals :: "string \<Rightarrow> string \<Rightarrow> 'b control_db \<Rightarrow> proposal_record list" where
  "campaign_proposals tenant_id campaign_id s =
     filter (\<lambda>r. pr_tenant r = tenant_id \<and> pr_campaign_id r = Some campaign_id) (rg_proposals (cp_registry s))"

definition get_campaign :: "principal \<Rightarrow> string \<Rightarrow> 'b control_db \<Rightarrow> exn + campaign_detail" where
  "get_campaign p campaign_id s =
     res_bind (require_campaign (pr_tenant_id p) campaign_id s) (\<lambda>c.
       Inr \<lparr>sm_campaign_id = cg_campaign_id c, sm_name = cg_name c, sm_phase = cg_phase c,
            sm_spec_digest = cg_spec_digest c, sm_created_at = cg_created_at c, sm_updated_at = cg_updated_at c,
            dt_resume_target = cg_resume_target c, dt_transitions = campaign_log (pr_tenant_id p) campaign_id s,
            dt_candidate_count = length (campaign_proposals (pr_tenant_id p) campaign_id s)\<rparr>)"

definition list_campaigns :: "principal \<Rightarrow> 'b control_db \<Rightarrow> campaign_summary list" where
  "list_campaigns p s =
     map campaign_summary_of (sort_key cg_created_at (filter (\<lambda>c. cg_tenant_id c = pr_tenant_id p) (cp_campaigns s)))"

definition stored_phase :: "string \<Rightarrow> exn + campaign_phase" where
  "stored_phase v = (case phase_of_value v of None \<Rightarrow> Inl (ValueError ''CampaignPhase'') | Some p \<Rightarrow> Inr p)"

definition stored_target :: "string option \<Rightarrow> exn + campaign_phase option" where
  "stored_target t =
     (case t of None \<Rightarrow> Inr None
      | Some v \<Rightarrow> if v = [] then Inr None else res_bind (stored_phase v) (\<lambda>p. Inr (Some p)))"

definition transition_of_row :: "transition_row \<Rightarrow> exn + campaign_transition" where
  "transition_of_row r =
     res_bind (stored_phase (ct_from_phase r)) (\<lambda>f.
     res_bind (stored_phase (ct_to_phase r)) (\<lambda>t.
       Inr \<lparr>tr_sequence = ct_sequence r, tr_from = f, tr_to = t, tr_reason = ct_reason r,
            tr_at = of_int (ct_occurred_at r) / 1000000\<rparr>))"

definition spec_from_record :: "(json \<Rightarrow> string) \<Rightarrow> date \<Rightarrow> 'b campaign_row \<Rightarrow> exn + campaign_spec" where
  "spec_from_record str_of today c =
     (case from_mapping today str_of (cg_spec_canonical c) of
        Inl _ \<Rightarrow> Inl (invalid_spec ''stored campaign spec failed validation'')
      | Inr spec \<Rightarrow> Inr spec)"

text \<open>The machine \<^verbatim>\<open>_rebuild_orchestrator\<close> makes: no gates, no clock, the in-memory sink and checkpoint store.\<close>

type_synonym 'b api_machine = "('b, campaign_transition list, unit, (string, 'b) dict) orchestrator"
type_synonym 'b api_campaign = "(campaign_transition list, unit, (string, 'b) dict) campaign"

definition api_machine :: "('k, 'b) crypto \<Rightarrow> 'b pinned_spec \<Rightarrow> 'b api_machine" where
  "api_machine C pinned = in_memory \<lparr>or_spec = pinned, or_append = mem_append, or_all = (\<lambda>l. l), or_now = (\<lambda>_. 0),
     or_execution_gate = None, or_compensation_gate = None, or_store = mem_store C, or_load = mem_load\<rparr>"

definition stored_pin :: "('k, 'b) crypto \<Rightarrow> campaign_spec \<Rightarrow> 'b campaign_row \<Rightarrow> 'b pinned_spec" where
  "stored_pin C spec c = \<lparr>pin_bytes = spec_bytes C spec, pin_digest = cg_spec_digest c,
     pin_signature = \<lparr>ds_signature = cg_spec_signature c, ds_public_key = cg_signer_public_key c\<rparr>\<rparr>"

definition rebuild_orchestrator ::
  "('k, 'b) control_service \<Rightarrow> date \<Rightarrow> 'b campaign_row \<Rightarrow> 'b control_db \<Rightarrow> exn + 'b api_machine \<times> 'b api_campaign" where
  "rebuild_orchestrator V today c s =
     res_bind (spec_from_record (cv_str_of V) today c) (\<lambda>spec.
     res_bind (res_map transition_of_row (campaign_log (cg_tenant_id c) (cg_campaign_id c) s)) (\<lambda>ts.
     res_bind (stored_phase (cg_phase c)) (\<lambda>phase.
     res_bind (stored_target (cg_resume_target c)) (\<lambda>target.
       let M = api_machine (cv_crypto V) (stored_pin (cv_crypto V) spec c)
       in case fst (init_campaign (cv_crypto V) M phase target ts () [] []) of
            Inl (Campaign SpecTamperedError) \<Rightarrow> Inl (invalid_spec ''campaign spec no longer verifies'')
          | Inl e \<Rightarrow> Inl e
          | Inr cam \<Rightarrow> Inr (M, cam)))))"

section \<open>Planning\<close>

definition parse_submitted :: "(json \<Rightarrow> string) \<Rightarrow> date \<Rightarrow> json_object \<Rightarrow> exn + campaign_spec" where
  "parse_submitted str_of today spec_mapping =
     (case from_mapping today str_of (JObj spec_mapping) of
        Inl _ \<Rightarrow> Inl (invalid_spec ''campaign spec is invalid'') | Inr spec \<Rightarrow> Inr spec)"

definition mutable_types :: "campaign_spec \<Rightarrow> string list" where
  "mutable_types spec = map ma_artifact_type (cs_mutable_artifacts spec)"

definition new_campaign ::
  "('k, 'b) control_service \<Rightarrow> principal \<Rightarrow> string \<Rightarrow> instant \<Rightarrow> campaign_spec \<Rightarrow> 'b campaign_row" where
  "new_campaign V p uid now spec =
     (let pinned = pin_campaign_spec (cv_crypto V) spec (cv_signing_key V)
      in \<lparr>cg_tenant_id = pr_tenant_id p, cg_campaign_id = new_id ''camp'' uid, cg_name = cs_name spec,
          cg_spec_digest = pin_digest pinned, cg_spec_canonical = JObj (spec_object spec),
          cg_spec_signature = ds_signature (pin_signature pinned),
          cg_signer_public_key = ds_public_key (pin_signature pinned), cg_phase = phase_value DISCOVER,
          cg_resume_target = None, cg_created_at = now, cg_updated_at = now\<rparr>)"

definition insert_campaign :: "'b campaign_row \<Rightarrow> (exn, 'b control_db, unit) op" where
  "insert_campaign c =
     op_then (op_require (\<lambda>s. cg_campaign_id c \<notin> cg_campaign_id ` set (cp_campaigns s)) integrity_error)
       (op_modify (\<lambda>s. s\<lparr>cp_campaigns := cp_campaigns s @ [c]\<rparr>))"

text \<open>\<open>uid\<close> names the campaign, \<open>ruid\<close> the refusal row.\<close>

definition create_campaign ::
  "('k, 'b) control_service \<Rightarrow> principal \<Rightarrow> string \<Rightarrow> string \<Rightarrow> instant \<Rightarrow> date \<Rightarrow> json_object
     \<Rightarrow> (exn, 'b control_db, campaign_detail) op" where
  "create_campaign V p uid ruid now today spec_mapping =
     (case from_mapping today (cv_str_of V) (JObj spec_mapping) of
        Inl (Campaign (ScaffoldEnvironmentRefusedError why)) \<Rightarrow>
          op_then (transaction (on_refusals (record_refusal ruid (pr_tenant_id p) SPEC_CONSTRUCTION SCAFFOLD_REQUIRES_RESEARCH
                     [(''environment'', case map_of spec_mapping ''environment'' of None \<Rightarrow> JNull | Some v \<Rightarrow> v)]
                     (identity_id p))))
            (op_raise (invalid_spec ''campaign spec is invalid''))
      | Inl _ \<Rightarrow> op_raise (invalid_spec ''campaign spec is invalid'')
      | Inr spec \<Rightarrow>
          op_then (refuse_scaffold_outside_research V p ruid CAMPAIGN_CREATION (mutable_types spec)
                     [(''campaign_name'', JStr (cs_name spec))])
          (op_then (transaction (insert_campaign (new_campaign V p uid now spec)))
            (op_read (get_campaign p (new_id ''camp'' uid)))))"

record spec_validation =
  sp_schema_version :: int
  sp_name :: string
  sp_environment :: "string option"
  sp_mutable_artifact_types :: "string list"
  sp_arm_ids :: "string list"

definition validate_campaign_spec ::
  "('k, 'b) control_service \<Rightarrow> principal \<Rightarrow> date \<Rightarrow> json_object \<Rightarrow> exn + spec_validation" where
  "validate_campaign_spec V p today spec_mapping =
     res_bind (parse_submitted (cv_str_of V) today spec_mapping) (\<lambda>spec.
       if scaffold_refused V (pr_tenant_id p) (mutable_types spec)
       then Inl (Tenancy (TenantRefusalError SPEC_CONSTRUCTION SCAFFOLD_REQUIRES_RESEARCH
              ''scaffold-class artifacts are refused''))
       else Inr \<lparr>sp_schema_version = cs_schema_version spec, sp_name = cs_name spec, sp_environment = cs_environment spec,
                 sp_mutable_artifact_types = mutable_types spec, sp_arm_ids = map arm_id (cs_arms spec)\<rparr>)"

section \<open>Running\<close>

definition parse_phase :: "string \<Rightarrow> exn + campaign_phase" where
  "parse_phase value =
     (case phase_of_value value of None \<Rightarrow> Inl (Api (CampaignApiError ''unknown campaign phase'')) | Some p \<Rightarrow> Inr p)"

definition api_move ::
  "'b api_machine \<Rightarrow> campaign_phase \<Rightarrow> string \<Rightarrow> (exn, 'b api_campaign, campaign_transition) op" where
  "api_move M target reason =
     (if target = PAUSED then pause M reason
      else if target = CANCELLED then cancel M reason
      else op_bind (op_gets cam_phase) (\<lambda>phase.
        if phase = PAUSED
        then op_bind (resume M reason) (\<lambda>t.
          if tr_to t \<noteq> target
          then op_raise (Api (InvalidCampaignTransitionError ''campaign is paused and resumes elsewhere''))
          else op_return t)
        else transition M target reason))"

definition transition_error :: "exn \<Rightarrow> exn" where
  "transition_error e =
     (case e of Campaign (InvalidTransitionError p target allowed) \<Rightarrow> Api (InvalidCampaignTransitionError target) | _ \<Rightarrow> e)"

definition store_transition :: "instant \<Rightarrow> 'b campaign_row \<Rightarrow> campaign_transition \<Rightarrow> campaign_phase option \<Rightarrow> 'b control_db \<Rightarrow> 'b control_db" where
  "store_transition now c t target s =
     s\<lparr>cp_transitions := cp_transitions s @ [\<lparr>ct_tenant_id = cg_tenant_id c, ct_campaign_id = cg_campaign_id c,
         ct_sequence = tr_sequence t, ct_from_phase = phase_value (tr_from t), ct_to_phase = phase_value (tr_to t),
         ct_reason = tr_reason t, ct_occurred_at = now\<rparr>],
       cp_campaigns := map (\<lambda>x. if cg_campaign_id x = cg_campaign_id c
         then x\<lparr>cg_phase := phase_value (tr_to t), cg_resume_target := map_option phase_value target, cg_updated_at := now\<rparr>
         else x) (cp_campaigns s)\<rparr>"

definition move_campaign ::
  "('k, 'b) control_service \<Rightarrow> principal \<Rightarrow> instant \<Rightarrow> date \<Rightarrow> string \<Rightarrow> campaign_phase \<Rightarrow> string
     \<Rightarrow> (exn, 'b control_db, unit) op" where
  "move_campaign V p now today campaign_id target reason =
     op_bind (op_read (require_campaign (pr_tenant_id p) campaign_id)) (\<lambda>c.
     op_bind (op_read (rebuild_orchestrator V today c)) (\<lambda>(M, cam).
       case api_move M target reason cam of
         (Inl e, _) \<Rightarrow> op_raise (transition_error e)
       | (Inr t, cam') \<Rightarrow>
           op_then (op_require (\<lambda>s. (cg_tenant_id c, campaign_id, tr_sequence t)
                      \<notin> (\<lambda>r. (ct_tenant_id r, ct_campaign_id r, ct_sequence r)) ` set (cp_transitions s)) integrity_error)
             (op_modify (store_transition now c t (cam_resume cam')))))"

definition transition_campaign ::
  "('k, 'b) control_service \<Rightarrow> principal \<Rightarrow> instant \<Rightarrow> date \<Rightarrow> string \<Rightarrow> string \<Rightarrow> string
     \<Rightarrow> (exn, 'b control_db, campaign_detail) op" where
  "transition_campaign V p now today campaign_id to_phase reason =
     op_bind (op_lift (parse_phase to_phase)) (\<lambda>target.
     op_then (transaction (move_campaign V p now today campaign_id target reason))
       (op_read (get_campaign p campaign_id)))"

text \<open>What the control plane may be asked to do to its campaigns; the registry is another plane's and may
  become anything between two calls.\<close>

datatype 'b control_call =
    Create_campaign principal string string instant date json_object
  | Transition_campaign principal instant date string string string
  | Other_plane "'b registry_db"

fun do_campaign_call :: "('k, 'b) control_service \<Rightarrow> 'b control_call \<Rightarrow> 'b control_db \<Rightarrow> 'b control_db" where
  "do_campaign_call V (Create_campaign p uid ruid now today m) s = snd (create_campaign V p uid ruid now today m s)"
| "do_campaign_call V (Transition_campaign p now today i q reason) s = snd (transition_campaign V p now today i q reason s)"
| "do_campaign_call V (Other_plane g) s = s\<lparr>cp_registry := g\<rparr>"

definition well_formed_call :: "'b control_call \<Rightarrow> bool" where
  "well_formed_call c = (case c of Create_campaign _ _ _ _ _ m \<Rightarrow> json_wf (JObj m) | _ \<Rightarrow> True)"

end
