(* ===== verification/ControlLife.thy ===== *)
theory ControlLife
  imports ControlPlane
begin

text \<open>
  What the control plane's campaign tables hold after any calls: every campaign row is the reading of its own stored
  log, its stored spec still parses and its pin still verifies, so that a transition is refused only when the
  lifecycle forbids it.
\<close>

section \<open>A stored log\<close>

lemma sort_key_snoc_greatest:
  assumes "\<forall>y \<in> set xs. f y \<le> f x"
  shows "sort_key f (xs @ [x]) = sort_key f xs @ [x]"
proof (rule properties_for_sort_key)
  show "mset (sort_key f xs @ [x]) = mset (xs @ [x])" by simp
next
  fix k assume "k \<in> set (sort_key f xs @ [x])"
  have "filter (\<lambda>y. f y = f k) (sort_key f xs) = filter (\<lambda>y. f y = f k) xs" by (rule sort_key_stable)
  then show "filter (\<lambda>y. f k = f y) (sort_key f xs @ [x]) = filter (\<lambda>y. f k = f y) (xs @ [x])" by (simp add: eq_commute)
next
  show "sorted (map f (sort_key f xs @ [x]))" using assms by (auto simp: sorted_append)
qed

lemma res_map_snoc:
  "res_map f xs = Inr ys \<Longrightarrow> f x = Inr y \<Longrightarrow> res_map f (xs @ [x]) = Inr (ys @ [y])"
  by (induction xs arbitrary: ys) (auto simp: res_bind_Inr)

lemma res_map_sequences:
  "res_map transition_of_row rs = Inr ts \<Longrightarrow> map ct_sequence rs = map tr_sequence ts \<and> length rs = length ts"
  by (induction rs arbitrary: ts) (auto simp: res_bind_Inr transition_of_row_def)

lemma life_step_reads_ends: "tr_from t = tr_from u \<Longrightarrow> tr_to t = tr_to u \<Longrightarrow> life_step st t = life_step st u"
  by (simp add: life_step_def)

definition row_reads :: "'b control_db \<Rightarrow> 'b campaign_row \<Rightarrow> campaign_transition list \<Rightarrow> campaign_phase
    \<Rightarrow> campaign_phase option \<Rightarrow> bool" where
  "row_reads s c ts p r \<longleftrightarrow> res_map transition_of_row (campaign_log (cg_tenant_id c) (cg_campaign_id c) s) = Inr ts
     \<and> gapless ts \<and> life_replay (DISCOVER, None) ts = Some (p, r)
     \<and> cg_phase c = phase_value p \<and> cg_resume_target c = map_option phase_value r"

definition row_pinned :: "('k, 'b) control_service \<Rightarrow> 'b campaign_row \<Rightarrow> bool" where
  "row_pinned V c \<longleftrightarrow> (\<exists>today raw spec. json_wf raw \<and> from_mapping today (cv_str_of V) raw = Inr spec
     \<and> cg_spec_canonical c = JObj (spec_object spec)
     \<and> stored_pin (cv_crypto V) spec c = pin_campaign_spec (cv_crypto V) spec (cv_signing_key V))"

definition campaigns_inv :: "('k, 'b) control_service \<Rightarrow> 'b control_db \<Rightarrow> bool" where
  "campaigns_inv V s \<longleftrightarrow> distinct (map cg_campaign_id (cp_campaigns s))
     \<and> (\<forall>c \<in> set (cp_campaigns s). row_pinned V c \<and> (\<exists>ts p r. row_reads s c ts p r))
     \<and> ct_campaign_id ` set (cp_transitions s) \<subseteq> cg_campaign_id ` set (cp_campaigns s)"

lemma paused_iff: "life_replay (DISCOVER, None) ts = Some (p, r) \<Longrightarrow> (p = PAUSED \<longleftrightarrow> r \<noteq> None) \<and> (\<forall>q. r = Some q \<longrightarrow> can_pause q)"
  using life_milestones [of ts p r] by (auto split: option.splits)

section \<open>One move of the rebuilt machine\<close>

text \<open>What the lifecycle allows the control plane to be asked for.\<close>

definition api_edge :: "campaign_phase \<Rightarrow> campaign_phase option \<Rightarrow> campaign_phase \<Rightarrow> bool" where
  "api_edge p r q \<longleftrightarrow> q \<in> set (forward_edges p) \<or> q = PAUSED \<and> can_pause p \<or> q = CANCELLED \<and> can_cancel p
     \<or> p = PAUSED \<and> r = Some q"

definition rebuilt :: "campaign_phase \<Rightarrow> campaign_phase option \<Rightarrow> campaign_transition list \<Rightarrow> 'b api_campaign" where
  "rebuilt p r ts = \<lparr>cam_phase = p, cam_resume = r, cam_sink = ts, cam_gates = (), cam_store = []\<rparr>"

lemma api_machine_ungated:
  "or_execution_gate (api_machine C pin) = None" "or_compensation_gate (api_machine C pin) = None"
  "or_spec (api_machine C pin) = pin" "or_append (api_machine C pin) = mem_append"
  by (simp_all add: api_machine_def)

lemma api_record:
  "record_transition (api_machine C pin) p q reason c =
     (Inr \<lparr>tr_sequence = int (length (cam_sink c)), tr_from = p, tr_to = q, tr_reason = reason, tr_at = 0\<rparr>,
      c\<lparr>cam_phase := q, cam_sink := cam_sink c @ [\<lparr>tr_sequence = int (length (cam_sink c)), tr_from = p, tr_to = q,
           tr_reason = reason, tr_at = 0\<rparr>]\<rparr>)"
  by (simp add: api_machine_def mem_record_eq)

lemma api_consult: "consult_gates (api_machine C pin) p q c = (Inr (), c)"
  by (simp add: consult_gates_def api_machine_ungated op_then_def op_bind_def op_return_def)

lemmas api_moves = api_move_def transition_def pause_def resume_def cancel_def op_then_def op_bind_def op_gets_def
  op_raise_def op_return_def op_modify_def api_record api_consult

lemma api_move_allowed:
  assumes "api_edge p r q" and "p = PAUSED \<longleftrightarrow> r \<noteq> None" "\<forall>q. r = Some q \<longrightarrow> can_pause q"
  shows "\<exists>t r' cam'. api_move (api_machine C pin) q reason (rebuilt p r ts) = (Inr t, cam') \<and> cam_resume cam' = r'
    \<and> life_step (p, r) t = Some (q, r') \<and> tr_to t = q \<and> tr_from t = p \<and> tr_sequence t = int (length ts)"
proof -
  have noedge: "q \<noteq> PAUSED \<and> q \<noteq> CANCELLED \<and> p \<noteq> PAUSED" if "q \<in> set (forward_edges p)"
    using that no_edge_to_control [of p] by auto
  consider (edge) "q \<in> set (forward_edges p)" | (pause) "q = PAUSED" "can_pause p" | (cancel) "q = CANCELLED" "can_cancel p"
    | (resume) "p = PAUSED" "r = Some q" using assms(1) unfolding api_edge_def by blast
  then show ?thesis
  proof cases
    case edge
    with noedge assms(2) show ?thesis by (auto simp: api_moves rebuilt_def life_step_def)
  next
    case pause
    with no_edge_to_control [of p] show ?thesis by (auto simp: api_moves rebuilt_def life_step_def)
  next
    case cancel
    with no_edge_to_control [of p] assms(3) show ?thesis
      by (auto simp: api_moves rebuilt_def life_step_def can_pause_def phase_tests)
  next
    case resume
    then have "q \<noteq> PAUSED" "q \<noteq> CANCELLED" using assms(3) by (auto simp: phase_tests)
    with resume show ?thesis by (auto simp: api_moves rebuilt_def life_step_def can_pause_def)
  qed
qed

lemma api_move_refused:
  assumes "\<not> api_edge p r q"
  shows "\<exists>e cam'. api_move (api_machine C pin) q reason (rebuilt p r ts) = (Inl e, cam')"
  using assms by (cases r) (auto simp: api_moves rebuilt_def api_edge_def)

section \<open>Rebuilding\<close>

lemma mem_appends: "op_for ts mem_append l = (Inr (), l @ ts)"
  by (induction ts arbitrary: l) (simp_all add: op_defs mem_append_def)

lemma accepted_spec_wf: "json_wf raw \<Longrightarrow> from_mapping day f raw = Inr spec \<Longrightarrow> json_wf (JObj (spec_object spec))"
  using parsed_spec [OF from_mappingD, of day f raw spec] by (blast intro: spec_object_wf parsed_metadata_ok)

lemma phase_value_not_empty [simp]: "phase_value p \<noteq> []"
  by (cases p) simp_all

lemma rebuild_row:
  assumes C: "crypto_laws (cv_crypto V)" and pinned: "row_pinned V c" and reads: "row_reads s c ts p r"
  shows "\<exists>pin. rebuild_orchestrator V today c s = Inr (api_machine (cv_crypto V) pin, rebuilt p r ts)"
proof -
  obtain day raw spec where raw: "json_wf raw" "from_mapping day (cv_str_of V) raw = Inr spec"
    and stored: "cg_spec_canonical c = JObj (spec_object spec)"
    and pin: "stored_pin (cv_crypto V) spec c = pin_campaign_spec (cv_crypto V) spec (cv_signing_key V)"
    using pinned by (auto simp: row_pinned_def)
  obtain spec' where spec': "from_mapping today (cv_str_of V) (cg_spec_canonical c) = Inr spec'"
    and same: "spec_object spec' = spec_object spec"
    using stored_spec_parses [OF raw same_json_refl [OF accepted_spec_wf [OF raw]], of today "cv_str_of V"]
    unfolding stored by blast
  have bytes: "spec_bytes (cv_crypto V) spec' = spec_bytes (cv_crypto V) spec" by (simp add: spec_bytes_def same)
  then have pin': "stored_pin (cv_crypto V) spec' c = pin_campaign_spec (cv_crypto V) spec (cv_signing_key V)"
    using pin by (simp add: stored_pin_def)
  have ok: "pinned_verify (cv_crypto V) (stored_pin (cv_crypto V) spec' c)"
    unfolding pin' pin_campaign_spec_def by (rule pin_and_sign_verifies [OF C])
  have target: "stored_target (cg_resume_target c) = Inr r"
    using reads by (cases r) (auto simp: row_reads_def stored_target_def stored_phase_def phase_value_not_empty)
  show ?thesis
    using reads spec' target ok
    by (auto simp: row_reads_def rebuild_orchestrator_def spec_from_record_def stored_phase_def Let_def init_campaign_def
        api_machine_ungated op_then_def op_bind_def op_gets_def rebuilt_def mem_appends)
qed

section \<open>One stored transition\<close>

lemma store_ids [simp]:
  "map cg_campaign_id (cp_campaigns (store_transition now c t r s)) = map cg_campaign_id (cp_campaigns s)"
  by (simp add: store_transition_def)

lemma store_ids_set [simp]:
  "cg_campaign_id ` set (cp_campaigns (store_transition now c t r s)) = cg_campaign_id ` set (cp_campaigns s)"
  using store_ids [of now c t r s] by (metis set_map)

lemma log_frame:
  assumes "cg_campaign_id x \<noteq> cg_campaign_id c"
  shows "campaign_log (cg_tenant_id x) (cg_campaign_id x) (store_transition now c t r s) =
    campaign_log (cg_tenant_id x) (cg_campaign_id x) s"
  using assms by (simp add: campaign_log_def store_transition_def)

lemma log_grows:
  assumes reads: "res_map transition_of_row (campaign_log (cg_tenant_id c) (cg_campaign_id c) s) = Inr ts" "gapless ts"
    and seq: "tr_sequence t = int (length ts)"
  shows "\<exists>u. res_map transition_of_row (campaign_log (cg_tenant_id c) (cg_campaign_id c) (store_transition now c t r s)) = Inr (ts @ [u])
    \<and> tr_sequence u = int (length ts) \<and> tr_from u = tr_from t \<and> tr_to u = tr_to t"
proof -
  let ?rows = "filter (\<lambda>r. ct_tenant_id r = cg_tenant_id c \<and> ct_campaign_id r = cg_campaign_id c) (cp_transitions s)"
  define row where "row = \<lparr>ct_tenant_id = cg_tenant_id c, ct_campaign_id = cg_campaign_id c,
         ct_sequence = tr_sequence t, ct_from_phase = phase_value (tr_from t), ct_to_phase = phase_value (tr_to t),
         ct_reason = tr_reason t, ct_occurred_at = now\<rparr>"
  have "map ct_sequence (sort_key ct_sequence ?rows) = map int [0..<length ts]"
    using res_map_sequences [OF reads(1)] reads(2) by (simp add: campaign_log_def gapless_def)
  then have img: "set (map ct_sequence (sort_key ct_sequence ?rows)) = int ` {0..<length ts}" by (metis set_map set_upt)
  have "\<forall>y \<in> set ?rows. ct_sequence y \<le> ct_sequence row"
  proof
    fix y assume "y \<in> set ?rows"
    then have "ct_sequence y \<in> set (map ct_sequence (sort_key ct_sequence ?rows))" by simp
    then have "ct_sequence y \<in> int ` {0..<length ts}" unfolding img .
    then show "ct_sequence y \<le> ct_sequence row" using seq by (auto simp: row_def)
  qed
  from sort_key_snoc_greatest [OF this]
  have "campaign_log (cg_tenant_id c) (cg_campaign_id c) (store_transition now c t r s) =
    campaign_log (cg_tenant_id c) (cg_campaign_id c) s @ [row]"
    by (simp add: campaign_log_def store_transition_def row_def)
  moreover have "\<exists>u. transition_of_row row = Inr u \<and> tr_sequence u = int (length ts) \<and> tr_from u = tr_from t \<and> tr_to u = tr_to t"
    by (simp add: transition_of_row_def row_def stored_phase_def seq)
  ultimately show ?thesis using res_map_snoc [OF reads(1)] by metis
qed

lemma log_fresh:
  assumes "res_map transition_of_row (campaign_log t i s) = Inr ts" "gapless ts"
  shows "(t, i, int (length ts)) \<notin> (\<lambda>r. (ct_tenant_id r, ct_campaign_id r, ct_sequence r)) ` set (cp_transitions s)"
proof
  assume "(t, i, int (length ts)) \<in> (\<lambda>r. (ct_tenant_id r, ct_campaign_id r, ct_sequence r)) ` set (cp_transitions s)"
  then have "int (length ts) \<in> set (map ct_sequence (campaign_log t i s))" by (auto simp: campaign_log_def)
  also have "map ct_sequence (campaign_log t i s) = map int [0..<length ts]"
    using res_map_sequences [OF assms(1)] assms(2) by (simp add: gapless_def)
  finally show False by auto
qed

lemma read_grows:
  assumes reads: "row_reads s c ts p r" and t: "life_step (p, r) t = Some (q, r')" "tr_to t = q" "tr_from t = p"
    "tr_sequence t = int (length ts)"
  shows "\<exists>us. row_reads (store_transition now c t r' s)
    (c\<lparr>cg_phase := phase_value q, cg_resume_target := map_option phase_value r', cg_updated_at := now\<rparr>) us q r'"
proof -
  obtain u where u: "res_map transition_of_row (campaign_log (cg_tenant_id c) (cg_campaign_id c) (store_transition now c t r' s)) = Inr (ts @ [u])"
    "tr_sequence u = int (length ts)" "tr_from u = tr_from t" "tr_to u = tr_to t"
    using reads t(4) by (auto simp: row_reads_def dest: log_grows [where t = t and now = now and r = r'])
  have "life_step (p, r) u = Some (q, r')" using t(1) life_step_reads_ends [OF u(3,4)] by simp
  then show ?thesis using reads u by (intro exI [of _ "ts @ [u]"]) (simp add: row_reads_def gapless_snoc life_replay_append)
qed

lemma store_keeps:
  assumes inv: "campaigns_inv V s" and c: "c \<in> set (cp_campaigns s)" and reads: "row_reads s c ts p r"
    and t: "life_step (p, r) t = Some (q, r')" "tr_to t = q" "tr_from t = p" "tr_sequence t = int (length ts)"
  shows "campaigns_inv V (store_transition now c t r' s)"
proof -
  let ?s = "store_transition now c t r' s"
  have row: "row_pinned V x \<and> (\<exists>ts p r. row_reads ?s x ts p r)" if x: "x \<in> set (cp_campaigns ?s)" for x
  proof -
    from x obtain y where y: "y \<in> set (cp_campaigns s)" and xy: "x = (if cg_campaign_id y = cg_campaign_id c
        then y\<lparr>cg_phase := phase_value (tr_to t), cg_resume_target := map_option phase_value r', cg_updated_at := now\<rparr> else y)"
      by (auto simp: store_transition_def)
    show ?thesis
    proof (cases "cg_campaign_id y = cg_campaign_id c")
      case True
      then have "y = c" using inv c y by (auto simp: campaigns_inv_def distinct_map inj_on_def)
      moreover from inv c have "row_pinned V c" by (simp add: campaigns_inv_def)
      moreover obtain us where "row_reads ?s (c\<lparr>cg_phase := phase_value q, cg_resume_target := map_option phase_value r',
          cg_updated_at := now\<rparr>) us q r'"
        using read_grows [OF reads t] by blast
      moreover have "row_pinned V (c\<lparr>cg_phase := a, cg_resume_target := b, cg_updated_at := now\<rparr>) = row_pinned V c" for a b
        by (simp add: row_pinned_def stored_pin_def)
      ultimately show ?thesis using xy t(2) by auto
    next
      case False
      then show ?thesis using inv y xy log_frame [OF False] by (auto simp: campaigns_inv_def row_reads_def)
    qed
  qed
  have "ct_campaign_id ` set (cp_transitions ?s) \<subseteq> cg_campaign_id ` set (cp_campaigns s)"
    using inv c by (auto simp: campaigns_inv_def store_transition_def)
  with inv row show ?thesis unfolding campaigns_inv_def store_ids store_ids_set by blast
qed

section \<open>The calls\<close>

lemma require_found:
  assumes "distinct (map cg_campaign_id (cp_campaigns s))" "c \<in> set (cp_campaigns s)"
  shows "require_campaign (cg_tenant_id c) (cg_campaign_id c) s = Inr c"
proof -
  have "filter (\<lambda>x. cg_tenant_id x = cg_tenant_id c \<and> cg_campaign_id x = cg_campaign_id c) (cp_campaigns s) =
    filter (\<lambda>x. cg_tenant_id x = cg_tenant_id c) (filter (\<lambda>x. cg_campaign_id x = cg_campaign_id c) (cp_campaigns s))"
    by (simp add: conj_commute)
  also have "\<dots> = [c]" unfolding filter_key_unique [OF assms] by simp
  finally show ?thesis by (simp add: require_campaign_def one_or_none_def)
qed

lemma require_member: "require_campaign t i s = Inr c \<Longrightarrow> c \<in> set (cp_campaigns s) \<and> cg_tenant_id c = t \<and> cg_campaign_id c = i"
  by (auto simp: require_campaign_def res_bind_Inr split: option.splits dest: one_or_none_filter)

lemma move_allowed:
  assumes C: "crypto_laws (cv_crypto V)" and inv: "campaigns_inv V s" and c: "c \<in> set (cp_campaigns s)"
    and tenant: "pr_tenant_id p = cg_tenant_id c" and reads: "row_reads s c ts ph r" and edge: "api_edge ph r q"
  obtains t r' where "move_campaign V p now today (cg_campaign_id c) q reason s = (Inr (), store_transition now c t r' s)"
    "life_step (ph, r) t = Some (q, r')" "tr_to t = q" "tr_from t = ph" "tr_sequence t = int (length ts)"
proof -
  have d: "distinct (map cg_campaign_id (cp_campaigns s))" "row_pinned V c" using inv c by (auto simp: campaigns_inv_def)
  obtain pin where reb: "rebuild_orchestrator V today c s = Inr (api_machine (cv_crypto V) pin, rebuilt ph r ts)"
    using rebuild_row [OF C d(2) reads] by blast
  have life: "life_replay (DISCOVER, None) ts = Some (ph, r)" "gapless ts"
    "res_map transition_of_row (campaign_log (cg_tenant_id c) (cg_campaign_id c) s) = Inr ts"
    using reads by (auto simp: row_reads_def)
  obtain t r' cam' where t: "api_move (api_machine (cv_crypto V) pin) q reason (rebuilt ph r ts) = (Inr t, cam')" "cam_resume cam' = r'"
    "life_step (ph, r) t = Some (q, r')" "tr_to t = q" "tr_from t = ph" "tr_sequence t = int (length ts)"
    using api_move_allowed [OF edge] paused_iff [OF life(1)] by metis
  show thesis
    using that [OF _ t(3-6)] t(1,2,6) require_found [OF d(1) c] reb log_fresh [OF life(3,2)] tenant
    by (simp add: move_campaign_def op_run_simps op_end_simps)
qed

lemma move_refused:
  assumes C: "crypto_laws (cv_crypto V)" and inv: "campaigns_inv V s" and c: "c \<in> set (cp_campaigns s)"
    and tenant: "pr_tenant_id p = cg_tenant_id c" and reads: "row_reads s c ts ph r" and edge: "\<not> api_edge ph r q"
  shows "\<exists>e. move_campaign V p now today (cg_campaign_id c) q reason s = (Inl e, s)"
proof -
  have d: "distinct (map cg_campaign_id (cp_campaigns s))" "row_pinned V c" using inv c by (auto simp: campaigns_inv_def)
  obtain pin where reb: "rebuild_orchestrator V today c s = Inr (api_machine (cv_crypto V) pin, rebuilt ph r ts)"
    using rebuild_row [OF C d(2) reads] by blast
  obtain e cam' where "api_move (api_machine (cv_crypto V) pin) q reason (rebuilt ph r ts) = (Inl e, cam')"
    using api_move_refused [OF edge] by blast
  with require_found [OF d(1) c] reb tenant show ?thesis
    by (auto simp: move_campaign_def op_run_simps op_end_simps)
qed

lemma get_campaign_only [simp]: "snd (op_then m (op_read f) s) = snd (m s)"
  by (auto simp: op_then_def op_bind_def op_read_def split: prod.splits sum.splits)

lemma transition_keeps:
  assumes C: "crypto_laws (cv_crypto V)" and inv: "campaigns_inv V s"
  shows "campaigns_inv V (snd (transition_campaign V p now today i v reason s))"
proof (cases "parse_phase v")
  case (Inl e)
  with inv show ?thesis by (simp add: transition_campaign_def op_end_simps)
next
  case v: (Inr q)
  have eq: "snd (transition_campaign V p now today i v reason s) = snd (transaction (move_campaign V p now today i q reason) s)"
    by (simp add: transition_campaign_def v)
  show ?thesis
  proof (cases "require_campaign (pr_tenant_id p) i s")
    case (Inl e)
    then show ?thesis using inv unfolding eq by (simp add: transaction_def move_campaign_def op_run_simps)
  next
    case (Inr c)
    from require_member [OF this] have c: "c \<in> set (cp_campaigns s)" "pr_tenant_id p = cg_tenant_id c" "i = cg_campaign_id c" by auto
    obtain ts ph r where reads: "row_reads s c ts ph r" using inv c(1) by (auto simp: campaigns_inv_def)
    show ?thesis
    proof (cases "api_edge ph r q")
      case True
      obtain t r' where m: "move_campaign V p now today i q reason s = (Inr (), store_transition now c t r' s)"
        and t: "life_step (ph, r) t = Some (q, r')" "tr_to t = q" "tr_from t = ph" "tr_sequence t = int (length ts)"
        using move_allowed [OF C inv c(1,2) reads True] unfolding c(3) by metis
      show ?thesis unfolding eq using store_keeps [OF inv c(1) reads t] by (simp add: transaction_def m)
    next
      case False
      then show ?thesis unfolding eq using move_refused [OF C inv c(1,2) reads False, of now today reason] inv
        by (auto simp: transaction_def c(3))
    qed
  qed
qed

lemma new_campaign_ok:
  assumes "json_wf (JObj m)" "from_mapping today (cv_str_of V) (JObj m) = Inr spec"
    and inv: "campaigns_inv V s" and fresh: "new_id ''camp'' uid \<notin> cg_campaign_id ` set (cp_campaigns s)"
  shows "campaigns_inv V (s\<lparr>cp_campaigns := cp_campaigns s @ [new_campaign V p uid now spec]\<rparr>)"
proof -
  let ?c = "new_campaign V p uid now spec" and ?s = "s\<lparr>cp_campaigns := cp_campaigns s @ [new_campaign V p uid now spec]\<rparr>"
  have id: "cg_campaign_id ?c = new_id ''camp'' uid" by (simp add: new_campaign_def Let_def)
  have "new_id ''camp'' uid \<notin> ct_campaign_id ` set (cp_transitions s)" using inv fresh unfolding campaigns_inv_def by blast
  then have "filter (\<lambda>r. ct_tenant_id r = cg_tenant_id ?c \<and> ct_campaign_id r = cg_campaign_id ?c) (cp_transitions s) = []"
    unfolding id filter_empty_conv by (metis image_eqI)
  then have "campaign_log (cg_tenant_id ?c) (cg_campaign_id ?c) ?s = []" by (simp add: campaign_log_def)
  then have "row_reads ?s ?c [] DISCOVER None" by (simp add: row_reads_def gapless_def new_campaign_def Let_def)
  moreover have "row_pinned V ?c"
    unfolding row_pinned_def by (intro exI [of _ today] exI [of _ "JObj m"] exI [of _ spec])
      (use assms(1,2) in \<open>simp add: new_campaign_def Let_def stored_pin_def pin_campaign_spec_def pin_and_sign_def\<close>)
  moreover have "row_reads ?s = row_reads s"
    by (intro ext) (simp add: row_reads_def campaign_log_def)
  ultimately show ?thesis using inv fresh id unfolding campaigns_inv_def by auto
qed

lemma refusals_keep: "campaigns_inv V (cp_refusals_update f s) = campaigns_inv V s"
  by (simp add: campaigns_inv_def row_reads_def campaign_log_def)

lemma on_refusals_keeps: "campaigns_inv V s \<Longrightarrow> campaigns_inv V (snd (on_refusals m s))"
  by (auto simp: op_zoom_def refusals_keep split: prod.splits)

lemma gate_keeps: "campaigns_inv V s \<Longrightarrow> campaigns_inv V (snd (refuse_scaffold_outside_research V p uid b types detail s))"
  by (auto simp: refuse_scaffold_outside_research_def op_then_def op_bind_def op_return_def op_raise_def
      dest: on_refusals_keeps split: prod.splits sum.splits) (metis on_refusals_keeps snd_conv)+

lemma create_keeps:
  assumes "json_wf (JObj m)" "campaigns_inv V s"
  shows "campaigns_inv V (snd (create_campaign V p uid ruid now today m s))"
proof (cases "from_mapping today (cv_str_of V) (JObj m)")
  case (Inl e)
  have t: "campaigns_inv V (snd (op_then (transaction (on_refusals f)) (op_raise e') s))" for f e'
    using on_refusals_keeps [OF assms(2), of f] assms(2)
    by (auto simp: op_then_def op_bind_def transaction_def op_raise_def split: prod.splits sum.splits)
  have r: "campaigns_inv V (snd (op_raise e' s))" for e' using assms(2) by (simp add: op_raise_def)
  show ?thesis
  proof (cases "\<exists>why. e = Campaign (ScaffoldEnvironmentRefusedError why)")
    case True
    then show ?thesis using Inl t by (auto simp: create_campaign_def)
  next
    case False
    then have "create_campaign V p uid ruid now today m = op_raise (invalid_spec ''campaign spec is invalid'')"
      using Inl by (auto simp: create_campaign_def split: exn.split campaign_error.split)
    then show ?thesis using r by simp
  qed
next
  case (Inr spec)
  let ?gate = "refuse_scaffold_outside_research V p ruid CAMPAIGN_CREATION (mutable_types spec) [(''campaign_name'', JStr (cs_name spec))]"
  obtain res s1 where g: "?gate s = (res, s1)" by fastforce
  with gate_keeps [OF assms(2)] have inv1: "campaigns_inv V s1" by (metis snd_conv)
  show ?thesis
  proof (cases res)
    case (Inl e)
    then show ?thesis using g inv1 by (simp add: create_campaign_def Inr op_then_def op_bind_def)
  next
    case ok: (Inr u)
    have "snd (create_campaign V p uid ruid now today m s) = snd (transaction (insert_campaign (new_campaign V p uid now spec)) s1)"
      using g ok get_campaign_only [of "transaction (insert_campaign (new_campaign V p uid now spec))"] by (simp add: create_campaign_def Inr op_then_run)
    moreover have "cg_campaign_id (new_campaign V p uid now spec) = new_id ''camp'' uid" by (simp add: new_campaign_def Let_def)
    ultimately show ?thesis
      using inv1 new_campaign_ok [OF assms(1) Inr inv1, of uid p now]
      by (auto simp: transaction_def insert_campaign_def op_run_simps op_end_simps split: if_splits)
  qed
qed

lemma calls_keep:
  assumes "crypto_laws (cv_crypto V)" "campaigns_inv V s" "well_formed_call call"
  shows "campaigns_inv V (do_campaign_call V call s)"
proof (cases call)
  case (Create_campaign p uid ruid now today m)
  then have "json_wf (JObj m)" using assms(3) by (simp add: well_formed_call_def)
  from create_keeps [OF this assms(2)] Create_campaign show ?thesis by simp
next
  case (Transition_campaign p now today i q reason)
  then show ?thesis using transition_keeps [OF assms(1,2)] by simp
next
  case (Other_plane g)
  then show ?thesis using assms(2) by (simp add: campaigns_inv_def row_reads_def campaign_log_def)
qed

lemma reachable_inv:
  assumes "crypto_laws (cv_crypto V)" "list_all well_formed_call calls" "campaigns_inv V s"
  shows "campaigns_inv V (run_calls (do_campaign_call V) calls s)"
  using assms(2,3) by (induction calls arbitrary: s) (simp_all add: calls_keep [OF assms(1)])

lemma empty_inv: "campaigns_inv V empty_control_db"
  by (simp add: campaigns_inv_def empty_control_db_def)

lemma phase_value_eq [simp]: "phase_value p = phase_value q \<longleftrightarrow> p = q"
  by (metis option.inject phase_of_value_value)

lemma map_option_phase [simp]: "map_option phase_value r = map_option phase_value r' \<longleftrightarrow> r = r'"
  by (cases r; cases r') auto

section \<open>Properties\<close>

text \<open>C28: The phase the control plane shows is the history: after any calls by any principals, on any days, every
  stored campaign's transition rows parse, are numbered 0, 1, 2, ... without a gap, are legal from the first
  to the last, and lead to exactly the phase and the resume target its row holds.\<close>

theorem stored_phase_is_the_history:
  assumes "crypto_laws (cv_crypto V)" "list_all well_formed_call calls"
    and "s = run_calls (do_campaign_call V) calls empty_control_db" "c \<in> set (cp_campaigns s)"
  shows "\<exists>ts p r. res_map transition_of_row (campaign_log (cg_tenant_id c) (cg_campaign_id c) s) = Inr ts
    \<and> map tr_sequence ts = map int [0..<length ts] \<and> life_replay (DISCOVER, None) ts = Some (p, r)
    \<and> cg_phase c = phase_value p \<and> cg_resume_target c = map_option phase_value r"
proof -
  from reachable_inv [OF assms(1,2) empty_inv] assms(3,4) obtain ts p r where "row_reads s c ts p r"
    by (auto simp: campaigns_inv_def)
  then show ?thesis unfolding row_reads_def gapless_def by blast
qed

text \<open>C27: The control plane refuses a transition only when the lifecycle does: for a campaign of the caller's tenant,
  on whatever later day, a request is granted exactly if it is a forward edge of the stored phase, a pause, a
  cancellation or the resumption of a paused campaign; a granted request ends in the phase asked for and a refused one
  changes nothing. The stored spec is read and its signature verified every time and is never the reason. No
  gate is consulted: the edge from approval into the canary is granted without any compensation evidence.\<close>

theorem transition_granted_iff:
  assumes C: "crypto_laws (cv_crypto V)" and calls: "list_all well_formed_call calls"
    and s: "s = run_calls (do_campaign_call V) calls empty_control_db" and c: "c \<in> set (cp_campaigns s)"
    and tenant: "pr_tenant_id p = cg_tenant_id c"
    and phase: "cg_phase c = phase_value ph" "cg_resume_target c = map_option phase_value r"
  shows "((\<exists>d s'. transition_campaign V p now today (cg_campaign_id c) (phase_value q) reason s = (Inr d, s')) \<longleftrightarrow> api_edge ph r q)
    \<and> (\<forall>d s'. transition_campaign V p now today (cg_campaign_id c) (phase_value q) reason s = (Inr d, s') \<longrightarrow> sm_phase d = phase_value q)
    \<and> (\<forall>e s'. transition_campaign V p now today (cg_campaign_id c) (phase_value q) reason s = (Inl e, s') \<longrightarrow> s' = s)"
proof -
  let ?call = "transition_campaign V p now today (cg_campaign_id c) (phase_value q) reason s"
  have inv: "campaigns_inv V s" unfolding s by (rule reachable_inv [OF C calls empty_inv])
  obtain ts ph' r' where reads: "row_reads s c ts ph' r'" using inv c by (auto simp: campaigns_inv_def)
  have same: "ph' = ph" "r' = r" using reads phase by (auto simp: row_reads_def phase_value_eq map_option_phase)
  note reads = reads [unfolded same]
  show ?thesis
  proof (cases "api_edge ph r q")
    case True
    obtain t r' where m: "move_campaign V p now today (cg_campaign_id c) q reason s = (Inr (), store_transition now c t r' s)"
      and t: "life_step (ph, r) t = Some (q, r')" "tr_to t = q" "tr_from t = ph" "tr_sequence t = int (length ts)"
      using move_allowed [OF C inv c tenant reads True] by metis
    let ?s = "store_transition now c t r' s"
    let ?c = "c\<lparr>cg_phase := phase_value q, cg_resume_target := map_option phase_value r', cg_updated_at := now\<rparr>"
    have "?c \<in> set (cp_campaigns ?s)" using c t(2) by (auto simp: store_transition_def image_iff)
    moreover have "distinct (map cg_campaign_id (cp_campaigns ?s))" using inv by (simp add: campaigns_inv_def)
    ultimately have "require_campaign (pr_tenant_id p) (cg_campaign_id c) ?s = Inr ?c"
      using require_found [of ?s ?c] tenant by simp
    then have "\<exists>d. ?call = (Inr d, ?s) \<and> sm_phase d = phase_value q"
      by (simp add: transition_campaign_def parse_phase_def op_then_def op_bind_def transaction_def m op_read_def get_campaign_def op_end_simps res_bind_simps)
    with True show ?thesis by auto
  next
    case False
    obtain e where "move_campaign V p now today (cg_campaign_id c) q reason s = (Inl e, s)"
      using move_refused [OF C inv c tenant reads False] by blast
    then have "?call = (Inl e, s)"
      by (simp add: transition_campaign_def parse_phase_def op_then_def op_bind_def transaction_def op_end_simps)
    with False show ?thesis by simp
  qed
qed

section \<open>Witnesses\<close>

definition demo_service :: "(string, json) control_service" where
  "demo_service = \<lparr>cv_crypto = plain_crypto, cv_signing_key = ''key'', cv_evaluator_subject = ''evaluator'',
     cv_tenant_policies = [], cv_str_of = (\<lambda>_. [])\<rparr>"

definition demo_caller :: principal where
  "demo_caller = \<lparr>pr_identity = \<lparr>wid_role = EVALUATOR, wid_subject = ''operator''\<rparr>, pr_tenant_id = ''acme''\<rparr>"

definition demo_submission :: json_object where
  "demo_submission = demo_document 3 (''mutable_artifacts'', JList [JObj demo_artifact])"

definition demo_calls :: "json control_call list" where
  "demo_calls = [Create_campaign demo_caller ''1'' ''2'' 0 (2027, 1, 1) demo_submission]"

lemma demo_submission_parses:
  "\<exists>spec. from_mapping (2027, 1, 1) (\<lambda>_. []) (JObj demo_submission) = Inr spec \<and> \<not> list_ex is_scaffold_class (mutable_types spec)"
proof -
  have "case from_mapping (2027, 1, 1) (\<lambda>_. []) (JObj demo_submission) of Inl _ \<Rightarrow> False
    | Inr spec \<Rightarrow> \<not> list_ex is_scaffold_class (mutable_types spec)" by code_simp
  then show ?thesis by (auto split: sum.splits)
qed

lemma demo_calls_wf: "list_all well_formed_call demo_calls"
  by code_simp

lemma demo_created:
  "\<exists>c. cp_campaigns (run_calls (do_campaign_call demo_service) demo_calls empty_control_db) = [c] \<and> cg_tenant_id c = ''acme''
     \<and> cg_campaign_id c = ''camp_1'' \<and> cg_phase c = phase_value DISCOVER \<and> cg_resume_target c = None"
proof -
  obtain spec where spec: "from_mapping (2027, 1, 1) (cv_str_of demo_service) (JObj demo_submission) = Inr spec"
    "\<not> list_ex is_scaffold_class (mutable_types spec)" using demo_submission_parses by (auto simp: demo_service_def)
  then show ?thesis
    by (simp add: demo_calls_def create_campaign_def refuse_scaffold_outside_research_def scaffold_refused_def op_then_def [of "op_return ()"]
        op_bind_def [of "op_return ()"] op_end_simps transaction_def insert_campaign_def op_run_simps new_campaign_def Let_def
        empty_control_db_def demo_caller_def new_id_def)
qed

lemma stored_phase_witness:
  "\<exists>c ts p r. c \<in> set (cp_campaigns (run_calls (do_campaign_call demo_service) demo_calls empty_control_db))
     \<and> life_replay (DISCOVER, None) ts = Some (p, r) \<and> cg_phase c = phase_value p"
proof -
  have C: "crypto_laws (cv_crypto demo_service)" by (simp add: demo_service_def plain_crypto_laws)
  obtain c where c: "c \<in> set (cp_campaigns (run_calls (do_campaign_call demo_service) demo_calls empty_control_db))"
    using demo_created by force
  from stored_phase_is_the_history [OF C demo_calls_wf refl c] c show ?thesis by blast
qed

lemma transition_granted_witness:
  "\<exists>d s'. transition_campaign demo_service demo_caller 5 (2031, 1, 1) ''camp_1'' ''plan'' [] 
       (run_calls (do_campaign_call demo_service) demo_calls empty_control_db) = (Inr d, s') \<and> sm_phase d = ''plan''"
proof -
  have C: "crypto_laws (cv_crypto demo_service)" by (simp add: demo_service_def plain_crypto_laws)
  obtain c where c: "c \<in> set (cp_campaigns (run_calls (do_campaign_call demo_service) demo_calls empty_control_db))"
    "cg_tenant_id c = ''acme''" "cg_campaign_id c = ''camp_1''" "cg_phase c = phase_value DISCOVER" "cg_resume_target c = None"
    using demo_created by force
  have edge: "api_edge DISCOVER None PLAN" by (simp add: api_edge_def)
  have t: "pr_tenant_id demo_caller = cg_tenant_id c" by (simp add: demo_caller_def c(2))
  have r: "cg_resume_target c = map_option phase_value None" by (simp add: c(5))
  from transition_granted_iff [OF C demo_calls_wf refl c(1) t c(4) r, of 5 "(2031, 1, 1)" PLAN "[]"] edge c(3)
  show ?thesis by simp blast
qed

text \<open>C29: The dry run tells the truth: validation accepts a document for a tenant exactly when creation does, and then the
  campaign created has the validated name and is in the discovery phase. A document refused because of the tenant's
  environment is refused by both, but creation leaves one more row in the refusal ledger and validation none.\<close>

theorem dry_run_agrees:
  assumes fresh: "new_id ''camp'' uid \<notin> cg_campaign_id ` set (cp_campaigns s)" "new_id ''tpr'' ruid \<notin> rf_id ` set (cp_refusals s)"
  shows "case validate_campaign_spec V p today m of
      Inr v \<Rightarrow> \<exists>d s'. create_campaign V p uid ruid now today m s = (Inr d, s') \<and> sm_name d = sp_name v \<and> sm_phase d = phase_value DISCOVER
    | Inl (Tenancy refusal) \<Rightarrow> \<exists>b why text row. create_campaign V p uid ruid now today m s
          = (Inl (Tenancy (TenantRefusalError b why text)), s\<lparr>cp_refusals := cp_refusals s @ [row]\<rparr>) \<and> rf_tenant_id row = pr_tenant_id p
    | Inl _ \<Rightarrow> \<exists>why s'. create_campaign V p uid ruid now today m s = (Inl (Api (InvalidSpecError why)), s') \<and> cp_campaigns s' = cp_campaigns s"
proof (cases "from_mapping today (cv_str_of V) (JObj m)")
  case (Inl e)
  then have v: "validate_campaign_spec V p today m = Inl (invalid_spec ''campaign spec is invalid'')"
    by (simp add: validate_campaign_spec_def parse_submitted_def res_bind_simps)
  have "\<exists>why s'. create_campaign V p uid ruid now today m s = (Inl (Api (InvalidSpecError why)), s') \<and> cp_campaigns s' = cp_campaigns s"
  proof (cases "\<exists>why. e = Campaign (ScaffoldEnvironmentRefusedError why)")
    case True
    with Inl fresh(2) show ?thesis
      by (auto simp: create_campaign_def op_then_def op_bind_def transaction_def op_zoom_def record_refusal_run op_raise_def invalid_spec_def)
  next
    case False
    then have "create_campaign V p uid ruid now today m = op_raise (invalid_spec ''campaign spec is invalid'')"
      using Inl by (auto simp: create_campaign_def split: exn.split campaign_error.split)
    then show ?thesis by (simp add: op_raise_def invalid_spec_def)
  qed
  then show ?thesis by (simp add: v invalid_spec_def)
next
  case spec: (Inr spec)
  show ?thesis
  proof (cases "scaffold_refused V (pr_tenant_id p) (mutable_types spec)")
    case True
    then show ?thesis using spec fresh(2)
      by (simp add: validate_campaign_spec_def parse_submitted_def res_bind_simps create_campaign_def
          refuse_scaffold_outside_research_def op_then_def op_bind_def op_zoom_def record_refusal_run op_raise_def)
        (intro exI conjI, rule refl, simp)
  next
    case False
    have none: "filter (\<lambda>x. cg_tenant_id x = pr_tenant_id p \<and> cg_campaign_id x = new_id ''camp'' uid) (cp_campaigns s) = []"
      using fresh(1) unfolding filter_empty_conv by (metis image_eqI)
    with False show ?thesis using spec fresh(1)
      by (simp add: validate_campaign_spec_def parse_submitted_def res_bind_simps create_campaign_def
          refuse_scaffold_outside_research_def op_then_def op_bind_def op_end_simps transaction_def insert_campaign_def op_require_def
          new_campaign_def Let_def op_read_def get_campaign_def require_campaign_def one_or_none_def)
  qed
qed

lemma dry_run_witness:
  "\<exists>d s'. create_campaign demo_service demo_caller ''7'' ''8'' 0 (2027, 1, 1) demo_submission empty_control_db = (Inr d, s')
     \<and> sm_phase d = ''discover''"
proof -
  obtain spec where spec: "from_mapping (2027, 1, 1) (cv_str_of demo_service) (JObj demo_submission) = Inr spec"
    "\<not> list_ex is_scaffold_class (mutable_types spec)" using demo_submission_parses by (auto simp: demo_service_def)
  then obtain v where v: "validate_campaign_spec demo_service demo_caller (2027, 1, 1) demo_submission = Inr v"
    by (simp add: validate_campaign_spec_def parse_submitted_def res_bind_simps scaffold_refused_def)
  have "new_id ''camp'' ''7'' \<notin> cg_campaign_id ` set (cp_campaigns (empty_control_db :: json control_db))"
    "new_id ''tpr'' ''8'' \<notin> rf_id ` set (cp_refusals (empty_control_db :: json control_db))"
    by (simp_all add: empty_control_db_def)
  from dry_run_agrees [OF this, where V = demo_service and p = demo_caller and today = "(2027, 1, 1)" and m = demo_submission and now = 0] v show ?thesis by auto
qed

end
