(* ===== verification/ReleaseLedger.thy ===== *)
theory ReleaseLedger
  imports ControlPlane
begin

text \<open>
  Releases, evaluations and approvals of the control plane (\<^verbatim>\<open>api/service.py\<close>): a release is signed and checked by
  the registry, and every move of it is a row of the activation ledger, whose latest row per manifest is the release's
  status. The lemmas show which rows are active after any calls, and what a rollback does to a release that
  is not the one rolled back.
\<close>

section \<open>The activation ledger\<close>

definition CREATE_RELEASE_STATUSES :: "string list" where
  "CREATE_RELEASE_STATUSES = [''canary'', ''active'']"

definition require_release :: "string \<Rightarrow> string \<Rightarrow> 'b control_db \<Rightarrow> exn + 'b release_manifest_row" where
  "require_release tenant_id manifest_digest s =
     res_bind (one_or_none (filter (\<lambda>m. mr_tenant_id m = tenant_id \<and> mr_manifest_digest m = manifest_digest)
                              (rg_manifests (cp_registry s)))) (\<lambda>found.
       case found of None \<Rightarrow> Inl (Api (ReleaseNotFoundError manifest_digest)) | Some m \<Rightarrow> Inr m)"

definition latest_activation :: "string \<Rightarrow> string \<Rightarrow> 'b control_db \<Rightarrow> activation_row option" where
  "latest_activation tenant_id manifest_digest s =
     (case sort_key (\<lambda>r. (ra_created_at r, ra_id r))
             (filter (\<lambda>r. ra_tenant_id r = tenant_id \<and> ra_manifest_digest r = manifest_digest) (cp_activations s)) of
        [] \<Rightarrow> None | r # rs \<Rightarrow> Some (last (r # rs)))"

definition supersede_other_active :: "string \<Rightarrow> string \<Rightarrow> 'b control_db \<Rightarrow> 'b control_db" where
  "supersede_other_active tenant_id manifest_digest s =
     s\<lparr>cp_activations := map (\<lambda>r. if ra_tenant_id r = tenant_id \<and> ra_status r = ''active'' \<and> ra_manifest_digest r \<noteq> manifest_digest
         then r\<lparr>ra_status := ''superseded''\<rparr> else r) (cp_activations s)\<rparr>"

definition add_activation :: "activation_row \<Rightarrow> (exn, 'b control_db, unit) op" where
  "add_activation r =
     op_then (op_require (\<lambda>s. ra_id r \<notin> ra_id ` set (cp_activations s)) integrity_error)
       (op_modify (\<lambda>s. s\<lparr>cp_activations := cp_activations s @ [r]\<rparr>))"

definition activation_of :: "principal \<Rightarrow> string \<Rightarrow> instant \<Rightarrow> string \<Rightarrow> 'b release_manifest_row \<Rightarrow> activation_row" where
  "activation_of p aid now status m =
     \<lparr>ra_id = aid, ra_tenant_id = pr_tenant_id p, ra_manifest_digest = mr_manifest_digest m, ra_status = status,
      ra_prior_manifest_digest = mr_prior_release_digest m, ra_activated_by = identity_id p, ra_created_at = now\<rparr>"

record release_view =
  rv_manifest_id :: string
  rv_manifest_digest :: string
  rv_artifact_digests :: "string list"
  rv_prior_release_digest :: "string option"
  rv_status :: "string option"

definition release_view_of :: "'b release_manifest_row \<Rightarrow> string option \<Rightarrow> release_view" where
  "release_view_of m status =
     \<lparr>rv_manifest_id = mr_manifest_id m, rv_manifest_digest = mr_manifest_digest m,
      rv_artifact_digests = mr_artifact_digests m, rv_prior_release_digest = mr_prior_release_digest m, rv_status = status\<rparr>"

record rollback_view =
  rb_manifest_digest :: string
  rb_status :: "string option"
  rb_prior_release_digest :: "string option"
  rb_rolled_back_to :: "string option"

section \<open>Releases\<close>

definition artifact_types_of :: "string \<Rightarrow> string list \<Rightarrow> 'b control_db \<Rightarrow> string list" where
  "artifact_types_of tenant_id digests s =
     map ac_artifact_type (filter (\<lambda>a. ac_tenant_id a = tenant_id \<and> ac_digest a \<in> set digests) (rg_artifacts (cp_registry s)))"

definition refuse_scaffold_release ::
  "('k, 'b) control_service \<Rightarrow> principal \<Rightarrow> string \<Rightarrow> string list \<Rightarrow> (exn, 'b control_db, unit) op" where
  "refuse_scaffold_release V p ruid artifact_digests =
     (if artifact_digests = [] then op_return ()
      else op_bind (op_gets (artifact_types_of (pr_tenant_id p) artifact_digests)) (\<lambda>types.
        refuse_scaffold_outside_research V p ruid RELEASE_ACTIVATION types
          [(''artifact_digests'', JList (map JStr artifact_digests))]))"

text \<open>The registry's check may not return on a cyclic dependency graph; there is none (\<open>activation_always_decides\<close>).\<close>

definition check_activation ::
  "('k, 'b) control_service \<Rightarrow> string \<Rightarrow> 'b release_manifest_row \<Rightarrow> 'b control_db \<Rightarrow> exn + 'b release_manifest_row" where
  "check_activation V tenant_id m s =
     (case activate_release (cv_crypto V) tenant_id (mr_manifest_digest m) (mr_artifact_digests m) (cp_registry s) of
        None \<Rightarrow> Inl (Foreign ''no return'') | Some r \<Rightarrow> r)"

definition create_release ::
  "('k, 'b) control_service \<Rightarrow> principal \<Rightarrow> string \<times> string \<times> string \<Rightarrow> instant \<Rightarrow> string list \<Rightarrow> json_object \<Rightarrow> json_object
     \<Rightarrow> json_object \<Rightarrow> string option \<Rightarrow> string \<Rightarrow> (exn, 'b control_db, release_view) op" where
  "create_release V p = (\<lambda>(ruid, uid, aid) now artifact_digests adapter_versions model_routes policies prior status.
     if status \<notin> set CREATE_RELEASE_STATUSES then op_raise (Api (CampaignApiError ''release status''))
     else op_then (refuse_scaffold_release V p ruid artifact_digests)
       (transaction
         (op_bind (on_registry (create_release_manifest (cv_crypto V) uid (pr_tenant_id p) artifact_digests adapter_versions
                     model_routes policies prior (cv_signing_key V))) (\<lambda>m.
          op_bind (op_read (check_activation V (pr_tenant_id p) m)) (\<lambda>_.
          op_then (add_activation (activation_of p aid now status m))
            (op_return (release_view_of m (Some status))))))))"

definition list_releases :: "principal \<Rightarrow> 'b control_db \<Rightarrow> release_view list" where
  "list_releases p s =
     map (\<lambda>m. release_view_of m (map_option ra_status (latest_activation (pr_tenant_id p) (mr_manifest_digest m) s)))
       (filter (\<lambda>m. mr_tenant_id m = pr_tenant_id p) (rg_manifests (cp_registry s)))"

definition promote_release ::
  "('k, 'b) control_service \<Rightarrow> principal \<Rightarrow> string \<times> string \<Rightarrow> instant \<Rightarrow> string \<Rightarrow> (exn, 'b control_db, release_view) op" where
  "promote_release V p = (\<lambda>(ruid, aid) now manifest_digest.
     op_bind (op_read (require_release (pr_tenant_id p) manifest_digest)) (\<lambda>m.
     op_bind (op_gets (latest_activation (pr_tenant_id p) manifest_digest)) (\<lambda>latest.
       if map_option ra_status latest \<noteq> Some ''canary''
       then op_raise (Api (ReleaseStateError ''is not in canary''))
       else op_then (refuse_scaffold_release V p ruid (mr_artifact_digests m))
         (transaction
           (op_then (op_modify (supersede_other_active (pr_tenant_id p) manifest_digest))
           (op_then (add_activation (activation_of p aid now ''active'' m))
             (op_return (release_view_of m (Some ''active'')))))))))"

definition restore_prior ::
  "principal \<Rightarrow> string \<Rightarrow> instant \<Rightarrow> 'b release_manifest_row \<Rightarrow> (exn, 'b control_db, string option) op" where
  "restore_prior p aid now m =
     (case mr_prior_release_digest m of
        None \<Rightarrow> op_return None
      | Some d \<Rightarrow>
          op_bind (op_read (require_release (pr_tenant_id p) d)) (\<lambda>prior.
          op_then (op_modify (supersede_other_active (pr_tenant_id p) (mr_manifest_digest prior)))
          (op_then (add_activation (activation_of p aid now ''active'' prior))
            (op_return (Some (mr_manifest_digest prior))))))"

definition rollback_release ::
  "principal \<Rightarrow> string \<times> string \<Rightarrow> instant \<Rightarrow> string \<Rightarrow> (exn, 'b control_db, rollback_view) op" where
  "rollback_release p = (\<lambda>(aid, prior_aid) now manifest_digest.
     transaction
       (op_bind (op_read (require_release (pr_tenant_id p) manifest_digest)) (\<lambda>m.
        op_bind (op_gets (latest_activation (pr_tenant_id p) manifest_digest)) (\<lambda>latest.
          if map_option ra_status latest \<notin> {Some ''canary'', Some ''active''}
          then op_raise (Api (ReleaseStateError ''has no live activation to roll back''))
          else
            op_then (add_activation (activation_of p aid now ''rolled_back'' m))
            (op_bind (restore_prior p prior_aid now m) (\<lambda>rolled_back_to.
              op_return \<lparr>rb_manifest_digest = manifest_digest, rb_status = Some ''rolled_back'',
                rb_prior_release_digest = mr_prior_release_digest m, rb_rolled_back_to = rolled_back_to\<rparr>))))))"

definition rollback_status :: "principal \<Rightarrow> string \<Rightarrow> 'b control_db \<Rightarrow> exn + rollback_view" where
  "rollback_status p manifest_digest s =
     res_bind (require_release (pr_tenant_id p) manifest_digest s) (\<lambda>m.
       let status = map_option ra_status (latest_activation (pr_tenant_id p) manifest_digest s)
       in Inr \<lparr>rb_manifest_digest = manifest_digest, rb_status = status, rb_prior_release_digest = mr_prior_release_digest m,
               rb_rolled_back_to = (if status = Some ''rolled_back'' then mr_prior_release_digest m else None)\<rparr>)"

datatype 'b release_call =
    Create_release principal "string \<times> string \<times> string" instant "string list" json_object json_object json_object
      "string option" string
  | Promote_release principal "string \<times> string" instant string
  | Rollback_release principal "string \<times> string" instant string
  | Registry_step "'b registry_db"

fun do_release_call :: "('k, 'b) control_service \<Rightarrow> 'b release_call \<Rightarrow> 'b control_db \<Rightarrow> 'b control_db" where
  "do_release_call V (Create_release p ids now ds av mr ps prior status) s = snd (create_release V p ids now ds av mr ps prior status s)"
| "do_release_call V (Promote_release p ids now d) s = snd (promote_release V p ids now d s)"
| "do_release_call V (Rollback_release p ids now d) s = snd (rollback_release p ids now d s)"
| "do_release_call V (Registry_step g) s = s\<lparr>cp_registry := g\<rparr>"

section \<open>What the calls do to the ledger\<close>

definition active_manifests :: "string \<Rightarrow> 'b control_db \<Rightarrow> string set" where
  "active_manifests t s = {ra_manifest_digest r | r. r \<in> set (cp_activations s) \<and> ra_tenant_id r = t \<and> ra_status r = ''active''}"

lemma active_iff:
  "d \<in> active_manifests t s \<longleftrightarrow>
     (\<exists>r \<in> set (cp_activations s). ra_manifest_digest r = d \<and> ra_tenant_id r = t \<and> ra_status r = ''active'')"
  by (auto simp: active_manifests_def)

lemma supersede_active:
  "active_manifests t (supersede_other_active t' d s) = (if t = t' then active_manifests t s \<inter> {d} else active_manifests t s)"
proof -
  define f where "f = (\<lambda>r. if ra_tenant_id r = t' \<and> ra_status r = ''active'' \<and> ra_manifest_digest r \<noteq> d
    then r\<lparr>ra_status := ''superseded''\<rparr> else r)"
  have f: "ra_manifest_digest (f r) = ra_manifest_digest r" "ra_tenant_id (f r) = ra_tenant_id r"
    "ra_status (f r) = ''active'' \<longleftrightarrow> ra_status r = ''active'' \<and> (ra_tenant_id r = t' \<longrightarrow> ra_manifest_digest r = d)" for r
    by (auto simp: f_def)
  have "x \<in> active_manifests t (supersede_other_active t' d s) \<longleftrightarrow> x \<in> active_manifests t s \<and> (t = t' \<longrightarrow> x = d)" for x
    unfolding active_iff supersede_other_active_def f_def [symmetric] by (auto simp: f)
  then show ?thesis by auto
qed

lemma supersede_ids [simp]:
  "ra_id ` set (cp_activations (supersede_other_active t d s)) = ra_id ` set (cp_activations s)"
proof -
  have "map ra_id (cp_activations (supersede_other_active t d s)) = map ra_id (cp_activations s)"
    by (simp add: supersede_other_active_def)
  then show ?thesis by (metis set_map)
qed

lemma activation_fields [simp]:
  "ra_id (activation_of p aid now st m) = aid" "ra_tenant_id (activation_of p aid now st m) = pr_tenant_id p"
  "ra_manifest_digest (activation_of p aid now st m) = mr_manifest_digest m" "ra_status (activation_of p aid now st m) = st"
  by (simp_all add: activation_of_def)

lemma added_active:
  "active_manifests t (s\<lparr>cp_activations := cp_activations s @ [r]\<rparr>) =
     active_manifests t s \<union> (if ra_tenant_id r = t \<and> ra_status r = ''active'' then {ra_manifest_digest r} else {})"
  by (auto simp: active_manifests_def)

section \<open>What is active\<close>

lemma keeps_transaction [keeps_intros]: "keeps P m \<Longrightarrow> keeps P (transaction m)"
  unfolding keeps_def transaction_def by (auto split: prod.splits sum.splits)

lemma keeps_zoom_frame [keeps_intros]: "(\<And>s l. P s \<Longrightarrow> P (put l s)) \<Longrightarrow> keeps P (op_zoom get put m)"
  by (auto simp: keeps_def op_zoom_def split: prod.splits)

text \<open>A predicate of the activation rows alone survives everything but the two calls that write them.\<close>

lemma keeps_ledger_gate:
  assumes "\<And>s g. P (cp_refusals_update g s) = P s"
  shows "keeps P (refuse_scaffold_release V p ruid ds)"
  unfolding refuse_scaffold_release_def refuse_scaffold_outside_research_def
  by (simp only: if_split) (auto intro!: keeps_intros simp: assms)

lemma add_then:
  "op_then (add_activation r) k s =
     (if ra_id r \<in> ra_id ` set (cp_activations s) then (Inl integrity_error, s)
      else k (s\<lparr>cp_activations := cp_activations s @ [r]\<rparr>))"
  by (simp add: add_activation_def op_then_def op_bind_def op_require_def op_modify_def)

lemma create_as_canary:
  fixes s :: "'b control_db"
  assumes "status \<noteq> ''active''"
  shows "active_manifests t (snd (create_release V p ids now ds av mr ps prior status s)) = active_manifests t s"
proof -
  obtain ruid uid aid where ids: "ids = (ruid, uid, aid)" by (cases ids)
  define P :: "'b control_db \<Rightarrow> bool" where "P = (\<lambda>x. active_manifests t x = active_manifests t s)"
  have frame: "P (cp_refusals_update g x) = P x" "P (cp_registry_update g' x) = P x" for g g' x
    by (simp_all add: P_def active_manifests_def)
  have add: "keeps P (add_activation (activation_of p aid now status m))" for m
    unfolding add_activation_def by (intro keeps_intros) (simp add: P_def added_active assms)
  have "keeps P (create_release V p (ruid, uid, aid) now ds av mr ps prior status)"
  proof (cases "status \<notin> set CREATE_RELEASE_STATUSES")
    case False
    have "keeps P (op_then (refuse_scaffold_release V p ruid ds)
       (transaction
         (op_bind (on_registry (create_release_manifest (cv_crypto V) uid (pr_tenant_id p) ds av mr ps prior (cv_signing_key V))) (\<lambda>m.
          op_bind (op_read (check_activation V (pr_tenant_id p) m)) (\<lambda>_.
          op_then (add_activation (activation_of p aid now status m)) (op_return (release_view_of m (Some status))))))))"
      by (intro keeps_intros add keeps_ledger_gate) (simp_all add: frame)
    with False show ?thesis by (simp add: create_release_def)
  qed (simp add: create_release_def keeps_intros)
  from keepsD [OF this, of s] show ?thesis unfolding ids by (simp add: P_def)
qed

lemma gate_ledger: "cp_activations (snd (refuse_scaffold_release V p ruid ds s)) = cp_activations s"
proof -
  have "keeps (\<lambda>x. cp_activations x = cp_activations s) (refuse_scaffold_release V p ruid ds)"
    by (rule keeps_ledger_gate) simp
  then show ?thesis by (auto dest: keepsD)
qed

lemma active_only_ledger: "cp_activations s = cp_activations s' \<Longrightarrow> active_manifests t s = active_manifests t s'"
  by (simp add: active_manifests_def)

lemma promote_active:
  "active_manifests t (snd (promote_release V p ids now d s)) = active_manifests t s
   \<or> active_manifests t (snd (promote_release V p ids now d s)) \<subseteq> {d}"
proof -
  obtain ruid aid where ids: "ids = (ruid, aid)" by (cases ids)
  show ?thesis
  proof (cases "require_release (pr_tenant_id p) d s")
    case (Inl e)
    then show ?thesis by (simp add: ids promote_release_def op_run_simps)
  next
    case m: (Inr m)
    then have md: "mr_manifest_digest m = d"
      by (auto simp: require_release_def res_bind_Inr split: option.splits dest: one_or_none_filter)
    obtain res s1 where g: "refuse_scaffold_release V p ruid (mr_artifact_digests m) s = (res, s1)" by fastforce
    then have s1: "active_manifests u s1 = active_manifests u s" for u
      using gate_ledger [of V p ruid "mr_artifact_digests m" s] by (intro active_only_ledger) simp
    let ?s2 = "supersede_other_active (pr_tenant_id p) d s1"
    let ?s3 = "?s2\<lparr>cp_activations := cp_activations ?s2 @ [activation_of p aid now ''active'' m]\<rparr>"
    have body: "snd (promote_release V p ids now d s) \<in> {s, s1, ?s3}"
      using m g by (cases res)
        (auto simp: ids promote_release_def op_run_simps op_end_simps op_then_def [of "refuse_scaffold_release _ _ _ _"]
          op_bind_def [of "refuse_scaffold_release _ _ _ _"] transaction_def add_then split: if_splits)
    have "active_manifests t ?s3 \<subseteq> {d} \<or> active_manifests t ?s3 = active_manifests t s"
      by (auto simp: added_active supersede_active s1 md)
    with body s1 show ?thesis by auto
  qed
qed

lemma restore_run:
  "restore_prior p paid now m s =
     (case mr_prior_release_digest m of None \<Rightarrow> (Inr None, s)
      | Some e \<Rightarrow> (case require_release (pr_tenant_id p) e s of Inl x \<Rightarrow> (Inl x, s)
          | Inr prior \<Rightarrow>
              let s2 = supersede_other_active (pr_tenant_id p) (mr_manifest_digest prior) s
              in if paid \<in> ra_id ` set (cp_activations s) then (Inl integrity_error, s2)
                 else (Inr (Some (mr_manifest_digest prior)),
                       s2\<lparr>cp_activations := cp_activations s2 @ [activation_of p paid now ''active'' prior]\<rparr>)))"
  by (simp add: restore_prior_def op_run_simps op_end_simps add_then Let_def split: option.split sum.split)

lemma rollback_run:
  "rollback_release p (aid, paid) now d s =
     transaction (\<lambda>s. case require_release (pr_tenant_id p) d s of Inl x \<Rightarrow> (Inl x, s)
       | Inr m \<Rightarrow> if map_option ra_status (latest_activation (pr_tenant_id p) d s) \<notin> {Some ''canary'', Some ''active''}
                then (Inl (Api (ReleaseStateError ''has no live activation to roll back'')), s)
                else if aid \<in> ra_id ` set (cp_activations s) then (Inl integrity_error, s)
                else (case restore_prior p paid now m
                        (s\<lparr>cp_activations := cp_activations s @ [activation_of p aid now ''rolled_back'' m]\<rparr>) of
                        (Inl x, s') \<Rightarrow> (Inl x, s')
                      | (Inr to, s') \<Rightarrow> (Inr \<lparr>rb_manifest_digest = d, rb_status = Some ''rolled_back'',
                            rb_prior_release_digest = mr_prior_release_digest m, rb_rolled_back_to = to\<rparr>, s'))) s"
proof (cases "require_release (pr_tenant_id p) d s")
  case (Inl e)
  then show ?thesis by (simp add: rollback_release_def transaction_def op_run_simps)
next
  case (Inr m)
  define dead where "dead \<longleftrightarrow> map_option ra_status (latest_activation (pr_tenant_id p) d s) \<notin> {Some ''canary'', Some ''active''}"
  show ?thesis
    unfolding rollback_release_def prod.case transaction_def op_run_simps Inr sum.case dead_def [symmetric]
    by (cases dead) (simp_all add: op_end_simps add_then op_bind_def [of "restore_prior _ _ _ _"] split: sum.split prod.split)
qed

lemma rollback_effect:
  "snd (rollback_release p (aid, paid) now d s) = s
   \<or> (\<exists>m s1. require_release (pr_tenant_id p) d s = Inr m
        \<and> s1 = s\<lparr>cp_activations := cp_activations s @ [activation_of p aid now ''rolled_back'' m]\<rparr>
        \<and> (mr_prior_release_digest m = None \<and> snd (rollback_release p (aid, paid) now d s) = s1
         \<or> (\<exists>e prior. mr_prior_release_digest m = Some e \<and> require_release (pr_tenant_id p) e s1 = Inr prior
              \<and> snd (rollback_release p (aid, paid) now d s) =
                  (let s2 = supersede_other_active (pr_tenant_id p) (mr_manifest_digest prior) s1
                   in s2\<lparr>cp_activations := cp_activations s2 @ [activation_of p paid now ''active'' prior]\<rparr>))))"
proof (cases "require_release (pr_tenant_id p) d s")
  case (Inl e)
  then show ?thesis by (simp add: rollback_run transaction_def)
next
  case m: (Inr m)
  define dead where "dead \<longleftrightarrow> map_option ra_status (latest_activation (pr_tenant_id p) d s) \<notin> {Some ''canary'', Some ''active''}"
  let ?s1 = "s\<lparr>cp_activations := cp_activations s @ [activation_of p aid now ''rolled_back'' m]\<rparr>"
  note run = rollback_run [of p aid paid now d s, unfolded transaction_def m sum.case dead_def [symmetric]]
  show ?thesis
  proof (cases "dead \<or> aid \<in> ra_id ` set (cp_activations s)")
    case True
    then show ?thesis unfolding run by auto
  next
    case live: False
    show ?thesis
    proof (cases "mr_prior_release_digest m")
      case None
      with live m show ?thesis unfolding run by (simp add: restore_run)
    next
      case (Some e)
      with live m show ?thesis unfolding run
        by (cases "require_release (pr_tenant_id p) e ?s1"; cases "paid \<in> ra_id ` set (cp_activations ?s1)")
          (simp_all add: restore_run Let_def del: image_insert insert_iff)
    qed
  qed
qed

lemma switched_active:
  assumes "ra_tenant_id row = t'" "ra_status row = ''active''" "ra_manifest_digest row = d"
  shows "active_manifests t (supersede_other_active t' d s
      \<lparr>cp_activations := cp_activations (supersede_other_active t' d s) @ [row]\<rparr>) = (if t = t' then {d} else active_manifests t s)"
  using assms by (auto simp: added_active supersede_active)

lemma rolled_back_active:
  "active_manifests t (s\<lparr>cp_activations := cp_activations s @ [activation_of p aid now ''rolled_back'' m]\<rparr>) = active_manifests t s"
  by (simp add: added_active)

lemma rollback_active:
  "active_manifests t (snd (rollback_release p ids now d s)) = active_manifests t s
   \<or> (\<exists>e. active_manifests t (snd (rollback_release p ids now d s)) = {e})"
proof -
  obtain aid paid where ids: "ids = (aid, paid)" by (cases ids)
  from rollback_effect [of p aid paid now d s] show ?thesis unfolding ids Let_def
  proof (elim disjE exE conjE, goal_cases)
    case 1
    then show ?case by simp
  next
    case (2 m s1)
    then show ?case by (simp add: rolled_back_active)
  next
    case (3 m s1 e prior)
    have "active_manifests t s1 = active_manifests t s" unfolding 3(2) by (rule rolled_back_active)
    with 3 show ?case by (cases "t = pr_tenant_id p") (simp_all add: switched_active)
  qed
qed

definition creates_canaries_only :: "'b release_call \<Rightarrow> bool" where
  "creates_canaries_only c = (case c of Create_release p ids now ds av mr ps prior status \<Rightarrow> status \<noteq> ''active'' | _ \<Rightarrow> True)"

lemma release_step:
  assumes "creates_canaries_only c" "\<exists>d. active_manifests t s \<subseteq> {d}"
  shows "\<exists>d. active_manifests t (do_release_call V c s) \<subseteq> {d}"
proof (cases c)
  case (Create_release p ids now ds av mr ps prior status)
  then have "status \<noteq> ''active''" using assms(1) by (simp add: creates_canaries_only_def)
  with Create_release assms(2) show ?thesis by (simp add: create_as_canary)
next
  case (Promote_release p ids now d)
  then show ?thesis using assms(2) promote_active [of t V p ids now d s] by auto
next
  case (Rollback_release p ids now d)
  then show ?thesis using assms(2) rollback_active [of t p ids now d s] by auto
next
  case (Registry_step g)
  then show ?thesis using assms(2) by (simp add: active_manifests_def)
qed

section \<open>Properties\<close>

text \<open>C30: One release is live: if releases are created as canaries, then after any creations, promotions and rollbacks,
  in any order and interleaved with any work on the registry, all the active rows of a tenant's activation ledger
  are rows of one manifest.\<close>

theorem one_release_is_active:
  assumes "list_all creates_canaries_only calls"
  shows "\<exists>d. active_manifests t (run_calls (do_release_call V) calls empty_control_db) \<subseteq> {d}"
proof -
  have run: "\<exists>d. active_manifests t (run_calls (do_release_call V) calls s) \<subseteq> {d}" if "\<exists>d. active_manifests t s \<subseteq> {d}" for s
    using assms that
  proof (induction calls arbitrary: s)
    case (Cons c calls)
    then show ?case using release_step [of c t s V] by simp
  qed simp
  show ?thesis by (rule run) (simp add: active_manifests_def empty_control_db_def)
qed

text \<open>C31: A rollback can take down a release it is not about: rolling back a canary whose manifest names as prior a release
  that is no longer the live one supersedes the live release and makes the old one active again.\<close>

theorem stale_canary_rollback_replaces_live_release:
  assumes m: "require_release (pr_tenant_id p) d s = Inr m" "map_option ra_status (latest_activation (pr_tenant_id p) d s) = Some ''canary''"
    and prior: "mr_prior_release_digest m = Some e" "require_release (pr_tenant_id p) e s = Inr prior"
    and live: "active_manifests (pr_tenant_id p) s = {live}" "live \<noteq> e"
    and ids: "aid \<noteq> paid" "aid \<notin> ra_id ` set (cp_activations s)" "paid \<notin> ra_id ` set (cp_activations s)"
  shows "\<exists>v s'. rollback_release p (aid, paid) now d s = (Inr v, s') \<and> rb_rolled_back_to v = Some e
    \<and> active_manifests (pr_tenant_id p) s' = {e}"
proof -
  let ?s1 = "s\<lparr>cp_activations := cp_activations s @ [activation_of p aid now ''rolled_back'' m]\<rparr>"
  have e: "mr_manifest_digest prior = e"
    using prior(2) by (auto simp: require_release_def res_bind_Inr split: option.splits dest: one_or_none_filter)
  have "require_release (pr_tenant_id p) e ?s1 = Inr prior" using prior(2) by (simp add: require_release_def)
  moreover have "active_manifests (pr_tenant_id p) (supersede_other_active (pr_tenant_id p) e ?s1) = {}"
    using live by (simp add: supersede_active added_active)
  moreover have "paid \<notin> ra_id ` set (cp_activations (supersede_other_active (pr_tenant_id p) e ?s1))"
    unfolding supersede_ids using ids by auto
  ultimately show ?thesis using m prior(1) ids e
    by (simp add: rollback_run transaction_def restore_run Let_def switched_active)
qed

section \<open>Witnesses\<close>

text \<open>A digest function that tells manifests apart by the name in their policies.\<close>

definition release_sha :: "json \<Rightarrow> string" where
  "release_sha j = (case json_get j ''policies'' of
     Some p \<Rightarrow> (case json_get p ''name'' of Some (JStr v) \<Rightarrow> v | _ \<Rightarrow> ''0'') | None \<Rightarrow> ''0'')"

definition release_service :: "(string, json) control_service" where
  "release_service = \<lparr>cv_crypto = plain_crypto\<lparr>cr_sha256 := release_sha\<rparr>, cv_signing_key = ''key'',
     cv_evaluator_subject = ''evaluator'', cv_tenant_policies = [], cv_str_of = (\<lambda>_. [])\<rparr>"

definition release_caller :: principal where
  "release_caller = \<lparr>pr_identity = \<lparr>wid_role = RELEASE_CONTROLLER, wid_subject = ''operator''\<rparr>, pr_tenant_id = ''acme''\<rparr>"

definition demo_canary :: "string \<Rightarrow> string option \<Rightarrow> json release_call" where
  "demo_canary name prior = Create_release release_caller ([], name, ''c'' @ name) 0 [] [] [] [(''name'', JStr name)] prior ''canary''"

definition demo_promotion :: "string \<Rightarrow> json release_call" where
  "demo_promotion name = Promote_release release_caller ([], ''p'' @ name) 1 (''sha256:'' @ name)"

definition demo_ledger :: "json release_call list" where
  "demo_ledger = [demo_canary ''a'' None, demo_promotion ''a'', demo_canary ''b'' (Some ''sha256:a''),
     demo_canary ''c'' (Some ''sha256:a''), demo_promotion ''c'']"

definition demo_releases :: "json control_db" where
  "demo_releases = run_calls (do_release_call release_service) demo_ledger empty_control_db"

lemma active_code:
  "active_manifests t s = set (map ra_manifest_digest (filter (\<lambda>r. ra_tenant_id r = t \<and> ra_status r = ''active'') (cp_activations s)))"
  by (auto simp: active_manifests_def)

lemma demo_active: "active_manifests ''acme'' demo_releases = {''sha256:c''}"
proof -
  have "map ra_manifest_digest (filter (\<lambda>r. ra_tenant_id r = ''acme'' \<and> ra_status r = ''active'') (cp_activations demo_releases)) = [''sha256:c'']"
    by code_simp
  then show ?thesis unfolding active_code by simp
qed

lemma one_release_witness: "\<exists>d. active_manifests ''acme'' demo_releases \<subseteq> {d} \<and> d = ''sha256:c''"
proof -
  have "list_all creates_canaries_only demo_ledger" by code_simp
  from one_release_is_active [OF this, of "''acme''" release_service] demo_active show ?thesis
    unfolding demo_releases_def by auto
qed

lemma stale_canary_witness:
  "\<exists>v s'. rollback_release release_caller (''r1'', ''r2'') 9 ''sha256:b'' demo_releases = (Inr v, s')
     \<and> active_manifests ''acme'' s' = {''sha256:a''} \<and> active_manifests ''acme'' demo_releases = {''sha256:c''}"
proof -
  have t: "pr_tenant_id release_caller = ''acme''" by (simp add: release_caller_def)
  have "case require_release ''acme'' ''sha256:b'' demo_releases of Inl _ \<Rightarrow> False | Inr m \<Rightarrow> mr_prior_release_digest m = Some ''sha256:a''"
    by code_simp
  then obtain m where m: "require_release ''acme'' ''sha256:b'' demo_releases = Inr m" "mr_prior_release_digest m = Some ''sha256:a''"
    by (auto split: sum.splits)
  have "\<not> isl (require_release ''acme'' ''sha256:a'' demo_releases)" by code_simp
  then obtain prior where prior: "require_release ''acme'' ''sha256:a'' demo_releases = Inr prior"
    by (cases "require_release ''acme'' ''sha256:a'' demo_releases") auto
  have latest: "map_option ra_status (latest_activation ''acme'' ''sha256:b'' demo_releases) = Some ''canary''" by code_simp
  have "list_all (\<lambda>r. ra_id r \<noteq> ''r1'' \<and> ra_id r \<noteq> ''r2'') (cp_activations demo_releases)" by code_simp
  then have ids: "''r1'' \<notin> ra_id ` set (cp_activations demo_releases)" "''r2'' \<notin> ra_id ` set (cp_activations demo_releases)"
    by (auto simp: list_all_iff)
  from stale_canary_rollback_replaces_live_release [where p = release_caller, unfolded t, OF m(1) latest m(2) prior demo_active _ _ ids, of 9]
  show ?thesis using demo_active by auto
qed

end
