(* ===== verification/Candidates.thy ===== *)
theory Candidates
  imports ControlPlane
begin

text \<open>
  Registering candidates (\<^verbatim>\<open>api/service.py\<close>): the tenant boundary, the two gates an executable candidate passes before
  anything is registered, the artifact, the signed analysis report and the proposal. Python's base64, text decoding,
  \<^verbatim>\<open>json.loads\<close>, UTF-8 length, parser and Unicode database are fields of \<open>candidate_codec\<close>.
\<close>

section \<open>The gates\<close>

record 'b candidate_codec =
  cx_b64decode :: "string \<Rightarrow> 'b option"
  cx_text :: "'b \<Rightarrow> string"
  cx_loads :: "string \<Rightarrow> json option"
  cx_utf8_length :: "string \<Rightarrow> nat"
  cx_parse :: "string \<Rightarrow> py_parse"
  cx_unicode :: unicode_db

definition EXECUTABLE_ARTIFACT_TYPES :: "string list" where
  "EXECUTABLE_ARTIFACT_TYPES =
     [''workflow_graph'', ''tool_spec'', ''skill_script'', ''algorithm'', ''harness_patch'', ''scaffold'']"

definition EXECUTABLE_DEFAULT_PATHS :: "(string \<times> string) list" where
  "EXECUTABLE_DEFAULT_PATHS =
     [(''workflow_graph'', ''candidate/workflow.json''), (''tool_spec'', ''candidate/tool.json''),
      (''skill_script'', ''candidate/main.py''), (''algorithm'', ''candidate/main.py''),
      (''harness_patch'', ''candidate/patch.json'')]"

definition default_candidate_path :: "string \<Rightarrow> string" where
  "default_candidate_path artifact_type =
     (case map_of EXECUTABLE_DEFAULT_PATHS artifact_type of None \<Rightarrow> ''candidate/artifact.bin'' | Some p \<Rightarrow> p)"

fun is_object :: "json \<Rightarrow> bool" where
  "is_object (JObj kvs) = True"
| "is_object _ = False"

definition candidate_file_entries :: "'b candidate_codec \<Rightarrow> string \<Rightarrow> 'b \<Rightarrow> json list" where
  "candidate_file_entries X artifact_type canonical_bytes =
     (let text = cx_text X canonical_bytes;
          single = [JObj [(''path'', JStr (default_candidate_path artifact_type)), (''content'', JStr text)]]
      in case cx_loads X text of
           Some (JObj kvs) \<Rightarrow> (case map_of kvs ''files'' of Some (JList entries) \<Rightarrow> filter is_object entries | _ \<Rightarrow> single)
         | _ \<Rightarrow> single)"

definition entry_text :: "(json \<Rightarrow> string) \<Rightarrow> string \<Rightarrow> json \<Rightarrow> string" where
  "entry_text str_of key entry = (case entry_item entry key of None \<Rightarrow> [] | Some v \<Rightarrow> py_str str_of v)"

definition output_entry_for :: "'b candidate_codec \<Rightarrow> (json \<Rightarrow> string) \<Rightarrow> json \<Rightarrow> output_entry" where
  "output_entry_for X str_of entry =
     \<lparr>oe_path = points (entry_text str_of ''path'' entry), oe_kind = FILE,
      oe_size_bytes = cx_utf8_length X (entry_text str_of ''content'' entry), oe_executable = False, oe_sparse = False,
      oe_target = None, oe_archive = None\<rparr>"

definition declared_mask :: "(json \<Rightarrow> string) \<Rightarrow> string \<Rightarrow> json list \<Rightarrow> mutation_mask" where
  "declared_mask str_of artifact_type entries =
     \<lparr>mask_artifact_type = artifact_type, allowed_paths = map (entry_text str_of ''path'') entries\<rparr>"

definition candidate_report :: "'b candidate_codec \<Rightarrow> (json \<Rightarrow> string) \<Rightarrow> string \<Rightarrow> 'b \<Rightarrow> string \<Rightarrow> analysis_report" where
  "candidate_report X str_of artifact_type canonical_bytes candidate_digest =
     (let entries = candidate_file_entries X artifact_type canonical_bytes
      in analyze_files (cx_parse X) entries [declared_mask str_of artifact_type entries] artifact_type candidate_digest None)"

definition gate_executable_candidate ::
  "'b candidate_codec \<Rightarrow> (json \<Rightarrow> string) \<Rightarrow> string \<Rightarrow> 'b \<Rightarrow> string \<Rightarrow> exn + analysis_report" where
  "gate_executable_candidate X str_of artifact_type canonical_bytes candidate_digest =
     (let entries = candidate_file_entries X artifact_type canonical_bytes;
          decision = admit_output (cx_unicode X) default_limits (map (output_entry_for X str_of) entries);
          report = candidate_report X str_of artifact_type canonical_bytes candidate_digest
      in if \<not> ao_admitted decision then Inl (Api (RegistrationRefusedError ''fr018_output_admission''))
         else if report_blocked report then Inl (Api (RegistrationRefusedError ''static_analysis''))
         else Inr report)"

section \<open>Registration\<close>

definition require_candidate :: "string \<Rightarrow> string \<Rightarrow> 'b control_db \<Rightarrow> exn + proposal_record" where
  "require_candidate tenant_id proposal_id s =
     res_bind (one_or_none (filter (\<lambda>r. pr_tenant r = tenant_id \<and> pr_proposal_id r = proposal_id) (rg_proposals (cp_registry s))))
       (\<lambda>found. case found of None \<Rightarrow> Inl (Api (ProposalNotFoundError proposal_id)) | Some r \<Rightarrow> Inr r)"

record candidate_view =
  vw_proposal_id :: string
  vw_campaign_id :: "string option"
  vw_artifact_digest :: string
  vw_parent_digest :: "string option"
  vw_strategy_id :: string
  vw_status :: "string option"

definition candidate_view_of :: "string \<Rightarrow> proposal_record \<Rightarrow> 'b control_db \<Rightarrow> exn + candidate_view" where
  "candidate_view_of tenant_id r s =
     res_bind (current_status tenant_id (pr_proposed_digest r) (cp_registry s)) (\<lambda>status.
       Inr \<lparr>vw_proposal_id = pr_proposal_id r, vw_campaign_id = pr_campaign_id r, vw_artifact_digest = pr_proposed_digest r,
            vw_parent_digest = pr_parent_digest r, vw_strategy_id = pr_strategy_id r, vw_status = status\<rparr>)"

definition report_row_for ::
  "('k, 'b) control_service \<Rightarrow> string \<Rightarrow> string \<Rightarrow> instant \<Rightarrow> string option \<Rightarrow> analysis_report \<Rightarrow> 'b report_row" where
  "report_row_for V tenant_id uid now campaign_id report =
     (let detached = sign (cv_crypto V) (cv_signing_key V) (report_bytes (cv_crypto V) report)
      in \<lparr>rp_tenant_id = tenant_id, rp_report_id = new_id ''arpt'' uid, rp_campaign_id = campaign_id,
          rp_candidate_digest = sr_candidate_digest report, rp_artifact_type = sr_artifact_type report,
          rp_outcome = report_outcome report, rp_violations = sr_violations report,
          rp_verdict_digest = verdict_digest (cv_crypto V) report, rp_signature = ds_signature detached,
          rp_signer_public_key = ds_public_key detached, rp_created_at = now\<rparr>)"

definition persist_analysis_report :: "'b report_row \<Rightarrow> (exn, 'b control_db, unit) op" where
  "persist_analysis_report r =
     op_then (op_require (\<lambda>s. rp_report_id r \<notin> rp_report_id ` set (cp_reports s)
        \<and> (rp_tenant_id r, rp_verdict_digest r) \<notin> (\<lambda>x. (rp_tenant_id x, rp_verdict_digest x)) ` set (cp_reports s)) integrity_error)
       (op_modify (\<lambda>s. s\<lparr>cp_reports := cp_reports s @ [r]\<rparr>))"

text \<open>The ids drawn for the refusal, artifact, report and proposal rows, and the payload's nonce.\<close>

record 'n candidate_draw =
  dw_refusal :: string
  dw_artifact :: string
  dw_report :: string
  dw_proposal :: string
  dw_nonce :: 'n

record candidate_submission =
  su_artifact_type :: string
  su_canonical_bytes_b64 :: string
  su_strategy_id :: string
  su_campaign_id :: "string option"
  su_parent_digest :: "string option"
  su_metadata :: "json_object option"

definition optional_campaign :: "string \<Rightarrow> string option \<Rightarrow> 'b control_db \<Rightarrow> exn + unit" where
  "optional_campaign tenant_id campaign_id s =
     (case campaign_id of None \<Rightarrow> Inr () | Some i \<Rightarrow> res_bind (require_campaign tenant_id i s) (\<lambda>_. Inr ()))"

definition executable_report ::
  "('k, 'b) control_service \<Rightarrow> 'b candidate_codec \<Rightarrow> string \<Rightarrow> 'b \<Rightarrow> exn + analysis_report option" where
  "executable_report V X artifact_type canonical_bytes =
     (if artifact_type \<in> set EXECUTABLE_ARTIFACT_TYPES
      then res_bind (gate_executable_candidate X (cv_str_of V) artifact_type canonical_bytes
             (artifact_digest_for (cv_crypto V) artifact_type (payload_body_digest (cv_crypto V) canonical_bytes) [] []))
             (\<lambda>report. Inr (Some report))
      else Inr None)"

text \<open>The report row is flushed with the proposal row, after the proposal's own checks.\<close>

definition register_checked ::
  "('k, 'b) control_service \<Rightarrow> ('n, 'b) key_provider \<Rightarrow> 'b candidate_codec \<Rightarrow> principal \<Rightarrow> 'n candidate_draw \<Rightarrow> instant
     \<Rightarrow> candidate_submission \<Rightarrow> 'b \<Rightarrow> (exn, 'b control_db, candidate_view) op" where
  "register_checked V K X p dw now su canonical_bytes =
     op_bind (op_read (optional_campaign (pr_tenant_id p) (su_campaign_id su))) (\<lambda>_.
     op_bind (op_read (\<lambda>_. executable_report V X (su_artifact_type su) canonical_bytes)) (\<lambda>report.
     op_bind (on_registry (register_artifact (cv_crypto V) K (dw_artifact dw) (dw_nonce dw) (pr_tenant_id p)
                (su_artifact_type su) canonical_bytes [] [] None ''artifact'')) (\<lambda>artifact.
     op_bind (on_registry (record_proposal (dw_proposal dw) (pr_tenant_id p) (ac_digest artifact) (su_strategy_id su)
                (su_parent_digest su) (su_campaign_id su) (su_metadata su))) (\<lambda>proposal.
     op_then (case report of
                None \<Rightarrow> op_return ()
              | Some r \<Rightarrow> persist_analysis_report (report_row_for V (pr_tenant_id p) (dw_report dw) now (su_campaign_id su)
                           (r\<lparr>sr_candidate_digest := ac_digest artifact\<rparr>)))
       (op_read (candidate_view_of (pr_tenant_id p) proposal))))))"

definition register_candidate ::
  "('k, 'b) control_service \<Rightarrow> ('n, 'b) key_provider \<Rightarrow> 'b candidate_codec \<Rightarrow> principal \<Rightarrow> 'n candidate_draw \<Rightarrow> instant
     \<Rightarrow> candidate_submission \<Rightarrow> (exn, 'b control_db, candidate_view) op" where
  "register_candidate V K X p dw now su =
     (case cx_b64decode X (su_canonical_bytes_b64 su) of
        None \<Rightarrow> op_raise (invalid_spec ''canonical_bytes_b64 is not valid base64'')
      | Some canonical_bytes \<Rightarrow>
          op_then (refuse_scaffold_outside_research V p (dw_refusal dw) CANDIDATE_REGISTRATION [su_artifact_type su]
                     [(''strategy_id'', JStr (su_strategy_id su))])
            (transaction (register_checked V K X p dw now su canonical_bytes)))"

definition get_candidate :: "principal \<Rightarrow> string \<Rightarrow> 'b control_db \<Rightarrow> exn + candidate_view" where
  "get_candidate p proposal_id s =
     res_bind (require_candidate (pr_tenant_id p) proposal_id s) (\<lambda>r. candidate_view_of (pr_tenant_id p) r s)"

definition list_candidates :: "principal \<Rightarrow> string option \<Rightarrow> 'b control_db \<Rightarrow> exn + candidate_view list" where
  "list_candidates p campaign_id s =
     res_map (\<lambda>r. candidate_view_of (pr_tenant_id p) r s)
       (filter (\<lambda>r. pr_tenant r = pr_tenant_id p \<and> (campaign_id = None \<or> pr_campaign_id r = campaign_id))
         (rg_proposals (cp_registry s)))"

definition get_analysis_report :: "principal \<Rightarrow> string \<Rightarrow> 'b control_db \<Rightarrow> exn + 'b report_row" where
  "get_analysis_report p report_id s =
     res_bind (one_or_none (filter (\<lambda>r. rp_tenant_id r = pr_tenant_id p \<and> rp_report_id r = report_id) (cp_reports s)))
       (\<lambda>found. case found of None \<Rightarrow> Inl (Api (AnalysisReportNotFoundError report_id)) | Some r \<Rightarrow> Inr r)"

definition list_analysis_reports :: "principal \<Rightarrow> string option \<Rightarrow> string option \<Rightarrow> 'b control_db \<Rightarrow> 'b report_row list" where
  "list_analysis_reports p candidate_digest campaign_id s =
     sort_key rp_created_at (filter (\<lambda>r. rp_tenant_id r = pr_tenant_id p
       \<and> (candidate_digest = None \<or> candidate_digest = Some (rp_candidate_digest r))
       \<and> (campaign_id = None \<or> campaign_id = rp_campaign_id r)) (cp_reports s))"

section \<open>What a registration leaves\<close>

lemma registered_digest:
  assumes "register_artifact C K uid n t ty b ds cs None cl s = (Inr a, s')"
  shows "ac_digest a = artifact_digest_for C ty (payload_body_digest C b) ds cs"
proof (cases "find_artifact t (artifact_digest_for C ty (payload_body_digest C b) ds cs) s")
  case (Inl e)
  with assms show ?thesis by (simp add: register_artifact_def Let_def op_run_simps)
next
  case (Inr found)
  show ?thesis
  proof (cases found)
    case None
    with Inr assms show ?thesis
      by (auto simp: register_artifact_def Let_def op_run_simps insert_artifact_def new_artifact_def op_bind_def op_then_def
          op_require_def op_modify_def op_return_def op_read_def split: prod.splits sum.splits if_splits)
  next
    case (Some x)
    with Inr have "ac_digest x = artifact_digest_for C ty (payload_body_digest C b) ds cs"
      by (auto simp: find_artifact_def dest: one_or_none_filter)
    with Inr Some assms show ?thesis by (simp add: register_artifact_def Let_def op_run_simps op_end_simps)
  qed
qed

lemma registry_call_reports: "cp_reports (snd (on_registry m s)) = cp_reports s"
  by (simp add: op_zoom_def split: prod.split)

text \<open>A registration of executable bytes that returned has passed both gates, and its verdict is the row it added.\<close>

lemma register_checked_report:
  assumes run: "register_checked V K X p dw now su bytes s = (Inr v, s')" and exe: "su_artifact_type su \<in> set EXECUTABLE_ARTIFACT_TYPES"
  obtains report where "gate_executable_candidate X (cv_str_of V) (su_artifact_type su) bytes
      (artifact_digest_for (cv_crypto V) (su_artifact_type su) (payload_body_digest (cv_crypto V) bytes) [] []) = Inr report"
    "sr_candidate_digest report = artifact_digest_for (cv_crypto V) (su_artifact_type su) (payload_body_digest (cv_crypto V) bytes) [] []"
    "cp_reports s' = cp_reports s @ [report_row_for V (pr_tenant_id p) (dw_report dw) now (su_campaign_id su) report]"
    "(pr_tenant_id p, verdict_digest (cv_crypto V) report) \<notin> (\<lambda>x. (rp_tenant_id x, rp_verdict_digest x)) ` set (cp_reports s)"
proof -
  let ?d = "artifact_digest_for (cv_crypto V) (su_artifact_type su) (payload_body_digest (cv_crypto V) bytes) [] []"
  obtain report where g: "gate_executable_candidate X (cv_str_of V) (su_artifact_type su) bytes ?d = Inr report"
    using run exe by (cases "gate_executable_candidate X (cv_str_of V) (su_artifact_type su) bytes ?d")
      (auto simp: register_checked_def op_run_simps executable_report_def res_bind_simps split: sum.splits)
  then have d: "sr_candidate_digest report = ?d"
    by (simp add: gate_executable_candidate_def Let_def candidate_report_def analyze_files_def split: if_splits) (metis analysis_report.select_convs(1))
  obtain artifact s1 where a: "on_registry (register_artifact (cv_crypto V) K (dw_artifact dw) (dw_nonce dw) (pr_tenant_id p)
                (su_artifact_type su) bytes [] [] None ''artifact'') s = (Inr artifact, s1)"
    using run exe g by (auto simp: register_checked_def op_run_simps executable_report_def res_bind_simps op_bind_def [of "on_registry _"]
        split: sum.splits prod.splits)
  then have ad: "ac_digest artifact = ?d" by (auto simp: op_zoom_def split: prod.splits dest: registered_digest)
  have s1: "cp_reports s1 = cp_reports s" using a registry_call_reports by (metis snd_conv)
  obtain proposal s2 where b: "on_registry (record_proposal (dw_proposal dw) (pr_tenant_id p) (ac_digest artifact) (su_strategy_id su)
                (su_parent_digest su) (su_campaign_id su) (su_metadata su)) s1 = (Inr proposal, s2)"
    using run exe g a by (auto simp: register_checked_def op_run_simps executable_report_def res_bind_simps op_bind_def [of "on_registry _"]
        split: sum.splits prod.splits)
  have s2: "cp_reports s2 = cp_reports s" using b s1 registry_call_reports by (metis snd_conv)
  have "r\<lparr>sr_candidate_digest := ?d\<rparr> = r" if "sr_candidate_digest r = ?d" for r using that by simp
  note same = this [OF d]
  from run exe g a b s2 show thesis
    using that [OF g d] ad same
    by (auto simp: register_checked_def op_run_simps executable_report_def res_bind_simps op_bind_def [of "on_registry _"]
        persist_analysis_report_def op_then_def op_bind_def op_require_def op_modify_def op_read_def report_row_for_def Let_def
        split: sum.splits prod.splits if_splits)
qed


lemma scaffold_gate_reports: "cp_reports (snd (refuse_scaffold_outside_research V p uid b types detail s)) = cp_reports s"
  by (auto simp: refuse_scaffold_outside_research_def op_then_def op_bind_def op_return_def op_raise_def op_zoom_def split: prod.splits sum.splits)

lemma register_candidate_checked:
  assumes "register_candidate V K X p dw now su s = (Inr v, s')"
  obtains bytes s1 where "cx_b64decode X (su_canonical_bytes_b64 su) = Some bytes" "register_checked V K X p dw now su bytes s1 = (Inr v, s')"
    "cp_reports s1 = cp_reports s"
proof -
  obtain bytes where b: "cx_b64decode X (su_canonical_bytes_b64 su) = Some bytes"
    using assms by (cases "cx_b64decode X (su_canonical_bytes_b64 su)") (auto simp: register_candidate_def op_raise_def)
  let ?gate = "refuse_scaffold_outside_research V p (dw_refusal dw) CANDIDATE_REGISTRATION [su_artifact_type su] [(''strategy_id'', JStr (su_strategy_id su))]"
  obtain u s1 where g: "?gate s = (Inr u, s1)"
    using assms b by (auto simp: register_candidate_def op_then_def op_bind_def split: prod.splits sum.splits)
  have "cp_reports s1 = cp_reports s" using scaffold_gate_reports by (metis g snd_conv)
  moreover have "register_checked V K X p dw now su bytes s1 = (Inr v, s')"
    using assms b g by (auto simp: register_candidate_def op_then_def op_bind_def transaction_def split: prod.splits sum.splits)
  ultimately show thesis using that b by blast
qed

section \<open>Properties\<close>


text \<open>C36: An executable artifact can be proposed only once: although registering the same bytes again is meant to find the
  artifact that is there, the second registration in the tenant - for another campaign, strategy or parent, by anyone,
  at any later time - is refused, because its analysis report has the digest of the first one.\<close>

theorem executables_are_proposed_once:
  assumes run: "register_candidate V K X p dw now su s = (Inr v, s1)" and exe: "su_artifact_type su \<in> set EXECUTABLE_ARTIFACT_TYPES"
    and later: "set (cp_reports s1) \<subseteq> set (cp_reports s2)" and tenant: "pr_tenant_id p' = pr_tenant_id p"
    and same: "su_artifact_type su' = su_artifact_type su" "su_canonical_bytes_b64 su' = su_canonical_bytes_b64 su"
  shows "\<not> (\<exists>v' s3. register_candidate V K X p' dw' now' su' s2 = (Inr v', s3))"
proof
  assume "\<exists>v' s3. register_candidate V K X p' dw' now' su' s2 = (Inr v', s3)"
  then obtain v' s3 where again: "register_candidate V K X p' dw' now' su' s2 = (Inr v', s3)" by blast
  obtain bytes t1 where b: "cx_b64decode X (su_canonical_bytes_b64 su) = Some bytes" and checked: "register_checked V K X p dw now su bytes t1 = (Inr v, s1)"
    by (rule register_candidate_checked [OF run])
  obtain bytes' t2 where b': "cx_b64decode X (su_canonical_bytes_b64 su') = Some bytes'"
    and checked': "register_checked V K X p' dw' now' su' bytes' t2 = (Inr v', s3)" and t2: "cp_reports t2 = cp_reports s2"
    by (rule register_candidate_checked [OF again])
  have bytes: "bytes' = bytes" using b b' same by simp
  let ?d = "artifact_digest_for (cv_crypto V) (su_artifact_type su) (payload_body_digest (cv_crypto V) bytes) [] []"
  obtain report where r: "gate_executable_candidate X (cv_str_of V) (su_artifact_type su) bytes ?d = Inr report"
    "cp_reports s1 = cp_reports t1 @ [report_row_for V (pr_tenant_id p) (dw_report dw) now (su_campaign_id su) report]"
    by (rule register_checked_report [OF checked exe])
  have exe': "su_artifact_type su' \<in> set EXECUTABLE_ARTIFACT_TYPES" using exe same by simp
  obtain report' where r': "gate_executable_candidate X (cv_str_of V) (su_artifact_type su) bytes ?d = Inr report'"
    "(pr_tenant_id p', verdict_digest (cv_crypto V) report') \<notin> (\<lambda>x. (rp_tenant_id x, rp_verdict_digest x)) ` set (cp_reports t2)"
    by (rule register_checked_report [OF checked' exe', unfolded bytes same])
  have "report_row_for V (pr_tenant_id p) (dw_report dw) now (su_campaign_id su) report \<in> set (cp_reports s2)"
    using later by (auto simp: r(2))
  then have "(pr_tenant_id p, verdict_digest (cv_crypto V) report) \<in> (\<lambda>x. (rp_tenant_id x, rp_verdict_digest x)) ` set (cp_reports t2)"
    unfolding t2 by (rule rev_image_eqI) (simp add: report_row_for_def Let_def)
  with r(1) r' tenant show False by simp
qed

section \<open>Witnesses\<close>

definition demo_codec :: "json candidate_codec" where
  "demo_codec = \<lparr>cx_b64decode = (\<lambda>s. Some (JStr s)), cx_text = (\<lambda>b. case b of JStr v \<Rightarrow> v | _ \<Rightarrow> []), cx_loads = (\<lambda>_. None),
     cx_utf8_length = length, cx_parse = (\<lambda>_. Parsed (Other [])), cx_unicode = small_unicode\<rparr>"

lemma demo_codec_fields:
  "cx_parse demo_codec = (\<lambda>_. Parsed (Other []))" "cx_unicode demo_codec = small_unicode" "cx_b64decode demo_codec = (\<lambda>s. Some (JStr s))"
  by (simp_all add: demo_codec_def)

definition demo_control :: "(string, json) control_service" where
  "demo_control = \<lparr>cv_crypto = demo_crypto, cv_signing_key = ''key'', cv_evaluator_subject = ''evaluator'',
     cv_tenant_policies = [], cv_str_of = (\<lambda>_. [])\<rparr>"

definition demo_proposer :: principal where
  "demo_proposer = \<lparr>pr_identity = \<lparr>wid_role = CANDIDATE_RUNNER, wid_subject = ''runner''\<rparr>, pr_tenant_id = ''acme''\<rparr>"

definition demo_draw :: "string \<Rightarrow> nat candidate_draw" where
  "demo_draw u = \<lparr>dw_refusal = u, dw_artifact = u, dw_report = u, dw_proposal = u, dw_nonce = 1\<rparr>"

definition demo_algorithm :: candidate_submission where
  "demo_algorithm = \<lparr>su_artifact_type = ''algorithm'', su_canonical_bytes_b64 = ''pass'', su_strategy_id = ''s'',
     su_campaign_id = None, su_parent_digest = None, su_metadata = None\<rparr>"

lemma demo_gate:
  "gate_executable_candidate demo_codec (\<lambda>_. []) ''algorithm'' (JStr ''pass'') d
     = Inr (candidate_report demo_codec (\<lambda>_. []) ''algorithm'' (JStr ''pass'') d)"
proof -
  have entries: "candidate_file_entries demo_codec ''algorithm'' (JStr ''pass'') = [JObj [(''path'', JStr ''candidate/main.py''), (''content'', JStr ''pass'')]]"
    by (simp add: candidate_file_entries_def demo_codec_def default_candidate_path_def EXECUTABLE_DEFAULT_PATHS_def Let_def)
  have pts: "points ''candidate/main.py'' = [99, 97, 110, 100, 105, 100, 97, 116, 101, 47, 109, 97, 105, 110, 46, 112, 121]"
    by (simp add: points_def)
  have segs: "split_slash [99, 97, 110, 100, 105, 100, 97, 116, 101, 47, 109, 97, 105, 110, 46, 112, 121] = [[99, 97, 110, 100, 105, 100, 97, 116, 101], [109, 97, 105, 110, 46, 112, 121]]"
    by simp
  have skel: "skeleton small_unicode [99, 97, 110, 100, 105, 100, 97, 116, 101] = uc_casefold small_unicode [99, 97, 110, 100, 105, 100, 97, 116, 101]" "skeleton small_unicode [109, 97, 105, 110, 46, 112, 121] = uc_casefold small_unicode [109, 97, 105, 110, 46, 112, 121]"
    by (simp_all add: skeleton_def small_unicode_def SKELETON_MAP_def)
  have "safe_path small_unicode default_limits (points ''candidate/main.py'')"
    unfolding pts safe_path_def segs using skel
    by (simp add: is_absolute_def shadows_protected_def small_unicode_def)
  then have "ao_admitted (admit_output small_unicode default_limits [output_entry_for demo_codec (\<lambda>_. []) (JObj [(''path'', JStr ''candidate/main.py''), (''content'', JStr ''pass'')])])"
    by (simp add: admit_output_def Let_def entry_safe safe_output_def output_entry_for_def entry_text_def entry_item_def default_limits_def
        demo_codec_def DEFAULT_MAX_FILE_BYTES_def DEFAULT_MAX_TOTAL_BYTES_def)
  moreover have "\<not> report_blocked (candidate_report demo_codec (\<lambda>_. []) ''algorithm'' (JStr ''pass'') d)"
  proof -
    have "covers_path default_document ''candidate/main.py'' = None" by code_simp
    then show ?thesis
      by (simp add: report_blocked_def candidate_report_def entries analyze_files_def check_file_def usable_str_def json_get_def entry_item_def
          declared_mask_def entry_text_def scan_source_def scan_node_def demo_codec_fields Let_def)
  qed
  ultimately show ?thesis by (simp add: gate_executable_candidate_def entries demo_codec_fields)
qed

lemma demo_registration: "\<exists>v s'. register_candidate demo_control demo_keys demo_codec demo_proposer (demo_draw ''1'') 0 demo_algorithm empty_control_db = (Inr v, s')"
proof -
  have "case register_artifact demo_crypto demo_keys ''1'' 1 ''acme'' ''algorithm'' (JStr ''pass'') [] [] None ''artifact'' empty_registry of
      (Inl _, _) \<Rightarrow> False
    | (Inr a, g) \<Rightarrow> (case record_proposal ''1'' ''acme'' (ac_digest a) ''s'' None None None g of
        (Inl _, _) \<Rightarrow> False
      | (Inr q, g') \<Rightarrow> \<not> isl (current_status ''acme'' (pr_proposed_digest q) g'))" by code_simp
  note ok = this
  obtain r g where rg: "register_artifact demo_crypto demo_keys ''1'' 1 ''acme'' ''algorithm'' (JStr ''pass'') [] [] None ''artifact'' empty_registry = (r, g)"
    by fastforce
  then obtain a where a: "r = Inr a" using ok by (cases r) simp_all
  obtain r' g' where rg': "record_proposal ''1'' ''acme'' (ac_digest a) ''s'' None None None g = (r', g')" by fastforce
  then obtain q where q: "r' = Inr q" using ok rg a by (cases r') simp_all
  obtain st where st: "current_status ''acme'' (pr_proposed_digest q) g' = Inr st"
    using ok rg a rg' q by (cases "current_status ''acme'' (pr_proposed_digest q) g'") simp_all
  note run = rg [unfolded a] rg' [unfolded q] st
  have open_gate: "\<not> scaffold_refused demo_control ''acme'' [''algorithm'']" by code_simp
  have exe: "''algorithm'' \<in> set EXECUTABLE_ARTIFACT_TYPES" by (simp add: EXECUTABLE_ARTIFACT_TYPES_def)
  show ?thesis
    using run demo_gate open_gate exe
    by (simp add: register_candidate_def demo_algorithm_def demo_codec_fields(3) refuse_scaffold_outside_research_def demo_proposer_def
        register_checked_def op_run_simps executable_report_def demo_control_def demo_draw_def transaction_def op_then_def op_bind_def op_return_def
        op_zoom_def optional_campaign_def empty_control_db_def persist_analysis_report_def op_read_def op_require_def op_modify_def candidate_view_of_def res_bind_simps)
qed


lemma executables_once_witness:
  "\<exists>v s'. register_candidate demo_control demo_keys demo_codec demo_proposer (demo_draw ''1'') 0 demo_algorithm empty_control_db = (Inr v, s')
     \<and> \<not> (\<exists>v' s3. register_candidate demo_control demo_keys demo_codec demo_proposer (demo_draw ''2'') 9 (demo_algorithm\<lparr>su_strategy_id := ''other''\<rparr>) s' = (Inr v', s3))"
proof -
  obtain v s' where run: "register_candidate demo_control demo_keys demo_codec demo_proposer (demo_draw ''1'') 0 demo_algorithm empty_control_db = (Inr v, s')"
    using demo_registration by blast
  have exe: "su_artifact_type demo_algorithm \<in> set EXECUTABLE_ARTIFACT_TYPES" by (simp add: demo_algorithm_def EXECUTABLE_ARTIFACT_TYPES_def)
  from executables_are_proposed_once [OF run exe order_refl refl, of "demo_algorithm\<lparr>su_strategy_id := ''other''\<rparr>"] run show ?thesis by auto
qed

end
