(* ===== verification/ControlRecords.thy ===== *)
theory ControlRecords
  imports Candidates
begin

text \<open>
  The directories and reports of the control plane (\<^verbatim>\<open>api/service.py\<close>): agents, evidence bundles, evaluations, the Pareto
  comparison against the parent and approval decisions. A table without a timestamp is read in insertion order.
\<close>

section \<open>Agents\<close>

definition require_agent :: "string \<Rightarrow> string \<Rightarrow> 'b control_db \<Rightarrow> exn + agent_row" where
  "require_agent tenant_id agent_id s =
     res_bind (one_or_none (filter (\<lambda>a. ag_tenant_id a = tenant_id \<and> ag_agent_id a = agent_id) (cp_agents s)))
       (\<lambda>found. case found of None \<Rightarrow> Inl (Api (CampaignApiError ''no agent in this tenant'')) | Some a \<Rightarrow> Inr a)"

definition get_agent :: "principal \<Rightarrow> string \<Rightarrow> 'b control_db \<Rightarrow> exn + agent_row" where
  "get_agent p agent_id s = require_agent (pr_tenant_id p) agent_id s"

definition list_agents :: "principal \<Rightarrow> 'b control_db \<Rightarrow> agent_row list" where
  "list_agents p s = sort_key ag_created_at (filter (\<lambda>a. ag_tenant_id a = pr_tenant_id p) (cp_agents s))"

definition register_agent ::
  "principal \<Rightarrow> string \<Rightarrow> instant \<Rightarrow> string \<Rightarrow> string \<Rightarrow> string \<Rightarrow> string list \<Rightarrow> string option
     \<Rightarrow> (exn, 'b control_db, agent_row) op" where
  "register_agent p uid now plugin_id kind pinned_image artifact_types agent_id =
     (if kind \<notin> {''strategy'', ''adapter''} then op_raise (invalid_spec ''agent kind'')
      else if py_blank plugin_id \<or> py_blank pinned_image then op_raise (invalid_spec ''plugin_id and pinned_image must be non-empty'')
      else
        (let resolved_id = (case agent_id of Some i \<Rightarrow> if i = [] then new_id ''agt'' uid else i | None \<Rightarrow> new_id ''agt'' uid);
             row = \<lparr>ag_tenant_id = pr_tenant_id p, ag_agent_id = resolved_id, ag_plugin_id = plugin_id, ag_kind = kind,
                    ag_pinned_image = pinned_image, ag_artifact_types = artifact_types, ag_registered_by = identity_id p,
                    ag_created_at = now\<rparr>
         in op_then (transaction
              (op_then (op_require (\<lambda>s. resolved_id \<notin> ag_agent_id ` set (cp_agents s)) integrity_error)
                (op_modify (\<lambda>s. s\<lparr>cp_agents := cp_agents s @ [row]\<rparr>))))
              (op_read (get_agent p resolved_id))))"

section \<open>Evidence\<close>

definition get_evidence :: "principal \<Rightarrow> string \<Rightarrow> 'b control_db \<Rightarrow> exn + evidence_row" where
  "get_evidence p bundle_id s =
     res_bind (one_or_none (filter (\<lambda>e. ev_tenant_id e = pr_tenant_id p \<and> ev_bundle_id e = bundle_id) (cp_evidence s)))
       (\<lambda>found. case found of None \<Rightarrow> Inl (Api (EvidenceNotFoundError bundle_id)) | Some e \<Rightarrow> Inr e)"

definition list_evidence :: "principal \<Rightarrow> string option \<Rightarrow> string option \<Rightarrow> 'b control_db \<Rightarrow> evidence_row list" where
  "list_evidence p campaign_id artifact_digest s =
     sort_key ev_created_at (filter (\<lambda>e. ev_tenant_id e = pr_tenant_id p
       \<and> (campaign_id = None \<or> ev_campaign_id e = campaign_id)
       \<and> (artifact_digest = None \<or> ev_artifact_digest e = artifact_digest)) (cp_evidence s))"

definition record_evidence ::
  "principal \<Rightarrow> string \<Rightarrow> instant \<Rightarrow> json_object list \<Rightarrow> string option \<Rightarrow> string option \<Rightarrow> string option
     \<Rightarrow> (exn, 'b control_db, evidence_row) op" where
  "record_evidence p uid now redacted_items campaign_id artifact_digest bundle_id =
     (let resolved_id = (case bundle_id of Some i \<Rightarrow> if i = [] then new_id ''evb'' uid else i | None \<Rightarrow> new_id ''evb'' uid);
          row = \<lparr>ev_tenant_id = pr_tenant_id p, ev_bundle_id = resolved_id, ev_campaign_id = campaign_id,
                 ev_artifact_digest = artifact_digest, ev_redacted_items = redacted_items, ev_created_at = now\<rparr>
      in op_bind (op_read (optional_campaign (pr_tenant_id p) campaign_id)) (\<lambda>_.
         op_then (transaction
           (op_bind (op_read (\<lambda>s. require_optional (pr_tenant_id p) artifact_digest (cp_registry s))) (\<lambda>_.
            op_then (op_require (\<lambda>s. resolved_id \<notin> ev_bundle_id ` set (cp_evidence s)) integrity_error)
              (op_modify (\<lambda>s. s\<lparr>cp_evidence := cp_evidence s @ [row]\<rparr>)))))
           (op_read (get_evidence p resolved_id))))"

section \<open>Evaluations\<close>

definition metrics_payload_digest :: "('k, 'b) crypto \<Rightarrow> json_object \<Rightarrow> string" where
  "metrics_payload_digest C metrics = sha256_digest C (canonical_json C (JObj metrics))"

definition require_evaluator :: "principal \<Rightarrow> exn + unit" where
  "require_evaluator p =
     (if wid_role (pr_identity p) \<noteq> EVALUATOR
      then Inl (Api (CampaignApiError ''only the evaluator role may record evaluation outcomes'')) else Inr ())"

definition record_evaluation ::
  "('k, 'b) control_service \<Rightarrow> principal \<Rightarrow> string \<Rightarrow> string \<Rightarrow> string \<Rightarrow> json_object
     \<Rightarrow> (exn, 'b control_db, 'b evaluation_attestation) op" where
  "record_evaluation V p uid artifact_digest outcome metrics =
     (if outcome \<notin> {''pass'', ''fail''} then op_raise (Api (CampaignApiError ''outcome must be pass or fail''))
      else op_bind (op_lift (require_evaluator p)) (\<lambda>_.
        transaction (on_registry (record_attestation (cv_crypto V) uid (pr_tenant_id p)
          \<lparr>wid_role = EVALUATOR, wid_subject = cv_evaluator_subject V\<rparr> artifact_digest outcome metrics
          (metrics_payload_digest (cv_crypto V) metrics) (cv_signing_key V)))))"

definition list_evaluations :: "principal \<Rightarrow> string option \<Rightarrow> 'b control_db \<Rightarrow> 'b evaluation_attestation list" where
  "list_evaluations p artifact_digest s =
     filter (\<lambda>a. ea_tenant_id a = pr_tenant_id p \<and> (artifact_digest = None \<or> artifact_digest = Some (ea_artifact_digest a)))
       (rg_attestations (cp_registry s))"

definition latest_attestation :: "string \<Rightarrow> string \<Rightarrow> 'b control_db \<Rightarrow> 'b evaluation_attestation option" where
  "latest_attestation tenant_id artifact_digest s =
     (case filter (\<lambda>a. ea_tenant_id a = tenant_id \<and> ea_artifact_digest a = artifact_digest) (rg_attestations (cp_registry s)) of
        [] \<Rightarrow> None | a # as \<Rightarrow> Some (last (a # as)))"

section \<open>Comparison with the parent\<close>

type_synonym metric_values = "(string, rat) dict"

definition metric_number :: "json \<Rightarrow> rat option" where
  "metric_number v = (case v of JInt i \<Rightarrow> Some (of_int i) | JFloat q \<Rightarrow> Some q | _ \<Rightarrow> None)"

definition numeric_metrics :: "json_object \<Rightarrow> metric_values" where
  "numeric_metrics raw = List.map_filter (\<lambda>(k, v). map_option (Pair k) (metric_number v)) raw"

definition metric_deltas :: "metric_values \<Rightarrow> metric_values \<Rightarrow> metric_values" where
  "metric_deltas candidate_metrics parent_metrics =
     List.map_filter (\<lambda>(k, v). map_option (\<lambda>w. (k, v - w)) (map_of parent_metrics k)) candidate_metrics"

definition is_gain :: "string \<times> rat \<Rightarrow> bool" where
  "is_gain = (\<lambda>(k, delta). if k \<in> set COST_METRIC_KEYS then delta < 0 else delta > 0)"

definition compare_with_parent :: "metric_values \<Rightarrow> metric_values \<Rightarrow> metric_values \<times> metric_values" where
  "compare_with_parent candidate_metrics parent_metrics =
     (let deltas = filter (\<lambda>(k, delta). delta \<noteq> 0) (metric_deltas candidate_metrics parent_metrics)
      in (filter is_gain deltas, filter (Not \<circ> is_gain) deltas))"

record pareto_entry =
  pe_proposal_id :: string
  pe_artifact_digest :: string
  pe_parent_digest :: "string option"
  pe_outcome :: "string option"
  pe_metrics :: metric_values
  pe_gains :: metric_values
  pe_regressions :: metric_values
  pe_costs :: metric_values

definition attested_metrics :: "'b evaluation_attestation option \<Rightarrow> metric_values" where
  "attested_metrics a = numeric_metrics (case a of None \<Rightarrow> [] | Some x \<Rightarrow> ea_result_metrics x)"

definition pareto_entry_for ::
  "proposal_record \<Rightarrow> 'b evaluation_attestation option \<Rightarrow> 'b evaluation_attestation option \<Rightarrow> pareto_entry" where
  "pareto_entry_for proposal candidate_att parent_att =
     (let metrics = attested_metrics candidate_att;
          (gains, regressions) = compare_with_parent metrics (attested_metrics parent_att)
      in \<lparr>pe_proposal_id = pr_proposal_id proposal, pe_artifact_digest = pr_proposed_digest proposal,
          pe_parent_digest = pr_parent_digest proposal, pe_outcome = map_option ea_outcome candidate_att, pe_metrics = metrics,
          pe_gains = gains, pe_regressions = regressions, pe_costs = filter (\<lambda>(k, v). k \<in> set COST_METRIC_KEYS) metrics\<rparr>)"

definition pareto ::
  "('k, 'b) control_service \<Rightarrow> date \<Rightarrow> principal \<Rightarrow> string \<Rightarrow> 'b control_db \<Rightarrow> exn + string \<times> pareto_entry list" where
  "pareto V today p campaign_id s =
     res_bind (require_campaign (pr_tenant_id p) campaign_id s) (\<lambda>c.
     res_bind (spec_from_record (cv_str_of V) today c) (\<lambda>spec.
       Inr (ib_release_manifest_digest (cs_incumbent spec),
            map (\<lambda>r. pareto_entry_for r (latest_attestation (pr_tenant_id p) (pr_proposed_digest r) s)
                   (case pr_parent_digest r of None \<Rightarrow> None | Some d \<Rightarrow> latest_attestation (pr_tenant_id p) d s))
              (campaign_proposals (pr_tenant_id p) campaign_id s))))"

section \<open>Approvals\<close>

definition APPROVAL_DECISIONS :: "string list" where
  "APPROVAL_DECISIONS = [''nominate'', ''reject'', ''quarantine'', ''revoke'']"

record approval_view =
  ap_event_id :: string
  ap_proposal_id :: string
  ap_artifact_digest :: string
  ap_kind :: string
  ap_actor_identity :: string
  ap_reason :: "string option"
  ap_created_at :: instant

definition approval_view_of :: "proposal_record \<Rightarrow> artifact_status_event \<Rightarrow> approval_view" where
  "approval_view_of r e =
     \<lparr>ap_event_id = se_event_id e, ap_proposal_id = pr_proposal_id r, ap_artifact_digest = se_artifact_digest e,
      ap_kind = se_kind e, ap_actor_identity = se_actor_identity e, ap_reason = se_reason e, ap_created_at = se_created_at e\<rparr>"

definition record_approval ::
  "principal \<Rightarrow> string \<Rightarrow> string \<Rightarrow> instant \<Rightarrow> string \<Rightarrow> string \<Rightarrow> string \<Rightarrow> string option
     \<Rightarrow> (exn, 'b control_db, approval_view) op" where
  "record_approval p row_id uid now campaign_id proposal_id decision reason =
     (if decision \<notin> set APPROVAL_DECISIONS then op_raise (Api (CampaignApiError ''unknown decision''))
      else transaction
        (op_bind (op_read (require_candidate (pr_tenant_id p) proposal_id)) (\<lambda>r.
          if pr_campaign_id r \<noteq> Some campaign_id
          then op_raise (Api (CampaignApiError ''candidate does not belong to campaign''))
          else op_bind (on_registry (append_status_event row_id uid now (pr_tenant_id p) (pr_proposed_digest r) decision
                 (identity_id p) reason)) (\<lambda>e. op_return (approval_view_of r e)))))"

definition list_approvals :: "principal \<Rightarrow> string \<Rightarrow> 'b control_db \<Rightarrow> approval_view list" where
  "list_approvals p campaign_id s =
     concat (map (\<lambda>e. map (\<lambda>r. approval_view_of r e)
         (filter (\<lambda>r. pr_tenant r = se_tenant_id e \<and> pr_proposed_digest r = se_artifact_digest e \<and> pr_campaign_id r = Some campaign_id)
           (rg_proposals (cp_registry s))))
       (sort_key se_created_at (filter (\<lambda>e. se_tenant_id e = pr_tenant_id p) (rg_events (cp_registry s)))))"

section \<open>Properties\<close>

lemma map_of_matched:
  assumes "distinct (map fst c)"
  shows "map_of (List.map_filter (\<lambda>(k, v). map_option (\<lambda>w. (k, f v w)) (g k)) c) x =
    (case map_of c x of None \<Rightarrow> None | Some v \<Rightarrow> map_option (f v) (g x))"
  using assms
proof (induction c)
  case (Cons kv c)
  obtain k v where kv: "kv = (k, v)" by (cases kv)
  have "map_of c k = None" using Cons.prems kv by (simp add: map_of_eq_None_iff)
  with Cons kv show ?case by (cases "g k") (auto simp: List.map_filter_simps split: option.split)
qed (simp add: List.map_filter_simps)

lemma map_of_kept:
  assumes "distinct (map fst xs)"
  shows "map_of (filter P xs) x = (case map_of xs x of None \<Rightarrow> None | Some d \<Rightarrow> if P (x, d) then Some d else None)"
  using assms
proof (induction xs)
  case (Cons kv xs)
  obtain k v where kv: "kv = (k, v)" by (cases kv)
  have "map_of xs k = None" using Cons.prems kv by (simp add: map_of_eq_None_iff)
  with Cons kv show ?case by (auto split: option.split)
qed simp

lemma deltas_ok: "dict_ok c \<Longrightarrow> dict_ok (metric_deltas c p)"
proof (induction c)
  case (Cons kv c)
  obtain k v where kv: "kv = (k, v)" by (cases kv)
  have "fst ` set (metric_deltas c p) \<subseteq> fst ` set c" for c
    by (auto simp: metric_deltas_def List.map_filter_def rev_image_eqI)
  with Cons kv show ?case by (auto simp: dict_ok_def metric_deltas_def List.map_filter_simps split: option.split)
qed (simp add: dict_ok_def metric_deltas_def List.map_filter_simps)

lemma delta_of:
  "dict_ok c \<Longrightarrow> map_of (metric_deltas c p) k = (case map_of c k of None \<Rightarrow> None | Some v \<Rightarrow> map_option (\<lambda>w. v - w) (map_of p k))"
  unfolding metric_deltas_def dict_ok_def by (rule map_of_matched)

lemma compared:
  assumes "dict_ok c"
  shows "map_of (fst (compare_with_parent c p)) k = Some d \<longleftrightarrow> map_of (metric_deltas c p) k = Some d \<and> d \<noteq> 0 \<and> is_gain (k, d)"
    and "map_of (snd (compare_with_parent c p)) k = Some d \<longleftrightarrow> map_of (metric_deltas c p) k = Some d \<and> d \<noteq> 0 \<and> \<not> is_gain (k, d)"
proof -
  have ok: "distinct (map fst (metric_deltas c p))" "distinct (map fst (filter (\<lambda>(k, delta). delta \<noteq> 0) (metric_deltas c p)))"
    using deltas_ok [OF assms] by (simp_all add: dict_ok_def distinct_map_filter)
  show "map_of (fst (compare_with_parent c p)) k = Some d \<longleftrightarrow> map_of (metric_deltas c p) k = Some d \<and> d \<noteq> 0 \<and> is_gain (k, d)"
    by (auto simp: compare_with_parent_def Let_def map_of_kept [OF ok(1)] map_of_kept [OF ok(2)] split: option.splits if_splits)
  show "map_of (snd (compare_with_parent c p)) k = Some d \<longleftrightarrow> map_of (metric_deltas c p) k = Some d \<and> d \<noteq> 0 \<and> \<not> is_gain (k, d)"
    by (auto simp: compare_with_parent_def Let_def map_of_kept [OF ok(1)] map_of_kept [OF ok(2)] split: option.splits if_splits)
qed

text \<open>The comparison with the parent is exact and fair: a metric is a gain precisely if both sides attest it and the
  candidate's value is better - lower for a cost, higher for anything else - and it is reported with its difference;
  exchanging candidate and parent turns every gain into the regression of the opposite amount and back.\<close>

theorem comparison_is_antisymmetric:
  assumes "dict_ok c" "dict_ok p"
  shows "(map_of (fst (compare_with_parent c p)) k = Some d \<longleftrightarrow>
      (\<exists>v w. map_of c k = Some v \<and> map_of p k = Some w \<and> d = v - w \<and> (if k \<in> set COST_METRIC_KEYS then v < w else w < v)))
    \<and> (map_of (snd (compare_with_parent p c)) k = Some (- d) \<longleftrightarrow> map_of (fst (compare_with_parent c p)) k = Some d)"
  by (auto simp: compared [OF assms(1)] compared [OF assms(2)] delta_of [OF assms(1)] delta_of [OF assms(2)] is_gain_def
      split: option.splits if_splits)

lemma comparison_witness:
  "map_of (fst (compare_with_parent [(''tokens'', 90), (''accuracy'', 1)] [(''tokens'', 100), (''accuracy'', 1)])) ''tokens'' = Some (- 10)"
proof -
  have ok: "dict_ok [(''tokens'', 90 :: rat), (''accuracy'', 1)]" "dict_ok [(''tokens'', 100 :: rat), (''accuracy'', 1)]"
    by (simp_all add: dict_ok_def)
  from comparison_is_antisymmetric [OF ok, of "''tokens''" "- 10"] show ?thesis by (simp add: COST_METRIC_KEYS_def)
qed

lemma approval_event:
  assumes "record_approval p row_id uid now c1 pid decision reason s = (Inr v, s')"
  obtains q e where "v = approval_view_of q e" "se_tenant_id e = pr_tenant_id p" "se_kind e = decision"
    "e \<in> set (rg_events (cp_registry s'))" "rg_proposals (cp_registry s') = rg_proposals (cp_registry s)"
proof -
  have t: "record_approval p row_id uid now c1 pid decision reason s = transaction
        (op_bind (op_read (require_candidate (pr_tenant_id p) pid)) (\<lambda>r.
          if pr_campaign_id r \<noteq> Some c1 then op_raise (Api (CampaignApiError ''candidate does not belong to campaign''))
          else op_bind (on_registry (append_status_event row_id uid now (pr_tenant_id p) (pr_proposed_digest r) decision
                 (identity_id p) reason)) (\<lambda>e. op_return (approval_view_of r e)))) s"
    using assms by (simp add: record_approval_def op_raise_def split: if_splits)
  obtain q where q: "require_candidate (pr_tenant_id p) pid s = Inr q"
    using assms unfolding t by (cases "require_candidate (pr_tenant_id p) pid s") (auto simp: transaction_def op_run_simps)
  obtain e g where e: "append_status_event row_id uid now (pr_tenant_id p) (pr_proposed_digest q) decision (identity_id p) reason (cp_registry s) = (Inr e, g)"
    and v: "v = approval_view_of q e" and s': "s' = s\<lparr>cp_registry := g\<rparr>"
    using assms q unfolding t
    by (auto simp: transaction_def op_bind_def op_read_def op_return_def op_raise_def op_zoom_def split: if_splits prod.splits sum.splits)
  from e have "se_tenant_id e = pr_tenant_id p \<and> se_kind e = decision \<and> e \<in> set (rg_events g) \<and> rg_proposals g = rg_proposals (cp_registry s)"
    by (auto simp: append_status_event_def op_bind_def op_then_def op_read_def op_require_def op_modify_def op_return_def op_raise_def Let_def
        split: if_splits sum.splits)
  with v s' show thesis using that by simp
qed

text \<open>C37: A decision on one campaign's candidate is listed as a decision of every campaign that proposed the same artifact:
  approvals are joined to proposals by the artifact's digest alone.\<close>

theorem approvals_reach_other_campaigns:
  assumes run: "record_approval p row_id uid now c1 pid decision reason s = (Inr v, s')"
    and other: "r \<in> set (rg_proposals (cp_registry s))" "pr_tenant r = pr_tenant_id p" "pr_campaign_id r = Some c2"
      "pr_proposed_digest r = ap_artifact_digest v"
  shows "\<exists>w \<in> set (list_approvals p c2 s'). ap_event_id w = ap_event_id v \<and> ap_proposal_id w = pr_proposal_id r \<and> ap_kind w = decision"
proof -
  obtain q e where v: "v = approval_view_of q e" and e: "se_tenant_id e = pr_tenant_id p" "se_kind e = decision"
    and s': "e \<in> set (rg_events (cp_registry s'))" "rg_proposals (cp_registry s') = rg_proposals (cp_registry s)"
    by (rule approval_event [OF run])
  have "approval_view_of r e \<in> set (list_approvals p c2 s')"
    using other e s' v by (auto simp: list_approvals_def approval_view_of_def)
  then show ?thesis using v e by (intro bexI [of _ "approval_view_of r e"]) (simp_all add: approval_view_of_def)
qed

definition demo_shared :: "json control_db" where
  "demo_shared = empty_control_db\<lparr>cp_registry := empty_registry\<lparr>
     rg_artifacts := [\<lparr>ac_tenant_id = ''acme'', ac_artifact_id = ''art'', ac_digest = ''d'', ac_artifact_type = ''prompt'',
       ac_canonical_body_digest = ''d'', ac_dependencies = [], ac_capability_requests = [], ac_storage_uri = ''uri''\<rparr>],
     rg_proposals := [
       \<lparr>pr_tenant = ''acme'', pr_proposal_id = ''p1'', pr_proposed_digest = ''d'', pr_parent_digest = None,
        pr_strategy_id = ''s'', pr_campaign_id = Some ''c1'', pr_metadata = []\<rparr>,
       \<lparr>pr_tenant = ''acme'', pr_proposal_id = ''p2'', pr_proposed_digest = ''d'', pr_parent_digest = None,
        pr_strategy_id = ''s'', pr_campaign_id = Some ''c2'', pr_metadata = []\<rparr>]\<rparr>\<rparr>"

lemma decided_shared:
  "case record_approval demo_proposer ''1'' ''1'' 0 ''c1'' ''p1'' ''reject'' None demo_shared of (r, s') \<Rightarrow>
     (case r of Inr v \<Rightarrow> ap_artifact_digest v = ''d'' | Inl _ \<Rightarrow> False)"
  by code_simp

lemma approvals_reach_witness:
  "case record_approval demo_proposer ''1'' ''1'' 0 ''c1'' ''p1'' ''reject'' None demo_shared of (r, s') \<Rightarrow>
     \<exists>w \<in> set (list_approvals demo_proposer ''c2'' s'). ap_proposal_id w = ''p2'' \<and> ap_kind w = ''reject''"
proof -
  obtain v s' where run: "record_approval demo_proposer ''1'' ''1'' 0 ''c1'' ''p1'' ''reject'' None demo_shared = (Inr v, s')"
    and d: "ap_artifact_digest v = ''d''"
    using decided_shared by (auto split: prod.splits sum.splits)
  define r where "r = rg_proposals (cp_registry demo_shared) ! 1"
  have r: "r \<in> set (rg_proposals (cp_registry demo_shared))" "pr_tenant r = pr_tenant_id demo_proposer"
    "pr_campaign_id r = Some ''c2''" "pr_proposed_digest r = ap_artifact_digest v" "pr_proposal_id r = ''p2''"
    using d by (simp_all add: r_def demo_shared_def empty_control_db_def demo_proposer_def)
  from approvals_reach_other_campaigns [OF run r(1-4)] r(5) run show ?thesis by auto
qed

end
