(* ===== verification/Spec2Isabelle.thy ===== *)
theory Spec2Isabelle
  imports CanaryOutcomes Budgets Authority Invalidation MutationMask Accounts PromotionPolicy Backup Nomination
    Graduation ParetoArchive AdmissionRecords CampaignSpec MemoryGuarantees Claims
    ControlLife ReleaseLedger ControlRecords
begin

text \<open>
  EvoRuntime: the control plane of an agent that improves itself under governance
  (\<^verbatim>\<open>src/evoruntime\<close>). A campaign proposes changes to an agent, evaluates them within budgets, against
  data some of which is sealed, and promotes a release through a canary; every step is gated, logged
  and reversible. This development models that control plane and proves what makes it trustworthy.

  \<^bold>\<open>The parts and how they meet.\<close>
  A campaign (\<^verbatim>\<open>campaign/machine.py\<close>) moves through phases; the edge into the canary asks the
  compensation gate (\<^verbatim>\<open>campaign/compensation.py\<close>) for executed evidence of every compensating action.
  Artifact edits are checked against mutation masks (\<^verbatim>\<open>campaign/masks.py\<close>), work is metered
  (\<^verbatim>\<open>eval/budgets.py\<close>, \<^verbatim>\<open>campaign/budgets.py\<close>), sealed data is read through ledgered handles
  (\<^verbatim>\<open>datasets/service.py\<close>). A release is a signed manifest (\<^verbatim>\<open>release/manifest.py\<close>); the controller
  (\<^verbatim>\<open>release/controller.py\<close>) moves the one active pointer by an audited compare-and-swap
  (\<^verbatim>\<open>selection/release_pointer.py\<close>); the canary (\<^verbatim>\<open>release/canary.py\<close>) serves it to a fleet
  (\<^verbatim>\<open>release/fleet.py\<close>) and rolls it back; the authority tiers (\<^verbatim>\<open>selection/authority.py\<close>,
  \<^verbatim>\<open>release/eligibility.py\<close>) say which releases may be canaried at all, and the invalidator
  (\<^verbatim>\<open>release/invalidation.py\<close>) retracts a live one. The artifacts of a release live in the registry
  (\<^verbatim>\<open>registry/service.py\<close>), their bytes in the encrypted payload store of the lineage plane (\<^verbatim>\<open>lineage/\<close>), which
  also keeps the provenance graph and deletes on request. The trusted selector (\<^verbatim>\<open>selection/nomination.py\<close>)
  nominates one candidate per arm and freezes it in the registry; the promotion policy
  (\<^verbatim>\<open>selection/policy.py\<close>, \<^verbatim>\<open>selection/recursive_gate.py\<close>) decides on the statistics of \<^verbatim>\<open>eval/statistics.py\<close>.

  \<^bold>\<open>Theories.\<close>
  \<^item> \<open>Prelude\<close>: a call that may raise after it has changed its object's state is
    \<open>'s \<Rightarrow> ('e + 'a) \<times> 's\<close>, with \<open>op_bind\<close>, \<open>op_except\<close>, \<open>op_for\<close>, \<open>op_zoom\<close> for Python's sequencing, \<^verbatim>\<open>try\<close>,
    \<^verbatim>\<open>for\<close> and attribute access; ordered dictionaries; \<open>run_calls\<close>, the state after any list of method
    calls whose exceptions the caller catches; the locale \<open>append_log\<close>, the contract of every sink.
  \<^item> \<open>Identities\<close>: roles, role checks (\<^verbatim>\<open>security/\<close>) and the exceptions of all planes as one datatype.
  \<^item> \<open>Canonical\<close>: canonical bytes, digests, detached signatures (\<^verbatim>\<open>registry/canonical.py\<close>,
    \<^verbatim>\<open>security/signing.py\<close>).
  \<^item> \<open>ReleasePointer\<close>, \<open>ReleaseController\<close>: the pointer and its audit log, signed manifests, activation and
    rollback.
  \<^item> \<open>Fleet\<close>: the in-process fleet and the compressed clock; the locale \<open>canary_fleet\<close> is what the canary
    relies on, interpreted on that fleet.
  \<^item> \<open>Compensation\<close>, \<open>ContentStore\<close>: plans, classification, the rollback walk, the promotion check, the
    gate, and the content-addressed persistence of plans.
  \<^item> \<open>Canary\<close>, \<open>CanaryRun\<close>, \<open>CanaryOutcomes\<close>: the harness as the code has it, its run over any fleet that
    keeps the interface, and each of its endings stated for the repository's fleet.
  \<^item> \<open>CampaignMachine\<close>: the lifecycle machine, its sink contract \<open>campaign_sink\<close>, the replay automaton
    that reads a transition log, checkpoint and reconstruction.
  \<^item> \<open>Budgets\<close>: the locale \<open>preflight_meter\<close> and the two meters that interpret it.
  \<^item> \<open>Authority\<close>, \<open>Invalidation\<close>, \<open>MutationMask\<close>: the tier computation and its approval gate, canary
    eligibility, release invalidation, the mask checks and the enforcing adapter.
  \<^item> \<open>Holdout\<close>, \<open>Ledgered\<close>: partitions, handles and the query ledger as tables with their constraints,
    sessions as transactions, every method of the two services; the vault steps they take. \<open>Accounts\<close>: the
    abstract read counters the service refines.
  \<^item> \<open>Database\<close>: transactions, single-row reads and constraint errors, shared by the services that keep tables.
  \<^item> \<open>Statistics\<close>, \<open>Tenancy\<close>, \<open>PromotionPolicy\<close>: the paired bootstrap and the corrections for multiple
    comparisons, the tenancy policy and its enforcement, the six promotion conditions and the gate on recursive claims.
  \<^item> \<open>Lineage\<close>, \<open>Backup\<close>: payload store, tenant keys, tombstones and both sweeps, the provenance graph with its recursive
    query; backup tiers, their age-out and the retention policy (\<^verbatim>\<open>tenancy/retention.py\<close>).
  \<^item> \<open>Registry\<close>: the six tables of the artifact registry, every operation, the walk that activation makes.
  \<^item> \<open>Nomination\<close>: the rule, the ledgers (locale \<open>nomination_ledger\<close>, interpreted on the in-memory and the
    registry-backed one), freeze and the closed edit path.

  \<^bold>\<open>What is proved.\<close>
  Campaigns: the log is gapless and replays to the phase, a promotion has passed every stage, the canary
  edge needs evidence, a live campaign is never stuck, a checkpoint reconstructs. Releases: the pointer is the
  replay of its audit log and only the release controller moves it; activation followed by rollback
  returns; a signature covers every field. Canary: a severity-1 event rolls back, a clean run completes
  with the drawn allocation. Compensation: promotion is allowed exactly with executed evidence for each owed
  action, and a rollback that succeeds provides it. Fleet: a session serves one manifest and every report
  is true; the p99 measurement means convergence. Budgets: no sequence of charges oversteps a ceiling, and a
  charge is accepted exactly when it fits. Holdout: a budget bounds the reads whatever rotations happen,
  content leaves only with its ledgered grant, denials are committed, and the service refines the read counters.
  Statistics and policy: the bootstrap interval is sound, eligibility is the conjunction of the six conditions, more
  comparisons never help, production tenants are contained. Lineage: the recursive query is reachability
  up to the depth, what is read is what was stored, deletion completes within its deadlines and covered backup
  copies never come back. Registry: the dependency graph is acyclic, activation always decides, registered
  content never changes. Selection: the nominee is the one the rule picks and a freeze is a one-way door.
  Authority, masks and invalidation: exact characterisations of what is admitted. The properties of kind
  error state, as theorems about the code as it is, the paths on which it does less than its documentation
  says: a compensation that fails before the rollback, a second deletion request for one payload, a freeze that fails
  midway; further lemmas of this kind (a tampered plan at the promotion gate, a stale session of an earlier canary,
  evidence lost by a failed walk, a failed resume, a duplicated history) stand in the theories beside them.

  \<^bold>\<open>Choices and bounds.\<close>
  Loops over tasks, sessions and actions are recursions on the list the code iterates, so they are total and no fuel is
  used; the one exception is the registry's activation walk, a \<open>partial_function\<close> that may in principle not
  return and is proved to return. The recursive query of the lineage plane is bounded by the depth the code passes
  it. Python's \<^verbatim>\<open>int\<close> is \<open>int\<close> or \<open>nat\<close>, \<^verbatim>\<open>float\<close> and
  \<^verbatim>\<open>Decimal\<close> are exact rationals (rounding is not modelled). JSON text, SHA-256 and Ed25519 are the fields of
  a \<open>crypto\<close> record with named laws; the clock, random draws, generated ids and tokens are arguments.
  Caller-supplied objects (sinks, executors, gates, fleets, adapters) are functions on a state of their own
  and may raise. Locks are not modelled: a call is one step. Messages are kept as far as they tell one refusal
  from another.

  \<^bold>\<open>Not modelled, and the plan.\<close>
  The database engine and migrations (\<^verbatim>\<open>db/\<close>), the HTTP server and client (\<^verbatim>\<open>server/\<close>, \<^verbatim>\<open>api/\<close>), the operating-system
  sandbox (\<^verbatim>\<open>sandbox/\<close>) and the load and fault harness (\<^verbatim>\<open>harness/\<close>) are I/O. Next, in this order: graduation,
  Pareto archive, productivity and mutation archive of \<^verbatim>\<open>selection/\<close>; the event buffer and journal of \<^verbatim>\<open>sdk/\<close>; the
  campaign specification's validation and the scaffold compensation of \<^verbatim>\<open>campaign/\<close>; the cascade and runner of
  \<^verbatim>\<open>eval/\<close>; the memory service, plugin admission, the approval flows of \<^verbatim>\<open>api/\<close> and the tenancy audit.
\<close>

end
